(* ===== verification/Prelude.thy ===== *)
theory Prelude
  imports Complex_Main "HOL-Library.Word"
begin

text \<open>
  The vocabulary shared by every component: identifiers, instants and money, SQL tables as
  lists of rows with \<open>UPDATE ... WHERE\<close>, \<open>DELETE\<close> and keyed lookup, results as
  sums, the string functions of the Go standard library and the PostgreSQL \<open>ILIKE\<close>
  operator the sources call, and the named theorem collections the component proofs use.
\<close>

named_theorems table_simps \<open>rewrite rules for updates of SQL tables\<close>
named_theorems inv_simps \<open>definitions unfolded when an invariant is checked\<close>

section \<open>Scalars\<close>

text \<open>
  A UUID is a natural number; \<open>uuid.Nil\<close> is \<open>0\<close>. An instant is a number of
  microseconds, the resolution of \<open>timestamptz\<close>; a duration is a difference of instants.
  Money is an exact rational: \<open>float64\<close> rounding is not modelled, the rounding of
  \<open>numeric(14,4)\<close> columns is (\<open>num4\<close>).
\<close>

type_synonym uuid = nat
type_synonym time = int
type_synonym duration = int
type_synonym money = rat

abbreviation (input) uuid_Nil :: uuid where "uuid_Nil \<equiv> 0"
abbreviation (input) second :: duration where "second \<equiv> 1000000"
abbreviation (input) minute :: duration where "minute \<equiv> 60000000"
abbreviation (input) hour :: duration where "hour \<equiv> 3600000000"

text \<open>\<open>int64(d.Seconds())\<close>: truncation towards zero.\<close>

definition seconds_of :: "duration \<Rightarrow> int" where
  "seconds_of d = (if d < 0 then - ((- d) div second) else d div second)"

lemma seconds_of_nonneg: "0 \<le> d \<Longrightarrow> seconds_of d = d div second"
  by (simp add: seconds_of_def)

lemma seconds_of_bounds:
  assumes "0 \<le> d"
  shows "0 \<le> seconds_of d" and "seconds_of d * second \<le> d" and "d < (seconds_of d + 1) * second"
  using assms by (simp_all add: seconds_of_nonneg)

text \<open>Rounding to four decimals, halves away from zero, as PostgreSQL stores \<open>numeric(p,4)\<close>.\<close>

definition round_half_away :: "rat \<Rightarrow> int" where
  "round_half_away x = (if 0 \<le> x then \<lfloor>x + 1/2\<rfloor> else - \<lfloor>- x + 1/2\<rfloor>)"

definition num4 :: "rat \<Rightarrow> rat" where
  "num4 x = of_int (round_half_away (x * 10000)) / 10000"

lemma round_half_away_of_int [simp]: "round_half_away (of_int k) = k"
proof -
  have "\<lfloor>of_int k + 1/2 :: rat\<rfloor> = k" and "\<lfloor>- of_int k + 1/2 :: rat\<rfloor> = - k"
    by linarith+
  then show ?thesis by (simp add: round_half_away_def)
qed

lemma round_half_away_error: "\<bar>of_int (round_half_away x) - x\<bar> \<le> 1/2"
proof (cases "0 \<le> x")
  case True
  then have "round_half_away x = \<lfloor>x + 1/2\<rfloor>" by (simp add: round_half_away_def)
  then show ?thesis by linarith
next
  case False
  then have "round_half_away x = - \<lfloor>- x + 1/2\<rfloor>" by (simp add: round_half_away_def)
  then show ?thesis by linarith
qed

lemma round_half_away_shift_bound:
  "\<bar>round_half_away (of_int k + x) - (k + round_half_away x)\<bar> \<le> 1"
proof -
  have "\<bar>of_int (round_half_away (of_int k + x)) - (of_int k + x)\<bar> \<le> 1/2"
    and "\<bar>of_int (round_half_away x) - x\<bar> \<le> 1/2"
    by (rule round_half_away_error)+
  then show ?thesis by linarith
qed

text \<open>The values a \<open>numeric(14,4)\<close> column can hold.\<close>

definition is_num4 :: "rat \<Rightarrow> bool" where
  "is_num4 x \<longleftrightarrow> num4 x = x"

lemma is_num4_num4 [simp]: "is_num4 (num4 x)"
  by (simp add: is_num4_def num4_def)

lemma is_num4E:
  assumes "is_num4 x"
  obtains k where "x = of_int k / 10000"
  using assms unfolding is_num4_def num4_def by metis

lemma num4_zero [simp]: "num4 0 = 0"
  using round_half_away_of_int [of 0] by (simp add: num4_def)

lemma num4_error: "\<bar>num4 x - x\<bar> \<le> 1/20000"
proof -
  have "\<bar>of_int (round_half_away (x * 10000)) - x * 10000\<bar> \<le> 1/2"
    by (rule round_half_away_error)
  then show ?thesis by (simp add: num4_def abs_le_iff field_simps)
qed

lemma num4_shift_bound:
  assumes "is_num4 b"
  shows "\<bar>num4 (b + x) - (b + num4 x)\<bar> \<le> 1/10000"
proof -
  obtain k where k: "b = of_int k / 10000" using assms by (rule is_num4E)
  have "\<bar>round_half_away (of_int k + x * 10000) - (k + round_half_away (x * 10000))\<bar> \<le> 1"
    by (rule round_half_away_shift_bound)
  then have "\<bar>of_int (round_half_away (of_int k + x * 10000)) -
      (of_int k + of_int (round_half_away (x * 10000)) :: rat)\<bar> \<le> 1"
    by linarith
  moreover have "(b + x) * 10000 = of_int k + x * 10000" by (simp add: k distrib_right)
  ultimately have "\<bar>num4 (b + x) * 10000 - (b * 10000 + num4 x * 10000)\<bar> \<le> 1"
    unfolding num4_def by (simp add: k)
  then show ?thesis by linarith
qed

lemma num4_add_exact:
  assumes "is_num4 b" and "is_num4 x"
  shows "num4 (b + x) = b + x"
proof -
  obtain j k where "b = of_int j / 10000" and "x = of_int k / 10000"
    using assms by (metis is_num4E)
  then have "(b + x) * 10000 = of_int (j + k)" by (simp add: field_simps)
  then have "num4 (b + x) = of_int (j + k) / 10000"
    by (simp only: num4_def round_half_away_of_int)
  also have "\<dots> = b + x" using \<open>(b + x) * 10000 = of_int (j + k)\<close> by (simp add: field_simps)
  finally show ?thesis .
qed

lemma num4_nonneg: "0 \<le> x \<Longrightarrow> 0 \<le> num4 x"
  by (simp add: num4_def round_half_away_def)

section \<open>Tables\<close>

text \<open>
  A table is the list of its rows in insertion order. \<open>upd P f\<close> is
  \<open>UPDATE t SET f WHERE P\<close>, \<open>affected P\<close> its row count, \<open>del P\<close> is
  \<open>DELETE FROM t WHERE P\<close>.
\<close>

definition upd :: "('r \<Rightarrow> bool) \<Rightarrow> ('r \<Rightarrow> 'r) \<Rightarrow> 'r list \<Rightarrow> 'r list" where
  "upd P f t = map (\<lambda>r. if P r then f r else r) t"

definition affected :: "('r \<Rightarrow> bool) \<Rightarrow> 'r list \<Rightarrow> nat" where
  "affected P t = length (filter P t)"

definition del :: "('r \<Rightarrow> bool) \<Rightarrow> 'r list \<Rightarrow> 'r list" where
  "del P t = filter (\<lambda>r. \<not> P r) t"

lemma upd_Nil [simp]: "upd P f [] = []"
  by (simp add: upd_def)

lemma upd_Cons [simp]: "upd P f (r # t) = (if P r then f r else r) # upd P f t"
  by (simp add: upd_def)

lemma length_upd [simp]: "length (upd P f t) = length t"
  by (simp add: upd_def)

lemma set_upd [table_simps]: "set (upd P f t) = (\<lambda>r. if P r then f r else r) ` set t"
  by (simp add: upd_def)

lemma in_set_updE:
  assumes "r \<in> set (upd P f t)"
  obtains (hit) q where "q \<in> set t" and "P q" and "r = f q"
    | (miss) "r \<in> set t" and "\<not> P r"
  using assms by (auto simp: set_upd split: if_splits)

lemma in_set_updI: "q \<in> set t \<Longrightarrow> (if P q then f q else q) \<in> set (upd P f t)"
  by (simp add: set_upd)

lemma upd_id: "(\<And>r. r \<in> set t \<Longrightarrow> \<not> P r) \<Longrightarrow> upd P f t = t"
  by (simp add: upd_def map_idI)

lemma map_upd_key: "(\<And>r. k (f r) = k r) \<Longrightarrow> map k (upd P f t) = map k t"
  by (simp add: upd_def)

lemma filter_upd_same:
  "(\<And>r. r \<in> set t \<Longrightarrow> P r \<Longrightarrow> Q (f r) = Q r) \<Longrightarrow> filter Q (upd P f t) = upd P f (filter Q t)"
  by (induction t) auto

lemma filter_upd_out:
  "(\<And>r. Q (f r) = False) \<Longrightarrow> filter Q (upd P f t) = filter (\<lambda>r. Q r \<and> \<not> P r) t"
  by (induction t) auto

lemma affected_zero [table_simps]: "affected P t = 0 \<longleftrightarrow> (\<forall>r \<in> set t. \<not> P r)"
  by (auto simp: affected_def filter_empty_conv)

lemma affected_pos: "0 < affected P t \<longleftrightarrow> (\<exists>r \<in> set t. P r)"
  by (auto simp: affected_def length_greater_0_conv filter_empty_conv)

lemma set_del [table_simps]: "set (del P t) = {r \<in> set t. \<not> P r}"
  by (simp add: del_def)

lemma find_SomeD: "find P t = Some r \<Longrightarrow> r \<in> set t \<and> P r"
  by (auto simp: find_Some_iff in_set_conv_nth)

lemma find_None_set: "find P t = None \<longleftrightarrow> (\<forall>r \<in> set t. \<not> P r)"
  by (auto simp: find_None_iff)

lemma distinct_key_unique:
  "distinct (map k t) \<Longrightarrow> r \<in> set t \<Longrightarrow> q \<in> set t \<Longrightarrow> k r = k q \<Longrightarrow> r = q"
  by (auto simp: distinct_map inj_on_def)

lemma find_key_Some:
  assumes "distinct (map k t)" and "r \<in> set t"
  shows "find (\<lambda>q. k q = k r) t = Some r"
proof -
  obtain q where q: "find (\<lambda>q. k q = k r) t = Some q"
    using assms(2) by (cases "find (\<lambda>q. k q = k r) t") (auto simp: find_None_set)
  then have "q \<in> set t" and "k q = k r" by (auto dest: find_SomeD)
  then have "q = r" using distinct_key_unique [OF assms(1) _ assms(2)] by simp
  then show ?thesis using q by simp
qed

lemma affected_key_le_1:
  "distinct (map k t) \<Longrightarrow> affected (\<lambda>r. k r = x \<and> P r) t \<le> 1"
proof (induction t)
  case Nil
  then show ?case by (simp add: affected_def)
next
  case (Cons r t)
  have "filter (\<lambda>r. k r = x \<and> P r) t = []" if "k r = x"
    using Cons.prems that by (auto simp: filter_empty_conv image_iff)
  with Cons show ?case by (auto simp: affected_def)
qed

lemma distinct_map_filter_upd_key:
  "distinct (map k (filter Q t)) \<Longrightarrow> distinct (map k (filter (\<lambda>r. Q r \<and> R r) t))"
  by (induction t) (auto split: if_splits)

text \<open>The rows of a table in the order in which a loop first meets their keys.\<close>

fun first_seen :: "'a list \<Rightarrow> 'a list" where
  "first_seen [] = []"
| "first_seen (x # xs) = x # filter (\<lambda>y. y \<noteq> x) (first_seen xs)"

lemma set_first_seen [simp]: "set (first_seen xs) = set xs"
  by (induction xs) auto

lemma distinct_first_seen [simp]: "distinct (first_seen xs)"
  by (induction xs) auto

section \<open>Results\<close>

text \<open>Sequencing of fallible computations: \<open>if err != nil { return err }\<close>.\<close>

definition bindE :: "'e + 'a \<Rightarrow> ('a \<Rightarrow> 'e + 'b) \<Rightarrow> 'e + 'b" where
  "bindE m f = (case m of Inl e \<Rightarrow> Inl e | Inr a \<Rightarrow> f a)"

lemma bindE_simps [simp]: "bindE (Inl e) f = Inl e" "bindE (Inr a) f = f a"
  by (simp_all add: bindE_def)

lemma bindE_Inr_iff: "bindE m f = Inr b \<longleftrightarrow> (\<exists>a. m = Inr a \<and> f a = Inr b)"
  by (cases m) auto

lemma bindE_Inl_iff: "bindE m f = Inl e \<longleftrightarrow> m = Inl e \<or> (\<exists>a. m = Inr a \<and> f a = Inl e)"
  by (cases m) auto

text \<open>A loop over a slice that returns at the first error.\<close>

fun foldE :: "('x \<Rightarrow> 's \<Rightarrow> 'e + 's) \<Rightarrow> 'x list \<Rightarrow> 's \<Rightarrow> 'e + 's" where
  "foldE f [] s = Inr s"
| "foldE f (x # xs) s = bindE (f x s) (foldE f xs)"

lemma foldE_invariant:
  assumes "foldE f xs s = Inr s'" and "I s"
    and "\<And>x s s'. x \<in> set xs \<Longrightarrow> I s \<Longrightarrow> f x s = Inr s' \<Longrightarrow> I s'"
  shows "I s'"
  using assms by (induction xs arbitrary: s) (auto simp: bindE_Inr_iff)

section \<open>Strings\<close>

text \<open>
  A Go string is its UTF-8 bytes. \<open>strings.TrimSpace\<close> removes the white space code points,
  whose encodings are listed, from both ends.
\<close>

definition space_seqs :: "string list" where
  "space_seqs =
    [[CHR 0x09], [CHR 0x0A], [CHR 0x0B], [CHR 0x0C], [CHR 0x0D], [CHR 0x20],
     [CHR 0xC2, CHR 0x85], [CHR 0xC2, CHR 0xA0], [CHR 0xE1, CHR 0x9A, CHR 0x80],
     [CHR 0xE2, CHR 0x80, CHR 0x80], [CHR 0xE2, CHR 0x80, CHR 0x81], [CHR 0xE2, CHR 0x80, CHR 0x82],
     [CHR 0xE2, CHR 0x80, CHR 0x83], [CHR 0xE2, CHR 0x80, CHR 0x84], [CHR 0xE2, CHR 0x80, CHR 0x85],
     [CHR 0xE2, CHR 0x80, CHR 0x86], [CHR 0xE2, CHR 0x80, CHR 0x87], [CHR 0xE2, CHR 0x80, CHR 0x88],
     [CHR 0xE2, CHR 0x80, CHR 0x89], [CHR 0xE2, CHR 0x80, CHR 0x8A], [CHR 0xE2, CHR 0x80, CHR 0xA8],
     [CHR 0xE2, CHR 0x80, CHR 0xA9], [CHR 0xE2, CHR 0x80, CHR 0xAF], [CHR 0xE2, CHR 0x81, CHR 0x9F],
     [CHR 0xE3, CHR 0x80, CHR 0x80]]"

definition has_prefix :: "string \<Rightarrow> string \<Rightarrow> bool" where
  "has_prefix p s \<longleftrightarrow> take (length p) s = p"

lemma has_prefix_length: "has_prefix p s \<Longrightarrow> length p \<le> length s"
  unfolding has_prefix_def by (metis length_take min.cobounded1)

function strip :: "string list \<Rightarrow> string \<Rightarrow> string" where
  "strip ps s =
     (case find (\<lambda>p. p \<noteq> [] \<and> has_prefix p s) ps of
        None \<Rightarrow> s
      | Some p \<Rightarrow> strip ps (drop (length p) s))"
  by pat_completeness auto
termination
proof (relation "measure (\<lambda>(ps, s). length s)")
  fix ps s p
  assume "find (\<lambda>p. p \<noteq> [] \<and> has_prefix p s) ps = Some p"
  then have "p \<noteq> []" and "has_prefix p s" by (auto dest: find_SomeD)
  then show "((ps, drop (length p) s), (ps, s)) \<in> measure (\<lambda>(ps, s). length s)"
    using has_prefix_length [of p s] by (cases p) auto
qed simp

declare strip.simps [simp del]

definition TrimSpace :: "string \<Rightarrow> string" where
  "TrimSpace s = rev (strip (map rev space_seqs) (rev (strip space_seqs s)))"

lemma strip_done: "p \<in> set ps \<Longrightarrow> p \<noteq> [] \<Longrightarrow> \<not> has_prefix p (strip ps s)"
proof (induction ps s rule: strip.induct)
  case (1 ps s)
  show ?case
  proof (cases "find (\<lambda>p. p \<noteq> [] \<and> has_prefix p s) ps")
    case None
    then have "strip ps s = s" by (subst strip.simps) simp
    then show ?thesis using "1.prems" None by (auto simp: find_None_set)
  next
    case (Some q)
    then have "\<not> has_prefix p (strip ps (drop (length q) s))" by (rule "1.IH") (use "1.prems" in auto)
    then show ?thesis using Some by (subst strip.simps) simp
  qed
qed

lemma strip_suffix: "\<exists>t. s = t @ strip ps s"
proof (induction ps s rule: strip.induct)
  case (1 ps s)
  show ?case
  proof (cases "find (\<lambda>p. p \<noteq> [] \<and> has_prefix p s) ps")
    case None
    then show ?thesis by (subst strip.simps) simp
  next
    case (Some q)
    then obtain t where "drop (length q) s = t @ strip ps (drop (length q) s)" using "1.IH" by blast
    then have "s = (take (length q) s @ t) @ strip ps (drop (length q) s)"
      by (metis append.assoc append_take_drop_id)
    moreover have "strip ps s = strip ps (drop (length q) s)" using Some by (subst strip.simps) simp
    ultimately show ?thesis by metis
  qed
qed

lemma length_TrimSpace: "length (TrimSpace s) \<le> length s"
proof -
  have "length (strip ps u) \<le> length u" for ps u
    using strip_suffix [of u ps] by (metis le_add2 length_append)
  from this [of "map rev space_seqs" "rev (strip space_seqs s)"] this [of space_seqs s]
  show ?thesis by (simp add: TrimSpace_def)
qed

text \<open>ASCII lower case, for \<open>ILIKE\<close> and case-insensitive comparison.\<close>

definition lower_char :: "char \<Rightarrow> char" where
  "lower_char c = (if 65 \<le> (of_char c :: nat) \<and> of_char c \<le> (90::nat) then char_of (of_char c + 32 :: nat) else c)"

definition lower :: "string \<Rightarrow> string" where
  "lower = map lower_char"

text \<open>The SQL \<open>LIKE\<close> matcher: \<open>%\<close>, \<open>_\<close> and the backslash escape.\<close>

function like :: "string \<Rightarrow> string \<Rightarrow> bool" where
  "like [] s \<longleftrightarrow> s = []"
| "like (c # p) s \<longleftrightarrow>
     (if c = CHR ''%'' then like p s \<or> (case s of [] \<Rightarrow> False | x # s' \<Rightarrow> like (c # p) s')
      else if c = CHR ''_'' then (case s of [] \<Rightarrow> False | x # s' \<Rightarrow> like p s')
      else if c = CHR 0x5C then
        (case p of [] \<Rightarrow> False
         | e # p' \<Rightarrow> (case s of [] \<Rightarrow> False | x # s' \<Rightarrow> x = e \<and> like p' s'))
      else (case s of [] \<Rightarrow> False | x # s' \<Rightarrow> x = c \<and> like p s'))"
  by pat_completeness auto
termination by (relation "measure (\<lambda>(p, s). length p + length s)") auto

definition ilike :: "string \<Rightarrow> string \<Rightarrow> bool" where
  "ilike s p \<longleftrightarrow> like (lower p) (lower s)"

end
