(* ===== verification/Json.thy ===== *)
theory Json
  imports Prelude
begin

text \<open>
  JSON values and their decoding into Go structs (\<open>encoding/json\<close>), as the handlers use it:
  \<open>json.NewDecoder(r.Body).Decode(&body)\<close> with \<open>body\<close> a struct of tagged fields. Also
  the text of a UUID, and the decimal text of integers (\<open>strconv.Itoa\<close>, \<open>strconv.Atoi\<close>).
\<close>

section \<open>Values\<close>

text \<open>
  A number keeps whether its literal is an integer: a Go \<open>int\<close> field takes no other literal. The
  members of an object are in the order of the text; for a Go map, whose members are encoded in the
  order of their keys, they are in the order of the source.
\<close>

datatype json =
    JNull
  | JBool bool
  | JInt int
  | JNum rat
  | JStr string
  | JArr "json list"
  | JObj "(string \<times> json) list"

definition jopt :: "('a \<Rightarrow> json) \<Rightarrow> 'a option \<Rightarrow> json" where
  "jopt f v = (case v of None \<Rightarrow> JNull | Some x \<Rightarrow> f x)"

text \<open>A member that a struct tag \<open>omitempty\<close> or an \<open>if\<close> of the source leaves out.\<close>

definition jwhen :: "bool \<Rightarrow> string \<Rightarrow> json \<Rightarrow> (string \<times> json) list" where
  "jwhen c k v = (if c then [(k, v)] else [])"

definition jsome :: "string \<Rightarrow> ('a \<Rightarrow> json) \<Rightarrow> 'a option \<Rightarrow> (string \<times> json) list" where
  "jsome k f v = (case v of None \<Rightarrow> [] | Some x \<Rightarrow> [(k, f x)])"

fun jkeys :: "json \<Rightarrow> string set" where
  "jkeys (JObj ms) = fst ` set ms"
| "jkeys _ = {}"

definition jget :: "string \<Rightarrow> json \<Rightarrow> json option" where
  "jget k v = (case v of JObj ms \<Rightarrow> map_of ms k | _ \<Rightarrow> None)"

section \<open>Decoding a struct\<close>

text \<open>
  Member names match field names up to case: \<open>foldName\<close> maps a rune to the least rune of its
  folding class, and two runes outside ASCII fold to letters, the Kelvin sign and the long s.
\<close>

fun fold_name :: "string \<Rightarrow> string" where
  "fold_name [] = []"
| "fold_name (c # s) =
     (if take 3 (c # s) = [CHR 0xE2, CHR 0x84, CHR 0xAA] then CHR ''k'' # fold_name (drop 2 s)
      else if take 2 (c # s) = [CHR 0xC5, CHR 0xBF] then CHR ''s'' # fold_name (drop 1 s)
      else lower_char c # fold_name s)"

definition members :: "string \<Rightarrow> json \<Rightarrow> json list" where
  "members k v = (case v of JObj ms \<Rightarrow> map snd (filter (\<lambda>m. fold_name (fst m) = fold_name k) ms) | _ \<Rightarrow> [])"

text \<open>
  A scalar is decoded from a literal of its type; \<open>null\<close> leaves it as it is, any other value is an
  error that does not stop the decoder. A number out of the range of \<open>int64\<close> or
  \<open>float64\<close> is such an error.
\<close>

definition int64_range :: "int \<Rightarrow> bool" where
  "int64_range n \<longleftrightarrow> - (2 ^ 63) \<le> n \<and> n < 2 ^ 63"

definition float64_range :: "rat \<Rightarrow> bool" where
  "float64_range r \<longleftrightarrow> \<bar>r\<bar> < 2 ^ 1024 - 2 ^ 970"

fun as_string :: "json \<Rightarrow> string option" where
  "as_string (JStr s) = Some s"
| "as_string _ = None"

fun as_int :: "json \<Rightarrow> int option" where
  "as_int (JInt n) = (if int64_range n then Some n else None)"
| "as_int _ = None"

fun as_float :: "json \<Rightarrow> rat option" where
  "as_float (JInt n) = (if float64_range (of_int n) then Some (of_int n) else None)"
| "as_float (JNum r) = (if float64_range r then Some r else None)"
| "as_float _ = None"

fun as_bool :: "json \<Rightarrow> bool option" where
  "as_bool (JBool b) = Some b"
| "as_bool _ = None"

fun as_strings :: "json \<Rightarrow> string list option" where
  "as_strings (JArr xs) =
     (if list_all (\<lambda>x. x = JNull \<or> as_string x \<noteq> None) xs
      then Some (map (\<lambda>x. case as_string x of None \<Rightarrow> '''' | Some s \<Rightarrow> s) xs) else None)"
| "as_strings _ = None"

definition plain_fold :: "(json \<Rightarrow> 'a option) \<Rightarrow> json list \<Rightarrow> 'a \<Rightarrow> 'a" where
  "plain_fold conv vs zero = fold (\<lambda>v x. case conv v of None \<Rightarrow> x | Some y \<Rightarrow> y) vs zero"

text \<open>A pointer: \<open>null\<close> clears it, any other value allocates it first.\<close>

definition ptr_fold :: "(json \<Rightarrow> 'a option) \<Rightarrow> 'a \<Rightarrow> json list \<Rightarrow> 'a option" where
  "ptr_fold conv zero vs = fold (\<lambda>v x. if v = JNull then None
     else Some (case conv v of Some y \<Rightarrow> y | None \<Rightarrow> (case x of None \<Rightarrow> zero | Some y \<Rightarrow> y))) vs None"

text \<open>The elements of a \<open>[]domain.TemplateSoftware\<close>.\<close>

definition software_ok :: "json \<Rightarrow> bool" where
  "software_ok v \<longleftrightarrow> v = JNull \<or> (\<exists>ms. v = JObj ms) \<and>
     list_all (\<lambda>x. x = JNull \<or> as_string x \<noteq> None) (members ''name'' v @ members ''version'' v)"

fun as_software :: "json \<Rightarrow> (string \<times> string) list option" where
  "as_software (JArr xs) =
     (if list_all software_ok xs
      then Some (map (\<lambda>x. (plain_fold as_string (members ''name'' x) '''', plain_fold as_string (members ''version'' x) '''')) xs)
      else None)"
| "as_software _ = None"

text \<open>
  \<open>Decode\<close> of a request body. The body is the first JSON value of the request, \<open>None\<close> when
  there is none or it is not well formed; then the struct keeps its zero values. \<open>decode_ok\<close> is
  \<open>err == nil\<close> for a struct with these fields.
\<close>

datatype ftype = TString | TInt | TFloat | TBool | TStrings | TSoftware

fun fits :: "ftype \<Rightarrow> json \<Rightarrow> bool" where
  "fits TString v \<longleftrightarrow> v = JNull \<or> as_string v \<noteq> None"
| "fits TInt v \<longleftrightarrow> v = JNull \<or> as_int v \<noteq> None"
| "fits TFloat v \<longleftrightarrow> v = JNull \<or> as_float v \<noteq> None"
| "fits TBool v \<longleftrightarrow> v = JNull \<or> as_bool v \<noteq> None"
| "fits TStrings v \<longleftrightarrow> v = JNull \<or> as_strings v \<noteq> None"
| "fits TSoftware v \<longleftrightarrow> v = JNull \<or> as_software v \<noteq> None"

definition decode_ok :: "(string \<times> ftype) list \<Rightarrow> json option \<Rightarrow> bool" where
  "decode_ok fs b = (case b of
       Some (JObj ms) \<Rightarrow> list_all (\<lambda>(k, t). list_all (fits t) (members k (JObj ms))) fs
     | Some JNull \<Rightarrow> True
     | _ \<Rightarrow> False)"

definition fields :: "string \<Rightarrow> json option \<Rightarrow> json list" where
  "fields k b = (case b of None \<Rightarrow> [] | Some v \<Rightarrow> members k v)"

definition str_field :: "string \<Rightarrow> json option \<Rightarrow> string" where
  "str_field k b = plain_fold as_string (fields k b) ''''"

definition int_field :: "string \<Rightarrow> json option \<Rightarrow> int" where
  "int_field k b = plain_fold as_int (fields k b) 0"

definition float_field :: "string \<Rightarrow> json option \<Rightarrow> rat" where
  "float_field k b = plain_fold as_float (fields k b) 0"

definition bool_field :: "string \<Rightarrow> json option \<Rightarrow> bool" where
  "bool_field k b = plain_fold as_bool (fields k b) False"

text \<open>A slice: \<open>null\<close> clears it.\<close>

definition slice_fold :: "(json \<Rightarrow> 'a list option) \<Rightarrow> json list \<Rightarrow> 'a list" where
  "slice_fold conv vs = fold (\<lambda>v x. if v = JNull then [] else case conv v of None \<Rightarrow> x | Some y \<Rightarrow> y) vs []"

definition strings_field :: "string \<Rightarrow> json option \<Rightarrow> string list" where
  "strings_field k b = slice_fold as_strings (fields k b)"

definition software_field :: "string \<Rightarrow> json option \<Rightarrow> (string \<times> string) list" where
  "software_field k b = slice_fold as_software (fields k b)"

definition str_ptr :: "string \<Rightarrow> json option \<Rightarrow> string option" where
  "str_ptr k b = ptr_fold as_string '''' (fields k b)"

definition int_ptr :: "string \<Rightarrow> json option \<Rightarrow> int option" where
  "int_ptr k b = ptr_fold as_int 0 (fields k b)"

definition bool_ptr :: "string \<Rightarrow> json option \<Rightarrow> bool option" where
  "bool_ptr k b = ptr_fold as_bool False (fields k b)"

text \<open>An int field is an \<open>int64\<close>, whatever the body.\<close>

lemma plain_fold_inv:
  assumes "Q zero" and "\<And>v y. conv v = Some y \<Longrightarrow> Q y"
  shows "Q (plain_fold conv vs zero)"
proof -
  have "Q (fold (\<lambda>v x. case conv v of None \<Rightarrow> x | Some y \<Rightarrow> y) vs x)" if "Q x" for x
    using that by (induction vs arbitrary: x) (auto split: option.split intro: assms(2))
  then show ?thesis using assms(1) by (simp add: plain_fold_def)
qed

lemma int_field_range: "int64_range (int_field k b)"
  unfolding int_field_def
proof (rule plain_fold_inv)
  show "int64_range y" if "as_int v = Some y" for v y using that by (cases v) (auto split: if_splits)
qed (simp add: int64_range_def)

section \<open>Text of numbers and identifiers\<close>

definition hex_digit :: "nat \<Rightarrow> char" where
  "hex_digit n = ''0123456789abcdef'' ! (n mod 16)"

fun hex_digits :: "nat \<Rightarrow> nat \<Rightarrow> string" where
  "hex_digits 0 v = []"
| "hex_digits (Suc k) v = hex_digits k (v div 16) @ [hex_digit v]"

text \<open>\<open>strings.ReplaceAll(id.String(), "-", "")\<close>: the 32 hexadecimal digits of a UUID.\<close>

definition uuid_hex :: "uuid \<Rightarrow> string" where
  "uuid_hex i = hex_digits 32 i"

text \<open>\<open>id.String()\<close>.\<close>

definition uuid_str :: "uuid \<Rightarrow> string" where
  "uuid_str i = (let h = uuid_hex i in take 8 h @ ''-'' @ take 4 (drop 8 h) @ ''-'' @ take 4 (drop 12 h) @ ''-'' @
     take 4 (drop 16 h) @ ''-'' @ drop 20 h)"

definition digit_char :: "int \<Rightarrow> char" where
  "digit_char n = ''0123456789'' ! nat n"

definition digit_val :: "char \<Rightarrow> int option" where
  "digit_val c = map_of (zip ''0123456789'' [0, 1, 2, 3, 4, 5, 6, 7, 8, 9]) c"

text \<open>The decimal digits of a number that is not negative, \<open>strconv.Itoa\<close>, and the value of digits.\<close>

function dec_str :: "int \<Rightarrow> string" where
  "dec_str n = (if n < 10 then [digit_char n] else dec_str (n div 10) @ [digit_char (n mod 10)])"
  by pat_completeness auto
termination by (relation "measure nat") (auto simp: pos_imp_zdiv_pos_iff zdiv_int)

declare dec_str.simps [simp del]

definition Itoa :: "int \<Rightarrow> string" where
  "Itoa n = (if n < 0 then ''-'' @ dec_str (- n) else dec_str n)"

fun digits_val :: "int \<Rightarrow> string \<Rightarrow> int option" where
  "digits_val acc [] = Some acc"
| "digits_val acc (c # s) = (case digit_val c of None \<Rightarrow> None | Some d \<Rightarrow> digits_val (10 * acc + d) s)"

text \<open>\<open>strconv.Atoi\<close>: an optional sign, at least one digit, the value in range.\<close>

definition Atoi :: "string \<Rightarrow> int option" where
  "Atoi s =
     (let sgn = (case s of [] \<Rightarrow> '''' | c # _ \<Rightarrow> if c = CHR ''-'' \<or> c = CHR ''+'' then [c] else '''');
          ds = drop (length sgn) s
      in if ds = '''' then None
         else case digits_val 0 ds of
                None \<Rightarrow> None
              | Some n \<Rightarrow> (let v = (if sgn = ''-'' then - n else n) in if int64_range v then Some v else None))"

lemma digit_val_char: "0 \<le> n \<Longrightarrow> n < 10 \<Longrightarrow> digit_val (digit_char n) = Some n"
proof -
  assume "0 \<le> n" "n < 10"
  then have "n \<in> set [0..9]" by simp
  then have "n = 0 \<or> n = 1 \<or> n = 2 \<or> n = 3 \<or> n = 4 \<or> n = 5 \<or> n = 6 \<or> n = 7 \<or> n = 8 \<or> n = 9"
    by (simp add: upto_rec1)
  then show ?thesis by (elim disjE) (simp_all add: digit_val_def digit_char_def)
qed

lemma digits_val_append: "digits_val a (s @ t) = (case digits_val a s of None \<Rightarrow> None | Some b \<Rightarrow> digits_val b t)"
  by (induction a s rule: digits_val.induct) (auto split: option.splits)

lemma digits_val_dec_str: "0 \<le> n \<Longrightarrow> digits_val 0 (dec_str n) = Some n"
proof (induction n rule: dec_str.induct)
  case (1 n)
  show ?case
  proof (cases "n < 10")
    case True
    then show ?thesis using 1 by (simp add: dec_str.simps [of n] digit_val_char)
  next
    case False
    then show ?thesis using 1 by (simp add: dec_str.simps [of n] digits_val_append digit_val_char)
  qed
qed

lemma dec_str_nonempty [simp]: "dec_str n \<noteq> []"
  by (subst dec_str.simps) simp

lemma dec_str_first:
  assumes "0 \<le> n" "dec_str n = c # s"
  shows "c \<noteq> CHR ''-'' \<and> c \<noteq> CHR ''+''"
proof -
  have "digit_val c \<noteq> None" using digits_val_dec_str [OF assms(1)] by (auto simp: assms(2) split: option.splits)
  then show ?thesis by (auto simp: digit_val_def)
qed

text \<open>Printing an \<open>int64\<close> and reading it back.\<close>

theorem Atoi_Itoa: "int64_range n \<Longrightarrow> Atoi (Itoa n) = Some n"
proof (cases "n < 0")
  case True
  assume "int64_range n"
  then show ?thesis using True by (simp add: Atoi_def Itoa_def digits_val_dec_str)
next
  case False
  assume r: "int64_range n"
  obtain c s where cs: "dec_str n = c # s" by (cases "dec_str n") auto
  then have "Atoi (Itoa n) = (case digits_val 0 (dec_str n) of None \<Rightarrow> None
      | Some v \<Rightarrow> if int64_range v then Some v else None)"
    using dec_str_first [OF _ cs] False by (simp add: Atoi_def Itoa_def Let_def del: digits_val.simps cong: option.case_cong)
  then show ?thesis using False r by (simp add: digits_val_dec_str)
qed

section \<open>Durations of a number of days\<close>

text \<open>
  \<open>time.Duration(days) * 24 * time.Hour\<close>: a duration is an \<open>int64\<close> of nanoseconds and the
  product wraps around. The result is in microseconds, rounded down where the product wraps.
\<close>

definition wrap64 :: "int \<Rightarrow> int" where
  "wrap64 n = sint (word_of_int n :: 64 word)"

definition days_duration :: "int \<Rightarrow> duration" where
  "days_duration n = wrap64 (n * 24 * 3600000000000) div 1000"

lemma wrap64_id: "int64_range n \<Longrightarrow> wrap64 n = n"
  by (simp add: wrap64_def int64_range_def sint_sbintrunc' signed_take_bit_int_eq_self)

text \<open>Up to 106751 days (292 years) the product is exact.\<close>

lemma days_duration_exact: "\<bar>n\<bar> \<le> 106751 \<Longrightarrow> days_duration n = n * (24 * hour)"
  unfolding days_duration_def by (subst wrap64_id) (auto simp: int64_range_def)

end
