(* ===== verification/Domain.thy ===== *)
theory Domain
  imports Json
begin

text \<open>
  The entities of \<open>internal/domain/domain.go\<close>: enumerations as datatypes, structs as
  records whose fields carry the Go field names behind a prefix of their struct, the role
  hierarchy, and the sentinel errors of the modules as one datatype. A nullable column or
  pointer is an option; a nullable text column that is only read through
  \<open>coalesce(x,'')\<close> is a string. Hashes of secrets are the columns that hold them; fields a
  query computes (\<open>Status\<close> of a token, \<open>Email\<close> of a member) are computed by the
  definitions that need them, and surrogate ids and stamps that no modelled code reads are left out.
  A user row also has the column \<open>google_sub\<close>, which the struct does not.
\<close>

section \<open>Enumerations\<close>

datatype Role = RoleOwner | RoleAdmin | RoleMember | RoleUser | RoleOther string

datatype NodeStatus = NodeOnline | NodeOffline | NodeDegraded

datatype GPUStatus = GPUHealthy | GPUUnhealthy | GPUInUse | GPUIdle

datatype WorkloadState =
    WorkloadQueued | WorkloadPending | WorkloadRunning | WorkloadStopping
  | WorkloadStopped | WorkloadFailed

datatype StopReason = StopUser | StopIdleReclaim | StopAdmin | StopFailure

datatype UsageSource = SourceWorkload | SourceIdle

text \<open>\<open>Role.Rank\<close>, \<open>Role.AtLeast\<close> and \<open>Role.Normalize\<close>.\<close>

fun Rank :: "Role \<Rightarrow> int" where
  "Rank RoleOwner = 3"
| "Rank RoleAdmin = 2"
| "Rank RoleMember = 1"
| "Rank RoleUser = 1"
| "Rank (RoleOther s) = 0"

definition AtLeast :: "Role \<Rightarrow> Role \<Rightarrow> bool" where
  "AtLeast r m \<longleftrightarrow> Rank m \<le> Rank r"

definition Normalize :: "Role \<Rightarrow> Role" where
  "Normalize r = (if r = RoleUser then RoleMember else r)"

lemma Normalize_idem [simp]: "Normalize (Normalize r) = Normalize r"
  by (simp add: Normalize_def)

lemma Rank_Normalize [simp]: "Rank (Normalize r) = Rank r"
  by (cases r) (simp_all add: Normalize_def)

lemma Normalize_eq_owner [simp]: "Normalize r = RoleOwner \<longleftrightarrow> r = RoleOwner"
  by (simp add: Normalize_def)

text \<open>A total preorder: the contract of a privilege check.\<close>

locale privilege_order =
  fixes at_least :: "'r \<Rightarrow> 'r \<Rightarrow> bool" and top :: 'r
  assumes at_least_refl: "at_least r r"
    and at_least_trans: "at_least a b \<Longrightarrow> at_least b c \<Longrightarrow> at_least a c"
    and at_least_total: "at_least a b \<or> at_least b a"
    and at_least_top: "at_least top r"
begin

lemma not_at_least_strict: "\<not> at_least a b \<Longrightarrow> at_least b a \<and> \<not> at_least a b"
  using at_least_total by blast

lemma at_least_above: "at_least a b \<Longrightarrow> \<not> at_least c b \<Longrightarrow> \<not> at_least c a"
  using at_least_trans by blast

end

interpretation role_order: privilege_order AtLeast RoleOwner
proof
  fix r show "AtLeast RoleOwner r" by (cases r) (simp_all add: AtLeast_def)
qed (auto simp: AtLeast_def)

section \<open>Workload states\<close>

text \<open>The lifecycle order, in the order of the constants of \<open>domain.go\<close>.\<close>

primrec lifecycle_pos :: "WorkloadState \<Rightarrow> nat" where
  "lifecycle_pos WorkloadQueued = 0"
| "lifecycle_pos WorkloadPending = 1"
| "lifecycle_pos WorkloadRunning = 2"
| "lifecycle_pos WorkloadStopping = 3"
| "lifecycle_pos WorkloadStopped = 4"
| "lifecycle_pos WorkloadFailed = 5"

lemma lifecycle_pos_inj: "lifecycle_pos a = lifecycle_pos b \<Longrightarrow> a = b"
  by (cases a; cases b) simp_all

instantiation WorkloadState :: linorder
begin

definition less_eq_WorkloadState :: "WorkloadState \<Rightarrow> WorkloadState \<Rightarrow> bool" where
  "less_eq_WorkloadState a b \<longleftrightarrow> lifecycle_pos a \<le> lifecycle_pos b"

definition less_WorkloadState :: "WorkloadState \<Rightarrow> WorkloadState \<Rightarrow> bool" where
  "less_WorkloadState a b \<longleftrightarrow> lifecycle_pos a < lifecycle_pos b"

instance
  by standard (auto simp: less_eq_WorkloadState_def less_WorkloadState_def intro: lifecycle_pos_inj)

end

text \<open>\<open>status IN ('pending','running','stopping')\<close> and \<open>status IN ('stopped','failed')\<close>.\<close>

definition live_state :: "WorkloadState \<Rightarrow> bool" where
  "live_state s \<longleftrightarrow> s = WorkloadPending \<or> s = WorkloadRunning \<or> s = WorkloadStopping"

definition terminal_state :: "WorkloadState \<Rightarrow> bool" where
  "terminal_state s \<longleftrightarrow> s = WorkloadStopped \<or> s = WorkloadFailed"

lemma live_state_simps [simp]:
  "live_state WorkloadPending" "live_state WorkloadRunning" "live_state WorkloadStopping"
  "\<not> live_state WorkloadQueued" "\<not> live_state WorkloadStopped" "\<not> live_state WorkloadFailed"
  by (simp_all add: live_state_def)

lemma terminal_state_simps [simp]:
  "terminal_state WorkloadStopped" "terminal_state WorkloadFailed"
  "\<not> terminal_state WorkloadQueued" "\<not> terminal_state WorkloadPending"
  "\<not> terminal_state WorkloadRunning" "\<not> terminal_state WorkloadStopping"
  by (simp_all add: terminal_state_def)

lemma terminal_state_iff: "terminal_state s \<longleftrightarrow> WorkloadStopping < s"
  by (cases s) (simp_all add: less_WorkloadState_def)

lemma live_not_terminal: "live_state s \<Longrightarrow> \<not> terminal_state s"
  by (cases s) simp_all

section \<open>Errors\<close>

datatype err =
    ErrDB
  | ErrConstraint string
  | ErrNoRows
  | ErrText string
  | ErrProjectForbidden | ErrUserExists
  | ErrNotFound
  | ErrNoGPUsAvailable
  | ErrNotQueued
  | ErrInvalidRequest string
  | ErrClaimRaced nat nat
  | ErrInsufficientCredit
  | ErrBudgetExceeded string
  | ErrAmount
  | ErrInvalidToken | ErrTokenExpired | ErrTokenExhausted | ErrFingerprintConflict | ErrNodeBusy
  | ErrAlreadyMember | ErrInvitationInvalid | ErrJoinCodeInvalid | ErrForbidden | ErrLastOwner
  | ErrInvalidRole | ErrInvalidCredentials | ErrSessionInvalid
  | ErrAPIKeyInvalid | ErrServiceAccountExists | ErrAuthTokenInvalid | ErrAlreadyVerified
  | ErrOverbooked | ErrReservationParams

section \<open>Entities\<close>

record OrgSettings =
  os_IdleThresholdPct :: "money option"
  os_IdleDurationMin :: "int option"
  os_Currency :: "string option"
  os_DefaultRate :: "money option"

record Organization =
  o_ID :: uuid
  o_Name :: string
  o_Slug :: string
  o_Settings :: OrgSettings
  o_CreatedAt :: time

record User =
  u_ID :: uuid
  u_OrgID :: "uuid option"
  u_DepartmentID :: "uuid option"
  u_Email :: string
  u_PasswordHash :: string
  u_Name :: string
  u_Role :: Role
  u_Status :: string
  u_AvatarURL :: string
  u_EmailVerified :: bool
  u_AuthProvider :: string
  u_LastLoginAt :: "time option"
  u_CreatedAt :: time
  u_IsServiceAccount :: bool
  u_GoogleSub :: "string option"

text \<open>\<open>User.Onboarded\<close> and \<open>User.ActorType\<close>.\<close>

definition Onboarded :: "User \<Rightarrow> bool" where
  "Onboarded u \<longleftrightarrow> u_OrgID u \<noteq> None"

definition ActorType :: "User \<Rightarrow> string" where
  "ActorType u = (if u_IsServiceAccount u then ''service_account'' else ''user'')"

record EnrollmentToken =
  et_ID :: uuid
  et_OrgID :: uuid
  et_TokenHash :: string
  et_Description :: string
  et_CreatedBy :: "uuid option"
  et_MaxUses :: int
  et_Uses :: int
  et_ExpiresAt :: time
  et_LastUsedAt :: "time option"
  et_RevokedAt :: "time option"
  et_CreatedAt :: time

record Session =
  ss_ID :: uuid
  ss_UserID :: uuid
  ss_RefreshTokenHash :: string
  ss_DeviceName :: string
  ss_Browser :: string
  ss_OS :: string
  ss_IPAddress :: string
  ss_UserAgent :: string
  ss_CreatedAt :: time
  ss_LastActiveAt :: time
  ss_ExpiresAt :: time
  ss_RevokedAt :: "time option"

record Member =
  m_ID :: uuid
  m_OrgID :: uuid
  m_UserID :: uuid
  m_Role :: Role
  m_InvitedBy :: "uuid option"
  m_CreatedAt :: time

record Invitation =
  iv_ID :: uuid
  iv_OrgID :: uuid
  iv_Email :: string
  iv_Role :: Role
  iv_TokenHash :: string
  iv_InvitedBy :: "uuid option"
  iv_CreatedAt :: time
  iv_ExpiresAt :: time
  iv_AcceptedAt :: "time option"
  iv_RevokedAt :: "time option"
  iv_DeliveryStatus :: string
  iv_DeliveryError :: string
  iv_DeliveredAt :: "time option"

record JoinCode =
  jc_ID :: uuid
  jc_OrgID :: uuid
  jc_CodeHash :: string
  jc_Description :: string
  jc_CreatedBy :: "uuid option"
  jc_MaxUses :: int
  jc_Uses :: int
  jc_ExpiresAt :: time
  jc_RevokedAt :: "time option"
  jc_CreatedAt :: time

record ServiceAccount =
  sac_ID :: uuid
  sac_OrgID :: uuid
  sac_Name :: string
  sac_Description :: string
  sac_Role :: Role
  sac_CreatedBy :: "uuid option"
  sac_CreatedAt :: time
  sac_DisabledAt :: "time option"

record APIKey =
  ak_ID :: uuid
  ak_OrgID :: uuid
  ak_Name :: string
  ak_Prefix :: string
  ak_KeyHash :: string
  ak_UserID :: "uuid option"
  ak_ServiceAccountID :: "uuid option"
  ak_CreatedBy :: "uuid option"
  ak_CreatedAt :: time
  ak_ExpiresAt :: "time option"
  ak_LastUsedAt :: "time option"
  ak_RevokedAt :: "time option"

record Project =
  pj_ID :: uuid
  pj_OrgID :: uuid
  pj_Name :: string
  pj_Description :: string
  pj_Visibility :: string
  pj_CreatedBy :: "uuid option"
  pj_ArchivedAt :: "time option"
  pj_CreatedAt :: time

record ProjectMember =
  pm_ProjectID :: uuid
  pm_UserID :: uuid
  pm_AddedBy :: "uuid option"
  pm_CreatedAt :: time

record Department =
  dp_ID :: uuid
  dp_OrgID :: uuid
  dp_Name :: string
  dp_Description :: string
  dp_CreatedAt :: time

record Template =
  tp_ID :: uuid
  tp_OrgID :: "uuid option"
  tp_Name :: string
  tp_Description :: string
  tp_BaseImage :: string
  tp_Software :: "(string \<times> string) list"
  tp_Version :: string
  tp_Tags :: "string list"
  tp_DefaultExposeSSH :: bool
  tp_DefaultExposeJupyter :: bool
  tp_Enabled :: bool
  tp_CreatedAt :: time

text \<open>A node row: the fields of \<open>domain.Node\<close> and the fingerprint column.\<close>

record NodeInfo =
  ni_Hostname :: string
  ni_OS :: string
  ni_Kernel :: string
  ni_CPUModel :: string
  ni_CPUCores :: int
  ni_RAMMB :: int
  ni_NvidiaDriver :: string
  ni_CUDAVersion :: string
  ni_AgentVersion :: string

record Node =
  n_ID :: uuid
  n_OrgID :: uuid
  n_Fingerprint :: "string option"
  n_Status :: NodeStatus
  n_Info :: NodeInfo
  n_Labels :: "(string \<times> string) list"
  n_EnrolledAt :: time
  n_LastSeenAt :: "time option"

record GPU =
  g_ID :: uuid
  g_NodeID :: uuid
  g_OrgID :: uuid
  g_Index :: int
  g_UUID :: string
  g_Model :: string
  g_MemoryMB :: int
  g_MIGEnabled :: bool
  g_Status :: GPUStatus
  g_CreatedAt :: time
  g_UpdatedAt :: time

text \<open>\<open>domain.Workload\<close>, and the row of the table, which has four more columns.\<close>

record Workload =
  w_ID :: uuid
  w_OrgID :: uuid
  w_ProjectID :: "uuid option"
  w_DepartmentID :: "uuid option"
  w_TemplateID :: "uuid option"
  w_UserID :: uuid
  w_NodeID :: "uuid option"
  w_Name :: string
  w_Image :: string
  w_ContainerID :: string
  w_RequestedGPUCount :: int
  w_Status :: WorkloadState
  w_Stage :: string
  w_IdleTimeoutSec :: "int option"
  w_ExposeSSH :: bool
  w_ExposeJupyter :: bool
  w_SSHPassword :: string
  w_SSHEndpoint :: string
  w_JupyterEndpoint :: string
  w_Logs :: string
  w_StartedAt :: "time option"
  w_StoppedAt :: "time option"
  w_StopReason :: "StopReason option"
  w_CreatedAt :: time

record WorkloadRow = Workload +
  w_stopping_at :: "time option"
  w_queued_at :: "time option"
  w_requested_gpu_type :: string
  w_metered_until :: "time option"

record UsageRecord =
  ur_ID :: nat
  ur_OrgID :: uuid
  ur_WorkloadID :: "uuid option"
  ur_GPUID :: "uuid option"
  ur_ProjectID :: "uuid option"
  ur_UserID :: "uuid option"
  ur_PeriodStart :: time
  ur_PeriodEnd :: time
  ur_GPUSeconds :: int
  ur_AvgUtilPct :: "money option"
  ur_MaxMemMB :: "int option"
  ur_Source :: UsageSource

record CostRecord =
  cr_OrgID :: uuid
  cr_UsageRecordID :: "nat option"
  cr_RateCardID :: "uuid option"
  cr_ProjectID :: "uuid option"
  cr_UserID :: "uuid option"
  cr_PeriodStart :: time
  cr_PeriodEnd :: time
  cr_GPUSeconds :: int
  cr_RatePerGPUHour :: money
  cr_Currency :: string
  cr_Amount :: money

record RateCard =
  rc_ID :: uuid
  rc_OrgID :: uuid
  rc_GPUModel :: string
  rc_RatePerGPUHour :: money
  rc_Currency :: string
  rc_EffectiveFrom :: time
  rc_EffectiveTo :: "time option"

record AgentHeartbeat =
  hb_OrgID :: uuid
  hb_NodeID :: uuid
  hb_TS :: time
  hb_Status :: string
  hb_AgentVer :: string
  hb_Summary :: "(string \<times> money) list"

record AuditLog =
  al_OrgID :: uuid
  al_ActorType :: string
  al_ActorID :: string
  al_Action :: string
  al_TargetType :: string
  al_TargetID :: string
  al_Metadata :: "(string \<times> json) list"
  al_IP :: string

end
