(* ===== verification/Schema.thy ===== *)
theory Schema
  imports Domain
begin

text \<open>
  The PostgreSQL database the control plane keeps all its state in (\<open>migrations/*.sql\<close>,
  read and written by hand-written SQL in every module) as one record of tables, and the state
  of the process around it: the fault schedule of the database, the nudges sent to the delivery
  engine, the realtime hints published and the audit events recorded.

  A transaction, or a single statement on the pool, is a function from the database to an error
  or a result with a new database. \<open>atomically\<close> runs it: it consumes one entry of the fault
  schedule, and an injected fault (a lost connection, a failing statement, a failed commit) or an
  error returned by the body leaves the database as it was, which is what the deferred
  \<open>tx.Rollback\<close> of every transaction does. A schedule that has run out injects no fault.
\<close>

section \<open>Tables\<close>

record workload_gpu =
  wg_workload :: uuid
  wg_gpu :: uuid
  wg_attached_at :: time
  wg_detached_at :: "time option"

record workload_event =
  we_workload :: uuid
  we_org :: uuid
  we_stage :: string
  we_message :: string
  we_ts :: time

datatype Kind = KindLaunch | KindStop | KindGetInventory

datatype command_status =
    CmdPending | CmdSent | CmdAcked | CmdFailed | CmdExpired | CmdSuperseded

text \<open>
  The messages of \<open>agent.v1.ServerMessage\<close> that the control plane enqueues. The wire integers
  are \<open>uint32\<close>.
\<close>

record WorkloadSpec =
  sp_WorkloadId :: uuid
  sp_Image :: string
  sp_GpuCount :: "32 word"
  sp_GpuUuids :: "string list"
  sp_IdleTimeoutSec :: "32 word"
  sp_Env :: "(string \<times> string) list"
  sp_ExposeSsh :: bool
  sp_ExposeJupyter :: bool

datatype proto_stop_reason =
    STOP_REASON_UNSPECIFIED | STOP_REASON_USER | STOP_REASON_IDLE_RECLAIM
  | STOP_REASON_ADMIN | STOP_REASON_FAILURE

datatype server_payload =
    LaunchWorkload WorkloadSpec
  | StopWorkload uuid proto_stop_reason
  | Malformed

record server_message =
  sm_CommandId :: uuid
  sm_Payload :: server_payload

record command_row =
  c_ID :: uuid
  c_OrgID :: uuid
  c_NodeID :: uuid
  c_WorkloadID :: "uuid option"
  c_Kind :: Kind
  c_Payload :: server_message
  c_Status :: command_status
  c_Attempts :: nat
  c_NextAttemptAt :: time
  c_DeliverBy :: "time option"
  c_LastError :: string
  c_CreatedAt :: time
  c_SentAt :: "time option"
  c_AckedAt :: "time option"

record ledger_entry =
  le_org :: uuid
  le_delta :: money
  le_balance :: money
  le_kind :: string
  le_description :: string
  le_workload :: "uuid option"
  le_created_at :: time

datatype scope_type = ScopeOrganization | ScopeDepartment | ScopeProject

record budget =
  b_ID :: uuid
  b_OrgID :: uuid
  b_scope_type :: scope_type
  b_scope_id :: "uuid option"
  b_amount :: money

record gpu_metric =
  gm_org :: uuid
  gm_gpu :: uuid
  gm_node :: uuid
  gm_ts :: time
  gm_util :: "money option"
  gm_mem :: "int option"
  gm_power :: "money option"
  gm_temp :: "money option"
  gm_ecc :: "int option"
  gm_proc :: "int option"

record gpu_metric_hour =
  gh_org :: uuid
  gh_gpu :: uuid
  gh_node :: uuid
  gh_hour :: time
  gh_samples :: int
  gh_avg_util :: "money option"
  gh_max_util :: "money option"
  gh_avg_mem :: "money option"
  gh_max_mem :: "int option"
  gh_avg_power :: "money option"
  gh_max_temp :: "money option"
  gh_ecc :: int

record agent_credential =
  ac_org :: uuid
  ac_node :: uuid
  ac_public_key :: string
  ac_revoked_at :: "time option"

record reservation =
  rv_ID :: uuid
  rv_OrgID :: uuid
  rv_ProjectID :: "uuid option"
  rv_UserID :: uuid
  rv_gpu_model :: string
  rv_gpu_count :: int
  rv_start_at :: time
  rv_end_at :: time
  rv_status :: string
  rv_created_at :: time

record auth_token =
  atk_ID :: uuid
  atk_UserID :: uuid
  atk_kind :: string
  atk_TokenHash :: string
  atk_ExpiresAt :: time
  atk_UsedAt :: "time option"

record alert_rule =
  arl_ID :: uuid
  arl_OrgID :: uuid
  arl_Type :: string
  arl_Threshold :: money
  arl_ScopeID :: "uuid option"
  arl_Severity :: string
  arl_Enabled :: bool
  arl_CreatedAt :: time

text \<open>
  The title and message of an alert are kept as the format they were printed from, with its
  arguments, and so is the key it is deduplicated by; the month and the day of a key are the
  instants at which they begin.
\<close>

datatype alert_text =
    SpendOver scope_type string money money
  | BudgetUsed string money money money money
  | RunningLong string money money
  | IdleLong string money money

datatype dedup_key =
    KeySpend scope_type uuid time
  | KeyBudget scope_type "uuid option" time
  | KeyRuntime uuid
  | KeyIdle uuid time

record alert =
  alt_ID :: uuid
  alt_OrgID :: uuid
  alt_RuleID :: "uuid option"
  alt_Severity :: string
  alt_Text :: alert_text
  alt_Acked :: bool
  alt_DedupKey :: dedup_key
  alt_CreatedAt :: time

text \<open>A row of \<open>audit_logs\<close>: the event, its id and time, and the two hashes of the chain.\<close>

record audit_row = AuditLog +
  au_ID :: nat
  au_TS :: time
  au_PrevHash :: "string option"
  au_RowHash :: string

record db =
  organizations :: "Organization list"
  users :: "User list"
  departments :: "Department list"
  templates :: "Template list"
  projects :: "Project list"
  project_members :: "ProjectMember list"
  enrollment_tokens :: "EnrollmentToken list"
  gpu_nodes :: "Node list"
  agent_credentials :: "agent_credential list"
  gpus :: "GPU list"
  workloads :: "WorkloadRow list"
  workload_gpus :: "workload_gpu list"
  workload_events :: "workload_event list"
  agent_commands :: "command_row list"
  rate_cards :: "RateCard list"
  usage_records :: "UsageRecord list"
  cost_records :: "CostRecord list"
  credit_ledger :: "ledger_entry list"
  budgets :: "budget list"
  gpu_metrics :: "gpu_metric list"
  gpu_metrics_hourly :: "gpu_metric_hour list"
  agent_heartbeats :: "AgentHeartbeat list"
  organization_members :: "Member list"
  organization_invitations :: "Invitation list"
  organization_join_codes :: "JoinCode list"
  user_sessions :: "Session list"
  reservations :: "reservation list"
  service_accounts :: "ServiceAccount list"
  api_keys :: "APIKey list"
  auth_tokens :: "auth_token list"
  alert_rules :: "alert_rule list"
  alerts :: "alert list"
  audit_logs :: "audit_row list"

definition empty_db :: db where
  "empty_db = \<lparr>organizations = [], users = [], departments = [], templates = [], projects = [], project_members = [],
     enrollment_tokens = [], gpu_nodes = [], agent_credentials = [], gpus = [], workloads = [],
     workload_gpus = [], workload_events = [], agent_commands = [], rate_cards = [],
     usage_records = [], cost_records = [], credit_ledger = [], budgets = [], gpu_metrics = [], gpu_metrics_hourly = [],
     agent_heartbeats = [], organization_members = [], organization_invitations = [],
     organization_join_codes = [], user_sessions = [], reservations = [],
     service_accounts = [], api_keys = [], auth_tokens = [], alert_rules = [], alerts = [], audit_logs = []\<rparr>"

section \<open>The process state and transactions\<close>

text \<open>The goroutines that a request starts and leaves behind (\<open>go func() { ... }()\<close>).\<close>

datatype goroutine = GoPromoteQueued uuid | GoMeterWorkload uuid

record sys =
  s_db :: db
  s_faults :: "bool list"
  s_nudged :: "uuid list"
  s_published :: "(uuid \<times> string) list"
  s_audit :: "AuditLog list"
  s_spawned :: "goroutine list"

definition initial_sys :: "db \<Rightarrow> sys" where
  "initial_sys d = \<lparr>s_db = d, s_faults = [], s_nudged = [], s_published = [], s_audit = [], s_spawned = []\<rparr>"

text \<open>
  The clocks one operation reads: \<open>now()\<close> of its transactions, and \<open>time.Now()\<close> of the
  process.
\<close>

record clocks =
  db_now :: time
  go_now :: time

definition atomically :: "(db \<Rightarrow> err + 'a \<times> db) \<Rightarrow> sys \<Rightarrow> (err + 'a) \<times> sys" where
  "atomically body s =
     (let s' = s\<lparr>s_faults := tl (s_faults s)\<rparr>
      in if s_faults s \<noteq> [] \<and> hd (s_faults s) then (Inl ErrDB, s')
         else (case body (s_db s) of
                 Inl e \<Rightarrow> (Inl e, s')
               | Inr (a, d) \<Rightarrow> (Inr a, s'\<lparr>s_db := d\<rparr>)))"

definition notify :: "uuid \<Rightarrow> string list \<Rightarrow> sys \<Rightarrow> sys" where
  "notify orgID topics s = s\<lparr>s_published := s_published s @ map (Pair orgID) topics\<rparr>"

definition Nudge :: "uuid \<Rightarrow> sys \<Rightarrow> sys" where
  "Nudge nodeID s = s\<lparr>s_nudged := s_nudged s @ [nodeID]\<rparr>"

definition audit :: "AuditLog \<Rightarrow> sys \<Rightarrow> sys" where
  "audit e s = s\<lparr>s_audit := s_audit s @ [e]\<rparr>"

definition spawn :: "goroutine \<Rightarrow> sys \<Rightarrow> sys" where
  "spawn g s = s\<lparr>s_spawned := s_spawned s @ [g]\<rparr>"

lemma s_db_effects [simp]:
  "s_db (notify org ts s) = s_db s" "s_db (Nudge n s) = s_db s" "s_db (audit e s) = s_db s"
  "s_db (spawn g s) = s_db s"
  by (simp_all add: notify_def Nudge_def audit_def spawn_def)

lemma s_faults_effects [simp]:
  "s_faults (notify org ts s) = s_faults s" "s_faults (Nudge n s) = s_faults s"
  "s_faults (audit e s) = s_faults s" "s_faults (spawn g s) = s_faults s"
  by (simp_all add: notify_def Nudge_def audit_def spawn_def)

lemma atomically_cases:
  obtains (fault) "atomically body s = (Inl ErrDB, s\<lparr>s_faults := tl (s_faults s)\<rparr>)"
    | (error) e where "body (s_db s) = Inl e"
        "atomically body s = (Inl e, s\<lparr>s_faults := tl (s_faults s)\<rparr>)"
    | (commit) a d where "body (s_db s) = Inr (a, d)"
        "atomically body s = (Inr a, s\<lparr>s_faults := tl (s_faults s), s_db := d\<rparr>)"
proof (cases "s_faults s \<noteq> [] \<and> hd (s_faults s)")
  case True
  then have "atomically body s = (Inl ErrDB, s\<lparr>s_faults := tl (s_faults s)\<rparr>)"
    by (simp add: atomically_def)
  then show ?thesis by (rule fault)
next
  case False
  show ?thesis
  proof (cases "body (s_db s)")
    case (Inl e)
    with False have "atomically body s = (Inl e, s\<lparr>s_faults := tl (s_faults s)\<rparr>)"
      unfolding atomically_def Let_def by (simp only: if_False sum.case)
    with Inl show ?thesis by (rule error)
  next
    case (Inr r)
    obtain a d where r: "r = (a, d)" by (cases r)
    with Inr False have "atomically body s = (Inr a, s\<lparr>s_faults := tl (s_faults s), s_db := d\<rparr>)"
      unfolding atomically_def Let_def by (simp only: if_False sum.case prod.case)
    with Inr r show ?thesis by (intro commit) simp_all
  qed
qed

lemma atomically_no_fault:
  "s_faults s = [] \<Longrightarrow> atomically body s =
     (case body (s_db s) of Inl e \<Rightarrow> (Inl e, s) | Inr (a, d) \<Rightarrow> (Inr a, s\<lparr>s_db := d\<rparr>))"
  by (auto simp: atomically_def Let_def split: sum.splits)

lemma atomically_Inr:
  assumes "atomically body s = (Inr a, s')"
  shows "body (s_db s) = Inr (a, s_db s')"
  using assms by (cases rule: atomically_cases [of body s]) auto

lemma atomically_Inl:
  assumes "atomically body s = (Inl e, s')"
  shows "s_db s' = s_db s"
  using assms by (cases rule: atomically_cases [of body s]) auto

text \<open>Reachability of a state machine over the process state, and its invariants.\<close>

locale step_system =
  fixes I :: "db \<Rightarrow> bool" and step :: "sys \<Rightarrow> sys \<Rightarrow> bool"
  assumes step_keeps: "step s t \<Longrightarrow> I (s_db s) \<Longrightarrow> I (s_db t)"
begin

lemma run_keeps: "step\<^sup>*\<^sup>* s t \<Longrightarrow> I (s_db s) \<Longrightarrow> I (s_db t)"
  by (induction rule: rtranclp_induct) (auto intro: step_keeps)

end

text \<open>A database is described to a query by the first row with a key.\<close>

definition workload_by_id :: "uuid \<Rightarrow> db \<Rightarrow> WorkloadRow option" where
  "workload_by_id i d = find (\<lambda>w. w_ID w = i) (workloads d)"

definition node_by_id :: "uuid \<Rightarrow> db \<Rightarrow> Node option" where
  "node_by_id i d = find (\<lambda>n. n_ID n = i) (gpu_nodes d)"

definition gpu_by_id :: "uuid \<Rightarrow> db \<Rightarrow> GPU option" where
  "gpu_by_id i d = find (\<lambda>g. g_ID g = i) (gpus d)"

definition org_by_id :: "uuid \<Rightarrow> db \<Rightarrow> Organization option" where
  "org_by_id i d = find (\<lambda>o'. o_ID o' = i) (organizations d)"

end
