(* ===== verification/Commands.thy ===== *)
theory Commands
  imports Schema
begin

text \<open>
  The transactional outbox of \<open>internal/commands/commands.go\<close>: rows of
  \<open>agent_commands\<close>, their delivery bookkeeping and their status machine.
\<close>

section \<open>Operations\<close>

definition outstanding :: "command_status \<Rightarrow> bool" where
  "outstanding s \<longleftrightarrow> s = CmdPending \<or> s = CmdSent"

lemma outstanding_simps [simp]:
  "outstanding CmdPending" "outstanding CmdSent" "\<not> outstanding CmdAcked"
  "\<not> outstanding CmdFailed" "\<not> outstanding CmdExpired" "\<not> outstanding CmdSuperseded"
  by (simp_all add: outstanding_def)

text \<open>
  \<open>Enqueue\<close> inserts a row with the column defaults of the table; the primary key and the
  foreign keys to organizations, nodes and workloads are checked by the database.
\<close>

record Command =
  cmd_ID :: uuid
  cmd_OrgID :: uuid
  cmd_NodeID :: uuid
  cmd_WorkloadID :: "uuid option"
  cmd_Kind :: Kind
  cmd_Payload :: server_message
  cmd_DeliverBy :: "time option"

definition command_row_of :: "time \<Rightarrow> Command \<Rightarrow> command_row" where
  "command_row_of now c =
     \<lparr>c_ID = cmd_ID c, c_OrgID = cmd_OrgID c, c_NodeID = cmd_NodeID c,
      c_WorkloadID = cmd_WorkloadID c, c_Kind = cmd_Kind c, c_Payload = cmd_Payload c,
      c_Status = CmdPending, c_Attempts = 0, c_NextAttemptAt = now,
      c_DeliverBy = cmd_DeliverBy c, c_LastError = '''', c_CreatedAt = now,
      c_SentAt = None, c_AckedAt = None\<rparr>"

definition Enqueue :: "time \<Rightarrow> Command \<Rightarrow> db \<Rightarrow> err + db" where
  "Enqueue now c d =
     (if \<exists>r \<in> set (agent_commands d). c_ID r = cmd_ID c then Inl (ErrConstraint ''agent_commands_pkey'')
      else if \<not> (\<exists>o' \<in> set (organizations d). o_ID o' = cmd_OrgID c)
        then Inl (ErrConstraint ''agent_commands_org_id_fkey'')
      else if \<not> (\<exists>n \<in> set (gpu_nodes d). n_ID n = cmd_NodeID c)
        then Inl (ErrConstraint ''agent_commands_node_id_fkey'')
      else if \<not> (case cmd_WorkloadID c of None \<Rightarrow> True
                 | Some w \<Rightarrow> \<exists>r \<in> set (workloads d). w_ID r = w)
        then Inl (ErrConstraint ''agent_commands_workload_id_fkey'')
      else Inr (d\<lparr>agent_commands := agent_commands d @ [command_row_of now c]\<rparr>))"

text \<open>\<open>resendBackoff\<close>: \<open>15 * time.Second << min(attempts, 4)\<close>, capped at four minutes.\<close>

definition resendBackoff :: "nat \<Rightarrow> duration" where
  "resendBackoff attempts =
     (let d = 15 * second * 2 ^ min attempts 4 in if d > 4 * minute then 4 * minute else d)"

record Due =
  due_ID :: uuid
  due_Kind :: Kind
  due_Payload :: server_message
  due_Attempts :: nat

definition is_due :: "time \<Rightarrow> uuid \<Rightarrow> command_row \<Rightarrow> bool" where
  "is_due now nodeID r \<longleftrightarrow>
     c_NodeID r = nodeID \<and> outstanding (c_Status r) \<and> c_NextAttemptAt r \<le> now"

text \<open>\<open>ClaimDue\<close>; \<open>locked\<close> are the rows that \<open>SKIP LOCKED\<close> passes over.\<close>

definition ClaimDue :: "time \<Rightarrow> (uuid \<Rightarrow> bool) \<Rightarrow> uuid \<Rightarrow> nat \<Rightarrow> db \<Rightarrow> Due list" where
  "ClaimDue now locked nodeID limit d =
     map (\<lambda>r. \<lparr>due_ID = c_ID r, due_Kind = c_Kind r, due_Payload = c_Payload r,
               due_Attempts = c_Attempts r\<rparr>)
       (take limit (sort_key c_CreatedAt
          (filter (\<lambda>r. is_due now nodeID r \<and> \<not> locked (c_ID r)) (agent_commands d))))"

definition MarkSent :: "time \<Rightarrow> uuid \<Rightarrow> nat \<Rightarrow> db \<Rightarrow> db" where
  "MarkSent now i attempts d =
     d\<lparr>agent_commands := upd (\<lambda>r. c_ID r = i)
        (\<lambda>r. r\<lparr>c_Status := CmdSent, c_Attempts := attempts + 1,
               c_SentAt := (case c_SentAt r of None \<Rightarrow> Some now | Some t \<Rightarrow> Some t),
               c_NextAttemptAt := now + resendBackoff attempts\<rparr>) (agent_commands d)\<rparr>"

definition MarkAttemptFailed :: "time \<Rightarrow> uuid \<Rightarrow> nat \<Rightarrow> string \<Rightarrow> db \<Rightarrow> db" where
  "MarkAttemptFailed now i attempts reason d =
     d\<lparr>agent_commands := upd (\<lambda>r. c_ID r = i)
        (\<lambda>r. r\<lparr>c_Attempts := attempts + 1, c_LastError := reason,
               c_NextAttemptAt := now + resendBackoff attempts\<rparr>) (agent_commands d)\<rparr>"

definition Ack :: "time \<Rightarrow> uuid \<Rightarrow> bool \<Rightarrow> string \<Rightarrow> db \<Rightarrow> db" where
  "Ack now i ok errMsg d =
     d\<lparr>agent_commands := upd (\<lambda>r. c_ID r = i \<and> outstanding (c_Status r))
        (\<lambda>r. r\<lparr>c_Status := (if ok then CmdAcked else CmdFailed), c_AckedAt := Some now,
               c_LastError := errMsg\<rparr>) (agent_commands d)\<rparr>"

record Expired =
  ex_ID :: uuid
  ex_Kind :: Kind
  ex_WorkloadID :: "uuid option"

definition overdue :: "time \<Rightarrow> command_row \<Rightarrow> bool" where
  "overdue now r \<longleftrightarrow> outstanding (c_Status r) \<and>
     (case c_DeliverBy r of None \<Rightarrow> False | Some t \<Rightarrow> t < now)"

text \<open>\<open>trim('; ' FROM s)\<close> strips the characters \<open>;\<close> and blank from both ends.\<close>

definition trim_sep :: "string \<Rightarrow> string" where
  "trim_sep s = rev (dropWhile (\<lambda>c. c = CHR '';'' \<or> c = CHR '' '')
                  (rev (dropWhile (\<lambda>c. c = CHR '';'' \<or> c = CHR '' '') s)))"

definition ExpireOverdue :: "time \<Rightarrow> db \<Rightarrow> Expired list \<times> db" where
  "ExpireOverdue now d =
     (map (\<lambda>r. \<lparr>ex_ID = c_ID r, ex_Kind = c_Kind r, ex_WorkloadID = c_WorkloadID r\<rparr>)
        (filter (overdue now) (agent_commands d)),
      d\<lparr>agent_commands := upd (overdue now)
         (\<lambda>r. r\<lparr>c_Status := CmdExpired,
                c_LastError := trim_sep (c_LastError r @ ''; delivery deadline exceeded'')\<rparr>)
         (agent_commands d)\<rparr>)"

definition superseded :: "db \<Rightarrow> command_row \<Rightarrow> bool" where
  "superseded d r \<longleftrightarrow> outstanding (c_Status r) \<and>
     (\<exists>w \<in> set (workloads d). c_WorkloadID r = Some (w_ID w) \<and> terminal_state (w_Status w))"

definition SupersedeForTerminalWorkloads :: "db \<Rightarrow> nat \<times> db" where
  "SupersedeForTerminalWorkloads d =
     (affected (superseded d) (agent_commands d),
      d\<lparr>agent_commands := upd (superseded d) (\<lambda>r. r\<lparr>c_Status := CmdSuperseded\<rparr>)
         (agent_commands d)\<rparr>)"

section \<open>Backoff\<close>

lemma resendBackoff_bounds: "15 * second \<le> resendBackoff n \<and> resendBackoff n \<le> 4 * minute"
proof -
  have "(2::int) ^ min n 4 \<le> 2 ^ 4" by (rule power_increasing) simp_all
  moreover have "(1::int) \<le> 2 ^ min n 4" by simp
  ultimately show ?thesis unfolding resendBackoff_def Let_def by auto
qed

lemma resendBackoff_pos: "0 < resendBackoff n"
  using resendBackoff_bounds [of n] by linarith

lemma resendBackoff_exact: "resendBackoff n = 15 * second * 2 ^ min n 4"
proof -
  have "(2::int) ^ min n 4 \<le> 2 ^ 4" by (rule power_increasing) simp_all
  then show ?thesis unfolding resendBackoff_def Let_def by auto
qed

lemma resendBackoff_mono: "m \<le> n \<Longrightarrow> resendBackoff m \<le> resendBackoff n"
  by (simp add: resendBackoff_exact)

section \<open>The status machine\<close>

text \<open>
  Every operation relates the rows of the table before and after by these steps: an outstanding
  row may become anything, a final row keeps its status.
\<close>

definition cmd_step :: "command_row \<Rightarrow> command_row \<Rightarrow> bool" where
  "cmd_step r q \<longleftrightarrow> c_ID q = c_ID r \<and> c_NodeID q = c_NodeID r \<and> c_WorkloadID q = c_WorkloadID r \<and>
     c_Kind q = c_Kind r \<and> c_Payload q = c_Payload r \<and>
     (\<not> outstanding (c_Status r) \<longrightarrow> c_Status q = c_Status r)"

lemma cmd_step_refl [simp]: "cmd_step r r"
  by (simp add: cmd_step_def)

lemma cmd_step_trans: "cmd_step a b \<Longrightarrow> cmd_step b c \<Longrightarrow> cmd_step a c"
  by (auto simp: cmd_step_def)

text \<open>
  The outbox contract that the workload service and the delivery engine rely on: operations
  never delete a row, never change what it instructs, and never revive a finalised one.
\<close>

locale outbox_op =
  fixes oper :: "db \<Rightarrow> db"
  assumes rows_step: "list_all2 cmd_step (agent_commands d) (agent_commands (oper d))"
begin

lemma ids_kept: "map c_ID (agent_commands (oper d)) = map c_ID (agent_commands d)"
  using rows_step [of d] by (induction rule: list_all2_induct) (auto simp: cmd_step_def)

lemma row_kept:
  assumes "r \<in> set (agent_commands d)"
  obtains q where "q \<in> set (agent_commands (oper d))" and "cmd_step r q"
  using rows_step [of d] assms by (metis in_set_conv_nth list_all2_conv_all_nth)

lemma final_absorbing:
  assumes "r \<in> set (agent_commands d)" and "\<not> outstanding (c_Status r)"
  shows "\<exists>q \<in> set (agent_commands (oper d)). c_ID q = c_ID r \<and> c_Status q = c_Status r"
proof -
  obtain q where "q \<in> set (agent_commands (oper d))" and "cmd_step r q"
    using assms(1) by (rule row_kept)
  then show ?thesis using assms(2) by (auto simp: cmd_step_def)
qed

end

lemma list_all2_upd: "(\<And>r. r \<in> set t \<Longrightarrow> P r \<Longrightarrow> R r (f r)) \<Longrightarrow> (\<And>r. R r r) \<Longrightarrow> list_all2 R t (upd P f t)"
  by (induction t) auto

interpretation ack_op: outbox_op "Ack now i ok msg"
  by unfold_locales (auto simp: Ack_def cmd_step_def intro!: list_all2_upd)

interpretation expire_op: outbox_op "\<lambda>d. snd (ExpireOverdue now d)"
  by unfold_locales (auto simp: ExpireOverdue_def overdue_def cmd_step_def intro!: list_all2_upd)

interpretation supersede_op: outbox_op "\<lambda>d. snd (SupersedeForTerminalWorkloads d)"
  by unfold_locales (auto simp: SupersedeForTerminalWorkloads_def superseded_def cmd_step_def
      intro!: list_all2_upd)

interpretation attempt_failed_op: outbox_op "MarkAttemptFailed now i n reason"
  by unfold_locales (auto simp: MarkAttemptFailed_def cmd_step_def intro!: list_all2_upd)

section \<open>Frames\<close>

lemma Enqueue_frame:
  assumes "Enqueue now c d = Inr d'"
  shows "d' = d\<lparr>agent_commands := agent_commands d @ [command_row_of now c]\<rparr>"
    and "\<And>r. r \<in> set (agent_commands d) \<Longrightarrow> c_ID r \<noteq> cmd_ID c"
    and "\<exists>n \<in> set (gpu_nodes d). n_ID n = cmd_NodeID c"
  using assms by (auto simp: Enqueue_def split: if_splits)

lemma Enqueue_Inr:
  assumes "\<And>r. r \<in> set (agent_commands d) \<Longrightarrow> c_ID r \<noteq> cmd_ID c"
    and "\<exists>o' \<in> set (organizations d). o_ID o' = cmd_OrgID c"
    and "\<exists>n \<in> set (gpu_nodes d). n_ID n = cmd_NodeID c"
    and "case cmd_WorkloadID c of None \<Rightarrow> True | Some w \<Rightarrow> \<exists>r \<in> set (workloads d). w_ID r = w"
  shows "Enqueue now c d = Inr (d\<lparr>agent_commands := agent_commands d @ [command_row_of now c]\<rparr>)"
  using assms by (auto simp: Enqueue_def)

section \<open>Claiming\<close>

lemma ClaimDue_length: "length (ClaimDue now locked n limit d) \<le> limit"
  by (simp add: ClaimDue_def)

lemma ClaimDue_sound:
  assumes "x \<in> set (ClaimDue now locked n limit d)"
  shows "\<exists>r \<in> set (agent_commands d). c_ID r = due_ID x \<and> is_due now n r \<and> \<not> locked (c_ID r) \<and>
    due_Attempts x = c_Attempts r \<and> due_Payload x = c_Payload r"
proof -
  obtain r where r: "r \<in> set (take limit (sort_key c_CreatedAt
      (filter (\<lambda>r. is_due now n r \<and> \<not> locked (c_ID r)) (agent_commands d))))"
    and x: "x = \<lparr>due_ID = c_ID r, due_Kind = c_Kind r, due_Payload = c_Payload r,
       due_Attempts = c_Attempts r\<rparr>"
    using assms unfolding ClaimDue_def by (metis (no_types, lifting) imageE set_map)
  from in_set_takeD [OF r] have "r \<in> set (agent_commands d)" "is_due now n r" "\<not> locked (c_ID r)"
    by auto
  then show ?thesis using x by auto
qed

lemma ClaimDue_complete:
  assumes "r \<in> set (agent_commands d)" and "is_due now n r" and "\<not> locked (c_ID r)"
    and "affected (\<lambda>r. is_due now n r \<and> \<not> locked (c_ID r)) (agent_commands d) \<le> limit"
  shows "c_ID r \<in> due_ID ` set (ClaimDue now locked n limit d)"
proof -
  let ?xs = "sort_key c_CreatedAt (filter (\<lambda>r. is_due now n r \<and> \<not> locked (c_ID r)) (agent_commands d))"
  have "take limit ?xs = ?xs" using assms(4) by (simp add: affected_def)
  moreover have "r \<in> set ?xs" using assms by simp
  ultimately show ?thesis unfolding ClaimDue_def by force
qed

end
