(* ===== verification/Placement.thy ===== *)
theory Placement
  imports Commands "HOL-Library.Product_Lexorder"
begin

text \<open>
  First-fit placement of \<open>workloads/impl.go\<close>: the unlocked candidate scan, the claim with
  \<open>FOR UPDATE SKIP LOCKED\<close>, and \<open>attach\<close>, which writes the attachment rows and
  flips the GPUs to \<open>in_use\<close>. \<open>locked\<close> is the set of GPU rows that concurrent
  transactions hold at the moment of the claim.
\<close>

record placement =
  p_workloadID :: uuid
  p_nodeID :: uuid
  p_gpuIDs :: "uuid list"
  p_gpuUUIDs :: "string list"

definition type_matches :: "string \<Rightarrow> GPU \<Rightarrow> bool" where
  "type_matches gpuType g \<longleftrightarrow>
     (gpuType \<noteq> '''' \<and> gpuType \<noteq> ''any'' \<longrightarrow> ilike (g_Model g) (''%'' @ gpuType @ ''%''))"

definition node_online :: "uuid \<Rightarrow> db \<Rightarrow> bool" where
  "node_online i d \<longleftrightarrow> (\<exists>n \<in> set (gpu_nodes d). n_ID n = i \<and> n_Status n = NodeOnline)"

definition candidates :: "uuid \<Rightarrow> string \<Rightarrow> db \<Rightarrow> GPU list" where
  "candidates orgID gpuType d =
     sort_key (\<lambda>g. (g_NodeID g, g_Index g))
       (filter (\<lambda>g. g_OrgID g = orgID \<and> g_Status g = GPUIdle \<and> node_online (g_NodeID g) d \<and>
                   type_matches gpuType g) (gpus d))"

definition by_node :: "GPU list \<Rightarrow> uuid \<Rightarrow> uuid list" where
  "by_node cands nid = map g_ID (filter (\<lambda>g. g_NodeID g = nid) cands)"

definition claim_rows :: "(uuid \<Rightarrow> bool) \<Rightarrow> uuid list \<Rightarrow> nat \<Rightarrow> db \<Rightarrow> GPU list" where
  "claim_rows locked ids limit d =
     take limit (sort_key g_Index
       (filter (\<lambda>g. g_ID g \<in> set ids \<and> g_Status g = GPUIdle \<and> \<not> locked (g_ID g)) (gpus d)))"

fun scan_nodes :: "(uuid \<Rightarrow> bool) \<Rightarrow> uuid \<Rightarrow> GPU list \<Rightarrow> nat \<Rightarrow> db \<Rightarrow> uuid list \<Rightarrow> err + placement" where
  "scan_nodes locked wid cands n d [] = Inl ErrNoGPUsAvailable"
| "scan_nodes locked wid cands n d (nid # nids) =
     (if length (by_node cands nid) < n then scan_nodes locked wid cands n d nids
      else let claimed = claim_rows locked (by_node cands nid) n d
           in if length claimed = n
              then Inr \<lparr>p_workloadID = wid, p_nodeID = nid, p_gpuIDs = map g_ID claimed,
                        p_gpuUUIDs = map g_UUID claimed\<rparr>
              else scan_nodes locked wid cands n d nids)"

text \<open>A negative \<open>LIMIT\<close> is an error of the database.\<close>

definition placeAndAttach ::
  "(uuid \<Rightarrow> bool) \<Rightarrow> uuid \<Rightarrow> uuid \<Rightarrow> string \<Rightarrow> int \<Rightarrow> db \<Rightarrow> err + placement" where
  "placeAndAttach locked orgID wid gpuType cnt d =
     (let cands = candidates orgID gpuType d;
          nodeOrder = first_seen (map g_NodeID cands)
      in if cnt < 0 \<and> nodeOrder \<noteq> [] then Inl ErrDB
         else scan_nodes locked wid cands (nat cnt) d nodeOrder)"

text \<open>
  \<open>INSERT INTO workload_gpus\<close> with the constraints of the table: the foreign keys, the
  unique pair, and the partial unique index that allows one active attachment per GPU.
\<close>

definition active :: "workload_gpu \<Rightarrow> bool" where
  "active a \<longleftrightarrow> wg_detached_at a = None"

definition insert_attachment :: "time \<Rightarrow> uuid \<Rightarrow> uuid \<Rightarrow> db \<Rightarrow> err + db" where
  "insert_attachment now wid gid d =
     (if \<not> (\<exists>w \<in> set (workloads d). w_ID w = wid) then Inl (ErrConstraint ''workload_gpus_workload_id_fkey'')
      else if \<not> (\<exists>g \<in> set (gpus d). g_ID g = gid) then Inl (ErrConstraint ''workload_gpus_gpu_id_fkey'')
      else if \<exists>a \<in> set (workload_gpus d). wg_workload a = wid \<and> wg_gpu a = gid
        then Inl (ErrConstraint ''workload_gpus_workload_id_gpu_id_key'')
      else if \<exists>a \<in> set (workload_gpus d). wg_gpu a = gid \<and> active a
        then Inl (ErrConstraint ''idx_workload_gpus_one_active'')
      else Inr (d\<lparr>workload_gpus := workload_gpus d @
             [\<lparr>wg_workload = wid, wg_gpu = gid, wg_attached_at = now, wg_detached_at = None\<rparr>]\<rparr>))"

definition attach :: "time \<Rightarrow> placement \<Rightarrow> db \<Rightarrow> err + db" where
  "attach now p d =
     bindE (foldE (insert_attachment now (p_workloadID p)) (p_gpuIDs p) d) (\<lambda>d1.
       let hit = (\<lambda>g. g_ID g \<in> set (p_gpuIDs p) \<and> g_Status g = GPUIdle);
           n = affected hit (gpus d1)
       in if n \<noteq> length (p_gpuIDs p) then Inl (ErrClaimRaced n (length (p_gpuIDs p)))
          else Inr (d1\<lparr>gpus := upd hit (\<lambda>g. g\<lparr>g_Status := GPUInUse\<rparr>) (gpus d1)\<rparr>))"

section \<open>Placement is sound\<close>

lemma set_candidates:
  "set (candidates orgID t d) =
     {g \<in> set (gpus d). g_OrgID g = orgID \<and> g_Status g = GPUIdle \<and> node_online (g_NodeID g) d \<and>
        type_matches t g}"
  by (simp add: candidates_def)

lemma set_claim_rows:
  "g \<in> set (claim_rows locked ids n d) \<Longrightarrow>
     g \<in> set (gpus d) \<and> g_ID g \<in> set ids \<and> g_Status g = GPUIdle \<and> \<not> locked (g_ID g)"
  unfolding claim_rows_def by (auto dest: in_set_takeD)

lemma distinct_claim_rows:
  assumes "distinct (map g_ID (gpus d))"
  shows "distinct (map g_ID (claim_rows locked ids n d))"
proof -
  let ?xs = "filter (\<lambda>g. g_ID g \<in> set ids \<and> g_Status g = GPUIdle \<and> \<not> locked (g_ID g)) (gpus d)"
  have "distinct (map g_ID ?xs)" using assms by (rule distinct_map_filter)
  moreover have "set (sort_key g_Index ?xs) = set ?xs" and "distinct (sort_key g_Index ?xs) = distinct ?xs"
    by simp_all
  ultimately have "distinct (map g_ID (sort_key g_Index ?xs))" by (simp add: distinct_map)
  then have "distinct (take n (map g_ID (sort_key g_Index ?xs)))" by (rule distinct_take)
  then show ?thesis unfolding claim_rows_def by (simp add: take_map)
qed

lemma scan_nodes_sound:
  assumes "scan_nodes locked wid cands n d nids = Inr p"
  shows "p_workloadID p = wid" and "length (p_gpuIDs p) = n" and "p_nodeID p \<in> set nids"
    and "p_gpuIDs p = map g_ID (claim_rows locked (by_node cands (p_nodeID p)) n d)"
    and "p_gpuUUIDs p = map g_UUID (claim_rows locked (by_node cands (p_nodeID p)) n d)"
  using assms by (induction nids) (auto simp: Let_def split: if_splits)

lemma placeAndAttach_sound:
  assumes "placeAndAttach locked orgID wid t cnt d = Inr p"
  shows "p_workloadID p = wid" and "length (p_gpuIDs p) = nat cnt"
    and "length (p_gpuUUIDs p) = nat cnt" and "node_online (p_nodeID p) d"
    and "distinct (map g_ID (gpus d)) \<Longrightarrow> distinct (p_gpuIDs p)"
proof -
  let ?cs = "candidates orgID t d" and ?ids = "by_node (candidates orgID t d) (p_nodeID p)"
  have sc: "scan_nodes locked wid ?cs (nat cnt) d (first_seen (map g_NodeID ?cs)) = Inr p"
    using assms by (auto simp: placeAndAttach_def Let_def split: if_splits)
  note s = scan_nodes_sound [OF sc]
  show "p_workloadID p = wid" and "length (p_gpuIDs p) = nat cnt" using s by simp_all
  then show "length (p_gpuUUIDs p) = nat cnt" using s(4,5) by simp
  show "node_online (p_nodeID p) d" using s(3) by (auto simp: set_candidates)
  show "distinct (map g_ID (gpus d)) \<Longrightarrow> distinct (p_gpuIDs p)"
    using s(4) distinct_claim_rows by simp
qed

lemma placeAndAttach_gpu:
  assumes "placeAndAttach locked orgID wid t cnt d = Inr p" and "gid \<in> set (p_gpuIDs p)"
    and "distinct (map g_ID (gpus d))"
  shows "\<exists>g \<in> set (gpus d). g_ID g = gid \<and> g_Status g = GPUIdle \<and> g_NodeID g = p_nodeID p \<and>
    g_OrgID g = orgID \<and> type_matches t g \<and> \<not> locked gid"
proof -
  let ?cs = "candidates orgID t d"
  have sc: "scan_nodes locked wid ?cs (nat cnt) d (first_seen (map g_NodeID ?cs)) = Inr p"
    using assms(1) by (auto simp: placeAndAttach_def Let_def split: if_splits)
  obtain g where g: "g \<in> set (claim_rows locked (by_node ?cs (p_nodeID p)) (nat cnt) d)" "g_ID g = gid"
    using assms(2) scan_nodes_sound(4) [OF sc] by auto
  then have g': "g \<in> set (gpus d)" "g_ID g \<in> set (by_node ?cs (p_nodeID p))" "g_Status g = GPUIdle"
    "\<not> locked (g_ID g)" by (auto dest: set_claim_rows)
  then obtain h where h: "h \<in> set ?cs" "g_ID h = g_ID g" "g_NodeID h = p_nodeID p"
    by (auto simp: by_node_def)
  then have "h = g" using assms(3) g'(1) by (auto simp: set_candidates intro: distinct_key_unique)
  then show ?thesis using h g g' by (auto simp: set_candidates)
qed

section \<open>Attachment\<close>

lemma insert_attachment_Inr:
  assumes "insert_attachment now wid gid d = Inr d'"
  shows "d' = d\<lparr>workload_gpus := workload_gpus d @
      [\<lparr>wg_workload = wid, wg_gpu = gid, wg_attached_at = now, wg_detached_at = None\<rparr>]\<rparr>"
    and "\<exists>w \<in> set (workloads d). w_ID w = wid" and "\<exists>g \<in> set (gpus d). g_ID g = gid"
    and "\<And>a. a \<in> set (workload_gpus d) \<Longrightarrow> active a \<Longrightarrow> wg_gpu a \<noteq> gid"
  using assms by (auto simp: insert_attachment_def split: if_splits)

definition new_attachments :: "time \<Rightarrow> uuid \<Rightarrow> uuid list \<Rightarrow> workload_gpu list" where
  "new_attachments now wid gids =
     map (\<lambda>gid. \<lparr>wg_workload = wid, wg_gpu = gid, wg_attached_at = now, wg_detached_at = None\<rparr>) gids"

lemma foldE_insert_attachment:
  assumes "foldE (insert_attachment now wid) gids d = Inr d'"
  shows "d' = d\<lparr>workload_gpus := workload_gpus d @ new_attachments now wid gids\<rparr>"
    and "gids \<noteq> [] \<Longrightarrow> \<exists>w \<in> set (workloads d). w_ID w = wid"
proof -
  show "d' = d\<lparr>workload_gpus := workload_gpus d @ new_attachments now wid gids\<rparr>"
    using assms
  proof (induction gids arbitrary: d)
    case (Cons gid gids)
    then obtain e where e: "insert_attachment now wid gid d = Inr e"
      and rest: "foldE (insert_attachment now wid) gids e = Inr d'" by (auto simp: bindE_Inr_iff)
    from Cons.IH [OF rest] insert_attachment_Inr(1) [OF e] show ?case
      by (simp add: new_attachments_def)
  qed (simp add: new_attachments_def)
  show "gids \<noteq> [] \<Longrightarrow> \<exists>w \<in> set (workloads d). w_ID w = wid"
    using assms by (cases gids) (auto simp: bindE_Inr_iff dest: insert_attachment_Inr(2))
qed

lemma foldE_insert_attachment_unique:
  assumes "foldE (insert_attachment now wid) gids d = Inr d'"
    and "distinct (map wg_gpu (filter active (workload_gpus d)))"
  shows "distinct (map wg_gpu (filter active (workload_gpus d')))"
proof (rule foldE_invariant [OF assms(1), where I = "\<lambda>e. distinct (map wg_gpu (filter active (workload_gpus e)))"])
  show "distinct (map wg_gpu (filter active (workload_gpus d)))" by (rule assms(2))
next
  fix gid e e'
  assume "distinct (map wg_gpu (filter active (workload_gpus e)))"
    and "insert_attachment now wid gid e = Inr e'"
  then show "distinct (map wg_gpu (filter active (workload_gpus e')))"
    using insert_attachment_Inr(1,4) [of now wid gid e e'] by (auto simp: active_def)
qed

lemma foldE_insert_attachment_total:
  assumes "\<exists>w \<in> set (workloads d). w_ID w = wid"
    and "\<And>gid. gid \<in> set gids \<Longrightarrow> \<exists>g \<in> set (gpus d). g_ID g = gid"
    and "\<And>a. a \<in> set (workload_gpus d) \<Longrightarrow> wg_gpu a \<in> set gids \<Longrightarrow> \<not> active a \<and> wg_workload a \<noteq> wid"
    and "distinct gids"
  shows "\<exists>d'. foldE (insert_attachment now wid) gids d = Inr d'"
  using assms
proof (induction gids arbitrary: d)
  case Nil
  then show ?case by simp
next
  case (Cons gid gids)
  define d1 where "d1 = d\<lparr>workload_gpus := workload_gpus d @
      [\<lparr>wg_workload = wid, wg_gpu = gid, wg_attached_at = now, wg_detached_at = None\<rparr>]\<rparr>"
  have step: "insert_attachment now wid gid d = Inr d1"
    using Cons.prems by (auto simp: insert_attachment_def d1_def)
  have "\<exists>d'. foldE (insert_attachment now wid) gids d1 = Inr d'"
    by (rule Cons.IH) (use Cons.prems in \<open>auto simp: d1_def\<close>)
  then show ?case using step by simp
qed

lemma affected_claimed:
  assumes "distinct (map g_ID gs)" and "distinct ids"
    and "\<And>i. i \<in> set ids \<Longrightarrow> \<exists>g \<in> set gs. g_ID g = i \<and> g_Status g = GPUIdle"
  shows "affected (\<lambda>g. g_ID g \<in> set ids \<and> g_Status g = GPUIdle) gs = length ids"
proof -
  let ?P = "\<lambda>g. g_ID g \<in> set ids \<and> g_Status g = GPUIdle"
  have "distinct (map g_ID (filter ?P gs))" using assms(1) by (rule distinct_map_filter)
  then have "length (filter ?P gs) = card (g_ID ` set (filter ?P gs))"
    using distinct_card by fastforce
  also have "g_ID ` set (filter ?P gs) = set ids" using assms(3) by force
  also have "card (set ids) = length ids" using assms(2) by (rule distinct_card)
  finally show ?thesis by (simp add: affected_def)
qed

lemma attach_Inr:
  assumes "attach now p d = Inr d'"
  shows "d' = d\<lparr>workload_gpus := workload_gpus d @ new_attachments now (p_workloadID p) (p_gpuIDs p),
       gpus := upd (\<lambda>g. g_ID g \<in> set (p_gpuIDs p) \<and> g_Status g = GPUIdle)
                 (\<lambda>g. g\<lparr>g_Status := GPUInUse\<rparr>) (gpus d)\<rparr>"
  using assms foldE_insert_attachment(1)
  by (fastforce simp: attach_def bindE_Inr_iff Let_def split: if_splits)

lemma attach_unique:
  assumes "attach now p d = Inr d'" and "distinct (map wg_gpu (filter active (workload_gpus d)))"
  shows "distinct (map wg_gpu (filter active (workload_gpus d')))"
proof -
  obtain d1 where "foldE (insert_attachment now (p_workloadID p)) (p_gpuIDs p) d = Inr d1"
    and "workload_gpus d' = workload_gpus d1"
    using assms(1) by (auto simp: attach_def bindE_Inr_iff Let_def split: if_splits)
  then show ?thesis using foldE_insert_attachment_unique assms(2) by metis
qed

text \<open>
  The guard of \<open>attach\<close> never fires on GPUs that are idle and unattached: neither the unique
  indexes nor the row count can make a placement fail.
\<close>

lemma attach_total:
  assumes "\<exists>w \<in> set (workloads d). w_ID w = p_workloadID p"
    and "distinct (map g_ID (gpus d))" and "distinct (p_gpuIDs p)"
    and idle: "\<And>gid. gid \<in> set (p_gpuIDs p) \<Longrightarrow> \<exists>g \<in> set (gpus d). g_ID g = gid \<and> g_Status g = GPUIdle"
    and free: "\<And>a. a \<in> set (workload_gpus d) \<Longrightarrow> wg_gpu a \<in> set (p_gpuIDs p) \<Longrightarrow>
      \<not> active a \<and> wg_workload a \<noteq> p_workloadID p"
  shows "\<exists>d'. attach now p d = Inr d'"
proof -
  obtain d1 where d1: "foldE (insert_attachment now (p_workloadID p)) (p_gpuIDs p) d = Inr d1"
    using foldE_insert_attachment_total [of d "p_workloadID p" "p_gpuIDs p" now] assms by blast
  then have "gpus d1 = gpus d" using foldE_insert_attachment(1) by fastforce
  then have "affected (\<lambda>g. g_ID g \<in> set (p_gpuIDs p) \<and> g_Status g = GPUIdle) (gpus d1) = length (p_gpuIDs p)"
    using affected_claimed [OF assms(2,3) idle] by simp
  then show ?thesis using d1 by (auto simp: attach_def Let_def)
qed

section \<open>Placement is complete\<close>

lemma claim_rows_full:
  assumes "distinct (map g_ID (gpus d))"
    and cs: "\<And>g. g \<in> set cs \<Longrightarrow> g \<in> set (gpus d) \<and> g_Status g = GPUIdle \<and> \<not> locked (g_ID g)"
    and "distinct cs" and "n \<le> length (by_node cs nid)"
  shows "length (claim_rows locked (by_node cs nid) n d) = n"
proof -
  let ?P = "\<lambda>g. g_ID g \<in> set (by_node cs nid) \<and> g_Status g = GPUIdle \<and> \<not> locked (g_ID g)"
  have "set (filter (\<lambda>g. g_NodeID g = nid) cs) \<subseteq> set (filter ?P (gpus d))"
    using cs by (force simp: by_node_def)
  then have "card (set (filter (\<lambda>g. g_NodeID g = nid) cs)) \<le> card (set (filter ?P (gpus d)))"
    by (intro card_mono) simp_all
  also have "\<dots> \<le> length (filter ?P (gpus d))" by (rule card_length)
  finally have "card (set (filter (\<lambda>g. g_NodeID g = nid) cs)) \<le> length (filter ?P (gpus d))" .
  moreover have "card (set (filter (\<lambda>g. g_NodeID g = nid) cs)) = length (by_node cs nid)"
    unfolding by_node_def length_map using assms(3) by (intro distinct_card distinct_filter)
  ultimately have "length (by_node cs nid) \<le> length (filter ?P (gpus d))" by simp
  then show ?thesis using assms(4) by (simp add: claim_rows_def)
qed

text \<open>
  With no concurrent locks, placement fails only when no single online node has enough idle
  matching GPUs.
\<close>

lemma scan_nodes_complete:
  assumes "\<And>nid. nid \<in> set nids \<Longrightarrow> n \<le> length (by_node cs nid) \<Longrightarrow>
      length (claim_rows locked (by_node cs nid) n d) = n"
    and "nid \<in> set nids" and "n \<le> length (by_node cs nid)"
  shows "\<exists>p. scan_nodes locked wid cs n d nids = Inr p"
  using assms
proof (induction nids)
  case (Cons m ms)
  show ?case
  proof (cases "length (by_node cs m) < n")
    case True
    then have "nid \<in> set ms" using Cons.prems by auto
    then show ?thesis using Cons True by auto
  next
    case False
    then show ?thesis using Cons.prems(1) [of m] by (simp add: Let_def)
  qed
qed simp

lemma placeAndAttach_complete:
  assumes "distinct (map g_ID (gpus d))" and "\<And>i. \<not> locked i" and "0 < cnt"
    and "nat cnt \<le> length (by_node (candidates orgID t d) nid)"
  shows "\<exists>p. placeAndAttach locked orgID wid t cnt d = Inr p"
proof -
  let ?cs = "candidates orgID t d"
  have "distinct ?cs" using assms(1) by (simp add: candidates_def distinct_map)
  then have full: "n \<le> length (by_node ?cs m) \<Longrightarrow> length (claim_rows locked (by_node ?cs m) n d) = n" for n m
    using assms(1,2) by (intro claim_rows_full) (auto simp: set_candidates)
  have "by_node ?cs nid \<noteq> []" using assms(3,4) by auto
  then have "nid \<in> set (first_seen (map g_NodeID ?cs))"
    by (auto simp: by_node_def filter_empty_conv)
  then show ?thesis
    using scan_nodes_complete [of "first_seen (map g_NodeID ?cs)" "nat cnt" ?cs locked d nid wid]
      full assms(3,4)
    by (auto simp: placeAndAttach_def Let_def)
qed

end
