(* ===== verification/Billing.thy ===== *)
theory Billing
  imports Schema "HOL-Library.List_Lexorder" "HOL-Library.Char_ord"
begin

text \<open>
  The billing module (\<open>internal/billing/impl.go\<close>): the admission gate, metering under a
  watermark, the credit ledger, rate cards and the chargeback report.
\<close>

section \<open>Calendar\<close>

text \<open>
  The day of the month of a day number since 1970-01-01, in the proleptic Gregorian calendar:
  \<open>time.Date(now.Year(), now.Month(), 1, ...)\<close> is \<open>monthStart now\<close>. The process runs in UTC.
\<close>

definition day_of_month :: "int \<Rightarrow> int" where
  "day_of_month days =
     (let doe = (days + 719468) mod 146097;
          yoe = (doe - doe div 1460 + doe div 36524 - doe div 146096) div 365;
          doy = doe - (365 * yoe + yoe div 4 - yoe div 100);
          mp = (5 * doy + 2) div 153
      in doy - (153 * mp + 2) div 5 + 1)"

definition monthStart :: "time \<Rightarrow> time" where
  "monthStart now =
     (let days = now div (24 * hour) in (days - (day_of_month days - 1)) * (24 * hour))"

section \<open>The credit ledger\<close>

definition usdToINR :: money where
  "usdToINR = 83"

definition last_balance :: "uuid \<Rightarrow> ledger_entry list \<Rightarrow> money" where
  "last_balance orgID es =
     (case find (\<lambda>e. le_org e = orgID) (rev es) of None \<Rightarrow> 0 | Some e \<Rightarrow> le_balance e)"

definition ledger_kind_ok :: "string \<Rightarrow> bool" where
  "ledger_kind_ok k \<longleftrightarrow> k \<in> {''grant'', ''topup'', ''charge'', ''adjustment''}"

definition postLedgerTx ::
  "time \<Rightarrow> uuid \<Rightarrow> money \<Rightarrow> string \<Rightarrow> string \<Rightarrow> uuid option \<Rightarrow> db \<Rightarrow> err + db" where
  "postLedgerTx now orgID delta kind desc wid d =
     (if \<not> ledger_kind_ok kind then Inl (ErrConstraint ''credit_ledger_kind_check'')
      else if \<not> (\<exists>o' \<in> set (organizations d). o_ID o' = orgID)
        then Inl (ErrConstraint ''credit_ledger_org_id_fkey'')
      else Inr (d\<lparr>credit_ledger := credit_ledger d @
        [\<lparr>le_org = orgID, le_delta = num4 delta,
          le_balance = num4 (last_balance orgID (credit_ledger d) + delta),
          le_kind = kind, le_description = desc, le_workload = wid, le_created_at = now\<rparr>]\<rparr>))"

record CreditSummaryView =
  cs_Balance :: money
  cs_TotalGranted :: money
  cs_TotalSpent :: money
  cs_MonthSpent :: money
  cs_RecentEntries :: "ledger_entry list"

definition Ledger :: "uuid \<Rightarrow> int \<Rightarrow> db \<Rightarrow> ledger_entry list" where
  "Ledger orgID limit d =
     (let lim = (if limit \<le> 0 \<or> limit > 500 then 50 else limit)
      in take (nat lim) (rev (filter (\<lambda>e. le_org e = orgID) (credit_ledger d))))"

definition summary_of :: "time \<Rightarrow> uuid \<Rightarrow> db \<Rightarrow> CreditSummaryView" where
  "summary_of now orgID d =
     (let es = filter (\<lambda>e. le_org e = orgID) (credit_ledger d)
      in \<lparr>cs_Balance = last_balance orgID (credit_ledger d),
          cs_TotalGranted = sum_list (map le_delta (filter (\<lambda>e. le_delta e > 0) es)),
          cs_TotalSpent = - sum_list (map le_delta (filter (\<lambda>e. le_delta e < 0) es)),
          cs_MonthSpent = - sum_list (map le_delta
             (filter (\<lambda>e. le_delta e < 0 \<and> le_created_at e \<ge> monthStart now) es)),
          cs_RecentEntries = []\<rparr>)"

text \<open>
  The error of the first query is ignored and leaves the zero summary; the error of the second
  is returned.
\<close>

definition CreditSummary :: "clocks \<Rightarrow> uuid \<Rightarrow> sys \<Rightarrow> (err + CreditSummaryView) \<times> sys" where
  "CreditSummary clk orgID s =
     (let (r, s1) = atomically (\<lambda>d. Inr (summary_of (db_now clk) orgID d, d)) s;
          out = (case r of
                   Inr v \<Rightarrow> v
                 | Inl e \<Rightarrow> \<lparr>cs_Balance = 0, cs_TotalGranted = 0, cs_TotalSpent = 0,
                              cs_MonthSpent = 0, cs_RecentEntries = []\<rparr>)
      in case atomically (\<lambda>d. Inr (Ledger orgID 10 d, d)) s1 of
           (Inl e, s2) \<Rightarrow> (Inl e, s2)
         | (Inr es, s2) \<Rightarrow> (Inr (out\<lparr>cs_RecentEntries := es\<rparr>), s2))"

definition AddCredit :: "clocks \<Rightarrow> uuid \<Rightarrow> money \<Rightarrow> string \<Rightarrow> string \<Rightarrow> sys \<Rightarrow> (err + money) \<times> sys" where
  "AddCredit clk orgID amount kind description s =
     (if amount \<le> 0 then (Inl ErrAmount, s)
      else let kind' = (if kind = '''' then ''topup'' else kind)
      in case atomically (\<lambda>d. bindE (postLedgerTx (db_now clk) orgID amount kind' description None d)
                                (\<lambda>d1. Inr ((), d1))) s of
           (Inl e, s1) \<Rightarrow> (Inl e, s1)
         | (Inr u, s1) \<Rightarrow>
             (case CreditSummary clk orgID s1 of
                (Inl e, s2) \<Rightarrow> (Inl e, s2)
              | (Inr v, s2) \<Rightarrow> (Inr (cs_Balance v), s2)))"

section \<open>Rates\<close>

definition SetRate :: "clocks \<Rightarrow> uuid \<Rightarrow> uuid \<Rightarrow> string \<Rightarrow> money \<Rightarrow> string \<Rightarrow> sys \<Rightarrow> (err + RateCard) \<times> sys" where
  "SetRate clk rcID orgID gpuModel rate currency s =
     (let (_, s1) = atomically (\<lambda>d. Inr ((), d\<lparr>rate_cards :=
              upd (\<lambda>r. rc_OrgID r = orgID \<and> rc_GPUModel r = gpuModel \<and> rc_EffectiveTo r = None)
                  (\<lambda>r. r\<lparr>rc_EffectiveTo := Some (db_now clk)\<rparr>) (rate_cards d)\<rparr>)) s;
          rc = \<lparr>rc_ID = rcID, rc_OrgID = orgID, rc_GPUModel = gpuModel,
                rc_RatePerGPUHour = num4 rate, rc_Currency = currency,
                rc_EffectiveFrom = db_now clk, rc_EffectiveTo = None\<rparr>
      in atomically (\<lambda>d. Inr (rc, d\<lparr>rate_cards := rate_cards d @ [rc]\<rparr>)) s1)"

definition ListRates :: "uuid \<Rightarrow> db \<Rightarrow> RateCard list" where
  "ListRates orgID d =
     sort_key rc_GPUModel (filter (\<lambda>r. rc_OrgID r = orgID \<and> rc_EffectiveTo r = None) (rate_cards d))"

definition rate_card_at :: "uuid \<Rightarrow> string \<Rightarrow> time \<Rightarrow> db \<Rightarrow> RateCard option" where
  "rate_card_at orgID model t d =
     (case sort_key (\<lambda>r. - rc_EffectiveFrom r)
             (filter (\<lambda>r. rc_OrgID r = orgID \<and> rc_GPUModel r = model \<and> rc_EffectiveFrom r \<le> t \<and>
                (case rc_EffectiveTo r of None \<Rightarrow> True | Some e \<Rightarrow> t < e)) (rate_cards d)) of
        [] \<Rightarrow> None | r # _ \<Rightarrow> Some r)"

text \<open>
  The organisation default: a missing \<open>default_rate\<close> makes the scan fail before the currency
  is read, which leaves rate \<open>0\<close> and currency \<open>USD\<close>.
\<close>

definition default_rate :: "uuid \<Rightarrow> db \<Rightarrow> money \<times> string" where
  "default_rate orgID d =
     (case org_by_id orgID d of
        None \<Rightarrow> (0, ''USD'')
      | Some o' \<Rightarrow>
          (case os_DefaultRate (o_Settings o') of
             None \<Rightarrow> (0, ''USD'')
           | Some r \<Rightarrow> (r, case os_Currency (o_Settings o') of
                             None \<Rightarrow> ''USD'' | Some c \<Rightarrow> if c = '''' then ''USD'' else c)))"

definition effective_rate :: "uuid \<Rightarrow> string \<Rightarrow> time \<Rightarrow> db \<Rightarrow> money \<times> string \<times> uuid option" where
  "effective_rate orgID model t d =
     (case rate_card_at orgID model t d of
        Some r \<Rightarrow> (rc_RatePerGPUHour r, rc_Currency r, Some (rc_ID r))
      | None \<Rightarrow> (fst (default_rate orgID d), snd (default_rate orgID d), None))"

section \<open>Admission\<close>

definition usage_of_cost :: "CostRecord \<Rightarrow> db \<Rightarrow> UsageRecord option" where
  "usage_of_cost c d = find (\<lambda>u. cr_UsageRecordID c = Some (ur_ID u)) (usage_records d)"

definition workload_of_usage :: "UsageRecord \<Rightarrow> db \<Rightarrow> WorkloadRow option" where
  "workload_of_usage u d = find (\<lambda>w. ur_WorkloadID u = Some (w_ID w)) (workloads d)"

definition cost_in_scope :: "uuid \<Rightarrow> scope_type \<Rightarrow> uuid option \<Rightarrow> db \<Rightarrow> CostRecord \<Rightarrow> bool" where
  "cost_in_scope orgID st sid d c \<longleftrightarrow> cr_OrgID c = orgID \<and>
     (case st of
        ScopeProject \<Rightarrow> sid \<noteq> None \<and> cr_ProjectID c = sid
      | ScopeDepartment \<Rightarrow> sid \<noteq> None \<and>
          (case usage_of_cost c d of
             None \<Rightarrow> False
           | Some u \<Rightarrow> (case workload_of_usage u d of None \<Rightarrow> False | Some w \<Rightarrow> w_DepartmentID w = sid))
      | ScopeOrganization \<Rightarrow> True)"

definition scope_spend :: "time \<Rightarrow> uuid \<Rightarrow> scope_type \<Rightarrow> uuid option \<Rightarrow> db \<Rightarrow> money" where
  "scope_spend now orgID st sid d =
     sum_list (map cr_Amount (filter (\<lambda>c. cost_in_scope orgID st sid d c \<and> monthStart now \<le> cr_PeriodStart c)
       (cost_records d)))"

text \<open>The error of the query is ignored, which leaves a spend of zero.\<close>

definition scopeSpendINR :: "time \<Rightarrow> uuid \<Rightarrow> scope_type \<Rightarrow> uuid option \<Rightarrow> sys \<Rightarrow> money \<times> sys" where
  "scopeSpendINR now orgID st sid s =
     (case atomically (\<lambda>d. Inr (scope_spend now orgID st sid d, d)) s of
        (Inl e, s1) \<Rightarrow> (0, s1)
      | (Inr usd, s1) \<Rightarrow> (usd * usdToINR, s1))"

definition scope_name :: "scope_type \<Rightarrow> string" where
  "scope_name st = (case st of ScopeOrganization \<Rightarrow> ''organization''
     | ScopeDepartment \<Rightarrow> ''department'' | ScopeProject \<Rightarrow> ''project'')"

definition budget_applies :: "uuid \<Rightarrow> uuid option \<Rightarrow> uuid option \<Rightarrow> budget \<Rightarrow> bool" where
  "budget_applies orgID dept proj b \<longleftrightarrow> b_OrgID b = orgID \<and>
     (case b_scope_type b of
        ScopeOrganization \<Rightarrow> True
      | ScopeDepartment \<Rightarrow> dept \<noteq> None \<and> b_scope_id b = dept
      | ScopeProject \<Rightarrow> proj \<noteq> None \<and> b_scope_id b = proj)"

fun check_budgets :: "time \<Rightarrow> uuid \<Rightarrow> budget list \<Rightarrow> sys \<Rightarrow> (err + unit) \<times> sys" where
  "check_budgets now orgID [] s = (Inr (), s)"
| "check_budgets now orgID (b # bs) s =
     (if b_amount b \<le> 0 then check_budgets now orgID bs s
      else case scopeSpendINR now orgID (b_scope_type b) (b_scope_id b) s of
             (spend, s1) \<Rightarrow>
               if spend \<ge> b_amount b then (Inl (ErrBudgetExceeded (scope_name (b_scope_type b))), s1)
               else check_budgets now orgID bs s1)"

definition AuthorizeLaunch ::
  "bool \<Rightarrow> time \<Rightarrow> uuid \<Rightarrow> uuid option \<Rightarrow> uuid option \<Rightarrow> sys \<Rightarrow> (err + unit) \<times> sys" where
  "AuthorizeLaunch enforce now orgID dept proj s =
     (if \<not> enforce then (Inr (), s)
      else case atomically (\<lambda>d. Inr (last_balance orgID (credit_ledger d), d)) s of
             (Inl e, s1) \<Rightarrow> (Inl e, s1)
           | (Inr balance, s1) \<Rightarrow>
               if balance \<le> 0 then (Inl ErrInsufficientCredit, s1)
               else case atomically (\<lambda>d. Inr (filter (budget_applies orgID dept proj) (budgets d), d)) s1 of
                      (Inl e, s2) \<Rightarrow> (Inl e, s2)
                    | (Inr bs, s2) \<Rightarrow> check_budgets now orgID bs s2)"

text \<open>What admission means: credit, and no exhausted budget in scope.\<close>

definition admissible :: "time \<Rightarrow> uuid \<Rightarrow> uuid option \<Rightarrow> uuid option \<Rightarrow> db \<Rightarrow> bool" where
  "admissible now orgID dept proj d \<longleftrightarrow> 0 < last_balance orgID (credit_ledger d) \<and>
     (\<forall>b \<in> set (budgets d). budget_applies orgID dept proj b \<and> 0 < b_amount b \<longrightarrow>
        scope_spend now orgID (b_scope_type b) (b_scope_id b) d * usdToINR < b_amount b)"

section \<open>Metering\<close>

definition meterMinSlice :: duration where
  "meterMinSlice = 5 * minute"

definition next_usage_id :: "db \<Rightarrow> nat" where
  "next_usage_id d = Suc (fold max (map ur_ID (usage_records d)) 0)"

definition avg_util :: "uuid \<Rightarrow> time \<Rightarrow> time \<Rightarrow> db \<Rightarrow> money option" where
  "avg_util gid from to d =
     (let xs = List.map_filter gm_util
         (filter (\<lambda>m. gm_gpu m = gid \<and> from \<le> gm_ts m \<and> gm_ts m \<le> to) (gpu_metrics d))
      in if xs = [] then None else Some (sum_list xs / of_nat (length xs)))"

text \<open>The slice \<open>[from, to]\<close> that is due, if any.\<close>

definition meter_slice :: "time \<Rightarrow> WorkloadRow \<Rightarrow> (time \<times> time) option" where
  "meter_slice now w =
     (case w_StartedAt w of
        None \<Rightarrow> None
      | Some started \<Rightarrow>
          let from = (case w_metered_until w of
                        None \<Rightarrow> started | Some m \<Rightarrow> if m > started then m else started);
              terminal = terminal_state (w_Status w)
          in (case (if terminal then w_StoppedAt w else Some now) of
                None \<Rightarrow> None
              | Some to \<Rightarrow>
                  if \<not> to > from then None
                  else if \<not> terminal \<and> to - from < meterMinSlice then None
                  else Some (from, to)))"

definition workload_gpu_models :: "uuid \<Rightarrow> db \<Rightarrow> (uuid \<times> string) list" where
  "workload_gpu_models wid d =
     List.map_filter (\<lambda>a. if wg_workload a = wid
        then map_option (\<lambda>g. (g_ID g, g_Model g)) (gpu_by_id (wg_gpu a) d) else None) (workload_gpus d)"

definition slice_amount :: "uuid \<Rightarrow> string \<Rightarrow> time \<Rightarrow> time \<Rightarrow> db \<Rightarrow> money" where
  "slice_amount orgID model from to d =
     of_int (seconds_of (to - from)) / 3600 * fst (effective_rate orgID model to d)"

definition meter_gpu :: "WorkloadRow \<Rightarrow> time \<Rightarrow> time \<Rightarrow> uuid \<times> string \<Rightarrow> db \<Rightarrow> db" where
  "meter_gpu w from to g d =
     (let (rate, currency, rcID) = effective_rate (w_OrgID w) (snd g) to d;
          secs = seconds_of (to - from);
          uid = next_usage_id d
      in d\<lparr>usage_records := usage_records d @
             [\<lparr>ur_ID = uid, ur_OrgID = w_OrgID w, ur_WorkloadID = Some (w_ID w),
               ur_GPUID = Some (fst g), ur_ProjectID = w_ProjectID w, ur_UserID = Some (w_UserID w),
               ur_PeriodStart = from, ur_PeriodEnd = to, ur_GPUSeconds = secs,
               ur_AvgUtilPct = avg_util (fst g) from to d, ur_MaxMemMB = None,
               ur_Source = SourceWorkload\<rparr>],
           cost_records := cost_records d @
             [\<lparr>cr_OrgID = w_OrgID w, cr_UsageRecordID = Some uid, cr_RateCardID = rcID,
               cr_ProjectID = w_ProjectID w, cr_UserID = Some (w_UserID w),
               cr_PeriodStart = from, cr_PeriodEnd = to, cr_GPUSeconds = secs,
               cr_RatePerGPUHour = num4 rate, cr_Currency = currency,
               cr_Amount = num4 (of_int secs / 3600 * rate)\<rparr>]\<rparr>)"

definition slice_total :: "WorkloadRow \<Rightarrow> time \<Rightarrow> time \<Rightarrow> (uuid \<times> string) list \<Rightarrow> db \<Rightarrow> money" where
  "slice_total w from to gs d = sum_list (map (\<lambda>g. slice_amount (w_OrgID w) (snd g) from to d) gs)"

definition MeterWorkload :: "clocks \<Rightarrow> uuid \<Rightarrow> db \<Rightarrow> err + unit \<times> db" where
  "MeterWorkload clk wid d =
     (case workload_by_id wid d of
        None \<Rightarrow> Inr ((), d)
      | Some w \<Rightarrow>
          (case meter_slice (go_now clk) w of
             None \<Rightarrow> Inr ((), d)
           | Some (from, to) \<Rightarrow>
               let gs = workload_gpu_models wid d;
                   d1 = fold (meter_gpu w from to) gs d;
                   total = slice_total w from to gs d
               in bindE (if total > 0
                         then postLedgerTx (db_now clk) (w_OrgID w) (- total * usdToINR) ''charge''
                                ''Workload usage'' (Some wid) d1
                         else Inr d1) (\<lambda>d2.
                  Inr ((), d2\<lparr>workloads := upd (\<lambda>r. w_ID r = wid)
                             (\<lambda>r. r\<lparr>w_metered_until := Some to\<rparr>) (workloads d2)\<rparr>))))"

definition owes_slice :: "time \<Rightarrow> WorkloadRow \<Rightarrow> bool" where
  "owes_slice now w \<longleftrightarrow>
     (case w_StartedAt w of
        None \<Rightarrow> False
      | Some started \<Rightarrow>
          let mark = (case w_metered_until w of None \<Rightarrow> started | Some m \<Rightarrow> m)
          in ((w_Status w = WorkloadRunning \<or> w_Status w = WorkloadStopping) \<and> mark < now - 5 * minute)
           \<or> (terminal_state (w_Status w) \<and>
                (case w_StoppedAt w of None \<Rightarrow> False | Some e \<Rightarrow> mark < e)))"

fun meter_all :: "clocks \<Rightarrow> uuid list \<Rightarrow> nat \<Rightarrow> err option \<Rightarrow> sys \<Rightarrow> (nat \<times> err option) \<times> sys" where
  "meter_all clk [] n e s = ((n, e), s)"
| "meter_all clk (i # is) n e s =
     (case atomically (MeterWorkload clk i) s of
        (Inl x, s1) \<Rightarrow> meter_all clk is n (if e = None then Some x else e) s1
      | (Inr u, s1) \<Rightarrow> meter_all clk is (Suc n) e s1)"

definition MeterRunning :: "clocks \<Rightarrow> sys \<Rightarrow> (nat \<times> err option) \<times> sys" where
  "MeterRunning clk s =
     (case atomically (\<lambda>d. Inr (map w_ID (filter (owes_slice (db_now clk)) (workloads d)), d)) s of
        (Inl e, s1) \<Rightarrow> ((0, Some e), s1)
      | (Inr ids, s1) \<Rightarrow> meter_all clk ids 0 None s1)"

definition RecordUsage :: "UsageRecord \<Rightarrow> db \<Rightarrow> db" where
  "RecordUsage rec d = d\<lparr>usage_records := usage_records d @ [rec\<lparr>ur_ID := next_usage_id d\<rparr>]\<rparr>"

section \<open>Chargeback\<close>

record ChargebackRow =
  cb_GroupKey :: string
  cb_GPUHours :: money
  cb_Amount :: money
  cb_Currency :: string
  cb_UtilPct :: money

record ChargebackReport =
  rp_From :: time
  rp_To :: time
  rp_GroupBy :: string
  rp_Rows :: "ChargebackRow list"
  rp_Total :: money
  rp_Currency :: string
  rp_CoveragePct :: money

definition group_by_name :: "string \<Rightarrow> string" where
  "group_by_name g = (if g = ''project'' then ''project'' else if g = ''department'' then ''department''
     else if g = ''gpu_type'' \<or> g = ''gpu'' then ''gpu_type'' else ''user'')"

definition group_key :: "string \<Rightarrow> UsageRecord \<Rightarrow> db \<Rightarrow> string" where
  "group_key g u d =
     (if g = ''project'' then
        (case find (\<lambda>p. ur_ProjectID u = Some (pj_ID p)) (projects d) of
           None \<Rightarrow> ''unallocated'' | Some p \<Rightarrow> pj_Name p)
      else if g = ''department'' then
        (case workload_of_usage u d of
           None \<Rightarrow> ''unassigned''
         | Some w \<Rightarrow> (case find (\<lambda>p. w_DepartmentID w = Some (dp_ID p)) (departments d) of
                        None \<Rightarrow> ''unassigned'' | Some p \<Rightarrow> dp_Name p))
      else if g = ''gpu_type'' then
        (case find (\<lambda>x. ur_GPUID u = Some (g_ID x)) (gpus d) of
           None \<Rightarrow> ''unknown'' | Some x \<Rightarrow> g_Model x)
      else
        (case find (\<lambda>x. ur_UserID u = Some (u_ID x)) (users d) of
           None \<Rightarrow> ''system'' | Some x \<Rightarrow> u_Email x))"

definition cost_rows :: "uuid \<Rightarrow> time \<Rightarrow> time \<Rightarrow> string \<Rightarrow> db \<Rightarrow> (string \<times> CostRecord \<times> UsageRecord) list" where
  "cost_rows orgID from to g d =
     List.map_filter (\<lambda>c. map_option (\<lambda>u. (group_key g u d, c, u)) (usage_of_cost c d))
       (filter (\<lambda>c. cr_OrgID c = orgID \<and> from \<le> cr_PeriodStart c \<and> cr_PeriodEnd c \<le> to) (cost_records d))"

definition mean :: "money list \<Rightarrow> money" where
  "mean xs = (if xs = [] then 0 else sum_list xs / of_nat (length xs))"

definition chargeback_row :: "(string \<times> CostRecord \<times> UsageRecord) list \<Rightarrow> string \<Rightarrow> ChargebackRow" where
  "chargeback_row rows k =
     (let rs = map snd (filter (\<lambda>r. fst r = k) rows)
      in \<lparr>cb_GroupKey = k,
          cb_GPUHours = of_int (sum_list (map (cr_GPUSeconds \<circ> fst) rs)) / 3600,
          cb_Amount = sum_list (map (cr_Amount \<circ> fst) rs),
          cb_Currency = fold max (map (cr_Currency \<circ> fst) rs) '''',
          cb_UtilPct = mean (filter (\<lambda>x. x \<noteq> 0) (List.map_filter (ur_AvgUtilPct \<circ> snd) rs))\<rparr>)"

definition gpuCount :: "uuid \<Rightarrow> db \<Rightarrow> nat" where
  "gpuCount orgID d = affected (\<lambda>g. g_OrgID g = orgID) (gpus d)"

definition coverage_pct :: "uuid \<Rightarrow> time \<Rightarrow> time \<Rightarrow> db \<Rightarrow> money" where
  "coverage_pct orgID from to d =
     (let metered = of_int (sum_list (map ur_GPUSeconds (filter (\<lambda>u. ur_OrgID u = orgID \<and>
              from \<le> ur_PeriodStart u \<and> ur_PeriodEnd u \<le> to) (usage_records d))));
          wall = of_int (to - from) / of_int second * of_nat (gpuCount orgID d)
      in if wall > 0 then (if metered / wall * 100 > 100 then 100 else metered / wall * 100) else 0)"

definition Chargeback :: "uuid \<Rightarrow> time \<Rightarrow> time \<Rightarrow> string \<Rightarrow> db \<Rightarrow> ChargebackReport" where
  "Chargeback orgID from to groupBy d =
     (let g = group_by_name groupBy;
          rows = cost_rows orgID from to g d;
          out = sort_key (\<lambda>r. - cb_Amount r) (map (chargeback_row rows) (first_seen (map fst rows)))
      in \<lparr>rp_From = from, rp_To = to, rp_GroupBy = g, rp_Rows = out,
          rp_Total = sum_list (map cb_Amount out), rp_Currency = ''USD'',
          rp_CoveragePct = coverage_pct orgID from to d\<rparr>)"

section \<open>The ledger balance\<close>

definition ledger_sum :: "uuid \<Rightarrow> ledger_entry list \<Rightarrow> money" where
  "ledger_sum orgID es = sum_list (map le_delta (filter (\<lambda>e. le_org e = orgID) es))"

definition ledger_count :: "uuid \<Rightarrow> ledger_entry list \<Rightarrow> nat" where
  "ledger_count orgID es = length (filter (\<lambda>e. le_org e = orgID) es)"

text \<open>
  The running balance follows the sum of the deltas up to one unit of the last stored decimal
  per entry: delta and balance are rounded separately when they are stored.
\<close>

definition ledger_inv :: "db \<Rightarrow> bool" where
  "ledger_inv d \<longleftrightarrow> (\<forall>orgID. is_num4 (last_balance orgID (credit_ledger d)) \<and>
     \<bar>last_balance orgID (credit_ledger d) - ledger_sum orgID (credit_ledger d)\<bar>
       \<le> of_nat (ledger_count orgID (credit_ledger d)) / 10000)"

lemma last_balance_Nil [simp]: "last_balance orgID [] = 0"
  by (simp add: last_balance_def)

lemma last_balance_snoc [simp]:
  "last_balance orgID (es @ [e]) = (if le_org e = orgID then le_balance e else last_balance orgID es)"
  by (simp add: last_balance_def)

lemma ledger_sum_snoc [simp]:
  "ledger_sum orgID (es @ [e]) = ledger_sum orgID es + (if le_org e = orgID then le_delta e else 0)"
  by (simp add: ledger_sum_def)

lemma ledger_count_snoc [simp]:
  "ledger_count orgID (es @ [e]) = ledger_count orgID es + (if le_org e = orgID then 1 else 0)"
  by (simp add: ledger_count_def)

lemma ledger_inv_empty: "ledger_inv empty_db"
  by (simp add: ledger_inv_def empty_db_def is_num4_def ledger_sum_def)

lemma postLedgerTx_Inr:
  assumes "postLedgerTx now orgID delta kind desc wid d = Inr d'"
  shows "d' = d\<lparr>credit_ledger := credit_ledger d @
        [\<lparr>le_org = orgID, le_delta = num4 delta,
          le_balance = num4 (last_balance orgID (credit_ledger d) + delta),
          le_kind = kind, le_description = desc, le_workload = wid, le_created_at = now\<rparr>]\<rparr>"
  using assms by (auto simp: postLedgerTx_def split: if_splits)

lemma postLedgerTx_ledger_inv:
  assumes "postLedgerTx now orgID delta kind desc wid d = Inr d'" and "ledger_inv d"
  shows "ledger_inv d'"
  unfolding ledger_inv_def
proof
  fix q
  let ?b = "last_balance q (credit_ledger d)"
  have inv: "is_num4 ?b" "\<bar>?b - ledger_sum q (credit_ledger d)\<bar> \<le> of_nat (ledger_count q (credit_ledger d)) / 10000"
    using assms(2) by (auto simp: ledger_inv_def)
  show "is_num4 (last_balance q (credit_ledger d')) \<and>
     \<bar>last_balance q (credit_ledger d') - ledger_sum q (credit_ledger d')\<bar>
       \<le> of_nat (ledger_count q (credit_ledger d')) / 10000"
  proof (cases "q = orgID")
    case True
    have "\<bar>num4 (?b + delta) - (?b + num4 delta)\<bar> \<le> 1/10000" by (rule num4_shift_bound [OF inv(1)])
    then have "\<bar>num4 (?b + delta) - (ledger_sum q (credit_ledger d) + num4 delta)\<bar>
       \<le> (of_nat (ledger_count q (credit_ledger d)) + 1) / 10000"
      using inv(2) unfolding add_divide_distrib by linarith
    then show ?thesis using True by (simp add: postLedgerTx_Inr [OF assms(1)] add.commute)
  next
    case False
    then show ?thesis using inv by (simp add: postLedgerTx_Inr [OF assms(1)])
  qed
qed

lemma postLedgerTx_exact:
  assumes "postLedgerTx now orgID delta kind desc wid d = Inr d'" and "is_num4 delta"
    and "is_num4 (last_balance orgID (credit_ledger d))"
  shows "last_balance orgID (credit_ledger d') = last_balance orgID (credit_ledger d) + delta"
    and "ledger_sum orgID (credit_ledger d') = ledger_sum orgID (credit_ledger d) + delta"
  using assms(2,3) num4_add_exact
  by (simp_all add: postLedgerTx_Inr [OF assms(1)] is_num4_def)

section \<open>Admission\<close>

lemma atomically_read:
  assumes "atomically (\<lambda>d. Inr (f d, d)) s = (r, s')"
  shows "s_db s' = s_db s" and "r = Inl ErrDB \<or> r = Inr (f (s_db s))"
    and "s_faults s = [] \<Longrightarrow> r = Inr (f (s_db s)) \<and> s' = s"
  using assms by (auto simp: atomically_def Let_def split: if_splits)

lemma scopeSpendINR_db [simp]: "s_db (snd (scopeSpendINR now orgID st sid s)) = s_db s"
  by (auto simp: scopeSpendINR_def dest: atomically_read split: prod.split sum.split)

lemma scopeSpendINR_no_fault:
  "s_faults s = [] \<Longrightarrow> scopeSpendINR now orgID st sid s = (scope_spend now orgID st sid (s_db s) * usdToINR, s)"
  by (simp add: scopeSpendINR_def atomically_no_fault)

lemma check_budgets_db: "s_db (snd (check_budgets now orgID bs s)) = s_db s"
proof (induction bs arbitrary: s)
  case (Cons b bs)
  obtain sp s1 where "scopeSpendINR now orgID (b_scope_type b) (b_scope_id b) s = (sp, s1)" by fastforce
  then show ?case using Cons [of s] Cons [of s1] scopeSpendINR_db [of now orgID "b_scope_type b" "b_scope_id b" s]
    by simp
qed simp

lemma AuthorizeLaunch_db [simp]: "s_db (snd (AuthorizeLaunch enforce now orgID dept proj s)) = s_db s"
  by (auto simp: AuthorizeLaunch_def check_budgets_db dest!: atomically_read(1) split: prod.split sum.split)

lemma AuthorizeLaunch_eq_db:
  "AuthorizeLaunch enforce now orgID dept proj s = (r, s') \<Longrightarrow> s_db s' = s_db s"
  using AuthorizeLaunch_db [of enforce now orgID dept proj s] by simp

lemma check_budgets_no_fault:
  assumes "s_faults s = []"
  shows "snd (check_budgets now orgID bs s) = s"
    and "fst (check_budgets now orgID bs s) = Inr () \<longleftrightarrow>
      (\<forall>b \<in> set bs. 0 < b_amount b \<longrightarrow> scope_spend now orgID (b_scope_type b) (b_scope_id b) (s_db s) * usdToINR < b_amount b)"
  using assms by (induction bs) (auto simp: scopeSpendINR_no_fault not_le)

lemma AuthorizeLaunch_no_fault:
  assumes "s_faults s = []"
  shows "snd (AuthorizeLaunch True now orgID dept proj s) = s"
    and "fst (AuthorizeLaunch True now orgID dept proj s) = Inr () \<longleftrightarrow> admissible now orgID dept proj (s_db s)"
  using assms check_budgets_no_fault [OF assms, of now orgID "filter (budget_applies orgID dept proj) (budgets (s_db s))"]
  by (auto simp: AuthorizeLaunch_def admissible_def atomically_no_fault)

section \<open>Metering changes only billing tables and the watermark\<close>

definition billing_frame :: "db \<Rightarrow> db \<Rightarrow> bool" where
  "billing_frame d d' \<longleftrightarrow> gpus d' = gpus d \<and> gpu_nodes d' = gpu_nodes d \<and>
     workload_gpus d' = workload_gpus d \<and> agent_commands d' = agent_commands d \<and>
     rate_cards d' = rate_cards d \<and> organizations d' = organizations d \<and>
     gpu_metrics d' = gpu_metrics d"

lemma meter_gpu_simps [simp]:
  "workloads (meter_gpu w from to g d) = workloads d"
  "credit_ledger (meter_gpu w from to g d) = credit_ledger d"
  "organizations (meter_gpu w from to g d) = organizations d"
  "billing_frame d (meter_gpu w from to g d)"
  by (simp_all add: meter_gpu_def billing_frame_def Let_def split: prod.splits)

lemma billing_frame_trans: "billing_frame a b \<Longrightarrow> billing_frame b c \<Longrightarrow> billing_frame a c"
  by (simp add: billing_frame_def)

lemma fold_meter_gpu_frame:
  "workloads (fold (meter_gpu w from to) gs d) = workloads d \<and>
   credit_ledger (fold (meter_gpu w from to) gs d) = credit_ledger d \<and>
   billing_frame d (fold (meter_gpu w from to) gs d)"
proof (induction gs arbitrary: d)
  case Nil
  then show ?case by (simp add: billing_frame_def)
next
  case (Cons g gs)
  then show ?case using billing_frame_trans [OF meter_gpu_simps(4)] by fastforce
qed

lemma effective_rate_frame:
  "billing_frame d d' \<Longrightarrow> effective_rate orgID model t d' = effective_rate orgID model t d"
proof -
  assume f: "billing_frame d d'"
  then have "rate_card_at orgID model t d' = rate_card_at orgID model t d"
    by (simp add: rate_card_at_def billing_frame_def)
  moreover have "default_rate orgID d' = default_rate orgID d"
    using f unfolding default_rate_def org_by_id_def billing_frame_def by simp
  ultimately show ?thesis by (simp add: effective_rate_def split: option.split)
qed

text \<open>What one metered slice appends: one usage and one cost record per attached GPU.\<close>

definition is_slice_usage :: "WorkloadRow \<Rightarrow> time \<Rightarrow> time \<Rightarrow> uuid \<Rightarrow> UsageRecord \<Rightarrow> bool" where
  "is_slice_usage w from to gid u \<longleftrightarrow> ur_WorkloadID u = Some (w_ID w) \<and> ur_OrgID u = w_OrgID w \<and>
     ur_GPUID u = Some gid \<and> ur_PeriodStart u = from \<and> ur_PeriodEnd u = to \<and>
     ur_GPUSeconds u = seconds_of (to - from)"

lemma fold_meter_gpu_usage:
  "\<exists>us. usage_records (fold (meter_gpu w from to) gs d) = usage_records d @ us \<and>
        list_all2 (\<lambda>g u. is_slice_usage w from to (fst g) u) gs us"
proof (induction gs arbitrary: d)
  case (Cons g gs)
  obtain us where us: "usage_records (fold (meter_gpu w from to) gs (meter_gpu w from to g d)) =
      usage_records (meter_gpu w from to g d) @ us"
    "list_all2 (\<lambda>g u. is_slice_usage w from to (fst g) u) gs us" using Cons by blast
  have "\<exists>u. usage_records (meter_gpu w from to g d) = usage_records d @ [u] \<and>
      is_slice_usage w from to (fst g) u"
    by (simp add: meter_gpu_def is_slice_usage_def Let_def split: prod.split)
  then obtain u where "usage_records (meter_gpu w from to g d) = usage_records d @ [u]"
    "is_slice_usage w from to (fst g) u" by blast
  then show ?case using us by (intro exI [of _ "u # us"]) simp
qed simp

lemma fold_meter_gpu_cost:
  "map cr_Amount (cost_records (fold (meter_gpu w from to) gs d)) =
     map cr_Amount (cost_records d) @
     map (\<lambda>g. num4 (slice_amount (w_OrgID w) (snd g) from to d)) gs"
proof (induction gs arbitrary: d)
  case (Cons g gs)
  have r: "effective_rate (w_OrgID w) (snd h) to (meter_gpu w from to g d) =
      effective_rate (w_OrgID w) (snd h) to d" for h :: "uuid \<times> string"
    by (rule effective_rate_frame) simp
  have "map cr_Amount (cost_records (meter_gpu w from to g d)) =
      map cr_Amount (cost_records d) @ [num4 (slice_amount (w_OrgID w) (snd g) from to d)]"
    by (simp add: meter_gpu_def slice_amount_def Let_def split: prod.splits)
  then show ?case using Cons [of "meter_gpu w from to g d"] by (simp add: slice_amount_def r)
qed simp

lemma MeterWorkload_cases:
  assumes "MeterWorkload clk wid d = Inr ((), d')"
  obtains (nothing) "d' = d" and "\<And>w. workload_by_id wid d = Some w \<Longrightarrow> meter_slice (go_now clk) w = None"
  | (billed) w fr until d1 d2 where "workload_by_id wid d = Some w"
      and "meter_slice (go_now clk) w = Some (fr, until)"
      and "d1 = fold (meter_gpu w fr until) (workload_gpu_models wid d) d"
      and "d2 = d1 \<and> \<not> 0 < slice_total w fr until (workload_gpu_models wid d) d \<or>
           0 < slice_total w fr until (workload_gpu_models wid d) d \<and>
           postLedgerTx (db_now clk) (w_OrgID w)
             (- slice_total w fr until (workload_gpu_models wid d) d * usdToINR) ''charge''
             ''Workload usage'' (Some wid) d1 = Inr d2"
      and "d' = d2\<lparr>workloads := upd (\<lambda>r. w_ID r = wid) (\<lambda>r. r\<lparr>w_metered_until := Some until\<rparr>) (workloads d)\<rparr>"
proof (cases "workload_by_id wid d")
  case None
  then have "d' = d" using assms by (simp add: MeterWorkload_def)
  then show ?thesis by (rule nothing) (use None in simp)
next
  case (Some w)
  show ?thesis
  proof (cases "meter_slice (go_now clk) w")
    case None
    then have "d' = d" using assms \<open>workload_by_id wid d = Some w\<close> by (simp add: MeterWorkload_def)
    then show ?thesis by (rule nothing) (use None \<open>workload_by_id wid d = Some w\<close> in simp)
  next
    case (Some ft)
    obtain fr until where ft: "ft = (fr, until)" by (cases ft)
    define d1 where "d1 = fold (meter_gpu w fr until) (workload_gpu_models wid d) d"
    have "\<exists>d2. (if slice_total w fr until (workload_gpu_models wid d) d > 0
         then postLedgerTx (db_now clk) (w_OrgID w)
           (- slice_total w fr until (workload_gpu_models wid d) d * usdToINR) ''charge''
             ''Workload usage'' (Some wid) d1 else Inr d1) = Inr d2 \<and>
        d' = d2\<lparr>workloads := upd (\<lambda>r. w_ID r = wid) (\<lambda>r. r\<lparr>w_metered_until := Some until\<rparr>) (workloads d2)\<rparr>"
      using assms \<open>workload_by_id wid d = Some w\<close> Some
      by (auto simp: MeterWorkload_def ft d1_def Let_def bindE_Inr_iff split: if_splits)
    then obtain d2 where d2: "(if slice_total w fr until (workload_gpu_models wid d) d > 0
         then postLedgerTx (db_now clk) (w_OrgID w)
           (- slice_total w fr until (workload_gpu_models wid d) d * usdToINR) ''charge''
             ''Workload usage'' (Some wid) d1 else Inr d1) = Inr d2"
      and d': "d' = d2\<lparr>workloads := upd (\<lambda>r. w_ID r = wid) (\<lambda>r. r\<lparr>w_metered_until := Some until\<rparr>) (workloads d2)\<rparr>"
      by blast
    have "workloads d2 = workloads d"
      using d2 fold_meter_gpu_frame [of w fr until "workload_gpu_models wid d" d]
      by (auto simp: d1_def dest!: postLedgerTx_Inr split: if_splits)
    then show ?thesis
      using billed [OF \<open>workload_by_id wid d = Some w\<close> _ d1_def, of d2] Some ft d2 d'
      by (auto split: if_splits)
  qed
qed

end
