(* ===== verification/Image_Ref.thy ===== *)
theory Image_Ref
  imports Prelude
begin

text \<open>
  The container image reference check of \<open>workloads/impl.go\<close>. Go's \<open>regexp\<close> decides
  membership in a regular language; the matcher below does so by derivatives over an expression
  with the structure of \<open>imageRefPattern\<close>, and is proved equivalent to the language.
\<close>

section \<open>Regular expressions\<close>

datatype rx = Zero | One | Cls "char \<Rightarrow> bool" | Alt rx rx | Seq rx rx | Star rx

inductive_set star :: "string set \<Rightarrow> string set" for L :: "string set" where
  star_Nil: "[] \<in> star L"
| star_append: "u \<in> L \<Longrightarrow> v \<in> star L \<Longrightarrow> u @ v \<in> star L"

primrec lang :: "rx \<Rightarrow> string set" where
  "lang Zero = {}"
| "lang One = {[]}"
| "lang (Cls p) = {[c] | c. p c}"
| "lang (Alt r q) = lang r \<union> lang q"
| "lang (Seq r q) = {u @ v | u v. u \<in> lang r \<and> v \<in> lang q}"
| "lang (Star r) = star (lang r)"

primrec nullable :: "rx \<Rightarrow> bool" where
  "nullable Zero \<longleftrightarrow> False"
| "nullable One \<longleftrightarrow> True"
| "nullable (Cls p) \<longleftrightarrow> False"
| "nullable (Alt r q) \<longleftrightarrow> nullable r \<or> nullable q"
| "nullable (Seq r q) \<longleftrightarrow> nullable r \<and> nullable q"
| "nullable (Star r) \<longleftrightarrow> True"

fun mk_alt :: "rx \<Rightarrow> rx \<Rightarrow> rx" where
  "mk_alt Zero q = q"
| "mk_alt r Zero = r"
| "mk_alt r q = Alt r q"

fun mk_seq :: "rx \<Rightarrow> rx \<Rightarrow> rx" where
  "mk_seq Zero q = Zero"
| "mk_seq One q = q"
| "mk_seq r q = Seq r q"

primrec deriv :: "char \<Rightarrow> rx \<Rightarrow> rx" where
  "deriv c Zero = Zero"
| "deriv c One = Zero"
| "deriv c (Cls p) = (if p c then One else Zero)"
| "deriv c (Alt r q) = mk_alt (deriv c r) (deriv c q)"
| "deriv c (Seq r q) =
     (if nullable r then mk_alt (mk_seq (deriv c r) q) (deriv c q) else mk_seq (deriv c r) q)"
| "deriv c (Star r) = mk_seq (deriv c r) (Star r)"

fun matches :: "rx \<Rightarrow> string \<Rightarrow> bool" where
  "matches r [] \<longleftrightarrow> nullable r"
| "matches r (c # s) \<longleftrightarrow> matches (deriv c r) s"

lemma lang_mk_alt [simp]: "lang (mk_alt r q) = lang r \<union> lang q"
  by (cases "(r, q)" rule: mk_alt.cases) auto

lemma lang_mk_seq [simp]: "lang (mk_seq r q) = lang (Seq r q)"
  by (cases "(r, q)" rule: mk_seq.cases) auto

lemma nullable_lang: "nullable r \<longleftrightarrow> [] \<in> lang r"
  by (induction r) (auto intro: star_Nil)

lemma star_Cons_iff: "c # s \<in> star L \<longleftrightarrow> (\<exists>u v. s = u @ v \<and> c # u \<in> L \<and> v \<in> star L)"
proof
  assume "c # s \<in> star L"
  then show "\<exists>u v. s = u @ v \<and> c # u \<in> L \<and> v \<in> star L"
  proof (induction "c # s" arbitrary: s rule: star.induct)
    case (star_append u v)
    then show ?case by (cases u) auto
  qed
next
  assume "\<exists>u v. s = u @ v \<and> c # u \<in> L \<and> v \<in> star L"
  then obtain u v where "s = u @ v" and "c # u \<in> L" and "v \<in> star L" by blast
  then show "c # s \<in> star L" using star_append [of "c # u" L v] by simp
qed

lemma lang_deriv: "lang (deriv c r) = {s. c # s \<in> lang r}"
proof (induction r)
  case (Seq r q)
  then show ?case
    by (auto simp: nullable_lang Cons_eq_append_conv)
next
  case (Star r)
  then show ?case by (auto simp: star_Cons_iff)
qed auto

theorem matches_iff_lang: "matches r s \<longleftrightarrow> s \<in> lang r"
  by (induction s arbitrary: r) (simp_all add: nullable_lang lang_deriv)

text \<open>The characters of the strings of a language come from its character classes.\<close>

primrec classes_within :: "(char \<Rightarrow> bool) \<Rightarrow> rx \<Rightarrow> bool" where
  "classes_within P Zero \<longleftrightarrow> True"
| "classes_within P One \<longleftrightarrow> True"
| "classes_within P (Cls p) \<longleftrightarrow> (\<forall>c. p c \<longrightarrow> P c)"
| "classes_within P (Alt r q) \<longleftrightarrow> classes_within P r \<and> classes_within P q"
| "classes_within P (Seq r q) \<longleftrightarrow> classes_within P r \<and> classes_within P q"
| "classes_within P (Star r) \<longleftrightarrow> classes_within P r"

lemma star_chars: "s \<in> star L \<Longrightarrow> (\<And>u. u \<in> L \<Longrightarrow> list_all P u) \<Longrightarrow> list_all P s"
  by (induction rule: star.induct) auto

lemma lang_chars: "classes_within P r \<Longrightarrow> s \<in> lang r \<Longrightarrow> list_all P s"
  by (induction r arbitrary: s) (auto dest: star_chars)

section \<open>The pattern\<close>

definition between :: "char \<Rightarrow> char \<Rightarrow> char \<Rightarrow> bool" where
  "between a b c \<longleftrightarrow> (of_char a :: nat) \<le> of_char c \<and> of_char c \<le> (of_char b :: nat)"

definition is_digit :: "char \<Rightarrow> bool" where
  "is_digit = between CHR ''0'' CHR ''9''"

definition is_alnum :: "char \<Rightarrow> bool" where
  "is_alnum c \<longleftrightarrow> between CHR ''a'' CHR ''z'' c \<or> between CHR ''A'' CHR ''Z'' c \<or> is_digit c"

definition is_hex :: "char \<Rightarrow> bool" where
  "is_hex c \<longleftrightarrow> between CHR ''a'' CHR ''f'' c \<or> between CHR ''A'' CHR ''F'' c \<or> is_digit c"

definition is_name_char :: "char \<Rightarrow> bool" where
  "is_name_char c \<longleftrightarrow> is_alnum c \<or> c = CHR ''.'' \<or> c = CHR ''_'' \<or> c = CHR ''-''"

definition rx_opt :: "rx \<Rightarrow> rx" where
  "rx_opt r = Alt r One"

definition rx_plus :: "rx \<Rightarrow> rx" where
  "rx_plus r = Seq r (Star r)"

primrec rx_lit :: "string \<Rightarrow> rx" where
  "rx_lit [] = One"
| "rx_lit (c # s) = Seq (Cls (\<lambda>x. x = c)) (rx_lit s)"

primrec rx_times :: "nat \<Rightarrow> rx \<Rightarrow> rx" where
  "rx_times 0 r = One"
| "rx_times (Suc n) r = Seq r (rx_times n r)"

definition imageRefPattern :: rx where
  "imageRefPattern =
     Seq (Cls is_alnum)
    (Seq (Star (Cls is_name_char))
    (Seq (rx_opt (Seq (rx_lit '':'') (rx_plus (Cls is_digit))))
    (Seq (Star (Seq (rx_lit ''/'') (rx_plus (Cls is_name_char))))
    (Seq (rx_opt (Seq (rx_lit '':'') (rx_plus (Cls is_name_char))))
         (rx_opt (Seq (rx_lit ''@sha256:'') (rx_times 64 (Cls is_hex))))))))"

text \<open>What may occur in a reference: no white space, quotes, shell metacharacters or controls.\<close>

definition is_ref_char :: "char \<Rightarrow> bool" where
  "is_ref_char c \<longleftrightarrow> is_name_char c \<or> c = CHR '':'' \<or> c = CHR ''/'' \<or> c = CHR ''@''"

lemma is_digit_alnum: "is_digit c \<Longrightarrow> is_alnum c"
  by (simp add: is_alnum_def)

lemma is_hex_alnum: "is_hex c \<Longrightarrow> is_alnum c"
  by (auto simp: is_hex_def is_alnum_def between_def)

lemma classes_within_lit: "list_all P s \<Longrightarrow> classes_within P (rx_lit s)"
  by (induction s) auto

lemma classes_within_times: "classes_within P r \<Longrightarrow> classes_within P (rx_times n r)"
  by (induction n) auto

lemma classes_within_pattern: "classes_within is_ref_char imageRefPattern"
proof -
  have lits: "list_all is_ref_char '':''" "list_all is_ref_char ''/''" "list_all is_ref_char ''@sha256:''"
    by (simp_all add: is_ref_char_def is_name_char_def is_alnum_def is_digit_def between_def)
  have "is_digit c \<Longrightarrow> is_ref_char c" "is_hex c \<Longrightarrow> is_ref_char c" "is_name_char c \<Longrightarrow> is_ref_char c"
    "is_alnum c \<Longrightarrow> is_ref_char c" for c
    using is_digit_alnum is_hex_alnum by (auto simp: is_ref_char_def is_name_char_def)
  then show ?thesis
    unfolding imageRefPattern_def rx_opt_def rx_plus_def
    using lits by (simp add: classes_within_times)
qed

lemma imageRef_safe:
  assumes "matches imageRefPattern s"
  shows "list_all is_ref_char s" and "s \<noteq> []" and "is_alnum (hd s)"
proof -
  have s: "s \<in> lang imageRefPattern" using assms by (simp add: matches_iff_lang)
  then show "list_all is_ref_char s" by (rule lang_chars [OF classes_within_pattern])
  obtain c u where "s = c # u" and "is_alnum c"
    using s unfolding imageRefPattern_def by auto
  then show "s \<noteq> []" and "is_alnum (hd s)" by simp_all
qed

lemma ref_char_excludes:
  "is_ref_char c \<Longrightarrow> c \<notin> set '' ;&|$<>()!*?~#''"
  "is_ref_char c \<Longrightarrow> 32 < (of_char c :: nat)"
  by (auto simp: is_ref_char_def is_name_char_def is_alnum_def is_digit_def between_def)

end
