(* ===== verification/Workloads.thy ===== *)
theory Workloads
  imports Placement Billing Image_Ref
begin

text \<open>
  The workloads module (\<open>internal/workloads\<close>): request validation, \<open>Launch\<close>,
  \<open>Stop\<close>, agent status reports, the stuck sweep, queries, the queue and lifecycle events.
  Every method is a function from its arguments and the process state to a result and a new
  state; each transaction, and each statement on the pool, is one \<open>atomically\<close>. UUIDs and
  random bytes that a method draws are arguments.
\<close>

section \<open>Configuration\<close>

text \<open>
  The optional collaborators of \<open>ServiceImpl\<close>. \<open>sv_billing\<close> is \<open>None\<close> for a
  nil \<open>Biller\<close> and otherwise the \<open>enforce\<close> flag of the billing service.
\<close>

record service =
  sv_billing :: "bool option"
  sv_audit :: bool
  sv_publish :: bool

definition sv_notify :: "service \<Rightarrow> uuid \<Rightarrow> string list \<Rightarrow> sys \<Rightarrow> sys" where
  "sv_notify sv orgID topics s = (if sv_publish sv then notify orgID topics s else s)"

definition auditSystem ::
  "service \<Rightarrow> uuid \<Rightarrow> string \<Rightarrow> string \<Rightarrow> uuid \<Rightarrow> (string \<times> json) list \<Rightarrow> sys \<Rightarrow> sys" where
  "auditSystem sv orgID actorType action wid meta s =
     (if \<not> sv_audit sv then s
      else audit \<lparr>al_OrgID = orgID, al_ActorType = actorType, al_ActorID = '''', al_Action = action,
                  al_TargetType = ''workload'', al_TargetID = uuid_str wid, al_Metadata = meta, al_IP = ''''\<rparr> s)"

lemma sv_effects [simp]:
  "s_db (sv_notify sv orgID ts s) = s_db s" "s_db (auditSystem sv orgID a b w m s) = s_db s"
  "s_faults (sv_notify sv orgID ts s) = s_faults s"
  "s_faults (auditSystem sv orgID a b w m s) = s_faults s"
  by (simp_all add: sv_notify_def auditSystem_def)

definition randomPassword :: "nat list \<Rightarrow> string" where
  "randomPassword b = take 16 (concat (map (\<lambda>x. [hex_digit (x div 16), hex_digit x]) b))"

section \<open>Validation\<close>

record LaunchRequest =
  lr_UserID :: uuid
  lr_ProjectID :: "uuid option"
  lr_DepartmentID :: "uuid option"
  lr_Name :: string
  lr_TemplateID :: "uuid option"
  lr_Image :: string
  lr_GPUType :: string
  lr_GPUCount :: int
  lr_IdleTimeoutSec :: "int option"
  lr_ExposeSSH :: bool
  lr_ExposeJupyter :: bool

definition maxGPUsPerWorkload :: int where "maxGPUsPerWorkload = 16"
definition maxNameLen :: nat where "maxNameLen = 120"
definition maxImageLen :: nat where "maxImageLen = 256"
definition minIdleTimeoutSec :: int where "minIdleTimeoutSec = 60"
definition maxIdleTimeoutSec :: int where "maxIdleTimeoutSec = 7 * 24 * 3600"

lemmas launch_limits = maxGPUsPerWorkload_def maxNameLen_def maxImageLen_def
  minIdleTimeoutSec_def maxIdleTimeoutSec_def

definition validateLaunch :: "LaunchRequest \<Rightarrow> err + LaunchRequest" where
  "validateLaunch req0 =
     (let req = req0\<lparr>lr_Name := TrimSpace (lr_Name req0)\<rparr>
      in if lr_Name req = '''' then Inl (ErrInvalidRequest ''name is required'')
         else if length (lr_Name req) > maxNameLen then Inl (ErrInvalidRequest ''name must be at most 120 characters'')
         else if lr_GPUCount req > maxGPUsPerWorkload then Inl (ErrInvalidRequest ''gpu_count must be between 1 and 16'')
         else if length (lr_Image req) > maxImageLen
           then Inl (ErrInvalidRequest ''image reference too long'')
         else if lr_Image req \<noteq> '''' \<and> \<not> matches imageRefPattern (lr_Image req)
           then Inl (ErrInvalidRequest ''image is not a valid container image reference'')
         else
           let req1 = (if lr_GPUCount req \<le> 0 then req\<lparr>lr_GPUCount := 1\<rparr> else req)
           in (case lr_IdleTimeoutSec req1 of
                 None \<Rightarrow> Inr req1
               | Some t \<Rightarrow>
                   if t < 0 then Inl (ErrInvalidRequest ''idle_timeout_sec cannot be negative'')
                   else if t = 0 then Inr (req1\<lparr>lr_IdleTimeoutSec := None\<rparr>)
                   else if t < minIdleTimeoutSec then Inl (ErrInvalidRequest ''idle_timeout_sec must be at least 60'')
                   else if t > maxIdleTimeoutSec then Inl (ErrInvalidRequest ''idle_timeout_sec must be at most 604800 (7 days)'')
                   else Inr req1))"

section \<open>Persistence and commands\<close>

definition insertWorkload ::
  "Workload \<Rightarrow> string \<Rightarrow> string \<Rightarrow> time option \<Rightarrow> db \<Rightarrow> err + db" where
  "insertWorkload w stage gpuType queuedAt d =
     (if \<exists>r \<in> set (workloads d). w_ID r = w_ID w then Inl (ErrConstraint ''workloads_pkey'')
      else if \<not> (\<exists>o' \<in> set (organizations d). o_ID o' = w_OrgID w)
        then Inl (ErrConstraint ''workloads_org_id_fkey'')
      else if \<not> (case w_ProjectID w of None \<Rightarrow> True | Some i \<Rightarrow> \<exists>p \<in> set (projects d). pj_ID p = i)
        then Inl (ErrConstraint ''workloads_project_id_fkey'')
      else if \<not> (case w_DepartmentID w of None \<Rightarrow> True | Some i \<Rightarrow> \<exists>p \<in> set (departments d). dp_ID p = i)
        then Inl (ErrConstraint ''workloads_department_id_fkey'')
      else if \<not> (case w_TemplateID w of None \<Rightarrow> True | Some i \<Rightarrow> \<exists>p \<in> set (templates d). tp_ID p = i)
        then Inl (ErrConstraint ''workloads_template_id_fkey'')
      else if \<not> (\<exists>u \<in> set (users d). u_ID u = w_UserID w)
        then Inl (ErrConstraint ''workloads_user_id_fkey'')
      else if \<not> (case w_NodeID w of None \<Rightarrow> True | Some i \<Rightarrow> \<exists>n \<in> set (gpu_nodes d). n_ID n = i)
        then Inl (ErrConstraint ''workloads_node_id_fkey'')
      else Inr (d\<lparr>workloads := workloads d @
        [\<lparr>w_ID = w_ID w, w_OrgID = w_OrgID w, w_ProjectID = w_ProjectID w,
          w_DepartmentID = w_DepartmentID w, w_TemplateID = w_TemplateID w, w_UserID = w_UserID w,
          w_NodeID = w_NodeID w, w_Name = w_Name w, w_Image = w_Image w,
          w_ContainerID = w_ContainerID w, w_RequestedGPUCount = w_RequestedGPUCount w,
          w_Status = w_Status w, w_Stage = stage, w_IdleTimeoutSec = w_IdleTimeoutSec w,
          w_ExposeSSH = w_ExposeSSH w, w_ExposeJupyter = w_ExposeJupyter w,
          w_SSHPassword = w_SSHPassword w, w_SSHEndpoint = '''', w_JupyterEndpoint = '''',
          w_Logs = '''', w_StartedAt = None, w_StoppedAt = None, w_StopReason = None,
          w_CreatedAt = w_CreatedAt w, w_stopping_at = None, w_queued_at = queuedAt,
          w_requested_gpu_type = gpuType, w_metered_until = None\<rparr>]\<rparr>))"

definition launchDeliveryDeadline :: duration where
  "launchDeliveryDeadline = 10 * minute"

text \<open>\<open>uint32(x)\<close> of a Go \<open>int\<close> keeps the low 32 bits.\<close>

definition enqueueLaunch :: "clocks \<Rightarrow> uuid \<Rightarrow> Workload \<Rightarrow> placement \<Rightarrow> db \<Rightarrow> err + db" where
  "enqueueLaunch clk cmdID w p d =
     (let idleTimeout = (case w_IdleTimeoutSec w of None \<Rightarrow> 3600 | Some t \<Rightarrow> word_of_int t);
          env = (if w_SSHPassword w \<noteq> '''' then [(''SSH_PASSWORD'', w_SSHPassword w)] else []);
          msg = \<lparr>sm_CommandId = cmdID, sm_Payload = LaunchWorkload
                   \<lparr>sp_WorkloadId = w_ID w, sp_Image = w_Image w,
                    sp_GpuCount = word_of_int (w_RequestedGPUCount w), sp_GpuUuids = p_gpuUUIDs p,
                    sp_IdleTimeoutSec = idleTimeout, sp_Env = env, sp_ExposeSsh = w_ExposeSSH w,
                    sp_ExposeJupyter = w_ExposeJupyter w\<rparr>\<rparr>;
          deadline = go_now clk + launchDeliveryDeadline
      in Enqueue (db_now clk)
           \<lparr>cmd_ID = cmdID, cmd_OrgID = w_OrgID w, cmd_NodeID = p_nodeID p,
            cmd_WorkloadID = Some (w_ID w), cmd_Kind = KindLaunch, cmd_Payload = msg,
            cmd_DeliverBy = Some deadline\<rparr> d)"

definition domainToProtoStopReason :: "StopReason \<Rightarrow> proto_stop_reason" where
  "domainToProtoStopReason r =
     (case r of StopUser \<Rightarrow> STOP_REASON_USER | StopIdleReclaim \<Rightarrow> STOP_REASON_IDLE_RECLAIM
      | StopAdmin \<Rightarrow> STOP_REASON_ADMIN | StopFailure \<Rightarrow> STOP_REASON_FAILURE)"

definition enqueueStop :: "time \<Rightarrow> uuid \<Rightarrow> uuid \<Rightarrow> uuid \<Rightarrow> uuid \<Rightarrow> StopReason \<Rightarrow> db \<Rightarrow> err + db" where
  "enqueueStop now cmdID orgID nodeID wid reason d =
     Enqueue now
       \<lparr>cmd_ID = cmdID, cmd_OrgID = orgID, cmd_NodeID = nodeID, cmd_WorkloadID = Some wid,
        cmd_Kind = KindStop,
        cmd_Payload = \<lparr>sm_CommandId = cmdID, sm_Payload = StopWorkload wid (domainToProtoStopReason reason)\<rparr>,
        cmd_DeliverBy = None\<rparr> d"

section \<open>Lifecycle events\<close>

definition stageOrder :: "string list" where
  "stageOrder = [''queued'', ''scheduling'', ''node_selected'', ''preparing'', ''pulling_image'',
     ''building_env'', ''configuring'', ''starting_container'', ''ssh_enabled'', ''jupyter_enabled'',
     ''ready'', ''stopping'', ''stopped'', ''failed'']"

definition isTerminalStage :: "string \<Rightarrow> bool" where
  "isTerminalStage stage \<longleftrightarrow> stage = ''stopped'' \<or> stage = ''failed''"

definition insert_event :: "time \<Rightarrow> uuid \<Rightarrow> uuid \<Rightarrow> string \<Rightarrow> string \<Rightarrow> db \<Rightarrow> err + unit \<times> db" where
  "insert_event now wid orgID stage message d =
     (if \<not> (\<exists>w \<in> set (workloads d). w_ID w = wid) then Inl (ErrConstraint ''workload_events_workload_id_fkey'')
      else if \<not> (\<exists>o' \<in> set (organizations d). o_ID o' = orgID)
        then Inl (ErrConstraint ''workload_events_org_id_fkey'')
      else Inr ((), d\<lparr>workload_events := workload_events d @
             [\<lparr>we_workload = wid, we_org = orgID, we_stage = stage, we_message = message, we_ts = now\<rparr>]\<rparr>))"

definition set_stage :: "uuid \<Rightarrow> string \<Rightarrow> db \<Rightarrow> err + unit \<times> db" where
  "set_stage wid stage d =
     Inr ((), d\<lparr>workloads := upd (\<lambda>w. w_ID w = wid \<and> \<not> terminal_state (w_Status w))
                              (\<lambda>w. w\<lparr>w_Stage := stage\<rparr>) (workloads d)\<rparr>)"

definition recordEvent :: "time \<Rightarrow> uuid \<Rightarrow> uuid \<Rightarrow> string \<Rightarrow> string \<Rightarrow> sys \<Rightarrow> (err + unit) \<times> sys" where
  "recordEvent now wid orgID stage message s =
     (case atomically (insert_event now wid orgID stage message) s of
        (Inl e, s1) \<Rightarrow> (Inl e, s1)
      | (Inr u, s1) \<Rightarrow> atomically (set_stage wid stage) s1)"

section \<open>Launch\<close>

definition authorize ::
  "service \<Rightarrow> clocks \<Rightarrow> uuid \<Rightarrow> uuid option \<Rightarrow> uuid option \<Rightarrow> sys \<Rightarrow> (err + unit) \<times> sys" where
  "authorize sv clk orgID dept proj s =
     (case sv_billing sv of
        None \<Rightarrow> (Inr (), s)
      | Some enforce \<Rightarrow> AuthorizeLaunch enforce (go_now clk) orgID dept proj s)"

definition new_workload :: "time \<Rightarrow> uuid \<Rightarrow> uuid \<Rightarrow> nat list \<Rightarrow> LaunchRequest \<Rightarrow> Workload" where
  "new_workload now wid orgID rnd req =
     \<lparr>w_ID = wid, w_OrgID = orgID, w_ProjectID = lr_ProjectID req,
      w_DepartmentID = lr_DepartmentID req, w_TemplateID = lr_TemplateID req,
      w_UserID = lr_UserID req, w_NodeID = None, w_Name = lr_Name req,
      w_Image = (if lr_Image req = '''' then ''ubuntu:22.04'' else lr_Image req),
      w_ContainerID = ''nodehive-'' @ take 20 (uuid_hex wid),
      w_RequestedGPUCount = lr_GPUCount req, w_Status = WorkloadQueued, w_Stage = '''',
      w_IdleTimeoutSec = Some (case lr_IdleTimeoutSec req of None \<Rightarrow> 3600 | Some t \<Rightarrow> t),
      w_ExposeSSH = lr_ExposeSSH req, w_ExposeJupyter = lr_ExposeJupyter req,
      w_SSHPassword = (if lr_ExposeSSH req then randomPassword rnd else ''''),
      w_SSHEndpoint = '''', w_JupyterEndpoint = '''', w_Logs = '''', w_StartedAt = None,
      w_StoppedAt = None, w_StopReason = None, w_CreatedAt = now\<rparr>"

text \<open>
  The transaction of \<open>Launch\<close>: the workload and, when it was placed, the placement. The
  status of \<open>wl\<close> is set on both branches.
\<close>

definition launch_tx ::
  "clocks \<Rightarrow> (uuid \<Rightarrow> bool) \<Rightarrow> uuid \<Rightarrow> LaunchRequest \<Rightarrow> Workload \<Rightarrow> db \<Rightarrow>
   err + (Workload \<times> placement option) \<times> db" where
  "launch_tx clk locked cmdID req wl d =
     (let gpuType = (if lr_GPUType req = '''' then ''any'' else lr_GPUType req)
      in case placeAndAttach locked (w_OrgID wl) (w_ID wl) (lr_GPUType req) (lr_GPUCount req) d of
           Inl e \<Rightarrow>
             if e = ErrNoGPUsAvailable
             then let wl' = wl\<lparr>w_Status := WorkloadQueued\<rparr>
                  in bindE (insertWorkload wl' ''queued'' gpuType (Some (go_now clk)) d) (\<lambda>d1.
                     Inr ((wl', None), d1))
             else Inl e
         | Inr p \<Rightarrow>
             let wl' = wl\<lparr>w_NodeID := Some (p_nodeID p), w_Status := WorkloadPending\<rparr>
             in bindE (insertWorkload wl' ''preparing'' gpuType None d) (\<lambda>d1.
                bindE (attach (db_now clk) p d1) (\<lambda>d2.
                bindE (enqueueLaunch clk cmdID wl' p d2) (\<lambda>d3.
                Inr ((wl', Some p), d3)))))"

definition Launch ::
  "service \<Rightarrow> clocks \<Rightarrow> (uuid \<Rightarrow> bool) \<Rightarrow> uuid \<Rightarrow> uuid \<Rightarrow> nat list \<Rightarrow> uuid \<Rightarrow> LaunchRequest \<Rightarrow> sys \<Rightarrow>
   (err + Workload) \<times> sys" where
  "Launch sv clk locked wid cmdID rnd orgID req0 s =
     (case validateLaunch req0 of
        Inl e \<Rightarrow> (Inl e, s)
      | Inr req \<Rightarrow>
          (case authorize sv clk orgID (lr_DepartmentID req) (lr_ProjectID req) s of
             (Inl e, s1) \<Rightarrow> (Inl e, s1)
           | (Inr u, s1) \<Rightarrow>
               (case atomically (launch_tx clk locked cmdID req
                       (new_workload (go_now clk) wid orgID rnd req)) s1 of
                  (Inl e, s2) \<Rightarrow> (Inl e, s2)
                | (Inr (wl, None), s2) \<Rightarrow>
                    let s3 = snd (recordEvent (db_now clk) wid orgID ''queued''
                                    (''no matching GPU capacity '' @ [CHR 0xE2, CHR 0x80, CHR 0x94] @ '' queued'') s2)
                    in (Inr wl, sv_notify sv orgID [''workloads'', ''queue''] s3)
                | (Inr (wl, Some p), s2) \<Rightarrow>
                    let s3 = snd (recordEvent (db_now clk) wid orgID ''scheduling'' '''' s2);
                        s4 = snd (recordEvent (db_now clk) wid orgID ''node_selected'' '''' s3);
                        s5 = snd (recordEvent (db_now clk) wid orgID ''preparing'' '''' s4)
                    in (Inr wl, Nudge (p_nodeID p) (sv_notify sv orgID [''workloads''] s5)))))"

section \<open>Stop\<close>

definition stop_tx ::
  "clocks \<Rightarrow> uuid \<Rightarrow> uuid \<Rightarrow> StopReason \<Rightarrow> db \<Rightarrow> err + (uuid option \<times> uuid) \<times> db" where
  "stop_tx clk cmdID wid reason d =
     (let hit = (\<lambda>w. w_ID w = wid \<and> (w_Status w = WorkloadPending \<or> w_Status w = WorkloadRunning))
      in case find hit (workloads d) of
           None \<Rightarrow> Inl ErrNotFound
         | Some w \<Rightarrow>
             let d1 = d\<lparr>workloads := upd hit (\<lambda>r. r\<lparr>w_Status := WorkloadStopping,
                          w_StopReason := Some reason, w_stopping_at := Some (db_now clk)\<rparr>) (workloads d)\<rparr>
             in (case w_NodeID w of
                   None \<Rightarrow> Inr ((None, w_OrgID w), d1)
                 | Some n \<Rightarrow> bindE (enqueueStop (db_now clk) cmdID (w_OrgID w) n wid reason d1)
                               (\<lambda>d2. Inr ((Some n, w_OrgID w), d2))))"

definition stop_reason_name :: "StopReason \<Rightarrow> string" where
  "stop_reason_name r = (case r of StopUser \<Rightarrow> ''user'' | StopIdleReclaim \<Rightarrow> ''idle_reclaim''
     | StopAdmin \<Rightarrow> ''admin'' | StopFailure \<Rightarrow> ''failure'')"

definition Stop :: "service \<Rightarrow> clocks \<Rightarrow> uuid \<Rightarrow> uuid \<Rightarrow> StopReason \<Rightarrow> sys \<Rightarrow> (err + unit) \<times> sys" where
  "Stop sv clk cmdID wid reason s =
     (case atomically (stop_tx clk cmdID wid reason) s of
        (Inl e, s1) \<Rightarrow> (Inl e, s1)
      | (Inr (node, orgID), s1) \<Rightarrow>
          let s2 = snd (recordEvent (db_now clk) wid orgID ''stopping'' '''' s1);
              s3 = (if reason \<noteq> StopUser \<and> reason \<noteq> StopAdmin
                    then auditSystem sv orgID ''system'' ''workload.stop'' wid
                           [(''reason'', JStr (stop_reason_name reason))] s2
                    else s2);
              s4 = sv_notify sv orgID [''workloads''] s3
          in (Inr (), case node of None \<Rightarrow> s4 | Some n \<Rightarrow> Nudge n s4))"

section \<open>The stuck sweep\<close>

definition sweep_stuck_row :: "time \<Rightarrow> db \<Rightarrow> WorkloadRow \<Rightarrow> bool" where
  "sweep_stuck_row now d w \<longleftrightarrow>
     (\<exists>n \<in> set (gpu_nodes d). w_NodeID w = Some (n_ID n) \<and>
        (live_state (w_Status w) \<and> n_Status n = NodeOffline \<and>
           (case n_LastSeenAt n of None \<Rightarrow> True | Some t \<Rightarrow> t < now - 2 * minute)
         \<or> w_Status w = WorkloadStopping \<and>
           (case w_stopping_at w of None \<Rightarrow> w_CreatedAt w | Some t \<Rightarrow> t) < now - 2 * minute))"

definition coalesce_reason :: "StopReason option \<Rightarrow> StopReason \<Rightarrow> StopReason option" where
  "coalesce_reason r x = (case r of None \<Rightarrow> Some x | Some y \<Rightarrow> Some y)"

definition detach :: "time \<Rightarrow> uuid \<Rightarrow> db \<Rightarrow> db" where
  "detach now wid d = d\<lparr>workload_gpus := upd (\<lambda>a. wg_workload a = wid \<and> active a)
     (\<lambda>a. a\<lparr>wg_detached_at := Some now\<rparr>) (workload_gpus d)\<rparr>"

definition fail_stuck :: "time \<Rightarrow> uuid \<Rightarrow> db \<Rightarrow> db" where
  "fail_stuck now wid d =
     detach now wid (d\<lparr>workloads := upd (\<lambda>w. w_ID w = wid)
       (\<lambda>w. w\<lparr>w_Status := WorkloadFailed, w_StoppedAt := Some now,
              w_StopReason := coalesce_reason (w_StopReason w) StopFailure\<rparr>) (workloads d)\<rparr>)"

definition held :: "db \<Rightarrow> uuid \<Rightarrow> bool" where
  "held d gid \<longleftrightarrow> (\<exists>a \<in> set (workload_gpus d). wg_gpu a = gid \<and> active a \<and>
     (\<exists>w \<in> set (workloads d). w_ID w = wg_workload a \<and> live_state (w_Status w)))"

definition free_unheld :: "db \<Rightarrow> db" where
  "free_unheld d = d\<lparr>gpus := upd (\<lambda>g. g_Status g = GPUInUse \<and> \<not> held d (g_ID g))
     (\<lambda>g. g\<lparr>g_Status := GPUIdle\<rparr>) (gpus d)\<rparr>"

definition undelivered_log :: string where
  "undelivered_log = ''launch command could not be delivered to the agent (node unreachable)''"

definition fail_undelivered :: "time \<Rightarrow> Expired \<Rightarrow> uuid list \<times> db \<Rightarrow> uuid list \<times> db" where
  "fail_undelivered now e = (\<lambda>(stuck, d).
     if ex_Kind e \<noteq> KindLaunch then (stuck, d)
     else case ex_WorkloadID e of
       None \<Rightarrow> (stuck, d)
     | Some wid \<Rightarrow>
         let hit = (\<lambda>w. w_ID w = wid \<and> w_Status w = WorkloadPending);
             d1 = d\<lparr>workloads := upd hit
               (\<lambda>w. w\<lparr>w_Status := WorkloadFailed, w_StoppedAt := Some now, w_Stage := ''failed'',
                      w_StopReason := coalesce_reason (w_StopReason w) StopFailure,
                      w_Logs := (if w_Logs w = '''' then undelivered_log else w_Logs w)\<rparr>) (workloads d)\<rparr>
         in if affected hit (workloads d) > 0 then (stuck @ [wid], detach now wid d1) else (stuck, d1))"

definition sweep_tx :: "clocks \<Rightarrow> db \<Rightarrow> err + uuid list \<times> db" where
  "sweep_tx clk d =
     (let stuck = map w_ID (filter (sweep_stuck_row (db_now clk) d) (workloads d));
          d1 = fold (fail_stuck (go_now clk)) stuck d;
          d2 = free_unheld d1;
          (expired, d3) = ExpireOverdue (db_now clk) d2;
          (stuck', d4) = fold (fail_undelivered (go_now clk)) expired (stuck, d3);
          (_, d5) = SupersedeForTerminalWorkloads d4
      in Inr (stuck', free_unheld d5))"

fun sweep_hints :: "service \<Rightarrow> (uuid \<times> uuid) list \<Rightarrow> uuid list \<Rightarrow> sys \<Rightarrow> sys" where
  "sweep_hints sv [] seen s = s"
| "sweep_hints sv ((wid, oid) # rows) seen s =
     (let s1 = auditSystem sv oid ''system'' ''workload.failed'' wid [(''reason'', JStr ''sweep_reclaim'')] s
      in if oid \<in> set seen then sweep_hints sv rows seen s1
         else sweep_hints sv rows (oid # seen) (sv_notify sv oid [''workloads'', ''queue''] s1))"

definition SweepStuck :: "service \<Rightarrow> clocks \<Rightarrow> sys \<Rightarrow> (err + nat) \<times> sys" where
  "SweepStuck sv clk s =
     (case atomically (sweep_tx clk) s of
        (Inl e, s1) \<Rightarrow> (Inl e, s1)
      | (Inr stuck, s1) \<Rightarrow>
          if (sv_audit sv \<or> sv_publish sv) \<and> stuck \<noteq> []
          then (case atomically (\<lambda>d. Inr (map (\<lambda>w. (w_ID w, w_OrgID w))
                       (filter (\<lambda>w. w_ID w \<in> set stuck) (workloads d)), d)) s1 of
                  (Inl e, s2) \<Rightarrow> (Inr (length stuck), s2)
                | (Inr rows, s2) \<Rightarrow> (Inr (length stuck), sweep_hints sv rows [] s2))
          else (Inr (length stuck), s1))"

section \<open>Queries\<close>

text \<open>\<open>scanWorkloadRow\<close> over \<open>workloadCols\<close>: the columns of \<open>domain.Workload\<close>.\<close>

definition scanWorkloadRow :: "WorkloadRow \<Rightarrow> Workload" where
  "scanWorkloadRow r = Workload.truncate r"

definition getByID :: "uuid \<Rightarrow> db \<Rightarrow> err + Workload" where
  "getByID wid d =
     (case workload_by_id wid d of None \<Rightarrow> Inl ErrNotFound | Some r \<Rightarrow> Inr (scanWorkloadRow r))"

definition Get :: "uuid \<Rightarrow> uuid \<Rightarrow> db \<Rightarrow> err + Workload" where
  "Get orgID wid d =
     bindE (getByID wid d) (\<lambda>w. if w_OrgID w \<noteq> orgID then Inl ErrNotFound else Inr w)"

record DetailView =
  dv_Workload :: Workload
  dv_GPUs :: "(string \<times> string) list"
  dv_RuntimeSeconds :: int
  dv_RuntimeCost :: money
  dv_Currency :: string

definition attached_gpus :: "uuid \<Rightarrow> db \<Rightarrow> GPU list" where
  "attached_gpus wid d = sort_key g_Index
     (List.map_filter (\<lambda>a. if wg_workload a = wid then gpu_by_id (wg_gpu a) d else None) (workload_gpus d))"

definition runtime_seconds :: "time \<Rightarrow> Workload \<Rightarrow> int" where
  "runtime_seconds now w =
     (case w_StartedAt w of
        None \<Rightarrow> 0
      | Some st \<Rightarrow>
          let secs = seconds_of ((case w_StoppedAt w of None \<Rightarrow> now | Some e \<Rightarrow> e) - st)
          in if secs < 0 then 0 else secs)"

definition open_rate :: "uuid \<Rightarrow> string \<Rightarrow> db \<Rightarrow> (money \<times> string) option" where
  "open_rate orgID model d =
     (case sort_key (\<lambda>r. - rc_EffectiveFrom r) (filter (\<lambda>r. rc_OrgID r = orgID \<and>
             rc_GPUModel r = model \<and> rc_EffectiveTo r = None) (rate_cards d)) of
        [] \<Rightarrow> None | r # _ \<Rightarrow> Some (rc_RatePerGPUHour r, rc_Currency r))"

definition org_default :: "uuid \<Rightarrow> db \<Rightarrow> money \<times> string" where
  "org_default orgID d =
     (case org_by_id orgID d of
        None \<Rightarrow> (0, '''')
      | Some o' \<Rightarrow> (case os_DefaultRate (o_Settings o') of None \<Rightarrow> 0 | Some r \<Rightarrow> r,
                    case os_Currency (o_Settings o') of None \<Rightarrow> ''USD'' | Some c \<Rightarrow> c))"

definition add_runtime_cost :: "uuid \<Rightarrow> money \<Rightarrow> money \<Rightarrow> db \<Rightarrow> string \<Rightarrow> money \<times> string \<Rightarrow> money \<times> string" where
  "add_runtime_cost orgID defaultRate hours d model = (\<lambda>(cost, currency).
     case open_rate orgID model d of
       None \<Rightarrow> (cost + defaultRate * hours, currency)
     | Some (r, cur) \<Rightarrow> (cost + r * hours, if cur \<noteq> '''' then cur else currency))"

definition Detail :: "time \<Rightarrow> uuid \<Rightarrow> uuid \<Rightarrow> db \<Rightarrow> err + DetailView" where
  "Detail now orgID wid d =
     bindE (Get orgID wid d) (\<lambda>wl.
       let gs = attached_gpus wid d;
           secs = runtime_seconds now wl;
           (defaultRate, defaultCurrency) = org_default (w_OrgID wl) d;
           cur0 = (if defaultCurrency \<noteq> '''' then defaultCurrency else ''USD'');
           (cost, cur) = fold (add_runtime_cost (w_OrgID wl) defaultRate (of_int secs / 3600) d)
                           (map g_Model gs) (0, cur0)
       in Inr \<lparr>dv_Workload = wl, dv_GPUs = map (\<lambda>g. (g_UUID g, g_Model g)) gs,
               dv_RuntimeSeconds = secs, dv_RuntimeCost = cost, dv_Currency = cur\<rparr>)"

record ListFilter =
  lf_Status :: "WorkloadState option"
  lf_UserID :: "uuid option"
  lf_ProjectID :: "uuid option"
  lf_Viewer :: "uuid option"
  lf_ViewerIsAdmin :: bool

definition project_visible :: "uuid \<Rightarrow> db \<Rightarrow> WorkloadRow \<Rightarrow> bool" where
  "project_visible viewer d w \<longleftrightarrow> w_UserID w = viewer \<or> w_ProjectID w = None \<or>
     \<not> (\<exists>p \<in> set (projects d). Some (pj_ID p) = w_ProjectID w \<and> pj_Visibility p = ''restricted'') \<or>
     (\<exists>m \<in> set (project_members d). Some (pm_ProjectID m) = w_ProjectID w \<and> pm_UserID m = viewer)"

definition list_matches :: "uuid \<Rightarrow> ListFilter \<Rightarrow> db \<Rightarrow> WorkloadRow \<Rightarrow> bool" where
  "list_matches orgID f d w \<longleftrightarrow> w_OrgID w = orgID \<and>
     (case lf_Status f of None \<Rightarrow> True | Some st \<Rightarrow> w_Status w = st) \<and>
     (case lf_UserID f of None \<Rightarrow> True | Some u \<Rightarrow> w_UserID w = u) \<and>
     (case lf_ProjectID f of None \<Rightarrow> True | Some p \<Rightarrow> w_ProjectID w = Some p) \<and>
     (case lf_Viewer f of None \<Rightarrow> True | Some v \<Rightarrow> lf_ViewerIsAdmin f \<or> project_visible v d w)"

definition List_workloads :: "uuid \<Rightarrow> ListFilter \<Rightarrow> db \<Rightarrow> Workload list" where
  "List_workloads orgID f d =
     map scanWorkloadRow (take 200 (sort_key (\<lambda>w. - w_CreatedAt w) (filter (list_matches orgID f d) (workloads d))))"

definition ListEvents :: "uuid \<Rightarrow> uuid \<Rightarrow> db \<Rightarrow> err + workload_event list" where
  "ListEvents orgID wid d =
     bindE (Get orgID wid d) (\<lambda>w.
       Inr (sort_key we_ts (filter (\<lambda>e. we_workload e = wid) (workload_events d))))"

section \<open>Agent reports\<close>

definition requireWorkloadOnNode :: "uuid \<Rightarrow> uuid \<Rightarrow> db \<Rightarrow> err + unit \<times> db" where
  "requireWorkloadOnNode nodeID wid d =
     (case workload_by_id wid d of
        None \<Rightarrow> Inl ErrNotFound
      | Some w \<Rightarrow> if w_NodeID w \<noteq> Some nodeID then Inl ErrNotFound else Inr ((), d))"

definition running_tx :: "time \<Rightarrow> uuid \<Rightarrow> string \<Rightarrow> string \<Rightarrow> string \<Rightarrow> db \<Rightarrow> err + nat \<times> db" where
  "running_tx now wid ssh jupyter logs d =
     (let hit = (\<lambda>w. w_ID w = wid \<and> (w_Status w = WorkloadPending \<or> w_Status w = WorkloadRunning))
      in Inr (affected hit (workloads d), d\<lparr>workloads := upd hit
           (\<lambda>w. w\<lparr>w_Status := WorkloadRunning, w_SSHEndpoint := ssh, w_JupyterEndpoint := jupyter,
                  w_StartedAt := (case w_StartedAt w of None \<Rightarrow> Some now | Some t \<Rightarrow> Some t),
                  w_Logs := (if logs = '''' then w_Logs w else logs)\<rparr>) (workloads d)\<rparr>))"

definition idle_gpu :: "uuid \<Rightarrow> db \<Rightarrow> db" where
  "idle_gpu gid d = d\<lparr>gpus := upd (\<lambda>g. g_ID g = gid) (\<lambda>g. g\<lparr>g_Status := GPUIdle\<rparr>) (gpus d)\<rparr>"

definition terminal_tx :: "time \<Rightarrow> uuid \<Rightarrow> WorkloadState \<Rightarrow> string \<Rightarrow> uuid list \<Rightarrow> db \<Rightarrow> err + bool \<times> db" where
  "terminal_tx now wid state logs gpuIDs d =
     (let hit = (\<lambda>w. w_ID w = wid \<and> \<not> terminal_state (w_Status w))
      in if affected hit (workloads d) = 0 then Inr (False, d)
         else
           let d1 = d\<lparr>workloads := upd hit (\<lambda>w. w\<lparr>w_Status := state, w_StoppedAt := Some now,
                        w_Logs := (if logs = '''' then w_Logs w else logs)\<rparr>) (workloads d)\<rparr>
           in Inr (True, fold idle_gpu gpuIDs (detach now wid d1)))"

definition set_status :: "uuid \<Rightarrow> WorkloadState \<Rightarrow> db \<Rightarrow> err + unit \<times> db" where
  "set_status wid state d =
     Inr ((), d\<lparr>workloads := upd (\<lambda>w. w_ID w = wid) (\<lambda>w. w\<lparr>w_Status := state\<rparr>) (workloads d)\<rparr>)"

definition org_of_workload :: "uuid \<Rightarrow> sys \<Rightarrow> (uuid \<times> WorkloadState option) \<times> sys" where
  "org_of_workload wid s =
     (case atomically (\<lambda>d. Inr (workload_by_id wid d, d)) s of
        (Inr (Some w), s1) \<Rightarrow> ((w_OrgID w, Some (w_Status w)), s1)
      | (_, s1) \<Rightarrow> ((uuid_Nil, None), s1))"

definition report_running ::
  "service \<Rightarrow> clocks \<Rightarrow> uuid \<Rightarrow> uuid \<Rightarrow> uuid \<Rightarrow> string \<Rightarrow> string \<Rightarrow> string \<Rightarrow> sys \<Rightarrow> (err + unit) \<times> sys" where
  "report_running sv clk cmdID nodeID wid ssh jupyter logs s =
     (case org_of_workload wid s of
        ((orgID, cur), s1) \<Rightarrow>
          (case atomically (running_tx (go_now clk) wid ssh jupyter logs) s1 of
             (Inl e, s2) \<Rightarrow> (Inl e, s2)
           | (Inr n, s2) \<Rightarrow>
               if n = 0
               then if cur = Some WorkloadStopped \<or> cur = Some WorkloadFailed
                    then (case atomically (\<lambda>d. bindE (enqueueStop (db_now clk) cmdID orgID nodeID wid StopFailure d)
                                (\<lambda>d1. Inr ((), d1))) s2 of
                            (Inl e, s3) \<Rightarrow> (Inr (), s3)
                          | (Inr u, s3) \<Rightarrow> (Inr (), Nudge nodeID s3))
                    else (Inr (), s2)
               else
                 let s3 = (if ssh \<noteq> '''' then snd (recordEvent (db_now clk) wid orgID ''ssh_enabled'' ssh s2) else s2);
                     s4 = (if jupyter \<noteq> '''' then snd (recordEvent (db_now clk) wid orgID ''jupyter_enabled'' jupyter s3) else s3);
                     s5 = snd (recordEvent (db_now clk) wid orgID ''ready'' ''workload running'' s4)
                 in (Inr (), sv_notify sv orgID [''workloads''] s5)))"

definition active_gpu_ids :: "uuid \<Rightarrow> db \<Rightarrow> uuid list" where
  "active_gpu_ids wid d = map wg_gpu (filter (\<lambda>a. wg_workload a = wid \<and> active a) (workload_gpus d))"

definition report_terminal ::
  "service \<Rightarrow> clocks \<Rightarrow> uuid \<Rightarrow> WorkloadState \<Rightarrow> string \<Rightarrow> sys \<Rightarrow> (err + unit) \<times> sys" where
  "report_terminal sv clk wid state logs s =
     (case org_of_workload wid s of
        ((orgID, _), s1) \<Rightarrow>
          (case atomically (\<lambda>d. Inr (active_gpu_ids wid d, d)) s1 of
             (rg, s2) \<Rightarrow>
               (case atomically (terminal_tx (go_now clk) wid state logs
                       (case rg of Inl e \<Rightarrow> [] | Inr gs \<Rightarrow> gs)) s2 of
                  (Inl e, s3) \<Rightarrow> (Inl e, s3)
                | (Inr moved, s3) \<Rightarrow>
                    if \<not> moved then (Inr (), s3)
                    else
                      let stageName = (if state = WorkloadFailed then ''failed'' else ''stopped'');
                          s4 = snd (recordEvent (db_now clk) wid orgID stageName '''' s3);
                          s5 = auditSystem sv orgID ''agent'' (''workload.'' @ stageName) wid [] s4;
                          s6 = sv_notify sv orgID [''workloads'', ''queue'', ''budgets''] s5;
                          s7 = spawn (GoPromoteQueued orgID) s6
                      in (Inr (), if sv_billing sv \<noteq> None then spawn (GoMeterWorkload wid) s7 else s7))))"

definition UpdateStatus ::
  "service \<Rightarrow> clocks \<Rightarrow> uuid \<Rightarrow> uuid \<Rightarrow> uuid \<Rightarrow> WorkloadState \<Rightarrow> string \<Rightarrow> string \<Rightarrow> string \<Rightarrow> string \<Rightarrow>
   sys \<Rightarrow> (err + unit) \<times> sys" where
  "UpdateStatus sv clk cmdID nodeID wid state ssh jupyter msg logs s =
     (case atomically (requireWorkloadOnNode nodeID wid) s of
        (Inl e, s1) \<Rightarrow> (Inl e, s1)
      | (Inr u, s1) \<Rightarrow>
          (case state of
             WorkloadRunning \<Rightarrow> report_running sv clk cmdID nodeID wid ssh jupyter logs s1
           | WorkloadStopped \<Rightarrow> report_terminal sv clk wid state logs s1
           | WorkloadFailed \<Rightarrow> report_terminal sv clk wid state logs s1
           | _ \<Rightarrow> atomically (set_status wid state) s1))"

definition RecordStageEvent :: "clocks \<Rightarrow> uuid \<Rightarrow> uuid \<Rightarrow> string \<Rightarrow> sys \<Rightarrow> (err + unit) \<times> sys" where
  "RecordStageEvent clk nodeID wid stage s =
     (case atomically (\<lambda>d. Inr (workload_by_id wid d, d)) s of
        (Inl e, s1) \<Rightarrow> (Inl e, s1)
      | (Inr None, s1) \<Rightarrow> (Inl ErrNoRows, s1)
      | (Inr (Some w), s1) \<Rightarrow>
          if w_NodeID w \<noteq> Some nodeID then (Inl ErrNotFound, s1)
          else recordEvent (db_now clk) wid (w_OrgID w) stage '''' s1)"

section \<open>The queue\<close>

definition avgWaitFallback :: duration where
  "avgWaitFallback = 15 * minute"

record QueueEntry =
  qe_ID :: uuid
  qe_Name :: string
  qe_Position :: nat
  qe_GPUType :: string
  qe_GPUCount :: int
  qe_QueuedAt :: time
  qe_EstWaitMin :: int
  qe_EstStart :: time
  qe_OwnerEmail :: string
  qe_ProjectName :: string

record QueueStats =
  qs_Waiting :: nat
  qs_AvgWaitMin :: int
  qs_NextFreeAt :: "time option"
  qs_Entries :: "QueueEntry list"

definition estWaitPerPosition :: "time \<Rightarrow> uuid \<Rightarrow> db \<Rightarrow> duration" where
  "estWaitPerPosition now orgID d =
     (let xs = List.map_filter (\<lambda>w. if w_OrgID w = orgID \<and> w_Status w = WorkloadRunning
                 then map_option (\<lambda>st. (of_int (now - st) :: rat) / of_int second) (w_StartedAt w) else None) (workloads d);
          avg = sum_list xs / of_nat (length xs)
      in if xs = [] \<or> avg \<le> 0 then avgWaitFallback else \<lfloor>avg\<rfloor> * second)"

definition queued_at :: "WorkloadRow \<Rightarrow> time" where
  "queued_at w = (case w_queued_at w of None \<Rightarrow> w_CreatedAt w | Some t \<Rightarrow> t)"

definition queue_of :: "uuid \<Rightarrow> db \<Rightarrow> WorkloadRow list" where
  "queue_of orgID d =
     sort_key queued_at (filter (\<lambda>w. w_OrgID w = orgID \<and> w_Status w = WorkloadQueued) (workloads d))"

definition queue_entry :: "time \<Rightarrow> duration \<Rightarrow> db \<Rightarrow> nat \<Rightarrow> WorkloadRow \<Rightarrow> QueueEntry" where
  "queue_entry now per d pos w =
     (let wait = int pos * per
      in \<lparr>qe_ID = w_ID w, qe_Name = w_Name w, qe_Position = pos, qe_GPUType = w_requested_gpu_type w,
          qe_GPUCount = w_RequestedGPUCount w, qe_QueuedAt = queued_at w,
          qe_EstWaitMin = wait div minute, qe_EstStart = now + wait,
          qe_OwnerEmail = (case find (\<lambda>u. u_ID u = w_UserID w) (users d) of None \<Rightarrow> '''' | Some u \<Rightarrow> u_Email u),
          qe_ProjectName = (case find (\<lambda>p. Some (pj_ID p) = w_ProjectID w) (projects d) of
                              None \<Rightarrow> '''' | Some p \<Rightarrow> pj_Name p)\<rparr>)"

definition ListQueue :: "clocks \<Rightarrow> uuid \<Rightarrow> db \<Rightarrow> QueueStats" where
  "ListQueue clk orgID d =
     (let q = queue_of orgID d;
          per = estWaitPerPosition (db_now clk) orgID d;
          entries = map (\<lambda>(i, w). queue_entry (go_now clk) per d (Suc i) w) (enumerate 0 q)
      in \<lparr>qs_Waiting = length q, qs_AvgWaitMin = per div minute,
          qs_NextFreeAt = (if q \<noteq> [] then Some (go_now clk + per) else None), qs_Entries = entries\<rparr>)"

definition cancel_tx :: "time \<Rightarrow> uuid \<Rightarrow> db \<Rightarrow> err + nat \<times> db" where
  "cancel_tx now wid d =
     (let hit = (\<lambda>w. w_ID w = wid \<and> w_Status w = WorkloadQueued)
      in Inr (affected hit (workloads d), d\<lparr>workloads := upd hit
           (\<lambda>w. w\<lparr>w_Status := WorkloadStopped, w_Stage := ''stopped'', w_StoppedAt := Some now,
                  w_StopReason := Some StopUser\<rparr>) (workloads d)\<rparr>))"

definition CancelQueued :: "service \<Rightarrow> clocks \<Rightarrow> uuid \<Rightarrow> sys \<Rightarrow> (err + unit) \<times> sys" where
  "CancelQueued sv clk wid s =
     (case atomically (cancel_tx (db_now clk) wid) s of
        (Inl e, s1) \<Rightarrow> (Inl e, s1)
      | (Inr n, s1) \<Rightarrow>
          if n = 0 then (Inl ErrNotQueued, s1)
          else (case org_of_workload wid s1 of
                  ((orgID, _), s2) \<Rightarrow>
                    let s3 = snd (recordEvent (db_now clk) wid orgID ''stopped'' ''cancelled from queue'' s2)
                    in (Inr (), sv_notify sv orgID [''workloads'', ''queue''] s3)))"

text \<open>
  The promotion transaction: \<open>None\<close> when the entry stays queued. The advisory lock only
  serialises promoters; the transaction is rolled back on the two early returns.
\<close>

definition promote_tx ::
  "clocks \<Rightarrow> (uuid \<Rightarrow> bool) \<Rightarrow> uuid \<Rightarrow> uuid \<Rightarrow> uuid \<Rightarrow> string \<Rightarrow> int \<Rightarrow> db \<Rightarrow> err + placement option \<times> db" where
  "promote_tx clk locked cmdID orgID wid gpuType cnt d =
     (case placeAndAttach locked orgID wid gpuType cnt d of
        Inl e \<Rightarrow> if e = ErrNoGPUsAvailable then Inr (None, d) else Inl e
      | Inr p \<Rightarrow>
          let hit = (\<lambda>w. w_ID w = wid \<and> w_Status w = WorkloadQueued);
              d1 = d\<lparr>workloads := upd hit (\<lambda>w. w\<lparr>w_Status := WorkloadPending,
                     w_Stage := ''preparing'', w_NodeID := Some (p_nodeID p)\<rparr>) (workloads d)\<rparr>
          in if affected hit (workloads d) = 0 then Inr (None, d)
             else bindE (attach (db_now clk) p d1) (\<lambda>d2.
                  bindE (getByID wid d2) (\<lambda>wl.
                  bindE (enqueueLaunch clk cmdID (wl\<lparr>w_NodeID := Some (p_nodeID p)\<rparr>) p d2) (\<lambda>d3.
                  Inr (Some p, d3)))))"

definition promoteOne ::
  "service \<Rightarrow> clocks \<Rightarrow> (uuid \<Rightarrow> bool) \<Rightarrow> uuid \<Rightarrow> uuid \<Rightarrow> uuid \<Rightarrow> string \<Rightarrow> int \<Rightarrow> sys \<Rightarrow> (err + bool) \<times> sys" where
  "promoteOne sv clk locked cmdID orgID wid gpuType cnt s =
     (case atomically (promote_tx clk locked cmdID orgID wid gpuType cnt) s of
        (Inl e, s1) \<Rightarrow> (Inl e, s1)
      | (Inr None, s1) \<Rightarrow> (Inr False, s1)
      | (Inr (Some p), s1) \<Rightarrow>
          let s2 = snd (recordEvent (db_now clk) wid orgID ''node_selected'' ''promoted from queue'' s1);
              s3 = snd (recordEvent (db_now clk) wid orgID ''preparing'' '''' s2)
          in (Inr True, Nudge (p_nodeID p) (sv_notify sv orgID [''workloads'', ''queue''] s3)))"

text \<open>
  \<open>locked w\<close> and \<open>cmdOf w\<close> are the rows locked elsewhere and the command id drawn when
  workload \<open>w\<close> is promoted.
\<close>

fun promote_loop ::
  "service \<Rightarrow> clocks \<Rightarrow> (uuid \<Rightarrow> uuid \<Rightarrow> bool) \<Rightarrow> (uuid \<Rightarrow> uuid) \<Rightarrow> uuid \<Rightarrow> WorkloadRow list \<Rightarrow> nat \<Rightarrow> sys \<Rightarrow>
   (nat \<times> err option) \<times> sys" where
  "promote_loop sv clk locked cmdOf orgID [] n s = ((n, None), s)"
| "promote_loop sv clk locked cmdOf orgID (c # cs) n s =
     (case authorize sv clk orgID (w_DepartmentID c) (w_ProjectID c) s of
        (Inl e, s1) \<Rightarrow> ((n, None), s1)
      | (Inr u, s1) \<Rightarrow>
          (case promoteOne sv clk (locked (w_ID c)) (cmdOf (w_ID c)) orgID (w_ID c)
                  (w_requested_gpu_type c) (w_RequestedGPUCount c) s1 of
             (Inl e, s2) \<Rightarrow> ((n, Some e), s2)
           | (Inr ok, s2) \<Rightarrow> promote_loop sv clk locked cmdOf orgID cs (if ok then Suc n else n) s2))"

definition PromoteQueued ::
  "service \<Rightarrow> clocks \<Rightarrow> (uuid \<Rightarrow> uuid \<Rightarrow> bool) \<Rightarrow> (uuid \<Rightarrow> uuid) \<Rightarrow> uuid \<Rightarrow> sys \<Rightarrow> (nat \<times> err option) \<times> sys" where
  "PromoteQueued sv clk locked cmdOf orgID s =
     (case atomically (\<lambda>d. Inr (queue_of orgID d, d)) s of
        (Inl e, s1) \<Rightarrow> ((0, Some e), s1)
      | (Inr cands, s1) \<Rightarrow> promote_loop sv clk locked cmdOf orgID cands 0 s1)"

fun promote_orgs ::
  "service \<Rightarrow> clocks \<Rightarrow> (uuid \<Rightarrow> uuid \<Rightarrow> bool) \<Rightarrow> (uuid \<Rightarrow> uuid) \<Rightarrow> uuid list \<Rightarrow> nat \<Rightarrow> sys \<Rightarrow>
   (nat \<times> err option) \<times> sys" where
  "promote_orgs sv clk locked cmdOf [] tot s = ((tot, None), s)"
| "promote_orgs sv clk locked cmdOf (orgID # orgs) tot s =
     (case PromoteQueued sv clk locked cmdOf orgID s of
        ((n, Some e), s1) \<Rightarrow> ((tot + n, Some e), s1)
      | ((n, None), s1) \<Rightarrow> promote_orgs sv clk locked cmdOf orgs (tot + n) s1)"

definition PromoteAllQueued ::
  "service \<Rightarrow> clocks \<Rightarrow> (uuid \<Rightarrow> uuid \<Rightarrow> bool) \<Rightarrow> (uuid \<Rightarrow> uuid) \<Rightarrow> sys \<Rightarrow> (nat \<times> err option) \<times> sys" where
  "PromoteAllQueued sv clk locked cmdOf s =
     (case atomically (\<lambda>d. Inr (remdups (map w_OrgID (filter (\<lambda>w. w_Status w = WorkloadQueued) (workloads d))), d)) s of
        (Inl e, s1) \<Rightarrow> ((0, Some e), s1)
      | (Inr orgs, s1) \<Rightarrow> promote_orgs sv clk locked cmdOf orgs 0 s1)"

end
