(* ===== verification/Nodes.thy ===== *)
theory Nodes
  imports Workloads
begin

text \<open>
  Node enrolment, agent credentials, liveness, removal (\<open>internal/nodes/repo.go\<close>,
  \<open>service.go\<close>), hardware inventory (\<open>internal/inventory/impl.go\<close>) and the enrolment
  tokens of \<open>internal/identity/impl.go\<close>. \<open>hash\<close> is \<open>hashToken\<close>, the hexadecimal
  SHA-256 digest, of which only its being a function is used; generated ids and random bytes are
  arguments.
\<close>

section \<open>Enrolment tokens\<close>

definition randomToken :: "nat list \<Rightarrow> string" where
  "randomToken b = concat (map (\<lambda>x. [hex_digit (x div 16), hex_digit x]) b)"

definition insert_token :: "EnrollmentToken \<Rightarrow> db \<Rightarrow> err + unit \<times> db" where
  "insert_token t d =
     (if \<exists>r \<in> set (enrollment_tokens d). et_ID r = et_ID t then Inl (ErrConstraint ''enrollment_tokens_pkey'')
      else if \<exists>r \<in> set (enrollment_tokens d). et_TokenHash r = et_TokenHash t
        then Inl (ErrConstraint ''enrollment_tokens_token_hash_key'')
      else if \<not> (\<exists>o' \<in> set (organizations d). o_ID o' = et_OrgID t)
        then Inl (ErrConstraint ''enrollment_tokens_org_id_fkey'')
      else if \<not> (case et_CreatedBy t of None \<Rightarrow> True | Some u \<Rightarrow> \<exists>r \<in> set (users d). u_ID r = u)
        then Inl (ErrConstraint ''enrollment_tokens_created_by_fkey'')
      else Inr ((), d\<lparr>enrollment_tokens := enrollment_tokens d @ [t]\<rparr>))"

definition IssueEnrollmentTokenDesc ::
  "(string \<Rightarrow> string) \<Rightarrow> clocks \<Rightarrow> uuid \<Rightarrow> nat list \<Rightarrow> uuid \<Rightarrow> uuid \<Rightarrow> string \<Rightarrow> duration \<Rightarrow> int \<Rightarrow> sys \<Rightarrow>
   (err + string) \<times> sys" where
  "IssueEnrollmentTokenDesc hash clk tid rnd orgID createdBy desc ttl maxUses s =
     (let raw = randomToken rnd
      in case atomically (insert_token
             \<lparr>et_ID = tid, et_OrgID = orgID, et_TokenHash = hash raw, et_Description = desc,
              et_CreatedBy = Some createdBy, et_MaxUses = maxUses, et_Uses = 0,
              et_ExpiresAt = go_now clk + ttl, et_LastUsedAt = None, et_RevokedAt = None,
              et_CreatedAt = db_now clk\<rparr>) s of
           (Inl e, s1) \<Rightarrow> (Inl e, s1)
         | (Inr u, s1) \<Rightarrow> (Inr raw, s1))"

definition IssueEnrollmentToken ::
  "(string \<Rightarrow> string) \<Rightarrow> clocks \<Rightarrow> uuid \<Rightarrow> nat list \<Rightarrow> uuid \<Rightarrow> uuid \<Rightarrow> duration \<Rightarrow> int \<Rightarrow> sys \<Rightarrow>
   (err + string) \<times> sys" where
  "IssueEnrollmentToken hash clk tid rnd orgID createdBy ttl maxUses s =
     IssueEnrollmentTokenDesc hash clk tid rnd orgID createdBy '''' ttl maxUses s"

definition token_status :: "time \<Rightarrow> EnrollmentToken \<Rightarrow> string" where
  "token_status now t =
     (if et_RevokedAt t \<noteq> None then ''revoked''
      else if now > et_ExpiresAt t then ''expired''
      else if et_Uses t \<ge> et_MaxUses t then ''exhausted''
      else ''active'')"

definition ListEnrollmentTokens :: "time \<Rightarrow> uuid \<Rightarrow> db \<Rightarrow> (EnrollmentToken \<times> string) list" where
  "ListEnrollmentTokens now orgID d =
     map (\<lambda>t. (t, token_status now t))
       (sort_key (\<lambda>t. - et_CreatedAt t) (filter (\<lambda>t. et_OrgID t = orgID) (enrollment_tokens d)))"

definition RevokeEnrollmentToken :: "clocks \<Rightarrow> uuid \<Rightarrow> uuid \<Rightarrow> db \<Rightarrow> err + unit \<times> db" where
  "RevokeEnrollmentToken clk orgID tid d =
     (let hit = (\<lambda>t. et_ID t = tid \<and> et_OrgID t = orgID \<and> et_RevokedAt t = None)
      in if affected hit (enrollment_tokens d) = 0
         then Inl (ErrText ''token not found or already revoked'')
         else Inr ((), d\<lparr>enrollment_tokens := upd hit (\<lambda>t. t\<lparr>et_RevokedAt := Some (db_now clk)\<rparr>)
                           (enrollment_tokens d)\<rparr>))"

definition EnsureEnrollmentToken ::
  "clocks \<Rightarrow> uuid \<Rightarrow> uuid \<Rightarrow> string \<Rightarrow> time \<Rightarrow> int \<Rightarrow> db \<Rightarrow> err + unit \<times> db" where
  "EnsureEnrollmentToken clk tid orgID tokenHash expiresAt maxUses d =
     (if \<exists>t \<in> set (enrollment_tokens d). et_TokenHash t = tokenHash
      then Inr ((), d\<lparr>enrollment_tokens := upd (\<lambda>t. et_TokenHash t = tokenHash)
                        (\<lambda>t. t\<lparr>et_ExpiresAt := expiresAt, et_MaxUses := maxUses\<rparr>) (enrollment_tokens d)\<rparr>)
      else insert_token
             \<lparr>et_ID = tid, et_OrgID = orgID, et_TokenHash = tokenHash, et_Description = '''',
              et_CreatedBy = None, et_MaxUses = maxUses, et_Uses = 0, et_ExpiresAt = expiresAt,
              et_LastUsedAt = None, et_RevokedAt = None, et_CreatedAt = db_now clk\<rparr> d)"

definition OrgIDBySlug :: "string \<Rightarrow> db \<Rightarrow> err + uuid" where
  "OrgIDBySlug slug d =
     (case find (\<lambda>o'. o_Slug o' = slug) (organizations d) of None \<Rightarrow> Inl ErrNotFound | Some o' \<Rightarrow> Inr (o_ID o'))"

definition EnsureDevToken ::
  "(string \<Rightarrow> string) \<Rightarrow> clocks \<Rightarrow> uuid \<Rightarrow> string \<Rightarrow> string \<Rightarrow> sys \<Rightarrow> (err + unit) \<times> sys" where
  "EnsureDevToken hash clk tid orgSlug token s =
     (case atomically (\<lambda>d. bindE (OrgIDBySlug orgSlug d) (\<lambda>i. Inr (i, d))) s of
        (Inl e, s1) \<Rightarrow> (Inl e, s1)
      | (Inr orgID, s1) \<Rightarrow>
          atomically (EnsureEnrollmentToken clk tid orgID (hash token)
            (go_now clk + 10 * 365 * 24 * hour) 1000000) s1)"

section \<open>Enrolment and authentication\<close>

definition insert_credential :: "uuid \<Rightarrow> uuid \<Rightarrow> string \<Rightarrow> db \<Rightarrow> db" where
  "insert_credential orgID nodeID credHash d =
     (if \<exists>c \<in> set (agent_credentials d). ac_public_key c = credHash then d
      else d\<lparr>agent_credentials := agent_credentials d @
             [\<lparr>ac_org = orgID, ac_node = nodeID, ac_public_key = credHash, ac_revoked_at = None\<rparr>]\<rparr>)"

definition revoke_credentials :: "time \<Rightarrow> uuid \<Rightarrow> db \<Rightarrow> nat \<times> db" where
  "revoke_credentials now nodeID d =
     (let hit = (\<lambda>c. ac_node c = nodeID \<and> ac_revoked_at c = None)
      in (affected hit (agent_credentials d),
          d\<lparr>agent_credentials := upd hit (\<lambda>c. c\<lparr>ac_revoked_at := Some now\<rparr>) (agent_credentials d)\<rparr>))"

text \<open>
  The transaction of \<open>Repo.Enroll\<close>. A new node takes the defaults of the columns the
  statement does not name.
\<close>

definition enroll_node ::
  "clocks \<Rightarrow> uuid \<Rightarrow> uuid \<Rightarrow> string \<Rightarrow> NodeInfo \<Rightarrow> db \<Rightarrow> err + uuid \<times> db" where
  "enroll_node clk newID orgID fp info d =
     (case find (\<lambda>n. n_Fingerprint n = Some fp) (gpu_nodes d) of
        None \<Rightarrow>
          if \<exists>n \<in> set (gpu_nodes d). n_ID n = newID then Inl (ErrConstraint ''gpu_nodes_pkey'')
          else if \<not> (\<exists>o' \<in> set (organizations d). o_ID o' = orgID)
            then Inl (ErrConstraint ''gpu_nodes_org_id_fkey'')
          else Inr (newID, d\<lparr>gpu_nodes := gpu_nodes d @
                 [\<lparr>n_ID = newID, n_OrgID = orgID, n_Fingerprint = Some fp, n_Status = NodeOnline,
                   n_Info = info, n_Labels = [], n_EnrolledAt = db_now clk,
                   n_LastSeenAt = Some (db_now clk)\<rparr>]\<rparr>)
      | Some n \<Rightarrow>
          if n_OrgID n \<noteq> orgID then Inl ErrFingerprintConflict
          else Inr (n_ID n, snd (revoke_credentials (db_now clk) (n_ID n)
                 (d\<lparr>gpu_nodes := upd (\<lambda>r. n_ID r = n_ID n)
                      (\<lambda>r. r\<lparr>n_Status := NodeOnline, n_Info := info, n_LastSeenAt := Some (db_now clk)\<rparr>)
                      (gpu_nodes d)\<rparr>))))"

definition repo_Enroll ::
  "clocks \<Rightarrow> uuid \<Rightarrow> string \<Rightarrow> string \<Rightarrow> NodeInfo \<Rightarrow> string \<Rightarrow> db \<Rightarrow> err + (uuid \<times> uuid) \<times> db" where
  "repo_Enroll clk newID tokenHash fp info credHash d =
     (case find (\<lambda>t. et_TokenHash t = tokenHash) (enrollment_tokens d) of
        None \<Rightarrow> Inl ErrInvalidToken
      | Some t \<Rightarrow>
          if go_now clk > et_ExpiresAt t then Inl ErrTokenExpired
          else if et_Uses t \<ge> et_MaxUses t then Inl ErrTokenExhausted
          else
            let d1 = d\<lparr>enrollment_tokens := upd (\<lambda>r. et_ID r = et_ID t)
                         (\<lambda>r. r\<lparr>et_Uses := et_Uses r + 1\<rparr>) (enrollment_tokens d)\<rparr>
            in bindE (enroll_node clk newID (et_OrgID t) fp info d1) (\<lambda>(nid, d2).
               Inr ((nid, et_OrgID t), insert_credential (et_OrgID t) nid credHash d2)))"

definition Enroll ::
  "(string \<Rightarrow> string) \<Rightarrow> clocks \<Rightarrow> uuid \<Rightarrow> nat list \<Rightarrow> string \<Rightarrow> string \<Rightarrow> NodeInfo \<Rightarrow> sys \<Rightarrow>
   (err + uuid \<times> string) \<times> sys" where
  "Enroll hash clk newID rnd token fp info s =
     (let credential = randomToken rnd
      in case atomically (repo_Enroll clk newID (hash token) fp info (hash credential)) s of
           (Inl e, s1) \<Rightarrow> (Inl e, s1)
         | (Inr (nid, _), s1) \<Rightarrow> (Inr (nid, credential), s1))"

definition AuthenticateAgent :: "string \<Rightarrow> db \<Rightarrow> err + uuid \<times> uuid" where
  "AuthenticateAgent credHash d =
     (case List.map_filter (\<lambda>c. if ac_public_key c = credHash \<and> ac_revoked_at c = None
              then node_by_id (ac_node c) d else None) (agent_credentials d) of
        [] \<Rightarrow> Inl ErrNotFound
      | n # _ \<Rightarrow> Inr (n_ID n, n_OrgID n))"

definition RecordHeartbeat ::
  "clocks \<Rightarrow> uuid \<Rightarrow> uuid \<Rightarrow> string \<Rightarrow> int \<Rightarrow> money \<Rightarrow> db \<Rightarrow> err + unit \<times> db" where
  "RecordHeartbeat clk orgID nodeID ver gpuCnt meanUtil d =
     Inr ((), d\<lparr>gpu_nodes := upd (\<lambda>n. n_ID n = nodeID)
                 (\<lambda>n. n\<lparr>n_LastSeenAt := Some (db_now clk), n_Status := NodeOnline,
                        n_Info := (n_Info n)\<lparr>ni_AgentVersion := ver\<rparr>\<rparr>) (gpu_nodes d),
               agent_heartbeats := agent_heartbeats d @
                 [\<lparr>hb_OrgID = orgID, hb_NodeID = nodeID, hb_TS = db_now clk, hb_Status = ''healthy'',
                   hb_AgentVer = ver, hb_Summary = [(''gpu_count'', of_int gpuCnt), (''mean_util_pct'', meanUtil)]\<rparr>]\<rparr>)"

definition SetNodeStatus :: "uuid \<Rightarrow> NodeStatus \<Rightarrow> db \<Rightarrow> err + unit \<times> db" where
  "SetNodeStatus nodeID st d =
     Inr ((), d\<lparr>gpu_nodes := upd (\<lambda>n. n_ID n = nodeID) (\<lambda>n. n\<lparr>n_Status := st\<rparr>) (gpu_nodes d)\<rparr>)"

definition MarkOffline :: "uuid \<Rightarrow> sys \<Rightarrow> (err + unit) \<times> sys" where
  "MarkOffline nodeID s = atomically (SetNodeStatus nodeID NodeOffline) s"

definition RevokeNodeCredentials :: "clocks \<Rightarrow> uuid \<Rightarrow> uuid \<Rightarrow> sys \<Rightarrow> (err + nat) \<times> sys" where
  "RevokeNodeCredentials clk orgID nodeID s =
     (case atomically (\<lambda>d. Inr (\<exists>n \<in> set (gpu_nodes d). n_ID n = nodeID \<and> n_OrgID n = orgID, d)) s of
        (Inl e, s1) \<Rightarrow> (Inl e, s1)
      | (Inr ex, s1) \<Rightarrow>
          if \<not> ex then (Inl ErrNotFound, s1)
          else atomically (\<lambda>d. Inr (revoke_credentials (db_now clk) nodeID d)) s1)"

section \<open>Removal\<close>

text \<open>
  \<open>DELETE FROM gpu_nodes\<close> with the actions of the foreign keys: credentials, GPUs and
  commands of the node are deleted, attachments of deleted GPUs are deleted, workloads keep a null
  node and usage records a null GPU.
\<close>

definition delete_node :: "uuid \<Rightarrow> db \<Rightarrow> db" where
  "delete_node nodeID d =
     (let gone = (\<lambda>gid. \<exists>g \<in> set (gpus d). g_ID g = gid \<and> g_NodeID g = nodeID)
      in d\<lparr>gpu_nodes := del (\<lambda>n. n_ID n = nodeID) (gpu_nodes d),
          agent_credentials := del (\<lambda>c. ac_node c = nodeID) (agent_credentials d),
          gpus := del (\<lambda>g. g_NodeID g = nodeID) (gpus d),
          workload_gpus := del (\<lambda>a. gone (wg_gpu a)) (workload_gpus d),
          usage_records := upd (\<lambda>u. case ur_GPUID u of None \<Rightarrow> False | Some g \<Rightarrow> gone g)
                             (\<lambda>u. u\<lparr>ur_GPUID := None\<rparr>) (usage_records d),
          workloads := upd (\<lambda>w. w_NodeID w = Some nodeID) (\<lambda>w. w\<lparr>w_NodeID := None\<rparr>) (workloads d),
          agent_commands := del (\<lambda>c. c_NodeID c = nodeID) (agent_commands d)\<rparr>)"

record RemoveResult =
  rr_ActiveWorkloads :: nat
  rr_FailedWorkloads :: nat
  rr_CredentialsRevoked :: nat

definition live_on :: "uuid \<Rightarrow> WorkloadRow \<Rightarrow> bool" where
  "live_on nodeID w \<longleftrightarrow> w_NodeID w = Some nodeID \<and> live_state (w_Status w)"

definition fail_on_node :: "time \<Rightarrow> uuid \<Rightarrow> db \<Rightarrow> db" where
  "fail_on_node now nodeID d =
     d\<lparr>workloads := upd (live_on nodeID)
         (\<lambda>w. w\<lparr>w_Status := WorkloadFailed, w_Stage := ''failed'', w_StoppedAt := Some now,
                w_StopReason := coalesce_reason (w_StopReason w) StopAdmin,
                w_Logs := (if w_Logs w = '''' then ''node removed by administrator'' else w_Logs w)\<rparr>)
         (workloads d),
       workload_gpus := upd (\<lambda>a. active a \<and> (\<exists>g \<in> set (gpus d). g_ID g = wg_gpu a \<and> g_NodeID g = nodeID))
         (\<lambda>a. a\<lparr>wg_detached_at := Some now\<rparr>) (workload_gpus d)\<rparr>"

definition RemoveNode :: "clocks \<Rightarrow> uuid \<Rightarrow> uuid \<Rightarrow> bool \<Rightarrow> db \<Rightarrow> err + RemoveResult \<times> db" where
  "RemoveNode clk orgID nodeID force d =
     (if \<not> (\<exists>n \<in> set (gpu_nodes d). n_ID n = nodeID \<and> n_OrgID n = orgID) then Inl ErrNotFound
      else
        let n = affected (live_on nodeID) (workloads d)
        in if n > 0 \<and> \<not> force then Inl ErrNodeBusy
           else
             let d1 = (if n > 0 then fail_on_node (db_now clk) nodeID d else d);
                 (k, d2) = revoke_credentials (db_now clk) nodeID d1
             in Inr (\<lparr>rr_ActiveWorkloads = n, rr_FailedWorkloads = n, rr_CredentialsRevoked = k\<rparr>,
                     delete_node nodeID d2))"

definition DeregisterNode :: "uuid \<Rightarrow> db \<Rightarrow> err + unit \<times> db" where
  "DeregisterNode nodeID d = Inr ((), delete_node nodeID d)"

section \<open>Inventory\<close>

record gpu_report =
  gr_Index :: int
  gr_UUID :: string
  gr_Model :: string
  gr_MemoryMB :: int
  gr_MIGEnabled :: bool

text \<open>\<open>newID u\<close> is the id the database generates for a GPU it sees for the first time.\<close>

definition upsert_gpu ::
  "time \<Rightarrow> (string \<Rightarrow> uuid) \<Rightarrow> uuid \<Rightarrow> uuid \<Rightarrow> gpu_report \<Rightarrow> db \<Rightarrow> err + db" where
  "upsert_gpu now newID nodeID orgID g d =
     (if \<not> (\<exists>n \<in> set (gpu_nodes d). n_ID n = nodeID) then Inl (ErrConstraint ''gpus_node_id_fkey'')
      else if \<not> (\<exists>o' \<in> set (organizations d). o_ID o' = orgID) then Inl (ErrConstraint ''gpus_org_id_fkey'')
      else if \<exists>r \<in> set (gpus d). g_UUID r = gr_UUID g
      then Inr (d\<lparr>gpus := upd (\<lambda>r. g_UUID r = gr_UUID g)
             (\<lambda>r. r\<lparr>g_NodeID := nodeID, g_OrgID := orgID, g_Model := gr_Model g,
                    g_MemoryMB := gr_MemoryMB g, g_MIGEnabled := gr_MIGEnabled g, g_UpdatedAt := now\<rparr>) (gpus d)\<rparr>)
      else if \<exists>r \<in> set (gpus d). g_ID r = newID (gr_UUID g) then Inl (ErrConstraint ''gpus_pkey'')
      else Inr (d\<lparr>gpus := gpus d @
             [\<lparr>g_ID = newID (gr_UUID g), g_NodeID = nodeID, g_OrgID = orgID, g_Index = gr_Index g,
               g_UUID = gr_UUID g, g_Model = gr_Model g, g_MemoryMB = gr_MemoryMB g,
               g_MIGEnabled = gr_MIGEnabled g, g_Status = GPUIdle, g_CreatedAt = now, g_UpdatedAt = now\<rparr>]\<rparr>))"

definition UpsertInventory ::
  "clocks \<Rightarrow> (string \<Rightarrow> uuid) \<Rightarrow> uuid \<Rightarrow> uuid \<Rightarrow> NodeInfo \<Rightarrow> (string \<times> string) list \<Rightarrow> gpu_report list \<Rightarrow>
   db \<Rightarrow> err + unit \<times> db" where
  "UpsertInventory clk newID nodeID orgID info labels gs d =
     (let d1 = d\<lparr>gpu_nodes := upd (\<lambda>n. n_ID n = nodeID)
                  (\<lambda>n. n\<lparr>n_Info := info, n_Labels := labels, n_LastSeenAt := Some (db_now clk),
                         n_Status := NodeOnline\<rparr>) (gpu_nodes d)\<rparr>
      in bindE (foldE (upsert_gpu (db_now clk) newID nodeID orgID) gs d1) (\<lambda>d2. Inr ((), d2)))"

definition SweepOffline :: "clocks \<Rightarrow> db \<Rightarrow> err + unit \<times> db" where
  "SweepOffline clk d =
     (let threshold = go_now clk - 90 * second
      in Inr ((), d\<lparr>gpu_nodes := upd (\<lambda>n. n_Status n = NodeOnline \<and>
                    (case n_LastSeenAt n of None \<Rightarrow> True | Some t \<Rightarrow> t < threshold))
                  (\<lambda>n. n\<lparr>n_Status := NodeOffline\<rparr>) (gpu_nodes d)\<rparr>))"

section \<open>Queries\<close>

record NodeView =
  nv_ID :: uuid
  nv_OrgID :: uuid
  nv_Hostname :: string
  nv_Status :: NodeStatus
  nv_OS :: string
  nv_NvidiaDriver :: string
  nv_CUDAVersion :: string
  nv_AgentVersion :: string
  nv_GPUCount :: nat
  nv_EnrolledAt :: time
  nv_LastSeenAt :: "time option"

definition scanNode :: "db \<Rightarrow> Node \<Rightarrow> NodeView" where
  "scanNode d n =
     \<lparr>nv_ID = n_ID n, nv_OrgID = n_OrgID n, nv_Hostname = ni_Hostname (n_Info n), nv_Status = n_Status n,
      nv_OS = ni_OS (n_Info n), nv_NvidiaDriver = ni_NvidiaDriver (n_Info n),
      nv_CUDAVersion = ni_CUDAVersion (n_Info n), nv_AgentVersion = ni_AgentVersion (n_Info n),
      nv_GPUCount = affected (\<lambda>g. g_NodeID g = n_ID n) (gpus d), nv_EnrolledAt = n_EnrolledAt n,
      nv_LastSeenAt = n_LastSeenAt n\<rparr>"

definition ListNodes :: "uuid \<Rightarrow> db \<Rightarrow> NodeView list" where
  "ListNodes orgID d = map (scanNode d)
     (sort_key (\<lambda>n. ni_Hostname (n_Info n)) (filter (\<lambda>n. n_OrgID n = orgID) (gpu_nodes d)))"

definition GetNodeByID :: "uuid \<Rightarrow> db \<Rightarrow> err + NodeView" where
  "GetNodeByID i d = (case node_by_id i d of None \<Rightarrow> Inl ErrNotFound | Some n \<Rightarrow> Inr (scanNode d n))"

definition GetNodeByFingerprint :: "string \<Rightarrow> db \<Rightarrow> err + NodeView" where
  "GetNodeByFingerprint fp d =
     (case find (\<lambda>n. n_Fingerprint n = Some fp) (gpu_nodes d) of
        None \<Rightarrow> Inl ErrNotFound | Some n \<Rightarrow> Inr (scanNode d n))"

definition listGPUsByNode :: "uuid \<Rightarrow> db \<Rightarrow> GPU list" where
  "listGPUsByNode nodeID d = sort_key g_Index (filter (\<lambda>g. g_NodeID g = nodeID) (gpus d))"

definition GetNode :: "uuid \<Rightarrow> db \<Rightarrow> err + Node \<times> GPU list" where
  "GetNode i d = (case node_by_id i d of None \<Rightarrow> Inl ErrNoRows | Some n \<Rightarrow> Inr (n, listGPUsByNode i d))"

definition ListGPUs :: "uuid \<Rightarrow> GPUStatus option \<Rightarrow> db \<Rightarrow> GPU list" where
  "ListGPUs orgID st d =
     sort_key (\<lambda>g. (g_Model g, g_Index g)) (filter (\<lambda>g. g_OrgID g = orgID \<and>
        (case st of None \<Rightarrow> True | Some x \<Rightarrow> g_Status g = x)) (gpus d))"

end
