(* ===== verification/Accounts.thy ===== *)
theory Accounts
  imports Nodes
begin

text \<open>
  Accounts and organisations (\<open>internal/identity/impl.go\<close>): password and Google sign-in,
  registration, provisioning of an organisation, access tokens and their authentication. The hash
  functions and the token library are third-party code: the record \<open>identity\<close> has them as
  parameters beside the configuration of \<open>ServiceImpl\<close>. The columns of type \<open>citext\<close>
  are compared, and \<open>strings.ToLower\<close> is applied, on ASCII letters; emails are ASCII.
\<close>

section \<open>The service\<close>

text \<open>
  The claims of an access token. The user claim is \<open>None\<close> when the string in the token is
  not a UUID; the organisation claim is \<open>None\<close> when it is empty.
\<close>

record jwtClaims =
  jw_UserID :: "uuid option"
  jw_OrgID :: "uuid option"
  jw_Role :: Role
  jw_ExpiresAt :: time
  jw_IssuedAt :: time

text \<open>
  \<open>id_sha\<close> is \<open>hashToken\<close>, \<open>id_bcrypt\<close> and \<open>id_compare\<close> are
  \<open>bcrypt.GenerateFromPassword\<close> and \<open>bcrypt.CompareHashAndPassword\<close>, \<open>id_sign\<close>
  signs claims with the secret of the service, and \<open>id_verify now\<close> is
  \<open>jwt.ParseWithClaims\<close> under the same secret at the time \<open>now\<close>.
\<close>

record identity =
  id_sessionTTL :: duration
  id_accessTTL :: duration
  id_refreshTTL :: duration
  id_welcomeCredit :: money
  id_sha :: "string \<Rightarrow> string"
  id_bcrypt :: "string \<Rightarrow> err + string"
  id_compare :: "string \<Rightarrow> string \<Rightarrow> bool"
  id_sign :: "jwtClaims \<Rightarrow> string"
  id_verify :: "time \<Rightarrow> string \<Rightarrow> jwtClaims option"

definition accessTokenTTL :: "identity \<Rightarrow> duration" where
  "accessTokenTTL sv = (if id_accessTTL sv > 0 then id_accessTTL sv else id_sessionTTL sv)"

definition refreshTokenTTL :: "identity \<Rightarrow> duration" where
  "refreshTokenTTL sv = (if id_refreshTTL sv > 0 then id_refreshTTL sv else 30 * 24 * hour)"

text \<open>\<open>jwt.NewNumericDate\<close> keeps whole seconds.\<close>

definition trunc_second :: "time \<Rightarrow> time" where
  "trunc_second t = t div second * second"

definition issueJWT :: "identity \<Rightarrow> clocks \<Rightarrow> User \<Rightarrow> string" where
  "issueJWT sv clk u = id_sign sv \<lparr>jw_UserID = Some (u_ID u), jw_OrgID = u_OrgID u, jw_Role = u_Role u,
     jw_ExpiresAt = trunc_second (go_now clk + accessTokenTTL sv), jw_IssuedAt = trunc_second (go_now clk)\<rparr>"

section \<open>Statements and their sequence\<close>

text \<open>A read of the pool, and \<open>if err != nil { return err }\<close> between two statements.\<close>

definition query :: "(db \<Rightarrow> err + 'a) \<Rightarrow> sys \<Rightarrow> (err + 'a) \<times> sys" where
  "query f = atomically (\<lambda>d. bindE (f d) (\<lambda>a. Inr (a, d)))"

definition andThen :: "(sys \<Rightarrow> (err + 'a) \<times> sys) \<Rightarrow> ('a \<Rightarrow> sys \<Rightarrow> (err + 'b) \<times> sys) \<Rightarrow> sys \<Rightarrow> (err + 'b) \<times> sys" where
  "andThen m f s = (case m s of (Inl e, s1) \<Rightarrow> (Inl e, s1) | (Inr a, s1) \<Rightarrow> f a s1)"

definition modify :: "(db \<Rightarrow> db) \<Rightarrow> sys \<Rightarrow> (err + unit) \<times> sys" where
  "modify f = atomically (\<lambda>d. Inr ((), f d))"

lemma query_db: "s_db (snd (query f s)) = s_db s"
  unfolding query_def by (cases rule: atomically_cases [of "\<lambda>d. bindE (f d) (\<lambda>a. Inr (a, d))" s]) (auto simp: bindE_Inr_iff)

lemma query_Inr: "query f s = (Inr a, s1) \<Longrightarrow> f (s_db s) = Inr a \<and> s_db s1 = s_db s"
  unfolding query_def by (drule atomically_Inr) (auto simp: bindE_Inr_iff)

lemma query_no_fault: "s_faults s = [] \<Longrightarrow> query f s = (f (s_db s), s)"
  by (auto simp: query_def atomically_no_fault bindE_def split: sum.split)

lemma modify_no_fault: "s_faults s = [] \<Longrightarrow> modify f s = (Inr (), s\<lparr>s_db := f (s_db s)\<rparr>)"
  by (simp add: modify_def atomically_no_fault)

lemma andThen_Inr_iff: "andThen m f s = (Inr b, t) \<longleftrightarrow> (\<exists>a s1. m s = (Inr a, s1) \<and> f a s1 = (Inr b, t))"
  by (auto simp: andThen_def split: prod.splits sum.splits)

lemma andThen_simps [simp]:
  "m s = (Inl e, s1) \<Longrightarrow> andThen m f s = (Inl e, s1)"
  "m s = (Inr a, s1) \<Longrightarrow> andThen m f s = f a s1"
  by (simp_all add: andThen_def)

section \<open>The tables\<close>

text \<open>The unique indexes of \<open>users\<close>, checked on the table a statement would leave.\<close>

definition users_unique :: "User list \<Rightarrow> bool" where
  "users_unique us \<longleftrightarrow> distinct (map u_ID us) \<and>
     distinct (map (\<lambda>u. (u_OrgID u, lower (u_Email u))) (filter (\<lambda>u. u_OrgID u \<noteq> None) us)) \<and>
     distinct (map (\<lambda>u. lower (u_Email u)) (filter (\<lambda>u. u_OrgID u = None) us)) \<and>
     distinct (map u_GoogleSub (filter (\<lambda>u. u_GoogleSub u \<noteq> None) us))"

definition role_ok :: "Role \<Rightarrow> bool" where
  "role_ok r \<longleftrightarrow> r = RoleOwner \<or> r = RoleAdmin \<or> r = RoleMember"

definition org_exists :: "uuid \<Rightarrow> db \<Rightarrow> bool" where
  "org_exists orgID d \<longleftrightarrow> (\<exists>o' \<in> set (organizations d). o_ID o' = orgID)"

definition put_users :: "User list \<Rightarrow> db \<Rightarrow> err + unit \<times> db" where
  "put_users us d =
     (if \<not> users_unique us then Inl (ErrConstraint ''users_unique'')
      else if \<not> list_all (\<lambda>u. role_ok (u_Role u)) us then Inl (ErrConstraint ''users_role_check'')
      else if \<not> list_all (\<lambda>u. case u_OrgID u of None \<Rightarrow> True | Some i \<Rightarrow> org_exists i d) us
        then Inl (ErrConstraint ''users_org_id_fkey'')
      else Inr ((), d\<lparr>users := us\<rparr>))"

text \<open>The columns a select returns; the other fields of the struct keep their zero values.\<close>

definition scanUserRow :: "User \<Rightarrow> User" where
  "scanUserRow u = u\<lparr>u_PasswordHash := '''', u_LastLoginAt := None, u_CreatedAt := 0, u_IsServiceAccount := False,
     u_GoogleSub := None\<rparr>"

definition scan_brief :: "User \<Rightarrow> User" where
  "scan_brief u = (scanUserRow u)\<lparr>u_AvatarURL := '''', u_EmailVerified := False, u_AuthProvider := ''''\<rparr>"

definition email_user :: "string \<Rightarrow> User \<Rightarrow> bool" where
  "email_user email u \<longleftrightarrow> lower (u_Email u) = lower email"

definition active_user :: "User \<Rightarrow> bool" where
  "active_user u \<longleftrightarrow> u_Status u = ''active''"

definition userByGoogleSub :: "string \<Rightarrow> db \<Rightarrow> User option" where
  "userByGoogleSub sub d =
     map_option scanUserRow (find (\<lambda>u. u_GoogleSub u = Some sub \<and> active_user u) (users d))"

definition userByEmail :: "string \<Rightarrow> db \<Rightarrow> User option" where
  "userByEmail email d =
     map_option scanUserRow (find (\<lambda>u. email_user email u \<and> active_user u) (users d))"

definition new_user :: "clocks \<Rightarrow> uuid \<Rightarrow> uuid option \<Rightarrow> string \<Rightarrow> string \<Rightarrow> string \<Rightarrow> Role \<Rightarrow> User" where
  "new_user clk uid org email hash name role =
     \<lparr>u_ID = uid, u_OrgID = org, u_DepartmentID = None, u_Email = email, u_PasswordHash = hash, u_Name = name,
      u_Role = role, u_Status = ''active'', u_AvatarURL = '''', u_EmailVerified = False, u_AuthProvider = ''password'',
      u_LastLoginAt = None, u_CreatedAt = db_now clk, u_IsServiceAccount = False, u_GoogleSub = None\<rparr>"

definition insertMembershipTx ::
  "clocks \<Rightarrow> uuid \<Rightarrow> uuid \<Rightarrow> uuid \<Rightarrow> Role \<Rightarrow> uuid option \<Rightarrow> db \<Rightarrow> err + unit \<times> db" where
  "insertMembershipTx clk mid orgID userID role invitedBy d =
     (let r = Normalize role
      in if \<not> role_ok r then Inl (ErrConstraint ''organization_members_role_check'')
         else if \<not> org_exists orgID d then Inl (ErrConstraint ''organization_members_org_id_fkey'')
         else if \<not> (\<exists>u \<in> set (users d). u_ID u = userID) then Inl (ErrConstraint ''organization_members_user_id_fkey'')
         else if \<exists>m \<in> set (organization_members d). m_OrgID m = orgID \<and> m_UserID m = userID
           then Inr ((), d\<lparr>organization_members := upd (\<lambda>m. m_OrgID m = orgID \<and> m_UserID m = userID)
                             (\<lambda>m. m\<lparr>m_Role := r\<rparr>) (organization_members d)\<rparr>)
         else Inr ((), d\<lparr>organization_members := organization_members d @
                 [\<lparr>m_ID = mid, m_OrgID = orgID, m_UserID = userID, m_Role = r, m_InvitedBy = invitedBy,
                   m_CreatedAt = db_now clk\<rparr>]\<rparr>))"

section \<open>Provisioning\<close>

text \<open>
  \<open>slugify\<close>: runs of other characters become one dash, none at the ends. A multi-byte
  character is a run of bytes outside the two ranges.
\<close>

definition slug_char :: "char \<Rightarrow> bool" where
  "slug_char c \<longleftrightarrow> (97 \<le> (of_char c :: nat) \<and> (of_char c :: nat) \<le> 122) \<or> (48 \<le> (of_char c :: nat) \<and> (of_char c :: nat) \<le> 57)"

fun slug_loop :: "string \<Rightarrow> bool \<Rightarrow> string \<Rightarrow> string" where
  "slug_loop [] prevDash b = b"
| "slug_loop (c # cs) prevDash b =
     (if slug_char c then slug_loop cs False (b @ [c])
      else if \<not> prevDash \<and> b \<noteq> [] then slug_loop cs True (b @ ''-'')
      else slug_loop cs prevDash b)"

definition trim_dashes :: "string \<Rightarrow> string" where
  "trim_dashes s = rev (dropWhile (\<lambda>c. c = CHR ''-'') (rev (dropWhile (\<lambda>c. c = CHR ''-'') s)))"

definition slugify :: "string \<Rightarrow> string" where
  "slugify s =
     (let out = trim_dashes (slug_loop (lower (TrimSpace s)) False [])
      in if out = [] then ''org'' else out)"

definition seed_rates :: "(string \<times> money) list" where
  "seed_rates = [(''NVIDIA RTX 4090'', 34/100), (''NVIDIA RTX 6000 Ada'', 69/100),
     (''NVIDIA A100'', 89/100), (''NVIDIA H100'', 269/100)]"

definition seed_cards :: "clocks \<Rightarrow> (nat \<Rightarrow> uuid) \<Rightarrow> uuid \<Rightarrow> RateCard list" where
  "seed_cards clk rcID orgID =
     map (\<lambda>(i, model, rate). \<lparr>rc_ID = rcID i, rc_OrgID = orgID, rc_GPUModel = model,
        rc_RatePerGPUHour = num4 rate, rc_Currency = ''USD'', rc_EffectiveFrom = db_now clk, rc_EffectiveTo = None\<rparr>)
       (enumerate 0 seed_rates)"

definition welcome_entries :: "clocks \<Rightarrow> uuid \<Rightarrow> money \<Rightarrow> ledger_entry list" where
  "welcome_entries clk orgID credit =
     (if credit > 0 then [\<lparr>le_org = orgID, le_delta = num4 credit, le_balance = num4 credit, le_kind = ''grant'',
        le_description = ''Welcome credit'', le_workload = None, le_created_at = db_now clk\<rparr>] else [])"

definition provisionOrgTx ::
  "identity \<Rightarrow> clocks \<Rightarrow> uuid \<Rightarrow> (nat \<Rightarrow> uuid) \<Rightarrow> nat list \<Rightarrow> string \<Rightarrow> db \<Rightarrow> err + uuid \<times> db" where
  "provisionOrgTx sv clk orgID rcID rnd orgName d =
     (let slug = slugify orgName @ ''-'' @ take 6 (randomToken rnd)
      in if org_exists orgID d then Inl (ErrConstraint ''organizations_pkey'')
         else if \<exists>o' \<in> set (organizations d). o_Slug o' = slug then Inl (ErrConstraint ''organizations_slug_key'')
         else Inr (orgID, d\<lparr>
           organizations := organizations d @ [\<lparr>o_ID = orgID, o_Name = orgName, o_Slug = slug,
             o_Settings = \<lparr>os_IdleThresholdPct = None, os_IdleDurationMin = None, os_Currency = Some ''USD'',
               os_DefaultRate = Some (1/2)\<rparr>, o_CreatedAt = db_now clk\<rparr>],
           rate_cards := rate_cards d @ seed_cards clk rcID orgID,
           credit_ledger := credit_ledger d @ welcome_entries clk orgID (id_welcomeCredit sv)\<rparr>))"

text \<open>The ids and random bytes a call draws.\<close>

record fresh =
  fr_user :: uuid
  fr_org :: uuid
  fr_member :: uuid
  fr_card :: "nat \<Rightarrow> uuid"
  fr_bytes :: "nat list"

definition register_tx ::
  "identity \<Rightarrow> clocks \<Rightarrow> fresh \<Rightarrow> string \<Rightarrow> string \<Rightarrow> string \<Rightarrow> string \<Rightarrow> db \<Rightarrow> err + User \<times> db" where
  "register_tx sv clk fr orgName email name password d =
     bindE (id_bcrypt sv password) (\<lambda>hash.
     bindE (provisionOrgTx sv clk (fr_org fr) (fr_card fr) (fr_bytes fr) orgName d) (\<lambda>(orgID, d1).
     let u = new_user clk (fr_user fr) (Some orgID) email hash (if name = '''' then ''Admin'' else name) RoleOwner
     in bindE (put_users (users d1 @ [u]) d1) (\<lambda>(_, d2).
        bindE (insertMembershipTx clk (fr_member fr) orgID (u_ID u) RoleOwner None d2) (\<lambda>(_, d3).
        Inr (scan_brief u, d3)))))"

definition id_Register ::
  "identity \<Rightarrow> clocks \<Rightarrow> fresh \<Rightarrow> string \<Rightarrow> string \<Rightarrow> string \<Rightarrow> string \<Rightarrow> sys \<Rightarrow> (err + string \<times> User) \<times> sys" where
  "id_Register sv clk fr orgName0 email0 name password s =
     (let email = TrimSpace (lower email0); orgName = TrimSpace orgName0
      in if email = '''' \<or> password = '''' \<or> orgName = ''''
           then (Inl (ErrText ''organization, email and password are required''), s)
         else if length password < 8 then (Inl (ErrText ''password must be at least 8 characters''), s)
         else andThen (query (\<lambda>d. Inr (\<exists>u \<in> set (users d). email_user email u))) (\<lambda>exists.
           if exists then Pair (Inl ErrUserExists)
           else andThen (atomically (register_tx sv clk fr orgName email name password))
             (\<lambda>u. Pair (Inr (issueJWT sv clk u, u)))) s)"

text \<open>A password account without an organisation (\<open>RegisterPending\<close> of \<open>memberships.go\<close>).\<close>

definition RegisterPending ::
  "identity \<Rightarrow> clocks \<Rightarrow> fresh \<Rightarrow> string \<Rightarrow> string \<Rightarrow> string \<Rightarrow> sys \<Rightarrow> (err + string \<times> User) \<times> sys" where
  "RegisterPending sv clk fr email0 name password s =
     (let email = TrimSpace (lower email0)
      in if email = '''' \<or> password = '''' then (Inl (ErrText ''email and password are required''), s)
         else if length password < 8 then (Inl (ErrText ''password must be at least 8 characters''), s)
         else andThen (query (\<lambda>d. Inr (\<exists>u \<in> set (users d). email_user email u))) (\<lambda>exists.
           if exists then Pair (Inl ErrUserExists)
           else (case id_bcrypt sv password of
                   Inl e \<Rightarrow> Pair (Inl e)
                 | Inr hash \<Rightarrow>
                     (let u = new_user clk (fr_user fr) None email hash (if name = '''' then email else name) RoleMember;
                          v = (scan_brief u)\<lparr>u_AuthProvider := ''password''\<rparr>
                      in andThen (atomically (\<lambda>d. put_users (users d @ [u]) d))
                           (\<lambda>_. Pair (Inr (issueJWT sv clk v, v)))))) s)"

definition create_org_tx ::
  "identity \<Rightarrow> clocks \<Rightarrow> fresh \<Rightarrow> uuid \<Rightarrow> string \<Rightarrow> db \<Rightarrow> err + User \<times> db" where
  "create_org_tx sv clk fr userID orgName d =
     (case find (\<lambda>u. u_ID u = userID \<and> active_user u) (users d) of
        None \<Rightarrow> Inl ErrInvalidCredentials
      | Some u \<Rightarrow>
          if u_OrgID u \<noteq> None then Inl (ErrText ''user already belongs to an organization'')
          else bindE (provisionOrgTx sv clk (fr_org fr) (fr_card fr) (fr_bytes fr) orgName d) (\<lambda>(orgID, d1).
               bindE (put_users (upd (\<lambda>v. u_ID v = userID) (\<lambda>v. v\<lparr>u_OrgID := Some orgID, u_Role := RoleOwner\<rparr>) (users d1)) d1)
                 (\<lambda>(_, d2).
               bindE (insertMembershipTx clk (fr_member fr) orgID userID RoleOwner None d2) (\<lambda>(_, d3).
               Inr (scan_brief (u\<lparr>u_OrgID := Some orgID, u_Role := RoleOwner\<rparr>), d3)))))"

definition CreateOrgForUser ::
  "identity \<Rightarrow> clocks \<Rightarrow> fresh \<Rightarrow> uuid \<Rightarrow> string \<Rightarrow> sys \<Rightarrow> (err + string \<times> User) \<times> sys" where
  "CreateOrgForUser sv clk fr userID orgName0 s =
     (let orgName = TrimSpace orgName0
      in if orgName = '''' then (Inl (ErrText ''organization name is required''), s)
         else andThen (atomically (create_org_tx sv clk fr userID orgName))
                (\<lambda>u. Pair (Inr (issueJWT sv clk u, u))) s)"

definition create_user_tx ::
  "clocks \<Rightarrow> fresh \<Rightarrow> uuid \<Rightarrow> string \<Rightarrow> string \<Rightarrow> string \<Rightarrow> Role \<Rightarrow> db \<Rightarrow> err + User \<times> db" where
  "create_user_tx clk fr orgID email hash name role d =
     (let u = new_user clk (fr_user fr) (Some orgID) email hash name role
      in bindE (put_users (users d @ [u]) d) (\<lambda>(_, d1).
         bindE (insertMembershipTx clk (fr_member fr) orgID (u_ID u) role None d1) (\<lambda>(_, d2).
         Inr (scan_brief u, d2))))"

definition CreateUser ::
  "identity \<Rightarrow> clocks \<Rightarrow> fresh \<Rightarrow> uuid \<Rightarrow> string \<Rightarrow> string \<Rightarrow> Role \<Rightarrow> sys \<Rightarrow> (err + User) \<times> sys" where
  "CreateUser sv clk fr orgID email name role0 s =
     (case id_bcrypt sv (randomToken (fr_bytes fr)) of
        Inl e \<Rightarrow> (Inl e, s)
      | Inr hash \<Rightarrow> atomically (create_user_tx clk fr orgID email hash name (Normalize role0)) s)"

definition ListUsers :: "uuid \<Rightarrow> db \<Rightarrow> User list" where
  "ListUsers orgID d = map scan_brief (sort_key u_Name (filter (\<lambda>u. u_OrgID u = Some orgID) (users d)))"

section \<open>Sign-in\<close>

definition OrgIDByEmail :: "string \<Rightarrow> sys \<Rightarrow> (err + uuid) \<times> sys" where
  "OrgIDByEmail email0 =
     query (\<lambda>d. Inr (case find (email_user (TrimSpace (lower email0))) (users d) of
        None \<Rightarrow> uuid_Nil
      | Some u \<Rightarrow> (case u_OrgID u of None \<Rightarrow> uuid_Nil | Some i \<Rightarrow> i)))"

definition touch_login :: "clocks \<Rightarrow> uuid \<Rightarrow> db \<Rightarrow> db" where
  "touch_login clk uid d = d\<lparr>users := upd (\<lambda>v. u_ID v = uid) (\<lambda>v. v\<lparr>u_LastLoginAt := Some (db_now clk)\<rparr>) (users d)\<rparr>"

definition Login :: "identity \<Rightarrow> clocks \<Rightarrow> string \<Rightarrow> string \<Rightarrow> sys \<Rightarrow> (err + string \<times> User) \<times> sys" where
  "Login sv clk email0 password s =
     andThen (query (\<lambda>d. case find (\<lambda>u. email_user (TrimSpace (lower email0)) u \<and> active_user u) (users d) of
         None \<Rightarrow> Inl ErrInvalidCredentials | Some u \<Rightarrow> Inr u))
       (\<lambda>u s1.
          if u_PasswordHash u = '''' \<or> \<not> id_compare sv (u_PasswordHash u) password then (Inl ErrInvalidCredentials, s1)
          else (let v = scan_brief u
                in (Inr (issueJWT sv clk v, v), snd (modify (touch_login clk (u_ID u)) s1)))) s"

definition refresh_google :: "clocks \<Rightarrow> uuid \<Rightarrow> string \<Rightarrow> db \<Rightarrow> db" where
  "refresh_google clk uid avatar d = d\<lparr>users := upd (\<lambda>v. u_ID v = uid)
     (\<lambda>v. v\<lparr>u_LastLoginAt := Some (db_now clk), u_AvatarURL := avatar, u_EmailVerified := True\<rparr>) (users d)\<rparr>"

definition link_google :: "clocks \<Rightarrow> uuid \<Rightarrow> string \<Rightarrow> string \<Rightarrow> db \<Rightarrow> err + unit \<times> db" where
  "link_google clk uid sub avatar d = put_users (upd (\<lambda>v. u_ID v = uid)
     (\<lambda>v. v\<lparr>u_GoogleSub := Some sub, u_EmailVerified := True, u_LastLoginAt := Some (db_now clk),
            u_AvatarURL := (if u_AvatarURL v = '''' then avatar else u_AvatarURL v)\<rparr>) (users d)) d"

definition UpsertGoogleUser ::
  "identity \<Rightarrow> clocks \<Rightarrow> fresh \<Rightarrow> string \<Rightarrow> string \<Rightarrow> string \<Rightarrow> string \<Rightarrow> bool \<Rightarrow> sys \<Rightarrow> (err + string \<times> User) \<times> sys" where
  "UpsertGoogleUser sv clk fr sub email0 name avatar verified s =
     (let email = TrimSpace (lower email0)
      in if sub = '''' \<or> email = '''' then (Inl (ErrText ''google: missing subject or email''), s)
         else if \<not> verified then (Inl (ErrText ''google: email is not verified''), s)
         else andThen (query (\<lambda>d. Inr (userByGoogleSub sub d))) (\<lambda>bySub.
           case bySub of
             Some u \<Rightarrow> (\<lambda>s1. let v = u\<lparr>u_AvatarURL := avatar\<rparr>
                 in (Inr (issueJWT sv clk v, v), snd (modify (refresh_google clk (u_ID u) avatar) s1)))
           | None \<Rightarrow> andThen (query (\<lambda>d. Inr (userByEmail email d))) (\<lambda>byEmail.
               case byEmail of
                 Some u \<Rightarrow> (let v = u\<lparr>u_AuthProvider := ''google''\<rparr>
                     in andThen (atomically (link_google clk (u_ID u) sub avatar)) (\<lambda>_. Pair (Inr (issueJWT sv clk v, v))))
               | None \<Rightarrow>
                   (let u = (new_user clk (fr_user fr) None email '''' (if name = '''' then email else name) RoleMember)
                        \<lparr>u_GoogleSub := Some sub, u_AvatarURL := avatar, u_EmailVerified := True, u_AuthProvider := ''google''\<rparr>;
                        v = scanUserRow u
                    in andThen (atomically (\<lambda>d. put_users (users d @ [u]) d)) (\<lambda>_. Pair (Inr (issueJWT sv clk v, v)))))) s)"

definition Authenticate :: "identity \<Rightarrow> clocks \<Rightarrow> string \<Rightarrow> sys \<Rightarrow> (err + User) \<times> sys" where
  "Authenticate sv clk token s =
     (case id_verify sv (go_now clk) token of
        None \<Rightarrow> (Inl (ErrText ''invalid token''), s)
      | Some c \<Rightarrow>
          (case jw_UserID c of
             None \<Rightarrow> (Inl (ErrText ''invalid token claims''), s)
           | Some uid \<Rightarrow>
               query (\<lambda>d. case find (\<lambda>u. u_ID u = uid \<and> active_user u) (users d) of
                 None \<Rightarrow> Inl (ErrText ''user not found'') | Some u \<Rightarrow> Inr (scanUserRow u)) s))"

section \<open>Bootstrap\<close>

text \<open>The first colon separates the two parts; without one both are empty.\<close>

fun split_colon :: "string \<Rightarrow> string \<Rightarrow> string \<times> string" where
  "split_colon acc [] = ('''', '''')"
| "split_colon acc (c # cs) = (if c = CHR '':'' then (acc, cs) else split_colon (acc @ [c]) cs)"

definition bootstrap_user :: "clocks \<Rightarrow> fresh \<Rightarrow> uuid \<Rightarrow> string \<Rightarrow> string \<Rightarrow> db \<Rightarrow> err + uuid option \<times> db" where
  "bootstrap_user clk fr orgID email hash d =
     (if \<exists>u \<in> set (users d). u_OrgID u = Some orgID \<and> email_user email u then Inr (None, d)
      else bindE (put_users (users d @ [new_user clk (fr_user fr) (Some orgID) email hash ''Admin'' RoleOwner]) d)
             (\<lambda>(_, d1). Inr (Some (fr_user fr), d1)))"

definition bootstrap_member :: "clocks \<Rightarrow> fresh \<Rightarrow> uuid \<Rightarrow> uuid \<Rightarrow> db \<Rightarrow> err + unit \<times> db" where
  "bootstrap_member clk fr orgID userID d =
     (if \<exists>m \<in> set (organization_members d). m_OrgID m = orgID \<and> m_UserID m = userID then Inr ((), d)
      else insertMembershipTx clk (fr_member fr) orgID userID RoleOwner None d)"

definition BootstrapAdmin :: "identity \<Rightarrow> clocks \<Rightarrow> fresh \<Rightarrow> string \<Rightarrow> sys \<Rightarrow> (err + unit) \<times> sys" where
  "BootstrapAdmin sv clk fr spec s =
     (let (r, s0) = query (\<lambda>d. Inr (length (users d))) s;
          n = (case r of Inl e \<Rightarrow> 0 | Inr n \<Rightarrow> n);
          (email, password) = split_colon [] spec
      in if n > 0 then (Inr (), s0)
         else if email = '''' \<or> password = '''' then (Inl (ErrText ''bootstrap spec must be email:password''), s0)
         else andThen (query (\<lambda>d. case organizations d of [] \<Rightarrow> Inl ErrNoRows | o' # _ \<Rightarrow> Inr (o_ID o'))) (\<lambda>orgID.
           case id_bcrypt sv password of
             Inl e \<Rightarrow> Pair (Inl e)
           | Inr hash \<Rightarrow> andThen (atomically (bootstrap_user clk fr orgID email hash)) (\<lambda>made.
               case made of
                 None \<Rightarrow> Pair (Inr ())
               | Some userID \<Rightarrow> atomically (bootstrap_member clk fr orgID userID))) s0)"

end
