(* ===== verification/Sessions.thy ===== *)
theory Sessions
  imports Accounts
begin

text \<open>
  Refresh-token sessions (\<open>internal/identity/sessions.go\<close>) and single-use email tokens
  (\<open>internal/identity/emailtokens.go\<close>). A session row holds the hash of its current refresh
  token; a refresh swaps it in one statement. An email token is claimed by one statement too.
\<close>

section \<open>Devices\<close>

record DeviceInfo =
  dv_UserAgent :: string
  dv_IPAddress :: string
  dv_DeviceName :: string
  dv_Browser :: string
  dv_OS :: string

definition clip :: "string \<Rightarrow> nat \<Rightarrow> string" where
  "clip s n = (if length s > n then take n s else s)"

fun contains :: "string \<Rightarrow> string \<Rightarrow> bool" where
  "contains p [] \<longleftrightarrow> p = []"
| "contains p (c # cs) \<longleftrightarrow> has_prefix p (c # cs) \<or> contains p cs"

definition ua_browser :: "string \<Rightarrow> string" where
  "ua_browser l =
     (if contains ''edg/'' l then ''Edge''
      else if contains ''opr/'' l \<or> contains ''opera'' l then ''Opera''
      else if contains ''chrome/'' l \<and> \<not> contains ''chromium'' l then ''Chrome''
      else if contains ''chromium'' l then ''Chromium''
      else if contains ''firefox/'' l then ''Firefox''
      else if contains ''safari/'' l \<and> contains ''version/'' l then ''Safari''
      else if contains ''curl/'' l then ''curl''
      else ''Unknown'')"

definition ua_os :: "string \<Rightarrow> string" where
  "ua_os l =
     (if contains ''windows'' l then ''Windows''
      else if contains ''iphone'' l then ''iOS''
      else if contains ''ipad'' l then ''iPadOS''
      else if contains ''mac os x'' l \<or> contains ''macintosh'' l then ''macOS''
      else if contains ''android'' l then ''Android''
      else if contains ''linux'' l then ''Linux''
      else ''Unknown'')"

definition parseUserAgent :: "string \<Rightarrow> string \<times> string \<times> string" where
  "parseUserAgent ua =
     (let l = lower ua; browser = ua_browser l; os = ua_os l
      in (browser, os,
          if os = ''Unknown'' \<and> browser = ''Unknown'' then ''Unknown device''
          else if browser = ''Unknown'' then os
          else browser @ '' on '' @ os))"

definition normalized :: "DeviceInfo \<Rightarrow> DeviceInfo" where
  "normalized dv =
     (let (b, os, name) = parseUserAgent (dv_UserAgent dv)
      in \<lparr>dv_UserAgent = clip (dv_UserAgent dv) 512, dv_IPAddress = clip (dv_IPAddress dv) 64,
          dv_DeviceName = clip (if dv_DeviceName dv = '''' then name else dv_DeviceName dv) 120,
          dv_Browser = clip (if dv_Browser dv = '''' then b else dv_Browser dv) 60,
          dv_OS = clip (if dv_OS dv = '''' then os else dv_OS dv) 60\<rparr>)"

lemma length_clip: "length (clip s n) \<le> n"
  by (simp add: clip_def)

lemma normalized_bounds:
  "length (dv_UserAgent (normalized dv)) \<le> 512" "length (dv_DeviceName (normalized dv)) \<le> 120"
  "length (dv_Browser (normalized dv)) \<le> 60" "length (dv_OS (normalized dv)) \<le> 60"
  "length (dv_IPAddress (normalized dv)) \<le> 64"
  by (simp_all add: normalized_def length_clip split: prod.split)

section \<open>Sessions\<close>

definition live_session :: "time \<Rightarrow> Session \<Rightarrow> bool" where
  "live_session now r \<longleftrightarrow> ss_RevokedAt r = None \<and> ss_ExpiresAt r > now"

definition IssueAccessToken :: "identity \<Rightarrow> clocks \<Rightarrow> User \<Rightarrow> string" where
  "IssueAccessToken sv clk u = issueJWT sv clk u"

definition insert_session :: "Session \<Rightarrow> db \<Rightarrow> err + Session \<times> db" where
  "insert_session r d =
     (if \<exists>q \<in> set (user_sessions d). ss_ID q = ss_ID r then Inl (ErrConstraint ''user_sessions_pkey'')
      else if \<exists>q \<in> set (user_sessions d). ss_RefreshTokenHash q = ss_RefreshTokenHash r
        then Inl (ErrConstraint ''user_sessions_refresh_token_hash_key'')
      else if \<not> (\<exists>u \<in> set (users d). u_ID u = ss_UserID r) then Inl (ErrConstraint ''user_sessions_user_id_fkey'')
      else Inr (r, d\<lparr>user_sessions := user_sessions d @ [r]\<rparr>))"

definition CreateSession ::
  "identity \<Rightarrow> clocks \<Rightarrow> uuid \<Rightarrow> nat list \<Rightarrow> uuid \<Rightarrow> DeviceInfo \<Rightarrow> sys \<Rightarrow> (err + string \<times> Session) \<times> sys" where
  "CreateSession sv clk sid rnd userID dev s =
     (let raw = randomToken rnd; dv = normalized dev
      in andThen (atomically (insert_session
           \<lparr>ss_ID = sid, ss_UserID = userID, ss_RefreshTokenHash = id_sha sv raw, ss_DeviceName = dv_DeviceName dv,
            ss_Browser = dv_Browser dv, ss_OS = dv_OS dv, ss_IPAddress = dv_IPAddress dv, ss_UserAgent = dv_UserAgent dv,
            ss_CreatedAt = db_now clk, ss_LastActiveAt = db_now clk,
            ss_ExpiresAt = go_now clk + refreshTokenTTL sv, ss_RevokedAt = None\<rparr>))
           (\<lambda>r. Pair (Inr (raw, r))) s)"

text \<open>\<open>userByID\<close> reads an active user inside the transaction.\<close>

definition userByID :: "uuid \<Rightarrow> db \<Rightarrow> err + User" where
  "userByID i d = (case find (\<lambda>u. u_ID u = i \<and> active_user u) (users d) of
     None \<Rightarrow> Inl ErrNoRows | Some u \<Rightarrow> Inr (scanUserRow u))"

definition rotate :: "time \<Rightarrow> string \<Rightarrow> DeviceInfo \<Rightarrow> Session \<Rightarrow> Session" where
  "rotate now newHash dv r = r\<lparr>ss_RefreshTokenHash := newHash, ss_LastActiveAt := now,
     ss_IPAddress := dv_IPAddress dv, ss_UserAgent := dv_UserAgent dv\<rparr>"

definition refresh_tx :: "clocks \<Rightarrow> string \<Rightarrow> string \<Rightarrow> DeviceInfo \<Rightarrow> db \<Rightarrow> err + (User \<times> Session) \<times> db" where
  "refresh_tx clk oldHash newHash dv d =
     (let hit = (\<lambda>r. ss_RefreshTokenHash r = oldHash \<and> live_session (db_now clk) r)
      in case find hit (user_sessions d) of
           None \<Rightarrow> Inl ErrSessionInvalid
         | Some r \<Rightarrow>
             if newHash \<noteq> oldHash \<and> (\<exists>q \<in> set (user_sessions d). ss_RefreshTokenHash q = newHash)
             then Inl (ErrConstraint ''user_sessions_refresh_token_hash_key'')
             else (case userByID (ss_UserID r) d of
                     Inl e \<Rightarrow> Inl ErrSessionInvalid
                   | Inr u \<Rightarrow> Inr ((u, rotate (db_now clk) newHash dv r),
                       d\<lparr>user_sessions := upd hit (rotate (db_now clk) newHash dv) (user_sessions d)\<rparr>)))"

definition RefreshSession ::
  "identity \<Rightarrow> clocks \<Rightarrow> nat list \<Rightarrow> string \<Rightarrow> DeviceInfo \<Rightarrow> sys \<Rightarrow> (err + string \<times> string \<times> User \<times> Session) \<times> sys" where
  "RefreshSession sv clk rnd raw dev s =
     (if TrimSpace raw = '''' then (Inl ErrSessionInvalid, s)
      else (let newRaw = randomToken rnd
            in andThen (atomically (refresh_tx clk (id_sha sv raw) (id_sha sv newRaw) (normalized dev)))
                 (\<lambda>(u, r). Pair (Inr (issueJWT sv clk u, newRaw, u, r))) s))"

definition ListSessions :: "clocks \<Rightarrow> uuid \<Rightarrow> db \<Rightarrow> Session list" where
  "ListSessions clk userID d =
     sort_key (\<lambda>r. - ss_LastActiveAt r) (filter (\<lambda>r. ss_UserID r = userID \<and> live_session (db_now clk) r) (user_sessions d))"

definition revoke_sessions :: "time \<Rightarrow> (Session \<Rightarrow> bool) \<Rightarrow> db \<Rightarrow> db" where
  "revoke_sessions now P d =
     d\<lparr>user_sessions := upd (\<lambda>r. P r \<and> ss_RevokedAt r = None) (\<lambda>r. r\<lparr>ss_RevokedAt := Some now\<rparr>) (user_sessions d)\<rparr>"

definition revoke_session_tx :: "clocks \<Rightarrow> uuid \<Rightarrow> uuid \<Rightarrow> db \<Rightarrow> err + unit \<times> db" where
  "revoke_session_tx clk userID sid d =
     (if affected (\<lambda>r. (ss_ID r = sid \<and> ss_UserID r = userID) \<and> ss_RevokedAt r = None) (user_sessions d) = 0
      then Inl ErrNotFound
      else Inr ((), revoke_sessions (db_now clk) (\<lambda>r. ss_ID r = sid \<and> ss_UserID r = userID) d))"

definition RevokeSession :: "clocks \<Rightarrow> uuid \<Rightarrow> uuid \<Rightarrow> sys \<Rightarrow> (err + unit) \<times> sys" where
  "RevokeSession clk userID sid = atomically (revoke_session_tx clk userID sid)"

definition except_session :: "uuid option \<Rightarrow> Session \<Rightarrow> bool" where
  "except_session ex r \<longleftrightarrow> (case ex of None \<Rightarrow> True | Some i \<Rightarrow> ss_ID r \<noteq> i)"

definition RevokeAllSessions :: "clocks \<Rightarrow> uuid \<Rightarrow> uuid option \<Rightarrow> sys \<Rightarrow> (err + unit) \<times> sys" where
  "RevokeAllSessions clk userID ex =
     modify (revoke_sessions (db_now clk) (\<lambda>r. ss_UserID r = userID \<and> except_session ex r))"

definition RevokeSessionByRefresh :: "identity \<Rightarrow> clocks \<Rightarrow> string \<Rightarrow> sys \<Rightarrow> (err + uuid \<times> uuid) \<times> sys" where
  "RevokeSessionByRefresh sv clk raw s =
     (if TrimSpace raw = '''' then (Inr (uuid_Nil, uuid_Nil), s)
      else atomically (\<lambda>d.
        case find (\<lambda>r. ss_RefreshTokenHash r = id_sha sv raw \<and> ss_RevokedAt r = None) (user_sessions d) of
          None \<Rightarrow> Inr ((uuid_Nil, uuid_Nil), d)
        | Some r \<Rightarrow>
            (case find (\<lambda>u. u_ID u = ss_UserID r) (users d) of
               None \<Rightarrow> Inr ((uuid_Nil, uuid_Nil), d)
             | Some u \<Rightarrow> Inr ((ss_UserID r, case u_OrgID u of None \<Rightarrow> uuid_Nil | Some i \<Rightarrow> i),
                 revoke_sessions (db_now clk) (\<lambda>r. ss_RefreshTokenHash r = id_sha sv raw) d))) s)"

definition SessionIDByRefresh :: "identity \<Rightarrow> clocks \<Rightarrow> string \<Rightarrow> sys \<Rightarrow> (err + uuid) \<times> sys" where
  "SessionIDByRefresh sv clk raw s =
     (if TrimSpace raw = '''' then (Inl ErrNotFound, s)
      else query (\<lambda>d. case find (\<lambda>r. ss_RefreshTokenHash r = id_sha sv raw \<and> live_session (db_now clk) r) (user_sessions d) of
        None \<Rightarrow> Inl ErrNotFound | Some r \<Rightarrow> Inr (ss_ID r)) s)"

section \<open>Email tokens\<close>

definition verifyTokenTTL :: duration where "verifyTokenTTL = 24 * hour"
definition resetTokenTTL :: duration where "resetTokenTTL = hour"

definition mint_tx :: "clocks \<Rightarrow> uuid \<Rightarrow> uuid \<Rightarrow> string \<Rightarrow> string \<Rightarrow> duration \<Rightarrow> db \<Rightarrow> err + unit \<times> db" where
  "mint_tx clk tid userID kind hash ttl d =
     (let ts = upd (\<lambda>t. atk_UserID t = userID \<and> atk_kind t = kind \<and> atk_UsedAt t = None)
                 (\<lambda>t. t\<lparr>atk_UsedAt := Some (db_now clk)\<rparr>) (auth_tokens d)
      in if \<exists>t \<in> set ts. atk_ID t = tid then Inl (ErrConstraint ''auth_tokens_pkey'')
         else if \<exists>t \<in> set ts. atk_TokenHash t = hash then Inl (ErrConstraint ''auth_tokens_token_hash_key'')
         else if \<not> (\<exists>u \<in> set (users d). u_ID u = userID) then Inl (ErrConstraint ''auth_tokens_user_id_fkey'')
         else Inr ((), d\<lparr>auth_tokens := ts @ [\<lparr>atk_ID = tid, atk_UserID = userID, atk_kind = kind, atk_TokenHash = hash,
                 atk_ExpiresAt = go_now clk + ttl, atk_UsedAt = None\<rparr>]\<rparr>))"

definition mintAuthToken ::
  "identity \<Rightarrow> clocks \<Rightarrow> uuid \<Rightarrow> nat list \<Rightarrow> uuid \<Rightarrow> string \<Rightarrow> duration \<Rightarrow> sys \<Rightarrow> (err + string) \<times> sys" where
  "mintAuthToken sv clk tid rnd userID kind ttl =
     (let raw = randomToken rnd
      in andThen (atomically (mint_tx clk tid userID kind (id_sha sv raw) ttl)) (\<lambda>_. Pair (Inr raw)))"

definition spendable :: "time \<Rightarrow> string \<Rightarrow> string \<Rightarrow> auth_token \<Rightarrow> bool" where
  "spendable now hash kind t \<longleftrightarrow>
     atk_TokenHash t = hash \<and> atk_kind t = kind \<and> atk_UsedAt t = None \<and> atk_ExpiresAt t > now"

definition consume_tx :: "clocks \<Rightarrow> string \<Rightarrow> string \<Rightarrow> db \<Rightarrow> err + uuid \<times> db" where
  "consume_tx clk hash kind d =
     (case find (spendable (db_now clk) hash kind) (auth_tokens d) of
        None \<Rightarrow> Inl ErrAuthTokenInvalid
      | Some t \<Rightarrow> Inr (atk_UserID t, d\<lparr>auth_tokens := upd (spendable (db_now clk) hash kind)
          (\<lambda>t. t\<lparr>atk_UsedAt := Some (db_now clk)\<rparr>) (auth_tokens d)\<rparr>))"

definition consumeAuthToken :: "identity \<Rightarrow> clocks \<Rightarrow> string \<Rightarrow> string \<Rightarrow> sys \<Rightarrow> (err + uuid) \<times> sys" where
  "consumeAuthToken sv clk raw kind = atomically (consume_tx clk (id_sha sv raw) kind)"

definition userSnapshot :: "uuid \<Rightarrow> db \<Rightarrow> err + User" where
  "userSnapshot i d = (case find (\<lambda>u. u_ID u = i \<and> active_user u) (users d) of
     None \<Rightarrow> Inl ErrNotFound
   | Some u \<Rightarrow> Inr ((scanUserRow u)\<lparr>u_DepartmentID := None, u_AvatarURL := ''''\<rparr>))"

definition RequestEmailVerification ::
  "identity \<Rightarrow> clocks \<Rightarrow> uuid \<Rightarrow> nat list \<Rightarrow> uuid \<Rightarrow> sys \<Rightarrow> (err + string \<times> User) \<times> sys" where
  "RequestEmailVerification sv clk tid rnd userID =
     andThen (query (userSnapshot userID)) (\<lambda>u.
       if u_EmailVerified u then Pair (Inl ErrAlreadyVerified)
       else andThen (mintAuthToken sv clk tid rnd (u_ID u) ''verify_email'' verifyTokenTTL)
              (\<lambda>raw. Pair (Inr (raw, u))))"

definition ConfirmEmailVerification :: "identity \<Rightarrow> clocks \<Rightarrow> string \<Rightarrow> sys \<Rightarrow> (err + User) \<times> sys" where
  "ConfirmEmailVerification sv clk raw =
     andThen (consumeAuthToken sv clk raw ''verify_email'') (\<lambda>userID.
     andThen (modify (\<lambda>d. d\<lparr>users := upd (\<lambda>u. u_ID u = userID) (\<lambda>u. u\<lparr>u_EmailVerified := True\<rparr>) (users d)\<rparr>)) (\<lambda>_.
     query (userSnapshot userID)))"

definition RequestPasswordReset ::
  "identity \<Rightarrow> clocks \<Rightarrow> uuid \<Rightarrow> nat list \<Rightarrow> string \<Rightarrow> sys \<Rightarrow> (err + string \<times> User) \<times> sys" where
  "RequestPasswordReset sv clk tid rnd email0 =
     andThen (query (\<lambda>d. case find (\<lambda>u. email_user (TrimSpace (lower email0)) u \<and> active_user u) (users d) of
         None \<Rightarrow> Inl ErrNotFound | Some u \<Rightarrow> Inr (u_ID u))) (\<lambda>userID.
     andThen (query (userSnapshot userID)) (\<lambda>u.
     andThen (mintAuthToken sv clk tid rnd userID ''password_reset'' resetTokenTTL)
       (\<lambda>raw. Pair (Inr (raw, u)))))"

definition set_password :: "uuid \<Rightarrow> string \<Rightarrow> db \<Rightarrow> db" where
  "set_password userID hash d = d\<lparr>users := upd (\<lambda>u. u_ID u = userID)
     (\<lambda>u. u\<lparr>u_PasswordHash := hash, u_EmailVerified := True\<rparr>) (users d)\<rparr>"

definition ConfirmPasswordReset :: "identity \<Rightarrow> clocks \<Rightarrow> string \<Rightarrow> string \<Rightarrow> sys \<Rightarrow> (err + User) \<times> sys" where
  "ConfirmPasswordReset sv clk raw newPassword s =
     (if length newPassword < 8 then (Inl (ErrText ''password must be at least 8 characters''), s)
      else andThen (consumeAuthToken sv clk raw ''password_reset'') (\<lambda>userID.
        case id_bcrypt sv newPassword of
          Inl e \<Rightarrow> Pair (Inl e)
        | Inr hash \<Rightarrow>
            andThen (modify (set_password userID hash)) (\<lambda>_.
            andThen (RevokeAllSessions clk userID None) (\<lambda>_.
            query (userSnapshot userID)))) s)"

section \<open>Rotation\<close>

lemma live_session_mono: "live_session later r \<Longrightarrow> now \<le> later \<Longrightarrow> live_session now r"
  by (auto simp: live_session_def)

lemma rotate_simps [simp]:
  "ss_ID (rotate now h dv r) = ss_ID r" "ss_UserID (rotate now h dv r) = ss_UserID r"
  "ss_RefreshTokenHash (rotate now h dv r) = h" "live_session t (rotate now h dv r) = live_session t r"
  "ss_RevokedAt (rotate now h dv r) = ss_RevokedAt r" "ss_ExpiresAt (rotate now h dv r) = ss_ExpiresAt r"
  by (simp_all add: rotate_def live_session_def)

lemma RefreshSession_Inr:
  assumes "RefreshSession sv clk rnd raw dev s = (Inr (access, newRaw, u, r), s')"
  obtains q where "q \<in> set (user_sessions (s_db s))" and "ss_RefreshTokenHash q = id_sha sv raw"
    and "live_session (db_now clk) q" and "newRaw = randomToken rnd"
    and "r = rotate (db_now clk) (id_sha sv newRaw) (normalized dev) q"
    and "userByID (ss_UserID q) (s_db s) = Inr u" and "access = issueJWT sv clk u"
    and "s_db s' = (s_db s)\<lparr>user_sessions := upd (\<lambda>r. ss_RefreshTokenHash r = id_sha sv raw \<and> live_session (db_now clk) r)
      (rotate (db_now clk) (id_sha sv newRaw) (normalized dev)) (user_sessions (s_db s))\<rparr>"
proof -
  have tx: "refresh_tx clk (id_sha sv raw) (id_sha sv (randomToken rnd)) (normalized dev) (s_db s) = Inr ((u, r), s_db s')"
    and v: "newRaw = randomToken rnd" "access = issueJWT sv clk u"
    using assms by (auto simp: RefreshSession_def Let_def andThen_Inr_iff dest!: atomically_Inr split: if_splits)
  obtain q where q: "find (\<lambda>r. ss_RefreshTokenHash r = id_sha sv raw \<and> live_session (db_now clk) r) (user_sessions (s_db s)) = Some q"
    using tx by (auto simp: refresh_tx_def Let_def split: option.splits)
  from find_SomeD [OF q] show ?thesis
    using tx q v by (intro that [of q]) (auto simp: refresh_tx_def Let_def split: if_splits sum.splits)
qed

text \<open>A refresh token works once: after a refresh, every use of the old token is refused.\<close>

lemma RefreshSession_replay:
  assumes "RefreshSession sv clk rnd raw dev s = (Inr (access, newRaw, u, r), s')"
    and "id_sha sv newRaw \<noteq> id_sha sv raw" and "db_now clk \<le> db_now clk'"
  shows "fst (RefreshSession sv clk' rnd' raw dev' s') \<noteq> Inr x"
proof
  assume "fst (RefreshSession sv clk' rnd' raw dev' s') = Inr x"
  then obtain a n v q s'' where "RefreshSession sv clk' rnd' raw dev' s' = (Inr (a, n, v, q), s'')"
    by (metis prod.exhaust_sel)
  then obtain q' where q': "q' \<in> set (user_sessions (s_db s'))" "ss_RefreshTokenHash q' = id_sha sv raw"
    "live_session (db_now clk') q'" by (rule RefreshSession_Inr) blast
  have "live_session (db_now clk) q'" using q'(3) assms(3) by (rule live_session_mono)
  moreover have "q' \<in> set (upd (\<lambda>r. ss_RefreshTokenHash r = id_sha sv raw \<and> live_session (db_now clk) r)
      (rotate (db_now clk) (id_sha sv newRaw) (normalized dev)) (user_sessions (s_db s)))"
    using assms(1) by (rule RefreshSession_Inr) (use q'(1) in simp)
  ultimately show False using q'(2) assms(2) by (elim in_set_updE) auto
qed

text \<open>The new token continues the same session, with its old expiry.\<close>

lemma RefreshSession_continues:
  assumes "RefreshSession sv clk rnd raw dev s = (Inr (access, newRaw, u, r), s')"
  shows "r \<in> set (user_sessions (s_db s'))" and "live_session (db_now clk) r"
    and "ss_RefreshTokenHash r = id_sha sv newRaw" and "u_ID u = ss_UserID r"
    and "\<exists>q \<in> set (user_sessions (s_db s)). ss_ID q = ss_ID r \<and> ss_UserID q = ss_UserID r \<and>
      ss_ExpiresAt q = ss_ExpiresAt r \<and> ss_RefreshTokenHash q = id_sha sv raw"
proof -
  obtain q where q: "q \<in> set (user_sessions (s_db s))" "ss_RefreshTokenHash q = id_sha sv raw"
    "live_session (db_now clk) q" "r = rotate (db_now clk) (id_sha sv newRaw) (normalized dev) q"
    "userByID (ss_UserID q) (s_db s) = Inr u"
    "user_sessions (s_db s') = upd (\<lambda>r. ss_RefreshTokenHash r = id_sha sv raw \<and> live_session (db_now clk) r)
      (rotate (db_now clk) (id_sha sv newRaw) (normalized dev)) (user_sessions (s_db s))"
    using assms by (rule RefreshSession_Inr) simp
  show "r \<in> set (user_sessions (s_db s'))"
    using in_set_updI [OF q(1), of "\<lambda>r. ss_RefreshTokenHash r = id_sha sv raw \<and> live_session (db_now clk) r"
        "rotate (db_now clk) (id_sha sv newRaw) (normalized dev)"] q(2-4,6) by simp
  show "live_session (db_now clk) r" "ss_RefreshTokenHash r = id_sha sv newRaw" using q by simp_all
  show "u_ID u = ss_UserID r"
    using q(4,5) by (auto simp: userByID_def scanUserRow_def split: option.splits dest: find_SomeD)
  show "\<exists>q \<in> set (user_sessions (s_db s)). ss_ID q = ss_ID r \<and> ss_UserID q = ss_UserID r \<and>
      ss_ExpiresAt q = ss_ExpiresAt r \<and> ss_RefreshTokenHash q = id_sha sv raw"
    using q by (intro bexI [OF _ q(1)]) simp
qed

section \<open>Revocation\<close>

text \<open>A revoked session never refreshes again, whatever its token.\<close>

lemma revoked_all_refresh:
  assumes "\<And>q. q \<in> set (user_sessions (s_db s)) \<Longrightarrow> ss_UserID q = userID \<Longrightarrow> ss_RevokedAt q \<noteq> None"
    and "RefreshSession sv clk rnd raw dev s = (Inr (access, newRaw, u, r), s')"
  shows "u_ID u \<noteq> userID"
proof
  assume "u_ID u = userID"
  then have "ss_UserID r = userID" using RefreshSession_continues(4) [OF assms(2)] by simp
  moreover obtain q where "q \<in> set (user_sessions (s_db s))" "live_session (db_now clk) q" "ss_UserID q = ss_UserID r"
    using assms(2) by (rule RefreshSession_Inr) simp
  ultimately show False using assms(1) [of q] by (simp add: live_session_def)
qed

lemma revoke_sessions_all:
  "q \<in> set (user_sessions (revoke_sessions now P d)) \<Longrightarrow> P q \<Longrightarrow> (\<And>r t. P (r\<lparr>ss_RevokedAt := t\<rparr>) = P r) \<Longrightarrow>
   ss_RevokedAt q \<noteq> None"
  by (auto simp: revoke_sessions_def elim!: in_set_updE)

section \<open>Email tokens are used once\<close>

lemma consume_tx_Inr:
  assumes "consume_tx clk hash kind d = Inr (uid, d')"
  shows "\<And>t. t \<in> set (auth_tokens d') \<Longrightarrow> \<not> spendable (db_now clk) hash kind t"
    and "d' = d\<lparr>auth_tokens := auth_tokens d'\<rparr>"
    and "\<exists>t \<in> set (auth_tokens d). spendable (db_now clk) hash kind t \<and> atk_UserID t = uid"
proof -
  obtain t where t: "find (spendable (db_now clk) hash kind) (auth_tokens d) = Some t" "uid = atk_UserID t"
    "d' = d\<lparr>auth_tokens := upd (spendable (db_now clk) hash kind) (\<lambda>t. t\<lparr>atk_UsedAt := Some (db_now clk)\<rparr>) (auth_tokens d)\<rparr>"
    using assms by (auto simp: consume_tx_def split: option.splits)
  show "\<not> spendable (db_now clk) hash kind x" if "x \<in> set (auth_tokens d')" for x
    using that unfolding t(3) by (auto simp: spendable_def elim!: in_set_updE)
  show "d' = d\<lparr>auth_tokens := auth_tokens d'\<rparr>" using t(3) by simp
  show "\<exists>t \<in> set (auth_tokens d). spendable (db_now clk) hash kind t \<and> atk_UserID t = uid"
    using find_SomeD [OF t(1)] t(2) by blast
qed

lemma consume_once:
  assumes "consume_tx clk hash kind d = Inr (uid, d')" and "db_now clk \<le> db_now clk'"
  shows "consume_tx clk' hash kind d' = Inl ErrAuthTokenInvalid"
proof -
  have "\<not> spendable (db_now clk') hash kind t" if "t \<in> set (auth_tokens d')" for t
    using consume_tx_Inr(1) [OF assms(1) that] assms(2) by (auto simp: spendable_def)
  then have "find (spendable (db_now clk') hash kind) (auth_tokens d') = None" by (simp add: find_None_set)
  then show ?thesis by (simp add: consume_tx_def)
qed

text \<open>Minting a token spends every earlier one of the same kind.\<close>

lemma mint_latest:
  assumes "mint_tx clk tid userID kind hash ttl d = Inr ((), d')" and "t \<in> set (auth_tokens d')"
    and "atk_UserID t = userID" and "atk_kind t = kind" and "atk_UsedAt t = None"
  shows "atk_TokenHash t = hash"
proof -
  obtain ts where ts: "ts = upd (\<lambda>t. atk_UserID t = userID \<and> atk_kind t = kind \<and> atk_UsedAt t = None)
      (\<lambda>t. t\<lparr>atk_UsedAt := Some (db_now clk)\<rparr>) (auth_tokens d)"
    and t: "t \<in> set ts \<or> atk_TokenHash t = hash"
    using assms(1,2) by (auto simp: mint_tx_def Let_def split: if_splits)
  have "t \<notin> set ts"
  proof
    assume "t \<in> set ts"
    then show False unfolding ts by (cases rule: in_set_updE) (use assms(3-5) in auto)
  qed
  then show ?thesis using t by blast
qed

section \<open>Password reset\<close>

lemma ConfirmPasswordReset_Inr:
  assumes "ConfirmPasswordReset sv clk raw pw s = (Inr u, s')"
  obtains uid h ts where "id_bcrypt sv pw = Inr h" and "u_ID u = uid" and "8 \<le> length pw"
    and "s_db s' = revoke_sessions (db_now clk) (\<lambda>r. ss_UserID r = uid \<and> except_session None r)
      (set_password uid h ((s_db s)\<lparr>auth_tokens := ts\<rparr>))"
    and "\<exists>v \<in> set (users (s_db s')). u_ID v = uid \<and> active_user v"
proof -
  obtain uid s1 h s2 s3 where c: "consumeAuthToken sv clk raw ''password_reset'' s = (Inr uid, s1)"
    and h: "id_bcrypt sv pw = Inr h" and len: "8 \<le> length pw"
    and m: "modify (set_password uid h) s1 = (Inr (), s2)" and r: "RevokeAllSessions clk uid None s2 = (Inr (), s3)"
    and q: "query (userSnapshot uid) s3 = (Inr u, s')"
    using assms unfolding ConfirmPasswordReset_def
    by (cases "id_bcrypt sv pw") (auto simp: andThen_Inr_iff split: if_splits)
  have "s_db s1 = (s_db s)\<lparr>auth_tokens := auth_tokens (s_db s1)\<rparr>"
    using c unfolding consumeAuthToken_def by (metis atomically_Inr consume_tx_Inr(2))
  moreover have "s_db s2 = set_password uid h (s_db s1)"
    using atomically_Inr [OF m [unfolded modify_def]] by simp
  moreover have "s_db s3 = revoke_sessions (db_now clk) (\<lambda>r. ss_UserID r = uid \<and> except_session None r) (s_db s2)"
    using atomically_Inr [OF r [unfolded RevokeAllSessions_def modify_def]] by simp
  ultimately have db: "s_db s' = revoke_sessions (db_now clk) (\<lambda>r. ss_UserID r = uid \<and> except_session None r)
      (set_password uid h ((s_db s)\<lparr>auth_tokens := auth_tokens (s_db s1)\<rparr>))"
    using query_Inr [OF q] by metis
  have u: "userSnapshot uid (s_db s') = Inr u" using query_Inr [OF q] by simp
  then have "u_ID u = uid" "\<exists>v \<in> set (users (s_db s')). u_ID v = uid \<and> active_user v"
    by (auto simp: userSnapshot_def scanUserRow_def split: option.splits dest: find_SomeD)
  then show ?thesis using that h len db by blast
qed

text \<open>
  After a completed reset every session of the user is revoked, but an access token issued before
  still authenticates: only refresh tokens are stored.
\<close>

lemma ConfirmPasswordReset_revokes:
  assumes "ConfirmPasswordReset sv clk raw pw s = (Inr u, s')"
  shows "\<forall>q \<in> set (user_sessions (s_db s')). ss_UserID q = u_ID u \<longrightarrow> ss_RevokedAt q \<noteq> None"
proof -
  obtain h ts where db: "s_db s' = revoke_sessions (db_now clk) (\<lambda>r. ss_UserID r = u_ID u \<and> except_session None r)
      (set_password (u_ID u) h ((s_db s)\<lparr>auth_tokens := ts\<rparr>))"
    using assms by (rule ConfirmPasswordReset_Inr) blast
  show ?thesis unfolding db
    using revoke_sessions_all [of _ "db_now clk" "\<lambda>r. ss_UserID r = u_ID u \<and> except_session None r"
        "set_password (u_ID u) h ((s_db s)\<lparr>auth_tokens := ts\<rparr>)"] by (simp add: except_session_def)
qed

lemma find_upd_Some:
  assumes "find Q t = Some r" and "\<And>q. Q (f q) = Q q"
  shows "find Q (upd P f t) = Some (if P r then f r else r)"
  using assms by (induction t) (auto split: if_splits)

lemma reset_keeps_access_tokens:
  assumes "ConfirmPasswordReset sv clk raw pw s = (Inr u, s')" and "s_faults s' = []"
    and "id_verify sv (go_now clk') token = Some c" and "jw_UserID c = Some (u_ID u)"
  shows "\<exists>v. fst (Authenticate sv clk' token s') = Inr v \<and> u_ID v = u_ID u"
proof -
  obtain v where "v \<in> set (users (s_db s'))" "u_ID v = u_ID u" "active_user v"
    using assms(1) by (rule ConfirmPasswordReset_Inr) blast
  then have "find (\<lambda>v. u_ID v = u_ID u \<and> active_user v) (users (s_db s')) \<noteq> None" by (auto simp: find_None_set)
  then obtain w where w: "find (\<lambda>v. u_ID v = u_ID u \<and> active_user v) (users (s_db s')) = Some w" by blast
  then show ?thesis using assms(2-4) find_SomeD [OF w]
    by (simp add: Authenticate_def query_no_fault scanUserRow_def)
qed

end

