(* ===== verification/Memberships.thy ===== *)
theory Memberships
  imports Sessions
begin

text \<open>
  Members, ownership, invitations and join codes (\<open>internal/identity/memberships.go\<close>). The
  guards that count owners run on the pool before the transaction of the operation begins; both
  parts are definitions of their own, so that calls can be interleaved between them.
\<close>

section \<open>Members\<close>

definition memberRole :: "uuid \<Rightarrow> uuid \<Rightarrow> db \<Rightarrow> err + Role" where
  "memberRole orgID userID d =
     (case find (\<lambda>m. m_OrgID m = orgID \<and> m_UserID m = userID) (organization_members d) of
        None \<Rightarrow> Inl ErrNotFound | Some m \<Rightarrow> Inr (m_Role m))"

definition ownerCount :: "uuid \<Rightarrow> db \<Rightarrow> nat" where
  "ownerCount orgID d = affected (\<lambda>m. m_OrgID m = orgID \<and> m_Role m = RoleOwner) (organization_members d)"

definition owner_guard :: "uuid \<Rightarrow> sys \<Rightarrow> (err + unit) \<times> sys" where
  "owner_guard orgID =
     andThen (query (\<lambda>d. Inr (ownerCount orgID d))) (\<lambda>n. Pair (if n < 2 then Inl ErrLastOwner else Inr ()))"

text \<open>A member with the fields the list joins from the user: email, name, avatar and last login.\<close>

definition role_order :: "Role \<Rightarrow> nat" where
  "role_order r = (if r = RoleOwner then 0 else if r = RoleAdmin then 1 else 2)"

definition ListMembers :: "uuid \<Rightarrow> db \<Rightarrow> (Member \<times> string \<times> string \<times> string \<times> time option) list" where
  "ListMembers orgID d =
     sort_key (\<lambda>(m, _). role_order (m_Role m)) (sort_key (\<lambda>(_, _, name, _). name)
       (List.map_filter (\<lambda>m. map_option (\<lambda>u. (m, u_Email u, u_Name u, u_AvatarURL u, u_LastLoginAt u))
            (find (\<lambda>u. u_ID u = m_UserID m) (users d)))
          (filter (\<lambda>m. m_OrgID m = orgID) (organization_members d))))"

definition set_role :: "uuid \<Rightarrow> uuid \<Rightarrow> Role \<Rightarrow> db \<Rightarrow> db" where
  "set_role orgID userID role d = d\<lparr>
     organization_members := upd (\<lambda>m. m_OrgID m = orgID \<and> m_UserID m = userID) (\<lambda>m. m\<lparr>m_Role := role\<rparr>) (organization_members d),
     users := upd (\<lambda>u. u_ID u = userID \<and> u_OrgID u = Some orgID) (\<lambda>u. u\<lparr>u_Role := role\<rparr>) (users d)\<rparr>"

definition ChangeMemberRole :: "uuid \<Rightarrow> uuid \<Rightarrow> Role \<Rightarrow> uuid \<Rightarrow> Role \<Rightarrow> sys \<Rightarrow> (err + unit) \<times> sys" where
  "ChangeMemberRole orgID actorID actorRole targetID newRole0 s =
     (let newRole = Normalize newRole0
      in if \<not> role_ok newRole then (Inl ErrInvalidRole, s)
         else if actorID = targetID then (Inl ErrForbidden, s)
         else andThen (query (memberRole orgID targetID)) (\<lambda>current.
           if (newRole = RoleOwner \<or> current = RoleOwner) \<and> actorRole \<noteq> RoleOwner then Pair (Inl ErrForbidden)
           else andThen (if current = RoleOwner \<and> newRole \<noteq> RoleOwner then owner_guard orgID else Pair (Inr ())) (\<lambda>_.
                modify (set_role orgID targetID newRole))) s)"

text \<open>Deleting the membership and clearing the organisation of the user row.\<close>

definition detach_member :: "uuid \<Rightarrow> uuid \<Rightarrow> db \<Rightarrow> err + unit \<times> db" where
  "detach_member orgID userID d =
     put_users (upd (\<lambda>u. u_ID u = userID \<and> u_OrgID u = Some orgID) (\<lambda>u. u\<lparr>u_OrgID := None, u_Role := RoleMember\<rparr>) (users d))
       (d\<lparr>organization_members := del (\<lambda>m. m_OrgID m = orgID \<and> m_UserID m = userID) (organization_members d)\<rparr>)"

definition remove_tx :: "clocks \<Rightarrow> uuid \<Rightarrow> uuid \<Rightarrow> db \<Rightarrow> err + unit \<times> db" where
  "remove_tx clk orgID userID d =
     bindE (detach_member orgID userID d) (\<lambda>(_, d1).
     Inr ((), revoke_sessions (db_now clk) (\<lambda>r. ss_UserID r = userID) d1))"

definition RemoveMember :: "clocks \<Rightarrow> uuid \<Rightarrow> uuid \<Rightarrow> Role \<Rightarrow> uuid \<Rightarrow> sys \<Rightarrow> (err + unit) \<times> sys" where
  "RemoveMember clk orgID actorID actorRole targetID s =
     (if actorID = targetID then (Inl ErrForbidden, s)
      else andThen (query (memberRole orgID targetID)) (\<lambda>current.
        if current = RoleOwner \<and> actorRole \<noteq> RoleOwner then Pair (Inl ErrForbidden)
        else andThen (if current = RoleOwner then owner_guard orgID else Pair (Inr ())) (\<lambda>_.
             atomically (remove_tx clk orgID targetID))) s)"

definition leave_tx :: "clocks \<Rightarrow> uuid \<Rightarrow> uuid \<Rightarrow> uuid option \<Rightarrow> db \<Rightarrow> err + User \<times> db" where
  "leave_tx clk orgID userID exceptSession d =
     (case find (\<lambda>u. u_ID u = userID \<and> u_OrgID u = Some orgID) (users d) of
        None \<Rightarrow> Inl ErrNotFound
      | Some u \<Rightarrow>
          bindE (detach_member orgID userID d) (\<lambda>(_, d1).
          Inr (scanUserRow (u\<lparr>u_OrgID := None, u_Role := RoleMember\<rparr>),
               revoke_sessions (db_now clk) (\<lambda>r. ss_UserID r = userID \<and> except_session exceptSession r) d1)))"

definition LeaveOrg ::
  "identity \<Rightarrow> clocks \<Rightarrow> uuid \<Rightarrow> uuid \<Rightarrow> Role \<Rightarrow> uuid option \<Rightarrow> sys \<Rightarrow> (err + string \<times> User) \<times> sys" where
  "LeaveOrg sv clk orgID userID role exceptSession =
     andThen (if Normalize role = RoleOwner then owner_guard orgID else Pair (Inr ())) (\<lambda>_.
     andThen (atomically (leave_tx clk orgID userID exceptSession)) (\<lambda>u. Pair (Inr (issueJWT sv clk u, u))))"

definition transfer :: "uuid \<Rightarrow> uuid \<Rightarrow> uuid \<Rightarrow> db \<Rightarrow> db" where
  "transfer orgID actorID targetID d = set_role orgID targetID RoleOwner (set_role orgID actorID RoleAdmin d)"

definition TransferOwnership :: "uuid \<Rightarrow> uuid \<Rightarrow> Role \<Rightarrow> uuid \<Rightarrow> sys \<Rightarrow> (err + unit) \<times> sys" where
  "TransferOwnership orgID actorID actorRole targetID s =
     (if Normalize actorRole \<noteq> RoleOwner then (Inl ErrForbidden, s)
      else if actorID = targetID then (Inl ErrForbidden, s)
      else andThen (query (memberRole orgID targetID)) (\<lambda>_. modify (transfer orgID actorID targetID)) s)"

definition OrgName :: "uuid \<Rightarrow> db \<Rightarrow> err + string" where
  "OrgName orgID d = (case org_by_id orgID d of None \<Rightarrow> Inl ErrNoRows | Some o' \<Rightarrow> Inr (o_Name o'))"

section \<open>Joining\<close>

definition joinOrgTx :: "clocks \<Rightarrow> uuid \<Rightarrow> uuid \<Rightarrow> uuid \<Rightarrow> Role \<Rightarrow> uuid option \<Rightarrow> db \<Rightarrow> err + User \<times> db" where
  "joinOrgTx clk mid userID orgID role0 invitedBy d =
     (let role = Normalize role0
      in case find (\<lambda>u. u_ID u = userID \<and> u_OrgID u = None) (users d) of
           None \<Rightarrow> Inl ErrAlreadyMember
         | Some u \<Rightarrow>
             bindE (put_users (upd (\<lambda>v. u_ID v = userID \<and> u_OrgID v = None)
                      (\<lambda>v. v\<lparr>u_OrgID := Some orgID, u_Role := role\<rparr>) (users d)) d) (\<lambda>(_, d1).
             bindE (insertMembershipTx clk mid orgID userID role invitedBy d1) (\<lambda>(_, d2).
             Inr (scanUserRow (u\<lparr>u_OrgID := Some orgID, u_Role := role\<rparr>), d2))))"

text \<open>The check both join paths make before their transaction: an active user without an organisation.\<close>

definition pre_onboarding :: "uuid \<Rightarrow> db \<Rightarrow> err + User" where
  "pre_onboarding userID d =
     (case find (\<lambda>u. u_ID u = userID \<and> active_user u) (users d) of
        None \<Rightarrow> Inl ErrInvalidCredentials
      | Some u \<Rightarrow> if u_OrgID u \<noteq> None then Inl ErrAlreadyMember else Inr u)"

section \<open>Invitations\<close>

definition invitationTTL :: duration where "invitationTTL = 7 * 24 * hour"

definition open_invitation :: "Invitation \<Rightarrow> bool" where
  "open_invitation i \<longleftrightarrow> iv_AcceptedAt i = None \<and> iv_RevokedAt i = None"

definition invitationStatus :: "time \<Rightarrow> Invitation \<Rightarrow> string" where
  "invitationStatus now i =
     (if iv_RevokedAt i \<noteq> None then ''revoked''
      else if iv_AcceptedAt i \<noteq> None then ''accepted''
      else if now > iv_ExpiresAt i then ''expired''
      else ''pending'')"

definition scanInvite :: "Invitation \<Rightarrow> Invitation" where
  "scanInvite i = i\<lparr>iv_TokenHash := ''''\<rparr>"

definition invite_role :: "Role \<Rightarrow> Role" where
  "invite_role role0 = (let r = Normalize role0 in if r \<noteq> RoleAdmin \<and> r \<noteq> RoleMember then RoleMember else r)"

definition insert_invitation :: "Invitation \<Rightarrow> db \<Rightarrow> err + Invitation \<times> db" where
  "insert_invitation i d =
     (if \<exists>q \<in> set (organization_invitations d). iv_ID q = iv_ID i then Inl (ErrConstraint ''organization_invitations_pkey'')
      else if \<exists>q \<in> set (organization_invitations d). iv_TokenHash q = iv_TokenHash i
        then Inl (ErrConstraint ''organization_invitations_token_hash_key'')
      else if \<exists>q \<in> set (organization_invitations d). open_invitation q \<and> iv_OrgID q = iv_OrgID i \<and> lower (iv_Email q) = lower (iv_Email i)
        then Inl (ErrConstraint ''idx_org_invites_pending'')
      else if \<not> org_exists (iv_OrgID i) d then Inl (ErrConstraint ''organization_invitations_org_id_fkey'')
      else if \<not> (case iv_InvitedBy i of None \<Rightarrow> True | Some u \<Rightarrow> \<exists>r \<in> set (users d). u_ID r = u)
        then Inl (ErrConstraint ''organization_invitations_invited_by_fkey'')
      else Inr (scanInvite i, d\<lparr>organization_invitations := organization_invitations d @ [i]\<rparr>))"

definition supersede_invites :: "clocks \<Rightarrow> uuid \<Rightarrow> string \<Rightarrow> db \<Rightarrow> db" where
  "supersede_invites clk orgID email d = d\<lparr>organization_invitations :=
     upd (\<lambda>q. iv_OrgID q = orgID \<and> lower (iv_Email q) = lower email \<and> open_invitation q)
       (\<lambda>q. q\<lparr>iv_RevokedAt := Some (db_now clk)\<rparr>) (organization_invitations d)\<rparr>"

definition is_member_email :: "uuid \<Rightarrow> string \<Rightarrow> db \<Rightarrow> bool" where
  "is_member_email orgID email d \<longleftrightarrow>
     (\<exists>m \<in> set (organization_members d). m_OrgID m = orgID \<and>
        (\<exists>u \<in> set (users d). u_ID u = m_UserID m \<and> email_user email u))"

definition CreateInvitation ::
  "identity \<Rightarrow> clocks \<Rightarrow> uuid \<Rightarrow> nat list \<Rightarrow> uuid \<Rightarrow> uuid \<Rightarrow> string \<Rightarrow> Role \<Rightarrow> sys \<Rightarrow> (err + string \<times> Invitation \<times> string) \<times> sys" where
  "CreateInvitation sv clk iid rnd orgID invitedBy email0 role0 s =
     (let email = TrimSpace (lower email0); raw = randomToken rnd;
          i = \<lparr>iv_ID = iid, iv_OrgID = orgID, iv_Email = email, iv_Role = invite_role role0, iv_TokenHash = id_sha sv raw,
               iv_InvitedBy = Some invitedBy, iv_CreatedAt = db_now clk, iv_ExpiresAt = go_now clk + invitationTTL,
               iv_AcceptedAt = None, iv_RevokedAt = None, iv_DeliveryStatus = ''pending'', iv_DeliveryError = '''',
               iv_DeliveredAt = None\<rparr>
      in if email = '''' then (Inl (ErrText ''email is required''), s)
         else andThen (query (\<lambda>d. Inr (is_member_email orgID email d))) (\<lambda>member.
           if member then Pair (Inl ErrAlreadyMember)
           else andThen (modify (supersede_invites clk orgID email)) (\<lambda>_.
                andThen (atomically (insert_invitation i)) (\<lambda>inv.
                Pair (Inr (raw, inv, invitationStatus (go_now clk) inv))))) s)"

definition ListInvitations :: "time \<Rightarrow> uuid \<Rightarrow> db \<Rightarrow> (Invitation \<times> string) list" where
  "ListInvitations now orgID d =
     map (\<lambda>i. (scanInvite i, invitationStatus now i))
       (sort_key (\<lambda>i. - iv_CreatedAt i) (filter (\<lambda>i. iv_OrgID i = orgID) (organization_invitations d)))"

definition revoke_invitation_tx :: "clocks \<Rightarrow> uuid \<Rightarrow> uuid \<Rightarrow> db \<Rightarrow> err + unit \<times> db" where
  "revoke_invitation_tx clk orgID iid d =
     (let hit = (\<lambda>i. iv_ID i = iid \<and> iv_OrgID i = orgID \<and> open_invitation i)
      in if affected hit (organization_invitations d) = 0 then Inl ErrNotFound
         else Inr ((), d\<lparr>organization_invitations := upd hit (\<lambda>i. i\<lparr>iv_RevokedAt := Some (db_now clk)\<rparr>)
                           (organization_invitations d)\<rparr>))"

definition RevokeInvitation :: "clocks \<Rightarrow> uuid \<Rightarrow> uuid \<Rightarrow> sys \<Rightarrow> (err + unit) \<times> sys" where
  "RevokeInvitation clk orgID iid = atomically (revoke_invitation_tx clk orgID iid)"

definition renew :: "identity \<Rightarrow> clocks \<Rightarrow> string \<Rightarrow> Invitation \<Rightarrow> Invitation" where
  "renew sv clk raw i = i\<lparr>iv_TokenHash := id_sha sv raw, iv_ExpiresAt := go_now clk + invitationTTL,
     iv_DeliveryStatus := ''pending'', iv_DeliveryError := '''', iv_DeliveredAt := None\<rparr>"

definition resend_tx :: "identity \<Rightarrow> clocks \<Rightarrow> string \<Rightarrow> uuid \<Rightarrow> uuid \<Rightarrow> db \<Rightarrow> err + Invitation \<times> db" where
  "resend_tx sv clk raw orgID iid d =
     (let hit = (\<lambda>i. iv_ID i = iid \<and> iv_OrgID i = orgID \<and> open_invitation i)
      in case find hit (organization_invitations d) of
           None \<Rightarrow> Inl ErrNotFound
         | Some i \<Rightarrow>
             if \<exists>q \<in> set (organization_invitations d). \<not> hit q \<and> iv_TokenHash q = id_sha sv raw
             then Inl (ErrConstraint ''organization_invitations_token_hash_key'')
             else Inr (scanInvite (renew sv clk raw i),
                    d\<lparr>organization_invitations := upd hit (renew sv clk raw) (organization_invitations d)\<rparr>))"

definition ResendInvitation ::
  "identity \<Rightarrow> clocks \<Rightarrow> nat list \<Rightarrow> uuid \<Rightarrow> uuid \<Rightarrow> sys \<Rightarrow> (err + string \<times> Invitation \<times> string) \<times> sys" where
  "ResendInvitation sv clk rnd orgID iid =
     (let raw = randomToken rnd
      in andThen (atomically (resend_tx sv clk raw orgID iid))
           (\<lambda>inv. Pair (Inr (raw, inv, invitationStatus (go_now clk) inv))))"

definition UpdateInvitationDelivery :: "clocks \<Rightarrow> uuid \<Rightarrow> string \<Rightarrow> string \<Rightarrow> sys \<Rightarrow> (err + unit) \<times> sys" where
  "UpdateInvitationDelivery clk iid status errMsg =
     modify (\<lambda>d. d\<lparr>organization_invitations := upd (\<lambda>i. iv_ID i = iid)
       (\<lambda>i. i\<lparr>iv_DeliveryStatus := status, iv_DeliveryError := errMsg,
             iv_DeliveredAt := (if status = ''sent'' then Some (go_now clk) else None)\<rparr>) (organization_invitations d)\<rparr>)"

definition InvitationByToken ::
  "identity \<Rightarrow> clocks \<Rightarrow> string \<Rightarrow> sys \<Rightarrow> (err + Invitation \<times> string \<times> string) \<times> sys" where
  "InvitationByToken sv clk raw s =
     (if TrimSpace raw = '''' then (Inl ErrInvitationInvalid, s)
      else query (\<lambda>d. case find (\<lambda>i. iv_TokenHash i = id_sha sv raw) (organization_invitations d) of
        None \<Rightarrow> Inl ErrInvitationInvalid
      | Some i \<Rightarrow> (case org_by_id (iv_OrgID i) d of
            None \<Rightarrow> Inl ErrInvitationInvalid
          | Some o' \<Rightarrow> Inr (scanInvite i, invitationStatus (go_now clk) i, o_Name o'))) s)"

definition claimable :: "time \<Rightarrow> string \<Rightarrow> Invitation \<Rightarrow> bool" where
  "claimable now hash i \<longleftrightarrow> iv_TokenHash i = hash \<and> open_invitation i \<and> iv_ExpiresAt i > now"

definition accept_tx :: "clocks \<Rightarrow> uuid \<Rightarrow> string \<Rightarrow> uuid \<Rightarrow> string \<Rightarrow> db \<Rightarrow> err + User \<times> db" where
  "accept_tx clk mid hash userID email d =
     (case find (claimable (db_now clk) hash) (organization_invitations d) of
        None \<Rightarrow> Inl ErrInvitationInvalid
      | Some i \<Rightarrow>
          if lower (TrimSpace email) \<noteq> lower (iv_Email i) then Inl ErrForbidden
          else joinOrgTx clk mid userID (iv_OrgID i) (iv_Role i) (iv_InvitedBy i)
                 (d\<lparr>organization_invitations := upd (claimable (db_now clk) hash)
                      (\<lambda>i. i\<lparr>iv_AcceptedAt := Some (db_now clk)\<rparr>) (organization_invitations d)\<rparr>))"

definition AcceptInvitation ::
  "identity \<Rightarrow> clocks \<Rightarrow> uuid \<Rightarrow> uuid \<Rightarrow> string \<Rightarrow> sys \<Rightarrow> (err + string \<times> User) \<times> sys" where
  "AcceptInvitation sv clk mid userID raw =
     andThen (query (pre_onboarding userID)) (\<lambda>u.
     andThen (atomically (accept_tx clk mid (id_sha sv raw) userID (u_Email u))) (\<lambda>v.
     Pair (Inr (issueJWT sv clk v, v))))"

section \<open>Join codes\<close>

definition insert_join_code :: "JoinCode \<Rightarrow> db \<Rightarrow> err + unit \<times> db" where
  "insert_join_code c d =
     (if \<exists>q \<in> set (organization_join_codes d). jc_ID q = jc_ID c then Inl (ErrConstraint ''organization_join_codes_pkey'')
      else if \<exists>q \<in> set (organization_join_codes d). jc_CodeHash q = jc_CodeHash c
        then Inl (ErrConstraint ''organization_join_codes_code_hash_key'')
      else if \<not> org_exists (jc_OrgID c) d then Inl (ErrConstraint ''organization_join_codes_org_id_fkey'')
      else if \<not> (case jc_CreatedBy c of None \<Rightarrow> True | Some u \<Rightarrow> \<exists>r \<in> set (users d). u_ID r = u)
        then Inl (ErrConstraint ''organization_join_codes_created_by_fkey'')
      else Inr ((), d\<lparr>organization_join_codes := organization_join_codes d @ [c]\<rparr>))"

definition CreateJoinCode ::
  "identity \<Rightarrow> clocks \<Rightarrow> uuid \<Rightarrow> nat list \<Rightarrow> uuid \<Rightarrow> uuid \<Rightarrow> string \<Rightarrow> duration \<Rightarrow> int \<Rightarrow> sys \<Rightarrow> (err + string) \<times> sys" where
  "CreateJoinCode sv clk cid rnd orgID createdBy desc ttl maxUses =
     (let raw = take 12 (randomToken rnd)
      in andThen (atomically (insert_join_code
           \<lparr>jc_ID = cid, jc_OrgID = orgID, jc_CodeHash = id_sha sv raw, jc_Description = TrimSpace desc,
            jc_CreatedBy = Some createdBy, jc_MaxUses = (if maxUses < 0 then 0 else maxUses), jc_Uses = 0,
            jc_ExpiresAt = go_now clk + (if ttl \<le> 0 then 7 * 24 * hour else ttl), jc_RevokedAt = None,
            jc_CreatedAt = db_now clk\<rparr>)) (\<lambda>_. Pair (Inr raw)))"

definition join_code_status :: "time \<Rightarrow> JoinCode \<Rightarrow> string" where
  "join_code_status now c =
     (if jc_RevokedAt c \<noteq> None then ''revoked''
      else if now > jc_ExpiresAt c then ''expired''
      else if jc_MaxUses c > 0 \<and> jc_Uses c \<ge> jc_MaxUses c then ''exhausted''
      else ''active'')"

definition ListJoinCodes :: "time \<Rightarrow> uuid \<Rightarrow> db \<Rightarrow> (JoinCode \<times> string) list" where
  "ListJoinCodes now orgID d =
     map (\<lambda>c. (c\<lparr>jc_CodeHash := ''''\<rparr>, join_code_status now c))
       (sort_key (\<lambda>c. - jc_CreatedAt c) (filter (\<lambda>c. jc_OrgID c = orgID) (organization_join_codes d)))"

definition revoke_join_code_tx :: "clocks \<Rightarrow> uuid \<Rightarrow> uuid \<Rightarrow> db \<Rightarrow> err + unit \<times> db" where
  "revoke_join_code_tx clk orgID cid d =
     (let hit = (\<lambda>c. jc_ID c = cid \<and> jc_OrgID c = orgID \<and> jc_RevokedAt c = None)
      in if affected hit (organization_join_codes d) = 0 then Inl ErrNotFound
         else Inr ((), d\<lparr>organization_join_codes := upd hit (\<lambda>c. c\<lparr>jc_RevokedAt := Some (db_now clk)\<rparr>)
                           (organization_join_codes d)\<rparr>))"

definition RevokeJoinCode :: "clocks \<Rightarrow> uuid \<Rightarrow> uuid \<Rightarrow> sys \<Rightarrow> (err + unit) \<times> sys" where
  "RevokeJoinCode clk orgID cid = atomically (revoke_join_code_tx clk orgID cid)"

definition usable_code :: "time \<Rightarrow> string \<Rightarrow> JoinCode \<Rightarrow> bool" where
  "usable_code now hash c \<longleftrightarrow> jc_CodeHash c = hash \<and> jc_RevokedAt c = None \<and> jc_ExpiresAt c > now \<and>
     (jc_MaxUses c = 0 \<or> jc_Uses c < jc_MaxUses c)"

definition use_code :: "JoinCode \<Rightarrow> JoinCode" where
  "use_code c = c\<lparr>jc_Uses := jc_Uses c + 1\<rparr>"

definition join_code_tx :: "clocks \<Rightarrow> uuid \<Rightarrow> string \<Rightarrow> uuid \<Rightarrow> db \<Rightarrow> err + User \<times> db" where
  "join_code_tx clk mid hash userID d =
     (case find (usable_code (db_now clk) hash) (organization_join_codes d) of
        None \<Rightarrow> Inl ErrJoinCodeInvalid
      | Some c \<Rightarrow>
          joinOrgTx clk mid userID (jc_OrgID c) RoleMember None
            (d\<lparr>organization_join_codes := upd (usable_code (db_now clk) hash) use_code (organization_join_codes d)\<rparr>))"

definition JoinViaCode ::
  "identity \<Rightarrow> clocks \<Rightarrow> uuid \<Rightarrow> uuid \<Rightarrow> string \<Rightarrow> sys \<Rightarrow> (err + string \<times> User) \<times> sys" where
  "JoinViaCode sv clk mid userID raw0 s =
     (let raw = TrimSpace raw0
      in if raw = '''' then (Inl ErrJoinCodeInvalid, s)
         else andThen (query (pre_onboarding userID)) (\<lambda>_.
              andThen (atomically (join_code_tx clk mid (id_sha sv raw) userID)) (\<lambda>v.
              Pair (Inr (issueJWT sv clk v, v)))) s)"

end
