(* ===== verification/API_Keys.thy ===== *)
theory API_Keys
  imports Memberships
begin

text \<open>
  Service accounts and API keys (\<open>internal/identity/apikeys.go\<close>). A key is looked up by the
  hash of its raw value and resolved to a principal: its owner, with the role the owner has now, or
  a synthesised service-account user.
\<close>

section \<open>Service accounts\<close>

definition insert_service_account :: "ServiceAccount \<Rightarrow> db \<Rightarrow> err + ServiceAccount \<times> db" where
  "insert_service_account a d =
     (if \<exists>q \<in> set (service_accounts d). sac_ID q = sac_ID a then Inl ErrServiceAccountExists
      else if \<exists>q \<in> set (service_accounts d). sac_OrgID q = sac_OrgID a \<and> sac_Name q = sac_Name a
        then Inl ErrServiceAccountExists
      else if \<not> org_exists (sac_OrgID a) d then Inl (ErrConstraint ''service_accounts_org_id_fkey'')
      else if \<not> (case sac_CreatedBy a of None \<Rightarrow> True | Some u \<Rightarrow> \<exists>r \<in> set (users d). u_ID r = u)
        then Inl (ErrConstraint ''service_accounts_created_by_fkey'')
      else Inr (a, d\<lparr>service_accounts := service_accounts d @ [a]\<rparr>))"

definition CreateServiceAccount ::
  "clocks \<Rightarrow> uuid \<Rightarrow> uuid \<Rightarrow> uuid \<Rightarrow> string \<Rightarrow> string \<Rightarrow> Role \<Rightarrow> sys \<Rightarrow> (err + ServiceAccount) \<times> sys" where
  "CreateServiceAccount clk aid orgID createdBy name0 description role s =
     (let name = TrimSpace name0
      in if name = '''' then (Inl (ErrText ''service account name is required''), s)
         else atomically (insert_service_account
           \<lparr>sac_ID = aid, sac_OrgID = orgID, sac_Name = name, sac_Description = TrimSpace description,
            sac_Role = (if role \<noteq> RoleAdmin then RoleMember else role), sac_CreatedBy = Some createdBy,
            sac_CreatedAt = db_now clk, sac_DisabledAt = None\<rparr>) s)"

definition ListServiceAccounts :: "uuid \<Rightarrow> db \<Rightarrow> ServiceAccount list" where
  "ListServiceAccounts orgID d =
     sort_key (\<lambda>a. - sac_CreatedAt a) (filter (\<lambda>a. sac_OrgID a = orgID) (service_accounts d))"

definition disable_tx :: "clocks \<Rightarrow> uuid \<Rightarrow> uuid \<Rightarrow> bool \<Rightarrow> db \<Rightarrow> err + unit \<times> db" where
  "disable_tx clk orgID aid disabled d =
     (let hit = (\<lambda>a. sac_ID a = aid \<and> sac_OrgID a = orgID \<and> (disabled \<longrightarrow> sac_DisabledAt a = None))
      in if affected hit (service_accounts d) = 0 then Inl ErrNotFound
         else Inr ((), d\<lparr>service_accounts := upd hit
                (\<lambda>a. a\<lparr>sac_DisabledAt := (if disabled then Some (db_now clk) else None)\<rparr>) (service_accounts d)\<rparr>))"

definition SetServiceAccountDisabled :: "clocks \<Rightarrow> uuid \<Rightarrow> uuid \<Rightarrow> bool \<Rightarrow> sys \<Rightarrow> (err + unit) \<times> sys" where
  "SetServiceAccountDisabled clk orgID aid disabled = atomically (disable_tx clk orgID aid disabled)"

section \<open>Keys\<close>

definition APIKeyScheme :: string where "APIKeyScheme = ''nhk_''"

record APIKeyRequest =
  kq_Name :: string
  kq_OwnerUserID :: "uuid option"
  kq_ServiceAccountID :: "uuid option"
  kq_CreatedBy :: uuid
  kq_TTL :: duration

definition apiKeyStatus :: "time \<Rightarrow> APIKey \<Rightarrow> string" where
  "apiKeyStatus now k =
     (if ak_RevokedAt k \<noteq> None then ''revoked''
      else if (case ak_ExpiresAt k of None \<Rightarrow> False | Some e \<Rightarrow> e < now) then ''expired''
      else ''active'')"

definition insert_key :: "APIKey \<Rightarrow> db \<Rightarrow> err + APIKey \<times> db" where
  "insert_key k d =
     (if \<exists>q \<in> set (api_keys d). ak_ID q = ak_ID k then Inl (ErrConstraint ''api_keys_pkey'')
      else if \<exists>q \<in> set (api_keys d). ak_KeyHash q = ak_KeyHash k then Inl (ErrConstraint ''api_keys_key_hash_key'')
      else if \<not> org_exists (ak_OrgID k) d then Inl (ErrConstraint ''api_keys_org_id_fkey'')
      else if \<not> (case ak_UserID k of None \<Rightarrow> True | Some u \<Rightarrow> \<exists>r \<in> set (users d). u_ID r = u)
        then Inl (ErrConstraint ''api_keys_user_id_fkey'')
      else if \<not> (case ak_ServiceAccountID k of None \<Rightarrow> True | Some a \<Rightarrow> \<exists>r \<in> set (service_accounts d). sac_ID r = a)
        then Inl (ErrConstraint ''api_keys_service_account_id_fkey'')
      else if \<not> (case ak_CreatedBy k of None \<Rightarrow> True | Some u \<Rightarrow> \<exists>r \<in> set (users d). u_ID r = u)
        then Inl (ErrConstraint ''api_keys_created_by_fkey'')
      else Inr (k\<lparr>ak_KeyHash := ''''\<rparr>, d\<lparr>api_keys := api_keys d @ [k]\<rparr>))"

definition CreateAPIKey ::
  "identity \<Rightarrow> clocks \<Rightarrow> uuid \<Rightarrow> nat list \<Rightarrow> uuid \<Rightarrow> APIKeyRequest \<Rightarrow> sys \<Rightarrow> (err + string \<times> APIKey \<times> string) \<times> sys" where
  "CreateAPIKey sv clk kid rnd orgID req s =
     (let name = TrimSpace (kq_Name req); raw = APIKeyScheme @ randomToken rnd
      in if name = '''' then (Inl (ErrText ''key name is required''), s)
         else if (kq_OwnerUserID req = None) = (kq_ServiceAccountID req = None)
           then (Inl (ErrText ''exactly one of user or service account must own the key''), s)
         else andThen (atomically (insert_key
                \<lparr>ak_ID = kid, ak_OrgID = orgID, ak_Name = name, ak_Prefix = take (length APIKeyScheme + 8) raw,
                 ak_KeyHash = id_sha sv raw, ak_UserID = kq_OwnerUserID req, ak_ServiceAccountID = kq_ServiceAccountID req,
                 ak_CreatedBy = Some (kq_CreatedBy req), ak_CreatedAt = db_now clk,
                 ak_ExpiresAt = (if kq_TTL req > 0 then Some (go_now clk + kq_TTL req) else None),
                 ak_LastUsedAt = None, ak_RevokedAt = None\<rparr>))
              (\<lambda>k. Pair (Inr (raw, k, apiKeyStatus (go_now clk) k))) s)"

definition ListAPIKeys :: "time \<Rightarrow> uuid \<Rightarrow> uuid option \<Rightarrow> db \<Rightarrow> (APIKey \<times> string) list" where
  "ListAPIKeys now orgID owner d =
     map (\<lambda>k. (k\<lparr>ak_KeyHash := ''''\<rparr>, apiKeyStatus now k))
       (sort_key (\<lambda>k. - ak_CreatedAt k)
         (filter (\<lambda>k. ak_OrgID k = orgID \<and> (owner \<noteq> None \<longrightarrow> ak_UserID k = owner)) (api_keys d)))"

definition revoke_key_tx :: "clocks \<Rightarrow> uuid \<Rightarrow> uuid \<Rightarrow> uuid option \<Rightarrow> db \<Rightarrow> err + unit \<times> db" where
  "revoke_key_tx clk orgID kid owner d =
     (let hit = (\<lambda>k. ak_ID k = kid \<and> ak_OrgID k = orgID \<and> ak_RevokedAt k = None \<and> (owner \<noteq> None \<longrightarrow> ak_UserID k = owner))
      in if affected hit (api_keys d) = 0 then Inl ErrNotFound
         else Inr ((), d\<lparr>api_keys := upd hit (\<lambda>k. k\<lparr>ak_RevokedAt := Some (db_now clk)\<rparr>) (api_keys d)\<rparr>))"

definition RevokeAPIKey :: "clocks \<Rightarrow> uuid \<Rightarrow> uuid \<Rightarrow> uuid option \<Rightarrow> sys \<Rightarrow> (err + unit) \<times> sys" where
  "RevokeAPIKey clk orgID kid owner = atomically (revoke_key_tx clk orgID kid owner)"

text \<open>The principal of a user key: the projection leaves out the avatar and the provider.\<close>

definition user_principal :: "uuid \<Rightarrow> uuid \<Rightarrow> db \<Rightarrow> err + User" where
  "user_principal orgID userID d =
     (case find (\<lambda>u. u_ID u = userID \<and> active_user u) (users d) of
        None \<Rightarrow> Inl ErrAPIKeyInvalid
      | Some u \<Rightarrow>
          if u_OrgID u \<noteq> Some orgID then Inl ErrAPIKeyInvalid
          else Inr ((scanUserRow u)\<lparr>u_AvatarURL := '''', u_AuthProvider := '''', u_OrgID := Some orgID\<rparr>))"

definition account_principal :: "uuid \<Rightarrow> uuid \<Rightarrow> db \<Rightarrow> err + User" where
  "account_principal orgID aid d =
     (case find (\<lambda>a. sac_ID a = aid) (service_accounts d) of
        None \<Rightarrow> Inl ErrAPIKeyInvalid
      | Some a \<Rightarrow>
          if sac_DisabledAt a \<noteq> None \<or> sac_OrgID a \<noteq> orgID then Inl ErrAPIKeyInvalid
          else Inr \<lparr>u_ID = sac_ID a, u_OrgID = Some (sac_OrgID a), u_DepartmentID = None, u_Email = '''', u_PasswordHash = '''',
                 u_Name = sac_Name a, u_Role = Normalize (sac_Role a), u_Status = ''active'', u_AvatarURL = '''',
                 u_EmailVerified = False, u_AuthProvider = ''api_key'', u_LastLoginAt = None, u_CreatedAt = 0,
                 u_IsServiceAccount = True, u_GoogleSub = None\<rparr>)"

text \<open>An error of the second query is the same error as a missing row.\<close>

definition hide_error :: "(sys \<Rightarrow> (err + 'a) \<times> sys) \<Rightarrow> sys \<Rightarrow> (err + 'a) \<times> sys" where
  "hide_error m s = (case m s of (Inl e, s1) \<Rightarrow> (Inl ErrAPIKeyInvalid, s1) | (Inr a, s1) \<Rightarrow> (Inr a, s1))"

definition touch_key :: "clocks \<Rightarrow> uuid \<Rightarrow> db \<Rightarrow> db" where
  "touch_key clk kid d = d\<lparr>api_keys := upd (\<lambda>k. ak_ID k = kid \<and>
       (case ak_LastUsedAt k of None \<Rightarrow> True | Some t \<Rightarrow> t < db_now clk - 60 * second))
     (\<lambda>k. k\<lparr>ak_LastUsedAt := Some (db_now clk)\<rparr>) (api_keys d)\<rparr>"

definition AuthenticateAPIKey :: "identity \<Rightarrow> clocks \<Rightarrow> string \<Rightarrow> sys \<Rightarrow> (err + User) \<times> sys" where
  "AuthenticateAPIKey sv clk raw s =
     (if \<not> has_prefix APIKeyScheme raw then (Inl ErrAPIKeyInvalid, s)
      else andThen (query (\<lambda>d. case find (\<lambda>k. ak_KeyHash k = id_sha sv raw) (api_keys d) of
              None \<Rightarrow> Inl ErrAPIKeyInvalid | Some k \<Rightarrow> Inr k)) (\<lambda>k.
        if apiKeyStatus (go_now clk) k \<noteq> ''active'' then Pair (Inl ErrAPIKeyInvalid)
        else andThen
          (case ak_UserID k of
             Some uid \<Rightarrow> hide_error (query (user_principal (ak_OrgID k) uid))
           | None \<Rightarrow>
               (case ak_ServiceAccountID k of
                  Some aid \<Rightarrow> hide_error (query (account_principal (ak_OrgID k) aid))
                | None \<Rightarrow> Pair (Inl ErrAPIKeyInvalid)))
          (\<lambda>u s2. (Inr u, snd (modify (touch_key clk (ak_ID k)) s2)))) s)"

section \<open>What a key grants\<close>

lemma apiKeyStatus_active:
  "apiKeyStatus now k = ''active'' \<longleftrightarrow>
     ak_RevokedAt k = None \<and> (case ak_ExpiresAt k of None \<Rightarrow> True | Some e \<Rightarrow> now \<le> e)"
  by (auto simp: apiKeyStatus_def split: option.splits)

lemma hide_error_Inr: "hide_error m s = (Inr a, t) \<longleftrightarrow> m s = (Inr a, t)"
  by (auto simp: hide_error_def split: prod.splits sum.splits)

lemma AuthenticateAPIKey_Inr:
  assumes "AuthenticateAPIKey sv clk raw s = (Inr u, s')"
  obtains k where "k \<in> set (api_keys (s_db s))" and "ak_KeyHash k = id_sha sv raw" and "ak_RevokedAt k = None"
    and "apiKeyStatus (go_now clk) k = ''active''"
    and "(\<exists>uid. ak_UserID k = Some uid \<and> user_principal (ak_OrgID k) uid (s_db s) = Inr u) \<or>
      (\<exists>aid. ak_UserID k = None \<and> ak_ServiceAccountID k = Some aid \<and> account_principal (ak_OrgID k) aid (s_db s) = Inr u)"
proof -
  obtain k s1 where q: "query (\<lambda>d. case find (\<lambda>k. ak_KeyHash k = id_sha sv raw) (api_keys d) of
      None \<Rightarrow> Inl ErrAPIKeyInvalid | Some k \<Rightarrow> Inr k) s = (Inr k, s1)"
    and act: "apiKeyStatus (go_now clk) k = ''active''"
    and p: "(\<exists>uid s2. ak_UserID k = Some uid \<and> query (user_principal (ak_OrgID k) uid) s1 = (Inr u, s2)) \<or>
      (\<exists>aid s2. ak_UserID k = None \<and> ak_ServiceAccountID k = Some aid \<and> query (account_principal (ak_OrgID k) aid) s1 = (Inr u, s2))"
    using assms unfolding AuthenticateAPIKey_def
    by (auto simp: andThen_Inr_iff hide_error_Inr split: if_splits option.splits)
  have f: "find (\<lambda>k. ak_KeyHash k = id_sha sv raw) (api_keys (s_db s)) = Some k" and db: "s_db s1 = s_db s"
    using query_Inr [OF q] by (auto split: option.splits)
  show ?thesis
    using find_SomeD [OF f] act p db apiKeyStatus_active query_Inr by (intro that [of k]) fastforce+
qed

text \<open>
  A key acts for an active principal of the organisation it was minted in, with the role that
  principal has now; a service account never acts as an owner.
\<close>

lemma user_principal_Inr:
  "user_principal orgID uid d = Inr u \<Longrightarrow> \<exists>v \<in> set (users d). u_ID v = uid \<and> active_user v \<and> u_OrgID v = Some orgID \<and>
     u_ID u = uid \<and> u_Role u = u_Role v \<and> u_OrgID u = Some orgID \<and> \<not> u_IsServiceAccount u"
  by (auto simp: user_principal_def scanUserRow_def split: option.splits if_splits dest!: find_SomeD)

lemma account_principal_Inr:
  "account_principal orgID aid d = Inr u \<Longrightarrow> \<exists>a \<in> set (service_accounts d). sac_ID a = aid \<and> sac_DisabledAt a = None \<and>
     sac_OrgID a = orgID \<and> u_ID u = aid \<and> u_Role u = Normalize (sac_Role a) \<and> u_OrgID u = Some orgID \<and> u_IsServiceAccount u"
  by (auto simp: account_principal_def split: option.splits if_splits dest!: find_SomeD)

lemma revoked_key_refused:
  assumes "\<And>k. k \<in> set (api_keys (s_db s)) \<Longrightarrow> ak_KeyHash k = id_sha sv raw \<Longrightarrow> ak_RevokedAt k \<noteq> None"
  shows "fst (AuthenticateAPIKey sv clk raw s) \<noteq> Inr u"
proof
  assume "fst (AuthenticateAPIKey sv clk raw s) = Inr u"
  then obtain s' where "AuthenticateAPIKey sv clk raw s = (Inr u, s')" by (metis prod.exhaust_sel)
  then show False by (rule AuthenticateAPIKey_Inr) (use assms in blast)
qed

text \<open>
  Membership gates a personal key and nothing else does: what the key of a member who left
  resolves to depends only on the user row, so it works again when the user rejoins.
\<close>

lemma user_key_follows_membership:
  assumes "s_faults s = []" and "has_prefix APIKeyScheme raw"
    and "find (\<lambda>k. ak_KeyHash k = id_sha sv raw) (api_keys (s_db s)) = Some k"
    and "apiKeyStatus (go_now clk) k = ''active''" and "ak_UserID k = Some uid"
  shows "(\<exists>u. fst (AuthenticateAPIKey sv clk raw s) = Inr u) \<longleftrightarrow>
    (\<exists>v. find (\<lambda>u. u_ID u = uid \<and> active_user u) (users (s_db s)) = Some v \<and> u_OrgID v = Some (ak_OrgID k))"
  using assms
  by (auto simp: AuthenticateAPIKey_def andThen_def query_no_fault hide_error_def user_principal_def
      split: option.splits sum.splits if_splits)

end
