(* ===== verification/Projects.thy ===== *)
theory Projects
  imports API_Keys
begin

text \<open>
  Projects and their members, departments, templates and the node detail view
  (\<open>internal/nodes/projects.go\<close>, \<open>departments.go\<close>, \<open>templates.go\<close>,
  \<open>detail.go\<close>).
\<close>

section \<open>Projects\<close>

record ProjectRow =
  pr_ID :: uuid
  pr_Name :: string
  pr_Description :: string
  pr_Visibility :: string
  pr_ArchivedAt :: "time option"
  pr_CreatedAt :: time
  pr_MemberCount :: nat
  pr_Member :: bool

definition project_row :: "uuid \<Rightarrow> db \<Rightarrow> Project \<Rightarrow> ProjectRow" where
  "project_row viewerID d p =
     \<lparr>pr_ID = pj_ID p, pr_Name = pj_Name p, pr_Description = pj_Description p, pr_Visibility = pj_Visibility p,
      pr_ArchivedAt = pj_ArchivedAt p, pr_CreatedAt = pj_CreatedAt p,
      pr_MemberCount = affected (\<lambda>m. pm_ProjectID m = pj_ID p) (project_members d),
      pr_Member = (\<exists>m \<in> set (project_members d). pm_ProjectID m = pj_ID p \<and> pm_UserID m = viewerID)\<rparr>"

text \<open>\<open>ORDER BY archived_at NULLS FIRST, name\<close>: stable sorts from the last key to the first.\<close>

definition ListProjects :: "uuid \<Rightarrow> uuid \<Rightarrow> db \<Rightarrow> ProjectRow list" where
  "ListProjects orgID viewerID d =
     map (project_row viewerID d)
       (sort_key (\<lambda>p. if pj_ArchivedAt p = None then 0 else 1 :: nat)
         (sort_key (\<lambda>p. case pj_ArchivedAt p of None \<Rightarrow> 0 | Some t \<Rightarrow> t)
           (sort_key pj_Name (filter (\<lambda>p. pj_OrgID p = orgID) (projects d)))))"

definition upsert_project :: "Project \<Rightarrow> db \<Rightarrow> err + Project \<times> db" where
  "upsert_project p d =
     (case find (\<lambda>q. pj_OrgID q = pj_OrgID p \<and> pj_Name q = pj_Name p) (projects d) of
        Some q \<Rightarrow> Inr (q, d)
      | None \<Rightarrow>
          if \<exists>q \<in> set (projects d). pj_ID q = pj_ID p then Inl (ErrConstraint ''projects_pkey'')
          else if \<not> org_exists (pj_OrgID p) d then Inl (ErrConstraint ''projects_org_id_fkey'')
          else if \<not> (case pj_CreatedBy p of None \<Rightarrow> True | Some u \<Rightarrow> \<exists>r \<in> set (users d). u_ID r = u)
            then Inl (ErrConstraint ''projects_created_by_fkey'')
          else Inr (p, d\<lparr>projects := projects d @ [p]\<rparr>))"

definition new_project :: "clocks \<Rightarrow> uuid \<Rightarrow> uuid \<Rightarrow> string \<Rightarrow> string \<Rightarrow> uuid option \<Rightarrow> Project" where
  "new_project clk pid orgID name description createdBy =
     \<lparr>pj_ID = pid, pj_OrgID = orgID, pj_Name = name, pj_Description = description, pj_Visibility = ''open'',
      pj_CreatedBy = createdBy, pj_ArchivedAt = None, pj_CreatedAt = db_now clk\<rparr>"

definition CreateProject ::
  "clocks \<Rightarrow> uuid \<Rightarrow> uuid \<Rightarrow> string \<Rightarrow> string \<Rightarrow> uuid \<Rightarrow> sys \<Rightarrow> (err + Project) \<times> sys" where
  "CreateProject clk pid orgID name description createdBy =
     atomically (upsert_project (new_project clk pid orgID (TrimSpace name) (TrimSpace description) (Some createdBy)))"

definition EnsureDefaultProject :: "clocks \<Rightarrow> uuid \<Rightarrow> uuid \<Rightarrow> sys \<Rightarrow> (err + uuid) \<times> sys" where
  "EnsureDefaultProject clk pid orgID =
     andThen (atomically (upsert_project (new_project clk pid orgID ''Default''
         ''Default project for workloads launched without an explicit project'' None)))
       (\<lambda>p. Pair (Inr (pj_ID p)))"

definition GetProject :: "uuid \<Rightarrow> uuid \<Rightarrow> db \<Rightarrow> err + Project" where
  "GetProject orgID pid d =
     (case find (\<lambda>p. pj_ID p = pid \<and> pj_OrgID p = orgID) (projects d) of None \<Rightarrow> Inl ErrNotFound | Some p \<Rightarrow> Inr p)"

text \<open>SQL \<open>TRIM\<close> removes spaces.\<close>

definition sql_trim :: "string \<Rightarrow> string" where
  "sql_trim s = rev (dropWhile (\<lambda>c. c = CHR '' '') (rev (dropWhile (\<lambda>c. c = CHR '' '') s)))"

definition deref :: "string option \<Rightarrow> string" where
  "deref s = (case s of None \<Rightarrow> '''' | Some x \<Rightarrow> x)"

definition patch_project :: "string option \<Rightarrow> string option \<Rightarrow> string option \<Rightarrow> Project \<Rightarrow> Project" where
  "patch_project name description visibility p = p\<lparr>
     pj_Name := (if sql_trim (deref name) = '''' then pj_Name p else sql_trim (deref name)),
     pj_Description := (case description of None \<Rightarrow> pj_Description p | Some x \<Rightarrow> x),
     pj_Visibility := (case visibility of None \<Rightarrow> pj_Visibility p | Some x \<Rightarrow> x)\<rparr>"

definition update_project_tx ::
  "uuid \<Rightarrow> uuid \<Rightarrow> string option \<Rightarrow> string option \<Rightarrow> string option \<Rightarrow> db \<Rightarrow> err + Project \<times> db" where
  "update_project_tx orgID pid name description visibility d =
     (let hit = (\<lambda>p. pj_ID p = pid \<and> pj_OrgID p = orgID); patch = patch_project name description visibility
      in case find hit (projects d) of
           None \<Rightarrow> Inl ErrNotFound
         | Some p \<Rightarrow>
             if \<exists>q \<in> set (projects d). \<not> hit q \<and> pj_OrgID q = orgID \<and> pj_Name q = pj_Name (patch p)
             then Inl (ErrConstraint ''projects_org_id_name_key'')
             else Inr (patch p, d\<lparr>projects := upd hit patch (projects d)\<rparr>))"

definition UpdateProject ::
  "uuid \<Rightarrow> uuid \<Rightarrow> string option \<Rightarrow> string option \<Rightarrow> string option \<Rightarrow> sys \<Rightarrow> (err + Project) \<times> sys" where
  "UpdateProject orgID pid name description visibility s =
     (if visibility \<noteq> None \<and> visibility \<noteq> Some ''open'' \<and> visibility \<noteq> Some ''restricted''
      then (Inl (ErrText ''visibility must be open or restricted''), s)
      else atomically (update_project_tx orgID pid name description visibility) s)"

definition archive_tx :: "clocks \<Rightarrow> uuid \<Rightarrow> uuid \<Rightarrow> bool \<Rightarrow> db \<Rightarrow> err + unit \<times> db" where
  "archive_tx clk orgID pid archived d =
     (let hit = (\<lambda>p. pj_ID p = pid \<and> pj_OrgID p = orgID \<and> (archived \<longrightarrow> pj_ArchivedAt p = None))
      in if affected hit (projects d) = 0 then Inl ErrNotFound
         else Inr ((), d\<lparr>projects := upd hit
                (\<lambda>p. p\<lparr>pj_ArchivedAt := (if archived then Some (db_now clk) else None)\<rparr>) (projects d)\<rparr>))"

definition SetProjectArchived :: "clocks \<Rightarrow> uuid \<Rightarrow> uuid \<Rightarrow> bool \<Rightarrow> sys \<Rightarrow> (err + unit) \<times> sys" where
  "SetProjectArchived clk orgID pid archived = atomically (archive_tx clk orgID pid archived)"

definition is_project_member :: "uuid \<Rightarrow> uuid \<Rightarrow> db \<Rightarrow> bool" where
  "is_project_member pid userID d \<longleftrightarrow> (\<exists>m \<in> set (project_members d). pm_ProjectID m = pid \<and> pm_UserID m = userID)"

text \<open>A project member with the email and name the list joins from the user.\<close>

definition ListProjectMembers :: "uuid \<Rightarrow> uuid \<Rightarrow> db \<Rightarrow> (ProjectMember \<times> string \<times> string) list" where
  "ListProjectMembers orgID pid d =
     sort_key (\<lambda>(m, _). pm_CreatedAt m)
       (List.map_filter (\<lambda>m. map_option (\<lambda>u. (m, u_Email u, u_Name u)) (find (\<lambda>u. u_ID u = pm_UserID m) (users d)))
         (filter (\<lambda>m. pm_ProjectID m = pid \<and> (\<exists>p \<in> set (projects d). pj_ID p = pid \<and> pj_OrgID p = orgID)) (project_members d)))"

text \<open>
  The insert selects the project and the user from the caller's organisation; a conflict with an
  existing row, like an empty selection, affects no row.
\<close>

definition add_member_tx :: "clocks \<Rightarrow> uuid \<Rightarrow> uuid \<Rightarrow> uuid \<Rightarrow> uuid \<Rightarrow> db \<Rightarrow> err + nat \<times> db" where
  "add_member_tx clk orgID pid userID addedBy d =
     (if (\<exists>p \<in> set (projects d). pj_ID p = pid \<and> pj_OrgID p = orgID) \<and>
         (\<exists>u \<in> set (users d). u_ID u = userID \<and> u_OrgID u = Some orgID) \<and> \<not> is_project_member pid userID d
      then if \<not> (\<exists>u \<in> set (users d). u_ID u = addedBy) then Inl (ErrConstraint ''project_members_added_by_fkey'')
           else Inr (1, d\<lparr>project_members := project_members d @
                  [\<lparr>pm_ProjectID = pid, pm_UserID = userID, pm_AddedBy = Some addedBy, pm_CreatedAt = db_now clk\<rparr>]\<rparr>)
      else Inr (0, d))"

definition AddProjectMember :: "clocks \<Rightarrow> uuid \<Rightarrow> uuid \<Rightarrow> uuid \<Rightarrow> uuid \<Rightarrow> sys \<Rightarrow> (err + unit) \<times> sys" where
  "AddProjectMember clk orgID pid userID addedBy =
     andThen (atomically (add_member_tx clk orgID pid userID addedBy)) (\<lambda>n s1.
       if n \<noteq> 0 then (Inr (), s1)
       else (case query (\<lambda>d. Inr (is_project_member pid userID d)) s1 of
               (Inr True, s2) \<Rightarrow> (Inr (), s2)
             | (_, s2) \<Rightarrow> (Inl ErrNotFound, s2)))"

definition remove_project_member_tx :: "uuid \<Rightarrow> uuid \<Rightarrow> uuid \<Rightarrow> db \<Rightarrow> err + unit \<times> db" where
  "remove_project_member_tx orgID pid userID d =
     (let hit = (\<lambda>m. pm_ProjectID m = pid \<and> pm_UserID m = userID \<and> (\<exists>p \<in> set (projects d). pj_ID p = pid \<and> pj_OrgID p = orgID))
      in if affected hit (project_members d) = 0 then Inl ErrNotFound
         else Inr ((), d\<lparr>project_members := del hit (project_members d)\<rparr>))"

definition RemoveProjectMember :: "uuid \<Rightarrow> uuid \<Rightarrow> uuid \<Rightarrow> sys \<Rightarrow> (err + unit) \<times> sys" where
  "RemoveProjectMember orgID pid userID = atomically (remove_project_member_tx orgID pid userID)"

definition AuthorizeProjectUse :: "uuid \<Rightarrow> uuid \<Rightarrow> uuid \<Rightarrow> bool \<Rightarrow> sys \<Rightarrow> (err + unit) \<times> sys" where
  "AuthorizeProjectUse orgID pid userID isAdmin =
     andThen (query (GetProject orgID pid)) (\<lambda>p.
       if pj_ArchivedAt p \<noteq> None then Pair (Inl ErrProjectForbidden)
       else if pj_Visibility p \<noteq> ''restricted'' \<or> isAdmin then Pair (Inr ())
       else andThen (query (\<lambda>d. Inr (is_project_member pid userID d))) (\<lambda>member.
            Pair (if member then Inr () else Inl ErrProjectForbidden)))"

definition CanViewProject :: "uuid \<Rightarrow> uuid \<Rightarrow> uuid \<Rightarrow> bool \<Rightarrow> sys \<Rightarrow> (err + bool) \<times> sys" where
  "CanViewProject orgID pid userID isAdmin s =
     (if isAdmin then (Inr True, s)
      else query (\<lambda>d. Inr (case find (\<lambda>p. pj_ID p = pid \<and> pj_OrgID p = orgID) (projects d) of
        None \<Rightarrow> False
      | Some p \<Rightarrow> pj_Visibility p \<noteq> ''restricted'' \<or> is_project_member pid userID d)) s)"

section \<open>Departments\<close>

definition ListDepartments :: "uuid \<Rightarrow> db \<Rightarrow> (Department \<times> nat \<times> nat) list" where
  "ListDepartments orgID d =
     map (\<lambda>p. (p, affected (\<lambda>u. u_DepartmentID u = Some (dp_ID p)) (users d),
               affected (\<lambda>w. w_DepartmentID w = Some (dp_ID p) \<and> (w_Status w = WorkloadPending \<or> w_Status w = WorkloadRunning))
                 (workloads d)))
       (sort_key dp_Name (filter (\<lambda>p. dp_OrgID p = orgID) (departments d)))"

definition upsert_department :: "Department \<Rightarrow> db \<Rightarrow> err + Department \<times> db" where
  "upsert_department p d =
     (let hit = (\<lambda>q. dp_OrgID q = dp_OrgID p \<and> dp_Name q = dp_Name p)
      in case find hit (departments d) of
           Some q \<Rightarrow> Inr (q\<lparr>dp_Description := dp_Description p\<rparr>,
               d\<lparr>departments := upd hit (\<lambda>q. q\<lparr>dp_Description := dp_Description p\<rparr>) (departments d)\<rparr>)
         | None \<Rightarrow>
             if \<exists>q \<in> set (departments d). dp_ID q = dp_ID p then Inl (ErrConstraint ''departments_pkey'')
             else if \<not> org_exists (dp_OrgID p) d then Inl (ErrConstraint ''departments_org_id_fkey'')
             else Inr (p, d\<lparr>departments := departments d @ [p]\<rparr>))"

definition CreateDepartment :: "clocks \<Rightarrow> uuid \<Rightarrow> uuid \<Rightarrow> string \<Rightarrow> string \<Rightarrow> sys \<Rightarrow> (err + Department) \<times> sys" where
  "CreateDepartment clk did orgID name description =
     atomically (upsert_department \<lparr>dp_ID = did, dp_OrgID = orgID, dp_Name = name, dp_Description = description,
       dp_CreatedAt = db_now clk\<rparr>)"

definition assign_tx :: "uuid \<Rightarrow> uuid \<Rightarrow> uuid option \<Rightarrow> db \<Rightarrow> err + unit \<times> db" where
  "assign_tx orgID userID dept d =
     (let hit = (\<lambda>u. u_ID u = userID \<and> u_OrgID u = Some orgID)
      in if affected hit (users d) = 0 then Inl (ErrText ''user not found'')
         else if \<not> (case dept of None \<Rightarrow> True | Some i \<Rightarrow> \<exists>p \<in> set (departments d). dp_ID p = i)
           then Inl (ErrConstraint ''users_department_id_fkey'')
         else Inr ((), d\<lparr>users := upd hit (\<lambda>u. u\<lparr>u_DepartmentID := dept\<rparr>) (users d)\<rparr>))"

definition AssignUserDepartment :: "uuid \<Rightarrow> uuid \<Rightarrow> uuid option \<Rightarrow> sys \<Rightarrow> (err + unit) \<times> sys" where
  "AssignUserDepartment orgID userID dept = atomically (assign_tx orgID userID dept)"

section \<open>Templates\<close>

definition visible_template :: "uuid \<Rightarrow> Template \<Rightarrow> bool" where
  "visible_template orgID t \<longleftrightarrow> tp_OrgID t = None \<or> tp_OrgID t = Some orgID"

definition ListTemplates :: "uuid \<Rightarrow> db \<Rightarrow> Template list" where
  "ListTemplates orgID d =
     sort_key (\<lambda>t. if tp_OrgID t = None then 0 else 1 :: nat)
       (sort_key tp_Name (filter (\<lambda>t. tp_Enabled t \<and> visible_template orgID t) (templates d)))"

definition GetTemplate :: "uuid \<Rightarrow> uuid \<Rightarrow> db \<Rightarrow> err + Template" where
  "GetTemplate orgID tid d =
     (case find (\<lambda>t. tp_ID t = tid \<and> visible_template orgID t) (templates d) of None \<Rightarrow> Inl ErrNoRows | Some t \<Rightarrow> Inr t)"

definition upsert_template :: "Template \<Rightarrow> db \<Rightarrow> err + Template \<times> db" where
  "upsert_template t d =
     (let hit = (\<lambda>q. tp_OrgID q = tp_OrgID t \<and> tp_Name q = tp_Name t);
          over = (\<lambda>q. t\<lparr>tp_ID := tp_ID q, tp_CreatedAt := tp_CreatedAt q\<rparr>)
      in case find hit (templates d) of
           Some q \<Rightarrow> Inr (over q, d\<lparr>templates := upd hit over (templates d)\<rparr>)
         | None \<Rightarrow>
             if \<exists>q \<in> set (templates d). tp_ID q = tp_ID t then Inl (ErrConstraint ''templates_pkey'')
             else if \<not> (case tp_OrgID t of None \<Rightarrow> True | Some i \<Rightarrow> org_exists i d) then Inl (ErrConstraint ''templates_org_id_fkey'')
             else Inr (t, d\<lparr>templates := templates d @ [t]\<rparr>))"

definition CreateTemplate :: "clocks \<Rightarrow> uuid \<Rightarrow> uuid \<Rightarrow> Template \<Rightarrow> sys \<Rightarrow> (err + Template) \<times> sys" where
  "CreateTemplate clk tid orgID t =
     atomically (upsert_template (t\<lparr>tp_ID := tid, tp_OrgID := Some orgID, tp_Enabled := True, tp_CreatedAt := db_now clk\<rparr>))"

section \<open>Node detail\<close>

record NodeWorkloadRef =
  nw_ID :: uuid
  nw_Name :: string
  nw_Status :: WorkloadState
  nw_UserEmail :: string
  nw_GPUCount :: int

record NodeDetail =
  nd_Node :: Node
  nd_Health :: string
  nd_Synthetic :: bool
  nd_GPUs :: "GPU list"
  nd_RunningWorkloads :: "NodeWorkloadRef list"

definition node_health :: "time \<Rightarrow> Node \<Rightarrow> string" where
  "node_health now n =
     (if n_Status n \<noteq> NodeOnline then ''offline''
      else case n_LastSeenAt n of
             None \<Rightarrow> ''healthy''
           | Some t \<Rightarrow> if now - t > 60 * second then ''stale'' else ''healthy'')"

definition NodeDetail_of :: "clocks \<Rightarrow> uuid \<Rightarrow> uuid \<Rightarrow> db \<Rightarrow> err + NodeDetail" where
  "NodeDetail_of clk orgID nid d =
     (case find (\<lambda>n. n_ID n = nid \<and> n_OrgID n = orgID) (gpu_nodes d) of
        None \<Rightarrow> Inl ErrNotFound
      | Some n \<Rightarrow>
          (let gs = sort_key g_Index (filter (\<lambda>g. g_NodeID g = nid) (gpus d));
               ws = sort_key (\<lambda>w. - w_CreatedAt w) (filter (\<lambda>w. w_NodeID w = Some nid \<and> live_state (w_Status w)) (workloads d))
           in Inr \<lparr>nd_Node = n, nd_Health = node_health (go_now clk) n,
                nd_Synthetic = list_ex (\<lambda>g. contains ''synthetic'' (lower (g_Model g))) gs, nd_GPUs = gs,
                nd_RunningWorkloads = map (\<lambda>w. \<lparr>nw_ID = w_ID w, nw_Name = w_Name w, nw_Status = w_Status w,
                  nw_UserEmail = (case find (\<lambda>u. u_ID u = w_UserID w) (users d) of None \<Rightarrow> '''' | Some u \<Rightarrow> u_Email u),
                  nw_GPUCount = w_RequestedGPUCount w\<rparr>) ws\<rparr>))"

section \<open>The isolation gate\<close>

text \<open>
  Without faults, a launch into a project is admitted exactly when the project exists in the
  organisation, is not archived and is open, or restricted and the caller is an administrator or a
  member.
\<close>

lemma AuthorizeProjectUse_iff:
  assumes "s_faults s = []"
  shows "fst (AuthorizeProjectUse orgID pid userID isAdmin s) = Inr () \<longleftrightarrow>
    (\<exists>p. GetProject orgID pid (s_db s) = Inr p \<and> pj_ArchivedAt p = None \<and>
       (pj_Visibility p = ''restricted'' \<longrightarrow> isAdmin \<or> is_project_member pid userID (s_db s)))"
  using assms
  by (auto simp: AuthorizeProjectUse_def andThen_def query_no_fault split: sum.splits)

text \<open>Whoever may launch into a project may see it.\<close>

lemma use_implies_view:
  assumes "s_faults s = []" and "fst (AuthorizeProjectUse orgID pid userID isAdmin s) = Inr ()"
  shows "fst (CanViewProject orgID pid userID isAdmin s) = Inr True"
  using assms(2) unfolding AuthorizeProjectUse_iff [OF assms(1)]
  by (auto simp: CanViewProject_def query_no_fault [OF assms(1)] GetProject_def split: option.splits)

text \<open>A grant never crosses organisations.\<close>

lemma add_member_same_org:
  assumes "add_member_tx clk orgID pid userID addedBy d = Inr (n, d')" and "m \<in> set (project_members d')"
    and "m \<notin> set (project_members d)"
  shows "(\<exists>p \<in> set (projects d). pj_ID p = pm_ProjectID m \<and> pj_OrgID p = orgID) \<and>
    (\<exists>u \<in> set (users d). u_ID u = pm_UserID m \<and> u_OrgID u = Some orgID)"
  using assms by (auto simp: add_member_tx_def split: if_splits)

end
