(* ===== verification/Ops.thy ===== *)
theory Ops
  imports Projects
begin

text \<open>
  Reservations, budgets and cost alerts (\<open>internal/ops\<close>). Every helper query of the package
  ignores its error: the zero value stands for a failed read.
\<close>

section \<open>Spend\<close>

text \<open>\<open>monthBounds\<close>: the first instant of the month and of the next one, the day and the number of days.\<close>

definition monthBounds :: "time \<Rightarrow> time \<times> time \<times> int \<times> int" where
  "monthBounds now =
     (let first = monthStart now; nxt = monthStart (first + 32 * 24 * hour)
      in (first, nxt, day_of_month (now div (24 * hour)), (nxt - first) div (24 * hour)))"

definition ops_scopeSpendINR :: "clocks \<Rightarrow> uuid \<Rightarrow> scope_type \<Rightarrow> uuid option \<Rightarrow> sys \<Rightarrow> money \<times> sys" where
  "ops_scopeSpendINR clk orgID st sid = scopeSpendINR (go_now clk) orgID st sid"

definition name_in_scope :: "scope_type \<Rightarrow> uuid \<Rightarrow> db \<Rightarrow> string" where
  "name_in_scope st i d =
     (case st of
        ScopeDepartment \<Rightarrow> (case find (\<lambda>p. dp_ID p = i) (departments d) of None \<Rightarrow> '''' | Some p \<Rightarrow> dp_Name p)
      | ScopeProject \<Rightarrow> (case find (\<lambda>p. pj_ID p = i) (projects d) of None \<Rightarrow> '''' | Some p \<Rightarrow> pj_Name p)
      | ScopeOrganization \<Rightarrow> '''')"

definition scopeName :: "scope_type \<Rightarrow> uuid option \<Rightarrow> sys \<Rightarrow> string \<times> sys" where
  "scopeName st sid s =
     (case sid of
        None \<Rightarrow> (''Organization'', s)
      | Some i \<Rightarrow>
          (let (name, s1) = (if st = ScopeOrganization then ('''', s)
                             else case query (\<lambda>d. Inr (name_in_scope st i d)) s of
                                    (Inl e, s1) \<Rightarrow> ('''', s1) | (Inr x, s1) \<Rightarrow> (x, s1))
           in (if name = '''' then ''(unknown)'' else name, s1)))"

section \<open>Budgets\<close>

record BudgetView =
  bv_ID :: uuid
  bv_ScopeType :: scope_type
  bv_ScopeID :: "uuid option"
  bv_ScopeName :: string
  bv_Amount :: money
  bv_Spend :: money
  bv_Forecast :: money
  bv_Remaining :: money
  bv_BurnPerDay :: money
  bv_UsedPct :: money
  bv_Status :: string

definition budgetStatus :: "money \<Rightarrow> money \<Rightarrow> money \<Rightarrow> string" where
  "budgetStatus spend forecast amount =
     (if amount \<le> 0 then ''safe''
      else if spend \<ge> amount then ''exceeded''
      else if forecast > amount \<or> spend / amount \<ge> 8/10 then ''at_risk''
      else ''safe'')"

definition budget_view :: "clocks \<Rightarrow> budget \<Rightarrow> money \<Rightarrow> string \<Rightarrow> BudgetView" where
  "budget_view clk b spend name =
     (let (_, _, day, days) = monthBounds (go_now clk);
          burn = (if day > 0 then spend / of_int day else 0);
          forecast = (if day > 0 then burn * of_int days else 0)
      in \<lparr>bv_ID = b_ID b, bv_ScopeType = b_scope_type b, bv_ScopeID = b_scope_id b, bv_ScopeName = name,
          bv_Amount = b_amount b, bv_Spend = spend, bv_Forecast = forecast, bv_Remaining = b_amount b - spend,
          bv_BurnPerDay = burn, bv_UsedPct = (if b_amount b > 0 then spend / b_amount b * 100 else 0),
          bv_Status = budgetStatus spend forecast (b_amount b)\<rparr>)"

fun budget_views :: "clocks \<Rightarrow> uuid \<Rightarrow> budget list \<Rightarrow> sys \<Rightarrow> BudgetView list \<times> sys" where
  "budget_views clk orgID [] s = ([], s)"
| "budget_views clk orgID (b # bs) s =
     (let (spend, s1) = ops_scopeSpendINR clk orgID (b_scope_type b) (b_scope_id b) s;
          (name, s2) = scopeName (b_scope_type b) (b_scope_id b) s1;
          (vs, s3) = budget_views clk orgID bs s2
      in (budget_view clk b spend name # vs, s3))"

definition org_budgets :: "uuid \<Rightarrow> db \<Rightarrow> budget list" where
  "org_budgets orgID d = sort_key (\<lambda>b. scope_name (b_scope_type b)) (filter (\<lambda>b. b_OrgID b = orgID) (budgets d))"

definition ListBudgets :: "clocks \<Rightarrow> uuid \<Rightarrow> sys \<Rightarrow> (err + BudgetView list) \<times> sys" where
  "ListBudgets clk orgID =
     andThen (query (\<lambda>d. Inr (org_budgets orgID d)))
       (\<lambda>bs s1. case budget_views clk orgID bs s1 of (vs, s2) \<Rightarrow> (Inr vs, s2))"

definition num2 :: "rat \<Rightarrow> rat" where
  "num2 x = of_int (round_half_away (x * 100)) / 100"

definition parse_scope :: "string \<Rightarrow> scope_type option" where
  "parse_scope t =
     (if t = ''organization'' then Some ScopeOrganization
      else if t = ''department'' then Some ScopeDepartment
      else if t = ''project'' then Some ScopeProject else None)"

text \<open>The index treats a missing scope as the zero UUID.\<close>

definition scope_key :: "uuid option \<Rightarrow> uuid" where
  "scope_key sid = (case sid of None \<Rightarrow> uuid_Nil | Some i \<Rightarrow> i)"

definition set_budget_tx :: "uuid \<Rightarrow> uuid \<Rightarrow> string \<Rightarrow> uuid option \<Rightarrow> money \<Rightarrow> db \<Rightarrow> err + unit \<times> db" where
  "set_budget_tx bid orgID scopeType scopeID amount d =
     (case parse_scope scopeType of
        None \<Rightarrow> Inl (ErrConstraint ''budgets_scope_type_check'')
      | Some st \<Rightarrow>
          (let a = num2 amount;
               hit = (\<lambda>b. b_OrgID b = orgID \<and> b_scope_type b = st \<and> scope_key (b_scope_id b) = scope_key scopeID)
           in if \<bar>a\<bar> \<ge> 10 ^ 12 then Inl (ErrText ''numeric field overflow'')
              else if a < 0 then Inl (ErrConstraint ''budgets_amount_check'')
              else if \<exists>b \<in> set (budgets d). hit b
                then Inr ((), d\<lparr>budgets := upd hit (\<lambda>b. b\<lparr>b_amount := a\<rparr>) (budgets d)\<rparr>)
              else if \<exists>b \<in> set (budgets d). b_ID b = bid then Inl (ErrConstraint ''budgets_pkey'')
              else if \<not> org_exists orgID d then Inl (ErrConstraint ''budgets_org_id_fkey'')
              else Inr ((), d\<lparr>budgets := budgets d @
                     [\<lparr>b_ID = bid, b_OrgID = orgID, b_scope_type = st, b_scope_id = scopeID, b_amount = a\<rparr>]\<rparr>)))"

definition SetBudget :: "uuid \<Rightarrow> uuid \<Rightarrow> string \<Rightarrow> uuid option \<Rightarrow> money \<Rightarrow> sys \<Rightarrow> (err + unit) \<times> sys" where
  "SetBudget bid orgID scopeType scopeID amount = atomically (set_budget_tx bid orgID scopeType scopeID amount)"

definition DeleteBudget :: "uuid \<Rightarrow> uuid \<Rightarrow> sys \<Rightarrow> (err + unit) \<times> sys" where
  "DeleteBudget orgID bid =
     modify (\<lambda>d. d\<lparr>budgets := del (\<lambda>b. b_ID b = bid \<and> b_OrgID b = orgID) (budgets d)\<rparr>)"

section \<open>Reservations\<close>

definition liveStatus :: "time \<Rightarrow> string \<Rightarrow> time \<Rightarrow> time \<Rightarrow> string" where
  "liveStatus now stored start_at end_at =
     (if stored = ''cancelled'' then ''cancelled''
      else if now > end_at then ''expired''
      else if now < start_at then ''upcoming''
      else ''active'')"

definition fleet_size :: "uuid \<Rightarrow> string \<Rightarrow> db \<Rightarrow> int" where
  "fleet_size orgID model d =
     int (affected (\<lambda>g. g_OrgID g = orgID \<and> (model = ''any'' \<or> ilike (g_Model g) (''%'' @ model @ ''%''))) (gpus d))"

definition zero_on_error :: "(sys \<Rightarrow> (err + int) \<times> sys) \<Rightarrow> sys \<Rightarrow> int \<times> sys" where
  "zero_on_error m s = (case m s of (Inl e, s1) \<Rightarrow> (0, s1) | (Inr n, s1) \<Rightarrow> (n, s1))"

definition totalGPUs :: "uuid \<Rightarrow> string \<Rightarrow> sys \<Rightarrow> int \<times> sys" where
  "totalGPUs orgID model = zero_on_error (query (\<lambda>d. Inr (fleet_size orgID model d)))"

definition overlapping :: "uuid \<Rightarrow> string \<Rightarrow> time \<Rightarrow> time \<Rightarrow> uuid option \<Rightarrow> reservation \<Rightarrow> bool" where
  "overlapping orgID model start_at end_at exclude r \<longleftrightarrow>
     rv_OrgID r = orgID \<and> rv_status r \<noteq> ''cancelled'' \<and> rv_gpu_model r = model \<and>
     rv_start_at r < end_at \<and> rv_end_at r > start_at \<and> Some (rv_ID r) \<noteq> exclude"

definition booked :: "(reservation \<Rightarrow> bool) \<Rightarrow> db \<Rightarrow> int" where
  "booked P d = sum_list (map rv_gpu_count (filter P (reservations d)))"

definition peakReserved :: "uuid \<Rightarrow> string \<Rightarrow> time \<Rightarrow> time \<Rightarrow> uuid option \<Rightarrow> sys \<Rightarrow> int \<times> sys" where
  "peakReserved orgID model start_at end_at exclude =
     zero_on_error (query (\<lambda>d. Inr (booked (overlapping orgID model start_at end_at exclude) d)))"

record CreateReservationReq =
  rq_GPUModel :: string
  rq_GPUCount :: int
  rq_StartAt :: time
  rq_EndAt :: time
  rq_ProjectID :: "uuid option"

definition insert_reservation :: "reservation \<Rightarrow> db \<Rightarrow> err + reservation \<times> db" where
  "insert_reservation r d =
     (if \<exists>q \<in> set (reservations d). rv_ID q = rv_ID r then Inl (ErrConstraint ''reservations_pkey'')
      else if rv_gpu_count r \<le> 0 then Inl (ErrConstraint ''reservations_gpu_count_check'')
      else if rv_end_at r \<le> rv_start_at r then Inl (ErrConstraint ''reservations_check'')
      else if \<not> org_exists (rv_OrgID r) d then Inl (ErrConstraint ''reservations_org_id_fkey'')
      else if \<not> (\<exists>u \<in> set (users d). u_ID u = rv_UserID r) then Inl (ErrConstraint ''reservations_user_id_fkey'')
      else if \<not> (case rv_ProjectID r of None \<Rightarrow> True | Some i \<Rightarrow> \<exists>p \<in> set (projects d). pj_ID p = i)
        then Inl (ErrConstraint ''reservations_project_id_fkey'')
      else Inr (r, d\<lparr>reservations := reservations d @ [r]\<rparr>))"

definition CreateReservation ::
  "clocks \<Rightarrow> uuid \<Rightarrow> uuid \<Rightarrow> uuid \<Rightarrow> CreateReservationReq \<Rightarrow> sys \<Rightarrow> (err + reservation \<times> string) \<times> sys" where
  "CreateReservation clk rid orgID userID req s =
     (if rq_GPUCount req \<le> 0 \<or> rq_EndAt req \<le> rq_StartAt req then (Inl ErrReservationParams, s)
      else (let (tot, s1) = totalGPUs orgID (rq_GPUModel req) s;
                (already, s2) = peakReserved orgID (rq_GPUModel req) (rq_StartAt req) (rq_EndAt req) None s1
            in if already + rq_GPUCount req > tot then (Inl ErrOverbooked, s2)
               else andThen (atomically (insert_reservation
                   \<lparr>rv_ID = rid, rv_OrgID = orgID, rv_ProjectID = rq_ProjectID req, rv_UserID = userID,
                    rv_gpu_model = rq_GPUModel req, rv_gpu_count = rq_GPUCount req, rv_start_at = rq_StartAt req,
                    rv_end_at = rq_EndAt req, rv_status = ''upcoming'', rv_created_at = db_now clk\<rparr>))
                 (\<lambda>r. Pair (Inr (r, liveStatus (go_now clk) ''upcoming'' (rq_StartAt req) (rq_EndAt req)))) s2))"

definition ListReservations :: "clocks \<Rightarrow> uuid \<Rightarrow> db \<Rightarrow> (reservation \<times> string \<times> string \<times> string) list" where
  "ListReservations clk orgID d =
     map (\<lambda>r. (r, liveStatus (go_now clk) (rv_status r) (rv_start_at r) (rv_end_at r),
          (case rv_ProjectID r of None \<Rightarrow> '''' | Some i \<Rightarrow>
             (case find (\<lambda>p. pj_ID p = i) (projects d) of None \<Rightarrow> '''' | Some p \<Rightarrow> pj_Name p)),
          (case find (\<lambda>u. u_ID u = rv_UserID r) (users d) of None \<Rightarrow> '''' | Some u \<Rightarrow> u_Email u)))
       (sort_key (\<lambda>r. - rv_start_at r) (filter (\<lambda>r. rv_OrgID r = orgID) (reservations d)))"

definition CancelReservation :: "uuid \<Rightarrow> uuid \<Rightarrow> sys \<Rightarrow> (err + unit) \<times> sys" where
  "CancelReservation orgID rid =
     modify (\<lambda>d. d\<lparr>reservations := upd (\<lambda>r. rv_ID r = rid \<and> rv_OrgID r = orgID)
       (\<lambda>r. r\<lparr>rv_status := ''cancelled''\<rparr>) (reservations d)\<rparr>)"

definition holding_at :: "uuid \<Rightarrow> time \<Rightarrow> reservation \<Rightarrow> bool" where
  "holding_at orgID t r \<longleftrightarrow>
     rv_OrgID r = orgID \<and> rv_status r \<noteq> ''cancelled'' \<and> rv_start_at r \<le> t \<and> t < rv_end_at r"

definition ReservedNow :: "clocks \<Rightarrow> uuid \<Rightarrow> sys \<Rightarrow> int \<times> sys" where
  "ReservedNow clk orgID = zero_on_error (query (\<lambda>d. Inr (booked (holding_at orgID (go_now clk)) d)))"

section \<open>Alert rules\<close>

definition rule_types :: "string list" where
  "rule_types = [''project_spend'', ''department_spend'', ''workload_runtime'', ''idle_workload'', ''budget_utilization'']"

definition validRuleType :: "string \<Rightarrow> bool" where
  "validRuleType t \<longleftrightarrow> t \<in> set rule_types"

definition CreateRule ::
  "clocks \<Rightarrow> uuid \<Rightarrow> uuid \<Rightarrow> string \<Rightarrow> money \<Rightarrow> uuid option \<Rightarrow> string \<Rightarrow> sys \<Rightarrow> (err + uuid) \<times> sys" where
  "CreateRule clk rid orgID typ threshold scopeID severity s =
     (if \<not> validRuleType typ then (Inl (ErrText ''unknown alert type''), s)
      else if threshold \<le> 0 then (Inl (ErrText ''threshold must be positive''), s)
      else atomically (\<lambda>d.
        if \<exists>r \<in> set (alert_rules d). arl_ID r = rid then Inl (ErrConstraint ''alert_rules_pkey'')
        else if \<not> org_exists orgID d then Inl (ErrConstraint ''alert_rules_org_id_fkey'')
        else Inr (rid, d\<lparr>alert_rules := alert_rules d @
               [\<lparr>arl_ID = rid, arl_OrgID = orgID, arl_Type = typ, arl_Threshold = threshold, arl_ScopeID = scopeID,
                 arl_Severity = (if severity \<notin> {''info'', ''warning'', ''critical''} then ''warning'' else severity),
                 arl_Enabled = True, arl_CreatedAt = db_now clk\<rparr>]\<rparr>)) s)"

definition alertScopeName :: "string \<Rightarrow> uuid option \<Rightarrow> sys \<Rightarrow> string \<times> sys" where
  "alertScopeName typ sid s =
     (if typ = ''project_spend'' then scopeName ScopeProject sid s
      else if typ = ''department_spend'' then scopeName ScopeDepartment sid s
      else ('''', s))"

fun rule_names :: "alert_rule list \<Rightarrow> sys \<Rightarrow> (alert_rule \<times> string) list \<times> sys" where
  "rule_names [] s = ([], s)"
| "rule_names (r # rs) s =
     (let (name, s1) = (if arl_ScopeID r = None then ('''', s) else alertScopeName (arl_Type r) (arl_ScopeID r) s);
          (out, s2) = rule_names rs s1
      in ((r, name) # out, s2))"

definition ListRules :: "uuid \<Rightarrow> sys \<Rightarrow> (err + (alert_rule \<times> string) list) \<times> sys" where
  "ListRules orgID =
     andThen (query (\<lambda>d. Inr (sort_key (\<lambda>r. - arl_CreatedAt r) (filter (\<lambda>r. arl_OrgID r = orgID) (alert_rules d)))))
       (\<lambda>rs s1. case rule_names rs s1 of (out, s2) \<Rightarrow> (Inr out, s2))"

definition SetRuleEnabled :: "uuid \<Rightarrow> uuid \<Rightarrow> bool \<Rightarrow> sys \<Rightarrow> (err + unit) \<times> sys" where
  "SetRuleEnabled orgID rid enabled =
     modify (\<lambda>d. d\<lparr>alert_rules := upd (\<lambda>r. arl_ID r = rid \<and> arl_OrgID r = orgID)
       (\<lambda>r. r\<lparr>arl_Enabled := enabled\<rparr>) (alert_rules d)\<rparr>)"

text \<open>Deleting a rule clears the reference of its alerts.\<close>

definition DeleteRule :: "uuid \<Rightarrow> uuid \<Rightarrow> sys \<Rightarrow> (err + unit) \<times> sys" where
  "DeleteRule orgID rid =
     modify (\<lambda>d. if \<exists>r \<in> set (alert_rules d). arl_ID r = rid \<and> arl_OrgID r = orgID
       then d\<lparr>alert_rules := del (\<lambda>r. arl_ID r = rid \<and> arl_OrgID r = orgID) (alert_rules d),
              alerts := upd (\<lambda>a. alt_RuleID a = Some rid) (\<lambda>a. a\<lparr>alt_RuleID := None\<rparr>) (alerts d)\<rparr>
       else d)"

section \<open>Alerts\<close>

definition ListAlerts :: "uuid \<Rightarrow> bool \<Rightarrow> db \<Rightarrow> alert list" where
  "ListAlerts orgID includeAcked d =
     take 100 (sort_key (\<lambda>a. - alt_CreatedAt a)
       (filter (\<lambda>a. alt_OrgID a = orgID \<and> (includeAcked \<or> \<not> alt_Acked a)) (alerts d)))"

definition AcknowledgeAlert :: "uuid \<Rightarrow> uuid \<Rightarrow> sys \<Rightarrow> (err + unit) \<times> sys" where
  "AcknowledgeAlert orgID aid =
     modify (\<lambda>d. d\<lparr>alerts := upd (\<lambda>a. alt_ID a = aid \<and> alt_OrgID a = orgID) (\<lambda>a. a\<lparr>alt_Acked := True\<rparr>) (alerts d)\<rparr>)"

definition open_alert :: "uuid \<Rightarrow> dedup_key \<Rightarrow> db \<Rightarrow> bool" where
  "open_alert orgID key d \<longleftrightarrow> (\<exists>a \<in> set (alerts d). alt_OrgID a = orgID \<and> alt_DedupKey a = key \<and> \<not> alt_Acked a)"

definition raise_tx ::
  "clocks \<Rightarrow> uuid \<Rightarrow> uuid \<Rightarrow> uuid \<Rightarrow> string \<Rightarrow> alert_text \<Rightarrow> dedup_key \<Rightarrow> db \<Rightarrow> err + unit \<times> db" where
  "raise_tx clk aid orgID ruleID severity what key d =
     (if open_alert orgID key d then Inr ((), d)
      else if \<exists>a \<in> set (alerts d). alt_ID a = aid then Inl (ErrConstraint ''alerts_pkey'')
      else if \<not> (\<exists>r \<in> set (alert_rules d). arl_ID r = ruleID) then Inl (ErrConstraint ''alerts_rule_id_fkey'')
      else Inr ((), d\<lparr>alerts := alerts d @
             [\<lparr>alt_ID = aid, alt_OrgID = orgID, alt_RuleID = Some ruleID, alt_Severity = severity, alt_Text = what,
               alt_Acked = False, alt_DedupKey = key, alt_CreatedAt = db_now clk\<rparr>]\<rparr>))"

definition raiseAlert ::
  "clocks \<Rightarrow> uuid \<Rightarrow> uuid \<Rightarrow> uuid \<Rightarrow> string \<Rightarrow> alert_text \<Rightarrow> dedup_key \<Rightarrow> sys \<Rightarrow> (err + unit) \<times> sys" where
  "raiseAlert clk aid orgID ruleID severity what key = atomically (raise_tx clk aid orgID ruleID severity what key)"

section \<open>Evaluation\<close>

text \<open>
  What a rule finds, as the texts and keys of the alerts to raise. The queries of one rule all come
  before its first alert.
\<close>

definition spend_findings :: "clocks \<Rightarrow> alert_rule \<Rightarrow> scope_type \<Rightarrow> sys \<Rightarrow> (alert_text \<times> dedup_key) list \<times> sys" where
  "spend_findings clk r st s =
     (case arl_ScopeID r of
        None \<Rightarrow> ([], s)
      | Some i \<Rightarrow>
          (let (spend, s1) = ops_scopeSpendINR clk (arl_OrgID r) st (Some i) s
           in if spend \<ge> arl_Threshold r
              then (let (name, s2) = scopeName st (Some i) s1
                    in ([(SpendOver st name spend (arl_Threshold r), KeySpend st i (monthStart (go_now clk)))], s2))
              else ([], s1)))"

definition evalBudgetUtilization :: "clocks \<Rightarrow> alert_rule \<Rightarrow> sys \<Rightarrow> (alert_text \<times> dedup_key) list \<times> sys" where
  "evalBudgetUtilization clk r s =
     (case ListBudgets clk (arl_OrgID r) s of
        (Inl e, s1) \<Rightarrow> ([], s1)
      | (Inr bs, s1) \<Rightarrow>
          (map (\<lambda>b. (BudgetUsed (bv_ScopeName b) (bv_UsedPct b) (bv_Spend b) (bv_Amount b) (bv_Forecast b),
                     KeyBudget (bv_ScopeType b) (bv_ScopeID b) (monthStart (go_now clk))))
             (filter (\<lambda>b. \<not> (bv_Amount b \<le> 0 \<or> bv_UsedPct b < arl_Threshold r)) bs), s1))"

definition running_hours :: "time \<Rightarrow> WorkloadRow \<Rightarrow> money option" where
  "running_hours now w =
     (if w_Status w = WorkloadRunning then map_option (\<lambda>t. of_int (now - t) / of_int hour) (w_StartedAt w) else None)"

definition long_running :: "clocks \<Rightarrow> alert_rule \<Rightarrow> db \<Rightarrow> (alert_text \<times> dedup_key) list" where
  "long_running clk r d =
     List.map_filter (\<lambda>w. case running_hours (db_now clk) w of
         None \<Rightarrow> None
       | Some h \<Rightarrow> if w_OrgID w = arl_OrgID r \<and> h \<ge> arl_Threshold r
                  then Some (RunningLong (w_Name w) h (arl_Threshold r), KeyRuntime (w_ID w)) else None) (workloads d)"

text \<open>
  The average over the rows of the join of active attachments, their GPUs and the samples of the
  last hour; a workload without an attached GPU has no row, one without a sample has average zero.
\<close>

definition hour_utils :: "time \<Rightarrow> uuid \<Rightarrow> db \<Rightarrow> money list" where
  "hour_utils now wid d =
     concat (map (\<lambda>a. List.map_filter gm_util (filter (\<lambda>m. gm_gpu m = wg_gpu a \<and> gm_ts m > now - hour) (gpu_metrics d)))
       (filter (\<lambda>a. wg_workload a = wid \<and> active a \<and> (\<exists>g \<in> set (gpus d). g_ID g = wg_gpu a)) (workload_gpus d)))"

definition has_gpu :: "uuid \<Rightarrow> db \<Rightarrow> bool" where
  "has_gpu wid d \<longleftrightarrow> (\<exists>a \<in> set (workload_gpus d). wg_workload a = wid \<and> active a \<and> (\<exists>g \<in> set (gpus d). g_ID g = wg_gpu a))"

definition avg_or_zero :: "money list \<Rightarrow> money" where
  "avg_or_zero xs = (if xs = [] then 0 else sum_list xs / of_nat (length xs))"

definition idle_running :: "clocks \<Rightarrow> alert_rule \<Rightarrow> db \<Rightarrow> (alert_text \<times> dedup_key) list" where
  "idle_running clk r d =
     List.map_filter (\<lambda>w. case running_hours (db_now clk) w of
         None \<Rightarrow> None
       | Some h \<Rightarrow>
           if w_OrgID w = arl_OrgID r \<and> has_gpu (w_ID w) d \<and> h \<ge> arl_Threshold r \<and>
              avg_or_zero (hour_utils (db_now clk) (w_ID w) d) < 5
           then Some (IdleLong (w_Name w) h (avg_or_zero (hour_utils (db_now clk) (w_ID w) d)),
                      KeyIdle (w_ID w) (go_now clk div (24 * hour) * (24 * hour))) else None) (workloads d)"

definition none_on_error :: "(sys \<Rightarrow> (err + 'a list) \<times> sys) \<Rightarrow> sys \<Rightarrow> 'a list \<times> sys" where
  "none_on_error m s = (case m s of (Inl e, s1) \<Rightarrow> ([], s1) | (Inr x, s1) \<Rightarrow> (x, s1))"

definition evalWorkloadRuntime :: "clocks \<Rightarrow> alert_rule \<Rightarrow> sys \<Rightarrow> (alert_text \<times> dedup_key) list \<times> sys" where
  "evalWorkloadRuntime clk r = none_on_error (query (\<lambda>d. Inr (long_running clk r d)))"

definition evalIdleWorkload :: "clocks \<Rightarrow> alert_rule \<Rightarrow> sys \<Rightarrow> (alert_text \<times> dedup_key) list \<times> sys" where
  "evalIdleWorkload clk r = none_on_error (query (\<lambda>d. Inr (idle_running clk r d)))"

definition rule_findings :: "clocks \<Rightarrow> alert_rule \<Rightarrow> sys \<Rightarrow> (alert_text \<times> dedup_key) list \<times> sys" where
  "rule_findings clk r s =
     (if arl_Type r = ''project_spend'' then spend_findings clk r ScopeProject s
      else if arl_Type r = ''department_spend'' then spend_findings clk r ScopeDepartment s
      else if arl_Type r = ''budget_utilization'' then evalBudgetUtilization clk r s
      else if arl_Type r = ''workload_runtime'' then evalWorkloadRuntime clk r s
      else if arl_Type r = ''idle_workload'' then evalIdleWorkload clk r s
      else ([], s))"

text \<open>\<open>newID\<close> gives the id the database draws for an alert of an organisation and key.\<close>

fun raise_findings ::
  "clocks \<Rightarrow> (uuid \<Rightarrow> dedup_key \<Rightarrow> uuid) \<Rightarrow> alert_rule \<Rightarrow> (alert_text \<times> dedup_key) list \<Rightarrow> nat \<Rightarrow> sys \<Rightarrow> nat \<times> sys" where
  "raise_findings clk newID r [] n s = (n, s)"
| "raise_findings clk newID r ((what, key) # fs) n s =
     (case raiseAlert clk (newID (arl_OrgID r) key) (arl_OrgID r) (arl_ID r) (arl_Severity r) what key s of
        (Inl e, s1) \<Rightarrow> raise_findings clk newID r fs n s1
      | (Inr u, s1) \<Rightarrow> raise_findings clk newID r fs (Suc n) s1)"

fun evaluate_rules :: "clocks \<Rightarrow> (uuid \<Rightarrow> dedup_key \<Rightarrow> uuid) \<Rightarrow> alert_rule list \<Rightarrow> nat \<Rightarrow> sys \<Rightarrow> nat \<times> sys" where
  "evaluate_rules clk newID [] n s = (n, s)"
| "evaluate_rules clk newID (r # rs) n s =
     (let (fs, s1) = rule_findings clk r s; (m, s2) = raise_findings clk newID r fs n s1
      in evaluate_rules clk newID rs m s2)"

definition EvaluateAll :: "clocks \<Rightarrow> (uuid \<Rightarrow> dedup_key \<Rightarrow> uuid) \<Rightarrow> sys \<Rightarrow> (err + nat) \<times> sys" where
  "EvaluateAll clk newID =
     andThen (query (\<lambda>d. Inr (filter arl_Enabled (alert_rules d))))
       (\<lambda>rs s1. case evaluate_rules clk newID rs 0 s1 of (n, s2) \<Rightarrow> (Inr n, s2))"

section \<open>Capacity\<close>

text \<open>
  The GPUs reserved under one model name at an instant, and the promise of the booking check: they
  never exceed the fleet of that name.
\<close>

definition reserved_at :: "uuid \<Rightarrow> string \<Rightarrow> time \<Rightarrow> db \<Rightarrow> int" where
  "reserved_at orgID model t d = booked (\<lambda>r. holding_at orgID t r \<and> rv_gpu_model r = model) d"

definition capacity_ok :: "db \<Rightarrow> bool" where
  "capacity_ok d \<longleftrightarrow> (\<forall>r \<in> set (reservations d). rv_gpu_count r > 0) \<and>
     (\<forall>orgID model t. reserved_at orgID model t d \<le> fleet_size orgID model d)"

lemma booked_mono:
  assumes "\<And>r. r \<in> set (reservations d) \<Longrightarrow> P r \<Longrightarrow> Q r" and "\<And>r. r \<in> set (reservations d) \<Longrightarrow> rv_gpu_count r > 0"
  shows "booked P d \<le> booked Q d"
proof -
  have "sum_list (map rv_gpu_count (filter P rs)) \<le> sum_list (map rv_gpu_count (filter Q rs))"
    if "\<forall>r \<in> set rs. (P r \<longrightarrow> Q r) \<and> rv_gpu_count r > 0" for rs
    using that by (induction rs) auto
  then show ?thesis using assms by (simp add: booked_def)
qed

lemma booked_append: "booked P (d\<lparr>reservations := reservations d @ [r]\<rparr>) = booked P d + (if P r then rv_gpu_count r else 0)"
  by (simp add: booked_def)

lemma fleet_size_reservations [simp]: "fleet_size orgID model (d\<lparr>reservations := rs\<rparr>) = fleet_size orgID model d"
  by (simp add: fleet_size_def)

lemma CreateReservation_Inr:
  assumes "s_faults s = []" and "CreateReservation clk rid orgID userID req s = (Inr (r, st), s')"
  shows "rq_GPUCount req > 0" and "rq_StartAt req < rq_EndAt req"
    and "booked (overlapping orgID (rq_GPUModel req) (rq_StartAt req) (rq_EndAt req) None) (s_db s) + rq_GPUCount req
      \<le> fleet_size orgID (rq_GPUModel req) (s_db s)"
    and "s_db s' = (s_db s)\<lparr>reservations := reservations (s_db s) @ [r]\<rparr>"
    and "rv_OrgID r = orgID" "rv_gpu_model r = rq_GPUModel req" "rv_gpu_count r = rq_GPUCount req"
      "rv_start_at r = rq_StartAt req" "rv_end_at r = rq_EndAt req"
  using assms
  by (auto simp: CreateReservation_def totalGPUs_def peakReserved_def zero_on_error_def query_no_fault
      atomically_no_fault andThen_Inr_iff insert_reservation_def split: if_splits)

text \<open>Without faults a booking keeps the promise.\<close>

lemma CreateReservation_capacity:
  assumes "s_faults s = []" and "capacity_ok (s_db s)" and "CreateReservation clk rid orgID userID req s = (Inr (r, st), s')"
  shows "capacity_ok (s_db s')"
proof -
  note c = CreateReservation_Inr [OF assms(1,3)]
  have pos: "\<And>q. q \<in> set (reservations (s_db s)) \<Longrightarrow> rv_gpu_count q > 0" using assms(2) by (simp add: capacity_ok_def)
  have "reserved_at org model t (s_db s') \<le> fleet_size org model (s_db s')" for org model t
  proof (cases "holding_at org t r \<and> rv_gpu_model r = model")
    case False
    then show ?thesis using assms(2) by (auto simp: c(4) reserved_at_def booked_append capacity_ok_def)
  next
    case True
    then have o: "org = orgID" "model = rq_GPUModel req" "rq_StartAt req \<le> t" "t < rq_EndAt req"
      using c(5-9) by (auto simp: holding_at_def)
    have "booked (\<lambda>r. holding_at org t r \<and> rv_gpu_model r = model) (s_db s)
        \<le> booked (overlapping orgID (rq_GPUModel req) (rq_StartAt req) (rq_EndAt req) None) (s_db s)"
      by (rule booked_mono) (use pos o in \<open>auto simp: holding_at_def overlapping_def\<close>)
    then show ?thesis using c(3,7) True o by (simp add: c(4) reserved_at_def booked_append)
  qed
  then show ?thesis using pos c(1,7) by (auto simp: capacity_ok_def c(4))
qed

lemma CancelReservation_capacity:
  assumes "capacity_ok (s_db s)"
  shows "capacity_ok (s_db (snd (CancelReservation orgID rid s)))"
proof -
  let ?f = "\<lambda>d. d\<lparr>reservations := upd (\<lambda>r. rv_ID r = rid \<and> rv_OrgID r = orgID) (\<lambda>r. r\<lparr>rv_status := ''cancelled''\<rparr>) (reservations d)\<rparr>"
  have le: "sum_list (map rv_gpu_count (filter (\<lambda>r. holding_at org t r \<and> rv_gpu_model r = model)
      (upd (\<lambda>r. rv_ID r = rid \<and> rv_OrgID r = orgID) (\<lambda>r. r\<lparr>rv_status := ''cancelled''\<rparr>) rs)))
    \<le> sum_list (map rv_gpu_count (filter (\<lambda>r. holding_at org t r \<and> rv_gpu_model r = model) rs))"
    if "\<forall>r \<in> set rs. rv_gpu_count r > 0" for org model t rs
    using that by (induction rs) (auto simp: holding_at_def)
  have "capacity_ok (?f (s_db s))"
    unfolding capacity_ok_def
  proof (intro conjI ballI allI)
    fix r assume "r \<in> set (reservations (?f (s_db s)))"
    then show "0 < rv_gpu_count r" using assms by (auto simp: capacity_ok_def elim!: in_set_updE)
  next
    fix org model t
    show "reserved_at org model t (?f (s_db s)) \<le> fleet_size org model (?f (s_db s))"
      using le [of "reservations (s_db s)" org t model] assms
      by (auto simp: capacity_ok_def reserved_at_def booked_def intro: order_trans)
  qed
  then show ?thesis
    by (cases rule: atomically_cases [of "\<lambda>d. Inr ((), ?f d)" s])
      (use assms in \<open>auto simp: CancelReservation_def modify_def\<close>)
qed

section \<open>Alerts are raised once\<close>

text \<open>At most one unacknowledged alert per organisation and key.\<close>

definition alerts_unique :: "db \<Rightarrow> bool" where
  "alerts_unique d \<longleftrightarrow> distinct (map (\<lambda>a. (alt_OrgID a, alt_DedupKey a)) (filter (\<lambda>a. \<not> alt_Acked a) (alerts d)))"

lemma raise_tx_Inr:
  assumes "raise_tx clk aid orgID ruleID sev what key d = Inr ((), d')"
  shows "d' = d\<lparr>alerts := alerts d'\<rparr>" and "open_alert orgID key d'" and "alerts_unique d \<Longrightarrow> alerts_unique d'"
    and "\<And>o' k. open_alert o' k d \<Longrightarrow> open_alert o' k d'"
  using assms by (auto simp: raise_tx_def open_alert_def alerts_unique_def split: if_splits)

lemma raiseAlert_db:
  "s_db (snd (raiseAlert clk aid orgID ruleID sev what key s)) = s_db s \<or>
   raise_tx clk aid orgID ruleID sev what key (s_db s) = Inr ((), s_db (snd (raiseAlert clk aid orgID ruleID sev what key s)))"
  unfolding raiseAlert_def
  by (cases rule: atomically_cases [of "raise_tx clk aid orgID ruleID sev what key" s]) simp_all

lemma raiseAlert_unique:
  "alerts_unique (s_db s) \<Longrightarrow> alerts_unique (s_db (snd (raiseAlert clk aid orgID ruleID sev what key s)))"
  using raiseAlert_db [of clk aid orgID ruleID sev what key s] raise_tx_Inr(3) by metis

lemma raise_findings_unique:
  "alerts_unique (s_db s) \<Longrightarrow> alerts_unique (s_db (snd (raise_findings clk newID r fs n s)))"
proof (induction clk newID r fs n s rule: raise_findings.induct)
  case (2 clk newID r what key fs n s)
  obtain x s1 where x: "raiseAlert clk (newID (arl_OrgID r) key) (arl_OrgID r) (arl_ID r) (arl_Severity r) what key s = (x, s1)" by fastforce
  have "alerts_unique (s_db s1)" using raiseAlert_unique [OF 2(3)] x by (metis snd_conv)
  then show ?case using 2(1,2) x by (cases x) auto
qed simp

lemma query_eq_db: "query f s = (x, s1) \<Longrightarrow> s_db s1 = s_db s"
  using query_db [of f s] by simp

lemma scopeName_eq_db: "scopeName st sid s = (x, s1) \<Longrightarrow> s_db s1 = s_db s"
  by (auto simp: scopeName_def Let_def dest: query_eq_db split: option.splits prod.splits sum.splits if_splits)

lemma spend_eq_db: "ops_scopeSpendINR clk orgID st sid s = (x, s1) \<Longrightarrow> s_db s1 = s_db s"
  unfolding ops_scopeSpendINR_def using scopeSpendINR_db [of "go_now clk" orgID st sid s] by simp

lemma budget_views_eq_db: "budget_views clk orgID bs s = (vs, s1) \<Longrightarrow> s_db s1 = s_db s"
proof (induction clk orgID bs s arbitrary: vs s1 rule: budget_views.induct)
  case (2 clk orgID b bs s)
  obtain spend t1 where t1: "ops_scopeSpendINR clk orgID (b_scope_type b) (b_scope_id b) s = (spend, t1)" by fastforce
  obtain name t2 where t2: "scopeName (b_scope_type b) (b_scope_id b) t1 = (name, t2)" by fastforce
  obtain us t3 where t3: "budget_views clk orgID bs t2 = (us, t3)" by fastforce
  have "s_db t3 = s_db t2" using 2(1) [OF t1 [symmetric] refl t2 [symmetric] refl t3] .
  then show ?case using 2(2) t1 t2 t3 spend_eq_db [OF t1] scopeName_eq_db [OF t2] by simp
qed simp

lemma ListBudgets_eq_db:
  assumes "ListBudgets clk orgID s = (x, s1)"
  shows "s_db s1 = s_db s"
proof -
  obtain y t where q: "query (\<lambda>d. Inr (org_budgets orgID d)) s = (y, t)" by fastforce
  then show ?thesis using assms query_eq_db [OF q] budget_views_eq_db [of clk orgID _ t]
    by (cases y) (auto simp: ListBudgets_def andThen_def split: prod.splits)
qed

lemma spend_findings_eq_db:
  assumes "spend_findings clk r st s = (fs, s1)"
  shows "s_db s1 = s_db s"
proof (cases "arl_ScopeID r")
  case (Some i)
  obtain spend t where t: "ops_scopeSpendINR clk (arl_OrgID r) st (Some i) s = (spend, t)" by fastforce
  obtain name u where u: "scopeName st (Some i) t = (name, u)" by fastforce
  show ?thesis using assms Some t u spend_eq_db [OF t] scopeName_eq_db [OF u]
    by (auto simp: spend_findings_def split: if_splits)
qed (use assms in \<open>simp add: spend_findings_def\<close>)

lemma rule_findings_eq_db:
  assumes "rule_findings clk r s = (fs, s1)"
  shows "s_db s1 = s_db s"
proof -
  have q: "none_on_error (query f) s = (fs, s1) \<Longrightarrow> s_db s1 = s_db s" for f
    by (auto simp: none_on_error_def dest: query_eq_db split: prod.splits sum.splits)
  have b: "evalBudgetUtilization clk r s = (fs, s1) \<Longrightarrow> s_db s1 = s_db s"
    by (auto simp: evalBudgetUtilization_def dest: ListBudgets_eq_db split: prod.splits sum.splits)
  show ?thesis using assms q b
    by (auto simp: rule_findings_def evalWorkloadRuntime_def evalIdleWorkload_def dest: spend_findings_eq_db split: if_splits)
qed

lemma evaluate_rules_unique:
  "alerts_unique (s_db s) \<Longrightarrow> alerts_unique (s_db (snd (evaluate_rules clk newID rs n s)))"
proof (induction clk newID rs n s rule: evaluate_rules.induct)
  case (2 clk newID r rs n s)
  obtain fs s1 where f: "rule_findings clk r s = (fs, s1)" by fastforce
  obtain m s2 where m: "raise_findings clk newID r fs n s1 = (m, s2)" by fastforce
  have "alerts_unique (s_db s1)" using rule_findings_eq_db [OF f] 2(2) by simp
  then have "alerts_unique (s_db s2)" using raise_findings_unique [of s1 clk newID r fs n] m by simp
  then show ?case using 2(1) [of "(fs, s1)" fs s1 "(m, s2)" m s2] f m by simp
qed simp

lemma EvaluateAll_unique:
  assumes "alerts_unique (s_db s)"
  shows "alerts_unique (s_db (snd (EvaluateAll clk newID s)))"
proof -
  obtain x s1 where q: "query (\<lambda>d. Inr (filter arl_Enabled (alert_rules d))) s = (x, s1)" by fastforce
  have "alerts_unique (s_db s1)" using query_eq_db [OF q] assms by simp
  then have "alerts_unique (s_db (snd (evaluate_rules clk newID rs 0 s1)))" for rs by (rule evaluate_rules_unique)
  then have "alerts_unique (s_db t)" if "evaluate_rules clk newID rs 0 s1 = (n, t)" for rs n t using that by (metis snd_conv)
  then show ?thesis using \<open>alerts_unique (s_db s1)\<close> q
    by (cases x) (auto simp: EvaluateAll_def andThen_def split: prod.split)
qed

section \<open>Evaluation is idempotent\<close>

text \<open>Without faults the findings of a rule are a function of the database.\<close>

definition scope_label :: "scope_type \<Rightarrow> uuid option \<Rightarrow> db \<Rightarrow> string" where
  "scope_label st sid d =
     (case sid of None \<Rightarrow> ''Organization''
      | Some i \<Rightarrow> (if name_in_scope st i d = '''' then ''(unknown)'' else name_in_scope st i d))"

definition spend_inr :: "clocks \<Rightarrow> uuid \<Rightarrow> scope_type \<Rightarrow> uuid option \<Rightarrow> db \<Rightarrow> money" where
  "spend_inr clk orgID st sid d = scope_spend (go_now clk) orgID st sid d * usdToINR"

definition findings_of :: "clocks \<Rightarrow> alert_rule \<Rightarrow> db \<Rightarrow> (alert_text \<times> dedup_key) list" where
  "findings_of clk r d =
     (let over = (\<lambda>st. case arl_ScopeID r of None \<Rightarrow> []
            | Some i \<Rightarrow> if spend_inr clk (arl_OrgID r) st (Some i) d \<ge> arl_Threshold r
                then [(SpendOver st (scope_label st (Some i) d) (spend_inr clk (arl_OrgID r) st (Some i) d) (arl_Threshold r),
                       KeySpend st i (monthStart (go_now clk)))] else [])
      in if arl_Type r = ''project_spend'' then over ScopeProject
         else if arl_Type r = ''department_spend'' then over ScopeDepartment
         else if arl_Type r = ''budget_utilization'' then
           map (\<lambda>b. (BudgetUsed (bv_ScopeName b) (bv_UsedPct b) (bv_Spend b) (bv_Amount b) (bv_Forecast b),
                      KeyBudget (bv_ScopeType b) (bv_ScopeID b) (monthStart (go_now clk))))
             (filter (\<lambda>b. \<not> (bv_Amount b \<le> 0 \<or> bv_UsedPct b < arl_Threshold r))
               (map (\<lambda>b. budget_view clk b (spend_inr clk (arl_OrgID r) (b_scope_type b) (b_scope_id b) d)
                       (scope_label (b_scope_type b) (b_scope_id b) d)) (org_budgets (arl_OrgID r) d)))
         else if arl_Type r = ''workload_runtime'' then long_running clk r d
         else if arl_Type r = ''idle_workload'' then idle_running clk r d
         else [])"

lemma scopeName_no_fault: "s_faults s = [] \<Longrightarrow> scopeName st sid s = (scope_label st sid (s_db s), s)"
  by (cases sid; cases st) (simp_all add: scopeName_def scope_label_def query_no_fault name_in_scope_def)

lemma spend_no_fault: "s_faults s = [] \<Longrightarrow> ops_scopeSpendINR clk orgID st sid s = (spend_inr clk orgID st sid (s_db s), s)"
  by (simp add: ops_scopeSpendINR_def spend_inr_def scopeSpendINR_no_fault)

lemma budget_views_no_fault:
  "s_faults s = [] \<Longrightarrow> budget_views clk orgID bs s =
     (map (\<lambda>b. budget_view clk b (spend_inr clk orgID (b_scope_type b) (b_scope_id b) (s_db s))
        (scope_label (b_scope_type b) (b_scope_id b) (s_db s))) bs, s)"
  by (induction bs) (simp_all add: scopeName_no_fault spend_no_fault)

lemma rule_findings_no_fault: "s_faults s = [] \<Longrightarrow> rule_findings clk r s = (findings_of clk r (s_db s), s)"
  by (simp add: rule_findings_def findings_of_def spend_findings_def evalBudgetUtilization_def ListBudgets_def andThen_def
      evalWorkloadRuntime_def evalIdleWorkload_def none_on_error_def query_no_fault budget_views_no_fault scopeName_no_fault
      spend_no_fault split: option.split)

lemma findings_of_alerts: "findings_of clk r (d\<lparr>alerts := x\<rparr>) = findings_of clk r d"
proof -
  have c: "cost_in_scope orgID st sid (d\<lparr>alerts := x\<rparr>) = cost_in_scope orgID st sid d" for orgID st sid
    by (cases st) (simp_all add: fun_eq_iff cost_in_scope_def usage_of_cost_def workload_of_usage_def workload_by_id_def
        cong: option.case_cong)
  have s: "spend_inr clk orgID st sid (d\<lparr>alerts := x\<rparr>) = spend_inr clk orgID st sid d" for orgID st sid
    by (simp add: spend_inr_def scope_spend_def c)
  have n: "scope_label st sid (d\<lparr>alerts := x\<rparr>) = scope_label st sid d" for st sid
    by (cases sid; cases st) (simp_all add: scope_label_def name_in_scope_def)
  have g: "has_gpu i (d\<lparr>alerts := x\<rparr>) = has_gpu i d" and u: "hour_utils now i (d\<lparr>alerts := x\<rparr>) = hour_utils now i d" for i now
    by (simp_all add: has_gpu_def hour_utils_def)
  show ?thesis
    by (cases "arl_ScopeID r")
      (simp_all add: findings_of_def s n g u org_budgets_def long_running_def idle_running_def cong: option.case_cong if_cong)
qed

text \<open>The ids drawn so far belong to open alerts.\<close>

definition ids_open :: "(uuid \<Rightarrow> dedup_key \<Rightarrow> uuid) \<Rightarrow> db \<Rightarrow> bool" where
  "ids_open newID d \<longleftrightarrow> (\<forall>a \<in> set (alerts d). \<forall>o' k. alt_ID a = newID o' k \<longrightarrow> open_alert o' k d)"

definition raised :: "sys \<Rightarrow> sys \<Rightarrow> bool" where
  "raised s t \<longleftrightarrow> s_faults s = [] \<and> s_faults t = [] \<and> s_db t = (s_db s)\<lparr>alerts := alerts (s_db t)\<rparr> \<and>
     (\<forall>o' k. open_alert o' k (s_db s) \<longrightarrow> open_alert o' k (s_db t))"

lemma raised_refl: "s_faults s = [] \<Longrightarrow> raised s s"
  by (simp add: raised_def)

lemma raised_trans:
  assumes "raised s t" and "raised t u"
  shows "raised s u"
proof -
  have "s_db u = ((s_db s)\<lparr>alerts := alerts (s_db t)\<rparr>)\<lparr>alerts := alerts (s_db u)\<rparr>"
    using assms unfolding raised_def by metis
  then show ?thesis using assms by (simp add: raised_def)
qed

lemma raised_rules:
  assumes "raised s t"
  shows "alert_rules (s_db t) = alert_rules (s_db s)"
proof -
  have "s_db t = (s_db s)\<lparr>alerts := alerts (s_db t)\<rparr>" using assms by (simp add: raised_def)
  then have "alert_rules (s_db t) = alert_rules ((s_db s)\<lparr>alerts := alerts (s_db t)\<rparr>)" by (rule arg_cong)
  then show ?thesis by simp
qed

lemma raise_step:
  assumes inj: "\<And>o1 k1 o2 k2. newID o1 k1 = newID o2 k2 \<Longrightarrow> o1 = o2 \<and> k1 = k2"
    and "s_faults s = []" and "ids_open newID (s_db s)" and "r \<in> set (alert_rules (s_db s))"
  obtains t where "raiseAlert clk (newID (arl_OrgID r) key) (arl_OrgID r) (arl_ID r) (arl_Severity r) what key s = (Inr (), t)"
    and "raised s t" and "ids_open newID (s_db t)" and "open_alert (arl_OrgID r) key (s_db t)"
proof -
  let ?tx = "raise_tx clk (newID (arl_OrgID r) key) (arl_OrgID r) (arl_ID r) (arl_Severity r) what key"
  have "\<exists>d'. ?tx (s_db s) = Inr ((), d')"
    using assms(3,4) by (auto simp: raise_tx_def ids_open_def)
  then obtain d' where d': "?tx (s_db s) = Inr ((), d')" by blast
  note r = raise_tx_Inr [OF d']
  have "ids_open newID d'"
    unfolding ids_open_def
  proof (intro ballI allI impI)
    fix a o' k assume a: "a \<in> set (alerts d')" "alt_ID a = newID o' k"
    show "open_alert o' k d'"
    proof (cases "a \<in> set (alerts (s_db s))")
      case True
      then show ?thesis using assms(3) a(2) r(4) unfolding ids_open_def by blast
    next
      case False
      then have "alt_ID a = newID (arl_OrgID r) key" using d' a(1) by (auto simp: raise_tx_def split: if_splits)
      then show ?thesis using inj a(2) r(2) by metis
    qed
  qed
  moreover have "raiseAlert clk (newID (arl_OrgID r) key) (arl_OrgID r) (arl_ID r) (arl_Severity r) what key s = (Inr (), s\<lparr>s_db := d'\<rparr>)"
    using assms(2) d' by (simp add: raiseAlert_def atomically_no_fault)
  moreover have "raised s (s\<lparr>s_db := d'\<rparr>)" using assms(2) r(1,4) by (simp add: raised_def)
  ultimately show ?thesis using r(2) by (intro that [of "s\<lparr>s_db := d'\<rparr>"]) simp_all
qed

lemma raise_findings_open:
  assumes inj: "\<And>o1 k1 o2 k2. newID o1 k1 = newID o2 k2 \<Longrightarrow> o1 = o2 \<and> k1 = k2"
    and "s_faults s = []" and "ids_open newID (s_db s)" and "r \<in> set (alert_rules (s_db s))"
    and "raise_findings clk newID r fs n s = (m, t)"
  shows "raised s t \<and> ids_open newID (s_db t) \<and> (\<forall>(w, k) \<in> set fs. open_alert (arl_OrgID r) k (s_db t))"
  using assms(2-5)
proof (induction fs arbitrary: n s)
  case Nil
  then show ?case by (simp add: raised_refl)
next
  case (Cons f fs)
  obtain what key where f: "f = (what, key)" by (cases f)
  obtain s1 where s1: "raiseAlert clk (newID (arl_OrgID r) key) (arl_OrgID r) (arl_ID r) (arl_Severity r) what key s = (Inr (), s1)"
    "raised s s1" "ids_open newID (s_db s1)" "open_alert (arl_OrgID r) key (s_db s1)"
    using raise_step [OF inj Cons.prems(1-3)] by blast
  have "s_faults s1 = []" using s1(2) unfolding raised_def by blast
  moreover have "alert_rules (s_db s1) = alert_rules (s_db s)" by (rule raised_rules [OF s1(2)])
  moreover have "raise_findings clk newID r fs (Suc n) s1 = (m, t)" using Cons.prems(4) s1(1) by (simp add: f)
  ultimately have "raised s1 t \<and> ids_open newID (s_db t) \<and> (\<forall>(w, k) \<in> set fs. open_alert (arl_OrgID r) k (s_db t))"
    using Cons.IH [of s1 "Suc n"] s1(3) Cons.prems(3) by simp
  then have t: "raised s1 t" "ids_open newID (s_db t)" "\<forall>(w, k) \<in> set fs. open_alert (arl_OrgID r) k (s_db t)" by simp_all
  have "open_alert (arl_OrgID r) key (s_db t)" using t(1) s1(4) unfolding raised_def by blast
  then show ?case using t(2,3) raised_trans [OF s1(2) t(1)] by (simp add: f)
qed

lemma evaluate_rules_open:
  assumes inj: "\<And>o1 k1 o2 k2. newID o1 k1 = newID o2 k2 \<Longrightarrow> o1 = o2 \<and> k1 = k2"
    and "s_faults s = []" and "ids_open newID (s_db s)" and "set rs \<subseteq> set (alert_rules (s_db s))"
    and "evaluate_rules clk newID rs n s = (m, t)"
  shows "raised s t \<and> (\<forall>r \<in> set rs. \<forall>(w, k) \<in> set (findings_of clk r (s_db s)). open_alert (arl_OrgID r) k (s_db t))"
  using assms(2-5)
proof (induction rs arbitrary: n s)
  case (Cons r rs)
  obtain n1 s1 where s1: "raise_findings clk newID r (findings_of clk r (s_db s)) n s = (n1, s1)" by fastforce
  have o1: "raised s s1" "ids_open newID (s_db s1)" "\<forall>(w, k) \<in> set (findings_of clk r (s_db s)). open_alert (arl_OrgID r) k (s_db s1)"
    using raise_findings_open [OF inj Cons.prems(1,2) _ s1] Cons.prems(3) by auto
  have "s_faults s1 = []" using o1(1) unfolding raised_def by blast
  moreover have "set rs \<subseteq> set (alert_rules (s_db s1))"
    using Cons.prems(3) raised_rules [OF o1(1)] by simp
  moreover have "evaluate_rules clk newID rs n1 s1 = (m, t)"
    using Cons.prems(1,4) s1 by (simp add: rule_findings_no_fault)
  ultimately have o2: "raised s1 t" "\<forall>r \<in> set rs. \<forall>(w, k) \<in> set (findings_of clk r (s_db s1)). open_alert (arl_OrgID r) k (s_db t)"
    using Cons.IH [of s1 n1] o1(2) by blast+
  have "s_db s1 = (s_db s)\<lparr>alerts := alerts (s_db s1)\<rparr>" using o1(1) by (simp add: raised_def)
  then have same: "findings_of clk q (s_db s1) = findings_of clk q (s_db s)" for q by (metis findings_of_alerts)
  have "open_alert o' k (s_db t)" if "open_alert o' k (s_db s1)" for o' k
    using o2(1) that unfolding raised_def by blast
  then have "\<forall>(w, k) \<in> set (findings_of clk r (s_db s)). open_alert (arl_OrgID r) k (s_db t)" using o1(3) by blast
  then show ?case using o2(2) raised_trans [OF o1(1) o2(1)] by (simp add: same)
qed (simp add: raised_refl)

lemma raise_findings_again:
  assumes "s_faults s = []" and "\<forall>(w, k) \<in> set fs. open_alert (arl_OrgID r) k (s_db s)"
  shows "raise_findings clk newID r fs n s = (n + length fs, s)"
  using assms(2)
proof (induction fs arbitrary: n)
  case (Cons f fs)
  then show ?case using assms(1)
    by (cases f) (simp add: raiseAlert_def atomically_no_fault raise_tx_def)
qed simp

lemma evaluate_rules_again:
  assumes "s_faults s = []" and "\<forall>r \<in> set rs. \<forall>(w, k) \<in> set (findings_of clk r (s_db s)). open_alert (arl_OrgID r) k (s_db s)"
  shows "\<exists>m. evaluate_rules clk newID rs n s = (m, s)"
  using assms(2)
proof (induction rs arbitrary: n)
  case (Cons r rs)
  then show ?case using raise_findings_again [OF assms(1), of "findings_of clk r (s_db s)" r clk newID n]
    by (simp add: rule_findings_no_fault [OF assms(1)])
qed simp

text \<open>
  A second evaluation at the same time raises nothing, whatever ids it draws: every finding of the
  first one has an open alert.
\<close>

lemma EvaluateAll_idempotent:
  assumes inj: "\<And>o1 k1 o2 k2. newID o1 k1 = newID o2 k2 \<Longrightarrow> o1 = o2 \<and> k1 = k2"
    and nf: "s_faults s = []" and fresh: "\<And>a o' k. a \<in> set (alerts (s_db s)) \<Longrightarrow> alt_ID a \<noteq> newID o' k"
    and first: "EvaluateAll clk newID s = (x, s1)"
  shows "snd (EvaluateAll clk newID' s1) = s1"
proof -
  let ?rs = "filter arl_Enabled (alert_rules (s_db s))"
  obtain m where ev: "evaluate_rules clk newID ?rs 0 s = (m, s1)"
    using first nf by (auto simp: EvaluateAll_def andThen_def query_no_fault split: prod.splits)
  have "ids_open newID (s_db s)" using fresh by (auto simp: ids_open_def)
  then have r: "raised s s1" "\<forall>r \<in> set ?rs. \<forall>(w, k) \<in> set (findings_of clk r (s_db s)). open_alert (arl_OrgID r) k (s_db s1)"
    using evaluate_rules_open [OF inj nf _ _ ev] by auto
  have "s_db s1 = (s_db s)\<lparr>alerts := alerts (s_db s1)\<rparr>" and nf1: "s_faults s1 = []" using r(1) unfolding raised_def by blast+
  then have "findings_of clk q (s_db s1) = findings_of clk q (s_db s)" for q by (metis findings_of_alerts)
  then have "\<exists>m. evaluate_rules clk newID' ?rs 0 s1 = (m, s1)"
    using r(2) by (intro evaluate_rules_again [OF nf1]) simp
  then show ?thesis using nf1 raised_rules [OF r(1)]
    by (auto simp: EvaluateAll_def andThen_def query_no_fault)
qed

end

