(* ===== verification/Use_Limits.thy ===== *)
theory Use_Limits
  imports Prelude
begin

text \<open>
  Use-limited tokens. Enrolment tokens and join codes are spent the same way: a token that is found
  is refused when it is out of uses, and otherwise its counter moves by one. A token without a limit
  is never refused.
\<close>

definition below_limit :: "('t \<Rightarrow> int) \<Rightarrow> ('t \<Rightarrow> int option) \<Rightarrow> 't \<Rightarrow> bool" where
  "below_limit uses limit t \<longleftrightarrow> (case limit t of None \<Rightarrow> True | Some n \<Rightarrow> uses t < n)"

definition within_limit :: "('t \<Rightarrow> int) \<Rightarrow> ('t \<Rightarrow> int option) \<Rightarrow> 't list \<Rightarrow> bool" where
  "within_limit uses limit ts \<longleftrightarrow> (\<forall>t \<in> set ts. case limit t of None \<Rightarrow> True | Some n \<Rightarrow> uses t \<le> n)"

locale use_limited =
  fixes uses :: "'t \<Rightarrow> int" and limit :: "'t \<Rightarrow> int option" and spend :: "'t \<Rightarrow> 't"
  assumes spend_uses: "uses (spend t) = uses t + 1" and spend_limit: "limit (spend t) = limit t"
begin

lemma spend_within:
  assumes "within_limit uses limit ts" and "\<And>t. t \<in> set ts \<Longrightarrow> P t \<Longrightarrow> below_limit uses limit t"
  shows "within_limit uses limit (upd P spend ts)"
  unfolding within_limit_def
proof
  fix t assume "t \<in> set (upd P spend ts)"
  then show "case limit t of None \<Rightarrow> True | Some n \<Rightarrow> uses t \<le> n"
    by (cases rule: in_set_updE)
      (use assms spend_uses spend_limit in \<open>fastforce simp: within_limit_def below_limit_def split: option.splits\<close>)+
qed

lemma spent_total:
  assumes "affected P ts = 1"
  shows "sum_list (map uses (upd P spend ts)) = sum_list (map uses ts) + 1"
proof -
  have "sum_list (map uses (upd P spend us)) = sum_list (map uses us) + int (affected P us)" for us
    by (induction us) (auto simp: affected_def spend_uses)
  then show ?thesis using assms by simp
qed

end

end
