(* ===== verification/Tenancy.thy ===== *)
theory Tenancy
  imports Ops Use_Limits
begin

text \<open>
  Tenancy: the transactions of the identity, project and ops services, the invariant that ties a
  membership to its user row, and what the guards on the last owner achieve. \<open>id_tx\<close> is one
  committed transaction; \<open>id_step\<close> is one call. Calls are composed of reads, updates and
  transactions, and the locale \<open>call_logic\<close> carries a relation on databases from the
  transactions to the calls.
\<close>

section \<open>Members and their users\<close>

text \<open>
  Every membership is repeated by the organisation and the role of its user row, and a user has at
  most one membership.
\<close>

definition mirrored :: "User list \<Rightarrow> Member \<Rightarrow> bool" where
  "mirrored us m \<longleftrightarrow> (\<exists>u \<in> set us. u_ID u = m_UserID m \<and> u_OrgID u = Some (m_OrgID m) \<and> u_Role u = m_Role m)"

definition members_ok :: "User list \<Rightarrow> Member list \<Rightarrow> bool" where
  "members_ok us ms \<longleftrightarrow> distinct (map u_ID us) \<and> distinct (map m_UserID ms) \<and> (\<forall>m \<in> set ms. mirrored us m)"

definition member_inv :: "db \<Rightarrow> bool" where
  "member_inv d \<longleftrightarrow> members_ok (users d) (organization_members d)"

lemma members_ok_user:
  assumes "members_ok us ms" and "m \<in> set ms" and "u \<in> set us" and "u_ID u = m_UserID m"
  shows "u_OrgID u = Some (m_OrgID m)" and "u_Role u = m_Role m"
proof -
  obtain v where v: "v \<in> set us" "u_ID v = m_UserID m" "u_OrgID v = Some (m_OrgID m)" "u_Role v = m_Role m"
    using assms(1,2) unfolding members_ok_def mirrored_def by blast
  have "v = u" using distinct_key_unique [of u_ID us v u] assms(1,3,4) v(1,2) by (simp add: members_ok_def)
  then show "u_OrgID u = Some (m_OrgID m)" "u_Role u = m_Role m" using v by simp_all
qed

text \<open>A new membership of a user who has none.\<close>

lemma members_ok_join:
  assumes ok: "members_ok us ms" and ids: "distinct (map u_ID us')"
    and u: "u \<in> set us'" "u_OrgID u = Some (m_OrgID m)" "u_Role u = m_Role m" "u_ID u = m_UserID m"
    and kept: "\<And>v. v \<in> set us \<Longrightarrow> u_ID v \<noteq> u_ID u \<Longrightarrow> v \<in> set us'"
    and none: "\<And>q. q \<in> set ms \<Longrightarrow> m_UserID q \<noteq> u_ID u"
  shows "members_ok us' (ms @ [m])"
proof -
  have "mirrored us' q" if q: "q \<in> set ms" for q
  proof -
    obtain v where v: "v \<in> set us" "u_ID v = m_UserID q" "u_OrgID v = Some (m_OrgID q)" "u_Role v = m_Role q"
      using ok q unfolding members_ok_def mirrored_def by blast
    then have "v \<in> set us'" using kept none q by metis
    then show ?thesis using v unfolding mirrored_def by blast
  qed
  moreover have "mirrored us' m" using u unfolding mirrored_def by blast
  moreover have "m_UserID m \<notin> m_UserID ` set ms" using none u(4) by fastforce
  ultimately show ?thesis using ok ids by (auto simp: members_ok_def)
qed

lemma members_ok_fewer_users:
  assumes "members_ok us ms" and "distinct (map u_ID us')"
    and "\<And>v. v \<in> set us \<Longrightarrow> \<exists>w \<in> set us'. u_ID w = u_ID v \<and> u_OrgID w = u_OrgID v \<and> u_Role w = u_Role v"
  shows "members_ok us' ms"
  using assms unfolding members_ok_def mirrored_def by metis

lemma members_ok_set_role:
  assumes "members_ok us ms"
  shows "members_ok (upd (\<lambda>u. u_ID u = i \<and> u_OrgID u = Some k) (\<lambda>u. u\<lparr>u_Role := r\<rparr>) us)
    (upd (\<lambda>m. m_OrgID m = k \<and> m_UserID m = i) (\<lambda>m. m\<lparr>m_Role := r\<rparr>) ms)" (is "members_ok ?us ?ms")
proof -
  have "mirrored ?us m" if m: "m \<in> set ?ms" for m
  proof -
    obtain q where q: "q \<in> set ms" "m = (if m_OrgID q = k \<and> m_UserID q = i then q\<lparr>m_Role := r\<rparr> else q)"
      using m by (auto simp: set_upd)
    obtain u where u: "u \<in> set us" "u_ID u = m_UserID q" "u_OrgID u = Some (m_OrgID q)" "u_Role u = m_Role q"
      using assms q(1) unfolding members_ok_def mirrored_def by blast
    have "(if u_ID u = i \<and> u_OrgID u = Some k then u\<lparr>u_Role := r\<rparr> else u) \<in> set ?us" using u(1) by (rule in_set_updI)
    then show ?thesis using u q(2) unfolding mirrored_def by (elim bexI [rotated]) (auto split: if_splits)
  qed
  then show ?thesis using assms by (auto simp: members_ok_def map_upd_key)
qed

lemma members_ok_detach:
  assumes "members_ok us ms"
  shows "members_ok (upd (\<lambda>u. u_ID u = i \<and> u_OrgID u = Some k) (\<lambda>u. u\<lparr>u_OrgID := None, u_Role := r\<rparr>) us)
    (del (\<lambda>m. m_OrgID m = k \<and> m_UserID m = i) ms)" (is "members_ok ?us ?ms")
proof -
  have "mirrored ?us m" if m: "m \<in> set ?ms" for m
  proof -
    have q: "m \<in> set ms" "\<not> (m_OrgID m = k \<and> m_UserID m = i)" using m by (auto simp: set_del)
    obtain u where u: "u \<in> set us" "u_ID u = m_UserID m" "u_OrgID u = Some (m_OrgID m)" "u_Role u = m_Role m"
      using assms q(1) unfolding members_ok_def mirrored_def by blast
    have "(if u_ID u = i \<and> u_OrgID u = Some k then u\<lparr>u_OrgID := None, u_Role := r\<rparr> else u) \<in> set ?us"
      using u(1) by (rule in_set_updI)
    then show ?thesis using u q(2) unfolding mirrored_def by (elim bexI [rotated]) (auto split: if_splits)
  qed
  then show ?thesis using assms by (auto simp: members_ok_def map_upd_key del_def distinct_map_filter)
qed

section \<open>Transactions\<close>

text \<open>The tables that the invariants of the platform read.\<close>

definition side :: "db \<Rightarrow> (WorkloadRow list \<times> GPU list \<times> workload_gpu list \<times> UsageRecord list \<times> ledger_entry list) \<times>
    Organization list \<times> User list \<times> Member list" where
  "side d = ((workloads d, gpus d, workload_gpus d, usage_records d, credit_ledger d),
     organizations d, users d, organization_members d)"

definition standing :: "User \<Rightarrow> uuid \<times> uuid option \<times> Role" where
  "standing u = (u_ID u, u_OrgID u, u_Role u)"

text \<open>
  The transactions that take no membership or role away. \<open>g_profile\<close> stands for the updates
  of the other columns of a user, \<open>g_side\<close> for those of the other tables.
\<close>

inductive grow_tx :: "db \<Rightarrow> db \<Rightarrow> bool" where
  g_register: "register_tx sv clk fr orgName email name password d = Inr (v, d') \<Longrightarrow> grow_tx d d'"
| g_create_org: "create_org_tx sv clk fr userID orgName d = Inr (v, d') \<Longrightarrow> grow_tx d d'"
| g_create_user: "Normalize role = role \<Longrightarrow> create_user_tx clk fr orgID email hash name role d = Inr (v, d') \<Longrightarrow> grow_tx d d'"
| g_pending: "u_OrgID v = None \<Longrightarrow> put_users (users d @ [v]) d = Inr (x, d') \<Longrightarrow> grow_tx d d'"
| g_bootstrap: "bootstrap_user clk fr orgID email hash d = Inr (y, d') \<Longrightarrow> grow_tx d d'"
| g_bootstrap_member: "v \<in> set (users d) \<Longrightarrow> standing v = (userID, Some orgID, RoleOwner) \<Longrightarrow>
    bootstrap_member clk fr orgID userID d = Inr (x, d') \<Longrightarrow> grow_tx d d'"
| g_accept: "accept_tx clk mid hash userID email d = Inr (v, d') \<Longrightarrow> grow_tx d d'"
| g_join: "join_code_tx clk mid hash userID d = Inr (v, d') \<Longrightarrow> grow_tx d d'"
| g_profile: "d' = d\<lparr>users := us\<rparr> \<Longrightarrow> map standing us = map standing (users d) \<Longrightarrow> grow_tx d d'"
| g_side: "side d' = side d \<Longrightarrow> grow_tx d d'"

inductive id_tx :: "db \<Rightarrow> db \<Rightarrow> bool" where
  i_grow: "grow_tx d d' \<Longrightarrow> id_tx d d'"
| i_set_role: "d' = set_role orgID userID role d \<Longrightarrow> id_tx d d'"
| i_transfer: "d' = transfer orgID actorID targetID d \<Longrightarrow> id_tx d d'"
| i_remove: "remove_tx clk orgID userID d = Inr (x, d') \<Longrightarrow> id_tx d d'"
| i_leave: "leave_tx clk orgID userID ex d = Inr (v, d') \<Longrightarrow> id_tx d d'"

lemma put_users_Inr: "put_users us d = Inr (x, d') \<Longrightarrow> d' = d\<lparr>users := us\<rparr> \<and> distinct (map u_ID us)"
  by (auto simp: put_users_def users_unique_def split: if_splits)

lemma insertMembershipTx_new:
  assumes "insertMembershipTx clk mid k i r ib d = Inr (x, d')" and "\<And>m. m \<in> set (organization_members d) \<Longrightarrow> m_UserID m \<noteq> i"
  shows "d' = d\<lparr>organization_members := organization_members d @
    [\<lparr>m_ID = mid, m_OrgID = k, m_UserID = i, m_Role = Normalize r, m_InvitedBy = ib, m_CreatedAt = db_now clk\<rparr>]\<rparr>"
  using assms by (auto simp: insertMembershipTx_def Let_def split: if_splits)

definition grown :: "db \<Rightarrow> db \<Rightarrow> bool" where
  "grown d d' \<longleftrightarrow> member_inv d' \<and> (\<exists>ms. organization_members d' = organization_members d @ ms)"

lemma join_grown:
  assumes inv: "member_inv d" and ms: "organization_members d1 = organization_members d" and ids: "distinct (map u_ID (users d1))"
    and u: "u \<in> set (users d1)" "u_OrgID u = Some k" "u_Role u = Normalize r" "u_ID u = i"
    and kept: "\<And>v. v \<in> set (users d) \<Longrightarrow> u_ID v \<noteq> i \<Longrightarrow> v \<in> set (users d1)"
    and none: "\<And>v. v \<in> set (users d) \<Longrightarrow> u_ID v = i \<Longrightarrow> u_OrgID v = None"
    and tx: "insertMembershipTx clk mid k i r ib d1 = Inr (x, d')"
  shows "grown d d'"
proof -
  have free: "m_UserID m \<noteq> i" if m: "m \<in> set (organization_members d)" for m
  proof
    assume "m_UserID m = i"
    moreover obtain v where "v \<in> set (users d)" "u_ID v = m_UserID m" "u_OrgID v = Some (m_OrgID m)"
      using inv m unfolding member_inv_def members_ok_def mirrored_def by blast
    ultimately show False using none [of v] by simp
  qed
  let ?m = "\<lparr>m_ID = mid, m_OrgID = k, m_UserID = i, m_Role = Normalize r, m_InvitedBy = ib, m_CreatedAt = db_now clk\<rparr>"
  have d': "d' = d1\<lparr>organization_members := organization_members d @ [?m]\<rparr>"
    using insertMembershipTx_new [OF tx] free ms by simp
  have "members_ok (users d1) (organization_members d @ [?m])"
    by (rule members_ok_join [of "users d" _ _ u]) (use inv ids u kept free in \<open>auto simp: member_inv_def\<close>)
  then show ?thesis by (simp add: grown_def member_inv_def d')
qed

lemma joinOrgTx_grown:
  assumes inv: "member_inv d" and ds: "users e = users d" "organization_members e = organization_members d"
    and tx: "joinOrgTx clk mid i k r ib e = Inr (v, d')"
  shows "grown d d'"
proof -
  let ?P = "\<lambda>u. u_ID u = i \<and> u_OrgID u = None" and ?f = "\<lambda>u. u\<lparr>u_OrgID := Some k, u_Role := Normalize r\<rparr>"
  obtain u d1 where u: "find ?P (users d) = Some u" and d1: "put_users (upd ?P ?f (users d)) e = Inr ((), d1)"
    and m: "insertMembershipTx clk mid k i (Normalize r) ib d1 = Inr ((), d')"
    using tx by (auto simp: joinOrgTx_def Let_def ds bindE_Inr_iff split: option.splits)
  note f = find_SomeD [OF u] and p = put_users_Inr [OF d1]
  have ids: "distinct (map u_ID (users d))" using inv by (simp add: member_inv_def members_ok_def)
  have un: "v = u" if "v \<in> set (users d)" "u_ID v = i" for v
    using distinct_key_unique [OF ids that(1)] f that(2) by simp
  show ?thesis
  proof (rule join_grown [OF inv, of d1 "?f u"])
    show "?f u \<in> set (users d1)" using in_set_updI [of u "users d" ?P ?f] f p by simp
    show "w \<in> set (users d1)" if "w \<in> set (users d)" "u_ID w \<noteq> i" for w
      using in_set_updI [of w "users d" ?P ?f] that p by simp
    show "u_OrgID w = None" if "w \<in> set (users d)" "u_ID w = i" for w using un [OF that] f by simp
    show "insertMembershipTx clk mid k i (Normalize r) ib d1 = Inr ((), d')" by (rule m)
  qed (use f p ds in simp_all)
qed

lemma provisionOrgTx_Inr:
  assumes "provisionOrgTx sv clk k rc rnd name d = Inr (k', d')"
  shows "k' = k" and "\<not> org_exists k d" and "org_exists k d'" and "users d' = users d"
    and "organization_members d' = organization_members d"
    and "credit_ledger d' = credit_ledger d @ welcome_entries clk k (id_welcomeCredit sv)"
    and "set (organizations d) \<subseteq> set (organizations d')"
    and "workloads d' = workloads d" "gpus d' = gpus d" "workload_gpus d' = workload_gpus d" "usage_records d' = usage_records d"
  using assms by (auto simp: provisionOrgTx_def Let_def org_exists_def split: if_splits)

lemma new_user_grown:
  assumes inv: "member_inv d" and ds: "users e = users d" "organization_members e = organization_members d"
    and put: "put_users (users e @ [u]) e = Inr (x, d1)" and u: "u_OrgID u = Some k" "u_Role u = Normalize r"
    and tx: "insertMembershipTx clk mid k (u_ID u) r ib d1 = Inr (y, d')"
  shows "grown d d'"
proof -
  note p = put_users_Inr [OF put]
  show ?thesis
  proof (rule join_grown [OF inv, of d1 u])
    show "u_OrgID w = None" if "w \<in> set (users d)" "u_ID w = u_ID u" for w
      using that p ds image_eqI [of "u_ID u" u_ID w "set (users d)"] by simp
  qed (use p u tx ds in auto)
qed

lemma register_grown: "register_tx sv clk fr orgName email name password d = Inr (v, d') \<Longrightarrow> member_inv d \<Longrightarrow> grown d d'"
proof -
  assume tx: "register_tx sv clk fr orgName email name password d = Inr (v, d')" and inv: "member_inv d"
  obtain hash k d1 d2 where d1: "provisionOrgTx sv clk (fr_org fr) (fr_card fr) (fr_bytes fr) orgName d = Inr (k, d1)"
    and d2: "put_users (users d1 @ [new_user clk (fr_user fr) (Some k) email hash (if name = '''' then ''Admin'' else name) RoleOwner]) d1 = Inr ((), d2)"
    and d': "insertMembershipTx clk (fr_member fr) k (fr_user fr) RoleOwner None d2 = Inr ((), d')"
    using tx by (fastforce simp: register_tx_def Let_def bindE_Inr_iff new_user_def)
  show ?thesis
    by (rule new_user_grown [OF inv provisionOrgTx_Inr(4,5) [OF d1] d2]) (use d' in \<open>simp_all add: new_user_def Normalize_def\<close>)
qed

lemma create_org_grown:
  assumes tx: "create_org_tx sv clk fr i orgName d = Inr (v, d')" and inv: "member_inv d"
  shows "grown d d'"
proof -
  let ?f = "\<lambda>k u. u\<lparr>u_OrgID := Some k, u_Role := RoleOwner\<rparr>"
  obtain u k d1 d2 where u: "find (\<lambda>u. u_ID u = i \<and> active_user u) (users d) = Some u" "u_OrgID u = None"
    and d1: "provisionOrgTx sv clk (fr_org fr) (fr_card fr) (fr_bytes fr) orgName d = Inr (k, d1)"
    and d2: "put_users (upd (\<lambda>v. u_ID v = i) (?f k) (users d1)) d1 = Inr ((), d2)"
    and d': "insertMembershipTx clk (fr_member fr) k i RoleOwner None d2 = Inr ((), d')"
    using tx by (auto simp: create_org_tx_def bindE_Inr_iff split: option.splits if_splits)
  note f = find_SomeD [OF u(1)] and p = put_users_Inr [OF d2] and e = provisionOrgTx_Inr [OF d1]
  have ids: "distinct (map u_ID (users d))" using inv by (simp add: member_inv_def members_ok_def)
  have un: "w = u" if "w \<in> set (users d)" "u_ID w = i" for w
    using distinct_key_unique [OF ids that(1)] f that(2) by simp
  show ?thesis
  proof (rule join_grown [OF inv, of d2 "?f k u"])
    show "?f k u \<in> set (users d2)" using in_set_updI [of u "users d" "\<lambda>v. u_ID v = i" "?f k"] f p e by simp
    show "w \<in> set (users d2)" if "w \<in> set (users d)" "u_ID w \<noteq> i" for w
      using in_set_updI [of w "users d" "\<lambda>v. u_ID v = i" "?f k"] that p e by simp
    show "u_OrgID w = None" if "w \<in> set (users d)" "u_ID w = i" for w using un [OF that] u(2) by simp
    show "insertMembershipTx clk (fr_member fr) k i RoleOwner None d2 = Inr ((), d')" by (rule d')
  qed (use f p e in \<open>simp_all add: Normalize_def\<close>)
qed

lemma more_users_grown:
  assumes "member_inv d" and "distinct (map u_ID us)" and "map standing (users d) = map standing (take (length (users d)) us)"
    and "organization_members d' = organization_members d" and "users d' = us"
  shows "grown d d'"
proof -
  have "\<exists>w \<in> set us. u_ID w = u_ID v \<and> u_OrgID w = u_OrgID v \<and> u_Role w = u_Role v" if v: "v \<in> set (users d)" for v
  proof -
    have "standing v \<in> standing ` set (take (length (users d)) us)"
      using v assms(3) by (metis image_eqI set_map)
    then show ?thesis by (auto simp: standing_def dest: in_set_takeD)
  qed
  then have "members_ok us (organization_members d)"
    by (rule members_ok_fewer_users [OF assms(1) [unfolded member_inv_def] assms(2)])
  then show ?thesis using assms(4,5) by (simp add: grown_def member_inv_def)
qed

lemma bootstrap_grown:
  assumes "bootstrap_user clk fr k email hash d = Inr (y, d')" and "member_inv d"
  shows "grown d d'"
proof (cases "\<exists>u \<in> set (users d). u_OrgID u = Some k \<and> email_user email u")
  case True
  then show ?thesis using assms by (simp add: bootstrap_user_def grown_def)
next
  case False
  then obtain x where "put_users (users d @ [new_user clk (fr_user fr) (Some k) email hash ''Admin'' RoleOwner]) d = Inr (x, d')"
    using assms(1) unfolding bootstrap_user_def if_not_P [OF False] by (auto simp: bindE_Inr_iff)
  from put_users_Inr [OF this] show ?thesis by (intro more_users_grown [OF assms(2)]) auto
qed

lemma bootstrap_member_grown:
  assumes u: "v \<in> set (users d)" "standing v = (i, Some k, RoleOwner)"
    and tx: "bootstrap_member clk fr k i d = Inr (x, d')" and inv: "member_inv d"
  shows "grown d d'"
proof (cases "\<exists>m \<in> set (organization_members d). m_UserID m = i")
  case True
  then obtain m where m: "m \<in> set (organization_members d)" "m_UserID m = i" by blast
  then have "m_OrgID m = k" using members_ok_user(1) [OF inv [unfolded member_inv_def] m(1) u(1)] u(2) by (simp add: standing_def)
  then have "\<exists>m \<in> set (organization_members d). m_OrgID m = k \<and> m_UserID m = i" using m by blast
  then have "d' = d" using tx by (simp add: bootstrap_member_def)
  then show ?thesis using inv by (simp add: grown_def)
next
  case False
  then have ins: "insertMembershipTx clk (fr_member fr) k i RoleOwner None d = Inr (x, d')"
    using tx by (auto simp: bootstrap_member_def)
  have d': "d' = d\<lparr>organization_members := organization_members d @ [\<lparr>m_ID = fr_member fr, m_OrgID = k, m_UserID = i,
      m_Role = RoleOwner, m_InvitedBy = None, m_CreatedAt = db_now clk\<rparr>]\<rparr>"
    using insertMembershipTx_new [OF ins] False by (simp add: Normalize_def)
  have "members_ok (users d) (organization_members d')"
    unfolding d' by (simp, rule members_ok_join [of "users d" _ _ v])
      (use inv u False in \<open>auto simp: member_inv_def standing_def members_ok_def\<close>)
  then show ?thesis by (simp add: grown_def member_inv_def d')
qed

theorem grow_tx_grown: "grow_tx d d' \<Longrightarrow> member_inv d \<Longrightarrow> grown d d'"
proof (induction rule: grow_tx.induct)
  case (g_create_user role clk fr orgID email hash name d v d')
  obtain d1 where d1: "put_users (users d @ [new_user clk (fr_user fr) (Some orgID) email hash name role]) d = Inr ((), d1)"
    and m: "insertMembershipTx clk (fr_member fr) orgID (fr_user fr) role None d1 = Inr ((), d')"
    using g_create_user.hyps(2) by (fastforce simp: create_user_tx_def Let_def bindE_Inr_iff new_user_def)
  show ?case
    by (rule new_user_grown [OF g_create_user.prems refl refl d1]) (use g_create_user.hyps(1) m in \<open>simp_all add: new_user_def\<close>)
next
  case (g_pending v d x d')
  from put_users_Inr [OF this(2)] show ?case by (intro more_users_grown [OF g_pending.prems]) auto
next
  case (g_accept clk mid hash userID email d v d')
  then show ?case
    by (auto simp: accept_tx_def elim!: joinOrgTx_grown [OF g_accept.prems, rotated 2] split: option.splits if_splits)
next
  case (g_join clk mid hash userID d v d')
  then show ?case
    by (auto simp: join_code_tx_def elim!: joinOrgTx_grown [OF g_join.prems, rotated 2] split: option.splits if_splits)
next
  case (g_profile d' us d)
  then have len: "length us = length (users d)" by (metis length_map)
  have "map fst (map standing us) = map fst (map standing (users d))" using g_profile(2) by simp
  then have "map u_ID us = map u_ID (users d)" by (simp add: standing_def comp_def)
  then show ?case using g_profile len
    by (intro more_users_grown [OF g_profile.prems]) (auto simp: member_inv_def members_ok_def)
next
  case (g_side d' d)
  then show ?case by (simp add: side_def grown_def member_inv_def)
qed (blast intro: register_grown create_org_grown bootstrap_grown bootstrap_member_grown)+

lemma id_tx_member: "id_tx d d' \<Longrightarrow> member_inv d \<Longrightarrow> member_inv d'"
proof (induction rule: id_tx.induct)
  case (i_grow d d')
  then show ?case using grow_tx_grown by (simp add: grown_def)
next
  case (i_remove clk orgID userID d x d')
  then show ?case
    by (auto simp: remove_tx_def detach_member_def revoke_sessions_def bindE_Inr_iff member_inv_def
        intro: members_ok_detach dest!: put_users_Inr)
next
  case (i_leave clk orgID userID ex d v d')
  then show ?case
    by (auto simp: leave_tx_def detach_member_def revoke_sessions_def bindE_Inr_iff member_inv_def
        intro: members_ok_detach dest!: put_users_Inr split: option.splits)
qed (auto simp: member_inv_def set_role_def transfer_def intro!: members_ok_set_role)

section \<open>Calls\<close>

text \<open>
  A call keeps a relation when the databases before and after it are related, whatever the faults.
  A reflexive and transitive relation is kept by reads and by sequences of calls.
\<close>

definition keeps :: "(db \<Rightarrow> db \<Rightarrow> bool) \<Rightarrow> (sys \<Rightarrow> 'a \<times> sys) \<Rightarrow> bool" where
  "keeps R m \<longleftrightarrow> (\<forall>s. R (s_db s) (s_db (snd (m s))))"

lemma keepsD: "keeps R m \<Longrightarrow> m s = (x, t) \<Longrightarrow> R (s_db s) (s_db t)"
  unfolding keeps_def by (metis snd_conv)

locale call_logic =
  fixes R :: "db \<Rightarrow> db \<Rightarrow> bool"
  assumes R_refl: "R d d" and R_trans: "R d e \<Longrightarrow> R e f \<Longrightarrow> R d f"
begin

lemma keeps_Pair: "keeps R (Pair x)"
  by (simp add: keeps_def R_refl)

lemma keeps_query: "keeps R (query f)"
  by (simp add: keeps_def query_db R_refl)

lemma keeps_atomically:
  assumes "\<And>d a d'. body d = Inr (a, d') \<Longrightarrow> R d d'"
  shows "keeps R (atomically body)"
  unfolding keeps_def
proof
  fix s show "R (s_db s) (s_db (snd (atomically body s)))"
    by (cases rule: atomically_cases [of body s]) (auto intro: assms R_refl)
qed

lemma keeps_modify: "(\<And>d. R d (f d)) \<Longrightarrow> keeps R (modify f)"
  unfolding modify_def by (rule keeps_atomically) auto

lemma keeps_andThen:
  assumes "keeps R m" and "\<And>a. keeps R (f a)"
  shows "keeps R (andThen m f)"
  unfolding keeps_def
proof
  fix s
  obtain r s1 where m: "m s = (r, s1)" by fastforce
  have "R (s_db s) (s_db s1)" using assms(1) m by (rule keepsD)
  then show "R (s_db s) (s_db (snd (andThen m f s)))"
    using assms(2) m R_trans by (cases r) (auto simp: keeps_def)
qed

lemma keeps_hide_error: "keeps R m \<Longrightarrow> keeps R (hide_error m)"
  by (auto simp: keeps_def hide_error_def split: prod.split sum.split) (metis snd_conv)+

lemma keeps_then: "R (s_db s) (s_db t) \<Longrightarrow> keeps R m \<Longrightarrow> R (s_db s) (s_db (snd (m t)))"
  using R_trans unfolding keeps_def by blast

lemmas keeps_rules = keeps_Pair keeps_query keeps_modify keeps_andThen keeps_hide_error

end

interpretation grow: call_logic "grow_tx\<^sup>*\<^sup>*"
  by unfold_locales simp_all

lemma keeps_grow_atomically: "(\<And>d a d'. body d = Inr (a, d') \<Longrightarrow> grow_tx d d') \<Longrightarrow> keeps grow_tx\<^sup>*\<^sup>* (atomically body)"
  by (rule grow.keeps_atomically) blast

lemma keeps_grow_side: "(\<And>d a d'. body d = Inr (a, d') \<Longrightarrow> side d' = side d) \<Longrightarrow> keeps grow_tx\<^sup>*\<^sup>* (atomically body)"
  by (rule keeps_grow_atomically) (rule g_side)

lemma keeps_grow_modify: "(\<And>d. side (f d) = side d) \<Longrightarrow> keeps grow_tx\<^sup>*\<^sup>* (modify f)"
  by (rule grow.keeps_modify) (blast intro: g_side)

lemma keeps_grow_users:
  "(\<And>u. standing (f u) = standing u) \<Longrightarrow> keeps grow_tx\<^sup>*\<^sup>* (modify (\<lambda>d. d\<lparr>users := upd P f (users d)\<rparr>))"
  by (rule grow.keeps_modify) (blast intro: g_profile map_upd_key)

text \<open>The calls that take no membership away are sequences of such transactions.\<close>

named_theorems grow_calls \<open>calls as sequences of growing transactions\<close>

lemmas grow_rules = grow.keeps_Pair grow.keeps_query grow.keeps_andThen grow.keeps_hide_error

lemma keeps_if: "(c \<Longrightarrow> keeps R m) \<Longrightarrow> (\<not> c \<Longrightarrow> keeps R n) \<Longrightarrow> keeps R (if c then m else n)"
  and keeps_option: "(x = None \<Longrightarrow> keeps R m) \<Longrightarrow> (\<And>y. x = Some y \<Longrightarrow> keeps R (f y)) \<Longrightarrow>
    keeps R (case x of None \<Rightarrow> m | Some y \<Rightarrow> f y)"
  and keeps_sum: "(\<And>e. r = Inl e \<Longrightarrow> keeps R (g e)) \<Longrightarrow> (\<And>a. r = Inr a \<Longrightarrow> keeps R (h a)) \<Longrightarrow>
    keeps R (case r of Inl e \<Rightarrow> g e | Inr a \<Rightarrow> h a)"
  by (simp, cases x, simp_all, cases r, simp_all)

lemma keeps_discard: "keeps R m \<Longrightarrow> keeps R (\<lambda>s. (x, snd (m s)))"
  by (simp add: keeps_def)

lemma keeps_guard: "(\<not> c \<Longrightarrow> keeps grow_tx\<^sup>*\<^sup>* m) \<Longrightarrow> keeps grow_tx\<^sup>*\<^sup>* (\<lambda>s. if c then (x, s) else m s)"
  by (simp add: keeps_def)

lemma keeps_fail: "(\<And>a. r = Inr a \<Longrightarrow> keeps grow_tx\<^sup>*\<^sup>* (h a)) \<Longrightarrow>
    keeps grow_tx\<^sup>*\<^sup>* (\<lambda>s. case r of Inl e \<Rightarrow> (Inl e, s) | Inr a \<Rightarrow> h a s)"
  by (cases r) (simp_all add: keeps_def)

lemmas call_rules = grow_rules keeps_if keeps_option keeps_sum keeps_guard keeps_fail

lemma keeps_Register [grow_calls]: "keeps grow_tx\<^sup>*\<^sup>* (id_Register sv clk fr orgName email name password)"
  unfolding id_Register_def [abs_def] Let_def
  by (intro call_rules keeps_grow_atomically) (rule g_register)

lemma keeps_new_account: "u_OrgID u = None \<Longrightarrow> keeps grow_tx\<^sup>*\<^sup>* (atomically (\<lambda>d. put_users (users d @ [u]) d))"
  by (rule keeps_grow_atomically) (rule g_pending)

lemma keeps_RegisterPending [grow_calls]: "keeps grow_tx\<^sup>*\<^sup>* (RegisterPending sv clk fr email name password)"
  unfolding RegisterPending_def [abs_def] Let_def
  by (intro call_rules keeps_new_account) (simp add: new_user_def)

lemma keeps_CreateOrgForUser [grow_calls]: "keeps grow_tx\<^sup>*\<^sup>* (CreateOrgForUser sv clk fr userID orgName)"
  unfolding CreateOrgForUser_def [abs_def] Let_def
  by (intro call_rules keeps_grow_atomically) (rule g_create_org)

lemma keeps_CreateUser [grow_calls]: "keeps grow_tx\<^sup>*\<^sup>* (CreateUser sv clk fr orgID email name role)"
  unfolding CreateUser_def [abs_def]
  by (intro call_rules keeps_grow_atomically) (erule g_create_user [rotated], simp)

lemma keeps_Login [grow_calls]: "keeps grow_tx\<^sup>*\<^sup>* (Login sv clk email password)"
  unfolding Login_def [abs_def] Let_def touch_login_def
  by (intro call_rules keeps_discard keeps_grow_users) (simp add: standing_def)

lemma keeps_link_google: "keeps grow_tx\<^sup>*\<^sup>* (atomically (link_google clk i sub a))"
  unfolding link_google_def
  by (rule keeps_grow_atomically, drule put_users_Inr, elim conjE, erule g_profile, rule map_upd_key) (simp add: standing_def)

lemma keeps_UpsertGoogleUser [grow_calls]: "keeps grow_tx\<^sup>*\<^sup>* (UpsertGoogleUser sv clk fr sub email name avatar verified)"
  unfolding UpsertGoogleUser_def [abs_def] Let_def refresh_google_def
  by (intro call_rules keeps_discard keeps_grow_users keeps_link_google keeps_new_account) (simp_all add: standing_def new_user_def)

lemma keeps_sessions [grow_calls]:
  "keeps grow_tx\<^sup>*\<^sup>* (CreateSession sv clk sid rnd userID dev)"
  "keeps grow_tx\<^sup>*\<^sup>* (RefreshSession sv clk rnd raw dev)"
  "keeps grow_tx\<^sup>*\<^sup>* (RevokeSession clk userID sid)"
  "keeps grow_tx\<^sup>*\<^sup>* (RevokeAllSessions clk userID ex)"
  "keeps grow_tx\<^sup>*\<^sup>* (RevokeSessionByRefresh sv clk raw)"
  unfolding CreateSession_def [abs_def] RefreshSession_def [abs_def] RevokeSession_def RevokeAllSessions_def
    RevokeSessionByRefresh_def [abs_def] Let_def case_prod_beta
  by (intro call_rules keeps_grow_side keeps_grow_modify;
      auto simp: insert_session_def refresh_tx_def revoke_session_tx_def revoke_sessions_def side_def Let_def
        split: if_splits option.splits sum.splits)+

lemma keeps_mintAuthToken: "keeps grow_tx\<^sup>*\<^sup>* (mintAuthToken sv clk tid rnd userID kind ttl)"
  unfolding mintAuthToken_def Let_def
  by (intro call_rules keeps_grow_side) (auto simp: mint_tx_def side_def Let_def split: if_splits)

lemma keeps_consumeAuthToken: "keeps grow_tx\<^sup>*\<^sup>* (consumeAuthToken sv clk raw kind)"
  unfolding consumeAuthToken_def
  by (intro keeps_grow_side) (auto simp: consume_tx_def side_def split: option.splits)

lemma keeps_email_tokens [grow_calls]:
  "keeps grow_tx\<^sup>*\<^sup>* (RequestEmailVerification sv clk tid rnd userID)"
  "keeps grow_tx\<^sup>*\<^sup>* (ConfirmEmailVerification sv clk raw)"
  "keeps grow_tx\<^sup>*\<^sup>* (RequestPasswordReset sv clk tid rnd email)"
  "keeps grow_tx\<^sup>*\<^sup>* (ConfirmPasswordReset sv clk raw newPassword)"
  unfolding RequestEmailVerification_def ConfirmEmailVerification_def RequestPasswordReset_def
    ConfirmPasswordReset_def [abs_def] set_password_def
  by (intro call_rules keeps_mintAuthToken keeps_consumeAuthToken keeps_sessions keeps_grow_users; simp add: standing_def)+

lemma keeps_invitations [grow_calls]:
  "keeps grow_tx\<^sup>*\<^sup>* (CreateInvitation sv clk iid rnd orgID invitedBy email role)"
  "keeps grow_tx\<^sup>*\<^sup>* (RevokeInvitation clk orgID iid)"
  "keeps grow_tx\<^sup>*\<^sup>* (ResendInvitation sv clk rnd orgID iid)"
  "keeps grow_tx\<^sup>*\<^sup>* (UpdateInvitationDelivery clk iid status errMsg)"
  unfolding CreateInvitation_def [abs_def] RevokeInvitation_def ResendInvitation_def UpdateInvitationDelivery_def Let_def
  by (intro call_rules keeps_grow_side keeps_grow_modify;
      auto simp: supersede_invites_def insert_invitation_def revoke_invitation_tx_def resend_tx_def side_def Let_def
        split: if_splits option.splits)+

lemma keeps_joining [grow_calls]:
  "keeps grow_tx\<^sup>*\<^sup>* (AcceptInvitation sv clk mid userID raw)"
  "keeps grow_tx\<^sup>*\<^sup>* (JoinViaCode sv clk mid userID code)"
  unfolding AcceptInvitation_def JoinViaCode_def [abs_def] Let_def
  by (intro call_rules keeps_grow_atomically; erule g_accept g_join)+

lemma keeps_join_codes [grow_calls]:
  "keeps grow_tx\<^sup>*\<^sup>* (CreateJoinCode sv clk cid rnd orgID createdBy desc ttl maxUses)"
  "keeps grow_tx\<^sup>*\<^sup>* (RevokeJoinCode clk orgID cid)"
  unfolding CreateJoinCode_def RevokeJoinCode_def Let_def
  by (intro call_rules keeps_grow_side;
      auto simp: insert_join_code_def revoke_join_code_tx_def side_def Let_def split: if_splits)+

lemma keeps_keys [grow_calls]:
  "keeps grow_tx\<^sup>*\<^sup>* (CreateServiceAccount clk aid orgID createdBy name description role)"
  "keeps grow_tx\<^sup>*\<^sup>* (SetServiceAccountDisabled clk orgID aid disabled)"
  "keeps grow_tx\<^sup>*\<^sup>* (CreateAPIKey sv clk kid rnd orgID req)"
  "keeps grow_tx\<^sup>*\<^sup>* (RevokeAPIKey clk orgID kid owner)"
  "keeps grow_tx\<^sup>*\<^sup>* (AuthenticateAPIKey sv clk raw)"
  unfolding CreateServiceAccount_def [abs_def] SetServiceAccountDisabled_def CreateAPIKey_def [abs_def] RevokeAPIKey_def
    AuthenticateAPIKey_def [abs_def] Let_def
  by (intro call_rules keeps_grow_side keeps_grow_modify keeps_discard;
      auto simp: insert_service_account_def disable_tx_def insert_key_def revoke_key_tx_def touch_key_def side_def Let_def
        split: if_splits)+

lemma keeps_AddProjectMember [grow_calls]: "keeps grow_tx\<^sup>*\<^sup>* (AddProjectMember clk orgID pid userID addedBy)"
proof -
  have "keeps grow_tx\<^sup>*\<^sup>* (\<lambda>s. case query q s of (Inr True, s2) \<Rightarrow> (Inr (), s2) | (_, s2) \<Rightarrow> (Inl ErrNotFound, s2))"
    for q :: "db \<Rightarrow> err + bool"
    using query_db [of q] by (auto simp: keeps_def split: prod.split sum.split bool.split) (metis rtranclp.rtrancl_refl snd_conv)+
  then show ?thesis unfolding AddProjectMember_def
    by (intro call_rules keeps_grow_side) (auto simp: add_member_tx_def side_def split: if_splits)
qed

lemma keeps_projects [grow_calls]:
  "keeps grow_tx\<^sup>*\<^sup>* (CreateProject clk pid orgID name description createdBy)"
  "keeps grow_tx\<^sup>*\<^sup>* (EnsureDefaultProject clk pid orgID)"
  "keeps grow_tx\<^sup>*\<^sup>* (UpdateProject orgID pid pname pdesc visibility)"
  "keeps grow_tx\<^sup>*\<^sup>* (SetProjectArchived clk orgID pid archived)"
  "keeps grow_tx\<^sup>*\<^sup>* (RemoveProjectMember orgID pid userID)"
  "keeps grow_tx\<^sup>*\<^sup>* (CreateDepartment clk did orgID name description)"
  "keeps grow_tx\<^sup>*\<^sup>* (CreateTemplate clk tid orgID t)"
  unfolding CreateProject_def EnsureDefaultProject_def UpdateProject_def [abs_def] SetProjectArchived_def
    RemoveProjectMember_def CreateDepartment_def CreateTemplate_def
  by (intro call_rules keeps_grow_side;
      auto simp: upsert_project_def update_project_tx_def archive_tx_def remove_project_member_tx_def upsert_department_def
        upsert_template_def side_def Let_def split: if_splits option.splits)+

lemma keeps_AssignUserDepartment [grow_calls]: "keeps grow_tx\<^sup>*\<^sup>* (AssignUserDepartment orgID userID dept)"
  unfolding AssignUserDepartment_def
  by (intro keeps_grow_atomically)
    (auto simp: assign_tx_def Let_def standing_def split: if_splits intro!: g_profile [OF refl] map_upd_key)

lemma keeps_budgets [grow_calls]:
  "keeps grow_tx\<^sup>*\<^sup>* (SetBudget bid orgID scopeType scopeID amount)"
  "keeps grow_tx\<^sup>*\<^sup>* (DeleteBudget orgID bid)"
  unfolding SetBudget_def DeleteBudget_def
  by (intro keeps_grow_side keeps_grow_modify;
      auto simp: set_budget_tx_def side_def Let_def split: if_splits option.splits)+

lemma zero_on_error_query_db: "zero_on_error (query f) s = (n, t) \<Longrightarrow> s_db t = s_db s"
  using query_db [of f s] by (auto simp: zero_on_error_def split: prod.splits sum.splits)

lemma keeps_CreateReservation [grow_calls]: "keeps grow_tx\<^sup>*\<^sup>* (CreateReservation clk rid orgID userID req)"
  unfolding keeps_def
proof
  fix s
  obtain tot s1 where t: "totalGPUs orgID (rq_GPUModel req) s = (tot, s1)" by fastforce
  obtain a s2 where p: "peakReserved orgID (rq_GPUModel req) (rq_StartAt req) (rq_EndAt req) None s1 = (a, s2)" by fastforce
  have db: "s_db s2 = s_db s" using t p zero_on_error_query_db unfolding totalGPUs_def peakReserved_def by metis
  have "keeps grow_tx\<^sup>*\<^sup>* (andThen (atomically (insert_reservation r)) (\<lambda>r. Pair (Inr (r, x))))" for r and x :: string
    by (intro call_rules keeps_grow_side) (auto simp: insert_reservation_def side_def split: if_splits)
  then have "grow_tx\<^sup>*\<^sup>* (s_db s) (s_db (snd (andThen (atomically (insert_reservation r)) (\<lambda>r. Pair (Inr (r, x))) s2)))"
    for r and x :: string
    unfolding keeps_def db [symmetric] by blast
  then show "grow_tx\<^sup>*\<^sup>* (s_db s) (s_db (snd (CreateReservation clk rid orgID userID req s)))"
    by (simp add: CreateReservation_def t p db)
qed

lemma keeps_ops [grow_calls]:
  "keeps grow_tx\<^sup>*\<^sup>* (CancelReservation orgID rid)"
  "keeps grow_tx\<^sup>*\<^sup>* (CreateRule clk rid orgID typ threshold scopeID severity)"
  "keeps grow_tx\<^sup>*\<^sup>* (SetRuleEnabled orgID rid enabled)"
  "keeps grow_tx\<^sup>*\<^sup>* (DeleteRule orgID rid)"
  "keeps grow_tx\<^sup>*\<^sup>* (AcknowledgeAlert orgID aid)"
  unfolding CancelReservation_def CreateRule_def [abs_def] SetRuleEnabled_def DeleteRule_def AcknowledgeAlert_def
  by (intro call_rules keeps_grow_side keeps_grow_modify; auto simp: side_def split: if_splits)+

lemma keeps_raiseAlert: "keeps grow_tx\<^sup>*\<^sup>* (raiseAlert clk aid orgID ruleID severity what key)"
  unfolding raiseAlert_def by (intro keeps_grow_side) (auto simp: raise_tx_def side_def split: if_splits)

lemma keeps_raise_findings: "keeps grow_tx\<^sup>*\<^sup>* (raise_findings clk newID r fs n)"
proof (induction fs arbitrary: n)
  case (Cons f fs)
  obtain what key where f: "f = (what, key)" by (cases f)
  show ?case unfolding keeps_def
  proof
    fix s
    obtain x s1 where x: "raiseAlert clk (newID (arl_OrgID r) key) (arl_OrgID r) (arl_ID r) (arl_Severity r) what key s = (x, s1)"
      by fastforce
    have "grow_tx\<^sup>*\<^sup>* (s_db s) (s_db s1)" using keeps_raiseAlert x by (rule keepsD)
    then show "grow_tx\<^sup>*\<^sup>* (s_db s) (s_db (snd (raise_findings clk newID r (f # fs) n s)))"
      using grow.keeps_then Cons by (auto simp: f x split: sum.split)
  qed
qed (simp add: keeps_def)

lemma keeps_evaluate_rules: "keeps grow_tx\<^sup>*\<^sup>* (evaluate_rules clk newID rs n)"
proof (induction rs arbitrary: n)
  case (Cons r rs)
  show ?case unfolding keeps_def
  proof
    fix s
    obtain fs s1 where fs: "rule_findings clk r s = (fs, s1)" by fastforce
    obtain m s2 where m: "raise_findings clk newID r fs n s1 = (m, s2)" by fastforce
    have "grow_tx\<^sup>*\<^sup>* (s_db s) (s_db s2)"
      using keepsD [OF keeps_raise_findings m] rule_findings_eq_db [OF fs] by simp
    then show "grow_tx\<^sup>*\<^sup>* (s_db s) (s_db (snd (evaluate_rules clk newID (r # rs) n s)))"
      using grow.keeps_then [OF _ Cons] by (simp add: fs m)
  qed
qed (simp add: keeps_def)

lemma keeps_EvaluateAll [grow_calls]: "keeps grow_tx\<^sup>*\<^sup>* (EvaluateAll clk newID)"
proof -
  have "keeps grow_tx\<^sup>*\<^sup>* (\<lambda>s. case evaluate_rules clk newID rs 0 s of (n, s2) \<Rightarrow> (Inr n, s2))" for rs
    using keeps_evaluate_rules [of clk newID rs 0] by (simp add: keeps_def case_prod_beta)
  then show ?thesis unfolding EvaluateAll_def by (intro grow_rules)
qed

text \<open>
  The bootstrap is the one call whose second transaction relies on its first: the membership row is
  that of the user just inserted.
\<close>

lemma keeps_bootstrap:
  "keeps grow_tx\<^sup>*\<^sup>* (andThen (atomically (bootstrap_user clk fr orgID email hash)) (\<lambda>made.
     case made of None \<Rightarrow> Pair (Inr ()) | Some i \<Rightarrow> atomically (bootstrap_member clk fr orgID i)))"
  unfolding keeps_def
proof
  fix s
  obtain r s1 where r: "atomically (bootstrap_user clk fr orgID email hash) s = (r, s1)" by fastforce
  have one: "grow_tx\<^sup>*\<^sup>* (s_db s) (s_db s1)"
    by (rule keepsD [OF keeps_grow_atomically r]) (rule g_bootstrap)
  show "grow_tx\<^sup>*\<^sup>* (s_db s) (s_db (snd (andThen (atomically (bootstrap_user clk fr orgID email hash)) (\<lambda>made.
     case made of None \<Rightarrow> Pair (Inr ()) | Some i \<Rightarrow> atomically (bootstrap_member clk fr orgID i)) s)))"
  proof (cases "\<exists>i. r = Inr (Some i)")
    case True
    then obtain i where i: "r = Inr (Some i)" by blast
    have b: "bootstrap_user clk fr orgID email hash (s_db s) = Inr (Some i, s_db s1)" using r i by (auto dest: atomically_Inr)
    have "\<exists>v \<in> set (users (s_db s1)). standing v = (i, Some orgID, RoleOwner)"
      using b by (auto simp: bootstrap_user_def bindE_Inr_iff standing_def new_user_def dest!: put_users_Inr split: if_splits)
    then obtain v where v: "v \<in> set (users (s_db s1))" "standing v = (i, Some orgID, RoleOwner)" by blast
    have "grow_tx\<^sup>*\<^sup>* (s_db s1) (s_db (snd (atomically (bootstrap_member clk fr orgID i) s1)))"
      by (cases rule: atomically_cases [of "bootstrap_member clk fr orgID i" s1]) (auto intro: g_bootstrap_member [OF v])
    then show ?thesis using one by (simp add: r i)
  qed (use one in \<open>auto simp: andThen_def r split: sum.split option.split\<close>)
qed

lemma keeps_BootstrapAdmin [grow_calls]: "keeps grow_tx\<^sup>*\<^sup>* (BootstrapAdmin sv clk fr spec)"
  unfolding keeps_def
proof
  fix s
  obtain r s0 where q: "query (\<lambda>d. Inr (length (users d))) s = (r, s0)" by fastforce
  obtain email password where sp: "split_colon [] spec = (email, password)" by fastforce
  have db: "s_db s0 = s_db s" using q query_db by (metis snd_conv)
  have "keeps grow_tx\<^sup>*\<^sup>* (andThen (query g) (\<lambda>orgID. case id_bcrypt sv password of Inl e \<Rightarrow> Pair (Inl e)
      | Inr hash \<Rightarrow> andThen (atomically (bootstrap_user clk fr orgID email hash)) (\<lambda>made.
          case made of None \<Rightarrow> Pair (Inr ()) | Some i \<Rightarrow> atomically (bootstrap_member clk fr orgID i))))" for g
    by (intro grow_rules keeps_sum keeps_bootstrap)
  then show "grow_tx\<^sup>*\<^sup>* (s_db s) (s_db (snd (BootstrapAdmin sv clk fr spec s)))"
    by (simp add: BootstrapAdmin_def q sp Let_def keeps_def flip: db)
qed

section \<open>The last owner\<close>

lemma ownerCount_append: "ownerCount orgID d \<le> affected (\<lambda>m. m_OrgID m = orgID \<and> m_Role m = RoleOwner) (organization_members d @ ms)"
  by (simp add: ownerCount_def affected_def)

lemma grown_owners: "grown d d' \<Longrightarrow> ownerCount orgID d \<le> ownerCount orgID d'"
  using ownerCount_append by (auto simp: grown_def ownerCount_def)

lemma grow_run: "grow_tx\<^sup>*\<^sup>* d d' \<Longrightarrow> member_inv d \<Longrightarrow> member_inv d' \<and> ownerCount orgID d \<le> ownerCount orgID d'"
proof (induction rule: rtranclp_induct)
  case (step e f)
  then have "grown e f" using grow_tx_grown by blast
  then show ?case using step grown_owners [of e f orgID] by (auto simp: grown_def)
qed simp

text \<open>Taking one membership or role away costs an organisation at most one owner.\<close>

lemma affected_del_key:
  assumes "distinct (map k xs)"
  shows "affected P xs \<le> Suc (affected P (del (\<lambda>x. Q x \<and> k x = i) xs))"
  using assms
proof (induction xs)
  case (Cons x xs)
  show ?case
  proof (cases "k x = i")
    case True
    moreover have "k x \<notin> k ` set xs" using Cons.prems by simp
    ultimately have "\<not> (Q y \<and> k y = i)" if "y \<in> set xs" for y using that by (metis image_eqI)
    then have "del (\<lambda>x. Q x \<and> k x = i) xs = xs" by (simp add: del_def)
    then show ?thesis by (simp add: affected_def del_def)
  next
    case False
    then show ?thesis using Cons by (auto simp: affected_def del_def)
  qed
qed (simp add: affected_def)

lemma affected_upd_key:
  assumes "distinct (map k xs)"
  shows "affected P xs \<le> Suc (affected P (upd (\<lambda>x. Q x \<and> k x = i) f xs))"
  using assms
proof (induction xs)
  case (Cons x xs)
  show ?case
  proof (cases "k x = i")
    case True
    moreover have "k x \<notin> k ` set xs" using Cons.prems by simp
    ultimately have "\<not> (Q y \<and> k y = i)" if "y \<in> set xs" for y using that by (metis image_eqI)
    then have "upd (\<lambda>x. Q x \<and> k x = i) f xs = xs" by (rule upd_id)
    then show ?thesis by (auto simp: affected_def)
  next
    case False
    then show ?thesis using Cons by (auto simp: affected_def)
  qed
qed (simp add: affected_def)

lemma memberRole_owner:
  assumes "member_inv d" and "memberRole k i d = Inr r" and "r \<noteq> RoleOwner" and "m \<in> set (organization_members d)"
    and "m_UserID m = i" and "m_OrgID m = k"
  shows "m_Role m \<noteq> RoleOwner"
proof -
  obtain q where q: "find (\<lambda>m. m_OrgID m = k \<and> m_UserID m = i) (organization_members d) = Some q" "m_Role q = r"
    using assms(2) by (auto simp: memberRole_def split: option.splits)
  note f = find_SomeD [OF q(1)]
  have "q = m" using distinct_key_unique [of m_UserID "organization_members d" q m] assms f
    by (simp add: member_inv_def members_ok_def)
  then show ?thesis using q(2) assms(3) by simp
qed

lemma owners_set_role:
  assumes "member_inv d"
  shows "ownerCount orgID d \<le> Suc (ownerCount orgID (set_role k i r d))"
    and "r = RoleOwner \<Longrightarrow> ownerCount orgID d \<le> ownerCount orgID (set_role k i r d)"
    and "memberRole k i d = Inr c \<Longrightarrow> c \<noteq> RoleOwner \<Longrightarrow> ownerCount orgID d \<le> ownerCount orgID (set_role k i r d)"
    and "orgID \<noteq> k \<Longrightarrow> ownerCount orgID d \<le> ownerCount orgID (set_role k i r d)"
    and "memberRole k i d = Inr c \<Longrightarrow> 0 < ownerCount k (set_role k i RoleOwner d)"
proof -
  let ?P = "\<lambda>m. m_OrgID m = orgID \<and> m_Role m = RoleOwner" and ?ms = "organization_members d"
  let ?h = "\<lambda>m. m_OrgID m = k \<and> m_UserID m = i"
  have ds: "distinct (map m_UserID ?ms)" using assms by (simp add: member_inv_def members_ok_def)
  show "ownerCount orgID d \<le> Suc (ownerCount orgID (set_role k i r d))"
    using affected_upd_key [OF ds, of ?P "\<lambda>m. m_OrgID m = k" i "\<lambda>m. m\<lparr>m_Role := r\<rparr>"]
    by (simp add: ownerCount_def set_role_def)
  have mono: "affected ?P xs \<le> affected ?P (upd ?h (\<lambda>m. m\<lparr>m_Role := r\<rparr>) xs)"
    if "\<And>m. m \<in> set xs \<Longrightarrow> ?h m \<Longrightarrow> ?P m \<Longrightarrow> r = RoleOwner" for xs
    using that by (induction xs) (auto simp: affected_def)
  show "r = RoleOwner \<Longrightarrow> ownerCount orgID d \<le> ownerCount orgID (set_role k i r d)"
    using mono [of ?ms] by (simp add: ownerCount_def set_role_def)
  show "memberRole k i d = Inr c \<Longrightarrow> c \<noteq> RoleOwner \<Longrightarrow> ownerCount orgID d \<le> ownerCount orgID (set_role k i r d)"
    using mono [of ?ms] memberRole_owner [OF assms] by (auto simp: ownerCount_def set_role_def)
  show "orgID \<noteq> k \<Longrightarrow> ownerCount orgID d \<le> ownerCount orgID (set_role k i r d)"
    using mono [of ?ms] by (auto simp: ownerCount_def set_role_def)
  show "0 < ownerCount k (set_role k i RoleOwner d)" if c: "memberRole k i d = Inr c"
  proof -
    obtain q where "find ?h ?ms = Some q" using c by (auto simp: memberRole_def split: option.splits)
    then have q: "q \<in> set ?ms" "?h q" using find_SomeD by fastforce+
    have "q\<lparr>m_Role := RoleOwner\<rparr> \<in> set (upd ?h (\<lambda>m. m\<lparr>m_Role := RoleOwner\<rparr>) ?ms)"
      using in_set_updI [OF q(1), of ?h "\<lambda>m. m\<lparr>m_Role := RoleOwner\<rparr>"] q(2) by simp
    then show ?thesis unfolding ownerCount_def set_role_def by (simp add: affected_pos) (rule bexI, use q(2) in simp_all)
  qed
qed

lemma owners_detach:
  assumes "member_inv d" and "detach_member k i d = Inr (x, d')"
  shows "ownerCount orgID d \<le> Suc (ownerCount orgID d')"
    and "memberRole k i d = Inr c \<Longrightarrow> c \<noteq> RoleOwner \<Longrightarrow> ownerCount orgID d \<le> ownerCount orgID d'"
    and "orgID \<noteq> k \<Longrightarrow> ownerCount orgID d \<le> ownerCount orgID d'"
proof -
  let ?P = "\<lambda>m. m_OrgID m = orgID \<and> m_Role m = RoleOwner" and ?h = "\<lambda>m. m_OrgID m = k \<and> m_UserID m = i"
  have ds: "distinct (map m_UserID (organization_members d))" using assms(1) by (simp add: member_inv_def members_ok_def)
  have d': "organization_members d' = del ?h (organization_members d)"
    using assms(2) unfolding detach_member_def by (auto dest!: put_users_Inr)
  show "ownerCount orgID d \<le> Suc (ownerCount orgID d')"
    using affected_del_key [OF ds, of ?P "\<lambda>m. m_OrgID m = k" i] by (simp add: ownerCount_def d')
  have mono: "affected ?P xs \<le> affected ?P (del ?h xs)" if "\<And>m. m \<in> set xs \<Longrightarrow> ?h m \<Longrightarrow> \<not> ?P m" for xs
    using that by (induction xs) (auto simp: affected_def del_def)
  show "memberRole k i d = Inr c \<Longrightarrow> c \<noteq> RoleOwner \<Longrightarrow> ownerCount orgID d \<le> ownerCount orgID d'"
    using mono [of "organization_members d"] memberRole_owner [OF assms(1)] by (auto simp: ownerCount_def d')
  show "orgID \<noteq> k \<Longrightarrow> ownerCount orgID d \<le> ownerCount orgID d'"
    using mono [of "organization_members d"] by (auto simp: ownerCount_def d')
qed

lemma andThen_cases:
  assumes "andThen m f s = (r, t)"
  obtains e where "m s = (Inl e, t)" and "r = Inl e" | a s1 where "m s = (Inr a, s1)" and "f a s1 = (r, t)"
  using assms by (auto simp: andThen_def split: prod.splits sum.splits)

lemma query_eq_db': "query f s = (r, t) \<Longrightarrow> s_db t = s_db s"
  using query_db [of f s] by simp

lemma modify_db: "modify f s = (r, t) \<Longrightarrow> s_db t = s_db s \<or> s_db t = f (s_db s)"
  unfolding modify_def by (cases rule: atomically_cases [of "\<lambda>d. Inr ((), f d)" s]) auto

lemma atomically_db: "atomically body s = (r, t) \<Longrightarrow> s_db t = s_db s \<or> (\<exists>a. body (s_db s) = Inr (a, s_db t))"
  by (cases rule: atomically_cases [of body s]) auto

lemma owner_guard_db: "owner_guard k s = (r, t) \<Longrightarrow> s_db t = s_db s \<and> (r = Inr () \<longrightarrow> 2 \<le> ownerCount k (s_db s))"
  unfolding owner_guard_def by (elim andThen_cases) (auto dest: query_eq_db' query_Inr split: if_splits)

lemma guard_if_db:
  "(if c then owner_guard k else Pair (Inr ())) s = (r, t) \<Longrightarrow> s_db t = s_db s \<and> (r = Inr () \<longrightarrow> c \<longrightarrow> 2 \<le> ownerCount k (s_db s))"
  using owner_guard_db by (auto split: if_splits)

text \<open>What the three guarded calls can leave behind.\<close>

lemma ChangeMemberRole_db:
  assumes "ChangeMemberRole orgID actorID actorRole targetID newRole s = (r, t)"
  shows "s_db t = s_db s \<or> (\<exists>c. memberRole orgID targetID (s_db s) = Inr c \<and>
    (c = RoleOwner \<and> Normalize newRole \<noteq> RoleOwner \<longrightarrow> 2 \<le> ownerCount orgID (s_db s)) \<and>
    s_db t = set_role orgID targetID (Normalize newRole) (s_db s))"
proof (cases "\<not> role_ok (Normalize newRole) \<or> actorID = targetID")
  case False
  then have "andThen (query (memberRole orgID targetID)) (\<lambda>c.
      if (Normalize newRole = RoleOwner \<or> c = RoleOwner) \<and> actorRole \<noteq> RoleOwner then Pair (Inl ErrForbidden)
      else andThen (if c = RoleOwner \<and> Normalize newRole \<noteq> RoleOwner then owner_guard orgID else Pair (Inr ())) (\<lambda>_.
        modify (set_role orgID targetID (Normalize newRole)))) s = (r, t)"
    using assms by (simp add: ChangeMemberRole_def Let_def)
  then show ?thesis
  proof (cases rule: andThen_cases)
    case (1 e)
    then show ?thesis using query_eq_db' by blast
  next
    case (2 c s1)
    note q = query_Inr [OF 2(1)]
    show ?thesis
    proof (cases "(Normalize newRole = RoleOwner \<or> c = RoleOwner) \<and> actorRole \<noteq> RoleOwner")
      case True
      then show ?thesis using 2(2) q by auto
    next
      case False
      then have "andThen (if c = RoleOwner \<and> Normalize newRole \<noteq> RoleOwner then owner_guard orgID else Pair (Inr ())) (\<lambda>_.
        modify (set_role orgID targetID (Normalize newRole))) s1 = (r, t)" using 2(2) by (simp only: if_False)
      then show ?thesis using q by (elim andThen_cases) (auto dest!: guard_if_db modify_db)
    qed
  qed
qed (use assms in \<open>auto simp: ChangeMemberRole_def Let_def split: if_splits\<close>)

lemma RemoveMember_db:
  assumes "RemoveMember clk orgID actorID actorRole targetID s = (r, t)"
  shows "s_db t = s_db s \<or> (\<exists>c x. memberRole orgID targetID (s_db s) = Inr c \<and>
    (c = RoleOwner \<longrightarrow> 2 \<le> ownerCount orgID (s_db s)) \<and> remove_tx clk orgID targetID (s_db s) = Inr (x, s_db t))"
proof (cases "actorID = targetID")
  case False
  then have "andThen (query (memberRole orgID targetID)) (\<lambda>c.
      if c = RoleOwner \<and> actorRole \<noteq> RoleOwner then Pair (Inl ErrForbidden)
      else andThen (if c = RoleOwner then owner_guard orgID else Pair (Inr ())) (\<lambda>_.
        atomically (remove_tx clk orgID targetID))) s = (r, t)"
    using assms by (simp add: RemoveMember_def)
  then show ?thesis
  proof (cases rule: andThen_cases)
    case (1 e)
    then show ?thesis using query_eq_db' by blast
  next
    case (2 c s1)
    note q = query_Inr [OF 2(1)]
    show ?thesis
    proof (cases "c = RoleOwner \<and> actorRole \<noteq> RoleOwner")
      case True
      then show ?thesis using 2(2) q by auto
    next
      case False
      then have "andThen (if c = RoleOwner then owner_guard orgID else Pair (Inr ())) (\<lambda>_.
        atomically (remove_tx clk orgID targetID)) s1 = (r, t)" using 2(2) by (simp only: if_False)
      then show ?thesis using q by (elim andThen_cases) (auto dest!: guard_if_db atomically_db)
    qed
  qed
qed (use assms in \<open>simp add: RemoveMember_def\<close>)

lemma LeaveOrg_db:
  assumes "LeaveOrg sv clk orgID userID role ex s = (r, t)"
  shows "s_db t = s_db s \<or> (\<exists>v. (role = RoleOwner \<longrightarrow> 2 \<le> ownerCount orgID (s_db s)) \<and>
    leave_tx clk orgID userID ex (s_db s) = Inr (v, s_db t))"
  using assms unfolding LeaveOrg_def
  by (elim andThen_cases) (auto dest!: guard_if_db atomically_db)

lemma TransferOwnership_db:
  assumes "TransferOwnership orgID actorID actorRole targetID s = (r, t)"
  shows "s_db t = s_db s \<or> (\<exists>c. memberRole orgID targetID (s_db s) = Inr c \<and> actorID \<noteq> targetID \<and>
    s_db t = transfer orgID actorID targetID (s_db s))"
proof (cases "Normalize actorRole \<noteq> RoleOwner \<or> actorID = targetID")
  case False
  then have "andThen (query (memberRole orgID targetID)) (\<lambda>_. modify (transfer orgID actorID targetID)) s = (r, t)"
    using assms by (simp add: TransferOwnership_def)
  then show ?thesis using False
    by (elim andThen_cases) (auto dest!: query_Inr modify_db dest: query_eq_db')
qed (use assms in \<open>auto simp: TransferOwnership_def split: if_splits\<close>)

section \<open>The services as a state machine\<close>

text \<open>
  One call of the identity, project or ops service. Leaving is called with the role of the caller,
  which in \<open>member_step\<close> is the role of the caller's row; \<open>id_step\<close> also has the call
  with a role that is out of date.
\<close>

inductive member_step :: "sys \<Rightarrow> sys \<Rightarrow> bool" where
  do_register: "member_step s (snd (id_Register sv clk fr orgName email name password s))"
| do_register_pending: "member_step s (snd (RegisterPending sv clk fr email name password s))"
| do_create_org: "member_step s (snd (CreateOrgForUser sv clk fr userID orgName s))"
| do_create_user: "member_step s (snd (CreateUser sv clk fr orgID email name role s))"
| do_login: "member_step s (snd (Login sv clk email password s))"
| do_google: "member_step s (snd (UpsertGoogleUser sv clk fr sub email name avatar verified s))"
| do_bootstrap: "member_step s (snd (BootstrapAdmin sv clk fr spec s))"
| do_create_session: "member_step s (snd (CreateSession sv clk sid rnd userID dev s))"
| do_refresh: "member_step s (snd (RefreshSession sv clk rnd raw dev s))"
| do_revoke_session: "member_step s (snd (RevokeSession clk userID sid s))"
| do_revoke_all: "member_step s (snd (RevokeAllSessions clk userID ex s))"
| do_logout: "member_step s (snd (RevokeSessionByRefresh sv clk raw s))"
| do_request_verification: "member_step s (snd (RequestEmailVerification sv clk tid rnd userID s))"
| do_verify: "member_step s (snd (ConfirmEmailVerification sv clk raw s))"
| do_request_reset: "member_step s (snd (RequestPasswordReset sv clk tid rnd email s))"
| do_reset: "member_step s (snd (ConfirmPasswordReset sv clk raw newPassword s))"
| do_change_role: "member_step s (snd (ChangeMemberRole orgID actorID actorRole targetID newRole s))"
| do_remove_member: "member_step s (snd (RemoveMember clk orgID actorID actorRole targetID s))"
| do_leave: "v \<in> set (users (s_db s)) \<Longrightarrow> standing v = (userID, Some orgID, role) \<Longrightarrow>
    member_step s (snd (LeaveOrg sv clk orgID userID role ex s))"
| do_transfer: "member_step s (snd (TransferOwnership orgID actorID actorRole targetID s))"
| do_invite: "member_step s (snd (CreateInvitation sv clk iid rnd orgID invitedBy email role s))"
| do_revoke_invite: "member_step s (snd (RevokeInvitation clk orgID iid s))"
| do_resend_invite: "member_step s (snd (ResendInvitation sv clk rnd orgID iid s))"
| do_invite_delivery: "member_step s (snd (UpdateInvitationDelivery clk iid status errMsg s))"
| do_accept: "member_step s (snd (AcceptInvitation sv clk mid userID raw s))"
| do_create_code: "member_step s (snd (CreateJoinCode sv clk cid rnd orgID createdBy desc ttl maxUses s))"
| do_revoke_code: "member_step s (snd (RevokeJoinCode clk orgID cid s))"
| do_join: "member_step s (snd (JoinViaCode sv clk mid userID raw s))"
| do_create_account: "member_step s (snd (CreateServiceAccount clk aid orgID createdBy name description role s))"
| do_disable_account: "member_step s (snd (SetServiceAccountDisabled clk orgID aid disabled s))"
| do_create_key: "member_step s (snd (CreateAPIKey sv clk kid rnd orgID req s))"
| do_revoke_key: "member_step s (snd (RevokeAPIKey clk orgID kid owner s))"
| do_use_key: "member_step s (snd (AuthenticateAPIKey sv clk raw s))"
| do_create_project: "member_step s (snd (CreateProject clk pid orgID name description createdBy s))"
| do_default_project: "member_step s (snd (EnsureDefaultProject clk pid orgID s))"
| do_update_project: "member_step s (snd (UpdateProject orgID pid pname pdesc visibility s))"
| do_archive: "member_step s (snd (SetProjectArchived clk orgID pid archived s))"
| do_add_project_member: "member_step s (snd (AddProjectMember clk orgID pid userID addedBy s))"
| do_remove_project_member: "member_step s (snd (RemoveProjectMember orgID pid userID s))"
| do_create_department: "member_step s (snd (CreateDepartment clk did orgID name description s))"
| do_assign_department: "member_step s (snd (AssignUserDepartment orgID userID dept s))"
| do_create_template: "member_step s (snd (CreateTemplate clk tid orgID tpl s))"
| do_set_budget: "member_step s (snd (SetBudget bid orgID scopeType scopeID amount s))"
| do_delete_budget: "member_step s (snd (DeleteBudget orgID bid s))"
| do_reserve: "member_step s (snd (CreateReservation clk rid orgID userID rq s))"
| do_cancel_reservation: "member_step s (snd (CancelReservation orgID rid s))"
| do_create_rule: "member_step s (snd (CreateRule clk rid orgID typ threshold scopeID severity s))"
| do_enable_rule: "member_step s (snd (SetRuleEnabled orgID rid enabled s))"
| do_delete_rule: "member_step s (snd (DeleteRule orgID rid s))"
| do_ack_alert: "member_step s (snd (AcknowledgeAlert orgID aid s))"
| do_evaluate: "member_step s (snd (EvaluateAll clk newID s))"

inductive id_step :: "sys \<Rightarrow> sys \<Rightarrow> bool" where
  as_member: "member_step s t \<Longrightarrow> id_step s t"
| do_leave_stale: "id_step s (snd (LeaveOrg sv clk orgID userID role ex s))"

lemma guarded_calls:
  "id_tx\<^sup>*\<^sup>* (s_db s) (s_db (snd (ChangeMemberRole orgID actorID actorRole targetID newRole s)))"
  "id_tx\<^sup>*\<^sup>* (s_db s) (s_db (snd (RemoveMember clk orgID actorID actorRole targetID s)))"
  "id_tx\<^sup>*\<^sup>* (s_db s) (s_db (snd (LeaveOrg sv clk orgID userID role ex s)))"
  "id_tx\<^sup>*\<^sup>* (s_db s) (s_db (snd (TransferOwnership orgID actorID actorRole targetID s)))"
  using ChangeMemberRole_db [OF surjective_pairing, of orgID actorID actorRole targetID newRole s]
    RemoveMember_db [OF surjective_pairing, of clk orgID actorID actorRole targetID s]
    LeaveOrg_db [OF surjective_pairing, of sv clk orgID userID role ex s]
    TransferOwnership_db [OF surjective_pairing, of orgID actorID actorRole targetID s]
  by (auto intro: i_set_role i_remove i_leave i_transfer)

lemma grow_id: "grow_tx\<^sup>*\<^sup>* d d' \<Longrightarrow> id_tx\<^sup>*\<^sup>* d d'"
  by (induction rule: rtranclp_induct) (auto intro: i_grow rtranclp.rtrancl_into_rtrancl)

lemma grow_called: "t = snd (m s) \<Longrightarrow> keeps grow_tx\<^sup>*\<^sup>* m \<Longrightarrow> grow_tx\<^sup>*\<^sup>* (s_db s) (s_db t)"
  by (simp add: keeps_def)

lemma member_step_kinds:
  assumes "member_step s t"
  obtains (grow) "grow_tx\<^sup>*\<^sup>* (s_db s) (s_db t)"
  | (change) orgID actorID actorRole targetID newRole where "t = snd (ChangeMemberRole orgID actorID actorRole targetID newRole s)"
  | (remove) clk orgID actorID actorRole targetID where "t = snd (RemoveMember clk orgID actorID actorRole targetID s)"
  | (leave) sv clk orgID userID role ex v where "t = snd (LeaveOrg sv clk orgID userID role ex s)"
      and "v \<in> set (users (s_db s))" and "standing v = (userID, Some orgID, role)"
  | (transfer) orgID actorID actorRole targetID where "t = snd (TransferOwnership orgID actorID actorRole targetID s)"
  using assms
proof cases
  case do_change_role
  then show ?thesis by (rule change)
next
  case do_remove_member
  then show ?thesis by (rule remove)
next
  case do_leave
  then show ?thesis by (rule leave)
next
  case do_transfer
  then show ?thesis by (rule transfer)
qed (rule grow, erule grow_called, rule grow_calls)+

lemma id_step_runs: "id_step s t \<Longrightarrow> id_tx\<^sup>*\<^sup>* (s_db s) (s_db t)"
proof (induction rule: id_step.induct)
  case (as_member s t)
  then show ?case by (cases rule: member_step_kinds) (auto intro: grow_id guarded_calls)
qed (rule guarded_calls)

section \<open>An organisation keeps an owner\<close>

lemma memberRole_set_role:
  assumes "i \<noteq> j"
  shows "memberRole k j (set_role k' i r d) = memberRole k j d"
proof -
  have "find (\<lambda>m. m_OrgID m = k \<and> m_UserID m = j) (upd (\<lambda>m. m_OrgID m = k' \<and> m_UserID m = i) (\<lambda>m. m\<lparr>m_Role := r\<rparr>) ms) =
      find (\<lambda>m. m_OrgID m = k \<and> m_UserID m = j) ms" for ms :: "Member list"
    using assms by (induction ms) auto
  then show ?thesis by (simp add: memberRole_def set_role_def)
qed

lemma member_inv_tx: "member_inv d \<Longrightarrow> member_inv (set_role k i r d)" "member_inv d \<Longrightarrow> member_inv (transfer k i j d)"
  using id_tx_member i_set_role i_transfer by blast+

lemma transfer_owners:
  assumes inv: "member_inv d" and "memberRole k j d = Inr c" and "i \<noteq> j" and "0 < ownerCount orgID d"
  shows "0 < ownerCount orgID (transfer k i j d)"
proof (cases "orgID = k")
  case True
  then show ?thesis unfolding transfer_def
    using owners_set_role(5) [OF member_inv_tx(1) [OF inv]] assms(2,3) memberRole_set_role by metis
next
  case False
  then show ?thesis unfolding transfer_def
    using owners_set_role(4) [OF inv, of orgID k i RoleAdmin] owners_set_role(4) [OF member_inv_tx(1) [OF inv], of orgID k] assms(4)
    by (meson less_le_trans)
qed

lemma guarded_owners:
  assumes inv: "member_inv d" and det: "detach_member k i d = Inr (x, d')" and pos: "0 < ownerCount orgID d"
    and guard: "\<And>m. m \<in> set (organization_members d) \<Longrightarrow> m_OrgID m = k \<Longrightarrow> m_UserID m = i \<Longrightarrow> m_Role m = RoleOwner \<Longrightarrow>
      2 \<le> ownerCount k d"
  shows "0 < ownerCount orgID d'"
proof (cases "memberRole k i d")
  case (Inl e)
  then have "\<forall>m \<in> set (organization_members d). \<not> (m_OrgID m = k \<and> m_UserID m = i)"
    by (auto simp: memberRole_def find_None_set split: option.splits)
  moreover have "organization_members d' = del (\<lambda>m. m_OrgID m = k \<and> m_UserID m = i) (organization_members d)"
    using det unfolding detach_member_def by (auto dest!: put_users_Inr)
  ultimately have "organization_members d' = organization_members d" by (simp add: del_def)
  then show ?thesis using pos by (simp add: ownerCount_def)
next
  case (Inr c)
  show ?thesis
  proof (cases "c = RoleOwner \<and> orgID = k")
    case True
    obtain q where q: "find (\<lambda>m. m_OrgID m = k \<and> m_UserID m = i) (organization_members d) = Some q" "m_Role q = RoleOwner"
      using Inr True by (auto simp: memberRole_def split: option.splits)
    have "2 \<le> ownerCount k d" using guard [of q] find_SomeD [OF q(1)] q(2) by simp
    then show ?thesis using owners_detach(1) [OF inv det, of orgID] True by simp
  next
    case False
    then show ?thesis using owners_detach(2) [OF inv det Inr, of orgID] owners_detach(3) [OF inv det, of orgID] pos
      by (cases "orgID = k") auto
  qed
qed

lemma owners_revoke [simp]: "ownerCount k (revoke_sessions now P d) = ownerCount k d"
  by (simp add: ownerCount_def revoke_sessions_def)

lemma memberRole_unique:
  assumes "member_inv d" and "memberRole k i d = Inr c" and "m \<in> set (organization_members d)" and "m_OrgID m = k" and "m_UserID m = i"
  shows "m_Role m = c"
proof -
  obtain q where q: "find (\<lambda>m. m_OrgID m = k \<and> m_UserID m = i) (organization_members d) = Some q" "m_Role q = c"
    using assms(2) by (auto simp: memberRole_def split: option.splits)
  have "q = m" using distinct_key_unique [of m_UserID "organization_members d" q m] assms find_SomeD [OF q(1)]
    by (simp add: member_inv_def members_ok_def)
  then show ?thesis using q(2) by simp
qed

lemma change_owners:
  assumes "member_inv (s_db s)" and "0 < ownerCount orgID (s_db s)"
  shows "0 < ownerCount orgID (s_db (snd (ChangeMemberRole k actorID actorRole i newRole s)))" (is "0 < ownerCount orgID ?d")
proof -
  consider "?d = s_db s" | c where "memberRole k i (s_db s) = Inr c"
      and "c = RoleOwner \<and> Normalize newRole \<noteq> RoleOwner \<longrightarrow> 2 \<le> ownerCount k (s_db s)"
      and "?d = set_role k i (Normalize newRole) (s_db s)"
    using ChangeMemberRole_db [OF surjective_pairing, of k actorID actorRole i newRole s] by blast
  then show ?thesis
  proof cases
    case 1
    then show ?thesis using assms(2) by simp
  next
    case (2 c)
    note o' = owners_set_role(1-4) [OF assms(1), where orgID = orgID and k = k and i = i and r = "Normalize newRole"]
    consider "orgID \<noteq> k" | "c \<noteq> RoleOwner" | "Normalize newRole = RoleOwner" | "orgID = k" "2 \<le> ownerCount k (s_db s)"
      using 2(2) by blast
    then show ?thesis unfolding 2(3) using o'(1) o'(2) o'(3) [OF 2(1)] o'(4) assms(2) by cases (meson less_le_trans, meson less_le_trans, meson less_le_trans, simp)
  qed
qed

lemma remove_owners:
  assumes "member_inv (s_db s)" and "0 < ownerCount orgID (s_db s)"
  shows "0 < ownerCount orgID (s_db (snd (RemoveMember clk k actorID actorRole i s)))" (is "0 < ownerCount orgID ?d")
proof -
  consider "?d = s_db s" | c x where "memberRole k i (s_db s) = Inr c" and "c = RoleOwner \<longrightarrow> 2 \<le> ownerCount k (s_db s)"
      and "remove_tx clk k i (s_db s) = Inr (x, ?d)"
    using RemoveMember_db [OF surjective_pairing, of clk k actorID actorRole i s] by blast
  then show ?thesis
  proof cases
    case 1
    then show ?thesis using assms(2) by simp
  next
    case (2 c x)
    obtain d1 where d1: "detach_member k i (s_db s) = Inr ((), d1)" "?d = revoke_sessions (db_now clk) (\<lambda>r. ss_UserID r = i) d1"
      using 2(3) by (auto simp: remove_tx_def bindE_Inr_iff)
    show ?thesis unfolding d1(2) owners_revoke
      by (rule guarded_owners [OF assms(1) d1(1) assms(2)]) (use 2(2) memberRole_unique [OF assms(1) 2(1)] in blast)
  qed
qed

lemma leave_owners:
  assumes "member_inv (s_db s)" and "0 < ownerCount orgID (s_db s)"
    and v: "v \<in> set (users (s_db s))" "standing v = (i, Some k, role)"
  shows "0 < ownerCount orgID (s_db (snd (LeaveOrg sv clk k i role ex s)))" (is "0 < ownerCount orgID ?d")
proof -
  consider "?d = s_db s" | w where "role = RoleOwner \<longrightarrow> 2 \<le> ownerCount k (s_db s)" and "leave_tx clk k i ex (s_db s) = Inr (w, ?d)"
    using LeaveOrg_db [OF surjective_pairing, of sv clk k i role ex s] by blast
  then show ?thesis
  proof cases
    case 1
    then show ?thesis using assms(2) by simp
  next
    case (2 w)
    obtain d1 where d1: "detach_member k i (s_db s) = Inr ((), d1)"
      "?d = revoke_sessions (db_now clk) (\<lambda>r. ss_UserID r = i \<and> except_session ex r) d1"
      using 2(2) by (auto simp: leave_tx_def bindE_Inr_iff split: option.splits)
    show ?thesis unfolding d1(2) owners_revoke
      by (rule guarded_owners [OF assms(1) d1(1) assms(2)])
        (use 2(1) v members_ok_user(2) [OF assms(1) [unfolded member_inv_def]] in \<open>auto simp: standing_def\<close>)
  qed
qed

interpretation owners: step_system "\<lambda>d. member_inv d \<and> 0 < ownerCount orgID d" member_step for orgID
proof
  fix s t assume st: "member_step s t" and inv: "member_inv (s_db s) \<and> 0 < ownerCount orgID (s_db s)"
  have run: "id_tx\<^sup>*\<^sup>* d d' \<Longrightarrow> member_inv d \<Longrightarrow> member_inv d'" for d d'
    by (induction rule: rtranclp_induct) (auto intro: id_tx_member)
  have "member_inv (s_db t)" using run [OF id_step_runs [OF as_member [OF st]]] inv by simp
  moreover from st have "0 < ownerCount orgID (s_db t)"
  proof (cases rule: member_step_kinds)
    case grow
    then show ?thesis using grow_run [OF grow, of orgID] inv by simp
  next
    case (transfer k actorID actorRole targetID)
    then show ?thesis
      using TransferOwnership_db [OF surjective_pairing, of k actorID actorRole targetID s] inv transfer_owners
      by (metis (no_types))
  next
    case (leave sv clk k i role ex v)
    then show ?thesis using inv leave_owners by (metis (no_types))
  qed (use inv change_owners remove_owners in blast)+
  ultimately show "member_inv (s_db t) \<and> 0 < ownerCount orgID (s_db t)" by simp
qed

section \<open>The race between two owners\<close>

text \<open>
  The guard reads the number of owners before the transaction of the call, so two owners who leave
  at the same time both pass it.
\<close>

lemma owner_guard_passes: "s_faults s = [] \<Longrightarrow> 2 \<le> ownerCount k (s_db s) \<Longrightarrow> owner_guard k s = (Inr (), s)"
  by (simp add: owner_guard_def andThen_def query_no_fault)

lemma leave_tx_Inr:
  assumes "leave_tx clk k i ex d = Inr (v, d')"
  shows "organization_members d' = del (\<lambda>m. m_OrgID m = k \<and> m_UserID m = i) (organization_members d)"
    and "standing v = (i, None, RoleMember)"
    and "\<And>r. r \<in> set (user_sessions d') \<Longrightarrow> ss_UserID r = i \<Longrightarrow> Some (ss_ID r) \<noteq> ex \<Longrightarrow> ss_RevokedAt r \<noteq> None"
proof -
  obtain u d1 where u: "find (\<lambda>u. u_ID u = i \<and> u_OrgID u = Some k) (users d) = Some u"
    and v: "v = scanUserRow (u\<lparr>u_OrgID := None, u_Role := RoleMember\<rparr>)"
    and d1: "detach_member k i d = Inr ((), d1)" "d' = revoke_sessions (db_now clk) (\<lambda>r. ss_UserID r = i \<and> except_session ex r) d1"
    using assms by (auto simp: leave_tx_def bindE_Inr_iff split: option.splits)
  show "organization_members d' = del (\<lambda>m. m_OrgID m = k \<and> m_UserID m = i) (organization_members d)"
    using d1 unfolding detach_member_def by (auto simp: revoke_sessions_def dest!: put_users_Inr)
  show "standing v = (i, None, RoleMember)" using find_SomeD [OF u] by (simp add: v scanUserRow_def standing_def)
  show "ss_RevokedAt r \<noteq> None" if "r \<in> set (user_sessions d')" "ss_UserID r = i" "Some (ss_ID r) \<noteq> ex" for r
    by (rule revoke_sessions_all [OF that(1) [unfolded d1(2)]])
      (use that in \<open>auto simp: except_session_def split: option.splits\<close>)
qed

lemma leave_one_owner:
  assumes inv: "member_inv d" and "memberRole k i d = Inr RoleOwner" and "leave_tx clk k i ex d = Inr (v, d')"
  shows "Suc (ownerCount k d') = ownerCount k d"
proof -
  let ?P = "\<lambda>m. m_OrgID m = k \<and> m_Role m = RoleOwner" and ?h = "\<lambda>m. m_OrgID m = k \<and> m_UserID m = i"
  have "Suc (affected ?P (del ?h ms)) = affected ?P ms"
    if "distinct (map m_UserID ms)" "find ?h ms = Some q" "m_Role q = RoleOwner" for q and ms :: "Member list"
    using that
  proof (induction ms)
    case (Cons m ms)
    show ?case
    proof (cases "?h m")
      case True
      have "i \<notin> m_UserID ` set ms" using Cons.prems(1) True by auto
      then have "del ?h ms = ms" unfolding del_def by (intro filter_True) force
      then show ?thesis using Cons.prems True by (simp add: affected_def del_def)
    next
      case False
      then show ?thesis using Cons by (auto simp: affected_def del_def)
    qed
  qed simp
  moreover obtain q where "find ?h (organization_members d) = Some q" "m_Role q = RoleOwner"
    using assms(2) by (auto simp: memberRole_def split: option.splits)
  ultimately show ?thesis using inv leave_tx_Inr(1) [OF assms(3)]
    by (simp add: ownerCount_def member_inv_def members_ok_def)
qed

lemma memberRole_leave:
  assumes "leave_tx clk k i ex d = Inr (v, d')" and "i \<noteq> j"
  shows "memberRole k j d' = memberRole k j d"
proof -
  have "find (\<lambda>m. m_OrgID m = k \<and> m_UserID m = j) (del (\<lambda>m. m_OrgID m = k \<and> m_UserID m = i) ms) =
      find (\<lambda>m. m_OrgID m = k \<and> m_UserID m = j) ms" for ms :: "Member list"
    using assms(2) by (induction ms) (auto simp: del_def)
  then show ?thesis using leave_tx_Inr(1) [OF assms(1)] by (simp add: memberRole_def)
qed

section \<open>Invitations and join codes\<close>

lemma joinOrgTx_Inr:
  assumes "joinOrgTx clk mid i k r ib d = Inr (v, d')"
  shows "standing v = (i, Some k, Normalize r)" and "\<exists>u \<in> set (users d). u_ID u = i \<and> u_OrgID u = None"
    and "organization_invitations d' = organization_invitations d"
    and "organization_join_codes d' = organization_join_codes d"
proof -
  obtain u d1 where u: "find (\<lambda>u. u_ID u = i \<and> u_OrgID u = None) (users d) = Some u"
    and v: "v = scanUserRow (u\<lparr>u_OrgID := Some k, u_Role := Normalize r\<rparr>)"
    and d1: "\<exists>us x. put_users us d = Inr (x, d1)"
    and m: "insertMembershipTx clk mid k i (Normalize r) ib d1 = Inr ((), d')"
    using assms by (auto simp: joinOrgTx_def Let_def bindE_Inr_iff split: option.splits)
  show "standing v = (i, Some k, Normalize r)" using find_SomeD [OF u] by (simp add: v scanUserRow_def standing_def)
  show "\<exists>u \<in> set (users d). u_ID u = i \<and> u_OrgID u = None" using find_SomeD [OF u] by blast
  have "organization_invitations d1 = organization_invitations d \<and> organization_join_codes d1 = organization_join_codes d"
    using d1 by (auto dest!: put_users_Inr)
  then show "organization_invitations d' = organization_invitations d" "organization_join_codes d' = organization_join_codes d"
    using m by (auto simp: insertMembershipTx_def Let_def split: if_splits)
qed

lemma AcceptInvitation_Inr:
  assumes "AcceptInvitation sv clk mid i raw s = (Inr (tok, v), s')"
  obtains u q where "u \<in> set (users (s_db s))" and "u_ID u = i" and "active_user u" and "u_OrgID u = None"
    and "q \<in> set (organization_invitations (s_db s))" and "claimable (db_now clk) (id_sha sv raw) q"
    and "lower (TrimSpace (u_Email u)) = lower (iv_Email q)" and "standing v = (i, Some (iv_OrgID q), Normalize (iv_Role q))"
    and "organization_invitations (s_db s') = upd (claimable (db_now clk) (id_sha sv raw))
      (\<lambda>i. i\<lparr>iv_AcceptedAt := Some (db_now clk)\<rparr>) (organization_invitations (s_db s))"
proof -
  obtain u s1 s2 where q: "query (pre_onboarding i) s = (Inr u, s1)"
    and a: "atomically (accept_tx clk mid (id_sha sv raw) i (u_Email u)) s1 = (Inr v, s2)" and s': "s' = s2"
    using assms by (auto simp: AcceptInvitation_def andThen_Inr_iff)
  note q = query_Inr [OF q] and a = atomically_Inr [OF a]
  have u: "u \<in> set (users (s_db s))" "u_ID u = i" "active_user u" "u_OrgID u = None"
    using q by (auto simp: pre_onboarding_def split: option.splits if_splits dest: find_SomeD)
  obtain x where x: "find (claimable (db_now clk) (id_sha sv raw)) (organization_invitations (s_db s)) = Some x"
    and e: "lower (TrimSpace (u_Email u)) = lower (iv_Email x)"
    and j: "joinOrgTx clk mid i (iv_OrgID x) (iv_Role x) (iv_InvitedBy x)
       ((s_db s)\<lparr>organization_invitations := upd (claimable (db_now clk) (id_sha sv raw))
          (\<lambda>i. i\<lparr>iv_AcceptedAt := Some (db_now clk)\<rparr>) (organization_invitations (s_db s))\<rparr>) = Inr (v, s_db s')"
    using a q s' by (auto simp: accept_tx_def split: option.splits if_splits)
  show ?thesis by (rule that [OF u, of x]) (use find_SomeD [OF x] e joinOrgTx_Inr(1,3) [OF j] in simp_all)
qed

text \<open>An accepted invitation is spent: its link admits nobody again.\<close>

lemma invitation_once:
  assumes "AcceptInvitation sv clk mid i raw s = (Inr (tok, v), s')" and "db_now clk \<le> db_now clk'"
  shows "fst (AcceptInvitation sv clk' mid' i' raw s') \<noteq> Inr x"
proof
  assume "fst (AcceptInvitation sv clk' mid' i' raw s') = Inr x"
  then obtain tok' v' s'' where "AcceptInvitation sv clk' mid' i' raw s' = (Inr (tok', v'), s'')" by (metis prod.exhaust_sel)
  then obtain q where q: "q \<in> set (organization_invitations (s_db s'))" "claimable (db_now clk') (id_sha sv raw) q"
    by (rule AcceptInvitation_Inr) blast
  have "organization_invitations (s_db s') = upd (claimable (db_now clk) (id_sha sv raw))
      (\<lambda>i. i\<lparr>iv_AcceptedAt := Some (db_now clk)\<rparr>) (organization_invitations (s_db s))"
    using assms(1) by (rule AcceptInvitation_Inr)
  then show False using q assms(2) by (auto simp: claimable_def open_invitation_def elim!: in_set_updE)
qed

definition code_limit :: "JoinCode \<Rightarrow> int option" where
  "code_limit c = (if jc_MaxUses c = 0 then None else Some (jc_MaxUses c))"

interpretation join_codes: use_limited jc_Uses code_limit use_code
  by unfold_locales (simp_all add: use_code_def code_limit_def)

lemma JoinViaCode_Inr:
  assumes "JoinViaCode sv clk mid i raw s = (Inr (tok, v), s')"
  shows "\<exists>c \<in> set (organization_join_codes (s_db s)). usable_code (db_now clk) (id_sha sv (TrimSpace raw)) c \<and>
      standing v = (i, Some (jc_OrgID c), RoleMember)"
    and "organization_join_codes (s_db s') = upd (usable_code (db_now clk) (id_sha sv (TrimSpace raw))) use_code
      (organization_join_codes (s_db s))"
proof -
  obtain u s1 s2 where q: "query (pre_onboarding i) s = (Inr u, s1)"
    and a: "atomically (join_code_tx clk mid (id_sha sv (TrimSpace raw)) i) s1 = (Inr v, s2)" and s': "s' = s2"
    using assms by (auto simp: JoinViaCode_def Let_def andThen_Inr_iff split: if_splits)
  obtain c where c: "find (usable_code (db_now clk) (id_sha sv (TrimSpace raw))) (organization_join_codes (s_db s)) = Some c"
    and j: "joinOrgTx clk mid i (jc_OrgID c) RoleMember None ((s_db s)\<lparr>organization_join_codes :=
       upd (usable_code (db_now clk) (id_sha sv (TrimSpace raw))) use_code (organization_join_codes (s_db s))\<rparr>) = Inr (v, s_db s')"
    using atomically_Inr [OF a] query_Inr [OF q] s' by (auto simp: join_code_tx_def split: option.splits)
  show "\<exists>c \<in> set (organization_join_codes (s_db s)). usable_code (db_now clk) (id_sha sv (TrimSpace raw)) c \<and>
      standing v = (i, Some (jc_OrgID c), RoleMember)"
    using find_SomeD [OF c] joinOrgTx_Inr(1) [OF j] by (auto simp: Normalize_def)
  show "organization_join_codes (s_db s') = upd (usable_code (db_now clk) (id_sha sv (TrimSpace raw))) use_code
      (organization_join_codes (s_db s))"
    using joinOrgTx_Inr(4) [OF j] by simp
qed

lemma join_code_limit:
  assumes "JoinViaCode sv clk mid i raw s = (Inr (tok, v), s')"
  shows "within_limit jc_Uses code_limit (organization_join_codes (s_db s)) \<Longrightarrow>
      within_limit jc_Uses code_limit (organization_join_codes (s_db s'))"
    and "distinct (map jc_CodeHash (organization_join_codes (s_db s))) \<Longrightarrow>
      sum_list (map jc_Uses (organization_join_codes (s_db s'))) = sum_list (map jc_Uses (organization_join_codes (s_db s))) + 1"
proof -
  let ?P = "usable_code (db_now clk) (id_sha sv (TrimSpace raw))" and ?cs = "organization_join_codes (s_db s)"
  note j = JoinViaCode_Inr [OF assms]
  show "within_limit jc_Uses code_limit (organization_join_codes (s_db s'))" if "within_limit jc_Uses code_limit ?cs"
    unfolding j(2) using that
    by (rule join_codes.spend_within) (auto simp: usable_code_def below_limit_def code_limit_def)
  show "sum_list (map jc_Uses (organization_join_codes (s_db s'))) = sum_list (map jc_Uses ?cs) + 1"
    if ds: "distinct (map jc_CodeHash ?cs)"
  proof -
    have "(\<lambda>c. jc_CodeHash c = id_sha sv (TrimSpace raw) \<and> ?P c) = ?P" by (auto simp: usable_code_def)
    then have "affected ?P ?cs \<le> 1"
      using affected_key_le_1 [OF ds, of "id_sha sv (TrimSpace raw)" ?P] by simp
    moreover have "0 < affected ?P ?cs" using j(1) by (auto simp: affected_pos)
    ultimately show ?thesis unfolding j(2) by (intro join_codes.spent_total) simp
  qed
qed

end
