(* ===== verification/Telemetry.thy ===== *)
theory Telemetry
  imports Nodes
begin

text \<open>
  Telemetry (\<open>internal/telemetry\<close>): ingestion of GPU samples, the fleet summary, and the
  retention sweep that rolls raw samples up into hourly rows before it deletes them in batches.
\<close>

section \<open>Ingestion\<close>

record Sample =
  sa_GPUID :: uuid
  sa_NodeID :: uuid
  sa_TS :: time
  sa_UtilPct :: money
  sa_MemUsedMB :: int
  sa_PowerW :: money
  sa_TempC :: money
  sa_ECCErrors :: int
  sa_ProcCount :: int

definition metric_row :: "uuid \<Rightarrow> uuid \<Rightarrow> uuid \<Rightarrow> Sample \<Rightarrow> gpu_metric" where
  "metric_row orgID gid nid sm =
     \<lparr>gm_org = orgID, gm_gpu = gid, gm_node = nid, gm_ts = sa_TS sm, gm_util = Some (sa_UtilPct sm),
      gm_mem = Some (sa_MemUsedMB sm), gm_power = Some (sa_PowerW sm), gm_temp = Some (sa_TempC sm),
      gm_ecc = Some (sa_ECCErrors sm), gm_proc = Some (sa_ProcCount sm)\<rparr>"

text \<open>The GPUs are looked up first; a sample of an unknown GPU is skipped.\<close>

definition ingest_tx :: "uuid \<Rightarrow> (uuid \<times> uuid) list \<Rightarrow> Sample list \<Rightarrow> db \<Rightarrow> err + unit \<times> db" where
  "ingest_tx orgID known samples d =
     Inr ((), d\<lparr>gpu_metrics := gpu_metrics d @
       List.map_filter (\<lambda>sm. map_option (\<lambda>nid. metric_row orgID (sa_GPUID sm) nid sm)
                               (map_of known (sa_GPUID sm))) samples\<rparr>)"

definition Ingest :: "uuid \<Rightarrow> Sample list \<Rightarrow> sys \<Rightarrow> (err + unit) \<times> sys" where
  "Ingest orgID samples s =
     (if samples = [] then (Inr (), s)
      else case atomically (\<lambda>d. Inr (map (\<lambda>g. (g_ID g, g_NodeID g))
               (filter (\<lambda>g. g_ID g \<in> set (map sa_GPUID samples)) (gpus d)), d)) s of
             (Inl e, s1) \<Rightarrow> (Inl e, s1)
           | (Inr known, s1) \<Rightarrow> atomically (ingest_tx orgID known samples) s1)"

record Summary =
  su_GPUTotal :: nat
  su_GPUsIdle :: nat
  su_AvgUtilPct :: money
  su_IdleCost24h :: money
  su_WorkloadsActive :: nat

definition FleetSummary :: "time \<Rightarrow> uuid \<Rightarrow> db \<Rightarrow> Summary" where
  "FleetSummary now orgID d =
     \<lparr>su_GPUTotal = affected (\<lambda>g. g_OrgID g = orgID) (gpus d),
      su_GPUsIdle = affected (\<lambda>g. g_OrgID g = orgID \<and> g_Status g = GPUIdle) (gpus d),
      su_AvgUtilPct = mean (List.map_filter gm_util
        (filter (\<lambda>m. gm_org m = orgID \<and> gm_ts m > now - 10 * minute) (gpu_metrics d))),
      su_IdleCost24h = sum_list (map (\<lambda>(g, r). rc_RatePerGPUHour r * 24)
        (filter (\<lambda>(g, r). g_OrgID g = orgID \<and> g_Status g = GPUIdle \<and> rc_OrgID r = g_OrgID g \<and>
           rc_GPUModel r = g_Model g \<and> rc_EffectiveTo r = None) (List.product (gpus d) (rate_cards d)))),
      su_WorkloadsActive = affected (\<lambda>w. w_OrgID w = orgID \<and>
        (w_Status w = WorkloadPending \<or> w_Status w = WorkloadRunning)) (workloads d)\<rparr>"

section \<open>Retention\<close>

record RetentionPolicy =
  rp_RawMetrics :: duration
  rp_RollupMetrics :: duration
  rp_Heartbeats :: duration
  rp_Events :: duration

definition DefaultRetention :: RetentionPolicy where
  "DefaultRetention = \<lparr>rp_RawMetrics = 14 * 24 * hour, rp_RollupMetrics = 365 * 24 * hour,
     rp_Heartbeats = 7 * 24 * hour, rp_Events = 90 * 24 * hour\<rparr>"

definition trunc_hour :: "time \<Rightarrow> time" where
  "trunc_hour t = t div hour * hour"

definition avg_opt :: "money option list \<Rightarrow> money option" where
  "avg_opt xs = (let ys = List.map_filter id xs in if ys = [] then None else Some (sum_list ys / of_nat (length ys)))"

definition max_opt :: "'a::linorder option list \<Rightarrow> 'a option" where
  "max_opt xs = (case List.map_filter id xs of [] \<Rightarrow> None | y # ys \<Rightarrow> Some (fold max ys y))"

definition hour_row :: "uuid \<times> uuid \<times> uuid \<times> time \<Rightarrow> gpu_metric list \<Rightarrow> gpu_metric_hour" where
  "hour_row k ms =
     (case k of (org, gpu, node, h) \<Rightarrow>
       \<lparr>gh_org = org, gh_gpu = gpu, gh_node = node, gh_hour = h, gh_samples = int (length ms),
        gh_avg_util = avg_opt (map gm_util ms), gh_max_util = max_opt (map gm_util ms),
        gh_avg_mem = avg_opt (map (map_option of_int \<circ> gm_mem) ms), gh_max_mem = max_opt (map gm_mem ms),
        gh_avg_power = avg_opt (map gm_power ms), gh_max_temp = max_opt (map gm_temp ms),
        gh_ecc = sum_list (List.map_filter gm_ecc ms)\<rparr>)"

definition metric_group :: "gpu_metric \<Rightarrow> uuid \<times> uuid \<times> uuid \<times> time" where
  "metric_group m = (gm_org m, gm_gpu m, gm_node m, trunc_hour (gm_ts m))"

definition rollup_groups :: "time \<Rightarrow> gpu_metric list \<Rightarrow> gpu_metric_hour list" where
  "rollup_groups boundary ms =
     (let old = filter (\<lambda>m. gm_ts m < boundary) ms
      in map (\<lambda>k. hour_row k (filter (\<lambda>m. metric_group m = k) old)) (first_seen (map metric_group old)))"

definition opt0 :: "money option \<Rightarrow> money" where
  "opt0 x = (case x of None \<Rightarrow> 0 | Some v \<Rightarrow> v)"

definition greatest_opt :: "'a::linorder option \<Rightarrow> 'a option \<Rightarrow> 'a option" where
  "greatest_opt a b = (case a of None \<Rightarrow> b | Some x \<Rightarrow> (case b of None \<Rightarrow> a | Some y \<Rightarrow> Some (max x y)))"

definition weighted :: "money option \<Rightarrow> int \<Rightarrow> money option \<Rightarrow> int \<Rightarrow> money option" where
  "weighted a m b n = Some ((opt0 a * of_int m + opt0 b * of_int n) / of_int (m + n))"

text \<open>\<open>ON CONFLICT (gpu_id, hour_ts) DO UPDATE\<close>: the stored row \<open>a\<close> absorbs \<open>b\<close>.\<close>

definition merge_hour :: "gpu_metric_hour \<Rightarrow> gpu_metric_hour \<Rightarrow> gpu_metric_hour" where
  "merge_hour a b =
     a\<lparr>gh_avg_util := weighted (gh_avg_util a) (gh_samples a) (gh_avg_util b) (gh_samples b),
       gh_max_util := greatest_opt (gh_max_util a) (gh_max_util b),
       gh_avg_mem := weighted (gh_avg_mem a) (gh_samples a) (gh_avg_mem b) (gh_samples b),
       gh_max_mem := greatest_opt (gh_max_mem a) (gh_max_mem b),
       gh_avg_power := weighted (gh_avg_power a) (gh_samples a) (gh_avg_power b) (gh_samples b),
       gh_max_temp := greatest_opt (gh_max_temp a) (gh_max_temp b),
       gh_ecc := gh_ecc a + gh_ecc b,
       gh_samples := gh_samples a + gh_samples b\<rparr>"

definition same_hour :: "gpu_metric_hour \<Rightarrow> gpu_metric_hour \<Rightarrow> bool" where
  "same_hour a b \<longleftrightarrow> gh_gpu a = gh_gpu b \<and> gh_hour a = gh_hour b"

definition upsert_hour :: "gpu_metric_hour \<Rightarrow> gpu_metric_hour list \<Rightarrow> gpu_metric_hour list" where
  "upsert_hour b hs =
     (if \<exists>a \<in> set hs. same_hour a b then upd (\<lambda>a. same_hour a b) (\<lambda>a. merge_hour a b) hs else hs @ [b])"

text \<open>
  PostgreSQL refuses an \<open>ON CONFLICT DO UPDATE\<close> that would touch a row twice: two groups of
  one statement with the same GPU and hour are an error.
\<close>

definition rollup :: "time \<Rightarrow> db \<Rightarrow> err + nat \<times> db" where
  "rollup boundary d =
     (let rows = rollup_groups boundary (gpu_metrics d)
      in if \<not> distinct (map (\<lambda>r. (gh_gpu r, gh_hour r)) rows)
         then Inl (ErrConstraint ''cardinality_violation'')
         else Inr (length rows, d\<lparr>gpu_metrics_hourly := fold upsert_hour rows (gpu_metrics_hourly d)\<rparr>))"

definition retentionBatch :: nat where
  "retentionBatch = 5000"

text \<open>\<open>DELETE ... WHERE ctid IN (SELECT ... LIMIT n)\<close>: the first \<open>n\<close> rows that qualify.\<close>

fun del_first :: "('r \<Rightarrow> bool) \<Rightarrow> nat \<Rightarrow> 'r list \<Rightarrow> 'r list" where
  "del_first P n [] = []"
| "del_first P n (r # t) =
     (case n of 0 \<Rightarrow> r # t | Suc m \<Rightarrow> if P r then del_first P m t else r # del_first P n t)"

text \<open>One batch over a table of the database, given by its reader and writer.\<close>

definition delete_batch ::
  "(db \<Rightarrow> 'r list) \<Rightarrow> ('r list \<Rightarrow> db \<Rightarrow> db) \<Rightarrow> ('r \<Rightarrow> bool) \<Rightarrow> db \<Rightarrow> err + nat \<times> db" where
  "delete_batch get put P d =
     Inr (min retentionBatch (affected P (get d)), put (del_first P retentionBatch (get d)) d)"

text \<open>
  \<open>batchedDelete\<close> repeats the batch until one is not full. \<open>fuel\<close> bounds the number of
  batches; \<open>Inl None\<close> is a run that the bound cut off.
\<close>

fun batchedDelete ::
  "nat \<Rightarrow> (db \<Rightarrow> 'r list) \<Rightarrow> ('r list \<Rightarrow> db \<Rightarrow> db) \<Rightarrow> ('r \<Rightarrow> bool) \<Rightarrow> nat \<Rightarrow> sys \<Rightarrow> (err option + nat) \<times> sys" where
  "batchedDelete 0 get put P n s = (Inl None, s)"
| "batchedDelete (Suc k) get put P n s =
     (case atomically (delete_batch get put P) s of
        (Inl e, s1) \<Rightarrow> (Inl (Some e), s1)
      | (Inr m, s1) \<Rightarrow>
          if m < retentionBatch then (Inr (n + m), s1) else batchedDelete k get put P (n + m) s1)"

record RetentionStats =
  rs_RolledUpHours :: nat
  rs_RawDeleted :: nat
  rs_HeartbeatDeleted :: nat
  rs_EventsDeleted :: nat
  rs_RollupsDeleted :: nat

definition SweepRetention ::
  "nat \<Rightarrow> clocks \<Rightarrow> RetentionPolicy \<Rightarrow> sys \<Rightarrow> (err option + RetentionStats) \<times> sys" where
  "SweepRetention fuel clk p0 s =
     (let p = (if rp_RawMetrics p0 \<le> 0 then DefaultRetention else p0);
          boundary = trunc_hour (go_now clk - rp_RawMetrics p)
      in case atomically (rollup boundary) s of
           (Inl e, s1) \<Rightarrow> (Inl (Some e), s1)
         | (Inr n0, s1) \<Rightarrow>
      (case batchedDelete fuel gpu_metrics (\<lambda>t d. d\<lparr>gpu_metrics := t\<rparr>) (\<lambda>m. gm_ts m < boundary) 0 s1 of
           (Inl e, s2) \<Rightarrow> (Inl e, s2)
         | (Inr n1, s2) \<Rightarrow>
      (case batchedDelete fuel agent_heartbeats (\<lambda>t d. d\<lparr>agent_heartbeats := t\<rparr>)
              (\<lambda>h. hb_TS h < go_now clk - rp_Heartbeats p) 0 s2 of
           (Inl e, s3) \<Rightarrow> (Inl e, s3)
         | (Inr n2, s3) \<Rightarrow>
      (case batchedDelete fuel workload_events (\<lambda>t d. d\<lparr>workload_events := t\<rparr>)
              (\<lambda>w. we_ts w < go_now clk - rp_Events p) 0 s3 of
           (Inl e, s4) \<Rightarrow> (Inl e, s4)
         | (Inr n3, s4) \<Rightarrow>
      (case batchedDelete fuel gpu_metrics_hourly (\<lambda>t d. d\<lparr>gpu_metrics_hourly := t\<rparr>)
              (\<lambda>h. gh_hour h < go_now clk - rp_RollupMetrics p) 0 s4 of
           (Inl e, s5) \<Rightarrow> (Inl e, s5)
         | (Inr n4, s5) \<Rightarrow>
             (Inr \<lparr>rs_RolledUpHours = n0, rs_RawDeleted = n1, rs_HeartbeatDeleted = n2,
                   rs_EventsDeleted = n3, rs_RollupsDeleted = n4\<rparr>, s5))))))"

end
