(* ===== verification/Gateway.thy ===== *)
theory Gateway
  imports Telemetry "HOL-Library.Multiset"
begin

text \<open>
  The agent gateway (\<open>internal/agentgw\<close>): the in-memory dispatcher of live streams, the
  delivery engine that drains the command outbox, the bearer check, and the handlers of the
  messages an authenticated agent sends.
\<close>

section \<open>The dispatcher\<close>

text \<open>
  A registration is one live stream: the identity of its channel, the buffered messages (capacity
  8) and the kick signal. Closing a channel and handing its rest to the sender goroutine is the
  removal of the registration.
\<close>

record registration =
  rg_ch :: nat
  rg_buf :: "server_message list"
  rg_kicked :: bool

type_synonym streams = "uuid \<Rightarrow> registration option"

definition chan_cap :: nat where
  "chan_cap = 8"

definition Register :: "uuid \<Rightarrow> nat \<Rightarrow> streams \<Rightarrow> streams" where
  "Register nodeID ch st = st(nodeID \<mapsto> \<lparr>rg_ch = ch, rg_buf = [], rg_kicked = False\<rparr>)"

definition Deregister :: "uuid \<Rightarrow> nat \<Rightarrow> streams \<Rightarrow> bool \<times> streams" where
  "Deregister nodeID ch st =
     (case st nodeID of
        None \<Rightarrow> (False, st)
      | Some cur \<Rightarrow> if rg_ch cur = ch then (True, st(nodeID := None)) else (False, st))"

definition Kick :: "uuid \<Rightarrow> streams \<Rightarrow> bool \<times> streams" where
  "Kick nodeID st =
     (case st nodeID of
        None \<Rightarrow> (False, st)
      | Some reg \<Rightarrow> (True, st(nodeID \<mapsto> reg\<lparr>rg_kicked := True\<rparr>)))"

text \<open>
  \<open>drains\<close> says whether the sender goroutine takes a message off a full channel within the
  five seconds that \<open>Send\<close> waits.
\<close>

definition Send :: "bool \<Rightarrow> uuid \<Rightarrow> server_message \<Rightarrow> streams \<Rightarrow> (string + unit) \<times> streams" where
  "Send drains nodeID msg st =
     (case st nodeID of
        None \<Rightarrow> (Inl ''agent not connected'', st)
      | Some reg \<Rightarrow>
          if length (rg_buf reg) < chan_cap
          then (Inr (), st(nodeID \<mapsto> reg\<lparr>rg_buf := rg_buf reg @ [msg]\<rparr>))
          else if drains then (Inr (), st(nodeID \<mapsto> reg\<lparr>rg_buf := tl (rg_buf reg) @ [msg]\<rparr>))
          else (Inl ''agent command channel full'', st))"

definition ConnectedNodes :: "streams \<Rightarrow> uuid set" where
  "ConnectedNodes st = dom st"

section \<open>The delivery engine\<close>

text \<open>
  The state of the gateway: the process state, the streams, and the messages handed to a channel
  in the order in which \<open>Send\<close> accepted them.
\<close>

record gateway =
  gw_sys :: sys
  gw_streams :: streams
  gw_sent :: "(uuid \<times> server_message) list"

definition deliver_row ::
  "time \<Rightarrow> (uuid \<Rightarrow> bool) \<Rightarrow> uuid \<Rightarrow> Due \<Rightarrow> nat \<times> db \<times> streams \<times> (uuid \<times> server_message) list \<Rightarrow>
   nat \<times> db \<times> streams \<times> (uuid \<times> server_message) list" where
  "deliver_row now drains nodeID c = (\<lambda>(n, d, st, sent).
     if sm_Payload (due_Payload c) = Malformed
     then (n, Ack now (due_ID c) False ''malformed payload'' d, st, sent)
     else case Send (drains (due_ID c)) nodeID (due_Payload c) st of
            (Inl e, st1) \<Rightarrow> (n, MarkAttemptFailed now (due_ID c) (due_Attempts c) e d, st1, sent)
          | (Inr u, st1) \<Rightarrow> (Suc n, MarkSent now (due_ID c) (due_Attempts c) d, st1,
                            sent @ [(nodeID, due_Payload c)]))"

text \<open>
  One batch in one transaction. A message handed to the channel is gone even when the transaction
  fails afterwards: \<open>k\<close> is the number of rows processed before an injected fault.
\<close>

definition deliverBatch ::
  "clocks \<Rightarrow> (uuid \<Rightarrow> bool) \<Rightarrow> (uuid \<Rightarrow> bool) \<Rightarrow> nat \<Rightarrow> uuid \<Rightarrow> gateway \<Rightarrow> (err + nat) \<times> gateway" where
  "deliverBatch clk locked drains k nodeID g =
     (let s = gw_sys g;
          due = ClaimDue (db_now clk) locked nodeID 16 (s_db s);
          run = (\<lambda>cs. fold (deliver_row (db_now clk) drains nodeID) cs (0, s_db s, gw_streams g, gw_sent g))
      in case atomically (\<lambda>d. case run due of (n, d', st, sent) \<Rightarrow> Inr ((n, st, sent), d')) s of
           (Inl e, s1) \<Rightarrow>
             (case run (take k due) of
                (_, _, st, sent) \<Rightarrow> (Inl e, g\<lparr>gw_sys := s1, gw_streams := st, gw_sent := sent\<rparr>))
         | (Inr (n, st, sent), s1) \<Rightarrow> (Inr n, g\<lparr>gw_sys := s1, gw_streams := st, gw_sent := sent\<rparr>))"

definition reset_due :: "time \<Rightarrow> uuid \<Rightarrow> db \<Rightarrow> err + unit \<times> db" where
  "reset_due now nodeID d =
     Inr ((), d\<lparr>agent_commands := upd (\<lambda>r. c_NodeID r = nodeID \<and> outstanding (c_Status r))
                 (\<lambda>r. r\<lparr>c_NextAttemptAt := now\<rparr>) (agent_commands d)\<rparr>)"

definition gw_Ack :: "clocks \<Rightarrow> uuid option \<Rightarrow> bool \<Rightarrow> string \<Rightarrow> sys \<Rightarrow> sys" where
  "gw_Ack clk cid ok errMsg s =
     (case cid of
        None \<Rightarrow> s
      | Some i \<Rightarrow> snd (atomically (\<lambda>d. Inr ((), Ack (db_now clk) i ok errMsg d)) s))"

section \<open>Authentication\<close>

text \<open>\<open>vals\<close> are the values of the \<open>authorization\<close> metadata key.\<close>

definition TrimPrefix :: "string \<Rightarrow> string \<Rightarrow> string" where
  "TrimPrefix s p = (if has_prefix p s then drop (length p) s else s)"

definition bearer :: "string list \<Rightarrow> string" where
  "bearer vals = (case vals of [] \<Rightarrow> '''' | v # _ \<Rightarrow> TrimSpace (TrimPrefix v ''Bearer ''))"

record authInfo =
  ai_NodeID :: uuid
  ai_OrgID :: uuid

definition StreamAuth ::
  "(string \<Rightarrow> string) \<Rightarrow> string list \<Rightarrow> sys \<Rightarrow> (string + authInfo) \<times> sys" where
  "StreamAuth hash vals s =
     (let cred = bearer vals
      in if cred = '''' then (Inl ''missing agent credential'', s)
         else case atomically (\<lambda>d. bindE (AuthenticateAgent (hash cred) d) (\<lambda>r. Inr (r, d))) s of
                (Inl e, s1) \<Rightarrow> (Inl ''invalid agent credential'', s1)
              | (Inr (nid, oid), s1) \<Rightarrow> (Inr \<lparr>ai_NodeID = nid, ai_OrgID = oid\<rparr>, s1))"

datatype grpc_code = InvalidArgument | Unauthenticated | PermissionDenied | Internal

definition enrollError :: "err \<Rightarrow> grpc_code" where
  "enrollError e = (case e of
     ErrInvalidToken \<Rightarrow> Unauthenticated
   | ErrTokenExpired \<Rightarrow> PermissionDenied
   | ErrTokenExhausted \<Rightarrow> PermissionDenied
   | ErrFingerprintConflict \<Rightarrow> PermissionDenied
   | _ \<Rightarrow> Internal)"

definition gw_Enroll ::
  "(string \<Rightarrow> string) \<Rightarrow> clocks \<Rightarrow> uuid \<Rightarrow> nat list \<Rightarrow> string \<Rightarrow> string \<Rightarrow> NodeInfo \<Rightarrow> sys \<Rightarrow>
   (grpc_code + uuid \<times> string) \<times> sys" where
  "gw_Enroll hash clk newID rnd token fp info s =
     (if token = '''' then (Inl InvalidArgument, s)
      else if fp = '''' then (Inl InvalidArgument, s)
      else case Enroll hash clk newID rnd token fp info s of
             (Inl e, s1) \<Rightarrow> (Inl (enrollError e), s1)
           | (Inr (nid, cred), s1) \<Rightarrow>
               (Inr (nid, cred), audit \<lparr>al_OrgID = uuid_Nil, al_ActorType = ''agent'', al_ActorID = uuid_str nid,
                  al_Action = ''node.enroll'', al_TargetType = ''node'', al_TargetID = uuid_str nid,
                  al_Metadata = [(''hostname'', JStr (ni_Hostname info)), (''os'', JStr (ni_OS info))], al_IP = ''''\<rparr> s1))"

section \<open>Agent messages\<close>

datatype proto_workload_state =
    WORKLOAD_STATE_UNSPECIFIED | WORKLOAD_STATE_PENDING | WORKLOAD_STATE_RUNNING
  | WORKLOAD_STATE_STOPPING | WORKLOAD_STATE_STOPPED | WORKLOAD_STATE_FAILED

definition protoToWorkloadState :: "proto_workload_state \<Rightarrow> WorkloadState" where
  "protoToWorkloadState s = (case s of
     WORKLOAD_STATE_RUNNING \<Rightarrow> WorkloadRunning
   | WORKLOAD_STATE_STOPPING \<Rightarrow> WorkloadStopping
   | WORKLOAD_STATE_STOPPED \<Rightarrow> WorkloadStopped
   | WORKLOAD_STATE_FAILED \<Rightarrow> WorkloadFailed
   | _ \<Rightarrow> WorkloadPending)"

definition log_sep :: string where
  "log_sep = [CHR 0x0A] @ ''---LOGS---'' @ [CHR 0x0A]"

text \<open>\<open>findSep\<close> from position \<open>i\<close>; \<open>None\<close> is the result \<open>-1\<close>.\<close>

function find_from :: "string \<Rightarrow> string \<Rightarrow> nat \<Rightarrow> nat option" where
  "find_from s sep i =
     (if i + length sep > length s then None
      else if take (length sep) (drop i s) = sep then Some i
      else find_from s sep (Suc i))"
  by pat_completeness auto
termination by (relation "measure (\<lambda>(s, sep, i). Suc (length s) - i)") auto

declare find_from.simps [simp del]

definition findSep :: "string \<Rightarrow> string \<Rightarrow> nat option" where
  "findSep s sep = find_from s sep 0"

definition extractLogs :: "string \<Rightarrow> string" where
  "extractLogs msg =
     (if length msg > length log_sep
      then (case findSep msg log_sep of None \<Rightarrow> '''' | Some i \<Rightarrow> drop (i + length log_sep) msg)
      else '''')"

record WorkloadStatusMsg =
  wm_WorkloadId :: "uuid option"
  wm_State :: proto_workload_state
  wm_SshEndpoint :: string
  wm_JupyterEndpoint :: string
  wm_Message :: string

definition handleWorkloadStatus ::
  "service \<Rightarrow> clocks \<Rightarrow> uuid \<Rightarrow> authInfo \<Rightarrow> WorkloadStatusMsg \<Rightarrow> sys \<Rightarrow> sys" where
  "handleWorkloadStatus sv clk cmdID ai ws s =
     (case wm_WorkloadId ws of
        None \<Rightarrow> s
      | Some wid \<Rightarrow>
          if has_prefix ''STAGE:'' (wm_Message ws)
          then snd (RecordStageEvent clk (ai_NodeID ai) wid (TrimPrefix (wm_Message ws) ''STAGE:'') s)
          else snd (UpdateStatus sv clk cmdID (ai_NodeID ai) wid (protoToWorkloadState (wm_State ws))
                      (wm_SshEndpoint ws) (wm_JupyterEndpoint ws) (wm_Message ws)
                      (extractLogs (wm_Message ws)) s))"

definition gw_notify :: "bool \<Rightarrow> uuid \<Rightarrow> string list \<Rightarrow> sys \<Rightarrow> sys" where
  "gw_notify pub orgID topics s = (if pub \<and> orgID \<noteq> uuid_Nil then notify orgID topics s else s)"

definition handleInventory ::
  "bool \<Rightarrow> clocks \<Rightarrow> (string \<Rightarrow> uuid) \<Rightarrow> authInfo \<Rightarrow> NodeInfo \<Rightarrow> gpu_report list \<Rightarrow> sys \<Rightarrow> sys" where
  "handleInventory pub clk newID ai info gs s =
     (case atomically (UpsertInventory clk newID (ai_NodeID ai) (ai_OrgID ai) info [] gs) s of
        (Inl e, s1) \<Rightarrow> s1
      | (Inr u, s1) \<Rightarrow> gw_notify pub (ai_OrgID ai) [''nodes''] s1)"

record metric_sample =
  ms_GpuUuid :: string
  ms_Ts :: time
  ms_UtilPct :: money
  ms_MemUsedMb :: "32 word"
  ms_PowerW :: money
  ms_TempC :: money
  ms_EccErrors :: "32 word"
  ms_ProcCount :: "32 word"

text \<open>\<open>int32(x)\<close> of a \<open>uint32\<close> reads the bits as a signed number.\<close>

definition sample_of :: "uuid \<Rightarrow> uuid \<Rightarrow> metric_sample \<Rightarrow> Sample" where
  "sample_of nodeID gid sm =
     \<lparr>sa_GPUID = gid, sa_NodeID = nodeID, sa_TS = ms_Ts sm, sa_UtilPct = ms_UtilPct sm,
      sa_MemUsedMB = sint (ms_MemUsedMb sm), sa_PowerW = ms_PowerW sm, sa_TempC = ms_TempC sm,
      sa_ECCErrors = sint (ms_EccErrors sm), sa_ProcCount = sint (ms_ProcCount sm)\<rparr>"

definition resolveGPUIDs :: "uuid \<Rightarrow> sys \<Rightarrow> (string \<times> uuid) list \<times> sys" where
  "resolveGPUIDs nodeID s =
     (case atomically (\<lambda>d. bindE (GetNode nodeID d) (\<lambda>r. Inr (r, d))) s of
        (Inl e, s1) \<Rightarrow> ([], s1)
      | (Inr (n, gs), s1) \<Rightarrow> (rev (map (\<lambda>g. (g_UUID g, g_ID g)) gs), s1))"

definition handleMetricsBatch :: "authInfo \<Rightarrow> metric_sample list \<Rightarrow> sys \<Rightarrow> sys" where
  "handleMetricsBatch ai batch s =
     (case resolveGPUIDs (ai_NodeID ai) s of
        (m, s1) \<Rightarrow>
          let samples = List.map_filter (\<lambda>sm. map_option (\<lambda>gid. sample_of (ai_NodeID ai) gid sm)
                          (map_of m (ms_GpuUuid sm))) batch
          in if samples \<noteq> [] then snd (Ingest (ai_OrgID ai) samples s1) else s1)"

datatype agent_message =
    Heartbeat string "32 word" money
  | Inventory NodeInfo "gpu_report list"
  | MetricsBatch "metric_sample list"
  | WorkloadStatus WorkloadStatusMsg
  | CommandResult "uuid option" bool string

text \<open>The switch in the receive loop of \<open>Connect\<close>.\<close>

definition handle_message ::
  "service \<Rightarrow> clocks \<Rightarrow> uuid \<Rightarrow> (string \<Rightarrow> uuid) \<Rightarrow> authInfo \<Rightarrow> agent_message \<Rightarrow> sys \<Rightarrow> sys" where
  "handle_message sv clk cmdID newID ai m s =
     (case m of
        Heartbeat ver cnt util \<Rightarrow>
          snd (atomically (RecordHeartbeat clk (ai_OrgID ai) (ai_NodeID ai) ver (uint cnt) util) s)
      | Inventory info gs \<Rightarrow> handleInventory (sv_publish sv) clk newID ai info gs s
      | MetricsBatch b \<Rightarrow> handleMetricsBatch ai b s
      | WorkloadStatus ws \<Rightarrow> handleWorkloadStatus sv clk cmdID ai ws s
      | CommandResult cid ok e \<Rightarrow> gw_Ack clk cid ok e s)"

text \<open>The opening and the deferred end of \<open>Connect\<close>.\<close>

definition connect_open :: "bool \<Rightarrow> nat \<Rightarrow> authInfo \<Rightarrow> gateway \<Rightarrow> gateway" where
  "connect_open pub ch ai g =
     g\<lparr>gw_streams := Register (ai_NodeID ai) ch (gw_streams g),
       gw_sys := gw_notify pub (ai_OrgID ai) [''nodes''] (gw_sys g)\<rparr>"

definition connect_close :: "bool \<Rightarrow> nat \<Rightarrow> authInfo \<Rightarrow> gateway \<Rightarrow> gateway" where
  "connect_close pub ch ai g =
     (case Deregister (ai_NodeID ai) ch (gw_streams g) of
        (False, st) \<Rightarrow> g
      | (True, st) \<Rightarrow>
          let s1 = snd (MarkOffline (ai_NodeID ai) (gw_sys g))
          in g\<lparr>gw_streams := st, gw_sys := gw_notify pub (ai_OrgID ai) [''nodes''] s1\<rparr>)"

section \<open>Delivery terminates\<close>

lemma filter_due_upd:
  assumes "\<And>r. \<not> is_due now nodeID (f r)"
    and "\<And>r. P r \<Longrightarrow> c_ID r = i" and "\<And>r. is_due now nodeID r \<Longrightarrow> c_ID r = i \<Longrightarrow> P r"
  shows "filter (is_due now nodeID) (upd P f t) = filter (\<lambda>r. is_due now nodeID r \<and> c_ID r \<noteq> i) t"
proof -
  have "filter (is_due now nodeID) (upd P f t) = filter (\<lambda>r. is_due now nodeID r \<and> \<not> P r) t"
    using assms(1) by (intro filter_upd_out) simp
  also have "\<dots> = filter (\<lambda>r. is_due now nodeID r \<and> c_ID r \<noteq> i) t"
    using assms(2,3) by (intro filter_cong) auto
  finally show ?thesis .
qed

lemma due_finalised:
  "filter (is_due now nodeID) (agent_commands (Ack now i ok msg d)) =
     filter (\<lambda>r. is_due now nodeID r \<and> c_ID r \<noteq> i) (agent_commands d)"
  "filter (is_due now nodeID) (agent_commands (MarkSent now i n d)) =
     filter (\<lambda>r. is_due now nodeID r \<and> c_ID r \<noteq> i) (agent_commands d)"
  "filter (is_due now nodeID) (agent_commands (MarkAttemptFailed now i n e d)) =
     filter (\<lambda>r. is_due now nodeID r \<and> c_ID r \<noteq> i) (agent_commands d)"
  using resendBackoff_pos [of n]
  by (simp_all add: Ack_def MarkSent_def MarkAttemptFailed_def split del: if_split)
    (rule filter_due_upd; auto simp: is_due_def)+

text \<open>The database, the streams and the log that a batch reaches.\<close>

abbreviation dl_count where "dl_count x \<equiv> fst x"
abbreviation dl_db where "dl_db x \<equiv> fst (snd x)"
abbreviation dl_streams where "dl_streams x \<equiv> fst (snd (snd x))"
abbreviation dl_sent where "dl_sent x \<equiv> snd (snd (snd x))"

lemma deliver_row_due:
  "filter (is_due now nodeID) (agent_commands (dl_db (deliver_row now drains nodeID c x))) =
     filter (\<lambda>r. is_due now nodeID r \<and> c_ID r \<noteq> due_ID c) (agent_commands (dl_db x))"
  by (simp add: deliver_row_def due_finalised split: prod.split sum.split)

lemma fold_deliver_due:
  "filter (is_due now nodeID) (agent_commands (dl_db (fold (deliver_row now drains nodeID) cs x))) =
     filter (\<lambda>r. is_due now nodeID r \<and> c_ID r \<notin> due_ID ` set cs) (agent_commands (dl_db x))"
proof (induction cs arbitrary: x)
  case (Cons c cs)
  have "filter (is_due now nodeID) (agent_commands (dl_db (fold (deliver_row now drains nodeID) cs
          (deliver_row now drains nodeID c x)))) =
        filter (\<lambda>r. c_ID r \<notin> due_ID ` set cs)
          (filter (is_due now nodeID) (agent_commands (dl_db (deliver_row now drains nodeID c x))))"
    by (simp add: Cons conj_commute)
  also have "\<dots> = filter (\<lambda>r. is_due now nodeID r \<and> c_ID r \<notin> due_ID ` set (c # cs)) (agent_commands (dl_db x))"
    unfolding deliver_row_due by (auto intro: filter_cong)
  finally show ?case by simp
qed simp

definition due_count :: "time \<Rightarrow> uuid \<Rightarrow> gateway \<Rightarrow> nat" where
  "due_count now nodeID g = affected (is_due now nodeID) (agent_commands (s_db (gw_sys g)))"

lemma deliverBatch_Inr:
  assumes "deliverBatch clk locked drains k nodeID g = (Inr n, g')"
  defines "due \<equiv> ClaimDue (db_now clk) locked nodeID 16 (s_db (gw_sys g))"
  defines "x \<equiv> fold (deliver_row (db_now clk) drains nodeID) due (0, s_db (gw_sys g), gw_streams g, gw_sent g)"
  shows "n = dl_count x" and "s_db (gw_sys g') = dl_db x" and "gw_streams g' = dl_streams x"
    and "gw_sent g' = dl_sent x" and "s_faults (gw_sys g) = [] \<Longrightarrow> s_faults (gw_sys g') = []"
proof -
  obtain m d st sent where x: "x = (m, d, st, sent)" by (cases x)
  have "n = m \<and> s_db (gw_sys g') = d \<and> gw_streams g' = st \<and> gw_sent g' = sent \<and>
      (s_faults (gw_sys g) = [] \<longrightarrow> s_faults (gw_sys g') = [])"
    using assms(1) x unfolding deliverBatch_def Let_def due_def [symmetric] x_def [symmetric]
    by (auto simp: atomically_def Let_def split: if_splits sum.splits prod.splits)
  then show "n = dl_count x" and "s_db (gw_sys g') = dl_db x" and "gw_streams g' = dl_streams x"
    and "gw_sent g' = dl_sent x" and "s_faults (gw_sys g) = [] \<Longrightarrow> s_faults (gw_sys g') = []"
    by (simp_all add: x)
qed

lemma deliverBatch_progress:
  assumes "deliverBatch clk locked drains k nodeID g = (Inr n, g')" and "n \<noteq> 0"
  shows "due_count (db_now clk) nodeID g' < due_count (db_now clk) nodeID g"
proof -
  let ?due = "ClaimDue (db_now clk) locked nodeID 16 (s_db (gw_sys g))"
  let ?rows = "agent_commands (s_db (gw_sys g))" and ?is = "is_due (db_now clk) nodeID"
  have "?due \<noteq> []" using deliverBatch_Inr(1) [OF assms(1)] assms(2) by auto
  then obtain c where "c \<in> set ?due" by (cases ?due) auto
  then obtain r where r: "r \<in> set (filter ?is ?rows)" "c_ID r \<in> due_ID ` set ?due"
    using ClaimDue_sound [of c] by fastforce
  have "agent_commands (s_db (gw_sys g')) = agent_commands (dl_db (fold (deliver_row (db_now clk) drains nodeID)
      ?due (0, s_db (gw_sys g), gw_streams g, gw_sent g)))"
    using deliverBatch_Inr(2) [OF assms(1)] by simp
  then have "due_count (db_now clk) nodeID g' = length (filter (\<lambda>r. c_ID r \<notin> due_ID ` set ?due) (filter ?is ?rows))"
    by (simp add: due_count_def affected_def fold_deliver_due conj_commute)
  also have "\<dots> < length (filter ?is ?rows)"
    using r by (intro length_filter_less) auto
  finally show ?thesis by (simp add: due_count_def affected_def)
qed

text \<open>
  \<open>deliverNode\<close>: batches until one delivers nothing. Its transactions read one database
  clock, and each batch that delivers leaves fewer rows due, so the loop ends.
\<close>

function deliverNode ::
  "clocks \<Rightarrow> (uuid \<Rightarrow> bool) \<Rightarrow> (uuid \<Rightarrow> bool) \<Rightarrow> nat \<Rightarrow> uuid \<Rightarrow> gateway \<Rightarrow> gateway" where
  "deliverNode clk locked drains k nodeID g =
     (case deliverBatch clk locked drains k nodeID g of
        (Inl e, g1) \<Rightarrow> g1
      | (Inr n, g1) \<Rightarrow> if n = 0 then g1 else deliverNode clk locked drains k nodeID g1)"
  by pat_completeness auto
termination
  by (relation "measure (\<lambda>(clk, locked, drains, k, nodeID, g). due_count (db_now clk) nodeID g)")
    (auto intro: deliverBatch_progress [OF sym])

declare deliverNode.simps [simp del]

definition OnConnect ::
  "clocks \<Rightarrow> (uuid \<Rightarrow> bool) \<Rightarrow> (uuid \<Rightarrow> bool) \<Rightarrow> nat \<Rightarrow> uuid \<Rightarrow> gateway \<Rightarrow> gateway" where
  "OnConnect clk locked drains k nodeID g =
     (case atomically (reset_due (db_now clk) nodeID) (gw_sys g) of
        (Inl e, s1) \<Rightarrow> g\<lparr>gw_sys := s1\<rparr>
      | (Inr u, s1) \<Rightarrow> deliverNode clk locked drains k nodeID (g\<lparr>gw_sys := s1\<rparr>))"

section \<open>Delivery is complete and sends once\<close>

lemma Send_connected:
  assumes "st nodeID \<noteq> None" and "drains"
  shows "\<exists>st'. Send drains nodeID msg st = (Inr (), st') \<and> st' nodeID \<noteq> None"
  using assms by (auto simp: Send_def)

lemma fold_deliver_sent:
  assumes "dl_streams x nodeID \<noteq> None" and "\<And>i. drains i"
    and "\<And>c. c \<in> set cs \<Longrightarrow> sm_Payload (due_Payload c) \<noteq> Malformed"
  shows "dl_count (fold (deliver_row now drains nodeID) cs x) = dl_count x + length cs \<and>
    dl_sent (fold (deliver_row now drains nodeID) cs x) = dl_sent x @ map (\<lambda>c. (nodeID, due_Payload c)) cs \<and>
    dl_streams (fold (deliver_row now drains nodeID) cs x) nodeID \<noteq> None"
  using assms(1,3)
proof (induction cs arbitrary: x)
  case (Cons c cs)
  obtain n d st sent where x: "x = (n, d, st, sent)" by (cases x)
  obtain st' where st': "Send (drains (due_ID c)) nodeID (due_Payload c) st = (Inr (), st')" "st' nodeID \<noteq> None"
    using Send_connected [of st nodeID "drains (due_ID c)" "due_Payload c"] Cons.prems(1) assms(2) x by auto
  have "deliver_row now drains nodeID c x =
      (Suc n, MarkSent now (due_ID c) (due_Attempts c) d, st', sent @ [(nodeID, due_Payload c)])"
    using st'(1) Cons.prems(2) [of c] by (simp add: deliver_row_def x)
  then show ?case using Cons.IH [of "deliver_row now drains nodeID c x"] Cons.prems(2) st'(2) x by simp
qed simp

definition command_of :: "uuid \<Rightarrow> command_row \<Rightarrow> uuid \<times> server_message" where
  "command_of nodeID r = (nodeID, c_Payload r)"

lemma filter_in_append: "set a \<inter> set b = {} \<Longrightarrow> filter (\<lambda>r. r \<in> set b) (a @ b) = b"
  by (auto simp: filter_empty_conv filter_id_conv)

lemma mset_split_due:
  assumes "distinct (map k xs)"
  shows "mset xs = mset (take n (sort_key f xs)) + mset (filter (\<lambda>r. k r \<notin> k ` set (take n (sort_key f xs))) xs)"
proof -
  let ?ys = "sort_key f xs"
  have d: "distinct (map k ?ys)" using assms by (simp add: distinct_map)
  have "r \<in> set (drop n ?ys) \<longleftrightarrow> k r \<notin> k ` set (take n ?ys)" if "r \<in> set ?ys" for r
  proof -
    have "set (take n (map k ?ys)) \<inter> set (drop n (map k ?ys)) = {}"
      using d by (intro set_take_disj_set_drop_if_distinct) simp_all
    then have "k ` set (take n ?ys) \<inter> k ` set (drop n ?ys) = {}" by (simp add: take_map drop_map)
    moreover have "r \<in> set (take n ?ys) \<or> r \<in> set (drop n ?ys)"
      using that by (metis Un_iff append_take_drop_id set_append)
    ultimately show ?thesis by blast
  qed
  then have "filter (\<lambda>r. k r \<notin> k ` set (take n ?ys)) ?ys = filter (\<lambda>r. r \<in> set (drop n ?ys)) ?ys"
    by (intro filter_cong) auto
  moreover have "distinct ?ys" using d by (simp add: distinct_map)
  then have "filter (\<lambda>r. r \<in> set (drop n ?ys)) ?ys = drop n ?ys"
  proof -
    have "filter (\<lambda>r. r \<in> set (drop n ?ys)) (take n ?ys @ drop n ?ys) = drop n ?ys"
      by (rule filter_in_append, rule set_take_disj_set_drop_if_distinct [OF \<open>distinct ?ys\<close> order.refl])
    then show ?thesis by (simp only: append_take_drop_id)
  qed
  ultimately have "mset (filter (\<lambda>r. k r \<notin> k ` set (take n ?ys)) xs) = mset (drop n ?ys)"
    by (metis mset_filter mset_sort)
  moreover have "mset xs = mset (take n ?ys) + mset (drop n ?ys)"
    by (metis append_take_drop_id mset_append mset_sort)
  ultimately show ?thesis by simp
qed

text \<open>
  A batch on a connected node with room in its channel sends exactly the claimed rows, and the
  rows left due are the others.
\<close>

lemma deliverBatch_sends:
  assumes b: "deliverBatch clk (\<lambda>_. False) (\<lambda>_. True) k nodeID g = (Inr n, g')"
    and conn: "gw_streams g nodeID \<noteq> None"
    and dist: "distinct (map c_ID (agent_commands (s_db (gw_sys g))))"
    and ok: "\<And>r. r \<in> set (agent_commands (s_db (gw_sys g))) \<Longrightarrow> sm_Payload (c_Payload r) \<noteq> Malformed"
  defines "due \<equiv> (\<lambda>g. filter (is_due (db_now clk) nodeID) (agent_commands (s_db (gw_sys g))))"
  shows "mset (gw_sent g') + image_mset (command_of nodeID) (mset (due g')) =
      mset (gw_sent g) + image_mset (command_of nodeID) (mset (due g))"
    and "gw_streams g' nodeID \<noteq> None" and "n = 0 \<longleftrightarrow> due g = []"
proof -
  let ?cs = "ClaimDue (db_now clk) (\<lambda>_. False) nodeID 16 (s_db (gw_sys g))"
  let ?claimed = "take 16 (sort_key c_CreatedAt (due g))"
  let ?x = "fold (deliver_row (db_now clk) (\<lambda>_. True) nodeID) ?cs (0, s_db (gw_sys g), gw_streams g, gw_sent g)"
  note B = deliverBatch_Inr [OF b]
  have cs: "?cs = map (\<lambda>r. \<lparr>due_ID = c_ID r, due_Kind = c_Kind r, due_Payload = c_Payload r,
               due_Attempts = c_Attempts r\<rparr>) ?claimed"
    by (simp add: ClaimDue_def due_def)
  have S: "dl_count ?x = length ?cs \<and> dl_sent ?x = gw_sent g @ map (\<lambda>c. (nodeID, due_Payload c)) ?cs \<and>
      dl_streams ?x nodeID \<noteq> None"
    using fold_deliver_sent [of "(0, s_db (gw_sys g), gw_streams g, gw_sent g)" nodeID "\<lambda>_. True" ?cs "db_now clk"]
      conn ClaimDue_sound [of _ "db_now clk" "\<lambda>_. False" nodeID 16 "s_db (gw_sys g)"] ok by fastforce
  have due': "due g' = filter (\<lambda>r. c_ID r \<notin> c_ID ` set ?claimed) (due g)"
    using fold_deliver_due [of "db_now clk" nodeID "\<lambda>_. True" ?cs] B(2)
    by (simp add: due_def cs image_image conj_commute)
  have "distinct (map c_ID (due g))" unfolding due_def using dist by (rule distinct_map_filter)
  then have "mset (due g) = mset ?claimed + mset (due g')"
    unfolding due' by (rule mset_split_due)
  moreover have "gw_sent g' = gw_sent g @ map (command_of nodeID) ?claimed"
    using S B(4) by (simp add: cs command_of_def [abs_def])
  ultimately show "mset (gw_sent g') + image_mset (command_of nodeID) (mset (due g')) =
      mset (gw_sent g) + image_mset (command_of nodeID) (mset (due g))" by simp
  show "gw_streams g' nodeID \<noteq> None" using S B(3) by simp
  have "n = length ?claimed" using S B(1) by (simp add: cs)
  then show "n = 0 \<longleftrightarrow> due g = []" by (cases "due g") auto
qed

lemma deliver_row_rows:
  "list_all2 (\<lambda>r q. c_ID q = c_ID r \<and> c_Payload q = c_Payload r) (agent_commands (dl_db x))
     (agent_commands (dl_db (deliver_row now drains nodeID c x)))"
  by (auto simp: deliver_row_def Ack_def MarkSent_def MarkAttemptFailed_def
      intro!: list_all2_upd split: prod.split sum.split)

lemma fold_deliver_rows:
  "list_all2 (\<lambda>r q. c_ID q = c_ID r \<and> c_Payload q = c_Payload r) (agent_commands (dl_db x))
     (agent_commands (dl_db (fold (deliver_row now drains nodeID) cs x)))"
proof (induction cs arbitrary: x)
  case Nil
  then show ?case by (simp add: list_all2_same)
next
  case (Cons c cs)
  show ?case
    using list_all2_trans [OF _ deliver_row_rows [of x now drains nodeID c] Cons [of "deliver_row now drains nodeID c x"],
        of "\<lambda>r q. c_ID q = c_ID r \<and> c_Payload q = c_Payload r"]
    by simp
qed

lemma rows_related:
  assumes "list_all2 (\<lambda>r q. c_ID q = c_ID r \<and> c_Payload q = c_Payload r) xs ys"
  shows "map c_ID ys = map c_ID xs" and "map c_Payload ys = map c_Payload xs"
  using assms by (induction rule: list_all2_induct) auto

definition due_rows :: "time \<Rightarrow> uuid \<Rightarrow> gateway \<Rightarrow> command_row list" where
  "due_rows now nodeID g = filter (is_due now nodeID) (agent_commands (s_db (gw_sys g)))"

lemma deliverBatch_rows:
  assumes "deliverBatch clk locked drains k nodeID g = (Inr n, g')"
  shows "map c_ID (agent_commands (s_db (gw_sys g'))) = map c_ID (agent_commands (s_db (gw_sys g)))"
    and "map c_Payload (agent_commands (s_db (gw_sys g'))) = map c_Payload (agent_commands (s_db (gw_sys g)))"
  using rows_related [OF fold_deliver_rows [of "(0, s_db (gw_sys g), gw_streams g, gw_sent g)" "db_now clk" drains nodeID
        "ClaimDue (db_now clk) locked nodeID 16 (s_db (gw_sys g))"]] deliverBatch_Inr(2) [OF assms]
  by simp_all

lemma deliverBatch_due_subset:
  assumes "deliverBatch clk locked drains k nodeID g = (Inr n, g')"
  shows "due_rows (db_now clk) nodeID g = [] \<Longrightarrow> due_rows (db_now clk) nodeID g' = []"
  using deliverBatch_Inr(2) [OF assms]
    fold_deliver_due [of "db_now clk" nodeID drains "ClaimDue (db_now clk) locked nodeID 16 (s_db (gw_sys g))"
      "(0, s_db (gw_sys g), gw_streams g, gw_sent g)"]
  by (auto simp: due_rows_def filter_empty_conv)

lemma deliverBatch_no_fault:
  assumes "s_faults (gw_sys g) = []"
  shows "\<exists>n g'. deliverBatch clk locked drains k nodeID g = (Inr n, g')"
  using assms by (auto simp: deliverBatch_def Let_def atomically_def split: prod.split)

lemma deliverNode_drains:
  assumes "gw_streams g nodeID \<noteq> None" and "s_faults (gw_sys g) = []"
    and "distinct (map c_ID (agent_commands (s_db (gw_sys g))))"
    and "Malformed \<notin> sm_Payload ` set (map c_Payload (agent_commands (s_db (gw_sys g))))"
  shows "due_rows (db_now clk) nodeID (deliverNode clk (\<lambda>_. False) (\<lambda>_. True) k nodeID g) = []"
    and "mset (gw_sent (deliverNode clk (\<lambda>_. False) (\<lambda>_. True) k nodeID g)) =
      mset (gw_sent g) + image_mset (command_of nodeID) (mset (due_rows (db_now clk) nodeID g))"
proof -
  let ?dn = "deliverNode clk (\<lambda>_. False) (\<lambda>_. True) k nodeID" and ?due = "due_rows (db_now clk) nodeID"
  have "?due (?dn g) = [] \<and> mset (gw_sent (?dn g)) =
      mset (gw_sent g) + image_mset (command_of nodeID) (mset (?due g))"
    using assms
  proof (induction g rule: measure_induct_rule [where f = "due_count (db_now clk) nodeID"])
    case (less g)
    obtain n g1 where b: "deliverBatch clk (\<lambda>_. False) (\<lambda>_. True) k nodeID g = (Inr n, g1)"
      using deliverBatch_no_fault [OF less.prems(2)] by blast
    note B = deliverBatch_Inr [OF b]
    have ok: "sm_Payload (c_Payload r) \<noteq> Malformed" if "r \<in> set (agent_commands (s_db (gw_sys g)))" for r
      using less.prems(4) that by force
    note S = deliverBatch_sends [OF b less.prems(1,3) ok, folded due_rows_def]
    show ?case
    proof (cases "n = 0")
      case True
      then have "?dn g = g1" by (subst deliverNode.simps) (simp add: b)
      moreover have "?due g = []" using S(3) True by simp
      moreover have "?due g1 = []"
        using deliverBatch_due_subset [OF b] \<open>?due g = []\<close> by simp
      ultimately show ?thesis using S(1) by simp
    next
      case False
      have "?dn g = ?dn g1" using False by (subst deliverNode.simps) (simp add: b)
      moreover have "?due (?dn g1) = [] \<and> mset (gw_sent (?dn g1)) =
          mset (gw_sent g1) + image_mset (command_of nodeID) (mset (?due g1))"
      proof (rule less.IH)
        show "due_count (db_now clk) nodeID g1 < due_count (db_now clk) nodeID g"
          using b False by (rule deliverBatch_progress)
        show "gw_streams g1 nodeID \<noteq> None" by (rule S(2))
        show "s_faults (gw_sys g1) = []" using B(5) less.prems(2) .
        show "distinct (map c_ID (agent_commands (s_db (gw_sys g1))))"
          and "Malformed \<notin> sm_Payload ` set (map c_Payload (agent_commands (s_db (gw_sys g1))))"
          using less.prems(3,4) deliverBatch_rows [OF b] by simp_all
      qed
      ultimately show ?thesis using S(1) by (simp only:)
    qed
  qed
  then show "?due (?dn g) = []" and "mset (gw_sent (?dn g)) =
      mset (gw_sent g) + image_mset (command_of nodeID) (mset (?due g))" by simp_all
qed

end
