(* ===== verification/Policy.thy ===== *)
theory Policy
  imports Workloads
begin

text \<open>
  Idle detection and reclaim (\<open>internal/policy/impl.go\<close>): which GPUs of an organisation
  averaged below the threshold over the window, and the sweep that stops the managed workloads on
  them.
\<close>

section \<open>Evaluation\<close>

record IdleFinding =
  if_GPUID :: uuid
  if_IdleSeconds :: int
  if_IdleCost :: money
  if_WorkloadID :: "uuid option"

definition orgIdleSettings :: "uuid \<Rightarrow> db \<Rightarrow> money \<times> int" where
  "orgIdleSettings orgID d =
     (case org_by_id orgID d of
        None \<Rightarrow> (10, 30)
      | Some o' \<Rightarrow>
          (case os_IdleThresholdPct (o_Settings o') of None \<Rightarrow> 10 | Some x \<Rightarrow> x,
           case os_IdleDurationMin (o_Settings o') of None \<Rightarrow> 30 | Some x \<Rightarrow> x))"

text \<open>
  The query joins each GPU with its recent samples, its active attachments with their running
  workloads, and the open rate cards of its model, and groups by GPU, workload and rate. The
  samples of a group are repeated once for every pair of attachment and rate card in it, which
  \<open>count(m.id)\<close> sees and \<open>avg\<close> does not.
\<close>

definition recent_metrics :: "time \<Rightarrow> uuid \<Rightarrow> db \<Rightarrow> gpu_metric list" where
  "recent_metrics since gid d = filter (\<lambda>m. gm_gpu m = gid \<and> since \<le> gm_ts m) (gpu_metrics d)"

definition outer :: "'a list \<Rightarrow> 'a option list" where
  "outer xs = (if xs = [] then [None] else map Some xs)"

definition running_id :: "workload_gpu \<Rightarrow> db \<Rightarrow> uuid option" where
  "running_id a d = map_option w_ID (find (\<lambda>w. w_ID w = wg_workload a \<and> w_Status w = WorkloadRunning) (workloads d))"

definition joined_workloads :: "uuid \<Rightarrow> db \<Rightarrow> uuid option list" where
  "joined_workloads gid d =
     map (\<lambda>x. case x of None \<Rightarrow> None | Some a \<Rightarrow> running_id a d)
       (outer (filter (\<lambda>a. wg_gpu a = gid \<and> active a) (workload_gpus d)))"

definition joined_rates :: "GPU \<Rightarrow> db \<Rightarrow> money option list" where
  "joined_rates g d = outer (map rc_RatePerGPUHour (filter (\<lambda>r. rc_OrgID r = g_OrgID g \<and>
     rc_GPUModel r = g_Model g \<and> rc_EffectiveTo r = None) (rate_cards d)))"

definition idle_gpu_findings :: "time \<Rightarrow> time \<Rightarrow> money \<Rightarrow> db \<Rightarrow> GPU \<Rightarrow> IdleFinding list" where
  "idle_gpu_findings now since threshold d g =
     (let ms = recent_metrics since (g_ID g) d;
          utils = List.map_filter gm_util ms;
          keys = List.product (joined_workloads (g_ID g) d) (joined_rates g d);
          secs = round_half_away (of_int (now - fold max (map gm_ts ms) (gm_ts (hd ms))) / of_int second)
      in List.map_filter (\<lambda>(w, r).
           if length ms * length (filter (\<lambda>k. k = (w, r)) keys) \<ge> 3 \<and> utils \<noteq> [] \<and> mean utils < threshold
           then Some \<lparr>if_GPUID = g_ID g, if_IdleSeconds = secs,
                      if_IdleCost = of_int secs / 3600 * (case r of None \<Rightarrow> 0 | Some x \<Rightarrow> x),
                      if_WorkloadID = w\<rparr>
           else None) (first_seen keys))"

definition EvaluateIdle :: "clocks \<Rightarrow> uuid \<Rightarrow> db \<Rightarrow> IdleFinding list" where
  "EvaluateIdle clk orgID d =
     (let (threshold, durationMin) = orgIdleSettings orgID d;
          since = go_now clk - durationMin * minute
      in concat (map (idle_gpu_findings (db_now clk) since threshold d)
           (filter (\<lambda>g. g_OrgID g = orgID) (gpus d))))"

record IdleReport =
  ir_From :: time
  ir_To :: time
  ir_IdleGPUs :: "IdleFinding list"
  ir_TotalIdleCost :: money

definition IdleReport_of :: "clocks \<Rightarrow> uuid \<Rightarrow> time \<Rightarrow> time \<Rightarrow> db \<Rightarrow> IdleReport" where
  "IdleReport_of clk orgID from until d =
     (let fs = EvaluateIdle clk orgID d
      in \<lparr>ir_From = from, ir_To = until, ir_IdleGPUs = fs, ir_TotalIdleCost = sum_list (map if_IdleCost fs)\<rparr>)"

section \<open>The idle sweep\<close>

fun stop_findings ::
  "(uuid \<Rightarrow> sys \<Rightarrow> (err + unit) \<times> sys) \<Rightarrow> IdleFinding list \<Rightarrow> nat \<Rightarrow> sys \<Rightarrow> nat \<times> sys" where
  "stop_findings stop [] n s = (n, s)"
| "stop_findings stop (f # fs) n s =
     (case if_WorkloadID f of
        None \<Rightarrow> stop_findings stop fs n s
      | Some wid \<Rightarrow>
          (case stop wid s of
             (Inl e, s1) \<Rightarrow> stop_findings stop fs n s1
           | (Inr u, s1) \<Rightarrow> stop_findings stop fs (Suc n) s1))"

fun sweep_orgs ::
  "(uuid \<Rightarrow> sys \<Rightarrow> (err + unit) \<times> sys) \<Rightarrow> clocks \<Rightarrow> uuid list \<Rightarrow> nat \<Rightarrow> sys \<Rightarrow> nat \<times> sys" where
  "sweep_orgs stop clk [] n s = (n, s)"
| "sweep_orgs stop clk (orgID # orgs) n s =
     (case atomically (\<lambda>d. Inr (EvaluateIdle clk orgID d, d)) s of
        (Inl e, s1) \<Rightarrow> sweep_orgs stop clk orgs n s1
      | (Inr fs, s1) \<Rightarrow> (case stop_findings stop fs n s1 of (n', s2) \<Rightarrow> sweep_orgs stop clk orgs n' s2))"

definition SweepIdle ::
  "(uuid \<Rightarrow> sys \<Rightarrow> (err + unit) \<times> sys) \<Rightarrow> clocks \<Rightarrow> sys \<Rightarrow> (err + nat) \<times> sys" where
  "SweepIdle stop clk s =
     (case atomically (\<lambda>d. Inr (map o_ID (organizations d), d)) s of
        (Inl e, s1) \<Rightarrow> (Inl e, s1)
      | (Inr orgs, s1) \<Rightarrow> (case sweep_orgs stop clk orgs 0 s1 of (n, s2) \<Rightarrow> (Inr n, s2)))"

section \<open>Only managed running workloads below the threshold are reclaimed\<close>

lemma in_map_filterE:
  assumes "y \<in> set (List.map_filter f xs)"
  obtains x where "x \<in> set xs" and "f x = Some y"
  using assms by (auto simp: List.map_filter_def)

lemma idle_gpu_findingsE:
  assumes "f \<in> set (idle_gpu_findings now since threshold d g)"
  obtains r where "if_GPUID f = g_ID g" and "if_WorkloadID f \<in> set (joined_workloads (g_ID g) d)"
    and "mean (List.map_filter gm_util (recent_metrics since (g_ID g) d)) < threshold"
    and "List.map_filter gm_util (recent_metrics since (g_ID g) d) \<noteq> []"
    and "if_IdleSeconds f = round_half_away (of_int (now - fold max (map gm_ts (recent_metrics since (g_ID g) d))
           (gm_ts (hd (recent_metrics since (g_ID g) d)))) / of_int second)"
    and "r \<in> set (joined_rates g d)"
    and "if_IdleCost f = of_int (if_IdleSeconds f) / 3600 * (case r of None \<Rightarrow> 0 | Some x \<Rightarrow> x)"
  using assms unfolding idle_gpu_findings_def Let_def
  by (elim in_map_filterE) (auto split: prod.splits if_splits)

lemma EvaluateIdleE:
  assumes "f \<in> set (EvaluateIdle clk orgID d)"
  obtains g where "g \<in> set (gpus d)" and "g_OrgID g = orgID"
    and "f \<in> set (idle_gpu_findings (db_now clk) (go_now clk - snd (orgIdleSettings orgID d) * minute)
           (fst (orgIdleSettings orgID d)) d g)"
  using assms by (auto simp: EvaluateIdle_def case_prod_beta Let_def)

lemma EvaluateIdle_sound:
  assumes "f \<in> set (EvaluateIdle clk orgID d)"
  shows "\<exists>g \<in> set (gpus d). g_ID g = if_GPUID f \<and> g_OrgID g = orgID \<and>
      mean (List.map_filter gm_util (recent_metrics (go_now clk - snd (orgIdleSettings orgID d) * minute) (g_ID g) d))
        < fst (orgIdleSettings orgID d)"
  using assms by (elim EvaluateIdleE idle_gpu_findingsE) auto

lemma EvaluateIdle_workload:
  assumes "f \<in> set (EvaluateIdle clk orgID d)" and "if_WorkloadID f = Some wid"
  shows "\<exists>w \<in> set (workloads d). w_ID w = wid \<and> w_Status w = WorkloadRunning \<and>
    (\<exists>a \<in> set (workload_gpus d). active a \<and> wg_workload a = wid \<and> wg_gpu a = if_GPUID f)"
proof -
  have "Some wid \<in> set (joined_workloads (if_GPUID f) d)"
    using assms by (elim EvaluateIdleE idle_gpu_findingsE) simp
  then obtain a where a: "a \<in> set (workload_gpus d)" "wg_gpu a = if_GPUID f" "active a"
    and "running_id a d = Some wid"
    by (auto simp: joined_workloads_def outer_def split: if_splits)
  then obtain w where "find (\<lambda>w. w_ID w = wg_workload a \<and> w_Status w = WorkloadRunning) (workloads d) = Some w"
    and "w_ID w = wid"
    by (auto simp: running_id_def)
  from find_SomeD [OF this(1)] this(2) a show ?thesis by metis
qed

end
