(* ===== verification/Control_Plane.thy ===== *)
theory Control_Plane
  imports Gateway Policy
begin

text \<open>
  The control plane as a state machine. \<open>tx_step\<close> is one committed transaction of any
  module; \<open>cp_step\<close> is one call of a service method, one message of an authenticated agent,
  one background sweep or one spawned goroutine, under any arguments and any fault schedule. Every
  call is a sequence of committed transactions, so an invariant of \<open>tx_step\<close> holds in every
  reachable state, whatever the interleaving of calls and the faults.
\<close>

section \<open>Transactions\<close>

text \<open>
  An inventory report does not move a GPU that a workload holds: no reported GPU with an active
  attachment belongs to another node.
\<close>

definition no_rehome :: "uuid \<Rightarrow> gpu_report list \<Rightarrow> db \<Rightarrow> bool" where
  "no_rehome nodeID gs d \<longleftrightarrow> (\<forall>g \<in> set (gpus d). \<forall>a \<in> set (workload_gpus d).
     active a \<and> wg_gpu a = g_ID g \<and> g_UUID g \<in> gr_UUID ` set gs \<longrightarrow> g_NodeID g = nodeID)"

inductive tx_step :: "db \<Rightarrow> db \<Rightarrow> bool" where
  tx_launch: "w_NodeID wl = None \<Longrightarrow> launch_tx clk locked cmdID req wl d = Inr (x, d') \<Longrightarrow> tx_step d d'"
| tx_stop: "stop_tx clk cmdID wid reason d = Inr (y, d') \<Longrightarrow> tx_step d d'"
| tx_sweep: "sweep_tx clk d = Inr (z, d') \<Longrightarrow> tx_step d d'"
| tx_running: "running_tx now wid ssh jup logs d = Inr (n, d') \<Longrightarrow> tx_step d d'"
| tx_terminal: "terminal_state st \<Longrightarrow> set gs \<subseteq> set (active_gpu_ids wid d) \<Longrightarrow>
    terminal_tx now wid st logs gs d = Inr (b, d') \<Longrightarrow> tx_step d d'"
| tx_status: "live_state st \<Longrightarrow> set_status wid st d = Inr (u, d') \<Longrightarrow> tx_step d d'"
| tx_enqueue_stop: "enqueueStop now cmdID orgID nodeID wid reason d = Inr d' \<Longrightarrow> tx_step d d'"
| tx_cancel: "cancel_tx now wid d = Inr (n, d') \<Longrightarrow> tx_step d d'"
| tx_promote: "promote_tx clk locked cmdID orgID wid gpuType cnt d = Inr (p, d') \<Longrightarrow> tx_step d d'"
| tx_event: "insert_event now wid orgID stage message d = Inr (u, d') \<Longrightarrow> tx_step d d'"
| tx_stage: "set_stage wid stage d = Inr (u, d') \<Longrightarrow> tx_step d d'"
| tx_meter: "MeterWorkload clk wid d = Inr (u, d') \<Longrightarrow> tx_step d d'"
| tx_credit: "postLedgerTx now orgID delta kind desc None d = Inr d' \<Longrightarrow> tx_step d d'"
| tx_rates: "d' = d\<lparr>rate_cards := rs\<rparr> \<Longrightarrow> tx_step d d'"
| tx_enroll: "repo_Enroll clk newID tokenHash fp info credHash d = Inr (e, d') \<Longrightarrow> tx_step d d'"
| tx_heartbeat: "RecordHeartbeat clk orgID nodeID ver cnt util d = Inr (u, d') \<Longrightarrow> tx_step d d'"
| tx_node_status: "SetNodeStatus nodeID ns d = Inr (u, d') \<Longrightarrow> tx_step d d'"
| tx_offline: "SweepOffline clk d = Inr (u, d') \<Longrightarrow> tx_step d d'"
| tx_revoke: "revoke_credentials now nodeID d = (n, d') \<Longrightarrow> tx_step d d'"
| tx_remove: "RemoveNode clk orgID nodeID force d = Inr (rr, d') \<Longrightarrow> tx_step d d'"
| tx_inventory: "no_rehome nodeID gs d \<Longrightarrow>
    UpsertInventory clk newGPU nodeID orgID info labels gs d = Inr (u, d') \<Longrightarrow> tx_step d d'"
| tx_ack: "d' = Ack now i ok msg d \<Longrightarrow> tx_step d d'"
| tx_reset_due: "reset_due now nodeID d = Inr (u, d') \<Longrightarrow> tx_step d d'"
| tx_deliver: "d' = dl_db (fold (deliver_row now drains nodeID) cs (0, d, streams, sent)) \<Longrightarrow> tx_step d d'"
| tx_tokens: "d' = d\<lparr>enrollment_tokens := ts\<rparr> \<Longrightarrow> tx_step d d'"
| tx_metrics: "d' = d\<lparr>gpu_metrics := ms\<rparr> \<Longrightarrow> tx_step d d'"
| tx_rollups: "d' = d\<lparr>gpu_metrics_hourly := hs\<rparr> \<Longrightarrow> tx_step d d'"
| tx_heartbeats: "d' = d\<lparr>agent_heartbeats := hbs\<rparr> \<Longrightarrow> tx_step d d'"
| tx_events: "d' = d\<lparr>workload_events := evs\<rparr> \<Longrightarrow> tx_step d d'"

definition runs :: "sys \<Rightarrow> sys \<Rightarrow> bool" where
  "runs s t \<longleftrightarrow> tx_step\<^sup>*\<^sup>* (s_db s) (s_db t)"

named_theorems runs_intros \<open>operations are sequences of committed transactions\<close>

lemma runs_refl [simp]: "runs s s" and runs_same_db: "s_db t = s_db s \<Longrightarrow> runs s t"
  by (simp_all add: runs_def)

lemma runs_trans: "runs s t \<Longrightarrow> runs t u \<Longrightarrow> runs s u"
  unfolding runs_def by (rule rtranclp_trans)

lemma runs_effects [simp]:
  "runs s (notify orgID ts t) = runs s t" "runs s (Nudge n t) = runs s t" "runs s (audit e t) = runs s t"
  "runs s (spawn g t) = runs s t" "runs s (sv_notify sv orgID ts t) = runs s t"
  "runs s (auditSystem sv orgID a b w m t) = runs s t" "runs s (gw_notify pub orgID ts t) = runs s t"
  by (simp_all add: runs_def gw_notify_def)

lemma runs_atomically:
  assumes "atomically body s = (r, t)"
    and "\<And>a d'. body (s_db s) = Inr (a, d') \<Longrightarrow> tx_step (s_db s) d' \<or> d' = s_db s"
  shows "runs s t"
proof (cases rule: atomically_cases [of body s])
  case (commit a d)
  then show ?thesis using assms by (auto simp: runs_def)
qed (use assms(1) in \<open>auto simp: runs_def\<close>)

lemma runs_read:
  "atomically (\<lambda>d. Inr (f d, d)) s = (r, t) \<Longrightarrow> runs s t"
  by (erule runs_atomically) simp

section \<open>Service calls\<close>

lemma runs_recordEvent [runs_intros]: "runs s (snd (recordEvent now wid orgID stage message s))"
proof -
  obtain r t where t: "atomically (insert_event now wid orgID stage message) s = (r, t)" by fastforce
  have st: "runs s t" using t by (rule runs_atomically) (auto intro: tx_event)
  obtain r' u where u: "atomically (set_stage wid stage) t = (r', u)" by fastforce
  have "runs t u" using u by (rule runs_atomically) (auto intro: tx_stage)
  then show ?thesis using st runs_trans [OF st] by (auto simp: recordEvent_def t u split: sum.split)
qed

lemma runs_authorize: "authorize sv clk orgID dept proj s = (r, t) \<Longrightarrow> runs s t"
  by (auto simp: authorize_def intro!: runs_same_db dest: AuthorizeLaunch_eq_db split: option.splits)

lemma runs_event_step: "runs s t \<Longrightarrow> runs s (snd (recordEvent now wid orgID stage message t))"
  using runs_recordEvent by (rule runs_trans [rotated])

lemma runs_Launch: "runs s (snd (Launch sv clk locked wid cmdID rnd orgID req0 s))"
proof (cases "validateLaunch req0")
  case (Inr req)
  obtain ra s1 where a: "authorize sv clk orgID (lr_DepartmentID req) (lr_ProjectID req) s = (ra, s1)" by fastforce
  let ?body = "launch_tx clk locked cmdID req (new_workload (go_now clk) wid orgID rnd req)"
  obtain rb s2 where b: "atomically ?body s1 = (rb, s2)" by fastforce
  have s1: "runs s s1" using a by (rule runs_authorize)
  have "runs s1 s2" using b
    by (rule runs_atomically) (rule disjI1, erule tx_launch [rotated], simp add: new_workload_def)
  then have "runs s s2" by (rule runs_trans [OF s1])
  then show ?thesis using s1
    by (auto simp: Launch_def Inr a b Let_def intro!: runs_event_step split: sum.split option.split)
qed (simp add: Launch_def)

lemma runs_Stop: "runs s (snd (Stop sv clk cmdID wid reason s))"
proof -
  obtain r t where t: "atomically (stop_tx clk cmdID wid reason) s = (r, t)" by fastforce
  have "runs s t" using t by (rule runs_atomically) (auto intro: tx_stop)
  then show ?thesis
    by (auto simp: Stop_def t Let_def intro!: runs_event_step split: sum.split option.split)
qed

lemma s_db_sweep_hints [simp]: "s_db (sweep_hints sv rows seen s) = s_db s"
  by (induction sv rows seen s rule: sweep_hints.induct) (auto simp: Let_def)

lemma runs_SweepStuck: "runs s (snd (SweepStuck sv clk s))"
proof -
  obtain r t where t: "atomically (sweep_tx clk) s = (r, t)" by fastforce
  have "runs s t" using t by (rule runs_atomically) (auto intro: tx_sweep)
  then show ?thesis
    by (auto simp: SweepStuck_def t runs_def dest!: atomically_read(1) split: sum.split prod.split)
qed

lemma org_of_workload_db: "s_db (snd (org_of_workload wid s)) = s_db s"
  by (auto simp: org_of_workload_def dest!: atomically_read(1) split: sum.split prod.split option.split)

lemma runs_report_running: "runs s (snd (report_running sv clk cmdID nodeID wid ssh jup logs s))"
proof -
  obtain orgID cur s1 where q: "org_of_workload wid s = ((orgID, cur), s1)" by (metis surj_pair)
  have s1: "s_db s1 = s_db s" using org_of_workload_db [of wid s] by (simp add: q)
  obtain r s2 where r: "atomically (running_tx (go_now clk) wid ssh jup logs) s1 = (r, s2)" by fastforce
  have "runs s1 s2" using r by (rule runs_atomically) (auto intro: tx_running)
  then have s2: "runs s s2" using s1 by (simp add: runs_def)
  let ?body = "\<lambda>d. bindE (enqueueStop (db_now clk) cmdID orgID nodeID wid StopFailure d) (\<lambda>d1. Inr ((), d1))"
  obtain r3 s3 where e: "atomically ?body s2 = (r3, s3)" by fastforce
  have "runs s2 s3" using e by (rule runs_atomically) (auto simp: bindE_Inr_iff intro: tx_enqueue_stop)
  then have "runs s s3" by (rule runs_trans [OF s2])
  then show ?thesis using s2
    by (auto simp: report_running_def q r e Let_def intro!: runs_event_step split: sum.split)
qed

lemma runs_report_terminal:
  assumes "terminal_state st"
  shows "runs s (snd (report_terminal sv clk wid st logs s))"
proof -
  obtain q s1 where q: "org_of_workload wid s = (q, s1)" by fastforce
  obtain rg s2 where g: "atomically (\<lambda>d. Inr (active_gpu_ids wid d, d)) s1 = (rg, s2)" by fastforce
  have s2: "s_db s2 = s_db s" "rg = Inl ErrDB \<or> rg = Inr (active_gpu_ids wid (s_db s2))"
    using org_of_workload_db [of wid s] atomically_read(1,2) [OF g] by (simp_all add: q)
  let ?gs = "case rg of Inl e \<Rightarrow> [] | Inr gs \<Rightarrow> gs"
  obtain r s3 where t: "atomically (terminal_tx (go_now clk) wid st logs ?gs) s2 = (r, s3)" by fastforce
  have "runs s2 s3" using t
    by (rule runs_atomically)
      (rule disjI1, erule tx_terminal [rotated 2], rule assms, use s2(2) in auto)
  then have "runs s s3" using s2(1) by (simp add: runs_def)
  then show ?thesis
    by (cases q) (auto simp: report_terminal_def q g t Let_def intro!: runs_event_step split: sum.split)
qed

lemma runs_UpdateStatus:
  assumes "st \<noteq> WorkloadQueued"
  shows "runs s (snd (UpdateStatus sv clk cmdID nodeID wid st ssh jup msg logs s))"
proof -
  obtain r s1 where r: "atomically (requireWorkloadOnNode nodeID wid) s = (r, s1)" by fastforce
  have s1: "runs s s1" using r
    by (rule runs_atomically) (auto simp: requireWorkloadOnNode_def split: option.splits if_splits)
  have "runs s1 (snd (atomically (set_status wid x) s1))" if "live_state x" for x
    using that by (cases "atomically (set_status wid x) s1") (auto intro: tx_status elim!: runs_atomically)
  then show ?thesis using assms s1 runs_trans [OF s1] runs_report_running runs_report_terminal
    by (cases st) (auto simp: UpdateStatus_def r split: sum.split)
qed

lemma runs_RecordStageEvent: "runs s (snd (RecordStageEvent clk nodeID wid stage s))"
proof -
  obtain r t where t: "atomically (\<lambda>d. Inr (workload_by_id wid d, d)) s = (r, t)" by fastforce
  then have "runs s t" by (rule runs_read)
  then show ?thesis
    by (auto simp: RecordStageEvent_def t intro!: runs_event_step split: sum.split option.split)
qed

lemma runs_CancelQueued: "runs s (snd (CancelQueued sv clk wid s))"
proof -
  obtain r t where t: "atomically (cancel_tx (db_now clk) wid) s = (r, t)" by fastforce
  have st: "runs s t" using t by (rule runs_atomically) (auto intro: tx_cancel)
  obtain q u where u: "org_of_workload wid t = (q, u)" by fastforce
  have "runs s u" using st org_of_workload_db [of wid t] by (simp add: u runs_def)
  then show ?thesis using st
    by (cases q) (auto simp: CancelQueued_def t u Let_def intro!: runs_event_step split: sum.split)
qed

lemma runs_promoteOne: "runs s (snd (promoteOne sv clk locked cmdID orgID wid gpuType cnt s))"
proof -
  obtain r t where t: "atomically (promote_tx clk locked cmdID orgID wid gpuType cnt) s = (r, t)" by fastforce
  have "runs s t" using t by (rule runs_atomically) (auto intro: tx_promote)
  then show ?thesis
    by (auto simp: promoteOne_def t Let_def intro!: runs_event_step split: sum.split option.split)
qed

lemma runs_promote_loop: "runs s (snd (promote_loop sv clk locked cmdOf orgID cs n s))"
proof (induction cs arbitrary: n s)
  case (Cons c cs)
  obtain ra s1 where a: "authorize sv clk orgID (w_DepartmentID c) (w_ProjectID c) s = (ra, s1)" by fastforce
  let ?p = "promoteOne sv clk (locked (w_ID c)) (cmdOf (w_ID c)) orgID (w_ID c)
    (w_requested_gpu_type c) (w_RequestedGPUCount c) s1"
  obtain rb s2 where b: "?p = (rb, s2)" by fastforce
  have s1: "runs s s1" using a by (rule runs_authorize)
  have "runs s1 s2" using runs_promoteOne [of s1] b by (metis snd_conv)
  then have "runs s s2" by (rule runs_trans [OF s1])
  then show ?case using s1 Cons.IH runs_trans by (auto simp: a b split: sum.split)
qed simp

lemma runs_PromoteQueued: "runs s (snd (PromoteQueued sv clk locked cmdOf orgID s))"
proof -
  obtain r t where t: "atomically (\<lambda>d. Inr (queue_of orgID d, d)) s = (r, t)" by fastforce
  then have "runs s t" by (rule runs_read)
  then show ?thesis using runs_promote_loop runs_trans by (auto simp: PromoteQueued_def t split: sum.split)
qed

lemma runs_promote_orgs: "runs s (snd (promote_orgs sv clk locked cmdOf orgs n s))"
proof (induction orgs arbitrary: n s)
  case (Cons orgID orgs)
  obtain m e t where t: "PromoteQueued sv clk locked cmdOf orgID s = ((m, e), t)" by (metis surj_pair)
  then have "runs s t" using runs_PromoteQueued [of s sv clk locked cmdOf orgID] by simp
  then show ?case using Cons.IH runs_trans by (auto simp: t split: option.split)
qed simp

lemma runs_PromoteAllQueued: "runs s (snd (PromoteAllQueued sv clk locked cmdOf s))"
proof -
  let ?q = "\<lambda>d. remdups (map w_OrgID (filter (\<lambda>w. w_Status w = WorkloadQueued) (workloads d)))"
  obtain r t where t: "atomically (\<lambda>d. Inr (?q d, d)) s = (r, t)" by fastforce
  then have "runs s t" by (rule runs_read)
  then show ?thesis using runs_promote_orgs runs_trans by (auto simp: PromoteAllQueued_def t split: sum.split)
qed

lemma runs_meter_all: "runs s (snd (meter_all clk ws n e s))"
proof (induction ws arbitrary: n e s)
  case (Cons i ws)
  obtain r t where t: "atomically (MeterWorkload clk i) s = (r, t)" by fastforce
  have st: "runs s t" using t by (rule runs_atomically) (auto intro: tx_meter)
  then show ?case using Cons.IH runs_trans [OF st] by (auto simp: t split: sum.split)
qed simp

lemma runs_MeterRunning: "runs s (snd (MeterRunning clk s))"
proof -
  obtain r t where t: "atomically (\<lambda>d. Inr (map w_ID (filter (owes_slice (db_now clk)) (workloads d)), d)) s = (r, t)"
    by fastforce
  then have "runs s t" by (rule runs_read)
  then show ?thesis using runs_meter_all runs_trans by (auto simp: MeterRunning_def t split: sum.split)
qed

lemma CreditSummary_db: "s_db (snd (CreditSummary clk orgID s)) = s_db s"
  by (auto simp: CreditSummary_def Let_def dest!: atomically_read(1) split: prod.split sum.split)

lemma runs_AddCredit: "runs s (snd (AddCredit clk orgID amount kind desc s))"
proof -
  let ?body = "\<lambda>d. bindE (postLedgerTx (db_now clk) orgID amount (if kind = '''' then ''topup'' else kind) desc None d)
    (\<lambda>d1. Inr ((), d1))"
  obtain r t where t: "atomically ?body s = (r, t)" by fastforce
  have "runs s t" using t by (rule runs_atomically) (auto simp: bindE_Inr_iff intro: tx_credit)
  moreover have "s_db (snd (CreditSummary clk orgID t)) = s_db t" by (rule CreditSummary_db)
  ultimately show ?thesis
    by (auto simp: AddCredit_def t Let_def runs_def split: sum.split prod.split)
qed

lemma runs_SetRate: "runs s (snd (SetRate clk rcID orgID model rate currency s))"
proof -
  let ?close = "\<lambda>d. Inr ((), d\<lparr>rate_cards :=
      upd (\<lambda>r. rc_OrgID r = orgID \<and> rc_GPUModel r = model \<and> rc_EffectiveTo r = None)
        (\<lambda>r. r\<lparr>rc_EffectiveTo := Some (db_now clk)\<rparr>) (rate_cards d)\<rparr>)"
  obtain r t where t: "atomically ?close s = (r, t)" by fastforce
  have st: "runs s t" using t by (rule runs_atomically) (auto intro: tx_rates)
  have "runs t (snd (atomically (\<lambda>d. Inr (rc, d\<lparr>rate_cards := rate_cards d @ [rc]\<rparr>)) t))" for rc
    by (cases "atomically (\<lambda>d. Inr (rc, d\<lparr>rate_cards := rate_cards d @ [rc]\<rparr>)) t")
      (auto elim!: runs_atomically intro: tx_rates)
  then show ?thesis using runs_trans [OF st] by (simp add: SetRate_def t Let_def)
qed

lemma runs_Enroll: "runs s (snd (Enroll hash clk newID rnd token fp info s))"
proof -
  let ?body = "repo_Enroll clk newID (hash token) fp info (hash (randomToken rnd))"
  obtain r t where t: "atomically ?body s = (r, t)" by fastforce
  have "runs s t" using t by (rule runs_atomically) (auto intro: tx_enroll)
  then show ?thesis by (auto simp: Enroll_def t Let_def split: sum.split)
qed

lemma runs_gw_Enroll: "runs s (snd (gw_Enroll hash clk newID rnd token fp info s))"
  using runs_Enroll [of s hash clk newID rnd token fp info]
  by (auto simp: gw_Enroll_def split: sum.split prod.split)

lemma runs_MarkOffline: "runs s (snd (MarkOffline nodeID s))"
  by (cases "MarkOffline nodeID s") (auto simp: MarkOffline_def elim!: runs_atomically intro: tx_node_status)

lemma runs_RevokeNodeCredentials: "runs s (snd (RevokeNodeCredentials clk orgID nodeID s))"
proof -
  obtain r t where t: "atomically (\<lambda>d. Inr (\<exists>n \<in> set (gpu_nodes d). n_ID n = nodeID \<and> n_OrgID n = orgID, d)) s = (r, t)"
    by fastforce
  have st: "runs s t" using t by (rule runs_read)
  have "runs t (snd (atomically (\<lambda>d. Inr (revoke_credentials (db_now clk) nodeID d)) t))"
    by (cases "atomically (\<lambda>d. Inr (revoke_credentials (db_now clk) nodeID d)) t")
      (auto elim!: runs_atomically intro: tx_revoke)
  then show ?thesis using st runs_trans [OF st] by (auto simp: RevokeNodeCredentials_def t split: sum.split)
qed

lemma runs_handleWorkloadStatus: "runs s (handleWorkloadStatus sv clk cmdID ai ws s)"
proof -
  have "protoToWorkloadState p \<noteq> WorkloadQueued" for p
    by (cases p) (simp_all add: protoToWorkloadState_def)
  then show ?thesis
    by (auto simp: handleWorkloadStatus_def intro: runs_UpdateStatus runs_RecordStageEvent split: option.split)
qed

lemma runs_handleInventory:
  assumes "no_rehome (ai_NodeID ai) gs (s_db s)"
  shows "runs s (handleInventory pub clk newGPU ai info gs s)"
proof -
  obtain r t where t: "atomically (UpsertInventory clk newGPU (ai_NodeID ai) (ai_OrgID ai) info [] gs) s = (r, t)"
    by fastforce
  have "runs s t" using t by (rule runs_atomically) (rule disjI1, erule tx_inventory [rotated], rule assms)
  then show ?thesis by (auto simp: handleInventory_def t split: sum.split)
qed

lemma runs_Ingest: "runs s (snd (Ingest orgID samples s))"
proof -
  let ?known = "\<lambda>d. map (\<lambda>g. (g_ID g, g_NodeID g)) (filter (\<lambda>g. g_ID g \<in> sa_GPUID ` set samples) (gpus d))"
  obtain r t where t: "atomically (\<lambda>d. Inr (?known d, d)) s = (r, t)" by fastforce
  have st: "runs s t" using t by (rule runs_read)
  have "runs t (snd (atomically (ingest_tx orgID known samples) t))" for known
    by (cases "atomically (ingest_tx orgID known samples) t")
      (auto simp: ingest_tx_def elim!: runs_atomically intro: tx_metrics)
  then show ?thesis using st runs_trans [OF st] by (auto simp: Ingest_def t split: sum.split)
qed

lemma runs_handleMetricsBatch: "runs s (handleMetricsBatch ai batch s)"
proof -
  obtain m t where t: "resolveGPUIDs (ai_NodeID ai) s = (m, t)" by fastforce
  have "s_db t = s_db s"
    using t by (auto simp: resolveGPUIDs_def atomically_def bindE_def Let_def split: if_splits sum.splits prod.splits)
  then have "runs s t" by (rule runs_same_db)
  then show ?thesis using runs_Ingest runs_trans by (auto simp: handleMetricsBatch_def t Let_def)
qed

lemma runs_gw_Ack: "runs s (gw_Ack clk cid ok e s)"
proof (cases cid)
  case (Some i)
  then show ?thesis
    by (cases "atomically (\<lambda>d. Inr ((), Ack (db_now clk) i ok e d)) s")
      (auto simp: gw_Ack_def elim!: runs_atomically intro: tx_ack)
qed (simp add: gw_Ack_def)

lemma runs_handle_message:
  assumes "\<And>info gs. m = Inventory info gs \<Longrightarrow> no_rehome (ai_NodeID ai) gs (s_db s)"
  shows "runs s (handle_message sv clk cmdID newGPU ai m s)"
proof (cases m)
  case (Heartbeat ver cnt util)
  then show ?thesis
    by (cases "atomically (RecordHeartbeat clk (ai_OrgID ai) (ai_NodeID ai) ver (uint cnt) util) s")
      (auto simp: handle_message_def elim!: runs_atomically intro: tx_heartbeat)
qed (use assms in \<open>auto simp: handle_message_def intro: runs_handleInventory runs_handleMetricsBatch
    runs_handleWorkloadStatus runs_gw_Ack\<close>)

lemma runs_deliverBatch:
  assumes "deliverBatch clk locked drains k nodeID g = (r, g')"
  shows "runs (gw_sys g) (gw_sys g')"
proof (cases r)
  case (Inl e)
  then show ?thesis using assms
    by (auto simp: deliverBatch_def Let_def runs_def dest!: atomically_Inl split: prod.splits sum.splits)
next
  case (Inr n)
  then show ?thesis using deliverBatch_Inr(2) [of clk locked drains k nodeID g n g'] assms
    by (auto simp: runs_def intro!: r_into_rtranclp tx_deliver)
qed

lemma runs_deliverNode: "runs (gw_sys g) (gw_sys (deliverNode clk locked drains k nodeID g))"
proof (induction clk locked drains k nodeID g rule: deliverNode.induct)
  case (1 clk locked drains k nodeID g)
  obtain r g1 where b: "deliverBatch clk locked drains k nodeID g = (r, g1)" by fastforce
  then have "runs (gw_sys g) (gw_sys g1)" by (rule runs_deliverBatch)
  then show ?case using 1 [OF b [symmetric]] runs_trans
    by (subst deliverNode.simps) (auto simp: b split: sum.split)
qed

lemma runs_OnConnect: "runs (gw_sys g) (gw_sys (OnConnect clk locked drains k nodeID g))"
proof -
  obtain r t where t: "atomically (reset_due (db_now clk) nodeID) (gw_sys g) = (r, t)" by fastforce
  have "runs (gw_sys g) t" using t by (rule runs_atomically) (auto intro: tx_reset_due)
  then show ?thesis using runs_deliverNode [of "g\<lparr>gw_sys := t\<rparr>"] runs_trans
    by (fastforce simp: OnConnect_def t split: sum.split)
qed

lemma runs_batchedDelete:
  assumes "\<And>d t. tx_step d (put t d)"
  shows "runs s (snd (batchedDelete fuel get put P n s))"
proof (induction fuel arbitrary: n s)
  case (Suc fuel)
  obtain r t where t: "atomically (delete_batch get put P) s = (r, t)" by fastforce
  have "runs s t" using t by (rule runs_atomically) (auto simp: delete_batch_def intro: assms)
  then show ?case using Suc runs_trans by (auto simp: t split: sum.split)
qed simp

lemma runs_batch_step:
  assumes "runs s t" and "batchedDelete fuel get put P n t = (r, u)" and "\<And>d x. tx_step d (put x d)"
  shows "runs s u"
  using runs_trans [OF assms(1)] runs_batchedDelete [of put t fuel get P n, OF assms(3)] assms(2) by simp

lemma runs_SweepRetention: "runs s (snd (SweepRetention fuel clk p s))"
proof -
  define q where "q = (if rp_RawMetrics p \<le> 0 then DefaultRetention else p)"
  define b where "b = trunc_hour (go_now clk - rp_RawMetrics q)"
  obtain r0 s1 where s1: "atomically (rollup b) s = (r0, s1)" by fastforce
  obtain r1 s2 where s2: "batchedDelete fuel gpu_metrics (\<lambda>t d. d\<lparr>gpu_metrics := t\<rparr>) (\<lambda>m. gm_ts m < b) 0 s1 = (r1, s2)"
    by fastforce
  obtain r2 s3 where s3: "batchedDelete fuel agent_heartbeats (\<lambda>t d. d\<lparr>agent_heartbeats := t\<rparr>)
      (\<lambda>h. hb_TS h < go_now clk - rp_Heartbeats q) 0 s2 = (r2, s3)" by fastforce
  obtain r3 s4 where s4: "batchedDelete fuel workload_events (\<lambda>t d. d\<lparr>workload_events := t\<rparr>)
      (\<lambda>w. we_ts w < go_now clk - rp_Events q) 0 s3 = (r3, s4)" by fastforce
  obtain r4 s5 where s5: "batchedDelete fuel gpu_metrics_hourly (\<lambda>t d. d\<lparr>gpu_metrics_hourly := t\<rparr>)
      (\<lambda>h. gh_hour h < go_now clk - rp_RollupMetrics q) 0 s4 = (r4, s5)" by fastforce
  have 1: "runs s s1" using s1
    by (rule runs_atomically) (auto simp: rollup_def Let_def intro: tx_rollups split: if_splits)
  have 2: "runs s s2" using 1 s2 by (rule runs_batch_step) (rule tx_metrics, simp)
  have 3: "runs s s3" using 2 s3 by (rule runs_batch_step) (rule tx_heartbeats, simp)
  have 4: "runs s s4" using 3 s4 by (rule runs_batch_step) (rule tx_events, simp)
  have 5: "runs s s5" using 4 s5 by (rule runs_batch_step) (rule tx_rollups, simp)
  show ?thesis
    unfolding SweepRetention_def Let_def q_def [symmetric] b_def [symmetric] s1 s2 s3 s4 s5
    using 1 2 3 4 5 by (simp add: s1 s2 s3 s4 s5 split: sum.split)
qed

lemma runs_stop_findings:
  assumes "\<And>wid s. runs s (snd (stop wid s))"
  shows "runs s (snd (stop_findings stop fs n s))"
proof (induction fs arbitrary: n s)
  case (Cons f fs)
  have "runs s (snd (stop_findings stop fs m (snd (stop wid s))))" for wid m
    using assms Cons by (rule runs_trans)
  then show ?case using Cons
    by (auto split: option.split prod.split sum.split) (metis snd_conv)+
qed simp

lemma runs_sweep_orgs:
  assumes "\<And>wid s. runs s (snd (stop wid s))"
  shows "runs s (snd (sweep_orgs stop clk orgs n s))"
proof (induction orgs arbitrary: n s)
  case (Cons orgID orgs)
  obtain r t where t: "atomically (\<lambda>d. Inr (EvaluateIdle clk orgID d, d)) s = (r, t)" by fastforce
  then have st: "runs s t" by (rule runs_read)
  have "runs s (snd (sweep_orgs stop clk orgs m u))" if "stop_findings stop fs n t = (m, u)" for fs m u
    using runs_stop_findings [of stop t fs n, OF assms] that st Cons runs_trans by (metis snd_conv)
  then show ?case using Cons st runs_trans [OF st] by (auto simp: t split: sum.split prod.split)
qed simp

lemma runs_SweepIdle:
  assumes "\<And>wid s. runs s (snd (stop wid s))"
  shows "runs s (snd (SweepIdle stop clk s))"
proof -
  obtain r t where t: "atomically (\<lambda>d. Inr (map o_ID (organizations d), d)) s = (r, t)" by fastforce
  then have st: "runs s t" by (rule runs_read)
  show ?thesis
    using st runs_sweep_orgs [of stop t clk _ 0, OF assms] runs_trans [OF st]
    by (auto simp: SweepIdle_def t split: sum.split prod.split) (metis snd_conv)
qed

section \<open>The state machine\<close>

text \<open>
  One step of the control plane. The arguments are arbitrary: any request, any agent message
  (with the side condition on inventories), any clock, any set of locked rows, any fresh ids.
\<close>

inductive cp_step :: "sys \<Rightarrow> sys \<Rightarrow> bool" where
  do_launch: "cp_step s (snd (Launch sv clk locked wid cmdID rnd orgID req s))"
| do_stop: "cp_step s (snd (Stop sv clk cmdID wid reason s))"
| do_cancel: "cp_step s (snd (CancelQueued sv clk wid s))"
| do_sweep_stuck: "cp_step s (snd (SweepStuck sv clk s))"
| do_promote_all: "cp_step s (snd (PromoteAllQueued sv clk lockedOf cmdOf s))"
| do_meter_running: "cp_step s (snd (MeterRunning clk s))"
| do_sweep_idle: "cp_step s (snd (SweepIdle (\<lambda>wid. Stop sv clk (cmdOf wid) wid StopIdleReclaim) clk s))"
| do_sweep_offline: "cp_step s (snd (atomically (SweepOffline clk) s))"
| do_retention: "cp_step s (snd (SweepRetention fuel clk pol s))"
| go_promote: "GoPromoteQueued orgID \<in> set (s_spawned s) \<Longrightarrow>
    cp_step s (snd (PromoteQueued sv clk lockedOf cmdOf orgID s))"
| go_meter: "GoMeterWorkload wid \<in> set (s_spawned s) \<Longrightarrow> cp_step s (snd (atomically (MeterWorkload clk wid) s))"
| do_add_credit: "cp_step s (snd (AddCredit clk orgID amount kind desc s))"
| do_set_rate: "cp_step s (snd (SetRate clk rcID orgID model rate currency s))"
| do_enroll: "cp_step s (snd (gw_Enroll hash clk newID rnd token fp info s))"
| do_revoke_node: "cp_step s (snd (RevokeNodeCredentials clk orgID nodeID s))"
| do_remove_node: "cp_step s (snd (atomically (RemoveNode clk orgID nodeID force) s))"
| do_mark_offline: "cp_step s (snd (MarkOffline nodeID s))"
| do_agent_message: "(\<And>info gs. m = Inventory info gs \<Longrightarrow> no_rehome (ai_NodeID ai) gs (s_db s)) \<Longrightarrow>
    cp_step s (handle_message sv clk cmdID newGPU ai m s)"
| do_deliver: "gw_sys g = s \<Longrightarrow> cp_step s (gw_sys (deliverNode clk lk drains k nodeID g))"
| do_on_connect: "gw_sys g = s \<Longrightarrow> cp_step s (gw_sys (OnConnect clk lk drains k nodeID g))"

text \<open>Every call of the control plane is a sequence of committed transactions.\<close>

lemma cp_step_runs: "cp_step s t \<Longrightarrow> runs s t"
proof (induction rule: cp_step.induct)
  case (do_sweep_offline s clk)
  then show ?case
    by (cases "atomically (SweepOffline clk) s") (auto elim!: runs_atomically intro: tx_offline)
next
  case (go_meter wid s clk)
  then show ?case
    by (cases "atomically (MeterWorkload clk wid) s") (auto elim!: runs_atomically intro: tx_meter)
next
  case (do_remove_node s clk orgID nodeID force)
  then show ?case
    by (cases "atomically (RemoveNode clk orgID nodeID force) s") (auto elim!: runs_atomically intro: tx_remove)
qed (auto intro: runs_Launch runs_Stop runs_CancelQueued runs_SweepStuck runs_PromoteAllQueued
    runs_MeterRunning runs_SweepIdle runs_SweepRetention runs_PromoteQueued runs_AddCredit runs_SetRate
    runs_gw_Enroll runs_RevokeNodeCredentials runs_MarkOffline runs_handle_message runs_deliverNode
    runs_OnConnect)

text \<open>
  The contract of an invariant of the database: every transaction keeps it. It then holds after
  every call and along every run of the control plane.
\<close>

locale tx_invariant =
  fixes I :: "db \<Rightarrow> bool"
  assumes tx_keeps: "tx_step d d' \<Longrightarrow> I d \<Longrightarrow> I d'"
begin

lemma runs_keeps: "runs s t \<Longrightarrow> I (s_db s) \<Longrightarrow> I (s_db t)"
  unfolding runs_def by (induction rule: rtranclp_induct) (auto intro: tx_keeps)

end

sublocale tx_invariant \<subseteq> step_system I cp_step
  by unfold_locales (rule runs_keeps [OF cp_step_runs])

end
