(* ===== verification/Allocation.thy ===== *)
theory Allocation
  imports Control_Plane
begin

text \<open>
  The allocation invariant: no GPU is held twice, only live workloads hold GPUs, a held GPU is
  marked in use and stands on the node of its workload, and a queued workload holds nothing. Every
  transaction keeps it.
\<close>

section \<open>The invariant\<close>

text \<open>An active attachment is backed by a live workload and an in-use GPU on the same node.\<close>

definition holds :: "WorkloadRow list \<Rightarrow> GPU list \<Rightarrow> workload_gpu \<Rightarrow> bool" where
  "holds ws gs a \<longleftrightarrow> (\<exists>w \<in> set ws. w_ID w = wg_workload a \<and> live_state (w_Status w) \<and>
     (\<exists>g \<in> set gs. g_ID g = wg_gpu a \<and> g_Status g = GPUInUse \<and> w_NodeID w = Some (g_NodeID g)))"

definition alloc_ok :: "WorkloadRow list \<Rightarrow> GPU list \<Rightarrow> workload_gpu list \<Rightarrow> bool" where
  "alloc_ok ws gs as \<longleftrightarrow>
     distinct (map w_ID ws) \<and> distinct (map g_ID gs) \<and>
     distinct (map wg_gpu (filter active as)) \<and>
     (\<forall>a \<in> set as. \<exists>w \<in> set ws. w_ID w = wg_workload a) \<and>
     (\<forall>a \<in> set as. active a \<longrightarrow> holds ws gs a) \<and>
     (\<forall>w \<in> set ws. w_Status w = WorkloadQueued \<longrightarrow>
        w_NodeID w = None \<and> (\<forall>a \<in> set as. wg_workload a \<noteq> w_ID w))"

definition alloc_inv :: "db \<Rightarrow> bool" where
  "alloc_inv d \<longleftrightarrow> alloc_ok (workloads d) (gpus d) (workload_gpus d)"

lemma alloc_okD:
  assumes "alloc_ok ws gs as"
  shows "distinct (map w_ID ws)" and "distinct (map g_ID gs)" and "distinct (map wg_gpu (filter active as))"
    and "\<And>a. a \<in> set as \<Longrightarrow> \<exists>w \<in> set ws. w_ID w = wg_workload a"
    and "\<And>a. a \<in> set as \<Longrightarrow> active a \<Longrightarrow> holds ws gs a"
    and "\<And>w. w \<in> set ws \<Longrightarrow> w_Status w = WorkloadQueued \<Longrightarrow> w_NodeID w = None"
    and "\<And>w a. w \<in> set ws \<Longrightarrow> w_Status w = WorkloadQueued \<Longrightarrow> a \<in> set as \<Longrightarrow> wg_workload a \<noteq> w_ID w"
  using assms unfolding alloc_ok_def by blast+

lemma alloc_okI:
  assumes "distinct (map w_ID ws)" and "distinct (map g_ID gs)" and "distinct (map wg_gpu (filter active as))"
    and "\<And>a. a \<in> set as \<Longrightarrow> \<exists>w \<in> set ws. w_ID w = wg_workload a"
    and "\<And>a. a \<in> set as \<Longrightarrow> active a \<Longrightarrow> holds ws gs a"
    and "\<And>w. w \<in> set ws \<Longrightarrow> w_Status w = WorkloadQueued \<Longrightarrow> w_NodeID w = None"
    and "\<And>w a. w \<in> set ws \<Longrightarrow> w_Status w = WorkloadQueued \<Longrightarrow> a \<in> set as \<Longrightarrow> wg_workload a \<noteq> w_ID w"
  shows "alloc_ok ws gs as"
  using assms unfolding alloc_ok_def by blast

lemma alloc_inv_empty: "alloc_inv empty_db"
  by (simp add: alloc_inv_def alloc_ok_def empty_db_def)

lemma holdsE:
  assumes "holds ws gs a"
  obtains w g where "w \<in> set ws" and "w_ID w = wg_workload a" and "live_state (w_Status w)"
    and "g \<in> set gs" and "g_ID g = wg_gpu a" and "g_Status g = GPUInUse" and "w_NodeID w = Some (g_NodeID g)"
  using assms unfolding holds_def by blast

lemma holdsI:
  "w \<in> set ws \<Longrightarrow> w_ID w = wg_workload a \<Longrightarrow> live_state (w_Status w) \<Longrightarrow> g \<in> set gs \<Longrightarrow>
   g_ID g = wg_gpu a \<Longrightarrow> g_Status g = GPUInUse \<Longrightarrow> w_NodeID w = Some (g_NodeID g) \<Longrightarrow> holds ws gs a"
  unfolding holds_def by blast

section \<open>Elementary changes\<close>

lemma id_kept_upd:
  assumes "\<And>r. P r \<Longrightarrow> k (f r) = k r"
  shows "map k (upd P f t) = map k t" and "(\<exists>r \<in> set (upd P f t). k r = x) \<longleftrightarrow> (\<exists>r \<in> set t. k r = x)"
proof -
  show "map k (upd P f t) = map k t" using assms by (auto simp: upd_def)
  then have "k ` set (upd P f t) = k ` set t" by (metis list.set_map)
  then show "(\<exists>r \<in> set (upd P f t). k r = x) \<longleftrightarrow> (\<exists>r \<in> set t. k r = x)" by (metis imageE imageI)
qed

text \<open>Workload rows change without losing their GPUs and without entering the queue.\<close>

lemma alloc_ok_upd_workloads:
  assumes ok: "alloc_ok ws gs as"
    and "\<And>w. P w \<Longrightarrow> w_ID (f w) = w_ID w" and "\<And>w. P w \<Longrightarrow> w_NodeID (f w) = w_NodeID w"
    and "\<And>w. P w \<Longrightarrow> live_state (w_Status w) \<Longrightarrow> live_state (w_Status (f w))"
    and "\<And>w. P w \<Longrightarrow> w_Status (f w) = WorkloadQueued \<Longrightarrow> w_Status w = WorkloadQueued"
  shows "alloc_ok (upd P f ws) gs as"
proof (rule alloc_okI)
  note D = alloc_okD [OF ok]
  note K = id_kept_upd [of P w_ID f ws, OF assms(2)]
  show "distinct (map w_ID (upd P f ws))" using D(1) K(1) by simp
  show "distinct (map g_ID gs)" by (rule D(2))
  show "distinct (map wg_gpu (filter active as))" by (rule D(3))
  show "\<exists>w \<in> set (upd P f ws). w_ID w = wg_workload a" if "a \<in> set as" for a using D(4) [OF that] K(2) by simp
  show "holds (upd P f ws) gs a" if a: "a \<in> set as" "active a" for a
  proof -
    obtain w g where w: "w \<in> set ws" "w_ID w = wg_workload a" "live_state (w_Status w)" "w_NodeID w = Some (g_NodeID g)"
      and g: "g \<in> set gs" "g_ID g = wg_gpu a" "g_Status g = GPUInUse"
      using D(5) [OF a] by (rule holdsE)
    show ?thesis
      using in_set_updI [OF w(1), of P f] w(2-4) assms(2-4) [of w]
      by (intro holdsI [OF _ _ _ g, of "if P w then f w else w"]) (auto split: if_splits)
  qed
  show "w_NodeID w = None" if "w \<in> set (upd P f ws)" "w_Status w = WorkloadQueued" for w
    using that(1)
  proof (cases rule: in_set_updE)
    case (hit q)
    then show ?thesis using that(2) D(6) [of q] assms(3,5) [of q] by simp
  next
    case miss
    then show ?thesis using that(2) D(6) by simp
  qed
  show "wg_workload a \<noteq> w_ID w" if "w \<in> set (upd P f ws)" "w_Status w = WorkloadQueued" "a \<in> set as" for w a
    using that(1)
  proof (cases rule: in_set_updE)
    case (hit q)
    then show ?thesis using that(2,3) D(7) [of q a] assms(2,5) [of q] by simp
  next
    case miss
    then show ?thesis using that(2,3) D(7) by simp
  qed
qed

text \<open>Attachments are released and the workloads that held them may leave the live states.\<close>

lemma filter_active_released:
  "filter active (upd Q (\<lambda>a. a\<lparr>wg_detached_at := Some now\<rparr>) as) = filter (\<lambda>a. active a \<and> \<not> Q a) as"
  by (rule filter_upd_out) (simp add: active_def)

lemma alloc_ok_release:
  assumes ok: "alloc_ok ws gs as"
    and "\<And>w. P w \<Longrightarrow> w_ID (f w) = w_ID w" and "\<And>w. P w \<Longrightarrow> w_Status (f w) \<noteq> WorkloadQueued"
    and free: "\<And>a w. a \<in> set as \<Longrightarrow> active a \<Longrightarrow> w \<in> set ws \<Longrightarrow> P w \<Longrightarrow> wg_workload a = w_ID w \<Longrightarrow> Q a"
  shows "alloc_ok (upd P f ws) gs (upd Q (\<lambda>a. a\<lparr>wg_detached_at := Some now\<rparr>) as)"
proof (rule alloc_okI)
  let ?as = "upd Q (\<lambda>a. a\<lparr>wg_detached_at := Some now\<rparr>) as"
  note D = alloc_okD [OF ok]
  note K = id_kept_upd [of P w_ID f ws, OF assms(2)]
  have row: "\<exists>b \<in> set as. wg_workload b = wg_workload a" if "a \<in> set ?as" for a
    using that by (cases rule: in_set_updE) auto
  show "distinct (map w_ID (upd P f ws))" using D(1) K(1) by simp
  show "distinct (map g_ID gs)" by (rule D(2))
  show "distinct (map wg_gpu (filter active ?as))"
    unfolding filter_active_released using D(3) by (rule distinct_map_filter_upd_key)
  show "\<exists>w \<in> set (upd P f ws). w_ID w = wg_workload a" if "a \<in> set ?as" for a
    using row [OF that] D(4) K(2) by metis
  show "holds (upd P f ws) gs a" if b: "a \<in> set ?as" "active a" for a
  proof -
    have a: "a \<in> set as" "\<not> Q a" using b by (auto simp: set_upd active_def split: if_splits)
    obtain w g where w: "w \<in> set ws" "w_ID w = wg_workload a" "live_state (w_Status w)" "w_NodeID w = Some (g_NodeID g)"
      and g: "g \<in> set gs" "g_ID g = wg_gpu a" "g_Status g = GPUInUse"
      using D(5) [OF a(1) b(2)] by (rule holdsE)
    have "\<not> P w" using free [OF a(1) b(2) w(1)] a(2) w(2) by auto
    then show ?thesis using in_set_updI [OF w(1), of P f] w(2-4) g by (intro holdsI [OF _ _ _ g]) auto
  qed
  show "w_NodeID w = None" if "w \<in> set (upd P f ws)" "w_Status w = WorkloadQueued" for w
    using that(1) by (cases rule: in_set_updE) (use that(2) D(6) assms(3) in auto)
  show "wg_workload a \<noteq> w_ID w" if w: "w \<in> set (upd P f ws)" "w_Status w = WorkloadQueued" and a: "a \<in> set ?as" for w a
  proof -
    have "w \<in> set ws" using w(1) by (cases rule: in_set_updE) (use w(2) assms(3) in auto)
    moreover obtain b where "b \<in> set as" "wg_workload b = wg_workload a" using row [OF a] by blast
    ultimately show ?thesis using D(7) [OF _ w(2), of b] by metis
  qed
qed

text \<open>GPUs that no active attachment names change freely.\<close>

lemma alloc_ok_upd_gpus:
  assumes ok: "alloc_ok ws gs as" and "\<And>g. P g \<Longrightarrow> g_ID (f g) = g_ID g"
    and "\<And>g a. P g \<Longrightarrow> g \<in> set gs \<Longrightarrow> a \<in> set as \<Longrightarrow> active a \<Longrightarrow> wg_gpu a = g_ID g \<Longrightarrow>
      g_Status g = GPUInUse \<Longrightarrow> g_Status (f g) = GPUInUse \<and> g_NodeID (f g) = g_NodeID g"
  shows "alloc_ok ws (upd P f gs) as"
proof (rule alloc_okI)
  note D = alloc_okD [OF ok]
  show "distinct (map g_ID (upd P f gs))" using D(2) id_kept_upd(1) [of P g_ID f gs, OF assms(2)] by simp
  show "holds ws (upd P f gs) a" if a: "a \<in> set as" "active a" for a
  proof -
    obtain w g where w: "w \<in> set ws" "w_ID w = wg_workload a" "live_state (w_Status w)" "w_NodeID w = Some (g_NodeID g)"
      and g: "g \<in> set gs" "g_ID g = wg_gpu a" "g_Status g = GPUInUse"
      using D(5) [OF a] by (rule holdsE)
    show ?thesis
      using in_set_updI [OF g(1), of P f] assms(2) [of g] assms(3) [of g a] g a w(4)
      by (intro holdsI [OF w(1-3), of "if P g then f g else g"]) (auto split: if_splits)
  qed
qed (use alloc_okD [OF ok] in blast)+

text \<open>A new workload row.\<close>

lemma holds_mono: "holds ws gs a \<Longrightarrow> set ws \<subseteq> set ws' \<Longrightarrow> set gs \<subseteq> set gs' \<Longrightarrow> holds ws' gs' a"
  unfolding holds_def by blast

lemma alloc_ok_new_workload:
  assumes ok: "alloc_ok ws gs as" and "\<And>r. r \<in> set ws \<Longrightarrow> w_ID r \<noteq> w_ID w"
    and "w_Status w = WorkloadQueued \<Longrightarrow> w_NodeID w = None"
  shows "alloc_ok (ws @ [w]) gs as"
proof (rule alloc_okI)
  note D = alloc_okD [OF ok]
  show "distinct (map w_ID (ws @ [w]))" using D(1) assms(2) by (auto simp: image_iff) metis
  show "holds (ws @ [w]) gs a" if "a \<in> set as" "active a" for a
    using D(5) [OF that] by (rule holds_mono) auto
  show "\<exists>w' \<in> set (ws @ [w]). w_ID w' = wg_workload a" if "a \<in> set as" for a using D(4) [OF that] by auto
  show "w_NodeID v = None" if "v \<in> set (ws @ [w])" "w_Status v = WorkloadQueued" for v
    using that D(6) assms(3) by auto
  show "wg_workload a \<noteq> w_ID v" if "v \<in> set (ws @ [w])" "w_Status v = WorkloadQueued" "a \<in> set as" for v a
    using that D(4) [of a] D(7) [of v a] assms(2) by auto
qed (use alloc_okD [OF ok] in blast)+

text \<open>GPUs claimed for a live workload on their node.\<close>

lemma alloc_ok_attach:
  assumes ok: "alloc_ok ws gs as"
    and w: "w \<in> set ws" "live_state (w_Status w)" "w_NodeID w = Some nid" "w_ID w = wid"
    and gids: "\<And>i. i \<in> set gids \<Longrightarrow> \<exists>g \<in> set gs. g_ID g = i \<and> g_Status g = GPUIdle \<and> g_NodeID g = nid"
    and uniq: "distinct (map wg_gpu (filter active (as @ new_attachments now wid gids)))"
  shows "alloc_ok ws (upd (\<lambda>g. g_ID g \<in> set gids \<and> g_Status g = GPUIdle) (\<lambda>g. g\<lparr>g_Status := GPUInUse\<rparr>) gs)
    (as @ new_attachments now wid gids)"
proof (rule alloc_okI)
  let ?P = "\<lambda>g. g_ID g \<in> set gids \<and> g_Status g = GPUIdle" and ?f = "\<lambda>g. g\<lparr>g_Status := GPUInUse\<rparr>"
  note D = alloc_okD [OF ok]
  have new: "wg_workload a = wid" "wg_gpu a \<in> set gids" if "a \<in> set (new_attachments now wid gids)" for a
    using that by (auto simp: new_attachments_def)
  show "distinct (map g_ID (upd ?P ?f gs))" using D(2) id_kept_upd(1) [of ?P g_ID ?f gs] by simp
  show "distinct (map wg_gpu (filter active (as @ new_attachments now wid gids)))" by (rule uniq)
  show "\<exists>v \<in> set ws. w_ID v = wg_workload a" if "a \<in> set (as @ new_attachments now wid gids)" for a
    using that D(4) new(1) w(1,4) by auto
  show "holds ws (upd ?P ?f gs) a" if "a \<in> set (as @ new_attachments now wid gids)" "active a" for a
  proof (cases "a \<in> set as")
    case True
    have "alloc_ok ws (upd ?P ?f gs) as" by (rule alloc_ok_upd_gpus [OF ok]) auto
    then show ?thesis using True that(2) by (rule alloc_okD(5))
  next
    case False
    then have a: "a \<in> set (new_attachments now wid gids)" using that(1) by simp
    then obtain g where g: "g \<in> set gs" "g_ID g = wg_gpu a" "g_Status g = GPUIdle" "g_NodeID g = nid"
      using gids new(2) by blast
    then have "?f g \<in> set (upd ?P ?f gs)" using in_set_updI [of g gs ?P ?f] new(2) [OF a] by simp
    then show ?thesis using w new(1) [OF a] g by (intro holdsI [OF w(1) _ w(2), of a "?f g"]) auto
  qed
  show "wg_workload a \<noteq> w_ID v" if "v \<in> set ws" "w_Status v = WorkloadQueued" "a \<in> set (as @ new_attachments now wid gids)" for v a
    using that D(7) [of v a] new(1) [of a] w distinct_key_unique [OF D(1), of v w] by auto
qed (use alloc_okD [OF ok] in blast)+

section \<open>Transactions\<close>

lemma alloc_inv_frame:
  "workloads d' = workloads d \<Longrightarrow> gpus d' = gpus d \<Longrightarrow> workload_gpus d' = workload_gpus d \<Longrightarrow>
   alloc_inv d \<Longrightarrow> alloc_inv d'"
  by (simp add: alloc_inv_def)

lemma insertWorkload_Inr:
  assumes "insertWorkload w stage t q d = Inr d'"
  obtains row where "d' = d\<lparr>workloads := workloads d @ [row]\<rparr>" and "w_ID row = w_ID w"
    and "w_Status row = w_Status w" and "w_NodeID row = w_NodeID w" and "w_OrgID row = w_OrgID w"
    and "w_StartedAt row = None" and "w_metered_until row = None"
    and "\<And>r. r \<in> set (workloads d) \<Longrightarrow> w_ID r \<noteq> w_ID w"
    and "\<exists>o' \<in> set (organizations d). o_ID o' = w_OrgID w"
  using assms unfolding insertWorkload_def by (fastforce split: if_splits)

lemma enqueueLaunch_frame:
  assumes "enqueueLaunch clk cmdID w p d = Inr d'"
  shows "\<exists>r. d' = d\<lparr>agent_commands := agent_commands d @ [r]\<rparr>"
  using assms Enqueue_frame(1) unfolding enqueueLaunch_def Let_def by blast

lemma enqueueStop_frame:
  assumes "enqueueStop now cmdID orgID nodeID wid reason d = Inr d'"
  shows "\<exists>r. d' = d\<lparr>agent_commands := agent_commands d @ [r]\<rparr>"
  using assms Enqueue_frame(1) unfolding enqueueStop_def by blast

lemma attach_alloc:
  assumes inv: "alloc_inv d" and at: "attach now p d = Inr d'"
    and w: "w \<in> set (workloads d)" "live_state (w_Status w)" "w_NodeID w = Some (p_nodeID p)" "w_ID w = p_workloadID p"
    and gids: "\<And>i. i \<in> set (p_gpuIDs p) \<Longrightarrow> \<exists>g \<in> set (gpus d). g_ID g = i \<and> g_Status g = GPUIdle \<and> g_NodeID g = p_nodeID p"
  shows "alloc_inv d'"
proof -
  have ok: "alloc_ok (workloads d) (gpus d) (workload_gpus d)" using inv by (simp add: alloc_inv_def)
  have "distinct (map wg_gpu (filter active (workload_gpus d')))"
    using at alloc_okD(3) [OF ok] by (rule attach_unique)
  then show ?thesis
    using alloc_ok_attach [OF ok w gids] attach_Inr [OF at] by (simp add: alloc_inv_def)
qed

lemma launch_alloc:
  assumes inv: "alloc_inv d" and "w_NodeID wl = None" and tx: "launch_tx clk locked cmdID req wl d = Inr (x, d')"
  shows "alloc_inv d'"
proof (cases "placeAndAttach locked (w_OrgID wl) (w_ID wl) (lr_GPUType req) (lr_GPUCount req) d")
  case (Inl e)
  then obtain d1 where "insertWorkload (wl\<lparr>w_Status := WorkloadQueued\<rparr>) ''queued''
      (if lr_GPUType req = '''' then ''any'' else lr_GPUType req) (Some (go_now clk)) d = Inr d1" "d' = d1"
    using tx by (auto simp: launch_tx_def Let_def bindE_Inr_iff split: if_splits)
  then obtain row where "d' = d\<lparr>workloads := workloads d @ [row]\<rparr>" "w_ID row = w_ID wl" "w_NodeID row = None"
      "\<And>r. r \<in> set (workloads d) \<Longrightarrow> w_ID r \<noteq> w_ID wl"
    using assms(2) by (elim insertWorkload_Inr) simp_all
  then show ?thesis using inv by (simp add: alloc_inv_def alloc_ok_new_workload)
next
  case (Inr p)
  let ?wl = "wl\<lparr>w_NodeID := Some (p_nodeID p), w_Status := WorkloadPending\<rparr>"
  obtain d1 d2 where 1: "insertWorkload ?wl ''preparing'' (if lr_GPUType req = '''' then ''any'' else lr_GPUType req) None d = Inr d1"
    and 2: "attach (db_now clk) p d1 = Inr d2" and 3: "enqueueLaunch clk cmdID ?wl p d2 = Inr d'"
    using tx Inr by (auto simp: launch_tx_def Let_def bindE_Inr_iff)
  obtain row where row: "d1 = d\<lparr>workloads := workloads d @ [row]\<rparr>" "w_ID row = w_ID wl"
      "w_Status row = WorkloadPending" "w_NodeID row = Some (p_nodeID p)"
      "\<And>r. r \<in> set (workloads d) \<Longrightarrow> w_ID r \<noteq> w_ID wl"
    using 1 by (elim insertWorkload_Inr) simp_all
  have dist: "distinct (map g_ID (gpus d))" using inv alloc_okD(2) by (auto simp: alloc_inv_def)
  have "alloc_inv d1" using inv row by (auto simp: alloc_inv_def intro!: alloc_ok_new_workload)
  then have "alloc_inv d2"
  proof (rule attach_alloc [OF _ 2, of row])
    show "w_ID row = p_workloadID p" using placeAndAttach_sound(1) [OF Inr] row(2) by simp
    show "\<exists>g \<in> set (gpus d1). g_ID g = i \<and> g_Status g = GPUIdle \<and> g_NodeID g = p_nodeID p"
      if "i \<in> set (p_gpuIDs p)" for i using placeAndAttach_gpu [OF Inr that dist] row(1) by auto
  qed (use row in simp_all)
  then show ?thesis using enqueueLaunch_frame [OF 3] by (auto simp: alloc_inv_def)
qed

lemma promote_alloc:
  assumes inv: "alloc_inv d" and tx: "promote_tx clk locked cmdID orgID wid t cnt d = Inr (x, d')"
  shows "alloc_inv d'"
proof (cases "placeAndAttach locked orgID wid t cnt d")
  case (Inl e)
  then show ?thesis using tx inv by (auto simp: promote_tx_def split: if_splits)
next
  case (Inr p)
  let ?hit = "\<lambda>w. w_ID w = wid \<and> w_Status w = WorkloadQueued"
  let ?f = "\<lambda>w. w\<lparr>w_Status := WorkloadPending, w_Stage := ''preparing'', w_NodeID := Some (p_nodeID p)\<rparr>"
  let ?d1 = "d\<lparr>workloads := upd ?hit ?f (workloads d)\<rparr>"
  have ok: "alloc_ok (workloads d) (gpus d) (workload_gpus d)" using inv by (simp add: alloc_inv_def)
  show ?thesis
  proof (cases "affected ?hit (workloads d) = 0")
    case True
    then show ?thesis using tx inv Inr by (auto simp: promote_tx_def Let_def split: if_splits)
  next
    case False
    then obtain q where q: "q \<in> set (workloads d)" "?hit q" unfolding affected_zero by blast
    obtain d2 wl where 2: "attach (db_now clk) p ?d1 = Inr d2"
      and 3: "enqueueLaunch clk cmdID (wl\<lparr>w_NodeID := Some (p_nodeID p)\<rparr>) p d2 = Inr d'"
      using tx Inr False by (auto simp: promote_tx_def Let_def bindE_Inr_iff split: if_splits)
    have "alloc_ok (upd ?hit ?f (workloads d)) (gpus d) (upd (\<lambda>_. False) (\<lambda>a. a\<lparr>wg_detached_at := Some now\<rparr>) (workload_gpus d))" for now
      by (rule alloc_ok_release [OF ok]) (auto, metis alloc_okD(7) [OF ok])
    then have "alloc_inv ?d1" by (simp add: alloc_inv_def upd_id)
    then have "alloc_inv d2"
    proof (rule attach_alloc [OF _ 2, of "?f q"])
      show "?f q \<in> set (workloads ?d1)" using in_set_updI [OF q(1), of ?hit ?f] q(2) by simp
      show "w_ID (?f q) = p_workloadID p" using placeAndAttach_sound(1) [OF Inr] q(2) by simp
      show "\<exists>g \<in> set (gpus ?d1). g_ID g = i \<and> g_Status g = GPUIdle \<and> g_NodeID g = p_nodeID p"
        if "i \<in> set (p_gpuIDs p)" for i using placeAndAttach_gpu [OF Inr that alloc_okD(2) [OF ok]] by auto
    qed simp_all
    then show ?thesis using enqueueLaunch_frame [OF 3] by (auto simp: alloc_inv_def)
  qed
qed

lemma stop_alloc:
  assumes inv: "alloc_inv d" and tx: "stop_tx clk cmdID wid reason d = Inr (x, d')"
  shows "alloc_inv d'"
proof -
  let ?hit = "\<lambda>w. w_ID w = wid \<and> (w_Status w = WorkloadPending \<or> w_Status w = WorkloadRunning)"
  let ?d1 = "d\<lparr>workloads := upd ?hit (\<lambda>r. r\<lparr>w_Status := WorkloadStopping, w_StopReason := Some reason,
    w_stopping_at := Some (db_now clk)\<rparr>) (workloads d)\<rparr>"
  have "alloc_inv ?d1" using inv unfolding alloc_inv_def by (auto intro: alloc_ok_upd_workloads)
  moreover have "d' = ?d1 \<or> (\<exists>r. d' = ?d1\<lparr>agent_commands := agent_commands ?d1 @ [r]\<rparr>)"
    using tx enqueueStop_frame [of "db_now clk" cmdID _ _ wid reason ?d1]
    by (auto simp: stop_tx_def Let_def bindE_Inr_iff split: option.splits)
  ultimately show ?thesis by (auto simp: alloc_inv_def)
qed

lemma release_alloc:
  assumes inv: "alloc_inv d" and "\<And>w. P w \<Longrightarrow> w_ID w = wid \<and> w_ID (f w) = wid \<and> w_Status (f w) \<noteq> WorkloadQueued"
  shows "alloc_inv (detach now wid (d\<lparr>workloads := upd P f (workloads d)\<rparr>))"
  using inv assms(2) unfolding alloc_inv_def detach_def by (auto intro!: alloc_ok_release)

lemma fail_stuck_alloc: "alloc_inv d \<Longrightarrow> alloc_inv (fail_stuck now wid d)"
  unfolding fail_stuck_def by (rule release_alloc) simp_all

lemma free_unheld_alloc: "alloc_inv d \<Longrightarrow> alloc_inv (free_unheld d)"
proof -
  assume inv: "alloc_inv d"
  then have "held d (wg_gpu a)" if "a \<in> set (workload_gpus d)" "active a" for a
    using alloc_okD(5) [of "workloads d" "gpus d" "workload_gpus d" a] that
    unfolding alloc_inv_def held_def by (auto elim!: holdsE)
  then show ?thesis using inv unfolding alloc_inv_def free_unheld_def
    by (auto intro!: alloc_ok_upd_gpus) metis
qed

lemma fail_undelivered_alloc:
  assumes "alloc_inv (snd x)"
  shows "alloc_inv (snd (fail_undelivered now e x))"
proof (cases "ex_Kind e = KindLaunch \<and> ex_WorkloadID e \<noteq> None")
  case True
  then obtain wid where e: "ex_Kind e = KindLaunch" "ex_WorkloadID e = Some wid" by auto
  obtain stuck d where x: "x = (stuck, d)" by (cases x)
  let ?hit = "\<lambda>w. w_ID w = wid \<and> w_Status w = WorkloadPending"
  have "upd ?hit f (workloads d) = workloads d" if "affected ?hit (workloads d) = 0" for f
    using that by (intro upd_id) (auto simp: affected_zero)
  then show ?thesis using assms release_alloc [of d ?hit wid]
    by (auto simp: fail_undelivered_def e x Let_def)
qed (use assms in \<open>auto simp: fail_undelivered_def split: prod.splits option.splits\<close>)

lemma sweep_alloc:
  assumes inv: "alloc_inv d" and tx: "sweep_tx clk d = Inr (x, d')"
  shows "alloc_inv d'"
proof -
  define stuck where "stuck = map w_ID (filter (sweep_stuck_row (db_now clk) d) (workloads d))"
  define d2 where "d2 = free_unheld (fold (fail_stuck (go_now clk)) stuck d)"
  obtain ex d3 where 3: "ExpireOverdue (db_now clk) d2 = (ex, d3)" by fastforce
  obtain stuck' d4 where 4: "fold (fail_undelivered (go_now clk)) ex (stuck, d3) = (stuck', d4)" by fastforce
  obtain n d5 where 5: "SupersedeForTerminalWorkloads d4 = (n, d5)" by fastforce
  have d': "d' = free_unheld d5"
    using tx unfolding sweep_tx_def Let_def stuck_def [symmetric] d2_def [symmetric] by (simp add: 3 4 5)
  have "alloc_inv (fold (fail_stuck now) ids d)" for now ids
    using inv by (induction ids arbitrary: d) (auto intro: fail_stuck_alloc)
  then have "alloc_inv d2" unfolding d2_def by (intro free_unheld_alloc)
  then have "alloc_inv d3" using 3 by (auto simp: ExpireOverdue_def alloc_inv_def)
  moreover have "alloc_inv (snd (fold (fail_undelivered now) es y))" if "alloc_inv (snd y)" for now es y
    using that by (induction es arbitrary: y) (simp_all add: fail_undelivered_alloc)
  ultimately have "alloc_inv d4" using 4 by (metis snd_conv)
  then have "alloc_inv d5" using 5 by (auto simp: SupersedeForTerminalWorkloads_def alloc_inv_def)
  then show ?thesis unfolding d' by (rule free_unheld_alloc)
qed

lemma idle_gpu_alloc:
  assumes "alloc_inv d" and "\<And>a. a \<in> set (workload_gpus d) \<Longrightarrow> active a \<Longrightarrow> wg_gpu a \<noteq> gid"
  shows "alloc_inv (idle_gpu gid d)"
  using assms unfolding alloc_inv_def idle_gpu_def by (auto intro!: alloc_ok_upd_gpus)

lemma fold_idle_gpu_alloc:
  assumes "alloc_inv d" and "\<And>a. a \<in> set (workload_gpus d) \<Longrightarrow> active a \<Longrightarrow> wg_gpu a \<notin> set gids"
  shows "alloc_inv (fold idle_gpu gids d)"
  using assms
proof (induction gids arbitrary: d)
  case (Cons gid gids)
  have "alloc_inv (idle_gpu gid d)" using Cons.prems by (intro idle_gpu_alloc) auto
  moreover have "workload_gpus (idle_gpu gid d) = workload_gpus d" by (simp add: idle_gpu_def)
  ultimately show ?case using Cons.IH [of "idle_gpu gid d"] Cons.prems(2) by auto
qed simp

text \<open>After the release of a workload no active attachment names a GPU it held.\<close>

lemma detach_frees:
  assumes uniq: "distinct (map wg_gpu (filter active as))"
    and "gid \<in> set (map wg_gpu (filter (\<lambda>a. wg_workload a = wid \<and> active a) as))"
    and a: "a \<in> set (upd (\<lambda>a. wg_workload a = wid \<and> active a) (\<lambda>a. a\<lparr>wg_detached_at := Some now\<rparr>) as)" "active a"
  shows "wg_gpu a \<noteq> gid"
proof
  assume eq: "wg_gpu a = gid"
  obtain b where b: "b \<in> set as" "wg_workload b = wid" "active b" "wg_gpu b = gid" using assms(2) by auto
  have "a \<in> set as \<and> wg_workload a \<noteq> wid"
    using a(1) by (cases rule: in_set_updE) (use a(2) in \<open>auto simp: active_def\<close>)
  then have "a \<in> set as" "wg_workload a \<noteq> wid" by simp_all
  moreover have "a = b"
    using distinct_key_unique [OF uniq, of a b] a(2) b eq \<open>a \<in> set as\<close> by simp
  ultimately show False using b(2) by simp
qed

lemma terminal_alloc:
  assumes inv: "alloc_inv d" and st: "terminal_state st" and gs: "set gs \<subseteq> set (active_gpu_ids wid d)"
    and tx: "terminal_tx now wid st logs gs d = Inr (b, d')"
  shows "alloc_inv d'"
proof -
  let ?hit = "\<lambda>w. w_ID w = wid \<and> \<not> terminal_state (w_Status w)"
  let ?f = "\<lambda>w. w\<lparr>w_Status := st, w_StoppedAt := Some now, w_Logs := (if logs = '''' then w_Logs w else logs)\<rparr>"
  let ?d1 = "detach now wid (d\<lparr>workloads := upd ?hit ?f (workloads d)\<rparr>)"
  have "alloc_inv ?d1" using inv by (rule release_alloc) (use st in auto)
  then have "alloc_inv (fold idle_gpu gs ?d1)"
  proof (rule fold_idle_gpu_alloc)
    fix a assume a: "a \<in> set (workload_gpus ?d1)" "active a"
    have "distinct (map wg_gpu (filter active (workload_gpus d)))"
      using inv alloc_okD(3) unfolding alloc_inv_def by blast
    then have "wg_gpu a \<noteq> gid" if "gid \<in> set gs" for gid
      using detach_frees [of "workload_gpus d" gid wid a now] a subsetD [OF gs that]
      unfolding detach_def active_gpu_ids_def by simp
    then show "wg_gpu a \<notin> set gs" by blast
  qed
  then show ?thesis using tx inv by (auto simp: terminal_tx_def Let_def split: if_splits)
qed

lemma upd_workloads_alloc:
  assumes "alloc_inv d" and "\<And>w. P w \<Longrightarrow> w_ID (f w) = w_ID w \<and> w_NodeID (f w) = w_NodeID w"
    and "\<And>w. P w \<Longrightarrow> live_state (w_Status w) \<longrightarrow> live_state (w_Status (f w))"
    and "\<And>w. P w \<Longrightarrow> w_Status (f w) = WorkloadQueued \<longrightarrow> w_Status w = WorkloadQueued"
  shows "alloc_inv (d\<lparr>workloads := upd P f (workloads d)\<rparr>)"
  using assms unfolding alloc_inv_def by (auto intro!: alloc_ok_upd_workloads)

lemma meter_alloc:
  assumes "alloc_inv d" and "MeterWorkload clk wid d = Inr (u, d')"
  shows "alloc_inv d'"
proof -
  have "MeterWorkload clk wid d = Inr ((), d')" using assms(2) by simp
  then show ?thesis
  proof (cases rule: MeterWorkload_cases)
    case (billed w fr until d1 d2)
    have "gpus d2 = gpus d \<and> workload_gpus d2 = workload_gpus d"
      using billed(3,4) fold_meter_gpu_frame [of w fr until "workload_gpu_models wid d" d]
      by (auto simp: billing_frame_def dest!: postLedgerTx_Inr)
    then have "alloc_inv d' = alloc_inv (d\<lparr>workloads := upd (\<lambda>r. w_ID r = wid) (\<lambda>r. r\<lparr>w_metered_until := Some until\<rparr>) (workloads d)\<rparr>)"
      using billed(5) by (simp add: alloc_inv_def)
    then show ?thesis using upd_workloads_alloc [OF assms(1)] by simp
  qed (use assms(1) in simp)
qed

text \<open>Deleting a node deletes its GPUs with their attachments and clears the node of its workloads.\<close>

lemma alloc_ok_delete_node:
  assumes ok: "alloc_ok ws gs as"
  shows "alloc_ok (upd (\<lambda>w. w_NodeID w = Some n) (\<lambda>w. w\<lparr>w_NodeID := None\<rparr>) ws)
    (del (\<lambda>g. g_NodeID g = n) gs) (del (\<lambda>a. \<exists>g \<in> set gs. g_ID g = wg_gpu a \<and> g_NodeID g = n) as)"
    (is "alloc_ok ?ws ?gs ?as")
proof (rule alloc_okI)
  let ?P = "\<lambda>w::WorkloadRow. w_NodeID w = Some n" and ?f = "\<lambda>w::WorkloadRow. w\<lparr>w_NodeID := None\<rparr>"
  note D = alloc_okD [OF ok]
  note K = id_kept_upd [of ?P w_ID ?f ws]
  show "distinct (map w_ID ?ws)" using D(1) K(1) by simp
  show "distinct (map g_ID ?gs)" unfolding del_def using D(2) by (rule distinct_map_filter)
  have "filter active ?as = filter (\<lambda>a. active a \<and> \<not> (\<exists>g \<in> set gs. g_ID g = wg_gpu a \<and> g_NodeID g = n)) as"
    by (auto simp: del_def intro: filter_cong)
  then show "distinct (map wg_gpu (filter active ?as))" using distinct_map_filter_upd_key [OF D(3)] by simp
  show "\<exists>w \<in> set ?ws. w_ID w = wg_workload a" if "a \<in> set ?as" for a
    using that D(4) [of a] K(2) by (simp add: set_del)
  show "holds ?ws ?gs a" if a: "a \<in> set ?as" "active a" for a
  proof -
    have a': "a \<in> set as" using a(1) by (simp add: set_del)
    obtain w g where w: "w \<in> set ws" "w_ID w = wg_workload a" "live_state (w_Status w)"
      and g: "g \<in> set gs" "g_ID g = wg_gpu a" "g_Status g = GPUInUse" and node: "w_NodeID w = Some (g_NodeID g)"
      using D(5) [OF a' a(2)] by (rule holdsE)
    have "g_NodeID g \<noteq> n" using a(1) g by (auto simp: set_del)
    then show ?thesis using in_set_updI [OF w(1), of ?P ?f] w g node by (intro holdsI [of w _ _ g]) (auto simp: set_del)
  qed
  show "w_NodeID w = None" if "w \<in> set ?ws" "w_Status w = WorkloadQueued" for w
    using that(1) by (cases rule: in_set_updE) (use that(2) D(6) in auto)
  show "wg_workload a \<noteq> w_ID w" if "w \<in> set ?ws" "w_Status w = WorkloadQueued" "a \<in> set ?as" for w a
    using that(1) by (cases rule: in_set_updE) (use that(2,3) D(7) [of _ a] in \<open>auto simp: set_del\<close>)
qed

lemma delete_node_alloc: "alloc_inv d \<Longrightarrow> alloc_inv (delete_node n d)"
  unfolding alloc_inv_def delete_node_def Let_def by (simp add: alloc_ok_delete_node)

lemma fail_on_node_alloc:
  assumes inv: "alloc_inv d"
  shows "alloc_inv (fail_on_node now n d)"
proof -
  have ok: "alloc_ok (workloads d) (gpus d) (workload_gpus d)" using inv by (simp add: alloc_inv_def)
  note D = alloc_okD [OF ok]
  have "\<exists>g \<in> set (gpus d). g_ID g = wg_gpu a \<and> g_NodeID g = n"
    if a: "a \<in> set (workload_gpus d)" "active a" and w: "w \<in> set (workloads d)" "live_on n w" "wg_workload a = w_ID w" for a w
  proof -
    obtain v g where v: "v \<in> set (workloads d)" "w_ID v = wg_workload a" "w_NodeID v = Some (g_NodeID g)"
      and g: "g \<in> set (gpus d)" "g_ID g = wg_gpu a" using D(5) [OF a] by (rule holdsE)
    have "v = w" using distinct_key_unique [OF D(1) v(1) w(1)] v(2) w(3) by simp
    then show ?thesis using v(3) g w(2) by (auto simp: live_on_def)
  qed
  then show ?thesis unfolding alloc_inv_def fail_on_node_def
    by (auto intro!: alloc_ok_release [OF ok])
qed

lemma remove_alloc:
  assumes "alloc_inv d" and "RemoveNode clk orgID n force d = Inr (x, d')"
  shows "alloc_inv d'"
proof -
  define d1 where "d1 = (if affected (live_on n) (workloads d) > 0 then fail_on_node (db_now clk) n d else d)"
  obtain k d2 where k: "revoke_credentials (db_now clk) n d1 = (k, d2)" by fastforce
  have "d' = delete_node n d2"
    using assms(2) k unfolding RemoveNode_def Let_def d1_def [symmetric] by (auto split: if_splits)
  moreover have "alloc_inv d1" using assms(1) fail_on_node_alloc by (simp add: d1_def)
  then have "alloc_inv d2" using k by (auto simp: revoke_credentials_def Let_def alloc_inv_def)
  ultimately show ?thesis by (simp add: delete_node_alloc)
qed

text \<open>An inventory report that does not re-home held GPUs.\<close>

lemma upsert_gpu_alloc:
  assumes inv: "alloc_inv d" and nr: "no_rehome n gs d" and "g \<in> set gs"
    and tx: "upsert_gpu now newGPU n orgID g d = Inr d'"
  shows "alloc_inv d' \<and> no_rehome n gs d'"
proof (cases "\<exists>r \<in> set (gpus d). g_UUID r = gr_UUID g")
  case True
  let ?P = "\<lambda>r. g_UUID r = gr_UUID g"
  let ?f = "\<lambda>r. r\<lparr>g_NodeID := n, g_OrgID := orgID, g_Model := gr_Model g,
                    g_MemoryMB := gr_MemoryMB g, g_MIGEnabled := gr_MIGEnabled g, g_UpdatedAt := now\<rparr>"
  have d': "d' = d\<lparr>gpus := upd ?P ?f (gpus d)\<rparr>" using tx True by (auto simp: upsert_gpu_def split: if_splits)
  have "alloc_ok (workloads d) (upd ?P ?f (gpus d)) (workload_gpus d)"
    by (rule alloc_ok_upd_gpus) (use inv nr \<open>g \<in> set gs\<close> in \<open>auto simp: alloc_inv_def no_rehome_def\<close>)
  moreover have "no_rehome n gs d'" using nr
    unfolding no_rehome_def d' by (auto simp: set_upd split: if_splits)
  ultimately show ?thesis by (simp add: alloc_inv_def d')
next
  case False
  then obtain r where r: "d' = d\<lparr>gpus := gpus d @ [r]\<rparr>" "\<And>q. q \<in> set (gpus d) \<Longrightarrow> g_ID q \<noteq> g_ID r" "g_NodeID r = n"
    using tx by (fastforce simp: upsert_gpu_def split: if_splits)
  have ok: "alloc_ok (workloads d) (gpus d) (workload_gpus d)" using inv by (simp add: alloc_inv_def)
  have "alloc_ok (workloads d) (gpus d @ [r]) (workload_gpus d)"
  proof (rule alloc_okI)
    show "distinct (map g_ID (gpus d @ [r]))" using alloc_okD(2) [OF ok] r(2) by (auto simp: image_iff) metis
    show "holds (workloads d) (gpus d @ [r]) a" if "a \<in> set (workload_gpus d)" "active a" for a
      using alloc_okD(5) [OF ok that] by (rule holds_mono) auto
  qed (use alloc_okD [OF ok] in blast)+
  moreover have "no_rehome n gs d'" using nr r by (auto simp: no_rehome_def)
  ultimately show ?thesis using r(1) by (simp add: alloc_inv_def)
qed

lemma inventory_alloc:
  assumes inv: "alloc_inv d" and nr: "no_rehome n gs d"
    and tx: "UpsertInventory clk newGPU n orgID info labels gs d = Inr (u, d')"
  shows "alloc_inv d'"
proof -
  define d1 where "d1 = d\<lparr>gpu_nodes := upd (\<lambda>r. n_ID r = n) (\<lambda>r. r\<lparr>n_Info := info, n_Labels := labels,
      n_LastSeenAt := Some (db_now clk), n_Status := NodeOnline\<rparr>) (gpu_nodes d)\<rparr>"
  have f: "foldE (upsert_gpu (db_now clk) newGPU n orgID) gs d1 = Inr d'"
    using tx unfolding UpsertInventory_def Let_def d1_def [symmetric] by (auto simp: bindE_Inr_iff)
  have "alloc_inv d1 \<and> no_rehome n gs d1" using inv nr by (simp add: d1_def alloc_inv_def no_rehome_def)
  then have "alloc_inv d' \<and> no_rehome n gs d'"
    by (rule foldE_invariant [OF f, where I = "\<lambda>e. alloc_inv e \<and> no_rehome n gs e"])
      (metis upsert_gpu_alloc)
  then show ?thesis by simp
qed

lemma deliver_alloc: "alloc_inv (dl_db (fold (deliver_row now drains n) cs x)) = alloc_inv (dl_db x)"
proof (induction cs arbitrary: x)
  case (Cons c cs)
  have "alloc_inv (dl_db (deliver_row now drains n c x)) = alloc_inv (dl_db x)"
    by (simp add: deliver_row_def Ack_def MarkSent_def MarkAttemptFailed_def alloc_inv_def split: prod.split sum.split)
  then show ?case using Cons by simp
qed simp

lemma enroll_alloc:
  assumes "alloc_inv d" and "repo_Enroll clk newID th fp info ch d = Inr (x, d')"
  shows "alloc_inv d'"
  using assms
  by (auto simp: repo_Enroll_def enroll_node_def insert_credential_def revoke_credentials_def Let_def bindE_Inr_iff
      alloc_inv_def split: option.splits if_splits)

section \<open>Every transaction keeps the invariant\<close>

interpretation alloc: tx_invariant alloc_inv
proof
  fix d d' assume "tx_step d d'" and "alloc_inv d"
  then show "alloc_inv d'"
  proof (induction rule: tx_step.induct)
    case (tx_running now wid ssh jup logs d n d')
    then show ?case by (auto simp: running_tx_def Let_def intro!: upd_workloads_alloc)
  next
    case (tx_status st wid d u d')
    then show ?case by (auto simp: set_status_def intro!: upd_workloads_alloc)
  next
    case (tx_cancel now wid d n d')
    then show ?case by (auto simp: cancel_tx_def Let_def intro!: upd_workloads_alloc)
  next
    case (tx_stage wid stage d u d')
    then show ?case by (auto simp: set_stage_def intro!: upd_workloads_alloc)
  next
    case (tx_enqueue_stop now cmdID orgID nodeID wid reason d d')
    then show ?case using enqueueStop_frame by (fastforce simp: alloc_inv_def)
  next
    case (tx_deliver d' now drains nodeID cs d streams sent)
    then show ?case by (simp add: deliver_alloc)
  qed (auto simp: insert_event_def RecordHeartbeat_def SetNodeStatus_def SweepOffline_def revoke_credentials_def
      Ack_def reset_due_def Let_def alloc_inv_def dest!: postLedgerTx_Inr split: if_splits
      intro: launch_alloc [unfolded alloc_inv_def] stop_alloc [unfolded alloc_inv_def]
        sweep_alloc [unfolded alloc_inv_def] terminal_alloc [unfolded alloc_inv_def]
        promote_alloc [unfolded alloc_inv_def] meter_alloc [unfolded alloc_inv_def]
        enroll_alloc [unfolded alloc_inv_def] remove_alloc [unfolded alloc_inv_def]
        inventory_alloc [unfolded alloc_inv_def])
qed

end
