(* ===== verification/Metering.thy ===== *)
theory Metering
  imports Allocation
begin

text \<open>
  Billing invariants of the control plane: the running balance follows the sum of the ledger, no
  GPU second of a workload is billed twice, and what is billed never exceeds the time the workload
  ran.
\<close>

section \<open>What the workload transactions leave alone\<close>

text \<open>
  A change of the allocation tables only: workload rows, GPUs, attachments and commands.
\<close>

definition core_frame :: "db \<Rightarrow> db \<Rightarrow> bool" where
  "core_frame d d' \<longleftrightarrow> d' = d\<lparr>workloads := workloads d', gpus := gpus d',
     workload_gpus := workload_gpus d', agent_commands := agent_commands d'\<rparr>"

lemma core_frame_intros:
  "core_frame d d" "core_frame d (d\<lparr>workloads := ws\<rparr>)" "core_frame d (d\<lparr>gpus := gs\<rparr>)"
  "core_frame d (d\<lparr>workload_gpus := as\<rparr>)" "core_frame d (d\<lparr>agent_commands := cs\<rparr>)"
  by (simp_all add: core_frame_def)

lemma core_frame_trans:
  assumes "core_frame a b" and "core_frame b c"
  shows "core_frame a c"
proof -
  have "c = b\<lparr>workloads := workloads c, gpus := gpus c, workload_gpus := workload_gpus c, agent_commands := agent_commands c\<rparr>"
    using assms(2) by (simp only: core_frame_def)
  also have "\<dots> = a\<lparr>workloads := workloads c, gpus := gpus c, workload_gpus := workload_gpus c, agent_commands := agent_commands c\<rparr>"
    by (subst assms(1) [unfolded core_frame_def]) simp
  finally show ?thesis by (simp only: core_frame_def)
qed

lemma core_frame_other:
  assumes "core_frame d d'"
  shows "credit_ledger d' = credit_ledger d" and "usage_records d' = usage_records d"
    and "cost_records d' = cost_records d" and "organizations d' = organizations d"
    and "gpu_nodes d' = gpu_nodes d" and "users d' = users d"
    and "organization_members d' = organization_members d"
  by (subst assms [unfolded core_frame_def], simp)+

text \<open>
  The billing marks of a workload that has been metered, and the identity of the attachments.
\<close>

definition marks_kept :: "WorkloadRow list \<Rightarrow> WorkloadRow list \<Rightarrow> bool" where
  "marks_kept ws ws' \<longleftrightarrow> (\<forall>w \<in> set ws. w_StartedAt w \<noteq> None \<longrightarrow>
     (\<exists>v \<in> set ws'. w_ID v = w_ID w \<and> w_StartedAt v = w_StartedAt w \<and> w_metered_until v = w_metered_until w))"

definition pairs_of :: "db \<Rightarrow> (uuid \<times> uuid) list" where
  "pairs_of d = map (\<lambda>a. (wg_workload a, wg_gpu a)) (workload_gpus d)"

definition core_step :: "db \<Rightarrow> db \<Rightarrow> bool" where
  "core_step d d' \<longleftrightarrow> core_frame d d' \<and> marks_kept (workloads d) (workloads d') \<and>
     (distinct (pairs_of d) \<longrightarrow> distinct (pairs_of d'))"

lemma marks_kept_refl [simp]: "marks_kept ws ws"
  unfolding marks_kept_def by blast

lemma marks_kept_trans: "marks_kept a b \<Longrightarrow> marks_kept b c \<Longrightarrow> marks_kept a c"
  unfolding marks_kept_def by metis

lemma marks_kept_upd:
  assumes "\<And>w. P w \<Longrightarrow> w_ID (f w) = w_ID w \<and> w_metered_until (f w) = w_metered_until w \<and>
    (w_StartedAt w \<noteq> None \<longrightarrow> w_StartedAt (f w) = w_StartedAt w)"
  shows "marks_kept ws (upd P f ws)"
  unfolding marks_kept_def
proof (intro ballI impI)
  fix w assume "w \<in> set ws" and st: "w_StartedAt w \<noteq> None"
  then have "(if P w then f w else w) \<in> set (upd P f ws)" by (intro in_set_updI)
  then show "\<exists>v \<in> set (upd P f ws). w_ID v = w_ID w \<and> w_StartedAt v = w_StartedAt w \<and> w_metered_until v = w_metered_until w"
    using assms [of w] st by (cases "P w") auto
qed

lemma marks_kept_append: "marks_kept ws (ws @ vs)"
  unfolding marks_kept_def by auto

lemma core_step_refl [simp]: "core_step d d"
  by (simp add: core_step_def core_frame_intros)

lemma core_step_trans [trans]: "core_step a b \<Longrightarrow> core_step b c \<Longrightarrow> core_step a c"
  unfolding core_step_def using core_frame_trans marks_kept_trans by metis

lemma core_step_upd_workloads:
  assumes "\<And>w. P w \<Longrightarrow> w_ID (f w) = w_ID w \<and> w_metered_until (f w) = w_metered_until w \<and>
    (w_StartedAt w \<noteq> None \<longrightarrow> w_StartedAt (f w) = w_StartedAt w)"
  shows "core_step d (d\<lparr>workloads := upd P f (workloads d)\<rparr>)"
  using marks_kept_upd [of P f, OF assms] by (simp add: core_step_def core_frame_intros pairs_of_def)

lemma core_step_simple:
  "core_step d (d\<lparr>gpus := gs\<rparr>)" "core_step d (d\<lparr>agent_commands := cs\<rparr>)"
  "core_step d (d\<lparr>workloads := workloads d @ vs\<rparr>)"
  by (simp_all add: core_step_def core_frame_intros pairs_of_def marks_kept_append)

lemma core_step_detach: "core_step d (detach now wid d)"
proof -
  have "map (\<lambda>a. (wg_workload a, wg_gpu a)) (upd P (\<lambda>a. a\<lparr>wg_detached_at := t\<rparr>) as) = map (\<lambda>a. (wg_workload a, wg_gpu a)) as"
    for P t and as :: "workload_gpu list" by (auto simp: upd_def)
  then show ?thesis by (simp add: core_step_def core_frame_intros pairs_of_def detach_def)
qed

lemma core_step_release:
  assumes "\<And>w. P w \<Longrightarrow> w_ID (f w) = w_ID w \<and> w_metered_until (f w) = w_metered_until w \<and>
    (w_StartedAt w \<noteq> None \<longrightarrow> w_StartedAt (f w) = w_StartedAt w)"
  shows "core_step d (detach now wid (d\<lparr>workloads := upd P f (workloads d)\<rparr>))"
  using core_step_upd_workloads [of P f, OF assms] core_step_detach by (rule core_step_trans)

lemma insert_attachment_pairs:
  assumes "insert_attachment now wid gid d = Inr d'" and "distinct (pairs_of d)"
  shows "distinct (pairs_of d')"
  using assms by (force simp: insert_attachment_def pairs_of_def split: if_splits)

lemma core_step_attach:
  assumes "attach now p d = Inr d'"
  shows "core_step d d'"
proof -
  obtain d1 where d1: "foldE (insert_attachment now (p_workloadID p)) (p_gpuIDs p) d = Inr d1"
    "workload_gpus d' = workload_gpus d1"
    using assms by (auto simp: attach_def bindE_Inr_iff Let_def split: if_splits)
  have "distinct (pairs_of d) \<Longrightarrow> distinct (pairs_of d1)"
    by (rule foldE_invariant [OF d1(1), where I = "\<lambda>e. distinct (pairs_of e)"]) (auto intro: insert_attachment_pairs)
  moreover have "core_frame d d'" "workloads d' = workloads d"
    unfolding attach_Inr [OF assms] by (simp_all add: core_frame_def)
  ultimately show ?thesis using d1(2) by (simp add: core_step_def pairs_of_def)
qed

lemma core_step_insert: "insertWorkload w stage t q d = Inr d' \<Longrightarrow> core_step d d'"
  using core_step_simple by (auto elim!: insertWorkload_Inr)

lemma core_step_enqueueLaunch: "enqueueLaunch clk cmdID w p d = Inr d' \<Longrightarrow> core_step d d'"
  using enqueueLaunch_frame core_step_simple by metis

lemma core_step_enqueueStop: "enqueueStop now cmdID orgID nodeID wid reason d = Inr d' \<Longrightarrow> core_step d d'"
  using enqueueStop_frame core_step_simple by metis

lemma launch_core: "launch_tx clk locked cmdID req wl d = Inr (x, d') \<Longrightarrow> core_step d d'"
  by (auto simp: launch_tx_def Let_def bindE_Inr_iff split: sum.splits if_splits
      intro: core_step_insert core_step_trans [OF core_step_insert core_step_trans [OF core_step_attach core_step_enqueueLaunch]])

lemma promote_core:
  assumes tx: "promote_tx clk locked cmdID orgID wid t cnt d = Inr (x, d')"
  shows "core_step d d'"
proof (cases "d' = d")
  case False
  let ?d1 = "\<lambda>p. d\<lparr>workloads := upd (\<lambda>w. w_ID w = wid \<and> w_Status w = WorkloadQueued) (\<lambda>w. w\<lparr>w_Status := WorkloadPending,
      w_Stage := ''preparing'', w_NodeID := Some (p_nodeID p)\<rparr>) (workloads d)\<rparr>"
  obtain p d2 wl where 2: "attach (db_now clk) p (?d1 p) = Inr d2"
    and 3: "enqueueLaunch clk cmdID (wl\<lparr>w_NodeID := Some (p_nodeID p)\<rparr>) p d2 = Inr d'"
    using tx False by (auto simp: promote_tx_def Let_def bindE_Inr_iff split: if_splits sum.splits)
  have "core_step d (?d1 p)" by (rule core_step_upd_workloads) simp
  also have "core_step (?d1 p) d2" using 2 by (rule core_step_attach)
  also have "core_step d2 d'" using 3 by (rule core_step_enqueueLaunch)
  finally show ?thesis .
qed simp

lemma stop_core:
  assumes tx: "stop_tx clk cmdID wid reason d = Inr (x, d')"
  shows "core_step d d'"
proof -
  let ?d1 = "d\<lparr>workloads := upd (\<lambda>w. w_ID w = wid \<and> (w_Status w = WorkloadPending \<or> w_Status w = WorkloadRunning))
    (\<lambda>r. r\<lparr>w_Status := WorkloadStopping, w_StopReason := Some reason, w_stopping_at := Some (db_now clk)\<rparr>) (workloads d)\<rparr>"
  have 1: "core_step d ?d1" by (rule core_step_upd_workloads) simp
  have "d' = ?d1 \<or> (\<exists>o' n. enqueueStop (db_now clk) cmdID o' n wid reason ?d1 = Inr d')"
    using tx by (auto simp: stop_tx_def Let_def bindE_Inr_iff split: option.splits)
  then show ?thesis using 1 by (auto intro: core_step_trans [OF 1] core_step_enqueueStop)
qed

lemma fail_stuck_core: "core_step d (fail_stuck now wid d)"
  unfolding fail_stuck_def by (rule core_step_release) simp

lemma fail_undelivered_core: "core_step (snd y) (snd (fail_undelivered now e y))"
proof (cases "ex_Kind e = KindLaunch \<and> ex_WorkloadID e \<noteq> None")
  case True
  then obtain wid where e: "ex_Kind e = KindLaunch" "ex_WorkloadID e = Some wid" by auto
  show ?thesis
    by (cases y) (auto simp: fail_undelivered_def e Let_def intro!: core_step_release core_step_upd_workloads)
qed (auto simp: fail_undelivered_def split: prod.splits option.splits)

lemma fold_core:
  assumes "\<And>i y. core_step (h y) (h (f i y))"
  shows "core_step (h y) (h (fold f is y))"
proof (induction "is" arbitrary: y)
  case (Cons i "is")
  show ?case using core_step_trans [OF assms Cons, of y i] by simp
qed simp

lemma sweep_core:
  assumes tx: "sweep_tx clk d = Inr (x, d')"
  shows "core_step d d'"
proof -
  define stuck where "stuck = map w_ID (filter (sweep_stuck_row (db_now clk) d) (workloads d))"
  define d1 where "d1 = fold (fail_stuck (go_now clk)) stuck d"
  obtain ex d3 where 3: "ExpireOverdue (db_now clk) (free_unheld d1) = (ex, d3)" by fastforce
  obtain stuck' d4 where 4: "fold (fail_undelivered (go_now clk)) ex (stuck, d3) = (stuck', d4)" by fastforce
  obtain n d5 where 5: "SupersedeForTerminalWorkloads d4 = (n, d5)" by fastforce
  have d': "d' = free_unheld d5"
    using tx unfolding sweep_tx_def Let_def stuck_def [symmetric] d1_def [symmetric] by (simp add: 3 4 5)
  have fu: "core_step e (free_unheld e)" for e by (simp add: free_unheld_def core_step_simple)
  have "core_step d d1"
    unfolding d1_def using fold_core [of "\<lambda>y. y" "fail_stuck (go_now clk)"] fail_stuck_core by simp
  also have "core_step d1 (free_unheld d1)" by (rule fu)
  also have "core_step (free_unheld d1) d3" using 3 core_step_simple by (auto simp: ExpireOverdue_def)
  also have "core_step d3 d4"
    using fold_core [of snd "fail_undelivered (go_now clk)" "(stuck, d3)" ex] fail_undelivered_core by (simp add: 4)
  also have "core_step d4 d5" using 5 core_step_simple by (auto simp: SupersedeForTerminalWorkloads_def)
  also have "core_step d5 d'" unfolding d' by (rule fu)
  finally show ?thesis .
qed

lemma terminal_core:
  assumes tx: "terminal_tx now wid st logs gs d = Inr (b, d')"
  shows "core_step d d'"
proof -
  let ?d1 = "detach now wid (d\<lparr>workloads := upd (\<lambda>w. w_ID w = wid \<and> \<not> terminal_state (w_Status w))
      (\<lambda>w. w\<lparr>w_Status := st, w_StoppedAt := Some now, w_Logs := (if logs = '''' then w_Logs w else logs)\<rparr>) (workloads d)\<rparr>)"
  have "core_step d ?d1" by (rule core_step_release) simp
  also have "core_step ?d1 (fold idle_gpu gs ?d1)"
    using fold_core [of "\<lambda>y. y" idle_gpu ?d1 gs] by (simp add: idle_gpu_def core_step_simple)
  finally show ?thesis using tx by (auto simp: terminal_tx_def Let_def split: if_splits)
qed

lemma simple_core:
  "running_tx now wid ssh jup logs d = Inr (n, d') \<Longrightarrow> core_step d d'"
  "set_status wid st d = Inr (u, d') \<Longrightarrow> core_step d d'"
  "cancel_tx now wid d = Inr (n, d') \<Longrightarrow> core_step d d'"
  "set_stage wid stage d = Inr (u, d') \<Longrightarrow> core_step d d'"
  by (auto simp: running_tx_def set_status_def cancel_tx_def set_stage_def Let_def intro!: core_step_upd_workloads)

lemmas core_steps = launch_core promote_core stop_core sweep_core terminal_core simple_core core_step_enqueueStop


section \<open>The running balance\<close>

lemma ledger_inv_same: "credit_ledger d' = credit_ledger d \<Longrightarrow> ledger_inv d \<Longrightarrow> ledger_inv d'"
  by (simp add: ledger_inv_def)

lemma core_step_ledger: "core_step d d' \<Longrightarrow> credit_ledger d' = credit_ledger d"
  by (simp add: core_step_def core_frame_other)

text \<open>
  Transactions that touch neither the allocation tables nor the billing tables nor the accounts.
\<close>

definition accounts_of :: "db \<Rightarrow> Organization list \<times> User list \<times> Member list" where
  "accounts_of d = (organizations d, users d, organization_members d)"

definition same_billing :: "db \<Rightarrow> db \<Rightarrow> bool" where
  "same_billing d d' \<longleftrightarrow> workloads d' = workloads d \<and> workload_gpus d' = workload_gpus d \<and>
     usage_records d' = usage_records d \<and> credit_ledger d' = credit_ledger d \<and> accounts_of d' = accounts_of d"

lemma enroll_same_billing: "repo_Enroll clk newID th fp info ch d = Inr (x, d') \<Longrightarrow> same_billing d d'"
  by (auto simp: repo_Enroll_def enroll_node_def insert_credential_def revoke_credentials_def Let_def bindE_Inr_iff
      same_billing_def accounts_of_def split: option.splits if_splits)

lemma deliver_same_billing: "same_billing (dl_db x) (dl_db (fold (deliver_row now drains n) cs x))"
proof (induction cs arbitrary: x)
  case (Cons c cs)
  have "same_billing (dl_db x) (dl_db (deliver_row now drains n c x))"
    by (simp add: deliver_row_def Ack_def MarkSent_def MarkAttemptFailed_def same_billing_def accounts_of_def split: prod.split sum.split)
  then show ?case using Cons [of "deliver_row now drains n c x"] by (simp add: same_billing_def)
qed (simp add: same_billing_def)

lemma inventory_same_billing:
  assumes "UpsertInventory clk newGPU n orgID info labels gs d = Inr (u, d')"
  shows "same_billing d d'"
proof -
  define d1 where "d1 = d\<lparr>gpu_nodes := upd (\<lambda>r. n_ID r = n) (\<lambda>r. r\<lparr>n_Info := info, n_Labels := labels,
      n_LastSeenAt := Some (db_now clk), n_Status := NodeOnline\<rparr>) (gpu_nodes d)\<rparr>"
  have f: "foldE (upsert_gpu (db_now clk) newGPU n orgID) gs d1 = Inr d'"
    using assms unfolding UpsertInventory_def Let_def d1_def [symmetric] by (auto simp: bindE_Inr_iff)
  have "same_billing d d1" by (simp add: d1_def same_billing_def accounts_of_def)
  then show ?thesis
    by (rule foldE_invariant [OF f, where I = "same_billing d"])
      (auto simp: upsert_gpu_def same_billing_def accounts_of_def split: if_splits)
qed

lemma other_same_billing:
  "insert_event now wid orgID stage message d = Inr (u, d') \<Longrightarrow> same_billing d d'"
  "RecordHeartbeat clk orgID nodeID ver cnt util d = Inr (u, d') \<Longrightarrow> same_billing d d'"
  "SetNodeStatus nodeID ns d = Inr (u, d') \<Longrightarrow> same_billing d d'"
  "SweepOffline clk d = Inr (u, d') \<Longrightarrow> same_billing d d'"
  "revoke_credentials now nodeID d = (k, d') \<Longrightarrow> same_billing d d'"
  "reset_due now nodeID d = Inr (u, d') \<Longrightarrow> same_billing d d'"
  "same_billing d (Ack now i ok msg d)"
  by (auto simp: insert_event_def RecordHeartbeat_def SetNodeStatus_def SweepOffline_def revoke_credentials_def
      reset_due_def Ack_def Let_def same_billing_def accounts_of_def split: if_splits)

text \<open>
  A transaction is a workload transaction, removes a node, meters a workload, posts a top-up or
  leaves the workload and billing tables alone.
\<close>

lemma tx_step_kinds:
  assumes "tx_step d d'"
  obtains (core) "core_step d d'"
  | (same) "same_billing d d'"
  | (remove) clk orgID nodeID force rr where "RemoveNode clk orgID nodeID force d = Inr (rr, d')"
  | (meter) clk wid where "MeterWorkload clk wid d = Inr ((), d')"
  | (credit) now orgID delta kind desc where "postLedgerTx now orgID delta kind desc None d = Inr d'"
  using assms
proof cases
  case (tx_meter clk wid u)
  then show ?thesis using meter by simp
next
  case (tx_remove clk orgID nodeID force rr)
  then show ?thesis using remove by simp
next
  case (tx_credit now orgID delta kind desc)
  then show ?thesis using credit by simp
next
  case (tx_deliver now drains nodeID cs streams sent)
  then show ?thesis using deliver_same_billing [of "(0, d, streams, sent)"] same by simp
next
  case (tx_ack now i ok msg)
  then show ?thesis using other_same_billing(7) same by simp
qed (auto intro: core same core_steps enroll_same_billing inventory_same_billing other_same_billing
    simp: same_billing_def accounts_of_def)


text \<open>Removing a node fails its workloads, releases and deletes its GPUs, and keeps the ledger.\<close>

lemma RemoveNode_result:
  assumes "RemoveNode clk orgID n force d = Inr (x, d')"
  obtains "credit_ledger d' = credit_ledger d"
    and "marks_kept (workloads d) (workloads d')"
    and "distinct (pairs_of d) \<longrightarrow> distinct (pairs_of d')"
    and "\<exists>P. usage_records d' = upd P (\<lambda>u. u\<lparr>ur_GPUID := None\<rparr>) (usage_records d)"
proof -
  define d1 where "d1 = (if affected (live_on n) (workloads d) > 0 then fail_on_node (db_now clk) n d else d)"
  obtain k d2 where k: "revoke_credentials (db_now clk) n d1 = (k, d2)" by fastforce
  have d': "d' = delete_node n d2"
    using assms k unfolding RemoveNode_def Let_def d1_def [symmetric] by (auto split: if_splits)
  have d2: "credit_ledger d2 = credit_ledger d1" "workloads d2 = workloads d1" "workload_gpus d2 = workload_gpus d1"
    "usage_records d2 = usage_records d1"
    using k by (auto simp: revoke_credentials_def Let_def)
  have pairs: "map (\<lambda>a. (wg_workload a, wg_gpu a)) (upd P (\<lambda>a. a\<lparr>wg_detached_at := t\<rparr>) as) = map (\<lambda>a. (wg_workload a, wg_gpu a)) as"
    for P t and as :: "workload_gpu list" by (auto simp: upd_def)
  have d1: "credit_ledger d1 = credit_ledger d" "usage_records d1 = usage_records d" "pairs_of d1 = pairs_of d"
    by (simp_all add: d1_def fail_on_node_def pairs_of_def pairs)
  have "marks_kept (workloads d) (workloads d1)"
    by (auto simp: d1_def fail_on_node_def intro!: marks_kept_upd)
  moreover have "marks_kept (workloads d1) (workloads d')"
    by (auto simp: d' delete_node_def Let_def d2 intro!: marks_kept_upd)
  ultimately have "marks_kept (workloads d) (workloads d')" by (rule marks_kept_trans)
  moreover have "distinct (pairs_of d')" if "distinct (pairs_of d)"
    using that unfolding d1(3) [symmetric]
    by (simp add: d' delete_node_def Let_def d2 pairs_of_def del_def distinct_map_filter)
  ultimately show ?thesis
    by (intro that) (auto simp: d' delete_node_def Let_def d2 d1)
qed

lemma fold_meter_gpu_accounts: "accounts_of (fold (meter_gpu w start until) gs d) = accounts_of d"
proof -
  have "accounts_of (meter_gpu w start until g e) = accounts_of e" for g e
    by (simp add: meter_gpu_def accounts_of_def Let_def split: prod.split)
  then show ?thesis by (induction gs arbitrary: d) simp_all
qed

text \<open>No transaction of the control plane touches an organisation, a user or a membership.\<close>

lemma tx_step_accounts: "tx_step d d' \<Longrightarrow> accounts_of d' = accounts_of d"
proof (induction rule: tx_step_kinds)
  case core
  then show ?case by (simp add: accounts_of_def core_step_def core_frame_other)
next
  case same
  then show ?case by (simp add: same_billing_def)
next
  case (remove clk orgID nodeID force rr)
  then show ?case
    by (auto simp: RemoveNode_def Let_def delete_node_def fail_on_node_def revoke_credentials_def accounts_of_def split: if_splits)
next
  case (meter clk wid)
  then show ?case
  proof (cases rule: MeterWorkload_cases)
    case (billed w fr until d1 d2)
    have "accounts_of d1 = accounts_of d" by (simp add: billed(3) fold_meter_gpu_accounts)
    then show ?thesis using billed(4) by (auto simp: billed(5) accounts_of_def postLedgerTx_def split: if_splits)
  qed simp
next
  case (credit now orgID delta kind desc)
  then show ?case by (auto simp: postLedgerTx_def accounts_of_def split: if_splits)
qed

lemma meter_ledger:
  assumes "MeterWorkload clk wid d = Inr ((), d')" and "ledger_inv d"
  shows "ledger_inv d'"
  using assms(1)
proof (cases rule: MeterWorkload_cases)
  case (billed w fr until d1 d2)
  have "ledger_inv d1"
    using assms(2) fold_meter_gpu_frame [of w fr until "workload_gpu_models wid d" d]
    by (simp add: billed(3) ledger_inv_def)
  then have "ledger_inv d2" using billed(4) postLedgerTx_ledger_inv by blast
  then show ?thesis by (simp add: billed(5) ledger_inv_def)
qed (use assms(2) in simp)

interpretation ledger: tx_invariant ledger_inv
proof
  fix d d' assume "tx_step d d'" and inv: "ledger_inv d"
  then show "ledger_inv d'"
  proof (cases rule: tx_step_kinds)
    case core
    show ?thesis by (rule ledger_inv_same [OF core_step_ledger [OF core] inv])
  next
    case same
    then show ?thesis using inv by (simp add: same_billing_def ledger_inv_def)
  next
    case (remove clk orgID nodeID force rr)
    then have "credit_ledger d' = credit_ledger d" by (rule RemoveNode_result)
    then show ?thesis using inv by (rule ledger_inv_same)
  next
    case (meter clk wid)
    then show ?thesis using inv by (rule meter_ledger)
  next
    case (credit now orgID delta kind desc)
    then show ?thesis using inv by (rule postLedgerTx_ledger_inv)
  qed
qed

section \<open>No GPU second is billed twice\<close>

definition slice_ok :: "WorkloadRow list \<Rightarrow> UsageRecord \<Rightarrow> bool" where
  "slice_ok ws u \<longleftrightarrow> (\<exists>w \<in> set ws. \<exists>st m. ur_WorkloadID u = Some (w_ID w) \<and> w_StartedAt w = Some st \<and>
     w_metered_until w = Some m \<and> st \<le> ur_PeriodStart u \<and> ur_PeriodStart u < ur_PeriodEnd u \<and>
     ur_PeriodEnd u \<le> m \<and> ur_GPUSeconds u = seconds_of (ur_PeriodEnd u - ur_PeriodStart u))"

definition billed_before :: "UsageRecord \<Rightarrow> UsageRecord \<Rightarrow> bool" where
  "billed_before u v \<longleftrightarrow> (ur_WorkloadID u = ur_WorkloadID v \<and> ur_GPUID u = ur_GPUID v \<and> ur_GPUID u \<noteq> None \<longrightarrow>
     ur_PeriodEnd u \<le> ur_PeriodStart v)"

definition billing_inv :: "db \<Rightarrow> bool" where
  "billing_inv d \<longleftrightarrow> alloc_inv d \<and> distinct (pairs_of d) \<and>
     (\<forall>u \<in> set (usage_records d). slice_ok (workloads d) u) \<and> sorted_wrt billed_before (usage_records d)"

lemma billing_inv_empty: "billing_inv empty_db"
  using alloc_inv_empty by (simp add: billing_inv_def pairs_of_def empty_db_def)

lemma slice_ok_kept:
  assumes "slice_ok ws u" and kept: "marks_kept ws ws'"
  shows "slice_ok ws' u"
proof -
  obtain w st m where w: "w \<in> set ws" "ur_WorkloadID u = Some (w_ID w)" "w_StartedAt w = Some st" "w_metered_until w = Some m"
    and u: "st \<le> ur_PeriodStart u" "ur_PeriodStart u < ur_PeriodEnd u" "ur_PeriodEnd u \<le> m"
      "ur_GPUSeconds u = seconds_of (ur_PeriodEnd u - ur_PeriodStart u)"
    using assms(1) unfolding slice_ok_def by blast
  obtain v where "v \<in> set ws'" "w_ID v = w_ID w" "w_StartedAt v = w_StartedAt w" "w_metered_until v = w_metered_until w"
    using kept w(1,3) unfolding marks_kept_def by fastforce
  then show ?thesis unfolding slice_ok_def using w u by (intro bexI [of _ v] exI [of _ st] exI [of _ m]) simp_all
qed

text \<open>The slice that is due starts at the watermark and is not empty.\<close>

lemma meter_slice_Some:
  assumes "meter_slice now w = Some (fr, until)"
  obtains st where "w_StartedAt w = Some st" and "st \<le> fr" and "fr < until"
    and "\<And>m. w_metered_until w = Some m \<Longrightarrow> m \<le> fr"
    and "fr = st \<or> w_metered_until w = Some fr"
proof -
  obtain st where st: "w_StartedAt w = Some st" using assms by (auto simp: meter_slice_def split: option.splits)
  define f where "f = (case w_metered_until w of None \<Rightarrow> st | Some m \<Rightarrow> if m > st then m else st)"
  have f: "st \<le> f" "\<And>m. w_metered_until w = Some m \<Longrightarrow> m \<le> f" "f = st \<or> w_metered_until w = Some f"
    by (auto simp: f_def split: option.split)
  have "fr = f \<and> f < until"
    using assms unfolding meter_slice_def st f_def by (simp add: Let_def split: option.splits if_splits)
  then show ?thesis using f by (intro that [OF st]) auto
qed

lemma workload_gpu_models_fst:
  "map fst (workload_gpu_models wid d) =
     map wg_gpu (filter (\<lambda>a. wg_workload a = wid \<and> (\<exists>g \<in> set (gpus d). g_ID g = wg_gpu a)) (workload_gpus d))"
proof -
  have "map fst (List.map_filter (\<lambda>a. if wg_workload a = wid
        then map_option (\<lambda>g. (g_ID g, g_Model g)) (gpu_by_id (wg_gpu a) d) else None) as) =
     map wg_gpu (filter (\<lambda>a. wg_workload a = wid \<and> (\<exists>g \<in> set (gpus d). g_ID g = wg_gpu a)) as)" for as
    by (induction as) (auto simp: map_filter_simps gpu_by_id_def find_None_set dest!: find_SomeD split: option.splits)
  then show ?thesis by (simp add: workload_gpu_models_def)
qed

lemma workload_gpu_models_distinct:
  assumes "distinct (pairs_of d)"
  shows "distinct (map fst (workload_gpu_models wid d))"
proof -
  have "distinct (map wg_gpu (filter (\<lambda>a. wg_workload a = wid \<and> Q a) as))"
    if "distinct (map (\<lambda>a. (wg_workload a, wg_gpu a)) as)" for Q as
    using that by (induction as) (auto simp: image_iff)
  then show ?thesis using assms by (simp add: workload_gpu_models_fst pairs_of_def)
qed

text \<open>A batch of slices of one period for distinct GPUs, appended to older records.\<close>

lemma list_all2_in_right:
  "list_all2 R xs ys \<Longrightarrow> y \<in> set ys \<Longrightarrow> \<exists>x \<in> set xs. R x y"
  by (induction rule: list_all2_induct) auto

lemma sorted_slices:
  assumes "list_all2 (\<lambda>g u. is_slice_usage w fr until (fst g) u) gs us" and "distinct (map fst gs)"
  shows "sorted_wrt billed_before us"
  using assms
proof (induction rule: list_all2_induct)
  case (Cons g gs u us)
  have "billed_before u v" if v: "v \<in> set us" for v
  proof -
    obtain h where "h \<in> set gs" "is_slice_usage w fr until (fst h) v"
      using list_all2_in_right [OF Cons(2) v] by blast
    then show ?thesis using Cons(1,4) by (auto simp: billed_before_def is_slice_usage_def)
  qed
  then show ?case using Cons by simp
qed simp


lemma meter_billing:
  assumes tx: "MeterWorkload clk wid d = Inr ((), d')" and inv: "billing_inv d"
  shows "billing_inv d'"
  using tx
proof (cases rule: MeterWorkload_cases)
  case (billed w fr until d1 d2)
  let ?f = "\<lambda>r. r\<lparr>w_metered_until := Some until\<rparr>"
  have alloc: "alloc_inv d'" using meter_alloc inv tx unfolding billing_inv_def by blast
  have w: "w \<in> set (workloads d)" "w_ID w = wid" using billed(1) find_SomeD unfolding workload_by_id_def by fastforce+
  obtain st where st: "w_StartedAt w = Some st" "st \<le> fr" "fr < until" "\<And>m. w_metered_until w = Some m \<Longrightarrow> m \<le> fr"
    using billed(2) by (rule meter_slice_Some) blast
  have uniq: "v = w" if "v \<in> set (workloads d)" "w_ID v = wid" for v
    using inv distinct_key_unique [of w_ID "workloads d" v w] that w
    by (auto simp: billing_inv_def alloc_inv_def dest: alloc_okD(1))
  obtain us where us: "usage_records d1 = usage_records d @ us"
    "list_all2 (\<lambda>g u. is_slice_usage w fr until (fst g) u) (workload_gpu_models wid d) us"
    using fold_meter_gpu_usage [of w fr until "workload_gpu_models wid d" d] billed(3) by blast
  have d2: "usage_records d2 = usage_records d @ us" "workload_gpus d2 = workload_gpus d"
    using billed(3,4) us(1) fold_meter_gpu_frame [of w fr until "workload_gpu_models wid d" d]
    by (auto simp: billing_frame_def dest!: postLedgerTx_Inr)
  have mark: "?f w \<in> set (workloads d')" using in_set_updI [OF w(1), of "\<lambda>r. w_ID r = wid" ?f] w(2) by (simp add: billed(5))
  have new: "is_slice_usage w fr until (the (ur_GPUID u)) u" if "u \<in> set us" for u
    using list_all2_in_right [OF us(2) that] by (auto simp: is_slice_usage_def)
  have old: "slice_ok (workloads d') u" if u: "u \<in> set (usage_records d)" for u
  proof (cases "ur_WorkloadID u = Some wid")
    case True
    obtain m where "w_metered_until w = Some m" "st \<le> ur_PeriodStart u" "ur_PeriodStart u < ur_PeriodEnd u"
      "ur_PeriodEnd u \<le> m" "ur_GPUSeconds u = seconds_of (ur_PeriodEnd u - ur_PeriodStart u)"
      using inv u True uniq st(1) unfolding billing_inv_def slice_ok_def by fastforce
    then show ?thesis
      unfolding slice_ok_def using True mark w(2) st by (intro bexI [of _ "?f w"] exI [of _ st] exI [of _ until]) fastforce+
  next
    case False
    then obtain v where v: "v \<in> set (workloads d)" "w_ID v \<noteq> wid" "slice_ok [v] u"
      using inv u unfolding billing_inv_def slice_ok_def by fastforce
    then have "v \<in> set (workloads d')" using in_set_updI [OF v(1), of "\<lambda>r. w_ID r = wid" ?f] by (simp add: billed(5))
    then show ?thesis using v(3) by (auto simp: slice_ok_def)
  qed
  have "slice_ok (workloads d') u" if "u \<in> set us" for u
    using new [OF that] mark w(2) st unfolding slice_ok_def is_slice_usage_def
    by (intro bexI [of _ "?f w"] exI [of _ st] exI [of _ until]) simp_all
  moreover have "billed_before u v" if "u \<in> set (usage_records d)" "v \<in> set us" for u v
    using new [OF that(2)] inv that(1) uniq st(4) w(2)
    unfolding billing_inv_def billed_before_def is_slice_usage_def slice_ok_def by fastforce
  moreover have "sorted_wrt billed_before us"
    using sorted_slices [OF us(2) workload_gpu_models_distinct] inv unfolding billing_inv_def by blast
  ultimately show ?thesis
    using alloc inv old d2 billed(5) by (auto simp: billing_inv_def sorted_wrt_append pairs_of_def)
qed (use inv in simp)

lemma billing_inv_kept:
  assumes inv: "billing_inv d" and "alloc_inv d'" and "marks_kept (workloads d) (workloads d')"
    and "distinct (pairs_of d) \<longrightarrow> distinct (pairs_of d')"
    and us: "usage_records d' = upd P (\<lambda>u. u\<lparr>ur_GPUID := None\<rparr>) (usage_records d)"
  shows "billing_inv d'"
proof -
  have "sorted_wrt billed_before (upd P (\<lambda>u. u\<lparr>ur_GPUID := None\<rparr>) us)" if "sorted_wrt billed_before us" for us
    using that unfolding upd_def sorted_wrt_map
    by (rule sorted_wrt_mono_rel [rotated]) (auto simp: billed_before_def)
  moreover have "slice_ok (workloads d') u" if u: "u \<in> set (usage_records d')" for u
    using u unfolding us
  proof (cases rule: in_set_updE)
    case (hit q)
    then have "slice_ok (workloads d') q" using inv assms(3) slice_ok_kept unfolding billing_inv_def by blast
    then show ?thesis using hit(3) by (simp add: slice_ok_def)
  next
    case miss
    then show ?thesis using inv assms(3) slice_ok_kept unfolding billing_inv_def by blast
  qed
  ultimately show ?thesis using inv assms(2,4) us unfolding billing_inv_def by simp
qed

interpretation billing: tx_invariant billing_inv
proof
  fix d d' assume tx: "tx_step d d'" and inv: "billing_inv d"
  have alloc: "alloc_inv d'" using alloc.tx_keeps [OF tx] inv by (simp add: billing_inv_def)
  have none: "upd (\<lambda>_. False) f us = us" for f and us :: "UsageRecord list" by (rule upd_id) simp
  show "billing_inv d'" using tx
  proof (cases rule: tx_step_kinds)
    case core
    then show ?thesis
      by (intro billing_inv_kept [OF inv alloc, where P = "\<lambda>_. False"]) (auto simp: core_step_def core_frame_other none)
  next
    case same
    then show ?thesis
      by (intro billing_inv_kept [OF inv alloc, where P = "\<lambda>_. False"]) (auto simp: same_billing_def pairs_of_def none)
  next
    case (remove clk orgID nodeID force rr)
    then show ?thesis
    proof (rule RemoveNode_result)
      assume "marks_kept (workloads d) (workloads d')" "distinct (pairs_of d) \<longrightarrow> distinct (pairs_of d')"
        and "\<exists>P. usage_records d' = upd P (\<lambda>u. u\<lparr>ur_GPUID := None\<rparr>) (usage_records d)"
      then show ?thesis using billing_inv_kept [OF inv alloc] by blast
    qed
  next
    case (meter clk wid)
    then show ?thesis using inv by (rule meter_billing)
  next
    case (credit now orgID delta kind desc)
    then show ?thesis using inv alloc
      by (intro billing_inv_kept [OF inv alloc, where P = "\<lambda>_. False"]) (auto simp: pairs_of_def none dest!: postLedgerTx_Inr)
  qed
qed

text \<open>Disjoint periods inside \<open>[lo, hi]\<close> add up to at most its length.\<close>

lemma disjoint_periods:
  assumes "sorted_wrt (\<lambda>u v. ur_PeriodEnd u \<le> ur_PeriodStart v) us" and "lo \<le> hi"
    and "\<And>u. u \<in> set us \<Longrightarrow> lo \<le> ur_PeriodStart u \<and> ur_PeriodStart u \<le> ur_PeriodEnd u \<and> ur_PeriodEnd u \<le> hi"
  shows "sum_list (map (\<lambda>u. ur_PeriodEnd u - ur_PeriodStart u) us) \<le> hi - lo"
  using assms
proof (induction us arbitrary: lo)
  case (Cons u us)
  have "sum_list (map (\<lambda>u. ur_PeriodEnd u - ur_PeriodStart u) us) \<le> hi - ur_PeriodEnd u"
    by (rule Cons.IH) (use Cons.prems in auto)
  then show ?case using Cons.prems(3) [of u] by simp
qed simp

definition billed_on :: "uuid \<Rightarrow> uuid \<Rightarrow> db \<Rightarrow> UsageRecord list" where
  "billed_on wid gid d = filter (\<lambda>u. ur_WorkloadID u = Some wid \<and> ur_GPUID u = Some gid) (usage_records d)"

lemma billed_on_bound:
  assumes inv: "billing_inv d" and w: "w \<in> set (workloads d)"
    and marks: "w_StartedAt w = Some st" "w_metered_until w = Some m" "st \<le> m"
  shows "sum_list (map ur_GPUSeconds (billed_on (w_ID w) gid d)) * second \<le> m - st"
proof -
  let ?us = "billed_on (w_ID w) gid d"
  have ok: "st \<le> ur_PeriodStart u \<and> ur_PeriodStart u < ur_PeriodEnd u \<and> ur_PeriodEnd u \<le> m \<and>
      ur_GPUSeconds u * second \<le> ur_PeriodEnd u - ur_PeriodStart u" if u: "u \<in> set ?us" for u
  proof -
    obtain v where v: "v \<in> set (workloads d)" "w_ID v = w_ID w" "slice_ok [v] u"
      using inv u unfolding billing_inv_def billed_on_def slice_ok_def by fastforce
    have "v = w" using inv distinct_key_unique [of w_ID "workloads d" v w] v w
      by (auto simp: billing_inv_def alloc_inv_def dest: alloc_okD(1))
    then show ?thesis using v(3) marks seconds_of_bounds(2) [of "ur_PeriodEnd u - ur_PeriodStart u"]
      by (auto simp: slice_ok_def)
  qed
  have "sorted_wrt billed_before ?us"
    using inv unfolding billing_inv_def billed_on_def by (simp add: sorted_wrt_filter)
  then have "sorted_wrt (\<lambda>u v. ur_PeriodEnd u \<le> ur_PeriodStart v) ?us"
    by (rule sorted_wrt_mono_rel [rotated]) (auto simp: billed_before_def billed_on_def)
  then have "sum_list (map (\<lambda>u. ur_PeriodEnd u - ur_PeriodStart u) ?us) \<le> m - st"
    using marks(3) by (rule disjoint_periods) (use ok in fastforce)
  moreover have "sum_list (map ur_GPUSeconds us) * second \<le> sum_list (map (\<lambda>u. ur_PeriodEnd u - ur_PeriodStart u) us)"
    if "set us \<subseteq> set ?us" for us
    using that ok by (induction us) (auto simp: distrib_right intro: add_mono)
  ultimately show ?thesis by (meson order.trans subset_refl)
qed


section \<open>Exactly what a slice charges\<close>

text \<open>
  A run at the same instant finds the watermark at the end of the slice and bills nothing more.
\<close>

lemma find_upd_same: "(\<And>r. P (f r) = P r) \<Longrightarrow> find P (upd P f t) = map_option f (find P t)"
  by (induction t) (auto simp: upd_def)

lemma num4_neg: "num4 (- x) = - num4 x"
proof (cases "x = 0")
  case False
  then show ?thesis by (auto simp: num4_def round_half_away_def)
qed simp

lemma meter_again:
  assumes "MeterWorkload clk wid d = Inr ((), d')"
  shows "MeterWorkload clk wid d' = Inr ((), d')"
  using assms
proof (cases rule: MeterWorkload_cases)
  case nothing
  then show ?thesis using assms by simp
next
  case (billed w fr until d1 d2)
  obtain st where st: "w_StartedAt w = Some st" "st \<le> fr" "fr < until"
    using billed(2) by (rule meter_slice_Some) blast
  have "workload_by_id wid d' = Some (w\<lparr>w_metered_until := Some until\<rparr>)"
    using billed(1) unfolding workload_by_id_def billed(5) by (simp add: find_upd_same)
  moreover have "meter_slice (go_now clk) (w\<lparr>w_metered_until := Some until\<rparr>) = None"
  proof -
    have "(if terminal_state (w_Status w) then w_StoppedAt w else Some (go_now clk)) = Some until"
      using billed(2) st(1) by (simp add: meter_slice_def Let_def split: option.splits if_splits)
    then show ?thesis using st by (cases "terminal_state (w_Status w)") (simp_all add: meter_slice_def Let_def)
  qed
  ultimately show ?thesis by (simp add: MeterWorkload_def)
qed

text \<open>
  The metered slice charges every GPU the workload ever held for the whole slice, and the ledger
  once for the sum, converted to rupees.
\<close>

lemma meter_charge:
  assumes "MeterWorkload clk wid d = Inr ((), d')" and "workload_by_id wid d = Some w"
    and "meter_slice (go_now clk) w = Some (fr, until)"
  shows "map cr_Amount (cost_records d') = map cr_Amount (cost_records d) @
      map (\<lambda>g. num4 (slice_amount (w_OrgID w) (snd g) fr until d)) (workload_gpu_models wid d)"
    and "ledger_sum (w_OrgID w) (credit_ledger d') = ledger_sum (w_OrgID w) (credit_ledger d) -
      (if 0 < slice_total w fr until (workload_gpu_models wid d) d
       then num4 (slice_total w fr until (workload_gpu_models wid d) d * usdToINR) else 0)"
    and "\<exists>v. workload_by_id wid d' = Some v \<and> w_metered_until v = Some until"
proof -
  have 1: "map cr_Amount (cost_records d') = map cr_Amount (cost_records d) @
      map (\<lambda>g. num4 (slice_amount (w_OrgID w) (snd g) fr until d)) (workload_gpu_models wid d) \<and>
    ledger_sum (w_OrgID w) (credit_ledger d') = ledger_sum (w_OrgID w) (credit_ledger d) -
      (if 0 < slice_total w fr until (workload_gpu_models wid d) d
       then num4 (slice_total w fr until (workload_gpu_models wid d) d * usdToINR) else 0) \<and>
    workloads d' = upd (\<lambda>r. w_ID r = wid) (\<lambda>r. r\<lparr>w_metered_until := Some until\<rparr>) (workloads d)"
    using assms(1)
  proof (cases rule: MeterWorkload_cases)
    case nothing
    then show ?thesis using assms(2,3) by simp
  next
    case (billed v f u d1 d2)
    then have [simp]: "v = w" "f = fr" "u = until" using assms(2,3) by simp_all
    show ?thesis
      using billed(3-5) fold_meter_gpu_frame [of w fr until "workload_gpu_models wid d" d]
        fold_meter_gpu_cost [of w fr until "workload_gpu_models wid d" d]
      by (auto simp: num4_neg dest!: postLedgerTx_Inr)
  qed
  then show "map cr_Amount (cost_records d') = map cr_Amount (cost_records d) @
      map (\<lambda>g. num4 (slice_amount (w_OrgID w) (snd g) fr until d)) (workload_gpu_models wid d)"
    and "ledger_sum (w_OrgID w) (credit_ledger d') = ledger_sum (w_OrgID w) (credit_ledger d) -
      (if 0 < slice_total w fr until (workload_gpu_models wid d) d
       then num4 (slice_total w fr until (workload_gpu_models wid d) d * usdToINR) else 0)"
    by simp_all
  show "\<exists>v. workload_by_id wid d' = Some v \<and> w_metered_until v = Some until"
    using 1 assms(2) unfolding workload_by_id_def by (simp add: find_upd_same)
qed

end
