(* ===== verification/Lifecycle.thy ===== *)
theory Lifecycle
  imports Metering
begin

text \<open>
  Properties of the workload lifecycle: what a validated request guarantees, what \<open>Launch\<close>
  commits, what the stuck sweep repairs, which states are absorbing, what a tenant can see, and the
  order of the queue.
\<close>

section \<open>Validated requests\<close>

lemma validateLaunch_Inr:
  assumes "validateLaunch req0 = Inr req"
  shows "lr_Name req = TrimSpace (lr_Name req0)" and "lr_Name req \<noteq> ''''" and "length (lr_Name req) \<le> 120"
    and "1 \<le> lr_GPUCount req \<and> lr_GPUCount req \<le> 16"
    and "lr_Image req = '''' \<or> length (lr_Image req) \<le> 256 \<and> matches imageRefPattern (lr_Image req)"
    and "case lr_IdleTimeoutSec req of None \<Rightarrow> True | Some t \<Rightarrow> 60 \<le> t \<and> t \<le> 604800"
  using assms
  by (auto simp: validateLaunch_def Let_def launch_limits split: if_splits option.splits)

section \<open>Events change no allocation\<close>

definition same_alloc :: "sys \<Rightarrow> sys \<Rightarrow> bool" where
  "same_alloc s t \<longleftrightarrow> gpus (s_db t) = gpus (s_db s) \<and> workload_gpus (s_db t) = workload_gpus (s_db s) \<and>
     agent_commands (s_db t) = agent_commands (s_db s) \<and>
     map (\<lambda>w. w\<lparr>w_Stage := ''''\<rparr>) (workloads (s_db t)) = map (\<lambda>w. w\<lparr>w_Stage := ''''\<rparr>) (workloads (s_db s))"

lemma same_alloc_refl [simp]: "same_alloc s s"
  by (simp add: same_alloc_def)

lemma same_alloc_trans: "same_alloc s t \<Longrightarrow> same_alloc t u \<Longrightarrow> same_alloc s u"
  by (simp add: same_alloc_def)

lemma same_alloc_effects [simp]:
  "same_alloc s (Nudge n t) = same_alloc s t" "same_alloc s (sv_notify sv orgID ts t) = same_alloc s t"
  "same_alloc s (auditSystem sv orgID a b w m t) = same_alloc s t"
  by (simp_all add: same_alloc_def)

lemma same_alloc_atomically:
  assumes "\<And>a d'. body (s_db s) = Inr (a, d') \<Longrightarrow> same_alloc s (s\<lparr>s_db := d'\<rparr>)"
  shows "same_alloc s (snd (atomically body s))"
  by (cases rule: atomically_cases [of body s]) (auto simp: same_alloc_def dest!: assms)

lemma recordEvent_alloc: "same_alloc s (snd (recordEvent now wid orgID stage msg s))"
proof -
  have 1: "same_alloc s (snd (atomically (insert_event now wid orgID stage msg) s))"
    by (rule same_alloc_atomically) (auto simp: insert_event_def same_alloc_def split: if_splits)
  have 2: "same_alloc t (snd (atomically (set_stage wid stage) t))" for t
    by (rule same_alloc_atomically) (auto simp: set_stage_def same_alloc_def upd_def)
  show ?thesis using 1 same_alloc_trans [OF 1 2]
    by (auto simp: recordEvent_def split: prod.split sum.split)
qed

lemma same_alloc_event: "same_alloc s t \<Longrightarrow> same_alloc s (snd (recordEvent now wid orgID stage msg t))"
  using recordEvent_alloc by (rule same_alloc_trans [rotated])

section \<open>Launch\<close>

text \<open>\<open>Launch\<close> either fails and leaves the database alone, or commits its transaction.\<close>

lemma Launch_cases:
  assumes "Launch sv clk locked wid cmdID rnd orgID req0 s = (r, s')"
  obtains (failed) e where "r = Inl e" and "s_db s' = s_db s"
  | (launched) req wl p d where "r = Inr wl" and "validateLaunch req0 = Inr req"
      and "launch_tx clk locked cmdID req (new_workload (go_now clk) wid orgID rnd req) (s_db s) = Inr ((wl, p), d)"
      and "same_alloc (s\<lparr>s_db := d\<rparr>) s'"
proof (cases "validateLaunch req0")
  case (Inl e)
  then show ?thesis using assms by (intro failed [of e]) (simp_all add: Launch_def)
next
  case (Inr req)
  obtain ra s1 where a: "authorize sv clk orgID (lr_DepartmentID req) (lr_ProjectID req) s = (ra, s1)" by fastforce
  have s1: "s_db s1 = s_db s"
    using a by (auto simp: authorize_def dest: AuthorizeLaunch_eq_db split: option.splits)
  let ?tx = "launch_tx clk locked cmdID req (new_workload (go_now clk) wid orgID rnd req)"
  obtain rb s2 where b: "atomically ?tx s1 = (rb, s2)" by fastforce
  show ?thesis
  proof (cases ra)
    case (Inl e)
    then show ?thesis using assms s1
      by (intro failed [of e]) (auto simp: Launch_def \<open>validateLaunch req0 = Inr req\<close> a)
  next
    case (Inr u)
    show ?thesis
    proof (cases rb)
      case (Inl e)
      then have "s_db s2 = s_db s" using atomically_Inl b s1 by metis
      then show ?thesis using assms Inl
        by (intro failed [of e]) (auto simp: Launch_def \<open>validateLaunch req0 = Inr req\<close> a \<open>ra = Inr u\<close> b)
    next
      case (Inr x)
      obtain wl p where x: "x = (wl, p)" by (cases x)
      have tx: "?tx (s_db s) = Inr ((wl, p), s_db s2)" using b Inr x s1 atomically_Inr by metis
      have "same_alloc s2 s' \<and> r = Inr wl"
        using assms unfolding Launch_def \<open>validateLaunch req0 = Inr req\<close> sum.case a \<open>ra = Inr u\<close> prod.case b Inr x Let_def
        by (auto split: option.splits intro!: same_alloc_event recordEvent_alloc)
      then show ?thesis using launched [OF _ \<open>validateLaunch req0 = Inr req\<close> tx] by (simp add: same_alloc_def)
    qed
  qed
qed


text \<open>The launch command a placed workload sends to its node, field by field.\<close>

definition launch_command_for :: "Workload \<Rightarrow> placement \<Rightarrow> command_row \<Rightarrow> bool" where
  "launch_command_for wl p c \<longleftrightarrow> c_NodeID c = p_nodeID p \<and> c_WorkloadID c = Some (w_ID wl) \<and>
     c_Kind c = KindLaunch \<and> c_Status c = CmdPending \<and>
     (\<exists>spec. sm_Payload (c_Payload c) = LaunchWorkload spec \<and> sp_WorkloadId spec = w_ID wl \<and>
        sp_Image spec = w_Image wl \<and> sp_GpuUuids spec = p_gpuUUIDs p \<and>
        uint (sp_GpuCount spec) = w_RequestedGPUCount wl \<and>
        Some (uint (sp_IdleTimeoutSec spec)) = w_IdleTimeoutSec wl)"

lemma enqueueLaunch_command:
  assumes "enqueueLaunch clk cmdID w p d = Inr d'" and "w_IdleTimeoutSec w = Some t"
    and "0 \<le> t \<and> t < 2 ^ 32" and "0 \<le> w_RequestedGPUCount w \<and> w_RequestedGPUCount w < 2 ^ 32"
  shows "\<exists>c. d' = d\<lparr>agent_commands := agent_commands d @ [c]\<rparr> \<and> launch_command_for w p c"
proof -
  obtain c where c: "Enqueue (db_now clk) c d = Inr d'" and "cmd_NodeID c = p_nodeID p" "cmd_WorkloadID c = Some (w_ID w)"
    "cmd_Kind c = KindLaunch" and pl: "\<exists>env. sm_Payload (cmd_Payload c) = LaunchWorkload \<lparr>sp_WorkloadId = w_ID w,
      sp_Image = w_Image w, sp_GpuCount = word_of_int (w_RequestedGPUCount w), sp_GpuUuids = p_gpuUUIDs p,
      sp_IdleTimeoutSec = word_of_int t, sp_Env = env, sp_ExposeSsh = w_ExposeSSH w,
      sp_ExposeJupyter = w_ExposeJupyter w\<rparr>"
    using assms(1,2) unfolding enqueueLaunch_def Let_def by fastforce
  have "launch_command_for w p (command_row_of (db_now clk) c)"
    using \<open>cmd_NodeID c = p_nodeID p\<close> \<open>cmd_WorkloadID c = Some (w_ID w)\<close> \<open>cmd_Kind c = KindLaunch\<close> pl assms(2-4)
    by (auto simp: launch_command_for_def command_row_of_def uint_word_of_int take_bit_eq_mod mod_pos_pos_trivial)
  then show ?thesis using Enqueue_frame(1) [OF c] by blast
qed

lemma launch_tx_placed:
  assumes tx: "launch_tx clk locked cmdID req wl0 d = Inr ((wl, Some p), d')"
    and "w_NodeID wl0 = None"
  shows "placeAndAttach locked (w_OrgID wl0) (w_ID wl0) (lr_GPUType req) (lr_GPUCount req) d = Inr p"
    and "wl = wl0\<lparr>w_NodeID := Some (p_nodeID p), w_Status := WorkloadPending\<rparr>"
    and "workload_gpus d' = workload_gpus d @ new_attachments (db_now clk) (w_ID wl0) (p_gpuIDs p)"
    and "\<exists>d2. agent_commands d2 = agent_commands d \<and> enqueueLaunch clk cmdID wl p d2 = Inr d'"
    and "\<And>w. w \<in> set (workloads d) \<Longrightarrow> w_ID w \<noteq> w_ID wl0"
proof -
  have P: "placeAndAttach locked (w_OrgID wl0) (w_ID wl0) (lr_GPUType req) (lr_GPUCount req) d = Inr p \<and>
    wl = wl0\<lparr>w_NodeID := Some (p_nodeID p), w_Status := WorkloadPending\<rparr> \<and>
    (\<exists>d1 d2. insertWorkload wl ''preparing'' (if lr_GPUType req = '''' then ''any'' else lr_GPUType req) None d = Inr d1 \<and>
      attach (db_now clk) p d1 = Inr d2 \<and> enqueueLaunch clk cmdID wl p d2 = Inr d')"
    using tx by (auto simp: launch_tx_def Let_def bindE_Inr_iff split: sum.splits if_splits)
  then show pl: "placeAndAttach locked (w_OrgID wl0) (w_ID wl0) (lr_GPUType req) (lr_GPUCount req) d = Inr p"
    and wl: "wl = wl0\<lparr>w_NodeID := Some (p_nodeID p), w_Status := WorkloadPending\<rparr>" by simp_all
  obtain d1 d2 where 1: "insertWorkload wl ''preparing'' (if lr_GPUType req = '''' then ''any'' else lr_GPUType req) None d = Inr d1"
    and 2: "attach (db_now clk) p d1 = Inr d2" and 3: "enqueueLaunch clk cmdID wl p d2 = Inr d'" using P by blast
  obtain row where row: "d1 = d\<lparr>workloads := workloads d @ [row]\<rparr>" "\<And>r. r \<in> set (workloads d) \<Longrightarrow> w_ID r \<noteq> w_ID wl"
    using 1 by (elim insertWorkload_Inr) simp
  obtain c where c: "d' = d2\<lparr>agent_commands := agent_commands d2 @ [c]\<rparr>" using enqueueLaunch_frame [OF 3] by blast
  show "workload_gpus d' = workload_gpus d @ new_attachments (db_now clk) (w_ID wl0) (p_gpuIDs p)"
    using c attach_Inr [OF 2] row(1) placeAndAttach_sound(1) [OF pl] by simp
  show "\<exists>d2. agent_commands d2 = agent_commands d \<and> enqueueLaunch clk cmdID wl p d2 = Inr d'"
    using attach_Inr [OF 2] row(1) by (intro exI [of _ d2] conjI 3) simp
  show "w_ID w \<noteq> w_ID wl0" if "w \<in> set (workloads d)" for w using row(2) [OF that] wl by simp
qed

lemma active_new_attachments:
  "map wg_gpu (filter (\<lambda>a. wg_workload a = wid \<and> active a) (new_attachments now wid gids)) = gids"
  by (induction gids) (simp_all add: new_attachments_def active_def)

text \<open>
  A workload that \<open>Launch\<close> returns as placed holds exactly the GPUs it asked for, each idle
  and matching in the caller's organisation on one online node before the call, and exactly one
  launch command for it is in the outbox, carrying counts that did not wrap and an image that
  cannot be read as a flag or a shell word.
\<close>

lemma Launch_placed:
  assumes inv: "alloc_inv (s_db s)" and run: "Launch sv clk locked wid cmdID rnd orgID req0 s = (Inr wl, s')"
    and node: "w_NodeID wl = Some n"
  shows "\<exists>p c. p_nodeID p = n \<and> node_online n (s_db s) \<and>
     active_gpu_ids wid (s_db s') = p_gpuIDs p \<and> distinct (p_gpuIDs p) \<and>
     int (length (p_gpuIDs p)) = w_RequestedGPUCount wl \<and> length (p_gpuUUIDs p) = length (p_gpuIDs p) \<and>
     (\<forall>gid \<in> set (p_gpuIDs p). \<exists>g \<in> set (gpus (s_db s)). g_ID g = gid \<and> g_Status g = GPUIdle \<and>
        g_NodeID g = n \<and> g_OrgID g = orgID \<and> type_matches (lr_GPUType req0) g \<and> \<not> locked gid) \<and>
     agent_commands (s_db s') = agent_commands (s_db s) @ [c] \<and> launch_command_for wl p c \<and>
     list_all is_ref_char (w_Image wl) \<and> w_Image wl \<noteq> '''' \<and> is_alnum (hd (w_Image wl))"
  using run
proof (cases rule: Launch_cases)
  case (launched req wl' po d)
  let ?w0 = "new_workload (go_now clk) wid orgID rnd req"
  note V = validateLaunch_Inr [OF launched(2)]
  have wl': "wl' = wl" using launched(1) by simp
  have "po \<noteq> None"
    using launched(3) node unfolding wl'
    by (auto simp: launch_tx_def Let_def bindE_Inr_iff new_workload_def split: sum.splits if_splits)
  then obtain p where p: "po = Some p" by auto
  note T = launch_tx_placed [OF launched(3) [unfolded wl' p]]
  have T': "w_NodeID ?w0 = None" "w_OrgID ?w0 = orgID" "w_ID ?w0 = wid" by (simp_all add: new_workload_def)
  have pl: "placeAndAttach locked orgID wid (lr_GPUType req) (lr_GPUCount req) (s_db s) = Inr p"
    and wl: "wl = ?w0\<lparr>w_NodeID := Some (p_nodeID p), w_Status := WorkloadPending\<rparr>"
    using T(1,2) T' by simp_all
  have dist: "distinct (map g_ID (gpus (s_db s)))" using inv alloc_okD(2) by (auto simp: alloc_inv_def)
  have old: "filter (\<lambda>a. wg_workload a = wid \<and> active a) (workload_gpus (s_db s)) = []"
    using inv T(5) T' alloc_okD(4) unfolding alloc_inv_def filter_empty_conv by metis
  have gpu: "active_gpu_ids wid (s_db s') = p_gpuIDs p"
    using launched(4) T(3) T' old active_new_attachments [of wid "db_now clk" "p_gpuIDs p"]
    by (simp add: same_alloc_def active_gpu_ids_def)
  have lim: "w_RequestedGPUCount wl = lr_GPUCount req"
    "w_IdleTimeoutSec wl = Some (case lr_IdleTimeoutSec req of None \<Rightarrow> 3600 | Some t \<Rightarrow> t)"
    by (simp_all add: wl new_workload_def)
  obtain d2 where d2: "agent_commands d2 = agent_commands (s_db s)" "enqueueLaunch clk cmdID wl p d2 = Inr d"
    using T(4) T'(1) by blast
  obtain c where c: "agent_commands d = agent_commands (s_db s) @ [c]" "launch_command_for wl p c"
    using enqueueLaunch_command [OF d2(2) lim(2)] V(4,6) d2(1) lim(1) by (auto split: option.splits)
  have "matches imageRefPattern ''ubuntu:22.04''" by code_simp
  then have "matches imageRefPattern (w_Image wl)" using V(5) by (auto simp: wl new_workload_def)
  note img = imageRef_safe [OF this]
  have ty: "lr_GPUType req = lr_GPUType req0"
    using launched(2) by (auto simp: validateLaunch_def Let_def split: if_splits option.splits)
  have n: "p_nodeID p = n" using node wl by simp
  note S = placeAndAttach_sound [OF pl]
  show ?thesis
    using n gpu c launched(4) img lim(1) V(4) S(2-5) dist placeAndAttach_gpu [OF pl _ dist]
    by (intro exI [of _ p] exI [of _ c]) (auto simp: same_alloc_def ty)
qed simp


text \<open>A launch that the queue takes touches no GPU, and is queued only for lack of capacity.\<close>

lemma Launch_queued:
  assumes inv: "alloc_inv (s_db s)" and run: "Launch sv clk locked wid cmdID rnd orgID req0 s = (Inr wl, s')"
    and node: "w_NodeID wl = None" and free: "\<And>i. \<not> locked i"
  shows "gpus (s_db s') = gpus (s_db s) \<and> workload_gpus (s_db s') = workload_gpus (s_db s) \<and>
     agent_commands (s_db s') = agent_commands (s_db s) \<and> w_Status wl = WorkloadQueued \<and>
     (\<forall>n. int (length (by_node (candidates orgID (lr_GPUType req0) (s_db s)) n)) < w_RequestedGPUCount wl)"
  using run
proof (cases rule: Launch_cases)
  case (launched req wl' po d)
  let ?w0 = "new_workload (go_now clk) wid orgID rnd req"
  have "launch_tx clk locked cmdID req ?w0 (s_db s) = Inr ((wl, po), d)" using launched(1,3) by simp
  then have q: "placeAndAttach locked orgID wid (lr_GPUType req) (lr_GPUCount req) (s_db s) = Inl ErrNoGPUsAvailable"
    "wl = ?w0\<lparr>w_Status := WorkloadQueued\<rparr>"
    "\<exists>t. insertWorkload wl ''queued'' t (Some (go_now clk)) (s_db s) = Inr d"
    using node by (auto simp: launch_tx_def Let_def bindE_Inr_iff new_workload_def split: sum.splits if_splits)
  then have d: "gpus d = gpus (s_db s)" "workload_gpus d = workload_gpus (s_db s)" "agent_commands d = agent_commands (s_db s)"
    by (auto elim!: insertWorkload_Inr)
  have "distinct (map g_ID (gpus (s_db s)))" using inv alloc_okD(2) by (auto simp: alloc_inv_def)
  then have "\<not> nat (lr_GPUCount req) \<le> length (by_node (candidates orgID (lr_GPUType req) (s_db s)) n)" for n
    using placeAndAttach_complete [of "s_db s" locked "lr_GPUCount req" orgID "lr_GPUType req" n wid] free q(1)
      validateLaunch_Inr(4) [OF launched(2)] by auto
  then have "int (length (by_node (candidates orgID (lr_GPUType req) (s_db s)) n)) < lr_GPUCount req" for n
    by (meson not_le nat_le_iff)
  moreover have "lr_GPUType req = lr_GPUType req0"
    using launched(2) by (auto simp: validateLaunch_def Let_def split: if_splits option.splits)
  ultimately show ?thesis using d launched(4) q(2) by (simp add: same_alloc_def new_workload_def)
qed simp

text \<open>
  Nothing but a fault of the database or a missing referenced row fails an admitted launch: the
  claim never races with an attachment, because an idle GPU has no active attachment.
\<close>

lemma idle_unattached:
  assumes "alloc_inv d" and "g \<in> set (gpus d)" and "g_Status g = GPUIdle" and "a \<in> set (workload_gpus d)" and "active a"
  shows "wg_gpu a \<noteq> g_ID g"
proof
  assume eq: "wg_gpu a = g_ID g"
  note D = alloc_okD [OF assms(1) [unfolded alloc_inv_def]]
  obtain h where "h \<in> set (gpus d)" "g_ID h = wg_gpu a" "g_Status h = GPUInUse"
    using D(5) [OF assms(4,5)] by (auto elim: holdsE)
  then show False using distinct_key_unique [OF D(2), of h g] eq assms(2,3) by simp
qed

definition launch_refs_ok :: "LaunchRequest \<Rightarrow> uuid \<Rightarrow> uuid \<Rightarrow> uuid \<Rightarrow> db \<Rightarrow> bool" where
  "launch_refs_ok req orgID wid cmdID d \<longleftrightarrow>
     (\<forall>w \<in> set (workloads d). w_ID w \<noteq> wid) \<and> (\<forall>c \<in> set (agent_commands d). c_ID c \<noteq> cmdID) \<and>
     (\<exists>o' \<in> set (organizations d). o_ID o' = orgID) \<and> (\<exists>u \<in> set (users d). u_ID u = lr_UserID req) \<and>
     (case lr_ProjectID req of None \<Rightarrow> True | Some i \<Rightarrow> \<exists>p \<in> set (projects d). pj_ID p = i) \<and>
     (case lr_DepartmentID req of None \<Rightarrow> True | Some i \<Rightarrow> \<exists>p \<in> set (departments d). dp_ID p = i) \<and>
     (case lr_TemplateID req of None \<Rightarrow> True | Some i \<Rightarrow> \<exists>p \<in> set (templates d). tp_ID p = i)"

lemma placeAndAttach_error:
  assumes "placeAndAttach locked orgID wid t cnt d = Inl e" and "0 < cnt"
  shows "e = ErrNoGPUsAvailable"
proof -
  have "scan_nodes locked wid cands n d nids = Inl e \<Longrightarrow> e = ErrNoGPUsAvailable" for cands n nids
    by (induction nids) (auto simp: Let_def split: if_splits)
  then show ?thesis using assms by (auto simp: placeAndAttach_def Let_def split: if_splits)
qed

lemma launch_tx_total:
  assumes inv: "alloc_inv d" and refs: "launch_refs_ok req orgID wid cmdID d" and cnt: "0 < lr_GPUCount req"
    and w0: "w_ID w0 = wid" "w_OrgID w0 = orgID" "w_UserID w0 = lr_UserID req" "w_ProjectID w0 = lr_ProjectID req"
      "w_DepartmentID w0 = lr_DepartmentID req" "w_TemplateID w0 = lr_TemplateID req" "w_NodeID w0 = None"
  shows "\<exists>x. launch_tx clk locked cmdID req w0 d = Inr x"
proof (cases "placeAndAttach locked orgID wid (lr_GPUType req) (lr_GPUCount req) d")
  case (Inl e)
  then have "e = ErrNoGPUsAvailable" using cnt by (rule placeAndAttach_error)
  moreover obtain d1 where "insertWorkload (w0\<lparr>w_Status := WorkloadQueued\<rparr>) ''queued''
      (if lr_GPUType req = '''' then ''any'' else lr_GPUType req) (Some (go_now clk)) d = Inr d1"
    using refs w0 by (simp add: insertWorkload_def launch_refs_ok_def)
  ultimately show ?thesis using Inl w0 by (auto simp: launch_tx_def Let_def)
next
  case (Inr p)
  let ?w1 = "w0\<lparr>w_NodeID := Some (p_nodeID p), w_Status := WorkloadPending\<rparr>"
  note S = placeAndAttach_sound [OF Inr]
  have on: "\<exists>n \<in> set (gpu_nodes d). n_ID n = p_nodeID p" using S(4) by (auto simp: node_online_def)
  have dist: "distinct (map g_ID (gpus d))" using inv alloc_okD(2) by (auto simp: alloc_inv_def)
  obtain d1 where d1: "insertWorkload ?w1 ''preparing'' (if lr_GPUType req = '''' then ''any'' else lr_GPUType req) None d = Inr d1"
    using refs w0 on by (simp add: insertWorkload_def launch_refs_ok_def)
  then obtain row where row: "d1 = d\<lparr>workloads := workloads d @ [row]\<rparr>" "w_ID row = wid"
    using w0 by (elim insertWorkload_Inr) simp
  have "\<exists>d2. attach (db_now clk) p d1 = Inr d2"
  proof (rule attach_total)
    show "\<exists>w \<in> set (workloads d1). w_ID w = p_workloadID p" using row S(1) by simp
    show "distinct (map g_ID (gpus d1))" using dist row(1) by simp
    show "distinct (p_gpuIDs p)" using S(5) dist by simp
    show "\<exists>g \<in> set (gpus d1). g_ID g = gid \<and> g_Status g = GPUIdle" if "gid \<in> set (p_gpuIDs p)" for gid
      using placeAndAttach_gpu [OF Inr that dist] row(1) by auto
    show "\<not> active a \<and> wg_workload a \<noteq> p_workloadID p"
      if a: "a \<in> set (workload_gpus d1)" "wg_gpu a \<in> set (p_gpuIDs p)" for a
      using idle_unattached [OF inv] placeAndAttach_gpu [OF Inr a(2) dist] a(1) row(1) S(1) refs
        alloc_okD(4) [OF inv [unfolded alloc_inv_def]]
      by (fastforce simp: launch_refs_ok_def)
  qed
  then obtain d2 where d2: "attach (db_now clk) p d1 = Inr d2" by blast
  have "\<exists>d3. enqueueLaunch clk cmdID ?w1 p d2 = Inr d3"
    unfolding enqueueLaunch_def Let_def
    by (subst Enqueue_Inr) (use refs w0 row on in \<open>auto simp: attach_Inr [OF d2] launch_refs_ok_def\<close>)
  then show ?thesis using Inr w0 d1 d2 by (auto simp: launch_tx_def Let_def)
qed

lemma Launch_total:
  assumes inv: "alloc_inv (s_db s)" and nf: "s_faults s = []" and V: "validateLaunch req0 = Inr req"
    and bill: "sv_billing sv \<noteq> Some True \<or>
      admissible (go_now clk) orgID (lr_DepartmentID req) (lr_ProjectID req) (s_db s)"
    and refs: "launch_refs_ok req orgID wid cmdID (s_db s)"
  shows "\<exists>wl. fst (Launch sv clk locked wid cmdID rnd orgID req0 s) = Inr wl"
proof -
  have "authorize sv clk orgID (lr_DepartmentID req) (lr_ProjectID req) s = (Inr (), s)"
  proof (cases "sv_billing sv = Some True")
    case True
    then show ?thesis using bill AuthorizeLaunch_no_fault [OF nf, of "go_now clk" orgID "lr_DepartmentID req" "lr_ProjectID req"]
      by (simp add: authorize_def prod_eq_iff)
  qed (auto simp: authorize_def AuthorizeLaunch_def split: option.split)
  moreover obtain x where x: "launch_tx clk locked cmdID req (new_workload (go_now clk) wid orgID rnd req) (s_db s) = Inr x"
    using launch_tx_total [OF inv refs, of "new_workload (go_now clk) wid orgID rnd req"] validateLaunch_Inr(4) [OF V]
    by (fastforce simp: new_workload_def)
  ultimately show ?thesis
    by (cases x) (auto simp: Launch_def V atomically_no_fault [OF nf] Let_def split: option.split prod.split)
qed


section \<open>The stuck sweep\<close>

text \<open>Rows either failed or are untouched rows whose id was not swept.\<close>

definition swept :: "WorkloadRow list \<Rightarrow> uuid set \<Rightarrow> db \<Rightarrow> bool" where
  "swept ws ids d \<longleftrightarrow> (\<forall>v \<in> set (workloads d). w_Status v = WorkloadFailed \<or> v \<in> set ws \<and> w_ID v \<notin> ids)"

lemma fail_stuck_swept: "swept ws ids d \<Longrightarrow> swept ws (insert i ids) (fail_stuck now i d)"
  unfolding swept_def fail_stuck_def detach_def by (auto elim!: in_set_updE)

lemma fold_fail_stuck_swept: "swept ws ids d \<Longrightarrow> swept ws (ids \<union> set is) (fold (fail_stuck now) is d)"
proof (induction "is" arbitrary: ids d)
  case (Cons i "is")
  then have "swept ws (insert i ids \<union> set is) (fold (fail_stuck now) is (fail_stuck now i d))"
    by (intro Cons.IH fail_stuck_swept)
  then show ?case by simp
qed simp

lemma fail_undelivered_swept:
  assumes "swept ws ids (snd y)"
  shows "swept ws ids (snd (fail_undelivered now e y))"
proof (cases "ex_Kind e = KindLaunch \<and> ex_WorkloadID e \<noteq> None")
  case True
  then obtain wid where e: "ex_Kind e = KindLaunch" "ex_WorkloadID e = Some wid" by auto
  obtain st d where y: "y = (st, d)" by (cases y)
  then show ?thesis using assms unfolding swept_def
    by (auto simp: fail_undelivered_def e Let_def detach_def elim!: in_set_updE)
qed (use assms in \<open>auto simp: fail_undelivered_def split: prod.splits option.splits\<close>)

lemma fold_fail_undelivered_swept:
  "swept ws ids (snd y) \<Longrightarrow> swept ws ids (snd (fold (fail_undelivered now) es y))"
proof (induction es arbitrary: y)
  case (Cons e es)
  then show ?case using fail_undelivered_swept [OF Cons.prems] by simp
qed simp

lemma fail_undelivered_nodes: "gpu_nodes (snd (fold (fail_undelivered now) es y)) = gpu_nodes (snd y)"
proof (induction es arbitrary: y)
  case (Cons e es)
  have "gpu_nodes (snd (fail_undelivered now e y)) = gpu_nodes (snd y)"
    by (auto simp: fail_undelivered_def detach_def Let_def split: prod.split option.split)
  then show ?case using Cons by simp
qed simp

lemma sweep_tx_repairs:
  assumes tx: "sweep_tx clk d = Inr (x, d')"
  shows "\<And>w. w \<in> set (workloads d') \<Longrightarrow> \<not> sweep_stuck_row (db_now clk) d' w"
    and "\<And>g. g \<in> set (gpus d') \<Longrightarrow> g_Status g = GPUInUse \<Longrightarrow> held d' (g_ID g)"
proof -
  define stuck where "stuck = map w_ID (filter (sweep_stuck_row (db_now clk) d) (workloads d))"
  define d1 where "d1 = fold (fail_stuck (go_now clk)) stuck d"
  obtain ex d3 where 3: "ExpireOverdue (db_now clk) (free_unheld d1) = (ex, d3)" by fastforce
  obtain stuck' d4 where 4: "fold (fail_undelivered (go_now clk)) ex (stuck, d3) = (stuck', d4)" by fastforce
  obtain n d5 where 5: "SupersedeForTerminalWorkloads d4 = (n, d5)" by fastforce
  have d': "d' = free_unheld d5"
    using tx unfolding sweep_tx_def Let_def stuck_def [symmetric] d1_def [symmetric] by (simp add: 3 4 5)
  have n1: "gpu_nodes (fold (fail_stuck now) is e) = gpu_nodes e" for now "is" e
    by (induction "is" arbitrary: e) (simp_all add: fail_stuck_def detach_def)
  have f3: "workloads d3 = workloads d1" "gpu_nodes d3 = gpu_nodes d1"
    using 3 by (auto simp: ExpireOverdue_def free_unheld_def)
  have f5: "workloads d' = workloads d4" "gpu_nodes d' = gpu_nodes d4"
    using 5 by (auto simp: d' SupersedeForTerminalWorkloads_def free_unheld_def)
  have "gpu_nodes d4 = gpu_nodes d"
    using fail_undelivered_nodes [of "go_now clk" ex "(stuck, d3)"] f3 n1 by (simp add: 4 d1_def)
  then have nodes: "gpu_nodes d' = gpu_nodes d" using f5 by simp
  have "swept (workloads d) {} d" by (simp add: swept_def)
  then have "swept (workloads d) (set stuck) d1" unfolding d1_def using fold_fail_stuck_swept by fastforce
  then have "swept (workloads d) (set stuck) d3" using f3 by (simp add: swept_def)
  then have "swept (workloads d) (set stuck) d4"
    using fold_fail_undelivered_swept [of "workloads d" "set stuck" "(stuck, d3)" "go_now clk" ex] by (simp add: 4)
  then have sw: "swept (workloads d) (set stuck) d'" using f5 by (simp add: swept_def)
  show "\<not> sweep_stuck_row (db_now clk) d' w" if "w \<in> set (workloads d')" for w
    using sw that nodes unfolding swept_def by (fastforce simp: stuck_def sweep_stuck_row_def)
  have h: "held (free_unheld d5) = held d5" by (simp add: held_def free_unheld_def fun_eq_iff)
  have fu: "gpus (free_unheld d5) = upd (\<lambda>g. g_Status g = GPUInUse \<and> \<not> held d5 (g_ID g))
     (\<lambda>g. g\<lparr>g_Status := GPUIdle\<rparr>) (gpus d5)" by (simp add: free_unheld_def)
  show "held d' (g_ID g)" if g: "g \<in> set (gpus d')" "g_Status g = GPUInUse" for g
    using g(1) unfolding d' fu h by (cases rule: in_set_updE) (use g(2) in auto)
qed

lemma SweepStuck_Inr:
  assumes "SweepStuck sv clk s = (Inr n, s')"
  obtains x where "sweep_tx clk (s_db s) = Inr (x, s_db s')" and "n = length x"
proof -
  obtain r t where t: "atomically (sweep_tx clk) s = (r, t)" by fastforce
  obtain x where x: "r = Inr x" using assms by (cases r) (auto simp: SweepStuck_def t)
  have tx: "sweep_tx clk (s_db s) = Inr (x, s_db t)" using atomically_Inr [of "sweep_tx clk" s x t] t x by simp
  moreover have "s_db s' = s_db t \<and> n = length x"
    using assms by (auto simp: SweepStuck_def t x dest!: atomically_read(1) split: if_splits sum.splits prod.splits)
  ultimately show ?thesis using that by simp
qed

section \<open>Terminal states\<close>

definition terminal_kept :: "db \<Rightarrow> db \<Rightarrow> bool" where
  "terminal_kept d d' \<longleftrightarrow> (\<forall>w \<in> set (workloads d). terminal_state (w_Status w) \<longrightarrow>
     (\<exists>v \<in> set (workloads d'). w_ID v = w_ID w \<and> w_Status v = w_Status w \<and> w_StoppedAt v = w_StoppedAt w))"

lemma terminal_kept_refl [simp]: "terminal_kept d d"
  unfolding terminal_kept_def by blast

lemma terminal_kept_trans: "terminal_kept a b \<Longrightarrow> terminal_kept b c \<Longrightarrow> terminal_kept a c"
  unfolding terminal_kept_def by metis

lemma terminal_kept_upd:
  assumes "workloads d' = upd P f (workloads d)"
    and "\<And>w. P w \<Longrightarrow> terminal_state (w_Status w) \<Longrightarrow>
      w_ID (f w) = w_ID w \<and> w_Status (f w) = w_Status w \<and> w_StoppedAt (f w) = w_StoppedAt w"
  shows "terminal_kept d d'"
  unfolding terminal_kept_def
proof (intro ballI impI)
  fix w assume w: "w \<in> set (workloads d)" and t: "terminal_state (w_Status w)"
  have "(if P w then f w else w) \<in> set (workloads d')" unfolding assms(1) using w by (rule in_set_updI)
  then show "\<exists>v \<in> set (workloads d'). w_ID v = w_ID w \<and> w_Status v = w_Status w \<and> w_StoppedAt v = w_StoppedAt w"
    using assms(2) [of w] t by (cases "P w") auto
qed

lemma terminal_kept_updI:
  "(\<And>w. P w \<Longrightarrow> terminal_state (w_Status w) \<Longrightarrow>
      w_ID (f w) = w_ID w \<and> w_Status (f w) = w_Status w \<and> w_StoppedAt (f w) = w_StoppedAt w) \<Longrightarrow>
   terminal_kept d (d\<lparr>workloads := upd P f (workloads d)\<rparr>)"
  by (rule terminal_kept_upd [where P = P and f = f]) simp_all

lemma terminal_kept_append: "workloads d' = workloads d @ vs \<Longrightarrow> terminal_kept d d'"
  unfolding terminal_kept_def by auto

lemma terminal_kept_same: "workloads d' = workloads d \<Longrightarrow> terminal_kept d d'"
  using terminal_kept_append [of d' d "[]"] by simp


lemma core_terminal:
  "launch_tx clk locked cmdID req wl d = Inr (x, d') \<Longrightarrow> terminal_kept d d'"
  "stop_tx clk cmdID wid reason d = Inr (y, d') \<Longrightarrow> terminal_kept d d'"
  "running_tx now wid ssh jup logs d = Inr (n, d') \<Longrightarrow> terminal_kept d d'"
  "cancel_tx now wid d = Inr (n, d') \<Longrightarrow> terminal_kept d d'"
  "set_stage wid stage d = Inr (u, d') \<Longrightarrow> terminal_kept d d'"
  "enqueueStop now cmdID orgID nodeID wid reason d = Inr d' \<Longrightarrow> terminal_kept d d'"
proof -
  show "enqueueStop now cmdID orgID nodeID wid reason d = Inr d' \<Longrightarrow> terminal_kept d d'"
    using enqueueStop_frame by (fastforce intro: terminal_kept_same)
  show "running_tx now wid ssh jup logs d = Inr (n, d') \<Longrightarrow> terminal_kept d d'"
    by (auto simp: running_tx_def Let_def intro!: terminal_kept_updI)
  show "cancel_tx now wid d = Inr (n, d') \<Longrightarrow> terminal_kept d d'"
    by (auto simp: cancel_tx_def Let_def intro!: terminal_kept_updI)
  show "set_stage wid stage d = Inr (u, d') \<Longrightarrow> terminal_kept d d'"
    by (auto simp: set_stage_def intro!: terminal_kept_updI)
  show "terminal_kept d d'" if tx: "stop_tx clk cmdID wid reason d = Inr (y, d')"
  proof (rule terminal_kept_upd)
    show "workloads d' = upd (\<lambda>w. w_ID w = wid \<and> (w_Status w = WorkloadPending \<or> w_Status w = WorkloadRunning))
      (\<lambda>r. r\<lparr>w_Status := WorkloadStopping, w_StopReason := Some reason, w_stopping_at := Some (db_now clk)\<rparr>) (workloads d)"
      using tx by (auto simp: stop_tx_def Let_def bindE_Inr_iff dest!: enqueueStop_frame split: option.splits)
  qed auto
  show "terminal_kept d d'" if tx: "launch_tx clk locked cmdID req wl d = Inr (x, d')"
  proof -
    have "\<exists>row. workloads d' = workloads d @ [row]"
      using tx by (auto simp: launch_tx_def Let_def bindE_Inr_iff split: sum.splits if_splits
          elim!: insertWorkload_Inr dest!: enqueueLaunch_frame attach_Inr)
    then show ?thesis using terminal_kept_append by blast
  qed
qed

lemma promote_terminal:
  assumes tx: "promote_tx clk locked cmdID orgID wid t cnt d = Inr (x, d')"
  shows "terminal_kept d d'"
proof (cases "d' = d")
  case False
  let ?d1 = "\<lambda>p. d\<lparr>workloads := upd (\<lambda>w. w_ID w = wid \<and> w_Status w = WorkloadQueued) (\<lambda>w. w\<lparr>w_Status := WorkloadPending,
      w_Stage := ''preparing'', w_NodeID := Some (p_nodeID p)\<rparr>) (workloads d)\<rparr>"
  obtain p d2 wl where 2: "attach (db_now clk) p (?d1 p) = Inr d2"
    and 3: "enqueueLaunch clk cmdID (wl\<lparr>w_NodeID := Some (p_nodeID p)\<rparr>) p d2 = Inr d'"
    using tx False by (auto simp: promote_tx_def Let_def bindE_Inr_iff split: if_splits sum.splits)
  have "workloads d' = workloads (?d1 p)" using attach_Inr [OF 2] enqueueLaunch_frame [OF 3] by auto
  then have "terminal_kept (?d1 p) d'" by (rule terminal_kept_same)
  moreover have "terminal_kept d (?d1 p)" by (rule terminal_kept_updI) auto
  ultimately show ?thesis using terminal_kept_trans by blast
qed simp

lemma fail_stuck_terminal:
  assumes "\<And>w. w \<in> set (workloads d) \<Longrightarrow> w_ID w = wid \<Longrightarrow> \<not> terminal_state (w_Status w)"
  shows "terminal_kept d (fail_stuck now wid d)"
proof -
  have "upd (\<lambda>w. w_ID w = wid) f (workloads d) = upd (\<lambda>w. w_ID w = wid \<and> \<not> terminal_state (w_Status w)) f (workloads d)"
    for f :: "WorkloadRow \<Rightarrow> WorkloadRow"
    using assms by (auto simp: upd_def)
  then show ?thesis
    by (intro terminal_kept_upd [where P = "\<lambda>w. w_ID w = wid \<and> \<not> terminal_state (w_Status w)"])
      (auto simp: fail_stuck_def detach_def)
qed

lemma fold_fail_stuck_terminal:
  assumes "distinct (map w_ID (workloads d))"
    and "\<And>w. w \<in> set (workloads d) \<Longrightarrow> w_ID w \<in> set is \<Longrightarrow> \<not> terminal_state (w_Status w)" and "distinct is"
  shows "terminal_kept d (fold (fail_stuck now) is d)"
  using assms
proof (induction "is" arbitrary: d)
  case (Cons i "is")
  let ?d = "fail_stuck now i d"
  have "terminal_kept d ?d" using Cons.prems(2) by (intro fail_stuck_terminal) simp
  moreover have "terminal_kept ?d (fold (fail_stuck now) is ?d)"
  proof (rule Cons.IH)
    show "distinct (map w_ID (workloads ?d))"
      using Cons.prems(1) by (simp add: fail_stuck_def detach_def map_upd_key)
    show "\<not> terminal_state (w_Status w)" if w: "w \<in> set (workloads ?d)" "w_ID w \<in> set is" for w
      using w(1) unfolding fail_stuck_def detach_def
      by (auto elim!: in_set_updE) (use w(2) Cons.prems(2,3) in auto)
  qed (use Cons.prems(3) in simp)
  ultimately show ?case using terminal_kept_trans by simp
qed simp


lemma sweep_terminal:
  assumes tx: "sweep_tx clk d = Inr (x, d')" and dist: "distinct (map w_ID (workloads d))"
  shows "terminal_kept d d'"
proof -
  define stuck where "stuck = map w_ID (filter (sweep_stuck_row (db_now clk) d) (workloads d))"
  define d1 where "d1 = fold (fail_stuck (go_now clk)) stuck d"
  obtain ex d3 where 3: "ExpireOverdue (db_now clk) (free_unheld d1) = (ex, d3)" by fastforce
  obtain stuck' d4 where 4: "fold (fail_undelivered (go_now clk)) ex (stuck, d3) = (stuck', d4)" by fastforce
  obtain n d5 where 5: "SupersedeForTerminalWorkloads d4 = (n, d5)" by fastforce
  have d': "d' = free_unheld d5"
    using tx unfolding sweep_tx_def Let_def stuck_def [symmetric] d1_def [symmetric] by (simp add: 3 4 5)
  have "\<not> terminal_state (w_Status w)" if w: "w \<in> set (workloads d)" "w_ID w \<in> set stuck" for w
  proof -
    obtain v where "v \<in> set (workloads d)" "w_ID v = w_ID w" "sweep_stuck_row (db_now clk) d v"
      using w(2) by (auto simp: stuck_def)
    then show ?thesis using distinct_key_unique [OF dist, of v w] w(1)
      by (auto simp: sweep_stuck_row_def dest: live_not_terminal)
  qed
  then have "terminal_kept d d1"
    unfolding d1_def using dist by (intro fold_fail_stuck_terminal) (auto simp: stuck_def distinct_map_filter)
  moreover have "workloads d3 = workloads d1" using 3 by (auto simp: ExpireOverdue_def free_unheld_def)
  then have "terminal_kept d1 d3" by (rule terminal_kept_same)
  moreover have "terminal_kept (snd y) (snd (fold (fail_undelivered now) es y))" for now es y
  proof (induction es arbitrary: y)
    case (Cons e es)
    have "terminal_kept (snd y) (snd (fail_undelivered now e y))"
      by (auto simp: fail_undelivered_def Let_def detach_def split: prod.split option.split
          intro!: terminal_kept_upd [where P = "\<lambda>w. w_ID w = the (ex_WorkloadID e) \<and> w_Status w = WorkloadPending"])
    then show ?case using Cons terminal_kept_trans by fastforce
  qed simp
  then have "terminal_kept d3 d4" using 4 by (metis snd_conv)
  moreover have "workloads d' = workloads d4" using 5 by (auto simp: d' SupersedeForTerminalWorkloads_def free_unheld_def)
  then have "terminal_kept d4 d'" by (rule terminal_kept_same)
  ultimately show ?thesis using terminal_kept_trans by blast
qed

lemma terminal_tx_terminal:
  assumes tx: "terminal_tx now wid st logs gs d = Inr (b, d')"
  shows "terminal_kept d d'"
proof -
  have ws: "workloads (fold idle_gpu gs e) = workloads e" for e
    by (induction gs arbitrary: e) (simp_all add: idle_gpu_def)
  show ?thesis
    using tx by (auto simp: terminal_tx_def Let_def ws detach_def split: if_splits
        intro!: terminal_kept_upd [where P = "\<lambda>w. w_ID w = wid \<and> \<not> terminal_state (w_Status w)"])
qed

lemma remove_terminal:
  assumes "RemoveNode clk orgID n force d = Inr (x, d')"
  shows "terminal_kept d d'"
proof -
  define d1 where "d1 = (if affected (live_on n) (workloads d) > 0 then fail_on_node (db_now clk) n d else d)"
  obtain k d2 where k: "revoke_credentials (db_now clk) n d1 = (k, d2)" by fastforce
  have d': "d' = delete_node n d2"
    using assms k unfolding RemoveNode_def Let_def d1_def [symmetric] by (auto split: if_splits)
  have "terminal_kept d d1"
    by (auto simp: d1_def fail_on_node_def live_on_def dest: live_not_terminal
        intro!: terminal_kept_upd [where P = "live_on n"])
  moreover have "terminal_kept d1 d'"
    using k by (auto simp: d' delete_node_def revoke_credentials_def Let_def
        intro!: terminal_kept_upd [where P = "\<lambda>w. w_NodeID w = Some n"])
  ultimately show ?thesis by (rule terminal_kept_trans)
qed

lemma meter_terminal:
  assumes "MeterWorkload clk wid d = Inr (u, d')"
  shows "terminal_kept d d'"
proof -
  have "MeterWorkload clk wid d = Inr ((), d')" using assms by simp
  then show ?thesis
    by (cases rule: MeterWorkload_cases)
      (auto intro!: terminal_kept_upd [where P = "\<lambda>r. w_ID r = wid"])
qed

text \<open>
  Stopped and failed are final, with their stopping time, under every transaction but the
  unguarded status write of an agent report.
\<close>

lemma same_billing_terminal: "same_billing d d' \<Longrightarrow> terminal_kept d d'"
  by (rule terminal_kept_same) (simp add: same_billing_def)

lemma tx_step_terminal:
  assumes "tx_step d d'" and inv: "alloc_inv d"
  shows "terminal_kept d d' \<or> (\<exists>wid st. live_state st \<and> set_status wid st d = Inr ((), d'))"
  using assms(1)
proof cases
  case (tx_sweep clk z)
  then show ?thesis using sweep_terminal inv alloc_okD(1) by (auto simp: alloc_inv_def)
next
  case (tx_deliver now drains nodeID cs streams sent)
  then show ?thesis using deliver_same_billing [of "(0, d, streams, sent)"] same_billing_terminal by simp
next
  case (tx_credit now orgID delta kind desc)
  then have "workloads d' = workloads d" by (auto dest!: postLedgerTx_Inr)
  then show ?thesis by (simp add: terminal_kept_same)
qed (auto intro: core_terminal promote_terminal terminal_tx_terminal remove_terminal meter_terminal
    same_billing_terminal [OF enroll_same_billing] same_billing_terminal [OF inventory_same_billing]
    same_billing_terminal [OF other_same_billing(1)] same_billing_terminal [OF other_same_billing(2)]
    same_billing_terminal [OF other_same_billing(3)] same_billing_terminal [OF other_same_billing(4)]
    same_billing_terminal [OF other_same_billing(5)] same_billing_terminal [OF other_same_billing(6)]
    same_billing_terminal [OF other_same_billing(7)] terminal_kept_same
    simp: set_status_def)


section \<open>Agents act on their own workloads only\<close>

lemma UpdateStatus_foreign:
  assumes "\<And>w. workload_by_id wid (s_db s) = Some w \<Longrightarrow> w_NodeID w \<noteq> Some nodeID"
  shows "\<exists>e. fst (UpdateStatus sv clk cmdID nodeID wid st ssh jup msg logs s) = Inl e"
    and "s_db (snd (UpdateStatus sv clk cmdID nodeID wid st ssh jup msg logs s)) = s_db s"
proof -
  have "requireWorkloadOnNode nodeID wid (s_db s) = Inl ErrNotFound"
    using assms by (auto simp: requireWorkloadOnNode_def split: option.split)
  then have "\<exists>e t. atomically (requireWorkloadOnNode nodeID wid) s = (Inl e, t) \<and> s_db t = s_db s"
    by (cases rule: atomically_cases [of "requireWorkloadOnNode nodeID wid" s]) auto
  then show "\<exists>e. fst (UpdateStatus sv clk cmdID nodeID wid st ssh jup msg logs s) = Inl e"
    and "s_db (snd (UpdateStatus sv clk cmdID nodeID wid st ssh jup msg logs s)) = s_db s"
    by (auto simp: UpdateStatus_def)
qed

lemma RecordStageEvent_foreign:
  assumes "\<And>w. workload_by_id wid (s_db s) = Some w \<Longrightarrow> w_NodeID w \<noteq> Some nodeID"
  shows "s_db (snd (RecordStageEvent clk nodeID wid stage s)) = s_db s"
proof -
  obtain r t where t: "atomically (\<lambda>d. Inr (workload_by_id wid d, d)) s = (r, t)" by fastforce
  then show ?thesis using atomically_read(1,2) [OF t] assms
    by (auto simp: RecordStageEvent_def split: option.split)
qed

text \<open>
  The unguarded branch: a report of a state that is neither running nor terminal moves a stopped
  workload back to a live state, without its GPUs.
\<close>

lemma UpdateStatus_revives:
  assumes "s_faults s = []" and "workload_by_id wid (s_db s) = Some w" and "w_NodeID w = Some nodeID"
  shows "workload_by_id wid (s_db (snd (UpdateStatus sv clk cmdID nodeID wid WorkloadPending ssh jup msg logs s))) =
      Some (w\<lparr>w_Status := WorkloadPending\<rparr>)"
proof -
  have "atomically (requireWorkloadOnNode nodeID wid) s = (Inr (), s)"
    using assms by (simp add: atomically_no_fault requireWorkloadOnNode_def)
  moreover have "workload_by_id wid (s_db s\<lparr>workloads := upd (\<lambda>w. w_ID w = wid) (\<lambda>w. w\<lparr>w_Status := WorkloadPending\<rparr>)
      (workloads (s_db s))\<rparr>) = Some (w\<lparr>w_Status := WorkloadPending\<rparr>)"
    using assms(2) by (simp add: workload_by_id_def find_upd_same)
  ultimately show ?thesis using assms(1) by (simp add: UpdateStatus_def atomically_no_fault set_status_def)
qed

section \<open>Tenancy\<close>

definition own_rows :: "uuid \<Rightarrow> db \<Rightarrow> db" where
  "own_rows orgID d = d\<lparr>workloads := filter (\<lambda>w. w_OrgID w = orgID) (workloads d)\<rparr>"

lemma find_filter_unique:
  assumes "distinct (map k t)" and "find (\<lambda>r. k r = i) t = Some r"
  shows "find (\<lambda>r. k r = i) (filter Q t) = (if Q r then Some r else None)"
proof -
  have r: "r \<in> set t" "k r = i" using find_SomeD [OF assms(2)] by simp_all
  have u: "q = r" if "q \<in> set t" "k q = i" for q using distinct_key_unique [OF assms(1) that(1) r(1)] that r by simp
  show ?thesis
  proof (cases "find (\<lambda>r. k r = i) (filter Q t)")
    case None
    then show ?thesis using r by (auto simp: find_None_set)
  next
    case (Some q)
    then show ?thesis using find_SomeD [OF Some] u by auto
  qed
qed

text \<open>What a tenant reads does not depend on the workloads of other tenants.\<close>

lemma Get_own_rows:
  assumes "distinct (map w_ID (workloads d))"
  shows "Get orgID wid (own_rows orgID d) = Get orgID wid d"
proof (cases "workload_by_id wid d")
  case None
  then have "workload_by_id wid (own_rows orgID d) = None"
    by (simp add: workload_by_id_def own_rows_def find_None_set)
  then show ?thesis using None by (simp add: Get_def getByID_def)
next
  case (Some w)
  then have "workload_by_id wid (own_rows orgID d) = (if w_OrgID w = orgID then Some w else None)"
    using find_filter_unique [OF assms, of wid w "\<lambda>w. w_OrgID w = orgID"] by (simp add: workload_by_id_def own_rows_def)
  then show ?thesis using Some by (simp add: Get_def getByID_def scanWorkloadRow_def Workload.defs)
qed

lemma List_own_rows: "List_workloads orgID f (own_rows orgID d) = List_workloads orgID f d"
proof -
  have "list_matches orgID f (own_rows orgID d) = list_matches orgID f d"
    by (simp add: fun_eq_iff list_matches_def project_visible_def own_rows_def split: option.split)
  moreover have "filter (list_matches orgID f d) (filter (\<lambda>w. w_OrgID w = orgID) ws) = filter (list_matches orgID f d) ws" for ws
    by (induction ws) (auto simp: list_matches_def)
  ultimately show ?thesis by (simp add: List_workloads_def own_rows_def)
qed

lemma queue_own_rows: "queue_of orgID (own_rows orgID d) = queue_of orgID d"
  by (simp add: queue_of_def own_rows_def conj_commute)

text \<open>A member who is not an admin sees no workload of a restricted project it is not in.\<close>

lemma List_restricted:
  assumes "w \<in> set (List_workloads orgID f d)" and "lf_Viewer f = Some v" and "\<not> lf_ViewerIsAdmin f"
    and "w_UserID w \<noteq> v" and "w_ProjectID w = Some pid"
    and "p \<in> set (projects d)" and "pj_ID p = pid" and "pj_Visibility p = ''restricted''"
  shows "\<exists>m \<in> set (project_members d). pm_ProjectID m = pid \<and> pm_UserID m = v"
proof -
  obtain r where "list_matches orgID f d r" "w = scanWorkloadRow r"
    using assms(1) by (auto simp: List_workloads_def dest!: in_set_takeD)
  then show ?thesis using assms(2-)
    by (auto simp: list_matches_def project_visible_def scanWorkloadRow_def Workload.defs)
qed

section \<open>The queue\<close>

lemma ListQueue_positions:
  shows "map qe_Position (qs_Entries (ListQueue clk orgID d)) = [1..<Suc (qs_Waiting (ListQueue clk orgID d))]"
    and "sorted (map qe_QueuedAt (qs_Entries (ListQueue clk orgID d)))"
    and "mset (map qe_ID (qs_Entries (ListQueue clk orgID d))) =
      image_mset w_ID (filter_mset (\<lambda>w. w_OrgID w = orgID \<and> w_Status w = WorkloadQueued) (mset (workloads d)))"
proof -
  let ?q = "queue_of orgID d"

  have m: "map (\<lambda>(i, w). f (Suc i) w) (enumerate 0 ?q) = map (\<lambda>i. f (Suc i) (?q ! i)) [0..<length ?q]" for f :: "nat \<Rightarrow> WorkloadRow \<Rightarrow> 'x"
    by (rule nth_equalityI) (simp_all add: nth_enumerate_eq)
  have e: "qs_Entries (ListQueue clk orgID d) =
      map (\<lambda>i. queue_entry (go_now clk) (estWaitPerPosition (db_now clk) orgID d) d (Suc i) (?q ! i)) [0..<length ?q]"
    by (simp add: ListQueue_def Let_def m)
  have w: "qs_Waiting (ListQueue clk orgID d) = length ?q" by (simp add: ListQueue_def Let_def)
  show "map qe_Position (qs_Entries (ListQueue clk orgID d)) = [1..<Suc (qs_Waiting (ListQueue clk orgID d))]"
    by (simp add: e w queue_entry_def Let_def map_Suc_upt comp_def)
  have "map qe_QueuedAt (qs_Entries (ListQueue clk orgID d)) = map queued_at ?q"
    by (rule nth_equalityI) (simp_all add: e queue_entry_def Let_def)
  then show "sorted (map qe_QueuedAt (qs_Entries (ListQueue clk orgID d)))" by (simp add: queue_of_def)
  have "map qe_ID (qs_Entries (ListQueue clk orgID d)) = map w_ID ?q"
    by (rule nth_equalityI) (simp_all add: e queue_entry_def Let_def)
  then show "mset (map qe_ID (qs_Entries (ListQueue clk orgID d))) =
      image_mset w_ID (filter_mset (\<lambda>w. w_OrgID w = orgID \<and> w_Status w = WorkloadQueued) (mset (workloads d)))"
    by (simp add: queue_of_def mset_filter)
qed


text \<open>Under the allocation invariant a held GPU is marked in use.\<close>

lemma held_in_use:
  assumes inv: "alloc_inv d" and g: "g \<in> set (gpus d)" and "held d (g_ID g)"
  shows "g_Status g = GPUInUse"
proof -
  note D = alloc_okD [OF inv [unfolded alloc_inv_def]]
  obtain a where a: "a \<in> set (workload_gpus d)" "active a" "wg_gpu a = g_ID g"
    using assms(3) by (auto simp: held_def)
  obtain h where "h \<in> set (gpus d)" "g_ID h = wg_gpu a" "g_Status h = GPUInUse" using D(5) [OF a(1,2)] by (auto elim: holdsE)
  then show ?thesis using distinct_key_unique [OF D(2), of h g] a(3) g by simp
qed

end
