(* ===== verification/Fleet.thy ===== *)
theory Fleet
  imports Lifecycle Use_Limits
begin

text \<open>
  Properties of the fleet modules: what enrolment grants and revokes, how often a token can be
  used, what removing a node leaves behind, and what an inventory report may move.
\<close>

interpretation enrollment: use_limited et_Uses "\<lambda>t. Some (et_MaxUses t)" "\<lambda>t. t\<lparr>et_Uses := et_Uses t + 1\<rparr>"
  by unfold_locales simp_all

section \<open>Enrolment\<close>

definition spend_token :: "EnrollmentToken \<Rightarrow> db \<Rightarrow> db" where
  "spend_token t d = d\<lparr>enrollment_tokens := upd (\<lambda>r. et_ID r = et_ID t)
     (\<lambda>r. r\<lparr>et_Uses := et_Uses r + 1\<rparr>) (enrollment_tokens d)\<rparr>"

lemma spend_token_simps [simp]:
  "gpu_nodes (spend_token t d) = gpu_nodes d" "agent_credentials (spend_token t d) = agent_credentials d"
  by (simp_all add: spend_token_def)

lemma repo_Enroll_Inr:
  assumes "repo_Enroll clk newID th fp info ch d = Inr ((nid, orgID), d')"
  obtains t d2 where "find (\<lambda>t. et_TokenHash t = th) (enrollment_tokens d) = Some t"
    and "go_now clk \<le> et_ExpiresAt t" and "et_Uses t < et_MaxUses t" and "orgID = et_OrgID t"
    and "enroll_node clk newID orgID fp info (spend_token t d) = Inr (nid, d2)"
    and "d' = insert_credential orgID nid ch d2"
  using assms by (auto simp: repo_Enroll_def Let_def bindE_Inr_iff spend_token_def split: option.splits if_splits)

lemma enroll_node_Inr:
  assumes "enroll_node clk newID orgID fp info d = Inr (nid, d')"
  obtains (fresh) n where "nid = newID" and "\<And>m. m \<in> set (gpu_nodes d) \<Longrightarrow> n_ID m \<noteq> newID \<and> n_Fingerprint m \<noteq> Some fp"
      and "d' = d\<lparr>gpu_nodes := gpu_nodes d @ [n]\<rparr>" and "n_ID n = newID" and "n_OrgID n = orgID" and "n_Fingerprint n = Some fp"
      and "n_Status n = NodeOnline"
  | (again) m where "m \<in> set (gpu_nodes d)" and "n_ID m = nid" and "n_OrgID m = orgID" and "n_Fingerprint m = Some fp"
      and "d' = d\<lparr>gpu_nodes := upd (\<lambda>r. n_ID r = nid)
            (\<lambda>r. r\<lparr>n_Status := NodeOnline, n_Info := info, n_LastSeenAt := Some (db_now clk)\<rparr>) (gpu_nodes d),
          agent_credentials := upd (\<lambda>c. ac_node c = nid \<and> ac_revoked_at c = None)
            (\<lambda>c. c\<lparr>ac_revoked_at := Some (db_now clk)\<rparr>) (agent_credentials d)\<rparr>"
proof (cases "find (\<lambda>n. n_Fingerprint n = Some fp) (gpu_nodes d)")
  case None
  then have "\<And>m. m \<in> set (gpu_nodes d) \<Longrightarrow> n_ID m \<noteq> newID \<and> n_Fingerprint m \<noteq> Some fp"
    using assms find_None_set [of "\<lambda>n. n_Fingerprint n = Some fp" "gpu_nodes d"]
    by (auto simp: enroll_node_def None split: if_splits)
  then show ?thesis using assms None
    by (intro fresh [of "\<lparr>n_ID = newID, n_OrgID = orgID, n_Fingerprint = Some fp, n_Status = NodeOnline,
          n_Info = info, n_Labels = [], n_EnrolledAt = db_now clk, n_LastSeenAt = Some (db_now clk)\<rparr>"])
      (auto simp: enroll_node_def split: if_splits)
next
  case (Some m)
  then show ?thesis using assms find_SomeD [OF Some]
    by (intro again [of m]) (auto simp: enroll_node_def revoke_credentials_def Let_def split: if_splits)
qed

text \<open>The credential an enrolment returns authenticates its node in the token's organisation.\<close>

lemma enroll_authenticates:
  assumes "repo_Enroll clk newID th fp info ch d = Inr ((nid, orgID), d')"
    and "distinct (map n_ID (gpu_nodes d))" and "\<And>c. c \<in> set (agent_credentials d) \<Longrightarrow> ac_public_key c \<noteq> ch"
  shows "AuthenticateAgent ch d' = Inr (nid, orgID)"
proof -
  obtain t d2 where en: "enroll_node clk newID orgID fp info (spend_token t d) = Inr (nid, d2)" and d': "d' = insert_credential orgID nid ch d2"
    using assms(1) by (rule repo_Enroll_Inr) blast
  have keys: "ac_public_key c \<noteq> ch" if "c \<in> set (agent_credentials d2)" for c
    using en
  proof (cases rule: enroll_node_Inr)
    case (again m)
    then have "c \<in> set (upd (\<lambda>c. ac_node c = nid \<and> ac_revoked_at c = None)
      (\<lambda>c. c\<lparr>ac_revoked_at := Some (db_now clk)\<rparr>) (agent_credentials d))" using that by simp
    then show ?thesis by (cases rule: in_set_updE) (use assms(3) in auto)
  qed (use that assms(3) in simp)
  then have creds: "agent_credentials d' = agent_credentials d2 @
      [\<lparr>ac_org = orgID, ac_node = nid, ac_public_key = ch, ac_revoked_at = None\<rparr>]" "gpu_nodes d' = gpu_nodes d2"
    by (auto simp: d' insert_credential_def)
  have "\<exists>n. node_by_id nid d2 = Some n \<and> n_ID n = nid \<and> n_OrgID n = orgID"
    using en
  proof (cases rule: enroll_node_Inr)
    case (fresh n)
    then have "find (\<lambda>m. n_ID m = nid) (gpu_nodes d) = None" by (simp add: find_None_set)
    moreover have "find P (xs @ [n]) = Some n" if "find P xs = None" "P n" for P xs
      using that by (induction xs) (auto split: if_splits)
    ultimately show ?thesis using fresh by (simp add: node_by_id_def)
  next
    case (again m)
    have "find (\<lambda>r. n_ID r = nid) (gpu_nodes d) = Some m"
      using find_key_Some [of n_ID "gpu_nodes d" m] again assms(2) by simp
    then show ?thesis using again by (simp add: node_by_id_def find_upd_same)
  qed
  moreover have "List.map_filter (\<lambda>c. if ac_public_key c = ch \<and> ac_revoked_at c = None then node_by_id (ac_node c) d' else None)
      (agent_credentials d2) = []"
    using keys by (auto simp: map_filter_def filter_empty_conv)
  ultimately show ?thesis
    by (auto simp: AuthenticateAgent_def creds map_filter_def node_by_id_def)
qed

text \<open>Enrolling again leaves exactly the new credential valid for the node.\<close>

lemma reenroll_rotates:
  assumes "repo_Enroll clk newID th fp info ch d = Inr ((nid, orgID), d')"
    and fk: "\<And>c. c \<in> set (agent_credentials d) \<Longrightarrow> \<exists>n \<in> set (gpu_nodes d). n_ID n = ac_node c"
    and "c \<in> set (agent_credentials d')" and "ac_node c = nid" and "ac_revoked_at c = None"
  shows "ac_public_key c = ch"
proof -
  obtain t d2 where en: "enroll_node clk newID orgID fp info (spend_token t d) = Inr (nid, d2)" and d': "d' = insert_credential orgID nid ch d2"
    using assms(1) by (rule repo_Enroll_Inr) blast
  have "\<not> (c \<in> set (agent_credentials d2))"
    using en
  proof (cases rule: enroll_node_Inr)
    case (fresh n)
    then show ?thesis using fk [of c] assms(4) by auto
  next
    case (again m)
    then show ?thesis using assms(4,5) by (auto elim!: in_set_updE)
  qed
  then show ?thesis using assms(3) by (auto simp: d' insert_credential_def split: if_splits)
qed

text \<open>No enrolment moves a machine to another organisation.\<close>

lemma enroll_keeps_org:
  assumes "repo_Enroll clk newID th fp info ch d = Inr ((nid, orgID), d')" and "n \<in> set (gpu_nodes d)"
  shows "\<exists>m \<in> set (gpu_nodes d'). n_ID m = n_ID n \<and> n_OrgID m = n_OrgID n \<and> n_Fingerprint m = n_Fingerprint n"
    and "n_Fingerprint n = Some fp \<Longrightarrow> distinct (map n_Fingerprint (gpu_nodes d)) \<Longrightarrow> n_ID n = nid \<and> n_OrgID n = orgID"
proof -
  obtain t d2 where en: "enroll_node clk newID orgID fp info (spend_token t d) = Inr (nid, d2)" and d': "d' = insert_credential orgID nid ch d2"
    using assms(1) by (rule repo_Enroll_Inr) blast
  have g: "gpu_nodes d' = gpu_nodes d2" by (simp add: d' insert_credential_def)
  show "\<exists>m \<in> set (gpu_nodes d'). n_ID m = n_ID n \<and> n_OrgID m = n_OrgID n \<and> n_Fingerprint m = n_Fingerprint n"
    using en
  proof (cases rule: enroll_node_Inr)
    case (again m)
    then show ?thesis unfolding g
      using in_set_updI [of n "gpu_nodes d" "\<lambda>r. n_ID r = nid"
          "\<lambda>r. r\<lparr>n_Status := NodeOnline, n_Info := info, n_LastSeenAt := Some (db_now clk)\<rparr>"] assms(2)
      by (intro bexI [of _ "if n_ID n = nid then n\<lparr>n_Status := NodeOnline, n_Info := info,
          n_LastSeenAt := Some (db_now clk)\<rparr> else n"]) simp_all
  qed (use assms(2) g in auto)
  show "n_ID n = nid \<and> n_OrgID n = orgID" if "n_Fingerprint n = Some fp" "distinct (map n_Fingerprint (gpu_nodes d))"
    using en
  proof (cases rule: enroll_node_Inr)
    case (again m)
    then show ?thesis using distinct_key_unique [OF that(2), of m n] that(1) assms(2) by simp
  qed (use that(1) assms(2) in auto)
qed

text \<open>A token is never used more often than its limit, and each enrolment spends one use.\<close>

lemma enroll_spends:
  assumes "repo_Enroll clk newID th fp info ch d = Inr ((nid, orgID), d')" and "distinct (map et_ID (enrollment_tokens d))"
  shows "within_limit et_Uses (\<lambda>t. Some (et_MaxUses t)) (enrollment_tokens d) \<Longrightarrow> within_limit et_Uses (\<lambda>t. Some (et_MaxUses t)) (enrollment_tokens d')"
    and "sum_list (map et_Uses (enrollment_tokens d')) = sum_list (map et_Uses (enrollment_tokens d)) + 1"
proof -
  obtain t d2 where t: "find (\<lambda>t. et_TokenHash t = th) (enrollment_tokens d) = Some t" "et_Uses t < et_MaxUses t"
    and en: "enroll_node clk newID orgID fp info (spend_token t d) = Inr (nid, d2)" and d': "d' = insert_credential orgID nid ch d2"
    using assms(1) by (rule repo_Enroll_Inr) blast
  have ts: "enrollment_tokens d' = upd (\<lambda>r. et_ID r = et_ID t) (\<lambda>r. r\<lparr>et_Uses := et_Uses r + 1\<rparr>) (enrollment_tokens d)"
    using en by (cases rule: enroll_node_Inr) (simp_all add: d' insert_credential_def spend_token_def)
  have tin: "t \<in> set (enrollment_tokens d)" using find_SomeD [OF t(1)] by simp
  show "within_limit et_Uses (\<lambda>t. Some (et_MaxUses t)) (enrollment_tokens d')" if "within_limit et_Uses (\<lambda>t. Some (et_MaxUses t)) (enrollment_tokens d)"
    unfolding ts using that
    by (rule enrollment.spend_within) (use distinct_key_unique [OF assms(2)] tin t(2) in \<open>auto simp: below_limit_def\<close>)
  have "affected (\<lambda>r. et_ID r = et_ID t) (enrollment_tokens d) = 1"
    using affected_key_le_1 [OF assms(2), of "et_ID t" "\<lambda>_. True"]
      affected_pos [of "\<lambda>r. et_ID r = et_ID t" "enrollment_tokens d"] tin by fastforce
  then show "sum_list (map et_Uses (enrollment_tokens d')) = sum_list (map et_Uses (enrollment_tokens d)) + 1"
    unfolding ts by (rule enrollment.spent_total)
qed


text \<open>Enrolment does not look at the revocation of a token.\<close>

lemma revoked_token_enrolls:
  assumes "RevokeEnrollmentToken clk orgID tid d = Inr ((), d1)"
  shows "map_sum id fst (repo_Enroll clk newID th fp info ch d1) = map_sum id fst (repo_Enroll clk newID th fp info ch d)"
proof -
  let ?hit = "\<lambda>t. et_ID t = tid \<and> et_OrgID t = orgID \<and> et_RevokedAt t = None"
  let ?rev = "\<lambda>t. t\<lparr>et_RevokedAt := Some (db_now clk)\<rparr>"
  have d1: "d1 = d\<lparr>enrollment_tokens := upd ?hit ?rev (enrollment_tokens d)\<rparr>"
    using assms by (simp add: RevokeEnrollmentToken_def Let_def split: if_splits)
  have f: "find (\<lambda>t. et_TokenHash t = th) (upd ?hit ?rev ts) =
      map_option (\<lambda>t. if ?hit t then ?rev t else t) (find (\<lambda>t. et_TokenHash t = th) ts)" for ts
    by (induction ts) auto
  have en: "enroll_node clk newID oid fp info (e\<lparr>enrollment_tokens := ts\<rparr>) =
      (case enroll_node clk newID oid fp info e of Inl x \<Rightarrow> Inl x | Inr (n, e') \<Rightarrow> Inr (n, e'\<lparr>enrollment_tokens := ts\<rparr>))" for oid e ts
    by (auto simp: enroll_node_def revoke_credentials_def Let_def split: option.split)
  show ?thesis
    by (auto simp: repo_Enroll_def d1 f en Let_def bindE_def split: option.split sum.split)
qed

section \<open>Removal\<close>

text \<open>
  A removed node is gone with its credentials, GPUs and commands, no attachment points to one of
  its GPUs and no workload to the node; its live workloads have failed.
\<close>

lemma RemoveNode_clean:
  assumes "RemoveNode clk orgID n force d = Inr (x, d')"
  shows "\<forall>m \<in> set (gpu_nodes d'). n_ID m \<noteq> n" and "\<forall>c \<in> set (agent_credentials d'). ac_node c \<noteq> n"
    and "\<forall>g \<in> set (gpus d'). g_NodeID g \<noteq> n" and "\<forall>c \<in> set (agent_commands d'). c_NodeID c \<noteq> n"
    and "\<forall>w \<in> set (workloads d'). w_NodeID w \<noteq> Some n"
    and "\<forall>w \<in> set (workloads d). live_on n w \<longrightarrow>
      force \<and> (\<exists>v \<in> set (workloads d'). w_ID v = w_ID w \<and> w_Status v = WorkloadFailed)"
proof -
  define d1 where "d1 = (if affected (live_on n) (workloads d) > 0 then fail_on_node (db_now clk) n d else d)"
  obtain k d2 where k: "revoke_credentials (db_now clk) n d1 = (k, d2)" by fastforce
  have d': "d' = delete_node n d2" and guard: "affected (live_on n) (workloads d) > 0 \<longrightarrow> force"
    using assms k unfolding RemoveNode_def Let_def d1_def [symmetric] by (auto split: if_splits)
  show "\<forall>m \<in> set (gpu_nodes d'). n_ID m \<noteq> n" "\<forall>c \<in> set (agent_credentials d'). ac_node c \<noteq> n"
    "\<forall>g \<in> set (gpus d'). g_NodeID g \<noteq> n" "\<forall>c \<in> set (agent_commands d'). c_NodeID c \<noteq> n"
    by (simp_all add: d' delete_node_def Let_def set_del)
  show "\<forall>w \<in> set (workloads d'). w_NodeID w \<noteq> Some n"
    by (auto simp: d' delete_node_def Let_def elim!: in_set_updE)
  have ws: "workloads d' = upd (\<lambda>w. w_NodeID w = Some n) (\<lambda>w. w\<lparr>w_NodeID := None\<rparr>) (workloads d1)"
    using k by (auto simp: d' delete_node_def revoke_credentials_def Let_def)
  show "\<forall>w \<in> set (workloads d). live_on n w \<longrightarrow>
      force \<and> (\<exists>v \<in> set (workloads d'). w_ID v = w_ID w \<and> w_Status v = WorkloadFailed)"
  proof (intro ballI impI)
    fix w assume w: "w \<in> set (workloads d)" "live_on n w"
    then have pos: "affected (live_on n) (workloads d) > 0" by (auto simp: affected_pos)
    obtain u where u: "u \<in> set (workloads d1)" "w_ID u = w_ID w" "w_Status u = WorkloadFailed"
      using in_set_updI [OF w(1), of "live_on n" "\<lambda>w. w\<lparr>w_Status := WorkloadFailed, w_Stage := ''failed'',
          w_StoppedAt := Some (db_now clk), w_StopReason := coalesce_reason (w_StopReason w) StopAdmin,
          w_Logs := (if w_Logs w = '''' then ''node removed by administrator'' else w_Logs w)\<rparr>"] w(2) pos
      by (auto simp: d1_def fail_on_node_def)
    show "force \<and> (\<exists>v \<in> set (workloads d'). w_ID v = w_ID w \<and> w_Status v = WorkloadFailed)"
      using guard pos in_set_updI [OF u(1), of "\<lambda>w. w_NodeID w = Some n" "\<lambda>w. w\<lparr>w_NodeID := None\<rparr>"] u(2,3)
      unfolding ws by (intro conjI bexI [of _ "if w_NodeID u = Some n then u\<lparr>w_NodeID := None\<rparr> else u"]) simp_all
  qed
qed

lemma RemoveNode_busy:
  assumes "n \<in> n_ID ` set (filter (\<lambda>m. n_OrgID m = orgID) (gpu_nodes d))" and "w \<in> set (workloads d)" and "live_on n w"
  shows "RemoveNode clk orgID n False d = Inl ErrNodeBusy"
  using assms affected_pos [of "live_on n" "workloads d"] by (auto simp: RemoveNode_def Let_def)

text \<open>An agent whose credential belonged to a removed node can no longer authenticate as it.\<close>

lemma RemoveNode_deauthenticates:
  assumes "RemoveNode clk orgID n force d = Inr (x, d')" and "AuthenticateAgent ch d' = Inr (m, orgID')"
  shows "m \<noteq> n"
proof -
  obtain c node where "c \<in> set (agent_credentials d')" "node_by_id (ac_node c) d' = Some node" "m = n_ID node"
    using assms(2) by (auto simp: AuthenticateAgent_def map_filter_def split: list.splits if_splits
        dest!: filter_eq_ConsD) (metis Cons_eq_filterD in_set_conv_decomp)+
  then show ?thesis using RemoveNode_clean(1) [OF assms(1)] find_SomeD unfolding node_by_id_def by fastforce
qed

end
