(* ===== verification/Reporting.thy ===== *)
theory Reporting
  imports Fleet
begin

text \<open>
  Properties of the reports and of the ageing of data: the chargeback total, the rate cards, the
  hourly rollup of telemetry and the batched deletes.
\<close>

section \<open>Chargeback\<close>

lemma sum_one_group:
  "distinct ks \<Longrightarrow> x \<in> set ks \<Longrightarrow> sum_list (map (\<lambda>k. if x = k then c else 0) ks) = (c :: 'a::comm_monoid_add)"
  by (simp add: sum_list_distinct_conv_sum_set)

lemma sum_by_group:
  assumes "distinct ks" and "fst ` set rows \<subseteq> set ks"
  shows "sum_list (map (\<lambda>k. sum_list (map f (filter (\<lambda>r. fst r = k) rows))) ks) = (sum_list (map f rows) :: money)"
  using assms
proof (induction rows)
  case (Cons r rows)
  have "sum_list (map (\<lambda>k. if fst r = k then f r else 0) ks) = f r" using Cons.prems by (intro sum_one_group) auto
  moreover have "sum_list (map f (filter (\<lambda>r'. fst r' = k) (r # rows))) =
      (if fst r = k then f r else 0) + sum_list (map f (filter (\<lambda>r'. fst r' = k) rows))" for k by simp
  ultimately show ?case using Cons by (simp add: sum_list_addf)
qed simp

lemma sum_list_sort_key: "sum_list (map f (sort_key k xs)) = (sum_list (map f xs) :: money)"
  by (simp flip: sum_mset_sum_list)

text \<open>What is charged in a window does not depend on how it is grouped.\<close>

definition window_costs :: "uuid \<Rightarrow> time \<Rightarrow> time \<Rightarrow> db \<Rightarrow> CostRecord list" where
  "window_costs orgID fr until d = filter (\<lambda>c. cr_OrgID c = orgID \<and> fr \<le> cr_PeriodStart c \<and> cr_PeriodEnd c \<le> until \<and>
     usage_of_cost c d \<noteq> None) (cost_records d)"

lemma cost_rows_costs: "map (fst \<circ> snd) (cost_rows orgID fr until g d) = window_costs orgID fr until d"
proof -
  have "map (fst \<circ> snd) (List.map_filter (\<lambda>c. map_option (\<lambda>u. (group_key g u d, c, u)) (usage_of_cost c d)) (filter Q cs)) =
      filter (\<lambda>c. Q c \<and> usage_of_cost c d \<noteq> None) cs" for Q cs
    by (induction cs) (auto simp: map_filter_simps split: option.split)
  then show ?thesis by (simp add: cost_rows_def window_costs_def conj_ac)
qed

lemma Chargeback_total: "rp_Total (Chargeback orgID fr until groupBy d) = sum_list (map cr_Amount (window_costs orgID fr until d))"
proof -
  let ?rows = "cost_rows orgID fr until (group_by_name groupBy) d"
  have "sum_list (map (\<lambda>k. cb_Amount (chargeback_row ?rows k)) (first_seen (map fst ?rows))) =
      sum_list (map (\<lambda>k. sum_list (map (cr_Amount \<circ> (fst \<circ> snd)) (filter (\<lambda>r. fst r = k) ?rows))) (first_seen (map fst ?rows)))"
    by (simp add: chargeback_row_def Let_def comp_assoc)
  also have "\<dots> = sum_list (map (cr_Amount \<circ> (fst \<circ> snd)) ?rows)"
    by (rule sum_by_group) auto
  also have "\<dots> = sum_list (map cr_Amount (window_costs orgID fr until d))"
    unfolding cost_rows_costs [of orgID fr until "group_by_name groupBy" d, symmetric] by (simp add: comp_assoc)
  finally show ?thesis by (simp add: Chargeback_def Let_def sum_list_sort_key comp_def)
qed

section \<open>Rates\<close>

definition open_cards :: "uuid \<Rightarrow> string \<Rightarrow> db \<Rightarrow> RateCard list" where
  "open_cards orgID model d = filter (\<lambda>r. rc_OrgID r = orgID \<and> rc_GPUModel r = model \<and> rc_EffectiveTo r = None) (rate_cards d)"

lemma SetRate_open:
  assumes "s_faults s = []"
  shows "open_cards orgID model (s_db (snd (SetRate clk rcID orgID model rate currency s))) =
      [\<lparr>rc_ID = rcID, rc_OrgID = orgID, rc_GPUModel = model, rc_RatePerGPUHour = num4 rate, rc_Currency = currency,
        rc_EffectiveFrom = db_now clk, rc_EffectiveTo = None\<rparr>]"
proof -
  have "filter (\<lambda>r. P r \<and> rc_EffectiveTo r = None) (upd (\<lambda>r. P r \<and> rc_EffectiveTo r = None)
      (\<lambda>r. r\<lparr>rc_EffectiveTo := Some t\<rparr>) rs) = []" for P t rs
    by (auto simp: filter_empty_conv elim!: in_set_updE)
  from this [of "\<lambda>r. rc_OrgID r = orgID \<and> rc_GPUModel r = model"] show ?thesis
    using assms by (simp add: SetRate_def open_cards_def atomically_no_fault Let_def conj_assoc)
qed

text \<open>A failure of the statement that closes the old card is ignored: both cards are then open.\<close>

lemma SetRate_fault:
  assumes "s_faults s = [True]"
  shows "open_cards orgID model (s_db (snd (SetRate clk rcID orgID model rate currency s))) =
      open_cards orgID model (s_db s) @ [\<lparr>rc_ID = rcID, rc_OrgID = orgID, rc_GPUModel = model,
        rc_RatePerGPUHour = num4 rate, rc_Currency = currency, rc_EffectiveFrom = db_now clk, rc_EffectiveTo = None\<rparr>]"
  using assms by (simp add: SetRate_def open_cards_def atomically_def Let_def)

section \<open>Rollup\<close>

definition hour_key :: "gpu_metric_hour \<Rightarrow> uuid \<times> time" where
  "hour_key h = (gh_gpu h, gh_hour h)"

definition samples :: "gpu_metric_hour list \<Rightarrow> int" where
  "samples hs = sum_list (map gh_samples hs)"

lemma upsert_hour_samples:
  assumes "distinct (map hour_key hs)"
  shows "samples (upsert_hour b hs) = samples hs + gh_samples b" and "distinct (map hour_key (upsert_hour b hs))"
proof -
  let ?P = "\<lambda>a. same_hour a b"
  have P: "?P a \<longleftrightarrow> hour_key a = hour_key b" for a by (auto simp: same_hour_def hour_key_def)
  have s: "samples (upd ?P (\<lambda>a. merge_hour a b) us) = samples us + int (affected ?P us) * gh_samples b" for us
    by (induction us) (auto simp: samples_def affected_def merge_hour_def algebra_simps)
  have "affected ?P hs \<le> 1" using affected_key_le_1 [OF assms, of "hour_key b" "\<lambda>_. True"] by (simp add: P)
  then show "samples (upsert_hour b hs) = samples hs + gh_samples b"
    using s [of hs] affected_pos [of ?P hs] by (cases "\<exists>a \<in> set hs. ?P a") (auto simp: upsert_hour_def samples_def)
  have "map hour_key (upd ?P (\<lambda>a. merge_hour a b) hs) = map hour_key hs"
    by (rule map_upd_key) (simp add: hour_key_def merge_hour_def)
  then show "distinct (map hour_key (upsert_hour b hs))"
    using assms by (auto simp: upsert_hour_def P image_iff)
qed

lemma fold_upsert_samples:
  assumes "distinct (map hour_key hs)"
  shows "samples (fold upsert_hour rows hs) = samples hs + samples rows \<and> distinct (map hour_key (fold upsert_hour rows hs))"
  using assms
proof (induction rows arbitrary: hs)
  case (Cons b rows)
  show ?case using Cons.IH [OF upsert_hour_samples(2) [OF Cons.prems]] upsert_hour_samples(1) [OF Cons.prems]
    by (simp add: samples_def)
qed (simp add: samples_def)

lemma length_by_group:
  assumes "distinct ks" and "f ` set xs \<subseteq> set ks"
  shows "sum_list (map (\<lambda>k. int (length (filter (\<lambda>x. f x = k) xs))) ks) = int (length xs)"
  using assms
proof (induction xs)
  case (Cons x xs)
  have "sum_list (map (\<lambda>k. if f x = k then 1 else 0) ks) = (1::int)"
    using Cons.prems by (intro sum_one_group) auto
  moreover have "int (length (filter (\<lambda>y. f y = k) (x # xs))) = (if f x = k then 1 else 0) + int (length (filter (\<lambda>y. f y = k) xs))" for k
    by simp
  ultimately show ?case using Cons by (simp add: sum_list_addf)
qed simp

lemma rollup_samples:
  assumes "rollup boundary d = Inr (n, d')" and "distinct (map hour_key (gpu_metrics_hourly d))"
  shows "samples (gpu_metrics_hourly d') = samples (gpu_metrics_hourly d) + int (affected (\<lambda>m. gm_ts m < boundary) (gpu_metrics d))"
    and "distinct (map hour_key (gpu_metrics_hourly d'))" and "gpu_metrics d' = gpu_metrics d"
proof -
  let ?old = "filter (\<lambda>m. gm_ts m < boundary) (gpu_metrics d)"
  have d': "d' = d\<lparr>gpu_metrics_hourly := fold upsert_hour (rollup_groups boundary (gpu_metrics d)) (gpu_metrics_hourly d)\<rparr>"
    using assms(1) by (auto simp: rollup_def Let_def split: if_splits)
  have "samples (rollup_groups boundary (gpu_metrics d)) =
      sum_list (map (\<lambda>k. int (length (filter (\<lambda>m. metric_group m = k) ?old))) (first_seen (map metric_group ?old)))"
    unfolding rollup_groups_def samples_def Let_def map_map comp_def
    by (rule arg_cong [where f = sum_list], rule map_cong) (auto simp: hour_row_def)
  also have "\<dots> = int (length ?old)" by (rule length_by_group) auto
  finally have "samples (rollup_groups boundary (gpu_metrics d)) = int (affected (\<lambda>m. gm_ts m < boundary) (gpu_metrics d))"
    by (simp add: affected_def)
  then show "samples (gpu_metrics_hourly d') = samples (gpu_metrics_hourly d) + int (affected (\<lambda>m. gm_ts m < boundary) (gpu_metrics d))"
    and "distinct (map hour_key (gpu_metrics_hourly d'))" and "gpu_metrics d' = gpu_metrics d"
    using fold_upsert_samples [OF assms(2)] by (simp_all add: d')
qed

section \<open>Batched deletes\<close>

lemma del_first_all: "affected P t \<le> n \<Longrightarrow> del_first P n t = del P t"
proof (induction P n t rule: del_first.induct)
  case (2 P n r t)
  have "filter (\<lambda>x. \<not> P x) t = t" if "filter P t = []"
    using that by (auto simp: filter_empty_conv filter_id_conv)
  then show ?case using 2 by (auto simp: affected_def del_def split: nat.splits)
qed (simp add: del_def)

lemma del_first_del: "del P (del_first P n t) = del P t"
  by (induction P n t rule: del_first.induct) (auto simp: del_def split: nat.split)

lemma affected_del_first: "affected P (del_first P n t) = affected P t - n"
  by (induction P n t rule: del_first.induct) (auto simp: affected_def split: nat.split)

text \<open>
  The loop ends: one batch more than the number of full batches is enough fuel. It deletes the
  qualifying rows and no others, and reports how many.
\<close>

lemma batchedDelete_correct:
  assumes lens: "\<And>t d. get (put t d) = t" "\<And>t u d. put t (put u d) = put t d" "\<And>d. put (get d) d = d"
    and "s_faults s = []" and "affected P (get (s_db s)) div retentionBatch < fuel"
  shows "batchedDelete fuel get put P n s =
    (Inr (n + affected P (get (s_db s))), s\<lparr>s_db := put (del P (get (s_db s))) (s_db s)\<rparr>)"
  using assms(4,5)
proof (induction fuel arbitrary: n s)
  case (Suc fuel)
  let ?a = "affected P (get (s_db s))"
  have step: "atomically (delete_batch get put P) s = (Inr (min retentionBatch ?a),
      s\<lparr>s_db := put (del_first P retentionBatch (get (s_db s))) (s_db s)\<rparr>)"
    using Suc.prems(1) by (simp add: atomically_no_fault delete_batch_def)
  show ?case
  proof (cases "?a < retentionBatch")
    case True
    then show ?thesis using step by (simp add: del_first_all)
  next
    case False
    let ?s = "s\<lparr>s_db := put (del_first P retentionBatch (get (s_db s))) (s_db s)\<rparr>"
    have "retentionBatch = 5000" by (simp add: retentionBatch_def)
    then have "(?a - retentionBatch) div retentionBatch < fuel"
      using Suc.prems(2) False le_div_geq [of retentionBatch ?a] by simp
    then have "batchedDelete fuel get put P (n + retentionBatch) ?s = (Inr (n + retentionBatch + (?a - retentionBatch)),
        ?s\<lparr>s_db := put (del P (get (s_db ?s))) (s_db ?s)\<rparr>)"
      using Suc.IH [of ?s "n + retentionBatch"] Suc.prems(1) by (simp add: lens affected_del_first)
    then show ?thesis using step False by (simp add: lens del_first_del)
  qed
qed simp

text \<open>
  A sweep whose roll-up is accepted deletes, from the four tables, the rows past their age and no
  others: the hourly rows that it deletes are chosen after the roll-up.
\<close>

lemma SweepRetention_correct:
  assumes "s_faults s = []" and "0 < rp_RawMetrics p" and "b = trunc_hour (go_now clk - rp_RawMetrics p)"
    and roll: "rollup b (s_db s) = Inr (n, d1)"
    and fuel: "affected (\<lambda>m. gm_ts m < b) (gpu_metrics (s_db s)) div retentionBatch < fuel"
      "affected (\<lambda>h. hb_TS h < go_now clk - rp_Heartbeats p) (agent_heartbeats (s_db s)) div retentionBatch < fuel"
      "affected (\<lambda>w. we_ts w < go_now clk - rp_Events p) (workload_events (s_db s)) div retentionBatch < fuel"
      "affected (\<lambda>h. gh_hour h < go_now clk - rp_RollupMetrics p) (gpu_metrics_hourly d1) div retentionBatch < fuel"
  shows "SweepRetention fuel clk p s =
    (Inr \<lparr>rs_RolledUpHours = n, rs_RawDeleted = affected (\<lambda>m. gm_ts m < b) (gpu_metrics (s_db s)),
       rs_HeartbeatDeleted = affected (\<lambda>h. hb_TS h < go_now clk - rp_Heartbeats p) (agent_heartbeats (s_db s)),
       rs_EventsDeleted = affected (\<lambda>w. we_ts w < go_now clk - rp_Events p) (workload_events (s_db s)),
       rs_RollupsDeleted = affected (\<lambda>h. gh_hour h < go_now clk - rp_RollupMetrics p) (gpu_metrics_hourly d1)\<rparr>,
     s\<lparr>s_db := (s_db s)\<lparr>gpu_metrics := del (\<lambda>m. gm_ts m < b) (gpu_metrics (s_db s)),
       agent_heartbeats := del (\<lambda>h. hb_TS h < go_now clk - rp_Heartbeats p) (agent_heartbeats (s_db s)),
       workload_events := del (\<lambda>w. we_ts w < go_now clk - rp_Events p) (workload_events (s_db s)),
       gpu_metrics_hourly := del (\<lambda>h. gh_hour h < go_now clk - rp_RollupMetrics p) (gpu_metrics_hourly d1)\<rparr>\<rparr>)"
proof -
  obtain H where d1: "d1 = (s_db s)\<lparr>gpu_metrics_hourly := H\<rparr>"
    using roll by (auto simp: rollup_def Let_def split: if_splits)
  have roll': "atomically (rollup b) s = (Inr n, s\<lparr>s_db := (s_db s)\<lparr>gpu_metrics_hourly := H\<rparr>\<rparr>)"
    using assms(1) roll by (simp add: atomically_no_fault d1)
  note purge = batchedDelete_correct [of gpu_metrics "\<lambda>t d. d\<lparr>gpu_metrics := t\<rparr>", simplified]
    batchedDelete_correct [of agent_heartbeats "\<lambda>t d. d\<lparr>agent_heartbeats := t\<rparr>", simplified]
    batchedDelete_correct [of workload_events "\<lambda>t d. d\<lparr>workload_events := t\<rparr>", simplified]
    batchedDelete_correct [of gpu_metrics_hourly "\<lambda>t d. d\<lparr>gpu_metrics_hourly := t\<rparr>", simplified]
  show ?thesis
    using assms(1,2) fuel unfolding SweepRetention_def Let_def assms(3) [symmetric] d1 by (simp add: roll' purge assms(3) [symmetric])
qed

section \<open>Removal and the last slice\<close>

text \<open>
  Removing a node deletes the attachments of its GPUs, so the slice of a workload that was not yet
  metered is never charged.
\<close>

lemma removed_unbilled:
  assumes rm: "RemoveNode clk orgID n force d = Inr (x, d')"
    and on: "\<And>a. a \<in> set (workload_gpus d) \<Longrightarrow> wg_workload a = wid \<Longrightarrow> \<exists>g \<in> set (gpus d). g_ID g = wg_gpu a \<and> g_NodeID g = n"
    and tx: "MeterWorkload clk' wid d' = Inr ((), d'')"
  shows "cost_records d'' = cost_records d'" and "credit_ledger d'' = credit_ledger d'"
proof -
  define d1 where "d1 = (if affected (live_on n) (workloads d) > 0 then fail_on_node (db_now clk) n d else d)"
  obtain k d2 where k: "revoke_credentials (db_now clk) n d1 = (k, d2)" by fastforce
  have d': "d' = delete_node n d2"
    using rm k unfolding RemoveNode_def Let_def d1_def [symmetric] by (auto split: if_splits)
  have g2: "gpus d2 = gpus d" using k by (auto simp: revoke_credentials_def Let_def d1_def fail_on_node_def)
  have "map (\<lambda>a. (wg_workload a, wg_gpu a)) (upd P (\<lambda>a. a\<lparr>wg_detached_at := t\<rparr>) as) = map (\<lambda>a. (wg_workload a, wg_gpu a)) as"
    for P t and as :: "workload_gpu list" by (auto simp: upd_def)
  then have "pairs_of d2 = pairs_of d"
    using k by (auto simp: revoke_credentials_def Let_def d1_def fail_on_node_def pairs_of_def)
  then have sp: "set (pairs_of d2) = set (pairs_of d)" by simp
  have pre: "\<exists>b \<in> set (workload_gpus d). wg_workload b = wg_workload a \<and> wg_gpu b = wg_gpu a" if "a \<in> set (workload_gpus d2)" for a
  proof -
    have "(wg_workload a, wg_gpu a) \<in> set (pairs_of d2)" using that by (auto simp: pairs_of_def)
    then have "(wg_workload a, wg_gpu a) \<in> set (pairs_of d)" using sp by simp
    then show ?thesis by (auto simp: pairs_of_def)
  qed
  have "wg_workload a \<noteq> wid" if a: "a \<in> set (workload_gpus d')" for a
  proof
    assume w: "wg_workload a = wid"
    have "a \<in> set (workload_gpus d2)" and away: "\<not> (\<exists>g \<in> set (gpus d). g_ID g = wg_gpu a \<and> g_NodeID g = n)"
      using a by (simp_all add: d' delete_node_def Let_def set_del g2)
    then obtain b where "b \<in> set (workload_gpus d)" "wg_workload b = wid" "wg_gpu b = wg_gpu a" using pre w by metis
    then show False using on [of b] away by simp
  qed
  then have none: "workload_gpu_models wid d' = []"
    by (auto simp: workload_gpu_models_def map_filter_def filter_empty_conv)
  show "cost_records d'' = cost_records d'" "credit_ledger d'' = credit_ledger d'"
    using tx by (cases rule: MeterWorkload_cases; auto simp: none slice_total_def)+
qed

end
