(* ===== verification/Platform.thy ===== *)
theory Platform
  imports Tenancy Reporting
begin

text \<open>
  The whole platform: the control plane and the identity, project and ops services over one
  database. \<open>platform_step\<close> is a call of any of them, or a transaction that another call
  commits in between; the invariants of the components hold along every run of it.
\<close>

section \<open>What the services leave alone\<close>

definition allocation_tables :: "db \<Rightarrow> WorkloadRow list \<times> GPU list \<times> workload_gpu list \<times> UsageRecord list" where
  "allocation_tables d = (workloads d, gpus d, workload_gpus d, usage_records d)"

text \<open>The ledger is left alone, or a new organisation gets its welcome credit.\<close>

definition ledger_step :: "db \<Rightarrow> db \<Rightarrow> bool" where
  "ledger_step d d' \<longleftrightarrow> credit_ledger d' = credit_ledger d \<or>
     (\<exists>clk k c. \<not> org_exists k d \<and> org_exists k d' \<and> credit_ledger d' = credit_ledger d @ welcome_entries clk k c)"

definition apart :: "db \<Rightarrow> db \<Rightarrow> bool" where
  "apart d d' \<longleftrightarrow> allocation_tables d' = allocation_tables d \<and> ledger_step d d' \<and>
     (\<forall>k. org_exists k d \<longrightarrow> org_exists k d')"

lemma apartI:
  "allocation_tables d' = allocation_tables d \<Longrightarrow> credit_ledger d' = credit_ledger d \<Longrightarrow> organizations d' = organizations d \<Longrightarrow> apart d d'"
  by (simp add: apart_def ledger_step_def org_exists_def)

lemma apart_extend:
  assumes "apart d e" and "allocation_tables d' = allocation_tables e" and "credit_ledger d' = credit_ledger e"
    and "organizations d' = organizations e"
  shows "apart d d'"
proof -
  have "org_exists k d' = org_exists k e" for k using assms(4) by (simp add: org_exists_def)
  then show ?thesis using assms by (simp add: apart_def ledger_step_def)
qed

lemma provision_apart: "provisionOrgTx sv clk k rc rnd name d = Inr (k', d') \<Longrightarrow> apart d d'"
proof -
  assume tx: "provisionOrgTx sv clk k rc rnd name d = Inr (k', d')"
  note p = provisionOrgTx_Inr [OF tx]
  have "ledger_step d d'" unfolding ledger_step_def using p(2,3,6) by blast
  then show ?thesis using p(7-11) by (auto simp: apart_def allocation_tables_def org_exists_def)
qed

lemma insertMembershipTx_Inr:
  "insertMembershipTx clk mid k i r ib d = Inr (x, d') \<Longrightarrow> \<exists>ms. d' = d\<lparr>organization_members := ms\<rparr>"
  by (auto simp: insertMembershipTx_def Let_def split: if_splits)

lemmas apart_simps = allocation_tables_def bindE_Inr_iff Let_def

lemma joinOrgTx_apart: "joinOrgTx clk mid i k r ib d = Inr (v, d') \<Longrightarrow> apart d d'"
  by (rule apartI) (auto simp: joinOrgTx_def apart_simps split: option.splits dest!: put_users_Inr insertMembershipTx_Inr)

lemma grow_tx_apart: "grow_tx d d' \<Longrightarrow> apart d d'"
proof (induction rule: grow_tx.induct)
  case (g_register sv clk fr orgName email name password d v d')
  then obtain k d1 us ms where "provisionOrgTx sv clk (fr_org fr) (fr_card fr) (fr_bytes fr) orgName d = Inr (k, d1)"
    and "d' = d1\<lparr>users := us, organization_members := ms\<rparr>"
    by (auto simp: register_tx_def apart_simps dest!: put_users_Inr insertMembershipTx_Inr)
  then show ?case by (intro apart_extend [OF provision_apart]) (simp_all add: allocation_tables_def)
next
  case (g_create_org sv clk fr userID orgName d v d')
  then obtain k d1 us ms where "provisionOrgTx sv clk (fr_org fr) (fr_card fr) (fr_bytes fr) orgName d = Inr (k, d1)"
    and "d' = d1\<lparr>users := us, organization_members := ms\<rparr>"
    by (auto simp: create_org_tx_def apart_simps split: option.splits if_splits dest!: put_users_Inr insertMembershipTx_Inr)
  then show ?case by (intro apart_extend [OF provision_apart]) (simp_all add: allocation_tables_def)
next
  case (g_accept clk mid hash userID email d v d')
  then obtain k r ib qs where "joinOrgTx clk mid userID k r ib (d\<lparr>organization_invitations := qs\<rparr>) = Inr (v, d')"
    by (auto simp: accept_tx_def split: option.splits if_splits)
  from joinOrgTx_apart [OF this] show ?case by (simp add: apart_def ledger_step_def allocation_tables_def org_exists_def)
next
  case (g_join clk mid hash userID d v d')
  then obtain k r ib cs where "joinOrgTx clk mid userID k r ib (d\<lparr>organization_join_codes := cs\<rparr>) = Inr (v, d')"
    by (auto simp: join_code_tx_def split: option.splits if_splits)
  from joinOrgTx_apart [OF this] show ?case by (simp add: apart_def ledger_step_def allocation_tables_def org_exists_def)
next
  case (g_create_user role clk fr orgID email hash name d v d')
  then show ?case
    by (intro apartI) (auto simp: create_user_tx_def apart_simps dest!: put_users_Inr insertMembershipTx_Inr)
next
  case (g_bootstrap clk fr orgID email hash d y d')
  then show ?case by (intro apartI) (auto simp: bootstrap_user_def apart_simps split: if_splits dest!: put_users_Inr)
next
  case (g_bootstrap_member v d userID orgID clk fr x d')
  then show ?case by (intro apartI) (auto simp: bootstrap_member_def apart_simps split: if_splits dest!: insertMembershipTx_Inr)
next
  case (g_side d' d)
  then show ?case by (intro apartI) (simp_all add: side_def allocation_tables_def)
qed (auto intro!: apartI simp: allocation_tables_def dest!: put_users_Inr)

lemma id_tx_apart: "id_tx d d' \<Longrightarrow> apart d d'"
proof (induction rule: id_tx.induct)
  case (i_grow d d')
  then show ?case by (rule grow_tx_apart)
next
  case (i_remove clk orgID userID d x d')
  then show ?case
    by (intro apartI) (auto simp: remove_tx_def detach_member_def revoke_sessions_def apart_simps dest!: put_users_Inr)
next
  case (i_leave clk orgID userID ex d v d')
  then show ?case
    by (intro apartI)
      (auto simp: leave_tx_def detach_member_def revoke_sessions_def apart_simps split: option.splits dest!: put_users_Inr)
qed (auto intro!: apartI simp: set_role_def transfer_def allocation_tables_def)

section \<open>The ledger\<close>

text \<open>Ledger entries belong to organisations, so a new organisation starts with an empty ledger.\<close>

definition ledger_ok :: "db \<Rightarrow> bool" where
  "ledger_ok d \<longleftrightarrow> ledger_inv d \<and> (\<forall>e \<in> set (credit_ledger d). org_exists (le_org e) d)"

lemma tx_step_ledger:
  assumes "tx_step d d'"
  shows "\<forall>e \<in> set (credit_ledger d'). e \<in> set (credit_ledger d) \<or> org_exists (le_org e) d"
  using assms
proof (cases rule: tx_step_kinds)
  case (remove clk orgID nodeID force rr)
  then show ?thesis by (rule RemoveNode_result) simp
next
  case (meter clk wid)
  then show ?thesis
  proof (cases rule: MeterWorkload_cases)
    case (billed w fr until d1 d2)
    have "credit_ledger d1 = credit_ledger d" and "accounts_of d1 = accounts_of d"
      using fold_meter_gpu_frame [of w fr until "workload_gpu_models wid d" d] fold_meter_gpu_accounts
      by (simp_all add: billed(3))
    then show ?thesis using billed(4)
      by (auto simp: billed(5) postLedgerTx_def accounts_of_def org_exists_def split: if_splits)
  qed simp
next
  case (credit now orgID delta kind desc)
  then show ?thesis by (auto simp: postLedgerTx_def org_exists_def split: if_splits)
qed (auto simp: core_step_ledger same_billing_def)

lemma tx_step_orgs: "tx_step d d' \<Longrightarrow> org_exists k d' = org_exists k d"
  using tx_step_accounts [of d d'] by (simp add: accounts_of_def org_exists_def)

lemma no_entries:
  assumes "\<And>e. e \<in> set es \<Longrightarrow> le_org e \<noteq> k"
  shows "last_balance k es = 0" and "ledger_sum k es = 0" and "ledger_count k es = 0"
  using assms by (induction es rule: rev_induct) (simp_all add: ledger_sum_def ledger_count_def)

lemma welcome_ledger:
  assumes inv: "ledger_inv d" and new: "\<And>e. e \<in> set (credit_ledger d) \<Longrightarrow> le_org e \<noteq> k"
    and d': "credit_ledger d' = credit_ledger d @ welcome_entries clk k c"
  shows "ledger_inv d'"
proof (cases "c > 0")
  case True
  then obtain e where e: "welcome_entries clk k c = [e]" "le_org e = k" "le_balance e = num4 c" "le_delta e = num4 c"
    by (simp add: welcome_entries_def)
  show ?thesis
    unfolding ledger_inv_def d' e(1)
  proof
    fix orgID
    show "is_num4 (last_balance orgID (credit_ledger d @ [e])) \<and>
      \<bar>last_balance orgID (credit_ledger d @ [e]) - ledger_sum orgID (credit_ledger d @ [e])\<bar>
        \<le> of_nat (ledger_count orgID (credit_ledger d @ [e])) / 10000"
    proof (cases "orgID = k")
      case True
      then show ?thesis using e no_entries [OF new] by (simp add: ledger_count_def)
    next
      case False
      then show ?thesis using inv e(2) by (simp add: ledger_inv_def ledger_count_def)
    qed
  qed
qed (use inv d' in \<open>simp add: ledger_inv_def welcome_entries_def\<close>)

section \<open>The platform\<close>

inductive platform_step :: "sys \<Rightarrow> sys \<Rightarrow> bool" where
  control_plane: "cp_step s t \<Longrightarrow> platform_step s t"
| service_call: "id_step s t \<Longrightarrow> platform_step s t"
| between: "tx_step (s_db s) d \<or> id_tx (s_db s) d \<Longrightarrow> platform_step s (s\<lparr>s_db := d\<rparr>)"

text \<open>The contract of an invariant of the platform: the transactions of the services keep it too.\<close>

locale platform_invariant = tx_invariant +
  assumes id_keeps: "id_tx d d' \<Longrightarrow> I d \<Longrightarrow> I d'"
begin

lemma id_run_keeps: "id_tx\<^sup>*\<^sup>* d d' \<Longrightarrow> I d \<Longrightarrow> I d'"
  by (induction rule: rtranclp_induct) (auto intro: id_keeps)

end

sublocale platform_invariant \<subseteq> platform: step_system I platform_step
proof
  fix s t assume "platform_step s t" and "I (s_db s)"
  then show "I (s_db t)"
    by (cases rule: platform_step.cases) (auto intro: step_keeps id_run_keeps tx_keeps id_keeps dest: id_step_runs)
qed

interpretation alloc_p: platform_invariant alloc_inv
  by unfold_locales (use id_tx_apart in \<open>auto simp: apart_def allocation_tables_def alloc_inv_def\<close>)

interpretation billing_p: platform_invariant billing_inv
  by unfold_locales
    (use id_tx_apart in \<open>auto simp: apart_def allocation_tables_def alloc_inv_def billing_inv_def pairs_of_def\<close>)

interpretation member_p: platform_invariant member_inv
proof
  show "member_inv d'" if "tx_step d d'" "member_inv d" for d d'
    using tx_step_accounts [OF that(1)] that(2) by (simp add: accounts_of_def member_inv_def)
qed (rule id_tx_member)

interpretation ledger_p: platform_invariant ledger_ok
proof
  show "ledger_ok d'" if tx: "tx_step d d'" and ok: "ledger_ok d" for d d'
    using ledger.tx_keeps [OF tx] tx_step_ledger [OF tx] tx_step_orgs [OF tx] ok by (auto simp: ledger_ok_def)
  show "ledger_ok d'" if tx: "id_tx d d'" and ok: "ledger_ok d" for d d'
  proof -
    have orgs: "\<And>k. org_exists k d \<Longrightarrow> org_exists k d'" and step: "ledger_step d d'"
      using id_tx_apart [OF tx] by (auto simp: apart_def)
    from step show ?thesis unfolding ledger_step_def
    proof (elim disjE exE conjE)
      assume "credit_ledger d' = credit_ledger d"
      then show ?thesis using ok orgs ledger_inv_same by (auto simp: ledger_ok_def)
    next
      fix clk k c assume new: "\<not> org_exists k d" "org_exists k d'" and d': "credit_ledger d' = credit_ledger d @ welcome_entries clk k c"
      have "ledger_inv d'" using ok new(1) by (intro welcome_ledger [OF _ _ d']) (auto simp: ledger_ok_def)
      moreover have "org_exists (le_org e) d'" if "e \<in> set (credit_ledger d')" for e
        using that ok orgs new(2) by (auto simp: d' ledger_ok_def welcome_entries_def split: if_splits)
      ultimately show ?thesis by (simp add: ledger_ok_def)
    qed
  qed
qed

end
