(* ===== verification/Access.thy ===== *)
theory Access
  imports Platform
begin

text \<open>
  Access to the platform. The sessions table refines a map from live refresh tokens to sessions;
  an account that has been registered can sign in, and the token it gets authenticates it; linking
  a Google identity keeps the password of the account it is linked to.
\<close>

section \<open>Sessions as a map\<close>

definition live_tokens :: "clocks \<Rightarrow> db \<Rightarrow> string \<Rightarrow> (uuid \<times> uuid) option" where
  "live_tokens clk d h = map_option (\<lambda>r. (ss_ID r, ss_UserID r))
     (find (\<lambda>r. ss_RefreshTokenHash r = h \<and> live_session (db_now clk) r) (user_sessions d))"

text \<open>The unique index on the token hash and the reference to the user.\<close>

definition sessions_ok :: "db \<Rightarrow> bool" where
  "sessions_ok d \<longleftrightarrow> distinct (map ss_RefreshTokenHash (user_sessions d)) \<and>
     (\<forall>r \<in> set (user_sessions d). \<exists>u \<in> set (users d). u_ID u = ss_UserID r)"

datatype session_event =
  Opened string uuid uuid
| Rotated string string
| DroppedOne uuid uuid
| DroppedAll uuid "uuid option"
| DroppedToken string
| Unchanged

fun spec_sessions :: "session_event \<Rightarrow> (string \<Rightarrow> (uuid \<times> uuid) option) \<Rightarrow> string \<Rightarrow> (uuid \<times> uuid) option" where
  "spec_sessions (Opened h i u) m = m(h := Some (i, u))"
| "spec_sessions (Rotated h h') m = (m(h := None))(h' := m h)"
| "spec_sessions (DroppedOne u i) m = (\<lambda>h. if m h = Some (i, u) then None else m h)"
| "spec_sessions (DroppedAll u keep) m = (\<lambda>h. case m h of None \<Rightarrow> None
     | Some (i, v) \<Rightarrow> if v = u \<and> Some i \<noteq> keep then None else Some (i, v))"
| "spec_sessions (DroppedToken h) m = m(h := None)"
| "spec_sessions Unchanged m = m"

text \<open>The calls of the service on sessions, with what each does to the map.\<close>

inductive session_call :: "identity \<Rightarrow> clocks \<Rightarrow> sys \<Rightarrow> session_event \<Rightarrow> sys \<Rightarrow> bool" for sv clk where
  sc_create: "CreateSession sv clk sid rnd userID dev s = (Inr (raw, r), t) \<Longrightarrow> db_now clk < go_now clk + refreshTokenTTL sv \<Longrightarrow>
    session_call sv clk s (Opened (id_sha sv raw) (ss_ID r) userID) t"
| sc_refresh: "RefreshSession sv clk rnd raw dev s = (Inr (access, newRaw, u, r), t) \<Longrightarrow>
    session_call sv clk s (Rotated (id_sha sv raw) (id_sha sv newRaw)) t"
| sc_revoke: "RevokeSession clk userID sid s = (Inr (), t) \<Longrightarrow> session_call sv clk s (DroppedOne userID sid) t"
| sc_revoke_all: "RevokeAllSessions clk userID keep s = (Inr (), t) \<Longrightarrow> session_call sv clk s (DroppedAll userID keep) t"
| sc_logout: "RevokeSessionByRefresh sv clk raw s = (Inr x, t) \<Longrightarrow> TrimSpace raw \<noteq> '''' \<Longrightarrow>
    session_call sv clk s (DroppedToken (id_sha sv raw)) t"
| sc_create_fails: "CreateSession sv clk sid rnd userID dev s = (Inl e, t) \<Longrightarrow> session_call sv clk s Unchanged t"
| sc_refresh_fails: "RefreshSession sv clk rnd raw dev s = (Inl e, t) \<Longrightarrow> session_call sv clk s Unchanged t"
| sc_revoke_fails: "RevokeSession clk userID sid s = (Inl e, t) \<Longrightarrow> session_call sv clk s Unchanged t"
| sc_revoke_all_fails: "RevokeAllSessions clk userID keep s = (Inl e, t) \<Longrightarrow> session_call sv clk s Unchanged t"
| sc_logout_fails: "RevokeSessionByRefresh sv clk raw s = (Inl e, t) \<Longrightarrow> session_call sv clk s Unchanged t"

lemma live_tokens_iff:
  assumes "distinct (map ss_RefreshTokenHash (user_sessions d))"
  shows "live_tokens clk d h = Some v \<longleftrightarrow>
    (\<exists>r \<in> set (user_sessions d). ss_RefreshTokenHash r = h \<and> live_session (db_now clk) r \<and> v = (ss_ID r, ss_UserID r))"
proof
  assume "live_tokens clk d h = Some v"
  then show "\<exists>r \<in> set (user_sessions d). ss_RefreshTokenHash r = h \<and> live_session (db_now clk) r \<and> v = (ss_ID r, ss_UserID r)"
    by (auto simp: live_tokens_def dest!: find_SomeD)
next
  assume "\<exists>r \<in> set (user_sessions d). ss_RefreshTokenHash r = h \<and> live_session (db_now clk) r \<and> v = (ss_ID r, ss_UserID r)"
  then obtain r where r: "r \<in> set (user_sessions d)" "ss_RefreshTokenHash r = h" "live_session (db_now clk) r"
    "v = (ss_ID r, ss_UserID r)" by blast
  have "find (\<lambda>r. ss_RefreshTokenHash r = h \<and> live_session (db_now clk) r) (user_sessions d) \<noteq> None"
    unfolding find_None_set using r by blast
  then obtain q where q: "find (\<lambda>r. ss_RefreshTokenHash r = h \<and> live_session (db_now clk) r) (user_sessions d) = Some q"
    by blast
  have "q = r" using distinct_key_unique [OF assms _ r(1)] find_SomeD [OF q] r(2) by simp
  then show "live_tokens clk d h = Some v" using q r(4) by (simp add: live_tokens_def)
qed

lemma option_eqI: "(\<And>v. x = Some v \<longleftrightarrow> y = Some v) \<Longrightarrow> x = y"
  by (cases x; cases y) auto

lemma live_tokens_eqI:
  assumes "distinct (map ss_RefreshTokenHash (user_sessions d))"
    and "\<And>h v. m h = Some v \<longleftrightarrow> (\<exists>r \<in> set (user_sessions d). ss_RefreshTokenHash r = h \<and> live_session (db_now clk) r \<and>
      v = (ss_ID r, ss_UserID r))"
  shows "live_tokens clk d = m"
proof
  fix h show "live_tokens clk d h = m h"
    by (rule option_eqI) (simp only: live_tokens_iff [OF assms(1)] assms(2))
qed

text \<open>Revoking the sessions of a set of rows takes their tokens out of the map.\<close>

lemma live_tokens_revoke:
  assumes ds: "distinct (map ss_RefreshTokenHash (user_sessions d))" and P: "\<And>r t. P (r\<lparr>ss_RevokedAt := t\<rparr>) = P r"
  shows "live_tokens clk (revoke_sessions now P d) h = Some v \<longleftrightarrow>
    (\<exists>r \<in> set (user_sessions d). ss_RefreshTokenHash r = h \<and> live_session (db_now clk) r \<and> v = (ss_ID r, ss_UserID r) \<and> \<not> P r)"
    and "distinct (map ss_RefreshTokenHash (user_sessions (revoke_sessions now P d)))"
proof -
  let ?f = "\<lambda>r. r\<lparr>ss_RevokedAt := Some now\<rparr>" and ?Q = "\<lambda>r. P r \<and> ss_RevokedAt r = None"
  show ds': "distinct (map ss_RefreshTokenHash (user_sessions (revoke_sessions now P d)))"
    using ds by (simp add: revoke_sessions_def map_upd_key)
  have "(\<exists>r \<in> set (upd ?Q ?f (user_sessions d)). ss_RefreshTokenHash r = h \<and> live_session (db_now clk) r \<and> v = (ss_ID r, ss_UserID r))
      = (\<exists>r \<in> set (user_sessions d). ss_RefreshTokenHash r = h \<and> live_session (db_now clk) r \<and> v = (ss_ID r, ss_UserID r) \<and> \<not> P r)"
    by (auto simp: set_upd live_session_def)
  then show "live_tokens clk (revoke_sessions now P d) h = Some v \<longleftrightarrow>
    (\<exists>r \<in> set (user_sessions d). ss_RefreshTokenHash r = h \<and> live_session (db_now clk) r \<and> v = (ss_ID r, ss_UserID r) \<and> \<not> P r)"
    using live_tokens_iff [OF ds'] by (simp add: revoke_sessions_def)
qed

lemma sessions_ok_revoke: "sessions_ok d \<Longrightarrow> sessions_ok (revoke_sessions now P d)"
  by (auto simp: sessions_ok_def revoke_sessions_def map_upd_key elim!: in_set_updE)

lemma create_refines:
  assumes "CreateSession sv clk sid rnd userID dev s = (Inr (raw, r), t)" and "sessions_ok (s_db s)"
    and "db_now clk < go_now clk + refreshTokenTTL sv"
  shows "live_tokens clk (s_db t) = (live_tokens clk (s_db s))(id_sha sv raw := Some (ss_ID r, userID))" and "sessions_ok (s_db t)"
proof -
  obtain q where q: "insert_session q (s_db s) = Inr (r, s_db t)" "ss_UserID q = userID" "ss_RefreshTokenHash q = id_sha sv raw"
    "live_session (db_now clk) q"
    using assms(1,3) by (auto simp: CreateSession_def Let_def andThen_Inr_iff live_session_def dest!: atomically_Inr)
  then have t: "s_db t = (s_db s)\<lparr>user_sessions := user_sessions (s_db s) @ [q]\<rparr>" "r = q"
    and new: "\<forall>p \<in> set (user_sessions (s_db s)). ss_RefreshTokenHash p \<noteq> id_sha sv raw"
    and usr: "\<exists>u \<in> set (users (s_db s)). u_ID u = userID"
    by (auto simp: insert_session_def split: if_splits)
  have ds: "distinct (map ss_RefreshTokenHash (user_sessions (s_db s)))" using assms(2) by (simp add: sessions_ok_def)
  then have ds': "distinct (map ss_RefreshTokenHash (user_sessions (s_db t)))" using new q(3) by (auto simp: t(1))
  show "sessions_ok (s_db t)" using assms(2) usr q(2) ds' by (auto simp: sessions_ok_def t(1))
  show "live_tokens clk (s_db t) = (live_tokens clk (s_db s))(id_sha sv raw := Some (ss_ID r, userID))"
    by (rule live_tokens_eqI [OF ds']) (use live_tokens_iff [OF ds] q new in \<open>auto simp: t\<close>)
qed

lemma upd_one:
  assumes "distinct (map k (xs @ r # ys))" and "\<And>x. P x \<Longrightarrow> k x = k r" and "P r"
  shows "upd P f (xs @ r # ys) = xs @ f r # ys"
proof -
  have "upd P f zs = zs" if "k r \<notin> k ` set zs" for zs using assms(2) that by (intro upd_id) (metis image_eqI)
  then show ?thesis using assms(1,3) by (simp add: upd_def)
qed

lemma refresh_refines:
  assumes tx: "RefreshSession sv clk rnd raw dev s = (Inr (access, newRaw, u, r), t)" and ok: "sessions_ok (s_db s)"
  shows "live_tokens clk (s_db t) = (let m = live_tokens clk (s_db s) in (m(id_sha sv raw := None))(id_sha sv newRaw := m (id_sha sv raw)))"
    and "sessions_ok (s_db t)"
proof -
  let ?old = "id_sha sv raw" and ?new = "id_sha sv newRaw" and ?now = "db_now clk"
  let ?hit = "\<lambda>r. ss_RefreshTokenHash r = ?old \<and> live_session ?now r" and ?rot = "rotate ?now ?new (normalized dev)"
  obtain q where q: "q \<in> set (user_sessions (s_db s))" "?hit q" and db: "s_db t = (s_db s)\<lparr>user_sessions := upd ?hit ?rot (user_sessions (s_db s))\<rparr>"
    using tx by (rule RefreshSession_Inr) blast
  have fresh: "?new = ?old \<or> ?new \<notin> ss_RefreshTokenHash ` set (user_sessions (s_db s))"
    using tx by (auto simp: RefreshSession_def refresh_tx_def Let_def andThen_Inr_iff dest!: atomically_Inr split: if_splits option.splits sum.splits)
  have ds: "distinct (map ss_RefreshTokenHash (user_sessions (s_db s)))" using ok by (simp add: sessions_ok_def)
  obtain xs ys where xy: "user_sessions (s_db s) = xs @ q # ys" using q(1) by (meson split_list)
  have t: "user_sessions (s_db t) = xs @ ?rot q # ys"
    using upd_one [of ss_RefreshTokenHash xs q ys ?hit ?rot] ds q(2) by (simp add: db xy)
  have ds': "distinct (map ss_RefreshTokenHash (user_sessions (s_db t)))"
    using ds fresh q(2) by (cases "?new = ?old") (simp_all add: t xy image_Un)
  have "users (s_db t) = users (s_db s)" by (simp add: db)
  then show "sessions_ok (s_db t)" using ok ds' by (auto simp: sessions_ok_def t xy)
  have m: "live_tokens clk (s_db s) ?old = Some (ss_ID q, ss_UserID q)"
    using live_tokens_iff [OF ds] q by blast
  have other: "live_tokens clk (s_db s) h = Some v \<longleftrightarrow>
      (\<exists>r \<in> set (xs @ ys). ss_RefreshTokenHash r = h \<and> live_session ?now r \<and> v = (ss_ID r, ss_UserID r))" if "h \<noteq> ?old" for h v
    using live_tokens_iff [OF ds, of clk h v] that q(2) by (auto simp: xy)
  have "?old \<notin> ss_RefreshTokenHash ` set (xs @ ys)" "?new \<notin> ss_RefreshTokenHash ` set (xs @ ys)"
    using ds' ds q(2) by (simp_all add: t xy image_Un)
  then have gone: "ss_RefreshTokenHash r \<noteq> ?old" "ss_RefreshTokenHash r \<noteq> ?new" if "r \<in> set (xs @ ys)" for r
    using that by (metis image_eqI)+
  show "live_tokens clk (s_db t) = (let m = live_tokens clk (s_db s) in (m(?old := None))(?new := m ?old))"
    unfolding Let_def
    by (rule live_tokens_eqI [OF ds']) (use m other gone q(2) in \<open>auto simp: t\<close>)
qed

lemma revoke_refines:
  assumes ok: "sessions_ok d" and P: "\<And>r. P r \<longleftrightarrow> D (ss_RefreshTokenHash r) (ss_ID r, ss_UserID r)"
  shows "live_tokens clk (revoke_sessions now P d) =
    (\<lambda>h. case live_tokens clk d h of None \<Rightarrow> None | Some v \<Rightarrow> if D h v then None else Some v)"
proof
  fix h
  have ds: "distinct (map ss_RefreshTokenHash (user_sessions d))" using ok by (simp add: sessions_ok_def)
  have "live_tokens clk (revoke_sessions now P d) h = Some v \<longleftrightarrow> live_tokens clk d h = Some v \<and> \<not> D h v" for v
    unfolding live_tokens_iff [OF ds] by (subst live_tokens_revoke(1) [OF ds]) (auto simp: P)
  then have "live_tokens clk (revoke_sessions now P d) h = Some v \<longleftrightarrow>
      (case live_tokens clk d h of None \<Rightarrow> None | Some v \<Rightarrow> if D h v then None else Some v) = Some v" for v
    by (auto split: option.split)
  then show "live_tokens clk (revoke_sessions now P d) h = (case live_tokens clk d h of None \<Rightarrow> None | Some v \<Rightarrow> if D h v then None else Some v)"
    by (rule option_eqI)
qed

text \<open>The simulation: each call moves the map as its event says, and keeps the indexes.\<close>

lemma session_call_refines:
  assumes "session_call sv clk s ev t" and ok: "sessions_ok (s_db s)"
  shows "live_tokens clk (s_db t) = spec_sessions ev (live_tokens clk (s_db s)) \<and> sessions_ok (s_db t)"
proof -
  have same: "live_tokens clk (s_db t) = live_tokens clk (s_db s) \<and> sessions_ok (s_db t)" if "s_db t = s_db s"
    using ok that by simp
  show ?thesis using assms(1)
  proof cases
    case (sc_create sid rnd userID dev raw r)
    then show ?thesis using create_refines [OF sc_create(2) ok sc_create(3)] by simp
  next
    case (sc_refresh rnd raw dev access newRaw u r)
    then show ?thesis using refresh_refines [OF sc_refresh(2) ok] by (simp add: Let_def)
  next
    case (sc_revoke userID sid)
    then have t: "s_db t = revoke_sessions (db_now clk) (\<lambda>r. ss_ID r = sid \<and> ss_UserID r = userID) (s_db s)"
      by (auto simp: RevokeSession_def revoke_session_tx_def dest!: atomically_Inr split: if_splits)
    have "live_tokens clk (s_db t) = spec_sessions ev (live_tokens clk (s_db s))" unfolding t
      by (subst revoke_refines [OF ok, where D = "\<lambda>h v. v = (sid, userID)"])
        (auto simp: sc_revoke(1) fun_eq_iff split: option.split)
    then show ?thesis using sessions_ok_revoke [OF ok] by (simp add: t)
  next
    case (sc_revoke_all userID keep)
    then have t: "s_db t = revoke_sessions (db_now clk) (\<lambda>r. ss_UserID r = userID \<and> except_session keep r) (s_db s)"
      by (auto simp: RevokeAllSessions_def modify_def dest!: atomically_Inr)
    have "live_tokens clk (s_db t) = spec_sessions ev (live_tokens clk (s_db s))" unfolding t
      by (subst revoke_refines [OF ok, where D = "\<lambda>h (i, v). v = userID \<and> Some i \<noteq> keep"])
        (auto simp: sc_revoke_all(1) fun_eq_iff except_session_def split: option.split)
    then show ?thesis using sessions_ok_revoke [OF ok] by (simp add: t)
  next
    case (sc_logout raw x)
    let ?h = "id_sha sv raw"
    have tx: "(case find (\<lambda>r. ss_RefreshTokenHash r = ?h \<and> ss_RevokedAt r = None) (user_sessions (s_db s)) of
          None \<Rightarrow> Inr ((uuid_Nil, uuid_Nil), s_db s)
        | Some r \<Rightarrow> (case find (\<lambda>u. u_ID u = ss_UserID r) (users (s_db s)) of
               None \<Rightarrow> Inr ((uuid_Nil, uuid_Nil), s_db s)
             | Some u \<Rightarrow> Inr ((ss_UserID r, case u_OrgID u of None \<Rightarrow> uuid_Nil | Some i \<Rightarrow> i),
                 revoke_sessions (db_now clk) (\<lambda>r. ss_RefreshTokenHash r = ?h) (s_db s)))) = (Inr (x, s_db t) :: err + _)"
      using sc_logout(2,3) by (simp add: RevokeSessionByRefresh_def) (drule atomically_Inr, simp)
    show ?thesis
    proof (cases "find (\<lambda>r. ss_RefreshTokenHash r = ?h \<and> ss_RevokedAt r = None) (user_sessions (s_db s))")
      case None
      then have "live_tokens clk (s_db s) ?h = None"
        by (auto simp: live_tokens_def find_None_set live_session_def)
      then have "(live_tokens clk (s_db s))(?h := None) = live_tokens clk (s_db s)" by (intro ext) auto
      then show ?thesis using tx None same sc_logout(1) by simp
    next
      case (Some r)
      have "find (\<lambda>u. u_ID u = ss_UserID r) (users (s_db s)) \<noteq> None"
        using find_SomeD [OF Some] ok by (auto simp: find_None_set sessions_ok_def)
      then have t: "s_db t = revoke_sessions (db_now clk) (\<lambda>r. ss_RefreshTokenHash r = ?h) (s_db s)"
        using tx Some by auto
      have "live_tokens clk (s_db t) = spec_sessions ev (live_tokens clk (s_db s))" unfolding t
        by (subst revoke_refines [OF ok, where D = "\<lambda>h v. h = ?h"]) (auto simp: sc_logout(1) fun_eq_iff split: option.split)
      then show ?thesis using sessions_ok_revoke [OF ok] by (simp add: t)
    qed
  next
    case (sc_create_fails sid rnd userID dev e)
    then have "s_db t = s_db s"
      unfolding CreateSession_def Let_def by (auto elim!: andThen_cases dest: atomically_Inl)
    then show ?thesis using same sc_create_fails(1) by simp
  next
    case (sc_refresh_fails rnd raw dev e)
    then have "s_db t = s_db s"
      unfolding RefreshSession_def Let_def by (auto elim!: andThen_cases dest: atomically_Inl split: if_splits)
    then show ?thesis using same sc_refresh_fails(1) by simp
  next
    case (sc_revoke_fails userID sid e)
    then have "s_db t = s_db s" unfolding RevokeSession_def by (blast dest: atomically_Inl)
    then show ?thesis using same sc_revoke_fails(1) by simp
  next
    case (sc_revoke_all_fails userID keep e)
    then have "s_db t = s_db s" unfolding RevokeAllSessions_def modify_def by (blast dest: atomically_Inl)
    then show ?thesis using same sc_revoke_all_fails(1) by simp
  next
    case (sc_logout_fails raw e)
    then have "s_db t = s_db s" unfolding RevokeSessionByRefresh_def by (auto dest: atomically_Inl split: if_splits)
    then show ?thesis using same sc_logout_fails(1) by simp
  qed
qed

section \<open>Registration and sign-in\<close>

lemma find_first_new: "(\<And>x. x \<in> set xs \<Longrightarrow> \<not> P x) \<Longrightarrow> P y \<Longrightarrow> find P (xs @ [y]) = Some y"
  by (induction xs) auto

lemma Register_Inr:
  assumes "id_Register sv clk fr orgName email name password s = (Inr (tok, u), s')"
  obtains h where "id_bcrypt sv password = Inr h"
    and "\<And>v. v \<in> set (users (s_db s)) \<Longrightarrow> \<not> email_user (TrimSpace (lower email)) v"
    and "users (s_db s') = users (s_db s) @ [new_user clk (fr_user fr) (Some (fr_org fr)) (TrimSpace (lower email)) h
      (if name = '''' then ''Admin'' else name) RoleOwner]"
    and "tok = issueJWT sv clk u" and "u_ID u = fr_user fr" and "u_OrgID u = Some (fr_org fr)" and "u_Role u = RoleOwner"
    and "distinct (map u_ID (users (s_db s')))"
proof -
  let ?e = "TrimSpace (lower email)"
  obtain s1 where q: "query (\<lambda>d. Inr (\<exists>u \<in> set (users d). email_user ?e u)) s = (Inr False, s1)"
    and a: "atomically (register_tx sv clk fr (TrimSpace orgName) ?e name password) s1 = (Inr u, s')" and tok: "tok = issueJWT sv clk u"
    using assms by (auto simp: id_Register_def Let_def andThen_Inr_iff split: if_splits)
  note q = query_Inr [OF q]
  have tx: "register_tx sv clk fr (TrimSpace orgName) ?e name password (s_db s) = Inr (u, s_db s')"
    using atomically_Inr [OF a] q by simp
  obtain h k d1 d2 where h: "id_bcrypt sv password = Inr h"
    and d1: "provisionOrgTx sv clk (fr_org fr) (fr_card fr) (fr_bytes fr) (TrimSpace orgName) (s_db s) = Inr (k, d1)"
    and d2: "put_users (users d1 @ [new_user clk (fr_user fr) (Some k) ?e h (if name = '''' then ''Admin'' else name) RoleOwner]) d1 = Inr ((), d2)"
    and m: "insertMembershipTx clk (fr_member fr) k (fr_user fr) RoleOwner None d2 = Inr ((), s_db s')"
    and u: "u = scan_brief (new_user clk (fr_user fr) (Some k) ?e h (if name = '''' then ''Admin'' else name) RoleOwner)"
    using tx by (fastforce simp: register_tx_def Let_def bindE_Inr_iff new_user_def)
  note p = provisionOrgTx_Inr [OF d1] and d2 = put_users_Inr [OF d2]
  have "users (s_db s') = users d2" using insertMembershipTx_Inr [OF m] by auto
  then show ?thesis
    using that [OF h] q d2 p u tok by (simp add: scan_brief_def scanUserRow_def new_user_def)
qed

text \<open>
  What \<open>bcrypt\<close> and the token library promise: the hash of a password is not empty and
  accepts the password, and a token signed by the service verifies before it expires.
\<close>

definition password_law :: "identity \<Rightarrow> string \<Rightarrow> bool" where
  "password_law sv password \<longleftrightarrow>
     (case id_bcrypt sv password of Inl e \<Rightarrow> True | Inr h \<Rightarrow> h \<noteq> '''' \<and> id_compare sv h password)"

definition token_law :: "identity \<Rightarrow> clocks \<Rightarrow> clocks \<Rightarrow> User \<Rightarrow> bool" where
  "token_law sv clk later u \<longleftrightarrow>
     id_verify sv (go_now later) (issueJWT sv clk u) =
       (if go_now later < trunc_second (go_now clk + accessTokenTTL sv)
        then Some \<lparr>jw_UserID = Some (u_ID u), jw_OrgID = u_OrgID u, jw_Role = u_Role u,
          jw_ExpiresAt = trunc_second (go_now clk + accessTokenTTL sv), jw_IssuedAt = trunc_second (go_now clk)\<rparr> else None)"

lemma Authenticate_issued:
  assumes "token_law sv clk later u" and "go_now later < trunc_second (go_now clk + accessTokenTTL sv)" and "s_faults s = []"
    and "find (\<lambda>v. u_ID v = u_ID u \<and> active_user v) (users (s_db s)) = Some v"
  shows "Authenticate sv later (issueJWT sv clk u) s = (Inr (scanUserRow v), s)"
  using assms by (simp add: Authenticate_def token_law_def query_no_fault)

lemma register_then_login:
  assumes reg: "id_Register sv clk fr orgName email name password s = (Inr (tok, u), s1)" and law: "password_law sv password"
    and nf: "s_faults s1 = []"
  obtains tok' v s2 where "Login sv clk' email password s1 = (Inr (tok', v), s2)" and "tok' = issueJWT sv clk' v"
    and "u_ID v = u_ID u" and "u_OrgID v = u_OrgID u" and "u_Role v = RoleOwner" and "s_faults s2 = []"
    and "\<exists>w. find (\<lambda>w. u_ID w = u_ID u \<and> active_user w) (users (s_db s2)) = Some w \<and> standing w = standing v"
proof -
  obtain h where h: "id_bcrypt sv password = Inr h"
    and none: "\<And>v. v \<in> set (users (s_db s)) \<Longrightarrow> \<not> email_user (TrimSpace (lower email)) v"
    and us: "users (s_db s1) = users (s_db s) @ [new_user clk (fr_user fr) (Some (fr_org fr)) (TrimSpace (lower email)) h
      (if name = '''' then ''Admin'' else name) RoleOwner]"
    and u: "u_ID u = fr_user fr" "u_OrgID u = Some (fr_org fr)" and ids: "distinct (map u_ID (users (s_db s1)))"
    using reg by (rule Register_Inr) blast
  let ?w = "new_user clk (fr_user fr) (Some (fr_org fr)) (TrimSpace (lower email)) h (if name = '''' then ''Admin'' else name) RoleOwner"
  have f: "find (\<lambda>u. email_user (TrimSpace (lower email)) u \<and> active_user u) (users (s_db s1)) = Some ?w"
    unfolding us by (rule find_first_new) (use none in \<open>auto simp: email_user_def active_user_def new_user_def\<close>)
  have w: "u_PasswordHash ?w = h" "u_ID ?w = fr_user fr" "u_OrgID ?w = Some (fr_org fr)" "u_Role ?w = RoleOwner"
    by (simp_all add: new_user_def)
  have L: "Login sv clk' email password s1 =
      (Inr (issueJWT sv clk' (scan_brief ?w), scan_brief ?w), s1\<lparr>s_db := touch_login clk' (fr_user fr) (s_db s1)\<rparr>)"
    using law h w by (simp add: Login_def andThen_def query_no_fault [OF nf] f modify_no_fault [OF nf] password_law_def Let_def)
  have "find (\<lambda>w. u_ID w = u_ID u \<and> active_user w) (users (s_db s1)) = Some ?w"
  proof (subst us, rule find_first_new)
    have "fr_user fr \<notin> u_ID ` set (users (s_db s))" using ids by (simp add: us w)
    then show "\<not> (u_ID x = u_ID u \<and> active_user x)" if "x \<in> set (users (s_db s))" for x
      using that u(1) by (metis image_eqI)
  qed (use u in \<open>simp add: active_user_def new_user_def\<close>)
  from find_upd_Some [OF this] have found: "find (\<lambda>w. u_ID w = u_ID u \<and> active_user w) (users (touch_login clk' (fr_user fr) (s_db s1))) =
      Some (?w\<lparr>u_LastLoginAt := Some (db_now clk')\<rparr>)"
    using w by (simp add: touch_login_def active_user_def)
  show ?thesis
    by (rule that [OF L]) (use u w nf found in \<open>simp_all add: scan_brief_def scanUserRow_def standing_def\<close>)
qed

section \<open>Linking a Google identity\<close>

text \<open>
  A Google sign-in is linked to the account that has its email, verified or not, and the account
  keeps its password: whoever set it still signs in to the linked account.
\<close>

lemma google_link_keeps_password:
  assumes link: "UpsertGoogleUser sv clk fr sub email name avatar verified s = (Inr (tok, u), s')" and nf: "s_faults s = []"
    and none: "userByGoogleSub sub (s_db s) = None"
    and v: "find (\<lambda>u. email_user (TrimSpace (lower email)) u \<and> active_user u) (users (s_db s)) = Some v"
    and pw: "u_PasswordHash v \<noteq> ''''" "id_compare sv (u_PasswordHash v) password"
  shows "u_ID u = u_ID v" and "\<exists>x. fst (Login sv clk' email password s') = Inr x \<and> u_ID (snd x) = u_ID v"
proof -
  have e: "userByEmail (TrimSpace (lower email)) (s_db s) = Some (scanUserRow v)" using v by (simp add: userByEmail_def)
  have i: "u_ID (scanUserRow v) = u_ID v" by (simp add: scanUserRow_def)
  obtain s2 where a: "atomically (link_google clk (u_ID v) sub avatar) s = (Inr (), s2)" and s': "s' = s2"
    and u: "u = (scanUserRow v)\<lparr>u_AuthProvider := ''google''\<rparr>"
    using link none e i unfolding UpsertGoogleUser_def Let_def
    by (auto simp: andThen_Inr_iff query_no_fault [OF nf] split: if_splits)
  show "u_ID u = u_ID v" by (simp add: u i)
  have nf': "s_faults s' = []" using a nf by (auto simp: s' atomically_no_fault split: sum.splits prod.splits)
  have us: "users (s_db s') = upd (\<lambda>q. u_ID q = u_ID v) (\<lambda>q. q\<lparr>u_GoogleSub := Some sub, u_EmailVerified := True,
      u_LastLoginAt := Some (db_now clk), u_AvatarURL := (if u_AvatarURL q = '''' then avatar else u_AvatarURL q)\<rparr>) (users (s_db s))"
    using atomically_Inr [OF a] by (auto simp: s' link_google_def dest: put_users_Inr)
  have "find (\<lambda>u. email_user (TrimSpace (lower email)) u \<and> active_user u) (users (s_db s')) =
      Some (v\<lparr>u_GoogleSub := Some sub, u_EmailVerified := True,
      u_LastLoginAt := Some (db_now clk), u_AvatarURL := (if u_AvatarURL v = '''' then avatar else u_AvatarURL v)\<rparr>)"
    unfolding us by (subst find_upd_Some [OF v]) (simp_all add: email_user_def active_user_def)
  then show "\<exists>x. fst (Login sv clk' email password s') = Inr x \<and> u_ID (snd x) = u_ID v"
    using pw by (simp add: Login_def andThen_def query_no_fault [OF nf'] scan_brief_def scanUserRow_def Let_def)
qed

end
