(* ===== verification/Fixture.thy ===== *)
theory Fixture
  imports Access "HOL-Library.Countable"
begin

text \<open>
  A small concrete installation: one organisation with an owner, one online node with two idle
  GPUs, a topped-up ledger, an enrolment token, and a running workload on a second database. The
  witnesses evaluate the model on it.
\<close>

definition ex_settings :: OrgSettings where
  "ex_settings = \<lparr>os_IdleThresholdPct = None, os_IdleDurationMin = None, os_Currency = None, os_DefaultRate = Some 2\<rparr>"

definition ex_org :: Organization where
  "ex_org = \<lparr>o_ID = 1, o_Name = ''Acme'', o_Slug = ''acme'', o_Settings = ex_settings, o_CreatedAt = 0\<rparr>"

definition ex_user :: User where
  "ex_user = \<lparr>u_ID = 2, u_OrgID = Some 1, u_DepartmentID = None, u_Email = ''a@acme'', u_PasswordHash = '''',
     u_Name = ''A'', u_Role = RoleOwner, u_Status = ''active'', u_AvatarURL = '''', u_EmailVerified = True,
     u_AuthProvider = ''password'', u_LastLoginAt = None, u_CreatedAt = 0, u_IsServiceAccount = False, u_GoogleSub = None\<rparr>"

definition ex_info :: NodeInfo where
  "ex_info = \<lparr>ni_Hostname = ''n1'', ni_OS = ''linux'', ni_Kernel = '''', ni_CPUModel = '''', ni_CPUCores = 8,
     ni_RAMMB = 1024, ni_NvidiaDriver = '''', ni_CUDAVersion = '''', ni_AgentVersion = ''1''\<rparr>"

definition ex_node :: Node where
  "ex_node = \<lparr>n_ID = 3, n_OrgID = 1, n_Fingerprint = Some ''fp'', n_Status = NodeOnline, n_Info = ex_info,
     n_Labels = [], n_EnrolledAt = 0, n_LastSeenAt = Some 0\<rparr>"

definition ex_gpu :: "nat \<Rightarrow> int \<Rightarrow> GPUStatus \<Rightarrow> GPU" where
  "ex_gpu i k st = \<lparr>g_ID = i, g_NodeID = 3, g_OrgID = 1, g_Index = k, g_UUID = (if i = 4 then ''GPU-a'' else ''GPU-b''),
     g_Model = ''A100'', g_MemoryMB = 81920, g_MIGEnabled = False, g_Status = st, g_CreatedAt = 0, g_UpdatedAt = 0\<rparr>"

definition ex_token :: EnrollmentToken where
  "ex_token = \<lparr>et_ID = 5, et_OrgID = 1, et_TokenHash = ''th'', et_Description = '''', et_CreatedBy = None, et_MaxUses = 2,
     et_Uses = 0, et_ExpiresAt = 100 * hour, et_LastUsedAt = None, et_RevokedAt = None, et_CreatedAt = 0\<rparr>"

definition ex_ledger :: ledger_entry where
  "ex_ledger = \<lparr>le_org = 1, le_delta = 1000, le_balance = 1000, le_kind = ''topup'', le_description = '''',
     le_workload = None, le_created_at = 0\<rparr>"

definition ex_cred :: agent_credential where
  "ex_cred = \<lparr>ac_org = 1, ac_node = 3, ac_public_key = ''old'', ac_revoked_at = None\<rparr>"

definition ex_db :: db where
  "ex_db = empty_db\<lparr>organizations := [ex_org], users := [ex_user], gpu_nodes := [ex_node],
     gpus := [ex_gpu 4 0 GPUIdle, ex_gpu 6 1 GPUIdle], enrollment_tokens := [ex_token],
     agent_credentials := [ex_cred], credit_ledger := [ex_ledger]\<rparr>"

definition ex_request :: LaunchRequest where
  "ex_request = \<lparr>lr_UserID = 2, lr_ProjectID = None, lr_DepartmentID = None, lr_Name = ''job'', lr_TemplateID = None,
     lr_Image = ''pytorch/pytorch:2'', lr_GPUType = '''', lr_GPUCount = 2, lr_IdleTimeoutSec = Some 600,
     lr_ExposeSSH = False, lr_ExposeJupyter = False\<rparr>"

definition ex_service :: service where
  "ex_service = \<lparr>sv_billing = Some True, sv_audit = True, sv_publish = True\<rparr>"

definition ex_clocks :: clocks where
  "ex_clocks = \<lparr>db_now = hour, go_now = hour\<rparr>"

text \<open>A workload that runs on GPU 4 since time zero, and one that waits.\<close>

definition ex_workload :: "nat \<Rightarrow> WorkloadState \<Rightarrow> WorkloadRow" where
  "ex_workload i st = \<lparr>w_ID = i, w_OrgID = 1, w_ProjectID = None, w_DepartmentID = None, w_TemplateID = None,
     w_UserID = 2, w_NodeID = (if st = WorkloadQueued then None else Some 3), w_Name = ''job'', w_Image = ''ubuntu:22.04'', w_ContainerID = ''c'',
     w_RequestedGPUCount = 1, w_Status = st, w_Stage = '''', w_IdleTimeoutSec = Some 600, w_ExposeSSH = False,
     w_ExposeJupyter = False, w_SSHPassword = '''', w_SSHEndpoint = '''', w_JupyterEndpoint = '''', w_Logs = '''',
     w_StartedAt = (if st = WorkloadQueued then None else Some 0),
     w_StoppedAt = (if terminal_state st then Some minute else None), w_StopReason = None, w_CreatedAt = 0,
     w_stopping_at = None, w_queued_at = None, w_requested_gpu_type = ''any'', w_metered_until = None\<rparr>"

definition ex_attachment :: workload_gpu where
  "ex_attachment = \<lparr>wg_workload = 7, wg_gpu = 4, wg_attached_at = 0, wg_detached_at = None\<rparr>"

definition ex_running :: db where
  "ex_running = ex_db\<lparr>gpus := [ex_gpu 4 0 GPUInUse, ex_gpu 6 1 GPUIdle],
     workloads := [ex_workload 7 WorkloadRunning, ex_workload 8 WorkloadQueued],
     workload_gpus := [ex_attachment]\<rparr>"

definition ex_stopped :: db where
  "ex_stopped = ex_db\<lparr>workloads := [ex_workload 7 WorkloadStopped]\<rparr>"

definition ex_restricted :: db where
  "ex_restricted = ex_db\<lparr>
     projects := [\<lparr>pj_ID = 20, pj_OrgID = 1, pj_Name = ''p'', pj_Description = '''', pj_Visibility = ''restricted'',
        pj_CreatedBy = None, pj_ArchivedAt = None, pj_CreatedAt = 0\<rparr>],
     project_members := [\<lparr>pm_ProjectID = 20, pm_UserID = 30, pm_AddedBy = None, pm_CreatedAt = 0\<rparr>],
     workloads := [(ex_workload 7 WorkloadRunning)\<lparr>w_ProjectID := Some 20\<rparr>]\<rparr>"

definition ex_viewer :: ListFilter where
  "ex_viewer = \<lparr>lf_Status = None, lf_UserID = None, lf_ProjectID = None, lf_Viewer = Some 30, lf_ViewerIsAdmin = False\<rparr>"

lemmas ex_defs = ex_settings_def ex_org_def ex_user_def ex_info_def ex_node_def ex_gpu_def ex_token_def
  ex_ledger_def ex_cred_def ex_db_def ex_request_def ex_service_def ex_clocks_def ex_workload_def ex_attachment_def
  ex_running_def empty_db_def initial_sys_def

lemma ex_alloc: "alloc_inv ex_db" and ex_running_alloc: "alloc_inv ex_running"
  by (simp_all add: alloc_inv_def alloc_ok_def holds_def active_def ex_defs)

lemma ex_billing: "billing_inv ex_running"
  using ex_running_alloc by (simp add: billing_inv_def pairs_of_def ex_defs)

lemma ex_ledger_inv: "ledger_inv ex_db" "ledger_inv ex_running"
proof -
  have "num4 0 = 0" "num4 1000 = 1000" by (code_simp, code_simp)
  then show "ledger_inv ex_db" "ledger_inv ex_running"
    by (simp_all add: ledger_inv_def last_balance_def ledger_sum_def ledger_count_def is_num4_def ex_defs)
qed

lemma ex_valid: "validateLaunch ex_request = Inr ex_request"
  by code_simp

lemma ex_authorized: "authorize ex_service ex_clocks 1 None None (initial_sys ex_db) = (Inr (), initial_sys ex_db)"
  by (simp add: authorize_def AuthorizeLaunch_def atomically_def last_balance_def ex_defs)

lemma ex_placed: "placeAndAttach (\<lambda>_. False) 1 10 '''' 2 ex_db =
    Inr \<lparr>p_workloadID = 10, p_nodeID = 3, p_gpuIDs = [4, 6], p_gpuUUIDs = [''GPU-a'', ''GPU-b'']\<rparr>"
  by code_simp

lemma ex_launched:
  obtains wl s' where "Launch ex_service ex_clocks (\<lambda>_. False) 10 11 [] 1 ex_request (initial_sys ex_db) = (Inr wl, s')"
    and "w_NodeID wl = Some 3" and "w_RequestedGPUCount wl = 2"
proof -
  let ?w0 = "new_workload hour 10 1 [] ex_request" and ?p = "\<lparr>p_workloadID = 10, p_nodeID = 3, p_gpuIDs = [4, 6::nat],
    p_gpuUUIDs = [''GPU-a'', ''GPU-b'']\<rparr>"
  have refs: "launch_refs_ok ex_request 1 10 11 ex_db" by (simp add: launch_refs_ok_def ex_defs)
  have "\<exists>x. launch_tx ex_clocks (\<lambda>_. False) 11 ex_request ?w0 ex_db = Inr x"
    by (rule launch_tx_total [OF ex_alloc refs]) (simp_all add: new_workload_def, simp_all add: ex_request_def)
  then obtain x where x: "launch_tx ex_clocks (\<lambda>_. False) 11 ex_request ?w0 ex_db = Inr x" ..
  have p: "placeAndAttach (\<lambda>_. False) (w_OrgID ?w0) (w_ID ?w0) (lr_GPUType ex_request) (lr_GPUCount ex_request) ex_db = Inr ?p"
    using ex_placed by (simp add: new_workload_def ex_request_def)
  obtain d where d: "x = ((?w0\<lparr>w_NodeID := Some 3, w_Status := WorkloadPending\<rparr>, Some ?p), d)"
    using x unfolding launch_tx_def Let_def p by (auto simp: bindE_Inr_iff)
  have c: "go_now ex_clocks = hour" by (simp add: ex_clocks_def)
  have r: "lr_DepartmentID ex_request = None" "lr_ProjectID ex_request = None" by (simp_all add: ex_request_def)
  have nf: "s_faults (initial_sys ex_db) = []" "s_db (initial_sys ex_db) = ex_db" by (simp_all add: initial_sys_def)
  obtain s' where "Launch ex_service ex_clocks (\<lambda>_. False) 10 11 [] 1 ex_request (initial_sys ex_db) =
      (Inr (?w0\<lparr>w_NodeID := Some 3, w_Status := WorkloadPending\<rparr>), s')"
    using x unfolding Launch_def ex_valid sum.case r ex_authorized prod.case c d atomically_no_fault [OF nf(1)] nf(2)
    by (simp add: Let_def)
  then show ?thesis by (rule that) (simp_all add: new_workload_def ex_request_def)
qed


lemma ex_not_placed: "placeAndAttach (\<lambda>_. False) 1 10 '''' 2 ex_running = Inl ErrNoGPUsAvailable"
  by code_simp

lemma ex_authorized_running:
  "authorize ex_service ex_clocks 1 None None (initial_sys ex_running) = (Inr (), initial_sys ex_running)"
  by (simp add: authorize_def AuthorizeLaunch_def atomically_def last_balance_def ex_defs)

lemma ex_waits:
  obtains wl s' where "Launch ex_service ex_clocks (\<lambda>_. False) 10 11 [] 1 ex_request (initial_sys ex_running) = (Inr wl, s')"
    and "w_NodeID wl = None"
proof -
  let ?w0 = "new_workload hour 10 1 [] ex_request"
  have refs: "launch_refs_ok ex_request 1 10 11 ex_running" by (simp add: launch_refs_ok_def ex_defs)
  have "\<exists>x. launch_tx ex_clocks (\<lambda>_. False) 11 ex_request ?w0 ex_running = Inr x"
    by (rule launch_tx_total [OF ex_running_alloc refs]) (simp_all add: new_workload_def, simp_all add: ex_request_def)
  then obtain x where x: "launch_tx ex_clocks (\<lambda>_. False) 11 ex_request ?w0 ex_running = Inr x" ..
  have p: "placeAndAttach (\<lambda>_. False) (w_OrgID ?w0) (w_ID ?w0) (lr_GPUType ex_request) (lr_GPUCount ex_request) ex_running =
      Inl ErrNoGPUsAvailable" using ex_not_placed by (simp add: new_workload_def ex_request_def)
  obtain d where d: "x = ((?w0\<lparr>w_Status := WorkloadQueued\<rparr>, None), d)"
    using x unfolding launch_tx_def Let_def p by (auto simp: bindE_Inr_iff)
  have c: "go_now ex_clocks = hour" by (simp add: ex_clocks_def)
  have r: "lr_DepartmentID ex_request = None" "lr_ProjectID ex_request = None" by (simp_all add: ex_request_def)
  have nf: "s_faults (initial_sys ex_running) = []" "s_db (initial_sys ex_running) = ex_running" by (simp_all add: initial_sys_def)
  obtain s' where "Launch ex_service ex_clocks (\<lambda>_. False) 10 11 [] 1 ex_request (initial_sys ex_running) =
      (Inr (?w0\<lparr>w_Status := WorkloadQueued\<rparr>), s')"
    using x unfolding Launch_def ex_valid sum.case r ex_authorized_running prod.case c d atomically_no_fault [OF nf(1)] nf(2)
    by (simp add: Let_def)
  then show ?thesis by (rule that) (simp add: new_workload_def)
qed

lemma s_initial_sys [simp]: "s_db (initial_sys d) = d" "s_faults (initial_sys d) = []"
  by (simp_all add: initial_sys_def)

lemma ex_stopped_alloc: "alloc_inv ex_stopped"
  by (simp add: ex_stopped_def alloc_inv_def alloc_ok_def ex_defs)


definition ex_command :: command_row where
  "ex_command = \<lparr>c_ID = 40, c_OrgID = 1, c_NodeID = 3, c_WorkloadID = Some 7, c_Kind = KindStop,
     c_Payload = \<lparr>sm_CommandId = 40, sm_Payload = StopWorkload 7 STOP_REASON_USER\<rparr>, c_Status = CmdPending,
     c_Attempts = 0, c_NextAttemptAt = 0, c_DeliverBy = None, c_LastError = '''', c_CreatedAt = 0,
     c_SentAt = None, c_AckedAt = None\<rparr>"

definition ex_gateway :: gateway where
  "ex_gateway = \<lparr>gw_sys = initial_sys (ex_running\<lparr>agent_commands := [ex_command]\<rparr>),
     gw_streams = [3 \<mapsto> \<lparr>rg_ch = 0, rg_buf = [], rg_kicked = False\<rparr>], gw_sent = []\<rparr>"

lemma ex_enrolled:
  "repo_Enroll ex_clocks 50 ''th'' ''fp'' ex_info ''new'' ex_db =
     Inr ((3, 1), ex_db\<lparr>enrollment_tokens := [ex_token\<lparr>et_Uses := 1\<rparr>],
       gpu_nodes := [ex_node\<lparr>n_LastSeenAt := Some hour\<rparr>],
       agent_credentials := [ex_cred\<lparr>ac_revoked_at := Some hour\<rparr>,
         \<lparr>ac_org = 1, ac_node = 3, ac_public_key = ''new'', ac_revoked_at = None\<rparr>]\<rparr>)"
  by (simp add: repo_Enroll_def enroll_node_def insert_credential_def revoke_credentials_def Let_def ex_defs)

lemma map_first: "map f xs = y # ys \<Longrightarrow> \<exists>x \<in> set xs. f x = y"
  by (cases xs) simp_all

lemma ex_ledger_ok: "ledger_ok ex_db"
  using ex_ledger_inv(1) by (simp add: ledger_ok_def org_exists_def ex_defs)

section \<open>Accounts\<close>

text \<open>
  The organisation with two owners and an outsider, a session of the first owner, and an identity
  service whose hash functions and tokens are simple functions.
\<close>

definition ex_account :: "nat \<Rightarrow> uuid option \<Rightarrow> string \<Rightarrow> Role \<Rightarrow> User" where
  "ex_account i org email role = ex_user\<lparr>u_ID := i, u_OrgID := org, u_Email := email, u_Role := role, u_PasswordHash := ''$secret123''\<rparr>"

definition ex_member :: "nat \<Rightarrow> nat \<Rightarrow> Role \<Rightarrow> Member" where
  "ex_member i uid role = \<lparr>m_ID = i, m_OrgID = 1, m_UserID = uid, m_Role = role, m_InvitedBy = None, m_CreatedAt = 0\<rparr>"

definition ex_session :: Session where
  "ex_session = \<lparr>ss_ID = 70, ss_UserID = 2, ss_RefreshTokenHash = ''r0'', ss_DeviceName = '''', ss_Browser = '''', ss_OS = '''',
     ss_IPAddress = '''', ss_UserAgent = '''', ss_CreatedAt = 0, ss_LastActiveAt = 0, ss_ExpiresAt = 24 * hour, ss_RevokedAt = None\<rparr>"

definition ex_invitation :: Invitation where
  "ex_invitation = \<lparr>iv_ID = 71, iv_OrgID = 1, iv_Email = ''c@acme'', iv_Role = RoleAdmin, iv_TokenHash = ''inv'', iv_InvitedBy = Some 2,
     iv_CreatedAt = 0, iv_ExpiresAt = 24 * hour, iv_AcceptedAt = None, iv_RevokedAt = None, iv_DeliveryStatus = ''sent'',
     iv_DeliveryError = '''', iv_DeliveredAt = None\<rparr>"

definition ex_code :: JoinCode where
  "ex_code = \<lparr>jc_ID = 72, jc_OrgID = 1, jc_CodeHash = ''code'', jc_Description = '''', jc_CreatedBy = Some 2, jc_MaxUses = 1,
     jc_Uses = 0, jc_ExpiresAt = 24 * hour, jc_RevokedAt = None, jc_CreatedAt = 0\<rparr>"

definition ex_reset_token :: auth_token where
  "ex_reset_token = \<lparr>atk_ID = 73, atk_UserID = 2, atk_kind = ''password_reset'', atk_TokenHash = ''reset'',
     atk_ExpiresAt = 24 * hour, atk_UsedAt = None\<rparr>"

definition ex_key :: APIKey where
  "ex_key = \<lparr>ak_ID = 74, ak_OrgID = 1, ak_Name = ''ci'', ak_Prefix = ''nhk_'', ak_KeyHash = ''nhk_k'', ak_UserID = Some 2,
     ak_ServiceAccountID = None, ak_CreatedBy = Some 2, ak_CreatedAt = 0, ak_ExpiresAt = None, ak_LastUsedAt = None, ak_RevokedAt = None\<rparr>"

definition ex_tenant :: db where
  "ex_tenant = ex_db\<lparr>
     users := [ex_account 2 (Some 1) ''a@acme'' RoleOwner, ex_account 5 (Some 1) ''b@acme'' RoleOwner, ex_account 9 None ''c@acme'' RoleMember],
     organization_members := [ex_member 60 2 RoleOwner, ex_member 61 5 RoleOwner],
     user_sessions := [ex_session], organization_invitations := [ex_invitation], organization_join_codes := [ex_code],
     auth_tokens := [ex_reset_token], api_keys := [ex_key]\<rparr>"

definition ex_claims :: jwtClaims where
  "ex_claims = \<lparr>jw_UserID = Some 30, jw_OrgID = Some 31, jw_Role = RoleOwner, jw_ExpiresAt = 2 * hour, jw_IssuedAt = hour\<rparr>"

definition ex_identity :: identity where
  "ex_identity = \<lparr>id_sessionTTL = hour, id_accessTTL = 0, id_refreshTTL = 0, id_welcomeCredit = 100, id_sha = (\<lambda>x. x),
     id_bcrypt = (\<lambda>p. if length p > 72 then Inl (ErrText ''password too long'') else Inr (''$'' @ p)),
     id_compare = (\<lambda>h p. h = ''$'' @ p), id_sign = (\<lambda>c. if jw_UserID c = Some 30 then ''t30'' else ''t2''),
     id_verify = (\<lambda>now t. if \<not> now < 2 * hour then None else if t = ''t30'' then Some ex_claims
        else if t = ''t2'' then Some (ex_claims\<lparr>jw_UserID := Some 2, jw_OrgID := Some 1\<rparr>) else None)\<rparr>"

definition ex_fresh :: fresh where
  "ex_fresh = \<lparr>fr_user = 30, fr_org = 31, fr_member = 32, fr_card = (\<lambda>i. 33 + i), fr_bytes = [1, 2, 3]\<rparr>"

definition ex_device :: DeviceInfo where
  "ex_device = \<lparr>dv_UserAgent = ''curl'', dv_IPAddress = ''10.0.0.9'', dv_DeviceName = '''', dv_Browser = '''', dv_OS = ''''\<rparr>"

lemmas ex_account_defs = ex_account_def ex_member_def ex_session_def ex_invitation_def ex_code_def ex_reset_token_def ex_key_def
  ex_tenant_def ex_claims_def ex_identity_def ex_fresh_def ex_defs

lemma ex_tenant_members: "member_inv ex_tenant"
  by (simp add: member_inv_def members_ok_def mirrored_def ex_account_defs)

lemma ex_tenant_sessions: "sessions_ok ex_tenant"
  by (simp add: sessions_ok_def ex_account_defs)

text \<open>A call or a transaction that is seen to succeed, as an equation.\<close>

lemma not_isl_Inr: "\<not> isl r \<Longrightarrow> \<exists>a. r = Inr a"
  by (cases r) simp_all

lemma call_succeeds: "\<not> isl (fst r) \<Longrightarrow> \<exists>a t. r = (Inr a, t)"
  by (cases r) (auto dest: not_isl_Inr)

section \<open>Reservations and alerts\<close>

definition ex_booking :: CreateReservationReq where
  "ex_booking = \<lparr>rq_GPUModel = ''A100'', rq_GPUCount = 2, rq_StartAt = 2 * hour, rq_EndAt = 4 * hour, rq_ProjectID = None\<rparr>"

lemma ex_capacity: "capacity_ok ex_db"
  by (simp add: capacity_ok_def reserved_at_def booked_def fleet_size_def ex_defs)

definition ex_rule :: alert_rule where
  "ex_rule = \<lparr>arl_ID = 80, arl_OrgID = 1, arl_Type = ''workload_runtime'', arl_Threshold = 1/2, arl_ScopeID = None,
     arl_Severity = ''warning'', arl_Enabled = True, arl_CreatedAt = 0\<rparr>"

definition ex_watched :: db where
  "ex_watched = ex_running\<lparr>alert_rules := [ex_rule]\<rparr>"

instance scope_type :: countable
  by countable_datatype

instance dedup_key :: countable
  by countable_datatype

definition ex_alert_id :: "uuid \<Rightarrow> dedup_key \<Rightarrow> uuid" where
  "ex_alert_id orgID key = 1000 + to_nat (orgID, key)"

lemma ex_alert_id_inj: "ex_alert_id o1 k1 = ex_alert_id o2 k2 \<Longrightarrow> o1 = o2 \<and> k1 = k2"
  by (simp add: ex_alert_id_def)

end
