(* ===== verification/Audit_Log.thy ===== *)
theory Audit_Log
  imports Platform
begin

text \<open>
  The audit trail: \<open>internal/audit\<close> and the triggers of migration 0016. Events are appended to
  \<open>audit_logs\<close>, each row chained to the one before it by a hash; \<open>Query\<close> searches the
  rows of one organisation; \<open>VerifyChain\<close> walks the chain.
\<close>

section \<open>PostgreSQL functions\<close>

text \<open>
  What the statements use of PostgreSQL, as parameters: the cast \<open>text::inet\<close> (\<open>None\<close> where it
  is refused), the text of a \<open>jsonb\<close> and of an epoch, and \<open>sha256\<close> in hexadecimal.
\<close>

record postgres =
  pg_inet :: "string \<Rightarrow> string option"
  pg_jsonb :: "(string \<times> json) list \<Rightarrow> string"
  pg_epoch :: "time \<Rightarrow> string"
  pg_sha256 :: "string \<Rightarrow> string"

definition row_text :: "postgres \<Rightarrow> string option \<Rightarrow> 'a AuditLog_scheme \<Rightarrow> time \<Rightarrow> string" where
  "row_text pg prev e ts =
     (case prev of None \<Rightarrow> '''' | Some h \<Rightarrow> h) @ ''|'' @ uuid_str (al_OrgID e) @ ''|'' @ al_ActorType e @ ''|'' @
     al_ActorID e @ ''|'' @ al_Action e @ ''|'' @ al_TargetType e @ ''|'' @ al_TargetID e @ ''|'' @
     pg_jsonb pg (al_Metadata e) @ ''|'' @ al_IP e @ ''|'' @ pg_epoch pg ts"

definition audit_row_hash :: "postgres \<Rightarrow> string option \<Rightarrow> 'a AuditLog_scheme \<Rightarrow> time \<Rightarrow> string" where
  "audit_row_hash pg prev e ts = pg_sha256 pg (row_text pg prev e ts)"

section \<open>Recording\<close>

text \<open>
  The insert of \<open>Record\<close>: the check on \<open>actor_type\<close>, the cast of the address, the identity
  column and the chain trigger. A missing address is the empty string here.
\<close>

definition last_hash :: "audit_row list \<Rightarrow> string option" where
  "last_hash rs = (if rs = [] then None else Some (au_RowHash (last rs)))"

definition next_audit_id :: "audit_row list \<Rightarrow> nat" where
  "next_audit_id rs = (if rs = [] then 1 else Suc (au_ID (last rs)))"

definition linked_row :: "postgres \<Rightarrow> clocks \<Rightarrow> AuditLog \<Rightarrow> audit_row list \<Rightarrow> audit_row" where
  "linked_row pg clk e rs =
     \<lparr>al_OrgID = al_OrgID e, al_ActorType = al_ActorType e, al_ActorID = al_ActorID e, al_Action = al_Action e,
      al_TargetType = al_TargetType e, al_TargetID = al_TargetID e, al_Metadata = al_Metadata e, al_IP = al_IP e,
      au_ID = next_audit_id rs, au_TS = db_now clk, au_PrevHash = last_hash rs,
      au_RowHash = audit_row_hash pg (last_hash rs) e (db_now clk)\<rparr>"

definition record_tx :: "postgres \<Rightarrow> clocks \<Rightarrow> AuditLog \<Rightarrow> db \<Rightarrow> err + unit \<times> db" where
  "record_tx pg clk e d =
     (if al_ActorType e \<notin> {''user'', ''agent'', ''system''} then Inl (ErrConstraint ''audit_logs_actor_type_check'')
      else case (if al_IP e = '''' then Some '''' else pg_inet pg (al_IP e)) of
        None \<Rightarrow> Inl ErrDB
      | Some ip \<Rightarrow> Inr ((), d\<lparr>audit_logs := audit_logs d @ [linked_row pg clk (e\<lparr>al_IP := ip\<rparr>) (audit_logs d)]\<rparr>))"

definition audit_Record :: "postgres \<Rightarrow> clocks \<Rightarrow> AuditLog \<Rightarrow> sys \<Rightarrow> (err + unit) \<times> sys" where
  "audit_Record pg clk e = atomically (record_tx pg clk e)"

section \<open>Searching\<close>

record QueryFilter =
  qf_From :: "time option"
  qf_To :: "time option"
  qf_Action :: string
  qf_ActorID :: string
  qf_TargetType :: string
  qf_TargetID :: string
  qf_Q :: string
  qf_Limit :: int
  qf_Offset :: int

definition escape_char :: "char \<Rightarrow> string" where
  "escape_char c = (if c = CHR 0x5C \<or> c = CHR ''%'' \<or> c = CHR ''_'' then [CHR 0x5C, c] else [c])"

definition escapeLike :: "string \<Rightarrow> string" where
  "escapeLike s = concat (map escape_char s)"

definition likePrefix :: "string \<Rightarrow> string" where
  "likePrefix s = escapeLike s @ ''%''"

definition searched :: "postgres \<Rightarrow> audit_row \<Rightarrow> string list" where
  "searched pg r = [al_Action r, al_ActorID r, al_TargetID r, al_TargetType r, pg_jsonb pg (al_Metadata r)]"

definition audit_matches :: "postgres \<Rightarrow> uuid \<Rightarrow> time \<Rightarrow> time \<Rightarrow> QueryFilter \<Rightarrow> audit_row \<Rightarrow> bool" where
  "audit_matches pg orgID fr until f r \<longleftrightarrow> al_OrgID r = orgID \<and> fr \<le> au_TS r \<and> au_TS r \<le> until \<and>
     (qf_Action f \<noteq> '''' \<longrightarrow> like (likePrefix (qf_Action f)) (al_Action r)) \<and>
     (qf_ActorID f \<noteq> '''' \<longrightarrow> al_ActorID r = qf_ActorID f) \<and>
     (qf_TargetType f \<noteq> '''' \<longrightarrow> al_TargetType r = qf_TargetType f) \<and>
     (qf_TargetID f \<noteq> '''' \<longrightarrow> al_TargetID r = qf_TargetID f) \<and>
     (qf_Q f \<noteq> '''' \<longrightarrow> list_ex (\<lambda>x. ilike x (''%'' @ escapeLike (qf_Q f) @ ''%'')) (searched pg r))"

definition page_limit :: "int \<Rightarrow> int" where
  "page_limit n = (if n \<le> 0 \<or> n > 500 then 100 else n)"

definition audit_Query :: "postgres \<Rightarrow> clocks \<Rightarrow> uuid \<Rightarrow> QueryFilter \<Rightarrow> sys \<Rightarrow> (err + audit_row list \<times> nat) \<times> sys" where
  "audit_Query pg clk orgID f =
     (let limit = page_limit (qf_Limit f); offset = (if qf_Offset f < 0 then 0 else qf_Offset f);
          until = (case qf_To f of None \<Rightarrow> go_now clk | Some t \<Rightarrow> t);
          fr = (case qf_From f of None \<Rightarrow> until - 30 * 24 * hour | Some t \<Rightarrow> t)
      in andThen (query (\<lambda>d. Inr (length (filter (audit_matches pg orgID fr until f) (audit_logs d))))) (\<lambda>n.
         query (\<lambda>d. Inr (take (nat limit) (drop (nat offset)
           (rev (sort_key au_TS (sort_key au_ID (filter (audit_matches pg orgID fr until f) (audit_logs d)))))), n))))"

section \<open>Verifying\<close>

text \<open>\<open>audit_verify_chain()\<close>: the ids of the rows whose link or hash is wrong.\<close>

fun verify_from :: "postgres \<Rightarrow> string option \<Rightarrow> audit_row list \<Rightarrow> nat list" where
  "verify_from pg prev [] = []"
| "verify_from pg prev (r # rs) =
     (if au_PrevHash r \<noteq> prev \<or> au_RowHash r \<noteq> audit_row_hash pg prev r (au_TS r) then [au_ID r] else []) @
     verify_from pg (Some (au_RowHash r)) rs"

definition VerifyChain :: "postgres \<Rightarrow> sys \<Rightarrow> (err + nat list) \<times> sys" where
  "VerifyChain pg = query (\<lambda>d. Inr (verify_from pg None (sort_key au_ID (audit_logs d))))"

section \<open>Search patterns\<close>

declare like.simps [simp del]

lemma like_escaped: "like (escape_char c @ p) s \<longleftrightarrow> (\<exists>s'. s = c # s' \<and> like p s')"
  by (cases s) (auto simp: escape_char_def like.simps)

lemma like_escapeLike: "like (escapeLike q @ p) s \<longleftrightarrow> has_prefix q s \<and> like p (drop (length q) s)"
proof (induction q arbitrary: s)
  case (Cons c q)
  have "like (escapeLike (c # q) @ p) s \<longleftrightarrow> like (escape_char c @ escapeLike q @ p) s" by (simp add: escapeLike_def)
  also have "\<dots> \<longleftrightarrow> (\<exists>s'. s = c # s' \<and> has_prefix q s' \<and> like p (drop (length q) s'))" by (simp add: like_escaped Cons)
  also have "\<dots> \<longleftrightarrow> has_prefix (c # q) s \<and> like p (drop (length (c # q)) s)" by (cases s) (auto simp: has_prefix_def)
  finally show ?case .
qed (simp add: escapeLike_def has_prefix_def)

lemma like_any [simp]: "like ''%'' s"
  by (induction s) (simp_all add: like.simps)

lemma like_prefix: "like (likePrefix q) s \<longleftrightarrow> has_prefix q s"
  by (simp add: likePrefix_def like_escapeLike)

lemma like_infix: "like (''%'' @ escapeLike q @ ''%'') s \<longleftrightarrow> contains q s"
proof (induction s)
  case Nil
  then show ?case using like_escapeLike [of q "''%''" "[]"] by (auto simp: has_prefix_def like.simps(1) like.simps(2) [of _ _ "[]"])
next
  case (Cons c s)
  then show ?case using like_escapeLike [of q "''%''" "c # s"] by (simp add: like.simps(2) [of _ _ "c # s"])
qed

lemma lower_escape: "lower (escapeLike q) = escapeLike (lower q)"
proof (induction q)
  case (Cons c q)
  have "lower_char c = CHR 0x5C \<longleftrightarrow> c = CHR 0x5C" "lower_char c = CHR ''%'' \<longleftrightarrow> c = CHR ''%''" "lower_char c = CHR ''_'' \<longleftrightarrow> c = CHR ''_''"
    by (auto simp: lower_char_def dest!: arg_cong [where f = "of_char :: char \<Rightarrow> nat"])
  then show ?case using Cons by (auto simp: escapeLike_def lower_def escape_char_def lower_char_def)
qed (simp add: escapeLike_def lower_def)

lemma ilike_infix: "ilike x (''%'' @ escapeLike q @ ''%'') \<longleftrightarrow> contains (lower q) (lower x)"
proof -
  have "lower (''%'' @ escapeLike q @ ''%'') = ''%'' @ escapeLike (lower q) @ ''%''"
    using lower_escape [of q] by (simp add: lower_def lower_char_def)
  then show ?thesis unfolding ilike_def by (simp only: like_infix)
qed


section \<open>The chain\<close>

definition chain_ok :: "postgres \<Rightarrow> db \<Rightarrow> bool" where
  "chain_ok pg d \<longleftrightarrow> sorted (map au_ID (audit_logs d)) \<and> verify_from pg None (audit_logs d) = []"

lemma verify_append:
  "verify_from pg prev (rs @ [r]) = verify_from pg prev rs @
     verify_from pg (if rs = [] then prev else last_hash rs) [r]"
  by (induction rs arbitrary: prev) (auto simp: last_hash_def)

lemma audit_row_hash_more: "audit_row_hash pg prev (linked_row pg clk e rs) ts = audit_row_hash pg prev e ts"
  by (simp add: audit_row_hash_def row_text_def linked_row_def)

lemma verify_linked: "verify_from pg None rs = [] \<Longrightarrow> verify_from pg None (rs @ [linked_row pg clk e rs]) = []"
  by (simp add: verify_append audit_row_hash_more) (simp add: linked_row_def last_hash_def)

lemma sorted_last: "sorted (map f rs) \<Longrightarrow> r \<in> set rs \<Longrightarrow> f r \<le> f (last rs)"
  by (induction rs rule: rev_induct) (auto simp: sorted_append)

lemma linked_sorted: "sorted (map au_ID rs) \<Longrightarrow> sorted (map au_ID (rs @ [linked_row pg clk e rs]))"
  using sorted_last [of au_ID rs] by (force simp: sorted_append linked_row_def next_audit_id_def)

lemma record_tx_Inr:
  "record_tx pg clk e d = Inr (x, d') \<Longrightarrow> \<exists>ip. d' = d\<lparr>audit_logs := audit_logs d @ [linked_row pg clk (e\<lparr>al_IP := ip\<rparr>) (audit_logs d)]\<rparr>"
  by (auto simp: record_tx_def split: if_splits option.splits)

lemma record_chain: "record_tx pg clk e d = Inr (x, d') \<Longrightarrow> chain_ok pg d \<Longrightarrow> chain_ok pg d'"
  by (auto simp: chain_ok_def simp del: map_append intro!: verify_linked linked_sorted dest!: record_tx_Inr)

lemma sort_key_sorted: "sorted (map f xs) \<Longrightarrow> sort_key f xs = xs"
  by (induction xs) (auto simp: insort_is_Cons)

lemma verify_chain_ok:
  assumes "chain_ok pg (s_db s)" and "s_faults s = []"
  shows "fst (VerifyChain pg s) = Inr []"
  using assms by (simp add: VerifyChain_def query_no_fault chain_ok_def sort_key_sorted)

text \<open>A chain that verifies is determined by its last hash, if hashes and their texts do not collide.\<close>

definition row_texts :: "postgres \<Rightarrow> audit_row list \<Rightarrow> string list" where
  "row_texts pg rs = map (\<lambda>r. row_text pg (au_PrevHash r) r (au_TS r)) rs"

lemma verify_snoc:
  assumes "verify_from pg None (rs @ [r]) = []"
  shows "au_PrevHash r = last_hash rs" "au_RowHash r = pg_sha256 pg (row_text pg (last_hash rs) r (au_TS r))" "verify_from pg None rs = []"
  using assms by (auto simp: verify_append audit_row_hash_def last_hash_def split: if_splits)

lemma row_text_prev:
  assumes "row_text pg (Some h) r ts = row_text pg (Some h') r' ts'" and "length h = length h'"
  shows "h = h'"
  using assms by (simp add: row_text_def)

lemma chain_determined:
  assumes "length rs = length rs'" and "verify_from pg None rs = []" and "verify_from pg None rs' = []"
    and "last_hash rs = last_hash rs'" and len: "\<And>x. length (pg_sha256 pg x) = 64"
    and "inj_on (pg_sha256 pg) (set (row_texts pg rs) \<union> set (row_texts pg rs'))"
  shows "row_texts pg rs = row_texts pg rs'"
  using assms(1-4,6)
proof (induction rs arbitrary: rs' rule: rev_induct)
  case (snoc r rs)
  obtain r' qs where rs': "rs' = qs @ [r']" using snoc.prems(1) by (cases rs' rule: rev_cases) auto
  note a = verify_snoc [OF snoc.prems(2)] and b = verify_snoc [OF snoc.prems(3) [unfolded rs']]
  have "pg_sha256 pg (row_text pg (last_hash rs) r (au_TS r)) = pg_sha256 pg (row_text pg (last_hash qs) r' (au_TS r'))"
    using snoc.prems(4) a(2) b(2) by (simp add: rs' last_hash_def)
  then have eq: "row_text pg (last_hash rs) r (au_TS r) = row_text pg (last_hash qs) r' (au_TS r')"
    by (rule inj_onD [OF snoc.prems(5)]) (simp_all add: row_texts_def rs' flip: a(1) b(1))
  have l: "length rs = length qs" using snoc.prems(1) by (simp add: rs')
  have hash: "length h = 64" if "verify_from pg None xs = []" "last_hash xs = Some h" for xs h
    using that verify_snoc(2) [of pg "butlast xs" "last xs"] len
      [of "row_text pg (last_hash (butlast xs)) (last xs) (au_TS (last xs))"]
    by (auto simp: last_hash_def [of xs] split: if_splits)
  have "last_hash rs = last_hash qs"
  proof (cases "rs = []")
    case False
    then have "qs \<noteq> []" using l by auto
    with False obtain h h' where h: "last_hash rs = Some h" "last_hash qs = Some h'" by (simp add: last_hash_def)
    have "h = h'" using row_text_prev [OF eq [unfolded h]] hash [OF a(3) h(1)] hash [OF b(3) h(2)] by simp
    then show ?thesis using h by simp
  qed (use l in simp)
  then have "row_texts pg rs = row_texts pg qs"
    using snoc.prems(5) by (intro snoc.IH l a(3) b(3)) (auto simp: rs' row_texts_def elim: inj_on_subset)
  then show ?case using eq a(1) b(1) by (simp add: rs' row_texts_def)
qed simp

text \<open>Recording touches no table of the invariants.\<close>

lemma keeps_audit_Record [grow_calls]: "keeps grow_tx\<^sup>*\<^sup>* (audit_Record pg clk e)"
  unfolding audit_Record_def by (rule keeps_grow_side) (auto simp: side_def dest!: record_tx_Inr)

lemma audit_Query_Inr:
  assumes "audit_Query pg clk orgID f s = (Inr (rs, n), t)"
  shows "set rs \<subseteq> {r \<in> set (audit_logs (s_db s)). al_OrgID r = orgID}" "int (length rs) \<le> 500" "length rs \<le> n"
    "s_db t = s_db s"
  using assms by (auto simp: audit_Query_def Let_def andThen_Inr_iff audit_matches_def page_limit_def
      dest!: query_Inr in_set_takeD in_set_dropD)

end
