(* ===== verification/Utilization.thy ===== *)
theory Utilization
  imports Telemetry
begin

text \<open>
  The utilisation series of \<open>telemetry.Utilization\<close>: raw samples inside the retention window and
  hourly rows before it, averaged per bucket of time.
\<close>

record UtilQuery =
  uq_Scope :: string
  uq_ID :: uuid
  uq_From :: time
  uq_To :: time
  uq_Interval :: duration

record Point =
  pt_TS :: time
  pt_UtilPct :: money
  pt_MemPct :: money

text \<open>A weighted sample: time, utilisation, memory in use, GPU, weight.\<close>

record weighted_sample =
  ws_TS :: time
  ws_Util :: "money option"
  ws_Mem :: "money option"
  ws_GPU :: uuid
  ws_Weight :: money

text \<open>
  The bucket of a time: \<open>date_trunc('minute', ts)\<close> plus \<open>(minute / n) * n\<close> minutes, \<open>n\<close>
  the minutes of the interval.
\<close>

definition interval_minutes :: "duration \<Rightarrow> int" where
  "interval_minutes iv = (if iv \<le> 0 then 5 else iv div minute)"

definition bucket :: "int \<Rightarrow> time \<Rightarrow> time" where
  "bucket n t = t div minute * minute + (t div minute mod 60 div n) * n * minute"

definition in_util_scope :: "UtilQuery \<Rightarrow> uuid \<Rightarrow> uuid \<Rightarrow> bool" where
  "in_util_scope q nodeID gpuID \<longleftrightarrow> (if uq_Scope q = ''node'' then nodeID = uq_ID q
     else if uq_Scope q = ''gpu'' then gpuID = uq_ID q else True)"


definition util_samples :: "duration \<Rightarrow> clocks \<Rightarrow> uuid \<Rightarrow> UtilQuery \<Rightarrow> db \<Rightarrow> weighted_sample list" where
  "util_samples rawRetention clk orgID q d =
     (let boundary = trunc_hour (go_now clk - rawRetention);
          hit = (\<lambda>t. uq_From q \<le> t \<and> t \<le> uq_To q)
      in map (\<lambda>m. \<lparr>ws_TS = gm_ts m, ws_Util = gm_util m, ws_Mem = map_option of_int (gm_mem m), ws_GPU = gm_gpu m, ws_Weight = 1\<rparr>)
           (filter (\<lambda>m. gm_org m = orgID \<and> hit (gm_ts m) \<and> boundary \<le> gm_ts m \<and> in_util_scope q (gm_node m) (gm_gpu m)) (gpu_metrics d)) @
         map (\<lambda>m. \<lparr>ws_TS = gh_hour m, ws_Util = gh_avg_util m, ws_Mem = gh_avg_mem m, ws_GPU = gh_gpu m, ws_Weight = of_int (gh_samples m)\<rparr>)
           (filter (\<lambda>m. gh_org m = orgID \<and> hit (gh_hour m) \<and> gh_hour m < boundary \<and> in_util_scope q (gh_node m) (gh_gpu m))
             (gpu_metrics_hourly d)))"

text \<open>The memory in use as a percentage of the memory of the GPU, where that is known and not zero.\<close>

definition mem_pct :: "db \<Rightarrow> weighted_sample \<Rightarrow> money option" where
  "mem_pct d w = (case gpu_by_id (ws_GPU w) d of
       None \<Rightarrow> None
     | Some g \<Rightarrow> if g_MemoryMB g = 0 then None else map_option (\<lambda>m. m / of_int (g_MemoryMB g) * 100) (ws_Mem w))"

text \<open>\<open>sum(x*w)/NULLIF(sum(w),0)\<close>, read as \<open>0\<close> where it is null.\<close>

definition weighted_mean :: "(weighted_sample \<Rightarrow> money option) \<Rightarrow> weighted_sample list \<Rightarrow> money" where
  "weighted_mean f ws =
     (let xs = List.map_filter (\<lambda>w. map_option (\<lambda>x. x * ws_Weight w) (f w)) ws; total_weight = sum_list (map ws_Weight ws)
      in if xs = [] \<or> total_weight = 0 then 0 else sum_list xs / total_weight)"

definition util_point :: "int \<Rightarrow> db \<Rightarrow> weighted_sample list \<Rightarrow> time \<Rightarrow> Point" where
  "util_point n d ws b =
     (let here = filter (\<lambda>w. bucket n (ws_TS w) = b) ws
      in \<lparr>pt_TS = b, pt_UtilPct = weighted_mean ws_Util here, pt_MemPct = weighted_mean (mem_pct d) here\<rparr>)"

text \<open>An interval below a minute divides by zero as soon as there is a sample.\<close>

definition Utilization_of :: "duration \<Rightarrow> clocks \<Rightarrow> uuid \<Rightarrow> UtilQuery \<Rightarrow> db \<Rightarrow> err + Point list" where
  "Utilization_of rawRetention clk orgID q d =
     (let n = interval_minutes (uq_Interval q); ws = util_samples rawRetention clk orgID q d
      in if n = 0 \<and> ws \<noteq> [] then Inl ErrDB
         else Inr (map (util_point n d ws) (sort (remdups (map (bucket n \<circ> ws_TS) ws)))))"

text \<open>
  The buckets are not the five-minute intervals they are meant to be: samples a minute apart never
  share one unless the hour turns between them, and samples half an hour apart can.
\<close>

lemma bucket_splits_interval:
  assumes "0 < n" and "t div minute mod 60 \<noteq> 59"
  shows "bucket n t < bucket n (t + minute)"
proof -
  let ?m = "t div minute"
  have "(t + minute) div minute = ?m + 1" by simp
  moreover have "(?m + 1) mod 60 = ?m mod 60 + 1"
    using assms(2) pos_mod_bound [of 60 ?m] pos_mod_sign [of 60 ?m]
    by (subst mod_add_left_eq [symmetric]) (rule mod_pos_pos_trivial, linarith+)
  moreover have "?m mod 60 div n \<le> (?m mod 60 + 1) div n" using assms(1) by (intro zdiv_mono1) simp_all
  then have "(?m mod 60 div n) * n * minute \<le> ((?m mod 60 + 1) div n) * n * minute" using assms(1) by simp
  ultimately show ?thesis by (simp add: bucket_def)
qed

lemma bucket_mixes: "bucket 5 (59 * minute) = bucket 5 (89 * minute)"
  by (simp add: bucket_def)

text \<open>A series has one point per bucket, in order of time.\<close>

lemma Utilization_sorted:
  "Utilization_of rr clk orgID q d = Inr ps \<Longrightarrow> sorted (map pt_TS ps) \<and> distinct (map pt_TS ps)"
  by (auto simp: Utilization_of_def Let_def util_point_def comp_def split: if_splits)

end
