(* ===== verification/Timestamps.thy ===== *)
theory Timestamps
  imports Json
begin

text \<open>
  The text of times: \<open>time.Parse(time.RFC3339, s)\<close> and \<open>t.UTC().Format(time.RFC3339)\<close> of
  the Go standard library, on the proleptic Gregorian calendar. The process runs in UTC and a time
  is a number of microseconds, so digits below a microsecond are dropped.
\<close>

section \<open>The calendar\<close>

definition days_of_civil :: "int \<Rightarrow> int \<Rightarrow> int \<Rightarrow> int" where
  "days_of_civil y m d =
     (let y' = (if m \<le> 2 then y - 1 else y); era = y' div 400; yoe = y' mod 400;
          doy = (153 * (if m > 2 then m - 3 else m + 9) + 2) div 5 + d - 1
      in era * 146097 + (yoe * 365 + yoe div 4 - yoe div 100 + doy) - 719468)"

definition civil_of_days :: "int \<Rightarrow> int \<times> int \<times> int" where
  "civil_of_days days =
     (let era = (days + 719468) div 146097; doe = (days + 719468) mod 146097;
          yoe = (doe - doe div 1460 + doe div 36524 - doe div 146096) div 365;
          doy = doe - (365 * yoe + yoe div 4 - yoe div 100);
          mp = (5 * doy + 2) div 153; m = (if mp < 10 then mp + 3 else mp - 9);
          y = yoe + era * 400 + (if m \<le> 2 then 1 else 0)
      in (y, m, doy - (153 * mp + 2) div 5 + 1))"

definition leap :: "int \<Rightarrow> bool" where
  "leap y \<longleftrightarrow> y mod 4 = 0 \<and> (y mod 100 \<noteq> 0 \<or> y mod 400 = 0)"

definition daysIn :: "int \<Rightarrow> int \<Rightarrow> int" where
  "daysIn m y = (if m = 2 then (if leap y then 29 else 28) else if m = 4 \<or> m = 6 \<or> m = 9 \<or> m = 11 then 30 else 31)"

section \<open>Printing\<close>

definition pad :: "nat \<Rightarrow> int \<Rightarrow> string" where
  "pad n v = (let s = dec_str v in replicate (n - length s) (CHR ''0'') @ s)"

definition day_us :: int where "day_us = 86400000000"

definition date_text :: "time \<Rightarrow> string" where
  "date_text t = (case civil_of_days (t div day_us) of (y, m, d) \<Rightarrow> pad 4 y @ ''-'' @ pad 2 m @ ''-'' @ pad 2 d)"

definition clock_text :: "time \<Rightarrow> string" where
  "clock_text t = (let s = (t mod day_us) div second
     in pad 2 (s div 3600) @ '':'' @ pad 2 (s div 60 mod 60) @ '':'' @ pad 2 (s mod 60))"

text \<open>\<open>Format(time.RFC3339)\<close>, and the encoding of a \<open>time.Time\<close>, which keeps the fraction.\<close>

definition rfc3339 :: "time \<Rightarrow> string" where
  "rfc3339 t = date_text t @ ''T'' @ clock_text t @ ''Z''"

definition rfc3339nano :: "time \<Rightarrow> string" where
  "rfc3339nano t = date_text t @ ''T'' @ clock_text t @
     (if t mod second = 0 then '''' else ''.'' @ rev (dropWhile (\<lambda>c. c = CHR ''0'') (rev (pad 6 (t mod second))))) @ ''Z''"

text \<open>\<open>Format("20060102")\<close>.\<close>

definition date_digits :: "time \<Rightarrow> string" where
  "date_digits t = (case civil_of_days (t div day_us) of (y, m, d) \<Rightarrow> pad 4 y @ pad 2 m @ pad 2 d)"

section \<open>Parsing\<close>

definition lit :: "char \<Rightarrow> string \<Rightarrow> string option" where
  "lit c s = (case s of [] \<Rightarrow> None | x # r \<Rightarrow> if x = c then Some r else None)"

text \<open>Exactly \<open>n\<close> digits.\<close>

definition num_fixed :: "nat \<Rightarrow> string \<Rightarrow> (int \<times> string) option" where
  "num_fixed n s = (if length s < n then None else map_option (\<lambda>v. (v, drop n s)) (digits_val 0 (take n s)))"

text \<open>The hour may have one digit: \<open>getnum\<close> with \<open>fixed\<close> false.\<close>

definition num_loose :: "string \<Rightarrow> (int \<times> string) option" where
  "num_loose s = (case num_fixed 2 s of Some r \<Rightarrow> Some r | None \<Rightarrow> num_fixed 1 s)"

definition is_digit :: "char \<Rightarrow> bool" where
  "is_digit c \<longleftrightarrow> digit_val c \<noteq> None"

text \<open>A fraction of a second after a point or a comma, of any length, truncated.\<close>

definition fraction :: "string \<Rightarrow> int \<times> string" where
  "fraction s = (case s of
       p # c # r \<Rightarrow> if (p = CHR ''.'' \<or> p = CHR '','') \<and> is_digit c
           then (let ds = takeWhile is_digit (c # r)
                 in (case digits_val 0 (take 6 (ds @ replicate 6 (CHR ''0''))) of None \<Rightarrow> 0 | Some v \<Rightarrow> v, dropWhile is_digit (c # r)))
           else (0, s)
     | _ \<Rightarrow> (0, s))"

text \<open>\<open>Z\<close> or a numeric offset, in minutes; nothing may follow.\<close>

definition zone :: "string \<Rightarrow> int option" where
  "zone s = (if s = ''Z'' then Some 0
     else case s of [] \<Rightarrow> None
     | g # r \<Rightarrow> if g \<noteq> CHR ''+'' \<and> g \<noteq> CHR ''-'' then None
         else Option.bind (num_fixed 2 r) (\<lambda>(h, r1). Option.bind (lit (CHR '':'') r1) (\<lambda>r2. Option.bind (num_fixed 2 r2) (\<lambda>(m, r3).
           if r3 \<noteq> [] \<or> h > 24 \<or> m > 60 then None else Some (if g = CHR ''-'' then - (h * 60 + m) else h * 60 + m)))))"

definition parse_rfc3339 :: "string \<Rightarrow> time option" where
  "parse_rfc3339 s =
     Option.bind (num_fixed 4 s) (\<lambda>(y, s). Option.bind (lit (CHR ''-'') s) (\<lambda>s.
     Option.bind (num_fixed 2 s) (\<lambda>(m, s). Option.bind (lit (CHR ''-'') s) (\<lambda>s.
     Option.bind (num_fixed 2 s) (\<lambda>(d, s). Option.bind (lit (CHR ''T'') s) (\<lambda>s.
     Option.bind (num_loose s) (\<lambda>(hh, s). Option.bind (lit (CHR '':'') s) (\<lambda>s.
     Option.bind (num_fixed 2 s) (\<lambda>(mi, s). Option.bind (lit (CHR '':'') s) (\<lambda>s.
     Option.bind (num_fixed 2 s) (\<lambda>(sec, s).
     (let (us, s) = fraction s
      in Option.bind (zone s) (\<lambda>off.
         if m < 1 \<or> m > 12 \<or> d < 1 \<or> d > daysIn m y \<or> hh > 23 \<or> mi > 59 \<or> sec > 59 then None
         else Some (days_of_civil y m d * day_us + ((hh * 60 + mi - off) * 60 + sec) * second + us))))))))))))))"

end
