(* ===== verification/Views.thy ===== *)
theory Views
  imports Audit_Log Utilization Timestamps
begin

text \<open>
  The JSON documents of the API: the response helpers of \<open>internal/httpapi\<close> and the encoding of
  the structs the handlers write as they are, member by member from their tags. Surrogate ids that
  the tables of the model leave out are left out here too. A nil slice is encoded as \<open>null\<close>.
\<close>

section \<open>Text of numbers\<close>

text \<open>\<open>%.nf\<close>: rounding to nearest, ties to even.\<close>

definition round_even :: "rat \<Rightarrow> int" where
  "round_even r = (let f = \<lfloor>r\<rfloor>; x = r - of_int f in if x < 1/2 then f else if x > 1/2 then f + 1 else if even f then f else f + 1)"

definition fixed :: "nat \<Rightarrow> rat \<Rightarrow> string" where
  "fixed n r =
     (let k = round_even (\<bar>r\<bar> * 10 ^ n); p = 10 ^ n
      in (if r < 0 then ''-'' else '''') @ dec_str (k div p) @ (if n = 0 then '''' else ''.'' @ pad n (k mod p)))"

text \<open>\<open>%q\<close> of a printable string.\<close>

definition quoted :: "string \<Rightarrow> string" where
  "quoted s = [CHR 0x22] @ concat (map (\<lambda>c. if c = CHR 0x22 \<or> c = CHR 0x5C then [CHR 0x5C, c]
     else if c = CHR 0x0A then [CHR 0x5C, CHR ''n''] else if c = CHR 0x09 then [CHR 0x5C, CHR ''t'']
     else if c = CHR 0x0D then [CHR 0x5C, CHR ''r''] else [c]) s) @ [CHR 0x22]"

definition rupees :: "money \<Rightarrow> string" where
  "rupees m = [CHR 0xE2, CHR 0x82, CHR 0xB9] @ fixed 0 m"

section \<open>Enumerations\<close>

definition role_name :: "Role \<Rightarrow> string" where
  "role_name r = (case r of RoleOwner \<Rightarrow> ''owner'' | RoleAdmin \<Rightarrow> ''admin'' | RoleMember \<Rightarrow> ''member'' | RoleUser \<Rightarrow> ''user'' | RoleOther s \<Rightarrow> s)"

definition parse_role :: "string \<Rightarrow> Role" where
  "parse_role s = (if s = ''owner'' then RoleOwner else if s = ''admin'' then RoleAdmin else if s = ''member'' then RoleMember
     else if s = ''user'' then RoleUser else RoleOther s)"

definition state_name :: "WorkloadState \<Rightarrow> string" where
  "state_name s = (case s of WorkloadQueued \<Rightarrow> ''queued'' | WorkloadPending \<Rightarrow> ''pending'' | WorkloadRunning \<Rightarrow> ''running''
     | WorkloadStopping \<Rightarrow> ''stopping'' | WorkloadStopped \<Rightarrow> ''stopped'' | WorkloadFailed \<Rightarrow> ''failed'')"

definition parse_state :: "string \<Rightarrow> WorkloadState option" where
  "parse_state s = find (\<lambda>x. state_name x = s)
     [WorkloadQueued, WorkloadPending, WorkloadRunning, WorkloadStopping, WorkloadStopped, WorkloadFailed]"

definition node_status_name :: "NodeStatus \<Rightarrow> string" where
  "node_status_name s = (case s of NodeOnline \<Rightarrow> ''online'' | NodeOffline \<Rightarrow> ''offline'' | NodeDegraded \<Rightarrow> ''degraded'')"

definition gpu_status_name :: "GPUStatus \<Rightarrow> string" where
  "gpu_status_name s = (case s of GPUHealthy \<Rightarrow> ''healthy'' | GPUUnhealthy \<Rightarrow> ''unhealthy'' | GPUInUse \<Rightarrow> ''in_use'' | GPUIdle \<Rightarrow> ''idle'')"

definition parse_gpu_status :: "string \<Rightarrow> GPUStatus option" where
  "parse_gpu_status s = find (\<lambda>x. gpu_status_name x = s) [GPUHealthy, GPUUnhealthy, GPUInUse, GPUIdle]"

lemma parse_role_name: "\<forall>s. r \<noteq> RoleOther s \<Longrightarrow> parse_role (role_name r) = r"
  by (cases r) (simp_all add: parse_role_def role_name_def)

lemma parse_state_name: "parse_state (state_name s) = Some s"
  by (cases s) (simp_all add: parse_state_def state_name_def)

section \<open>Response helpers\<close>

definition JID :: "uuid \<Rightarrow> json" where "JID i = JStr (uuid_str i)"
definition JTime :: "time \<Rightarrow> json" where "JTime t = JStr (rfc3339nano t)"
definition JSec :: "time \<Rightarrow> json" where "JSec t = JStr (rfc3339 t)"
definition JNat :: "nat \<Rightarrow> json" where "JNat n = JInt (int n)"

definition jlist :: "('a \<Rightarrow> json) \<Rightarrow> 'a list \<Rightarrow> json" where
  "jlist f xs = JArr (map f xs)"

definition jslice :: "('a \<Rightarrow> json) \<Rightarrow> 'a list \<Rightarrow> json" where
  "jslice f xs = (if xs = [] then JNull else JArr (map f xs))"

definition userResponse :: "User \<Rightarrow> json" where
  "userResponse u = JObj ([(''id'', JID (u_ID u)), (''org_id'', jopt JID (u_OrgID u)), (''email'', JStr (u_Email u)),
     (''name'', JStr (u_Name u)), (''role'', JStr (role_name (u_Role u))), (''avatar_url'', JStr (u_AvatarURL u)),
     (''auth_provider'', JStr (u_AuthProvider u)), (''email_verified'', JBool (u_EmailVerified u)),
     (''onboarded'', JBool (Onboarded u))] @ jsome ''department_id'' JID (u_DepartmentID u))"

definition synthetic_gpu :: "GPU \<Rightarrow> bool" where
  "synthetic_gpu g \<longleftrightarrow> contains ''synthetic'' (lower (g_Model g)) \<or> has_prefix ''GPU-DEV'' (g_UUID g)"

definition gpuResponse :: "GPU \<Rightarrow> json" where
  "gpuResponse g = JObj [(''id'', JID (g_ID g)), (''node_id'', JID (g_NodeID g)), (''index'', JInt (g_Index g)),
     (''uuid'', JStr (g_UUID g)), (''model'', JStr (g_Model g)), (''memory_mb'', JInt (g_MemoryMB g)),
     (''mig_enabled'', JBool (g_MIGEnabled g)), (''status'', JStr (gpu_status_name (g_Status g))),
     (''synthetic'', JBool (synthetic_gpu g)), (''updated_at'', JSec (g_UpdatedAt g))]"

definition canViewWorkloadSecrets :: "User \<Rightarrow> Workload \<Rightarrow> bool" where
  "canViewWorkloadSecrets u w \<longleftrightarrow> w_UserID w = u_ID u \<or> AtLeast (u_Role u) RoleAdmin"

definition workload_members :: "Workload \<Rightarrow> bool \<Rightarrow> (string \<times> json) list" where
  "workload_members w includeSecrets =
     [(''id'', JID (w_ID w)), (''name'', JStr (w_Name w)), (''image'', JStr (w_Image w)), (''status'', JStr (state_name (w_Status w))),
      (''stage'', JStr (w_Stage w)), (''requested_gpu_count'', JInt (w_RequestedGPUCount w)), (''expose_ssh'', JBool (w_ExposeSSH w)),
      (''expose_jupyter'', JBool (w_ExposeJupyter w)), (''ssh_endpoint'', JStr (w_SSHEndpoint w)),
      (''jupyter_endpoint'', JStr (w_JupyterEndpoint w)), (''container_id'', JStr (w_ContainerID w)), (''created_at'', JSec (w_CreatedAt w))] @
     jwhen includeSecrets ''ssh_password'' (JStr (w_SSHPassword w)) @ jwhen includeSecrets ''logs'' (JStr (w_Logs w)) @
     jsome ''node_id'' JID (w_NodeID w) @ jsome ''project_id'' JID (w_ProjectID w) @ jsome ''department_id'' JID (w_DepartmentID w) @
     jsome ''template_id'' JID (w_TemplateID w) @ jsome ''started_at'' JSec (w_StartedAt w) @ jsome ''stopped_at'' JSec (w_StoppedAt w)"

definition workloadResponse :: "Workload \<Rightarrow> bool \<Rightarrow> json" where
  "workloadResponse w includeSecrets = JObj (workload_members w includeSecrets)"

definition rateCardResponse :: "RateCard \<Rightarrow> json" where
  "rateCardResponse rc = JObj ([(''id'', JID (rc_ID rc)), (''gpu_model'', JStr (rc_GPUModel rc)),
     (''rate_per_gpu_hour'', JNum (rc_RatePerGPUHour rc)), (''currency'', JStr (rc_Currency rc)),
     (''effective_from'', JSec (rc_EffectiveFrom rc))] @ jsome ''effective_to'' JSec (rc_EffectiveTo rc))"

text \<open>\<open>NodeResponse\<close>: \<open>cpu_cores\<close> and \<open>ram_mb\<close> are never set, and are written as \<open>0\<close>.\<close>

definition toNodeResponse :: "NodeView \<Rightarrow> json" where
  "toNodeResponse v = JObj ([(''id'', JID (nv_ID v)), (''hostname'', JStr (nv_Hostname v)),
     (''status'', JStr (node_status_name (nv_Status v)))] @
     jwhen (nv_OS v \<noteq> '''') ''os'' (JStr (nv_OS v)) @ jwhen (nv_NvidiaDriver v \<noteq> '''') ''nvidia_driver'' (JStr (nv_NvidiaDriver v)) @
     jwhen (nv_CUDAVersion v \<noteq> '''') ''cuda_version'' (JStr (nv_CUDAVersion v)) @
     jwhen (nv_AgentVersion v \<noteq> '''') ''agent_version'' (JStr (nv_AgentVersion v)) @
     [(''cpu_cores'', JInt 0), (''ram_mb'', JInt 0), (''gpu_count'', JNat (nv_GPUCount v)), (''enrolled_at'', JSec (nv_EnrolledAt v)),
      (''last_seen_at'', jopt JSec (nv_LastSeenAt v))])"

definition nodeLastSeen :: "time option \<Rightarrow> json" where
  "nodeLastSeen t = jopt JSec t"

definition node_ref_json :: "NodeWorkloadRef \<Rightarrow> json" where
  "node_ref_json r = JObj [(''id'', JID (nw_ID r)), (''name'', JStr (nw_Name r)), (''status'', JStr (state_name (nw_Status r))),
     (''user_email'', JStr (nw_UserEmail r)), (''gpu_count'', JInt (nw_GPUCount r))]"

text \<open>The document of \<open>getNode\<close>.\<close>

definition node_detail_json :: "NodeDetail \<Rightarrow> json" where
  "node_detail_json d = (let n = nd_Node d; i = n_Info n in JObj
     [(''id'', JID (n_ID n)), (''hostname'', JStr (ni_Hostname i)), (''status'', JStr (node_status_name (n_Status n))),
      (''health'', JStr (nd_Health d)), (''os'', JStr (ni_OS i)), (''kernel'', JStr (ni_Kernel i)), (''cpu_model'', JStr (ni_CPUModel i)),
      (''cpu_cores'', JInt (ni_CPUCores i)), (''ram_mb'', JInt (ni_RAMMB i)), (''nvidia_driver'', JStr (ni_NvidiaDriver i)),
      (''cuda_version'', JStr (ni_CUDAVersion i)), (''agent_version'', JStr (ni_AgentVersion i)), (''enrolled_at'', JSec (n_EnrolledAt n)),
      (''last_seen_at'', nodeLastSeen (n_LastSeenAt n)), (''synthetic'', JBool (nd_Synthetic d)), (''gpu_count'', JNat (length (nd_GPUs d))),
      (''gpus'', jlist gpuResponse (nd_GPUs d)), (''running_workloads'', jlist node_ref_json (nd_RunningWorkloads d))])"

definition software_json :: "string \<times> string \<Rightarrow> json" where
  "software_json s = JObj [(''name'', JStr (fst s)), (''version'', JStr (snd s))]"

text \<open>A template is built in when it belongs to no organisation.\<close>

definition templateResponse :: "Template \<Rightarrow> json" where
  "templateResponse t = JObj ([(''id'', JID (tp_ID t)), (''name'', JStr (tp_Name t)), (''description'', JStr (tp_Description t)),
     (''base_image'', JStr (tp_BaseImage t)), (''software'', jlist software_json (tp_Software t)), (''version'', JStr (tp_Version t)),
     (''tags'', jlist JStr (tp_Tags t)), (''default_expose_ssh'', JBool (tp_DefaultExposeSSH t)),
     (''default_expose_jupyter'', JBool (tp_DefaultExposeJupyter t)), (''built_in'', JBool (tp_OrgID t = None)),
     (''created_at'', JSec (tp_CreatedAt t))] @ jsome ''org_id'' JID (tp_OrgID t))"


section \<open>Structs written as they are\<close>

definition member_json :: "Member \<times> string \<times> string \<times> string \<times> time option \<Rightarrow> json" where
  "member_json x = (case x of (m, email, name, avatar, login) \<Rightarrow> JObj ([(''id'', JID (m_ID m)), (''org_id'', JID (m_OrgID m)),
     (''user_id'', JID (m_UserID m)), (''email'', JStr email), (''name'', JStr name), (''role'', JStr (role_name (m_Role m)))] @
     jwhen (avatar \<noteq> '''') ''avatar_url'' (JStr avatar) @ jsome ''invited_by'' JID (m_InvitedBy m) @
     [(''created_at'', JTime (m_CreatedAt m))] @ jsome ''last_login_at'' JTime login))"

definition invitation_json :: "Invitation \<times> string \<Rightarrow> json" where
  "invitation_json x = (case x of (v, status) \<Rightarrow> JObj ([(''id'', JID (iv_ID v)), (''org_id'', JID (iv_OrgID v)), (''email'', JStr (iv_Email v)),
     (''role'', JStr (role_name (iv_Role v)))] @ jsome ''invited_by'' JID (iv_InvitedBy v) @
     [(''created_at'', JTime (iv_CreatedAt v)), (''expires_at'', JTime (iv_ExpiresAt v))] @ jsome ''accepted_at'' JTime (iv_AcceptedAt v) @
     jsome ''revoked_at'' JTime (iv_RevokedAt v) @ [(''status'', JStr status), (''delivery_status'', JStr (iv_DeliveryStatus v))] @
     jwhen (iv_DeliveryError v \<noteq> '''') ''delivery_error'' (JStr (iv_DeliveryError v)) @ jsome ''delivered_at'' JTime (iv_DeliveredAt v)))"

definition join_code_json :: "JoinCode \<times> string \<Rightarrow> json" where
  "join_code_json x = (case x of (c, status) \<Rightarrow> JObj ([(''id'', JID (jc_ID c)), (''org_id'', JID (jc_OrgID c)),
     (''description'', JStr (jc_Description c))] @ jsome ''created_by'' JID (jc_CreatedBy c) @
     [(''max_uses'', JInt (jc_MaxUses c)), (''uses'', JInt (jc_Uses c)), (''expires_at'', JTime (jc_ExpiresAt c))] @
     jsome ''revoked_at'' JTime (jc_RevokedAt c) @ [(''created_at'', JTime (jc_CreatedAt c)), (''status'', JStr status)]))"

definition enrollment_token_json :: "EnrollmentToken \<times> string \<Rightarrow> json" where
  "enrollment_token_json x = (case x of (t, status) \<Rightarrow> JObj ([(''id'', JID (et_ID t)), (''org_id'', JID (et_OrgID t)),
     (''description'', JStr (et_Description t))] @ jsome ''created_by'' JID (et_CreatedBy t) @
     [(''max_uses'', JInt (et_MaxUses t)), (''uses'', JInt (et_Uses t)), (''expires_at'', JTime (et_ExpiresAt t))] @
     jsome ''last_used_at'' JTime (et_LastUsedAt t) @ jsome ''revoked_at'' JTime (et_RevokedAt t) @
     [(''created_at'', JTime (et_CreatedAt t)), (''status'', JStr status)]))"

definition session_json :: "uuid option \<Rightarrow> Session \<Rightarrow> json" where
  "session_json current s = JObj ([(''id'', JID (ss_ID s)), (''user_id'', JID (ss_UserID s)), (''device_name'', JStr (ss_DeviceName s)),
     (''browser'', JStr (ss_Browser s)), (''os'', JStr (ss_OS s)), (''ip_address'', JStr (ss_IPAddress s)),
     (''user_agent'', JStr (ss_UserAgent s)), (''created_at'', JTime (ss_CreatedAt s)), (''last_active_at'', JTime (ss_LastActiveAt s)),
     (''expires_at'', JTime (ss_ExpiresAt s))] @ jsome ''revoked_at'' JTime (ss_RevokedAt s) @
     [(''current'', JBool (current = Some (ss_ID s)))])"

definition service_account_json :: "ServiceAccount \<Rightarrow> json" where
  "service_account_json a = JObj ([(''id'', JID (sac_ID a)), (''org_id'', JID (sac_OrgID a)), (''name'', JStr (sac_Name a)),
     (''description'', JStr (sac_Description a)), (''role'', JStr (role_name (sac_Role a)))] @ jsome ''created_by'' JID (sac_CreatedBy a) @
     [(''created_at'', JTime (sac_CreatedAt a))] @ jsome ''disabled_at'' JTime (sac_DisabledAt a))"

definition api_key_json :: "APIKey \<times> string \<Rightarrow> json" where
  "api_key_json x = (case x of (k, status) \<Rightarrow> JObj ([(''id'', JID (ak_ID k)), (''org_id'', JID (ak_OrgID k)), (''name'', JStr (ak_Name k)),
     (''prefix'', JStr (ak_Prefix k))] @ jsome ''user_id'' JID (ak_UserID k) @ jsome ''service_account_id'' JID (ak_ServiceAccountID k) @
     jsome ''created_by'' JID (ak_CreatedBy k) @ [(''created_at'', JTime (ak_CreatedAt k))] @ jsome ''expires_at'' JTime (ak_ExpiresAt k) @
     jsome ''last_used_at'' JTime (ak_LastUsedAt k) @ jsome ''revoked_at'' JTime (ak_RevokedAt k) @ [(''status'', JStr status)]))"

definition project_json :: "Project \<Rightarrow> json" where
  "project_json p = JObj ([(''id'', JID (pj_ID p)), (''org_id'', JID (pj_OrgID p)), (''name'', JStr (pj_Name p)),
     (''description'', JStr (pj_Description p)), (''visibility'', JStr (pj_Visibility p))] @ jsome ''created_by'' JID (pj_CreatedBy p) @
     jsome ''archived_at'' JTime (pj_ArchivedAt p) @ [(''created_at'', JTime (pj_CreatedAt p))])"

definition project_row_json :: "ProjectRow \<Rightarrow> json" where
  "project_row_json p = JObj ([(''id'', JID (pr_ID p)), (''name'', JStr (pr_Name p)), (''description'', JStr (pr_Description p)),
     (''visibility'', JStr (pr_Visibility p))] @ jsome ''archived_at'' JTime (pr_ArchivedAt p) @
     [(''created_at'', JTime (pr_CreatedAt p)), (''member_count'', JNat (pr_MemberCount p)), (''member'', JBool (pr_Member p))])"

definition project_member_json :: "ProjectMember \<times> string \<times> string \<Rightarrow> json" where
  "project_member_json x = (case x of (m, email, name) \<Rightarrow> JObj ([(''project_id'', JID (pm_ProjectID m)), (''user_id'', JID (pm_UserID m)),
     (''email'', JStr email), (''name'', JStr name)] @ jsome ''added_by'' JID (pm_AddedBy m) @ [(''created_at'', JTime (pm_CreatedAt m))]))"

definition department_members :: "Department \<Rightarrow> (string \<times> json) list" where
  "department_members d = [(''id'', JID (dp_ID d)), (''org_id'', JID (dp_OrgID d)), (''name'', JStr (dp_Name d)),
     (''description'', JStr (dp_Description d)), (''created_at'', JTime (dp_CreatedAt d))]"

definition department_view_json :: "Department \<times> nat \<times> nat \<Rightarrow> json" where
  "department_view_json x = (case x of (d, us, ws) \<Rightarrow> JObj (department_members d @ [(''user_count'', JNat us), (''workload_count'', JNat ws)]))"

definition event_json :: "workload_event \<Rightarrow> json" where
  "event_json e = JObj [(''stage'', JStr (we_stage e)), (''message'', JStr (we_message e)), (''ts'', JTime (we_ts e))]"

definition queue_entry_json :: "QueueEntry \<Rightarrow> json" where
  "queue_entry_json q = JObj ([(''id'', JID (qe_ID q)), (''name'', JStr (qe_Name q)), (''position'', JNat (qe_Position q)),
     (''gpu_type'', JStr (qe_GPUType q)), (''gpu_count'', JInt (qe_GPUCount q)), (''queued_at'', JTime (qe_QueuedAt q)),
     (''est_wait_min'', JInt (qe_EstWaitMin q)), (''est_start'', JTime (qe_EstStart q))] @
     jwhen (qe_OwnerEmail q \<noteq> '''') ''owner_email'' (JStr (qe_OwnerEmail q)) @
     jwhen (qe_ProjectName q \<noteq> '''') ''project_name'' (JStr (qe_ProjectName q)))"

definition queue_json :: "QueueStats \<Rightarrow> json" where
  "queue_json q = JObj ([(''waiting'', JNat (qs_Waiting q)), (''avg_wait_min'', JInt (qs_AvgWaitMin q))] @
     jsome ''next_free_at'' JTime (qs_NextFreeAt q) @ [(''entries'', jlist queue_entry_json (qs_Entries q))])"

definition chargeback_row_json :: "ChargebackRow \<Rightarrow> json" where
  "chargeback_row_json r = JObj [(''group_key'', JStr (cb_GroupKey r)), (''gpu_hours'', JNum (cb_GPUHours r)), (''amount'', JNum (cb_Amount r)),
     (''currency'', JStr (cb_Currency r)), (''util_pct'', JNum (cb_UtilPct r))]"

definition chargeback_json :: "ChargebackReport \<Rightarrow> json" where
  "chargeback_json r = JObj [(''from'', JTime (rp_From r)), (''to'', JTime (rp_To r)), (''group_by'', JStr (rp_GroupBy r)),
     (''rows'', jslice chargeback_row_json (rp_Rows r)), (''total'', JNum (rp_Total r)), (''currency'', JStr (rp_Currency r)),
     (''coverage_pct'', JNum (rp_CoveragePct r))]"

definition ledger_json :: "ledger_entry \<Rightarrow> json" where
  "ledger_json e = JObj ([(''delta'', JNum (le_delta e)), (''balance'', JNum (le_balance e)), (''kind'', JStr (le_kind e)),
     (''description'', JStr (le_description e))] @ jsome ''workload_id'' JID (le_workload e) @ [(''created_at'', JTime (le_created_at e))])"

definition credit_summary_json :: "CreditSummaryView \<Rightarrow> json" where
  "credit_summary_json c = JObj [(''balance'', JNum (cs_Balance c)), (''total_granted'', JNum (cs_TotalGranted c)),
     (''total_spent'', JNum (cs_TotalSpent c)), (''month_spent'', JNum (cs_MonthSpent c)), (''recent_entries'', jlist ledger_json (cs_RecentEntries c))]"

definition reservation_json :: "reservation \<Rightarrow> string \<Rightarrow> string \<Rightarrow> string \<Rightarrow> json" where
  "reservation_json r status project owner_email = JObj ([(''id'', JID (rv_ID r)), (''gpu_model'', JStr (rv_gpu_model r)),
     (''gpu_count'', JInt (rv_gpu_count r)), (''start_at'', JTime (rv_start_at r)), (''end_at'', JTime (rv_end_at r)), (''status'', JStr status)] @
     jwhen (project \<noteq> '''') ''project_name'' (JStr project) @ jwhen (owner_email \<noteq> '''') ''owner_email'' (JStr owner_email) @
     [(''created_at'', JTime (rv_created_at r))])"

definition budget_json :: "BudgetView \<Rightarrow> json" where
  "budget_json b = JObj ([(''id'', JID (bv_ID b)), (''scope_type'', JStr (scope_name (bv_ScopeType b)))] @ jsome ''scope_id'' JID (bv_ScopeID b) @
     [(''scope_name'', JStr (bv_ScopeName b)), (''amount'', JNum (bv_Amount b)), (''spend'', JNum (bv_Spend b)), (''forecast'', JNum (bv_Forecast b)),
      (''remaining'', JNum (bv_Remaining b)), (''burn_per_day'', JNum (bv_BurnPerDay b)), (''used_pct'', JNum (bv_UsedPct b)), (''status'', JStr (bv_Status b))])"

definition rule_json :: "alert_rule \<times> string \<Rightarrow> json" where
  "rule_json x = (case x of (r, name) \<Rightarrow> JObj ([(''id'', JID (arl_ID r)), (''type'', JStr (arl_Type r)), (''threshold'', JNum (arl_Threshold r))] @
     jsome ''scope_id'' JID (arl_ScopeID r) @ jwhen (name \<noteq> '''') ''scope_name'' (JStr name) @
     [(''severity'', JStr (arl_Severity r)), (''enabled'', JBool (arl_Enabled r)), (''created_at'', JTime (arl_CreatedAt r))]))"

text \<open>The title and message of an alert, printed by \<open>EvaluateAll\<close> when it is raised.\<close>

definition pctLabel :: "money \<Rightarrow> string" where
  "pctLabel p = (if 0 < p \<and> p < 1 then fixed 1 p else fixed 0 p) @ ''%''"

fun alert_title :: "alert_text \<Rightarrow> string" where
  "alert_title (SpendOver sc name spend limit) = (if sc = ScopeProject then ''Project '' else ''Department '') @ quoted name @ '' over spend threshold''"
| "alert_title (BudgetUsed name pct spend amount forecast) = name @ '' budget '' @ pctLabel pct @ '' used''"
| "alert_title (RunningLong name hours limit) = ''Workload '' @ quoted name @ '' running '' @ fixed 1 hours @ ''h''"
| "alert_title (IdleLong name hours util) = ''Workload '' @ quoted name @ '' idle '' @ fixed 1 hours @ ''h''"

fun alert_message :: "alert_text \<Rightarrow> string" where
  "alert_message (SpendOver sc name spend limit) =
     ''Month-to-date spend '' @ rupees spend @ '' exceeds the '' @ rupees limit @ '' threshold.''"
| "alert_message (BudgetUsed name pct spend amount forecast) =
     ''Spend '' @ rupees spend @ '' of '' @ rupees amount @ '' budget (forecast '' @ rupees forecast @ '').''"
| "alert_message (RunningLong name hours limit) =
     ''Has been running '' @ fixed 1 hours @ '' hours, over the '' @ fixed 0 limit @ ''h threshold. Check it is still needed.''"
| "alert_message (IdleLong name hours util) =
     ''Average GPU utilization '' @ fixed 1 util @ ''% over the last hour while running '' @ fixed 1 hours @ ''h '' @
     [CHR 0xE2, CHR 0x80, CHR 0x94] @ '' likely idle, consider stopping.''"

definition alert_json :: "alert \<Rightarrow> json" where
  "alert_json a = JObj ([(''id'', JID (alt_ID a))] @ jsome ''rule_id'' JID (alt_RuleID a) @
     [(''severity'', JStr (alt_Severity a)), (''title'', JStr (alert_title (alt_Text a))), (''message'', JStr (alert_message (alt_Text a))),
      (''status'', JStr (if alt_Acked a then ''acknowledged'' else ''active'')), (''created_at'', JTime (alt_CreatedAt a))])"

definition audit_json :: "audit_row \<Rightarrow> json" where
  "audit_json a = JObj [(''id'', JNat (au_ID a)), (''org_id'', JID (al_OrgID a)), (''actor_type'', JStr (al_ActorType a)),
     (''actor_id'', JStr (al_ActorID a)), (''action'', JStr (al_Action a)), (''target_type'', JStr (al_TargetType a)),
     (''target_id'', JStr (al_TargetID a)), (''metadata'', JObj (al_Metadata a)), (''ip'', JStr (al_IP a)), (''ts'', JTime (au_TS a))]"

end
