(* ===== verification/Health.thy ===== *)
theory Health
  imports Views
begin

text \<open>
  \<open>internal/obs/jobs.go\<close> and \<open>internal/obs/health.go\<close>: the outcome of each background job, and the
  diagnostics document. The statistics of the connection pool, the latency of the ping and the
  version of the runtime are parameters.
\<close>

section \<open>Background jobs\<close>

record jobState =
  js_interval :: duration
  js_lastRun :: "time option"
  js_lastSuccess :: "time option"
  js_lastError :: string
  js_runs :: nat
  js_failures :: nat

record JobStatus =
  jb_Name :: string
  jb_Healthy :: bool
  jb_LastRun :: "time option"
  jb_LastSuccess :: "time option"
  jb_LastError :: string
  jb_Runs :: nat
  jb_Failures :: nat

text \<open>The map of the tracker, as an association list with one entry per name.\<close>

type_synonym JobTracker = "(string \<times> jobState) list"

definition NewJobTracker :: JobTracker where
  "NewJobTracker = []"

definition put_job :: "string \<Rightarrow> jobState \<Rightarrow> JobTracker \<Rightarrow> JobTracker" where
  "put_job name j t = (name, j) # filter (\<lambda>e. fst e \<noteq> name) t"

definition job_every :: "duration \<Rightarrow> jobState" where
  "job_every d = \<lparr>js_interval = d, js_lastRun = None, js_lastSuccess = None, js_lastError = '''', js_runs = 0, js_failures = 0\<rparr>"

definition RegisterJob :: "string \<Rightarrow> duration \<Rightarrow> JobTracker \<Rightarrow> JobTracker" where
  "RegisterJob name interval t = put_job name (job_every interval) t"

definition job_outcome :: "time \<Rightarrow> string option \<Rightarrow> jobState \<Rightarrow> jobState" where
  "job_outcome now e j0 = (let j = j0\<lparr>js_lastRun := Some now, js_runs := Suc (js_runs j0)\<rparr> in case e of
       Some msg \<Rightarrow> j\<lparr>js_failures := Suc (js_failures j), js_lastError := msg\<rparr>
     | None \<Rightarrow> j\<lparr>js_lastSuccess := Some now, js_lastError := ''''\<rparr>)"

definition RecordJob :: "time \<Rightarrow> string \<Rightarrow> string option \<Rightarrow> JobTracker \<Rightarrow> JobTracker" where
  "RecordJob now name e t =
     put_job name (job_outcome now e (case map_of t name of None \<Rightarrow> job_every hour | Some j \<Rightarrow> j)) t"

definition job_status :: "time \<Rightarrow> time \<Rightarrow> string \<times> jobState \<Rightarrow> JobStatus" where
  "job_status started now x = (case x of (name, j) \<Rightarrow>
     let anchor = (case js_lastSuccess j of None \<Rightarrow> started | Some t \<Rightarrow> t)
     in \<lparr>jb_Name = name, jb_Healthy = (now - anchor < 3 * js_interval j), jb_LastRun = js_lastRun j,
         jb_LastSuccess = js_lastSuccess j, jb_LastError = js_lastError j, jb_Runs = js_runs j, jb_Failures = js_failures j\<rparr>)"

text \<open>\<open>trackerStarted\<close> is the time the process started.\<close>

definition JobsStatus :: "time \<Rightarrow> time \<Rightarrow> JobTracker \<Rightarrow> JobStatus list" where
  "JobsStatus started now t = sort_key jb_Name (map (job_status started now) t)"

definition tracker_ok :: "JobTracker \<Rightarrow> bool" where
  "tracker_ok t \<longleftrightarrow> distinct (map fst t) \<and> list_all (\<lambda>(_, j). js_failures j \<le> js_runs j) t"

lemma map_fst_put: "map fst (filter (\<lambda>e. fst e \<noteq> name) t) = filter (\<lambda>n. n \<noteq> name) (map fst t)"
  by (simp add: filter_map comp_def)

lemma put_job_ok: "tracker_ok t \<Longrightarrow> js_failures j \<le> js_runs j \<Longrightarrow> tracker_ok (put_job name j t)"
  by (auto simp: tracker_ok_def put_job_def map_fst_put list_all_iff simp flip: map_fst_put
      intro: distinct_map_filter)

lemma RegisterJob_ok: "tracker_ok t \<Longrightarrow> tracker_ok (RegisterJob name d t)"
  by (simp add: RegisterJob_def put_job_ok job_every_def)

lemma RecordJob_ok:
  assumes "tracker_ok t"
  shows "tracker_ok (RecordJob now name e t)"
proof -
  have "js_failures j \<le> js_runs j" if "map_of t name = Some j" for j
    using assms map_of_SomeD [OF that] by (auto simp: tracker_ok_def list_all_iff)
  then show ?thesis
    using assms by (auto simp: RecordJob_def job_outcome_def job_every_def Let_def split: option.split intro!: put_job_ok)
qed

text \<open>
  A job is reported once, and a job whose runs all fail turns unhealthy three intervals after its
  last success, however often it runs.
\<close>

lemma failing_job_unhealthy:
  assumes "map_of t name = Some j"
  shows "jb_Healthy (job_status started now (name, the (map_of (RecordJob t' name (Some msg) t) name))) \<longleftrightarrow>
    now - (case js_lastSuccess j of None \<Rightarrow> started | Some s \<Rightarrow> s) < 3 * js_interval j"
  using assms by (simp add: RecordJob_def put_job_def job_outcome_def job_status_def Let_def)

section \<open>Diagnostics\<close>

record pool_stat =
  ps_PingMs :: int
  ps_TotalConns :: int
  ps_IdleConns :: int
  ps_MaxConns :: int
  ps_EmptyAcquireCount :: int

record Health =
  he_Version :: string
  he_Env :: string
  he_GRPCTLS :: bool
  he_Started :: time
  he_Stat :: pool_stat
  he_GoVersion :: string

record Component =
  cm_OK :: bool
  cm_Error :: string
  cm_Detail :: "(string \<times> json) list"

record Report =
  hp_Status :: string
  hp_Database :: Component
  hp_Queue :: Component
  hp_Agents :: Component
  hp_Jobs :: "JobStatus list"
  hp_Deployment :: "(string \<times> json) list"

definition Ready :: "sys \<Rightarrow> (err + unit) \<times> sys" where
  "Ready = query (\<lambda>d. Inr ())"

definition undelivered :: "command_row \<Rightarrow> bool" where
  "undelivered c \<longleftrightarrow> c_Status c = CmdPending \<or> c_Status c = CmdSent"

definition overdue_command :: "time \<Rightarrow> command_row \<Rightarrow> bool" where
  "overdue_command now c \<longleftrightarrow> undelivered c \<and> (case c_DeliverBy c of None \<Rightarrow> False | Some t \<Rightarrow> t < now)"

definition queue_component :: "time \<Rightarrow> db \<Rightarrow> Component" where
  "queue_component now d =
     (let cs = agent_commands d; overdue = affected (overdue_command now) cs; ages = map c_CreatedAt (filter undelivered cs)
      in \<lparr>cm_OK = (overdue = 0), cm_Error = (if overdue = 0 then '''' else ''commands past their delivery deadline''),
          cm_Detail = [(''pending'', JNat (affected (\<lambda>c. c_Status c = CmdPending) cs)),
            (''in_flight'', JNat (affected (\<lambda>c. c_Status c = CmdSent) cs)), (''overdue'', JNat overdue)] @
            (if ages = [] then [] else [(''oldest_undelivered_s'', JInt (seconds_of (now - Min (set ages))))])\<rparr>)"

definition failed_component :: "(err \<Rightarrow> string) \<Rightarrow> err \<Rightarrow> Component" where
  "failed_component msg e = \<lparr>cm_OK = False, cm_Error = msg e, cm_Detail = []\<rparr>"

definition queueHealth :: "(err \<Rightarrow> string) \<Rightarrow> clocks \<Rightarrow> sys \<Rightarrow> Component \<times> sys" where
  "queueHealth msg clk s = (case query (\<lambda>d. Inr (queue_component (db_now clk) d)) s of
       (Inl e, s1) \<Rightarrow> (failed_component msg e, s1) | (Inr c, s1) \<Rightarrow> (c, s1))"

definition agent_component :: "nat \<Rightarrow> db \<Rightarrow> Component" where
  "agent_component conns d = \<lparr>cm_OK = True, cm_Error = '''',
     cm_Detail = [(''nodes_online'', JNat (affected (\<lambda>n. n_Status n = NodeOnline) (gpu_nodes d))),
       (''nodes_total'', JNat (length (gpu_nodes d))), (''streams_connected'', JNat conns)]\<rparr>"

definition agentHealth :: "(err \<Rightarrow> string) \<Rightarrow> nat \<Rightarrow> sys \<Rightarrow> Component \<times> sys" where
  "agentHealth msg conns s = (case query (\<lambda>d. Inr (agent_component conns d)) s of
       (Inl e, s1) \<Rightarrow> (failed_component msg e, s1) | (Inr c, s1) \<Rightarrow> (c, s1))"

definition database_component :: "(err \<Rightarrow> string) \<Rightarrow> pool_stat \<Rightarrow> err + unit \<Rightarrow> Component" where
  "database_component msg st r = (case r of
       Inl e \<Rightarrow> failed_component msg e
     | Inr _ \<Rightarrow> \<lparr>cm_OK = True, cm_Error = '''', cm_Detail = [(''ping_ms'', JInt (ps_PingMs st)), (''conns_total'', JInt (ps_TotalConns st)),
         (''conns_idle'', JInt (ps_IdleConns st)), (''conns_max'', JInt (ps_MaxConns st)), (''acquire_wait_total'', JInt (ps_EmptyAcquireCount st))]\<rparr>)"

text \<open>\<open>conns\<close> is the number of agent streams, \<open>jobs\<close> the tracker.\<close>

definition Check :: "(err \<Rightarrow> string) \<Rightarrow> Health \<Rightarrow> clocks \<Rightarrow> nat \<Rightarrow> JobTracker \<Rightarrow> sys \<Rightarrow> Report \<times> sys" where
  "Check msg h clk conns jobs s =
     (let (r, s1) = Ready s; (q, s2) = queueHealth msg clk s1; (a, s3) = agentHealth msg conns s2;
          dbc = database_component msg (he_Stat h) r; js = JobsStatus (he_Started h) (go_now clk) jobs
      in (\<lparr>hp_Status = (if cm_OK dbc \<and> cm_OK q \<and> list_all jb_Healthy js then ''ok'' else ''degraded''),
           hp_Database = dbc, hp_Queue = q, hp_Agents = a, hp_Jobs = js,
           hp_Deployment = [(''version'', JStr (he_Version h)), (''env'', JStr (he_Env h)), (''grpc_tls'', JBool (he_GRPCTLS h)),
             (''go_version'', JStr (he_GoVersion h)), (''uptime_s'', JInt (seconds_of (go_now clk - he_Started h)))]\<rparr>, s3))"

definition component_json :: "Component \<Rightarrow> json" where
  "component_json c = JObj ([(''ok'', JBool (cm_OK c))] @ jwhen (cm_Error c \<noteq> '''') ''error'' (JStr (cm_Error c)) @
     jwhen (cm_Detail c \<noteq> []) ''detail'' (JObj (cm_Detail c)))"

definition job_json :: "JobStatus \<Rightarrow> json" where
  "job_json j = JObj ([(''name'', JStr (jb_Name j)), (''healthy'', JBool (jb_Healthy j))] @ jsome ''last_run'' JTime (jb_LastRun j) @
     jsome ''last_success'' JTime (jb_LastSuccess j) @ jwhen (jb_LastError j \<noteq> '''') ''last_error'' (JStr (jb_LastError j)) @
     [(''runs'', JNat (jb_Runs j)), (''failures'', JNat (jb_Failures j))])"

definition report_json :: "Report \<Rightarrow> json" where
  "report_json r = JObj [(''status'', JStr (hp_Status r)), (''database'', component_json (hp_Database r)), (''queue'', component_json (hp_Queue r)),
     (''agents'', component_json (hp_Agents r)), (''jobs'', jlist job_json (hp_Jobs r)), (''deployment'', JObj (hp_Deployment r))]"

text \<open>The checks read the tables and change none.\<close>

lemma Check_db: "s_db (snd (Check msg h clk conns jobs s)) = s_db s"
proof -
  have 1: "s_db (snd (Ready s)) = s_db s" for s by (simp add: Ready_def query_db)
  have 2: "s_db (snd (queueHealth msg clk s)) = s_db s" for s
    using query_db [of "\<lambda>d. Inr (queue_component (db_now clk) d)" s] by (auto simp: queueHealth_def split: prod.split sum.split)
  have 3: "s_db (snd (agentHealth msg conns s)) = s_db s" for s
    using query_db [of "\<lambda>d. Inr (agent_component conns d)" s] by (auto simp: agentHealth_def split: prod.split sum.split)
  show ?thesis by (simp add: Check_def 1 2 3 case_prod_beta Let_def)
qed

end
