(* ===== verification/Rate_Limit.thy ===== *)
theory Rate_Limit
  imports Prelude
begin

text \<open>
  The fixed-window rate limiter of \<open>internal/httpapi/ratelimit.go\<close>. A bucket per key counts the
  hits of its window; a hit after the window opens a new one. The comment of the source bounds what
  a caller gets across a window boundary by twice the limit, which is proved here.
\<close>

record rlBucket =
  rb_count :: int
  rb_resetAt :: time

record rateLimiter =
  rl_limit :: int
  rl_window :: duration
  rl_buckets :: "string \<Rightarrow> rlBucket option"
  rl_lastGC :: time

definition newRateLimiter :: "int \<Rightarrow> duration \<Rightarrow> time \<Rightarrow> rateLimiter" where
  "newRateLimiter limit window now = \<lparr>rl_limit = limit, rl_window = window, rl_buckets = (\<lambda>_. None), rl_lastGC = now\<rparr>"

text \<open>The amortised cleanup: once per window the expired buckets are dropped.\<close>

definition rl_gc :: "time \<Rightarrow> rateLimiter \<Rightarrow> rateLimiter" where
  "rl_gc now rl =
     (if now - rl_lastGC rl > rl_window rl
      then rl\<lparr>rl_buckets := (\<lambda>k. case rl_buckets rl k of None \<Rightarrow> None
             | Some b \<Rightarrow> if now > rb_resetAt b then None else Some b), rl_lastGC := now\<rparr>
      else rl)"

text \<open>\<open>allow\<close>: whether the hit is admitted, the seconds to wait, and the limiter after the hit.\<close>

definition allow :: "time \<Rightarrow> string \<Rightarrow> rateLimiter \<Rightarrow> (bool \<times> int) \<times> rateLimiter" where
  "allow now key rl0 =
     (let rl = rl_gc now rl0;
          open_window = ((True, 0), rl\<lparr>rl_buckets := (rl_buckets rl)(key := Some \<lparr>rb_count = 1, rb_resetAt = now + rl_window rl\<rparr>)\<rparr>)
      in case rl_buckets rl key of
           None \<Rightarrow> open_window
         | Some b \<Rightarrow>
             if now > rb_resetAt b then open_window
             else let n = rb_count b + 1; rl' = rl\<lparr>rl_buckets := (rl_buckets rl)(key := Some (b\<lparr>rb_count := n\<rparr>))\<rparr>
                  in if n > rl_limit rl then ((False, seconds_of (rb_resetAt b - now) + 1), rl') else ((True, 0), rl'))"

text \<open>A sequence of hits, and the times at which the hits of one key were admitted.\<close>

fun admitted :: "string \<Rightarrow> (time \<times> string) list \<Rightarrow> rateLimiter \<Rightarrow> time list" where
  "admitted key [] rl = []"
| "admitted key ((t, k) # hits) rl =
     (let ((ok, _), rl') = allow t k rl
      in if k = key \<and> ok then t # admitted key hits rl' else admitted key hits rl')"

section \<open>One key\<close>

text \<open>
  What the limiter knows of a key at an instant: its bucket while the window is open. A bucket that
  has expired, collected or not, is no bucket.
\<close>

definition open_bucket :: "time \<Rightarrow> string \<Rightarrow> rateLimiter \<Rightarrow> rlBucket option" where
  "open_bucket now key rl =
     (case rl_buckets rl key of None \<Rightarrow> None | Some b \<Rightarrow> if now > rb_resetAt b then None else Some b)"

lemma open_bucket_gc [simp]: "open_bucket now key (rl_gc now rl) = open_bucket now key rl"
  by (auto simp: open_bucket_def rl_gc_def split: option.splits)

lemma rl_gc_fields [simp]: "rl_limit (rl_gc now rl) = rl_limit rl" "rl_window (rl_gc now rl) = rl_window rl"
  by (simp_all add: rl_gc_def)

lemma allow_fields [simp]: "rl_limit (snd (allow now k rl)) = rl_limit rl" "rl_window (snd (allow now k rl)) = rl_window rl"
  by (simp_all add: allow_def Let_def split: option.split)

lemma open_bucket_later: "now \<le> t \<Longrightarrow> open_bucket t key rl = (case open_bucket now key rl of None \<Rightarrow> None
    | Some b \<Rightarrow> if t > rb_resetAt b then None else Some b)"
  by (auto simp: open_bucket_def split: option.splits)

lemma rl_gc_later: "now \<le> t \<Longrightarrow> open_bucket t key (rl_gc now rl) = open_bucket t key rl"
  using open_bucket_later [of now t key "rl_gc now rl"] open_bucket_later [of now t key rl] by simp

text \<open>A hit of another key leaves the bucket of this one as it is.\<close>

lemma allow_other:
  assumes "k \<noteq> key" and "now \<le> t"
  shows "open_bucket t key (snd (allow now k rl)) = open_bucket t key rl"
proof -
  have "rl_buckets (snd (allow now k rl)) key = rl_buckets (rl_gc now rl) key"
    using assms(1) by (simp add: allow_def Let_def split: option.split)
  then have "open_bucket t key (snd (allow now k rl)) = open_bucket t key (rl_gc now rl)" by (simp add: open_bucket_def)
  then show ?thesis using rl_gc_later [OF assms(2)] by simp
qed

lemma allow_same:
  shows "fst (fst (allow now key rl)) = (case open_bucket now key rl of None \<Rightarrow> True | Some b \<Rightarrow> rb_count b + 1 \<le> rl_limit rl)"
    and "rl_buckets (snd (allow now key rl)) key = Some (case open_bucket now key rl of
        None \<Rightarrow> \<lparr>rb_count = 1, rb_resetAt = now + rl_window rl\<rparr> | Some b \<Rightarrow> b\<lparr>rb_count := rb_count b + 1\<rparr>)"
proof -
  have o: "open_bucket now key rl = open_bucket now key (rl_gc now rl)" by simp
  show "fst (fst (allow now key rl)) = (case open_bucket now key rl of None \<Rightarrow> True | Some b \<Rightarrow> rb_count b + 1 \<le> rl_limit rl)"
    unfolding o by (auto simp: allow_def open_bucket_def Let_def split: option.split)
  show "rl_buckets (snd (allow now key rl)) key = Some (case open_bucket now key rl of
        None \<Rightarrow> \<lparr>rb_count = 1, rb_resetAt = now + rl_window rl\<rparr> | Some b \<Rightarrow> b\<lparr>rb_count := rb_count b + 1\<rparr>)"
    unfolding o by (auto simp: allow_def open_bucket_def Let_def split: option.split)
qed

section \<open>The bound\<close>

text \<open>
  What a key may still be admitted within the interval from \<open>a\<close> to \<open>a + window\<close>: a window that is
  open beyond the interval has its rest, one that ends within it is followed by one more.
\<close>

definition rest :: "int \<Rightarrow> rlBucket \<Rightarrow> int" where
  "rest limit b = max 0 (limit - rb_count b)"

definition allowance :: "int \<Rightarrow> duration \<Rightarrow> time \<Rightarrow> rlBucket option \<Rightarrow> int" where
  "allowance limit window a ob =
     (case ob of None \<Rightarrow> 2 * limit
      | Some b \<Rightarrow> if a + window < rb_resetAt b then rest limit b
                  else if a \<le> rb_resetAt b then rest limit b + limit else 2 * limit)"

abbreviation hits_within :: "time \<Rightarrow> duration \<Rightarrow> time list \<Rightarrow> int" where
  "hits_within a window ts \<equiv> int (length (filter (\<lambda>t. a \<le> t \<and> t \<le> a + window) ts))"

text \<open>The hits of one key against its bucket.\<close>

definition current :: "time \<Rightarrow> rlBucket option \<Rightarrow> rlBucket option" where
  "current t ob = (case ob of None \<Rightarrow> None | Some b \<Rightarrow> if t > rb_resetAt b then None else Some b)"

fun one_key :: "int \<Rightarrow> duration \<Rightarrow> rlBucket option \<Rightarrow> time list \<Rightarrow> time list" where
  "one_key limit window ob [] = []"
| "one_key limit window ob (t # ts) =
     (case current t ob of
        None \<Rightarrow> t # one_key limit window (Some \<lparr>rb_count = 1, rb_resetAt = t + window\<rparr>) ts
      | Some b \<Rightarrow> (if rb_count b + 1 \<le> limit then [t] else []) @ one_key limit window (Some (b\<lparr>rb_count := rb_count b + 1\<rparr>)) ts)"

lemma one_key_subset: "set (one_key limit window ob ts) \<subseteq> set ts"
  by (induction ts arbitrary: ob) (fastforce split: option.splits)+

lemma open_bucket_current: "now \<le> t \<Longrightarrow> open_bucket t key rl = current t (open_bucket now key rl)"
  using open_bucket_later [of now t key rl] by (simp add: current_def)

lemma one_key_current:
  assumes "sorted ts" and "\<forall>u \<in> set ts. t \<le> u"
  shows "one_key limit window (current t ob) ts = one_key limit window ob ts"
proof (cases ts)
  case (Cons u us)
  then have "current u (current t ob) = current u ob" using assms(2) by (auto simp: current_def split: option.split)
  then show ?thesis using Cons by simp
qed simp

lemma admitted_one_key:
  assumes "sorted (map fst hits)" and "\<forall>h \<in> set hits. now \<le> fst h" and "0 \<le> rl_window rl"
  shows "admitted key hits rl =
    one_key (rl_limit rl) (rl_window rl) (open_bucket now key rl) (map fst (filter (\<lambda>h. snd h = key) hits))"
  using assms
proof (induction hits arbitrary: now rl)
  case (Cons h hits)
  obtain t k where h: "h = (t, k)" by (cases h)
  let ?rl = "snd (allow t k rl)" and ?ts = "map fst (filter (\<lambda>h. snd h = key) hits)"
  have nt: "now \<le> t" and later: "\<forall>h \<in> set hits. t \<le> fst h" and srt: "sorted (map fst hits)" using Cons.prems h by auto
  have IH: "admitted key hits ?rl = one_key (rl_limit rl) (rl_window rl) (open_bucket t key ?rl) ?ts"
    using Cons.IH [OF srt later, of ?rl] Cons.prems(3) by simp
  have cur: "current t (open_bucket now key rl) = open_bucket t key rl" using open_bucket_current [OF nt] by simp
  show ?case
  proof (cases "k = key")
    case False
    have "open_bucket t key ?rl = current t (open_bucket now key rl)" using allow_other [OF False order_refl, of t rl] cur by simp
    moreover have "sorted ?ts" "\<forall>u \<in> set ?ts. t \<le> u" using srt later by (auto intro: sorted_filter)
    ultimately have "admitted key hits ?rl = one_key (rl_limit rl) (rl_window rl) (open_bucket now key rl) ?ts"
      using IH one_key_current by simp
    then show ?thesis using False h by (cases "allow t k rl") (auto simp: Let_def)
  next
    case True
    have "open_bucket t key ?rl = rl_buckets ?rl key"
      using Cons.prems(3) allow_same(2) [of t key rl] True by (auto simp: open_bucket_def split: option.splits if_splits)
    then show ?thesis using IH allow_same [of t key rl] cur True h
      by (cases "allow t k rl") (auto simp: Let_def split: option.split)
  qed
qed simp

text \<open>The bound for one key, by induction over its hits.\<close>

lemma one_key_bound:
  assumes "sorted ts" and "1 \<le> limit" and "0 \<le> window"
  shows "hits_within a window (one_key limit window ob ts) \<le> allowance limit window a ob"
  using assms(1)
proof (induction ts arbitrary: ob)
  case Nil
  then show ?case using assms(2) by (simp add: allowance_def rest_def split: option.split)
next
  case (Cons t ts)
  have late: "hits_within a window (one_key limit window ob' (t # ts)) = 0" if "a + window < t" for ob'
  proof -
    have "\<forall>u \<in> set (t # ts). a + window < u" using Cons.prems that by auto
    then have "\<forall>u \<in> set (one_key limit window ob' (t # ts)). \<not> u \<le> a + window" using one_key_subset by fastforce
    then have "filter (\<lambda>u. a \<le> u \<and> u \<le> a + window) (one_key limit window ob' (t # ts)) = []" by (auto simp: filter_empty_conv)
    then show ?thesis by (simp only: list.size of_nat_0)
  qed
  have IH: "hits_within a window (one_key limit window ob' ts) \<le> allowance limit window a ob'" for ob' using Cons by simp
  show ?case
  proof (cases "a + window < t")
    case True
    then show ?thesis using late assms(2) by (simp add: allowance_def rest_def split: option.split)
  next
    case False
    show ?thesis
    proof (cases "current t ob")
      case None
      then show ?thesis using IH [of "Some \<lparr>rb_count = 1, rb_resetAt = t + window\<rparr>"] False assms(2,3)
        by (auto simp: allowance_def rest_def current_def max_def split: option.splits if_splits)
    next
      case (Some b)
      then have "ob = Some b" by (auto simp: current_def split: option.splits if_splits)
      then show ?thesis using Some IH [of "Some (b\<lparr>rb_count := rb_count b + 1\<rparr>)"] False assms(2,3)
        by (auto simp: allowance_def rest_def current_def max_def split: option.splits if_splits)
    qed
  qed
qed

lemma admitted_bound:
  assumes "sorted (map fst hits)" and "1 \<le> limit" and "0 \<le> window"
  shows "hits_within a window (admitted key hits (newRateLimiter limit window t0)) \<le> 2 * limit"
proof (cases hits)
  case (Cons h hs)
  let ?rl = "newRateLimiter limit window t0"
  have "open_bucket now key ?rl = None" for now by (simp add: open_bucket_def newRateLimiter_def)
  then have a: "admitted key hits ?rl = one_key limit window None (map fst (filter (\<lambda>h. snd h = key) hits))"
    using admitted_one_key [of hits "fst h" ?rl key] assms Cons by (simp add: newRateLimiter_def)
  have "sorted (map fst (filter (\<lambda>h. snd h = key) hits))" using assms(1) by (rule sorted_filter)
  then show ?thesis using one_key_bound [OF _ assms(2,3), of _ a None] unfolding a by (simp add: allowance_def)
qed (use assms in simp)

text \<open>The first hits of a window are admitted: a caller below the limit is never refused.\<close>

lemma below_limit_admitted:
  assumes "int (length ts) \<le> limit" and "sorted ts" and "\<forall>t \<in> set ts. t0 \<le> t"
  shows "one_key limit window None ts = ts"
proof -
  have "one_key limit window ob us = us" if "case ob of None \<Rightarrow> int (length us) \<le> limit | Some b \<Rightarrow> rb_count b + int (length us) \<le> limit"
    "case ob of None \<Rightarrow> True | Some b \<Rightarrow> 0 \<le> rb_count b" for ob us
    using that
  proof (induction us arbitrary: ob)
    case (Cons t us)
    have "one_key limit window (Some \<lparr>rb_count = 1, rb_resetAt = t + window\<rparr>) us = us"
      using Cons by (auto split: option.splits)
    moreover have "one_key limit window (Some (b\<lparr>rb_count := rb_count b + 1\<rparr>)) us = us" if "ob = Some b" for b
      using Cons that by auto
    ultimately show ?case using Cons.prems by (auto simp: current_def split: option.split)
  qed simp
  then show ?thesis using assms(1) by simp
qed

end
