(* ===== verification/Hub.thy ===== *)
theory Hub
  imports Json "HOL-Library.Sublist"
begin

text \<open>
  The realtime hub of \<open>internal/events/hub.go\<close>: per organisation a set of subscribers, each a
  channel with room for 16 events; publishing never blocks and drops the event where a channel is
  full. Channels are named by numbers.
\<close>

record Event =
  ev_Topic :: string
  ev_Data :: "(string \<times> json) list"

record subscriber =
  sb_org :: uuid
  sb_ch :: nat
  sb_buffer :: "Event list"

type_synonym hub = "subscriber list"

definition hub_cap :: nat where
  "hub_cap = 16"

definition NewHub :: hub where
  "NewHub = []"

definition Subscribe :: "uuid \<Rightarrow> nat \<Rightarrow> hub \<Rightarrow> hub" where
  "Subscribe orgID ch h = h @ [\<lparr>sb_org = orgID, sb_ch = ch, sb_buffer = []\<rparr>]"

definition Cancel :: "uuid \<Rightarrow> nat \<Rightarrow> hub \<Rightarrow> hub" where
  "Cancel orgID ch h = filter (\<lambda>s. \<not> (sb_org s = orgID \<and> sb_ch s = ch)) h"

definition offer :: "Event \<Rightarrow> subscriber \<Rightarrow> subscriber" where
  "offer e s = (if length (sb_buffer s) < hub_cap then s\<lparr>sb_buffer := sb_buffer s @ [e]\<rparr> else s)"

definition Publish :: "uuid \<Rightarrow> Event \<Rightarrow> hub \<Rightarrow> hub" where
  "Publish orgID e h = upd (\<lambda>s. sb_org s = orgID) (offer e) h"

definition PublishTopics :: "uuid \<Rightarrow> string list \<Rightarrow> hub \<Rightarrow> hub" where
  "PublishTopics orgID topics h = fold (\<lambda>t. Publish orgID \<lparr>ev_Topic = t, ev_Data = []\<rparr>) topics h"

definition Subscribers :: "hub \<Rightarrow> nat" where
  "Subscribers h = length h"

text \<open>The receive of the SSE handler, \<open>ev := <-ch\<close>.\<close>

definition Receive :: "nat \<Rightarrow> hub \<Rightarrow> Event option \<times> hub" where
  "Receive ch h = (case find (\<lambda>s. sb_ch s = ch) h of
       None \<Rightarrow> (None, h)
     | Some s \<Rightarrow> (case sb_buffer s of
           [] \<Rightarrow> (None, h)
         | e # es \<Rightarrow> (Some e, upd (\<lambda>s. sb_ch s = ch) (\<lambda>s. s\<lparr>sb_buffer := es\<rparr>) h)))"

section \<open>Traces\<close>

datatype hub_op = OpSubscribe uuid nat | OpCancel uuid nat | OpPublish uuid Event | OpReceive nat

text \<open>The hub after an operation, with the events received so far (of all channels, in order).\<close>

fun hub_apply :: "hub_op \<Rightarrow> hub \<times> (nat \<times> Event) list \<Rightarrow> hub \<times> (nat \<times> Event) list" where
  "hub_apply (OpSubscribe k c) (h, got) = (Subscribe k c h, got)"
| "hub_apply (OpCancel k c) (h, got) = (Cancel k c h, got)"
| "hub_apply (OpPublish k e) (h, got) = (Publish k e h, got)"
| "hub_apply (OpReceive c) (h, got) = (case Receive c h of (None, h') \<Rightarrow> (h', got) | (Some e, h') \<Rightarrow> (h', got @ [(c, e)]))"

definition hub_run :: "hub_op list \<Rightarrow> hub \<times> (nat \<times> Event) list \<Rightarrow> hub \<times> (nat \<times> Event) list" where
  "hub_run ops x = fold hub_apply ops x"

definition received :: "nat \<Rightarrow> (nat \<times> Event) list \<Rightarrow> Event list" where
  "received c got = map snd (filter (\<lambda>p. fst p = c) got)"

definition published :: "uuid \<Rightarrow> hub_op list \<Rightarrow> Event list" where
  "published k ops = concat (map (\<lambda>x. case x of OpPublish j e \<Rightarrow> if j = k then [e] else [] | _ \<Rightarrow> []) ops)"

text \<open>Channels are made fresh: a trace subscribes a channel that no live subscriber has.\<close>

fun fresh_ops :: "hub_op list \<Rightarrow> hub \<times> (nat \<times> Event) list \<Rightarrow> bool" where
  "fresh_ops [] x \<longleftrightarrow> True"
| "fresh_ops (p # ps) x \<longleftrightarrow> (case p of OpSubscribe k c \<Rightarrow> c \<notin> sb_ch ` set (fst x) \<and> c \<notin> fst ` set (snd x) | _ \<Rightarrow> True) \<and> fresh_ops ps (hub_apply p x)"

text \<open>
  The invariant: channels are distinct, no buffer is over its room, and what a channel received and
  still holds is a subsequence of what was published to its organisation.
\<close>

definition hub_inv :: "(uuid \<Rightarrow> Event list) \<Rightarrow> hub \<times> (nat \<times> Event) list \<Rightarrow> bool" where
  "hub_inv pub x \<longleftrightarrow> distinct (map sb_ch (fst x)) \<and>
     (\<forall>s \<in> set (fst x). length (sb_buffer s) \<le> hub_cap \<and> subseq (received (sb_ch s) (snd x) @ sb_buffer s) (pub (sb_org s)))"

lemma hub_receive:
  assumes "hub_inv pub (h, got)" and "Receive c h = (r, h')"
  shows "hub_inv pub (h', case r of None \<Rightarrow> got | Some e \<Rightarrow> got @ [(c, e)])"
proof (cases r)
  case None
  then show ?thesis using assms by (auto simp: Receive_def split: option.splits list.splits)
next
  case (Some e)
  then obtain s es where s: "find (\<lambda>s. sb_ch s = c) h = Some s" "sb_buffer s = e # es"
    and h': "h' = upd (\<lambda>s. sb_ch s = c) (\<lambda>s. s\<lparr>sb_buffer := es\<rparr>) h"
    using assms(2) by (auto simp: Receive_def split: option.splits list.splits)
  have sin: "s \<in> set h" "sb_ch s = c" using find_SomeD [OF s(1)] by auto
  have d: "distinct (map sb_ch h)" using assms(1) by (simp add: hub_inv_def)
  have only: "t = s" if "t \<in> set h" "sb_ch t = c" for t using d that sin by (metis distinct_map inj_onD)
  have "\<forall>t \<in> set h'. length (sb_buffer t) \<le> hub_cap \<and> subseq (received (sb_ch t) (got @ [(c, e)]) @ sb_buffer t) (pub (sb_org t))"
  proof
    fix t assume "t \<in> set h'"
    then consider u where "u \<in> set h" "sb_ch u = c" "t = u\<lparr>sb_buffer := es\<rparr>" | "t \<in> set h" "sb_ch t \<noteq> c"
      by (auto simp: h' set_upd)
    then show "length (sb_buffer t) \<le> hub_cap \<and> subseq (received (sb_ch t) (got @ [(c, e)]) @ sb_buffer t) (pub (sb_org t))"
    proof cases
      case 1
      then show ?thesis using assms(1) only [OF 1(1,2)] s(2) by (auto simp: hub_inv_def received_def)
    qed (use assms(1) in \<open>auto simp: hub_inv_def received_def\<close>)
  qed
  then show ?thesis using d Some by (simp add: hub_inv_def h' map_upd_key)
qed


lemma hub_publish:
  assumes "hub_inv pub (h, got)"
  shows "hub_inv (pub(k := pub k @ [e])) (Publish k e h, got)"
proof -
  have d: "distinct (map sb_ch (Publish k e h))"
    using assms by (simp add: hub_inv_def Publish_def map_upd_key offer_def)
  have "length (sb_buffer t) \<le> hub_cap \<and> subseq (received (sb_ch t) got @ sb_buffer t) ((pub(k := pub k @ [e])) (sb_org t))"
    if "t \<in> set (Publish k e h)" for t
    using that
  proof (rule in_set_updE [of _ "\<lambda>s. sb_org s = k" "offer e" h, unfolded Publish_def [symmetric]])
    assume t: "t \<in> set h" "sb_org t \<noteq> k"
    then show ?thesis using assms by (auto simp: hub_inv_def)
  next
    fix u assume u: "u \<in> set h" "sb_org u = k" "t = offer e u"
    then have "length (sb_buffer u) \<le> hub_cap" and sub: "subseq (received (sb_ch u) got @ sb_buffer u) (pub k)"
      using assms by (auto simp: hub_inv_def)
    then show ?thesis
      using u list_emb_append_mono [OF sub, of "[e]" "[e]"] subseq_order.order_trans [OF sub, of "pub k @ [e]"]
      by (auto simp: offer_def)
  qed
  then show ?thesis using d by (simp add: hub_inv_def)
qed

lemma hub_step:
  assumes "hub_inv pub x" and "fresh_ops [p] x"
  shows "hub_inv (\<lambda>k. pub k @ published k [p]) (hub_apply p x)"
proof (cases p)
  case (OpSubscribe k c)
  have "received c (snd x) = []" using assms(2) OpSubscribe by (force simp: received_def filter_empty_conv)
  then show ?thesis using assms OpSubscribe
    by (cases x) (auto simp: hub_inv_def Subscribe_def published_def)
next
  case (OpCancel k c)
  then show ?thesis using assms(1) by (cases x) (auto simp: hub_inv_def Cancel_def published_def distinct_map_filter)
next
  case (OpPublish k e)
  have "(\<lambda>j. pub j @ published j [p]) = pub(k := pub k @ [e])" by (auto simp: published_def OpPublish)
  then show ?thesis using hub_publish [of pub "fst x" "snd x" k e] assms(1) OpPublish by (cases x) simp
next
  case (OpReceive c)
  then show ?thesis using assms(1) hub_receive [of pub "fst x" "snd x" c]
    by (cases x) (auto simp: published_def split: prod.split option.split)
qed

lemma hub_trace:
  "hub_inv pub x \<Longrightarrow> fresh_ops ops x \<Longrightarrow> hub_inv (\<lambda>k. pub k @ published k ops) (hub_run ops x)"
proof (induction ops arbitrary: pub x)
  case (Cons p ops)
  have "hub_inv (\<lambda>k. (pub k @ published k [p]) @ published k ops) (hub_run ops (hub_apply p x))"
    using Cons.prems by (intro Cons.IH hub_step) (auto split: hub_op.splits)
  then show ?case by (simp add: hub_run_def published_def)
qed (simp add: hub_run_def published_def)

lemma hub_inv_empty: "hub_inv (\<lambda>_. []) (NewHub, [])"
  by (simp add: hub_inv_def NewHub_def)

end
