(* ===== verification/Email.thy ===== *)
theory Email
  imports Domain
begin

text \<open>
  Transactional email of \<open>internal/email/email.go\<close>: the messages and the senders. The HTTP request
  to the provider is a parameter.
\<close>

record Message =
  em_To :: string
  em_Subject :: string
  em_HTML :: string
  em_Text :: string

text \<open>\<open>html.EscapeString\<close>.\<close>

definition html_char :: "char \<Rightarrow> string" where
  "html_char c = (if c = CHR ''&'' then ''&amp;'' else if c = CHR 0x27 then ''&#39;'' else if c = CHR ''<'' then ''&lt;''
     else if c = CHR ''>'' then ''&gt;'' else if c = CHR 0x22 then ''&#34;'' else [c])"

definition EscapeString :: "string \<Rightarrow> string" where
  "EscapeString s = concat (map html_char s)"

abbreviation (input) nl :: string where "nl \<equiv> [CHR 0x0A]"
abbreviation (input) apos :: string where "apos \<equiv> [CHR 0x27]"
abbreviation (input) dq :: string where "dq \<equiv> [CHR 0x22]"

definition html_open :: string where
  "html_open = ''<div style='' @ dq @ ''font-family:system-ui,-apple-system,Segoe UI,Roboto,sans-serif;max-width:480px;margin:0 auto;color:#1a1a1a'' @ dq @ ''>'' @ nl"

definition html_button :: "string \<Rightarrow> string \<Rightarrow> string" where
  "html_button href label = ''    <a href='' @ dq @ href @ dq @ '' style='' @ dq @
     ''background:#1a1a1a;color:#fff;padding:10px 18px;border-radius:6px;text-decoration:none;display:inline-block'' @ dq @ ''>'' @ label @ ''</a>'' @ nl"

definition html_link :: "string \<Rightarrow> string" where
  "html_link href = ''  <p style='' @ dq @ ''color:#666;font-size:13px'' @ dq @ ''>Or paste this link into your browser:<br><a href='' @ dq @
     href @ dq @ ''>'' @ href @ ''</a></p>'' @ nl"

definition html_heading :: "string \<Rightarrow> string" where
  "html_heading s = ''  <h2 style='' @ dq @ ''font-weight:600'' @ dq @ ''>'' @ s @ ''</h2>'' @ nl"

definition html_margin :: string where
  "html_margin = ''  <p style='' @ dq @ ''margin:24px 0'' @ dq @ ''>'' @ nl"

definition html_footer :: "string \<Rightarrow> string" where
  "html_footer s = ''  <p style='' @ dq @ ''color:#999;font-size:12px;margin-top:24px'' @ dq @ ''>'' @ s @ ''</p>'' @ nl @ ''</div>''"

definition BuildInviteEmail :: "string \<Rightarrow> string \<Rightarrow> string \<Rightarrow> string \<Rightarrow> Message" where
  "BuildInviteEmail rcpt orgName role acceptURL =
     (let safeOrg = EscapeString orgName; safeRole = EscapeString role; safeURL = EscapeString acceptURL
      in \<lparr>em_To = rcpt, em_Subject = ''You'' @ apos @ ''re invited to join '' @ orgName @ '' on NodeHive'',
          em_HTML = html_open @ html_heading (''Join '' @ safeOrg @ '' on NodeHive'') @
            ''  <p>You'' @ apos @ ''ve been invited to join <strong>'' @ safeOrg @ ''</strong> as <strong>'' @ safeRole @ ''</strong>.</p>'' @ nl @
            html_margin @ html_button safeURL ''Accept invitation'' @ ''  </p>'' @ nl @ html_link safeURL @
            html_footer (''If you weren'' @ apos @ ''t expecting this, you can safely ignore this email.''),
          em_Text = ''You'' @ apos @ ''ve been invited to join '' @ orgName @ '' on NodeHive as '' @ role @ ''.'' @ nl @ nl @
            ''Accept your invitation:'' @ nl @ acceptURL @ nl @ nl @
            ''If you weren'' @ apos @ ''t expecting this, you can ignore this email.''\<rparr>)"

definition buildLinkEmail :: "string \<Rightarrow> string \<Rightarrow> string \<Rightarrow> string \<Rightarrow> string \<Rightarrow> string \<Rightarrow> string \<Rightarrow> Message" where
  "buildLinkEmail rcpt subject heading body cta url footer =
     (let safeURL = EscapeString url
      in \<lparr>em_To = rcpt, em_Subject = subject,
          em_HTML = html_open @ html_heading (EscapeString heading) @ ''  <p>'' @ EscapeString body @ ''</p>'' @ nl @
            html_margin @ html_button safeURL (EscapeString cta) @ ''  </p>'' @ nl @ html_link safeURL @ html_footer (EscapeString footer),
          em_Text = body @ nl @ nl @ cta @ '':'' @ nl @ url @ nl @ nl @ footer\<rparr>)"

definition BuildVerifyEmail :: "string \<Rightarrow> string \<Rightarrow> Message" where
  "BuildVerifyEmail rcpt verifyURL = buildLinkEmail rcpt ''Verify your email address for NodeHive'' ''Verify your email''
     ''Confirm this email address to finish setting up your NodeHive account. The link expires in 24 hours.''
     ''Verify email'' verifyURL (''If you didn'' @ apos @ ''t create a NodeHive account, you can safely ignore this email.'')"

definition BuildPasswordResetEmail :: "string \<Rightarrow> string \<Rightarrow> Message" where
  "BuildPasswordResetEmail rcpt resetURL = buildLinkEmail rcpt ''Reset your NodeHive password'' ''Reset your password''
     ''We received a request to reset the password for this account. The link expires in 1 hour and can be used once.''
     ''Reset password'' resetURL
     (''If you didn'' @ apos @ ''t request a reset, you can ignore this email '' @ [CHR 0xE2, CHR 0x80, CHR 0x94] @ '' your password is unchanged.'')"

section \<open>Senders\<close>

text \<open>A request to another service, and its outcome: an error, or a status and a body.\<close>

record http_out =
  ho_Method :: string
  ho_URL :: string
  ho_Header :: "(string \<times> string) list"
  ho_Form :: string
  ho_Json :: "json option"

type_synonym http_client = "http_out \<Rightarrow> err + int \<times> string \<times> json option"

datatype Sender = ConsoleSender | ResendSender string string

definition NewSender :: "string \<Rightarrow> string \<Rightarrow> Sender" where
  "NewSender apiKey sender = (if apiKey \<noteq> '''' \<and> sender \<noteq> '''' then ResendSender apiKey sender else ConsoleSender)"

fun Enabled :: "Sender \<Rightarrow> bool" where
  "Enabled ConsoleSender = False"
| "Enabled (ResendSender _ _) = True"

text \<open>The text of an error of the client is a parameter, like the client.\<close>

fun email_Send :: "http_client \<Rightarrow> (err \<Rightarrow> string) \<Rightarrow> Sender \<Rightarrow> Message \<Rightarrow> err + unit" where
  "email_Send client text_of ConsoleSender m = Inr ()"
| "email_Send client text_of (ResendSender apiKey sender) m =
     (case client \<lparr>ho_Method = ''POST'', ho_URL = ''https://api.resend.com/emails'',
          ho_Header = [(''Authorization'', ''Bearer '' @ apiKey), (''Content-Type'', ''application/json'')], ho_Form = '''',
          ho_Json = Some (JObj [(''from'', JStr sender), (''to'', JArr [JStr (em_To m)]), (''subject'', JStr (em_Subject m)),
            (''html'', JStr (em_HTML m)), (''text'', JStr (em_Text m))])\<rparr> of
        Inl e \<Rightarrow> Inl (ErrText (''resend: '' @ text_of e))
      | Inr (status, body, _) \<Rightarrow>
          if status \<ge> 300 then Inl (ErrText (''resend: status '' @ Itoa status @ '': '' @ body)) else Inr ())"

text \<open>
  Markup in the name of an organisation, a role or a link does not reach the message: an escaped
  text has no character that opens a tag or ends an attribute.
\<close>

lemma EscapeString_safe: "c \<in> set (EscapeString s) \<Longrightarrow> c \<noteq> CHR ''<'' \<and> c \<noteq> CHR ''>'' \<and> c \<noteq> CHR 0x22 \<and> c \<noteq> CHR 0x27"
  by (auto simp: EscapeString_def html_char_def split: if_splits)

end
