(* ===== verification/OAuth.thy ===== *)
theory OAuth
  imports Email
begin

text \<open>
  Sign-in with Google, \<open>internal/identity/oauth.go\<close>: the consent URL and the exchange of an
  authorization code for a profile. Google is reached through a client that is a parameter.
\<close>

section \<open>Query strings\<close>

text \<open>\<open>url.QueryEscape\<close> and \<open>url.Values.Encode\<close>, whose keys are in alphabetical order.\<close>

definition unreserved :: "char \<Rightarrow> bool" where
  "unreserved c \<longleftrightarrow> (let n = (of_char c :: nat) in 48 \<le> n \<and> n \<le> 57 \<or> 65 \<le> n \<and> n \<le> 90 \<or> 97 \<le> n \<and> n \<le> 122) \<or>
     c = CHR ''-'' \<or> c = CHR ''_'' \<or> c = CHR ''.'' \<or> c = CHR ''~''"

definition upper_hex :: "nat \<Rightarrow> char" where
  "upper_hex n = ''0123456789ABCDEF'' ! (n mod 16)"

definition escape_query_char :: "char \<Rightarrow> string" where
  "escape_query_char c = (if unreserved c then [c] else if c = CHR 0x20 then ''+''
     else [CHR ''%'', upper_hex ((of_char c :: nat) div 16), upper_hex (of_char c)])"

definition QueryEscape :: "string \<Rightarrow> string" where
  "QueryEscape s = concat (map escape_query_char s)"

fun encode_values :: "(string \<times> string) list \<Rightarrow> string" where
  "encode_values [] = ''''"
| "encode_values [(k, v)] = QueryEscape k @ ''='' @ QueryEscape v"
| "encode_values ((k, v) # ps) = QueryEscape k @ ''='' @ QueryEscape v @ ''&'' @ encode_values ps"

text \<open>An escaped value cannot add a parameter or end the query.\<close>

lemma QueryEscape_safe: "c \<in> set (QueryEscape s) \<Longrightarrow> unreserved c \<or> c = CHR ''+'' \<or> c = CHR ''%''"
proof -
  have h: "unreserved (upper_hex n)" for n
  proof -
    have "n mod 16 < 16" by simp
    then have "upper_hex n \<in> set ''0123456789ABCDEF''" unfolding upper_hex_def by (intro nth_mem) simp
    then show ?thesis by (auto simp: unreserved_def)
  qed
  then show "c \<in> set (QueryEscape s) \<Longrightarrow> unreserved c \<or> c = CHR ''+'' \<or> c = CHR ''%''"
    by (auto simp: QueryEscape_def escape_query_char_def split: if_splits)
qed

section \<open>The flow\<close>

record GoogleProfile =
  gp_Sub :: string
  gp_Email :: string
  gp_EmailVerified :: bool
  gp_Name :: string
  gp_Picture :: string

record GoogleOAuth =
  go_ClientID :: string
  go_ClientSecret :: string
  go_RedirectURL :: string

definition NewGoogleOAuth :: "string \<Rightarrow> string \<Rightarrow> string \<Rightarrow> GoogleOAuth option" where
  "NewGoogleOAuth clientID clientSecret redirectURL =
     (if clientID = '''' \<or> clientSecret = '''' \<or> redirectURL = '''' then None
      else Some \<lparr>go_ClientID = clientID, go_ClientSecret = clientSecret, go_RedirectURL = redirectURL\<rparr>)"

definition AuthCodeURL :: "GoogleOAuth \<Rightarrow> string \<Rightarrow> string" where
  "AuthCodeURL g state = ''https://accounts.google.com/o/oauth2/v2/auth?'' @ encode_values
     [(''access_type'', ''online''), (''client_id'', go_ClientID g), (''prompt'', ''select_account''), (''redirect_uri'', go_RedirectURL g),
      (''response_type'', ''code''), (''scope'', ''openid email profile''), (''state'', state)]"

definition profile_of :: "json option \<Rightarrow> GoogleProfile" where
  "profile_of b = \<lparr>gp_Sub = str_field ''sub'' b, gp_Email = str_field ''email'' b, gp_EmailVerified = bool_field ''email_verified'' b,
     gp_Name = str_field ''name'' b, gp_Picture = str_field ''picture'' b\<rparr>"

definition realExchange :: "http_client \<Rightarrow> (err \<Rightarrow> string) \<Rightarrow> GoogleOAuth \<Rightarrow> string \<Rightarrow> err + GoogleProfile" where
  "realExchange client text_of g code =
     (case client \<lparr>ho_Method = ''POST'', ho_URL = ''https://oauth2.googleapis.com/token'',
          ho_Header = [(''Content-Type'', ''application/x-www-form-urlencoded'')],
          ho_Form = encode_values [(''client_id'', go_ClientID g), (''client_secret'', go_ClientSecret g), (''code'', code),
            (''grant_type'', ''authorization_code''), (''redirect_uri'', go_RedirectURL g)], ho_Json = None\<rparr> of
        Inl e \<Rightarrow> Inl (ErrText (''google token exchange: '' @ text_of e))
      | Inr (status, _, tok) \<Rightarrow>
          if status \<noteq> 200 then Inl (ErrText (''google token exchange: status '' @ Itoa status))
          else if \<not> decode_ok [(''access_token'', TString)] tok \<or> str_field ''access_token'' tok = ''''
            then Inl (ErrText ''google token exchange: invalid response'')
          else case client \<lparr>ho_Method = ''GET'', ho_URL = ''https://openidconnect.googleapis.com/v1/userinfo'',
                 ho_Header = [(''Authorization'', ''Bearer '' @ str_field ''access_token'' tok)], ho_Form = '''', ho_Json = None\<rparr> of
               Inl e \<Rightarrow> Inl (ErrText (''google userinfo: '' @ text_of e))
             | Inr (ustatus, _, b) \<Rightarrow>
                 if ustatus \<noteq> 200 then Inl (ErrText (''google userinfo: status '' @ Itoa ustatus))
                 else if \<not> decode_ok [(''sub'', TString), (''email'', TString), (''email_verified'', TBool), (''name'', TString), (''picture'', TString)] b
                   then Inl (ErrText ''google userinfo: decode'')
                 else let p = profile_of b
                      in if gp_Sub p = '''' \<or> gp_Email p = '''' then Inl (ErrText ''google userinfo: missing sub/email'') else Inr p)"

text \<open>A profile always names a subject and an address.\<close>

lemma realExchange_Inr: "realExchange client text_of g code = Inr p \<Longrightarrow> gp_Sub p \<noteq> '''' \<and> gp_Email p \<noteq> ''''"
  by (auto simp: realExchange_def Let_def split: sum.splits prod.splits if_splits)

end
