(* ===== verification/Http.thy ===== *)
theory Http
  imports Health Rate_Limit Hub OAuth Access
begin

text \<open>
  The frame of the REST API, \<open>internal/httpapi\<close>: requests, responses, the state of the server,
  the configuration of \<open>API\<close> and its options, the helpers the handlers share and the middlewares.
  A handler is a function of its context (configuration, request, principal and the draws of the
  request) and of the server, to a response and the server after it. A request reads its clocks
  once. What goroutines do after the response is kept as events to record (\<open>s_audit\<close>), topics
  to publish (\<open>s_published\<close>) and mail jobs.
\<close>

section \<open>Requests and responses\<close>

text \<open>
  A request as \<open>net/http\<close> and chi hand it over: header values and query parameters by name
  (empty where absent), cookies, path parameters, whether the connection can be flushed, and the JSON
  value of its body. The address is the one chi's \<open>RealIP\<close> leaves.
\<close>

record request =
  hq_Method :: string
  hq_Path :: string
  hq_Header :: "string \<Rightarrow> string"
  hq_Query :: "string \<Rightarrow> string"
  hq_Cookie :: "string \<Rightarrow> string option"
  hq_Param :: "string \<Rightarrow> string"
  hq_RemoteAddr :: string
  hq_Host :: string
  hq_TLS :: bool
  hq_Flusher :: bool
  hq_Body :: "json option"

datatype same_site = SameSiteLaxMode | SameSiteNoneMode

record cookie =
  ck_Name :: string
  ck_Value :: string
  ck_Path :: string
  ck_HttpOnly :: bool
  ck_MaxAge :: int
  ck_Expires :: "time option"
  ck_Secure :: bool
  ck_SameSite :: same_site

datatype payload = NoBody | Body json | Raw string

record response =
  hr_Status :: int
  hr_Header :: "(string \<times> string) list"
  hr_Cookies :: "cookie list"
  hr_Body :: payload

definition set_header :: "string \<Rightarrow> string \<Rightarrow> response \<Rightarrow> response" where
  "set_header k v r = r\<lparr>hr_Header := (k, v) # filter (\<lambda>h. fst h \<noteq> k) (hr_Header r)\<rparr>"

text \<open>\<open>http.SetCookie\<close> before the head is written: the cookies come before those of the rest.\<close>

definition with_cookies :: "cookie list \<Rightarrow> response \<Rightarrow> response" where
  "with_cookies cs r = r\<lparr>hr_Cookies := cs @ hr_Cookies r\<rparr>"

definition writeJSON :: "int \<Rightarrow> json \<Rightarrow> response" where
  "writeJSON code body = \<lparr>hr_Status = code, hr_Header = [(''Content-Type'', ''application/json'')], hr_Cookies = [], hr_Body = Body body\<rparr>"

definition error_body :: "string \<Rightarrow> string \<Rightarrow> json" where
  "error_body code msg = JObj [(''error'', JObj [(''code'', JStr code), (''message'', JStr msg)])]"

definition writeErr :: "int \<Rightarrow> string \<Rightarrow> string \<Rightarrow> response" where
  "writeErr status code msg = writeJSON status (error_body code msg)"

text \<open>\<open>w.WriteHeader(code)\<close> and nothing else; \<open>http.Redirect\<close>.\<close>

definition WriteHeader :: "int \<Rightarrow> response" where
  "WriteHeader code = \<lparr>hr_Status = code, hr_Header = [], hr_Cookies = [], hr_Body = NoBody\<rparr>"

definition Redirect :: "string \<Rightarrow> response" where
  "Redirect url = \<lparr>hr_Status = 302, hr_Header = [(''Location'', url)], hr_Cookies = [], hr_Body = NoBody\<rparr>"

section \<open>The server\<close>

text \<open>Mail jobs: the goroutines of \<open>dispatchInviteEmail\<close>, \<open>sendVerificationEmail\<close> and \<open>dispatchAuthEmail\<close>.\<close>

datatype mail_job = InviteMail Invitation string | VerifyMail uuid | AuthMail Message

record server =
  h_sys :: sys
  h_streams :: streams
  h_hub :: hub
  h_mail :: "mail_job list"
  h_jobs :: JobTracker
  h_loginLimiter :: rateLimiter
  h_registerLimiter :: rateLimiter
  h_refreshLimiter :: rateLimiter
  h_tokenProbeLimiter :: rateLimiter

text \<open>The limiters of \<open>NewRouter\<close>.\<close>

definition new_server :: "time \<Rightarrow> db \<Rightarrow> server" where
  "new_server now d = \<lparr>h_sys = initial_sys d, h_streams = (\<lambda>_. None), h_hub = NewHub, h_mail = [], h_jobs = NewJobTracker,
     h_loginLimiter = newRateLimiter 20 minute now, h_registerLimiter = newRateLimiter 10 minute now,
     h_refreshLimiter = newRateLimiter 60 minute now, h_tokenProbeLimiter = newRateLimiter 30 minute now\<rparr>"

text \<open>
  \<open>API\<close>: the services and the options of \<open>NewRouter\<close>. \<open>a_events\<close> and
  \<open>a_kickNode\<close> say whether the option is set; \<open>a_metrics\<close> is what the Prometheus handler answers; \<open>a_httpClient\<close>,
  \<open>a_postgres\<close>, \<open>a_parseUUID\<close> (\<open>uuid.Parse\<close>) and \<open>a_dbText\<close> (the text of an error of the
  database driver) are what other packages provide.
\<close>

record api =
  a_identity :: identity
  a_service :: service
  a_rawRetention :: duration
  a_google :: "GoogleOAuth option"
  a_appBaseURL :: string
  a_corsOrigins :: "string list"
  a_secureCookies :: bool
  a_refreshCookieTTL :: duration
  a_email :: "Sender option"
  a_allowSelfTopup :: bool
  a_grpcTLS :: bool
  a_agentCAPEM :: string
  a_kickNode :: bool
  a_health :: "Health option"
  a_metrics :: "response option"
  a_metricsToken :: string
  a_events :: bool
  a_getenv :: "string \<Rightarrow> string"
  a_httpClient :: http_client
  a_postgres :: postgres
  a_parseUUID :: "string \<Rightarrow> uuid option"
  a_dbText :: "err \<Rightarrow> string"

text \<open>
  The context of a handler. The draws are the ids and random bytes that the calls of the request
  take, and the GPU rows other transactions hold locked.
\<close>

record ctx =
  c_api :: api
  c_clk :: clocks
  c_req :: request
  c_requestID :: string
  c_user :: User
  c_fresh :: fresh
  c_ids :: "nat \<Rightarrow> uuid"
  c_rnds :: "nat \<Rightarrow> nat list"
  c_locked :: "uuid \<Rightarrow> bool"

type_synonym handler = "ctx \<Rightarrow> server \<Rightarrow> response \<times> server"

text \<open>The zero \<open>domain.User\<close> that \<open>userFromCtx\<close> gives where no principal is set.\<close>

definition zero_user :: User where
  "zero_user = \<lparr>u_ID = uuid_Nil, u_OrgID = None, u_DepartmentID = None, u_Email = '''', u_PasswordHash = '''', u_Name = '''',
     u_Role = RoleOther '''', u_Status = '''', u_AvatarURL = '''', u_EmailVerified = False, u_AuthProvider = '''',
     u_LastLoginAt = None, u_CreatedAt = 0, u_IsServiceAccount = False, u_GoogleSub = None\<rparr>"

definition org_of :: "User \<Rightarrow> uuid" where
  "org_of u = (case u_OrgID u of None \<Rightarrow> uuid_Nil | Some k \<Rightarrow> k)"

abbreviation c_org :: "ctx \<Rightarrow> uuid" where "c_org c \<equiv> org_of (c_user c)"
abbreviation c_body :: "ctx \<Rightarrow> json option" where "c_body c \<equiv> hq_Body (c_req c)"
abbreviation c_query :: "ctx \<Rightarrow> string \<Rightarrow> string" where "c_query c \<equiv> hq_Query (c_req c)"

section \<open>Composing handlers\<close>

text \<open>
  \<open>call\<close> makes a call of a service and goes on with its result; \<open>effect\<close> changes the server;
  \<open>guard\<close> answers and stops unless a condition holds.
\<close>

definition call :: "(sys \<Rightarrow> 'a \<times> sys) \<Rightarrow> ('a \<Rightarrow> server \<Rightarrow> response \<times> server) \<Rightarrow> server \<Rightarrow> response \<times> server" where
  "call m k h = (case m (h_sys h) of (x, s) \<Rightarrow> k x (h\<lparr>h_sys := s\<rparr>))"

definition effect :: "(server \<Rightarrow> server) \<Rightarrow> (server \<Rightarrow> response \<times> server) \<Rightarrow> server \<Rightarrow> response \<times> server" where
  "effect f k h = k (f h)"

definition guard :: "bool \<Rightarrow> response \<Rightarrow> (server \<Rightarrow> response \<times> server) \<Rightarrow> server \<Rightarrow> response \<times> server" where
  "guard c r k = (if c then k else Pair r)"

text \<open>\<open>x, err := m; if err != nil { answer }\<close>.\<close>

definition attempt :: "(sys \<Rightarrow> (err + 'a) \<times> sys) \<Rightarrow> (err \<Rightarrow> response) \<Rightarrow> ('a \<Rightarrow> server \<Rightarrow> response \<times> server) \<Rightarrow> server \<Rightarrow> response \<times> server" where
  "attempt m onerr k = call m (\<lambda>r. case r of Inl e \<Rightarrow> Pair (onerr e) | Inr x \<Rightarrow> k x)"

definition on_sys :: "(sys \<Rightarrow> sys) \<Rightarrow> server \<Rightarrow> server" where
  "on_sys f h = h\<lparr>h_sys := f (h_sys h)\<rparr>"

definition mail :: "mail_job \<Rightarrow> server \<Rightarrow> server" where
  "mail j h = h\<lparr>h_mail := h_mail h @ [j]\<rparr>"

section \<open>Helpers\<close>

text \<open>\<open>net.SplitHostPort\<close>: the host of \<open>host:port\<close>, \<open>[host]:port\<close> or \<open>[host%zone]:port\<close>.\<close>

definition last_colon :: "string \<Rightarrow> nat option" where
  "last_colon s = (let n = length (takeWhile (\<lambda>c. c \<noteq> CHR '':'') (rev s)) in if n = length s then None else Some (length s - 1 - n))"

definition SplitHost :: "string \<Rightarrow> string option" where
  "SplitHost s = (case last_colon s of
       None \<Rightarrow> None
     | Some i \<Rightarrow>
         if take 1 s = ''['' then
           (let inner = takeWhile (\<lambda>c. c \<noteq> CHR '']'') (tl s); j = Suc (length inner)
            in if j = length s \<or> Suc j \<noteq> i then None
               else if CHR ''['' \<in> set inner \<or> CHR ''['' \<in> set (drop j s) \<or> CHR '']'' \<in> set (drop (Suc j) s) then None else Some inner)
         else (let host = take i s in if CHR '':'' \<in> set host then None
               else if CHR ''['' \<in> set s \<or> CHR '']'' \<in> set s then None else Some host))"

definition clientIP :: "request \<Rightarrow> string" where
  "clientIP r = (case SplitHost (hq_RemoteAddr r) of None \<Rightarrow> hq_RemoteAddr r | Some h \<Rightarrow> h)"

definition bearerToken :: "request \<Rightarrow> string" where
  "bearerToken r = (let h = hq_Header r ''Authorization'' in if h = '''' then '''' else TrimSpace (TrimPrefix h ''Bearer ''))"

text \<open>\<open>parseUUID\<close>: a parameter that does not parse answers 400, and so does the nil UUID's caller, which returns with nothing written.\<close>

definition with_id :: "string \<Rightarrow> ctx \<Rightarrow> (uuid \<Rightarrow> server \<Rightarrow> response \<times> server) \<Rightarrow> server \<Rightarrow> response \<times> server" where
  "with_id param c k = (case a_parseUUID (c_api c) (hq_Param (c_req c) param) of
       None \<Rightarrow> Pair (writeErr 400 ''validation'' (''invalid '' @ param))
     | Some i \<Rightarrow> if i = uuid_Nil then Pair (WriteHeader 200) else k i)"

definition parseTime :: "string \<Rightarrow> time \<Rightarrow> time" where
  "parseTime s def = (if s = '''' then def else case parse_rfc3339 s of None \<Rightarrow> def | Some t \<Rightarrow> t)"

definition firstOfMonth :: "ctx \<Rightarrow> time" where
  "firstOfMonth c = monthStart (go_now (c_clk c))"

text \<open>\<open>err.Error()\<close>.\<close>

definition err_text :: "api \<Rightarrow> err \<Rightarrow> string" where
  "err_text a e = (case e of
       ErrText s \<Rightarrow> s
     | ErrInvalidRequest s \<Rightarrow> ''invalid launch request: '' @ s
     | ErrBudgetExceeded s \<Rightarrow> ''budget exceeded: '' @ s @ '' budget is exhausted for this month''
     | ErrProjectForbidden \<Rightarrow> ''you do not have access to this project''
     | ErrAlreadyMember \<Rightarrow> ''user already belongs to an organization''
     | ErrInvitationInvalid \<Rightarrow> ''invitation is invalid, expired, or already used''
     | ErrJoinCodeInvalid \<Rightarrow> ''join code is invalid, expired, revoked, or exhausted''
     | ErrForbidden \<Rightarrow> ''not permitted''
     | ErrLastOwner \<Rightarrow> ''organization must have at least one owner''
     | ErrInvalidCredentials \<Rightarrow> ''invalid email or password''
     | ErrNotFound \<Rightarrow> ''not found''
     | ErrServiceAccountExists \<Rightarrow> ''a service account with that name already exists''
     | ErrOverbooked \<Rightarrow> ''not enough capacity for that GPU type in the requested window''
     | ErrReservationParams \<Rightarrow> ''invalid reservation parameters''
     | _ \<Rightarrow> a_dbText a e)"

definition emailEnabled :: "api \<Rightarrow> bool" where
  "emailEnabled a \<longleftrightarrow> (case a_email a of None \<Rightarrow> False | Some s \<Rightarrow> Enabled s)"

text \<open>
  \<open>auditEvent\<close> stamps the request id and the client address; \<open>userEvent\<close> fills in the
  principal. The recording is a goroutine's.
\<close>

definition auditEvent :: "ctx \<Rightarrow> AuditLog \<Rightarrow> server \<Rightarrow> server" where
  "auditEvent c e = on_sys (audit (e\<lparr>
     al_Metadata := (if c_requestID c = '''' then al_Metadata e
       else filter (\<lambda>m. fst m \<noteq> ''request_id'') (al_Metadata e) @ [(''request_id'', JStr (c_requestID c))]),
     al_IP := (if al_IP e = '''' then clientIP (c_req c) else al_IP e)\<rparr>))"

definition user_log :: "uuid \<Rightarrow> string \<Rightarrow> string \<Rightarrow> string \<Rightarrow> string \<Rightarrow> (string \<times> json) list \<Rightarrow> AuditLog" where
  "user_log orgID actor action targetType targetID meta =
     \<lparr>al_OrgID = orgID, al_ActorType = ''user'', al_ActorID = actor, al_Action = action, al_TargetType = targetType,
      al_TargetID = targetID, al_Metadata = meta, al_IP = ''''\<rparr>"

definition userEvent :: "ctx \<Rightarrow> User \<Rightarrow> string \<Rightarrow> string \<Rightarrow> string \<Rightarrow> (string \<times> json) list \<Rightarrow> server \<Rightarrow> server" where
  "userEvent c u action targetType targetID meta =
     auditEvent c (user_log (org_of u) (uuid_str (u_ID u)) action targetType targetID meta)"

definition notifyMembers :: "api \<Rightarrow> uuid \<Rightarrow> server \<Rightarrow> server" where
  "notifyMembers a orgID = (if a_events a then on_sys (notify orgID [''members'']) else (\<lambda>h. h))"

text \<open>\<open>authenticateToken\<close>: an API key or an access token.\<close>

definition authenticateToken :: "ctx \<Rightarrow> string \<Rightarrow> sys \<Rightarrow> (err + User) \<times> sys" where
  "authenticateToken c token =
     (if has_prefix APIKeyScheme token then AuthenticateAPIKey (a_identity (c_api c)) (c_clk c) token
      else Authenticate (a_identity (c_api c)) (c_clk c) token)"

section \<open>Middlewares\<close>

definition limited :: "(server \<Rightarrow> rateLimiter) \<Rightarrow> (rateLimiter \<Rightarrow> server \<Rightarrow> server) \<Rightarrow> handler \<Rightarrow> handler" where
  "limited get put next c h =
     (case allow (go_now (c_clk c)) (clientIP (c_req c)) (get h) of
        ((ok, retry), rl) \<Rightarrow>
          if ok then next c (put rl h)
          else (set_header ''Retry-After'' (Itoa retry)
                  (writeErr 429 ''rate_limited'' ''too many requests, slow down and retry shortly''), put rl h))"

definition authMiddleware :: "handler \<Rightarrow> handler" where
  "authMiddleware next c =
     (let token = bearerToken (c_req c)
      in if token = '''' then Pair (writeErr 401 ''unauthorized'' ''missing bearer token'')
         else attempt (authenticateToken c token) (\<lambda>_. writeErr 401 ''unauthorized'' ''invalid or expired token'')
                (\<lambda>u. next (c\<lparr>c_user := u\<rparr>)))"

definition requireOrg :: "handler \<Rightarrow> handler" where
  "requireOrg next c = guard (Onboarded (c_user c))
     (writeErr 409 ''onboarding_required'' ''create or join an organization to continue'') (next c)"

definition requireRole :: "Role \<Rightarrow> handler \<Rightarrow> handler" where
  "requireRole least next c = guard (AtLeast (u_Role (c_user c)) least)
     (writeErr 403 ''forbidden'' ''your role does not permit this action'') (next c)"

definition blockServiceAccounts :: "handler \<Rightarrow> handler" where
  "blockServiceAccounts next c = guard (\<not> u_IsServiceAccount (c_user c))
     (writeErr 403 ''forbidden'' ''service accounts cannot manage credentials'') (next c)"

text \<open>\<open>requestIDMiddleware\<close>: a sane id of the caller is kept, otherwise one is drawn.\<close>

definition rid_char :: "char \<Rightarrow> bool" where
  "rid_char c \<longleftrightarrow> c = CHR ''-'' \<or> c = CHR ''_'' \<or> c = CHR ''.'' \<or>
     (let n = (of_char c :: nat) in 48 \<le> n \<and> n \<le> 57 \<or> 97 \<le> n \<and> n \<le> 122 \<or> 65 \<le> n \<and> n \<le> 90)"

definition sanitizeRequestID :: "string \<Rightarrow> string" where
  "sanitizeRequestID s = (if s = '''' \<or> length s > 64 \<or> \<not> list_all rid_char s then '''' else s)"

definition requestIDMiddleware :: "handler \<Rightarrow> handler" where
  "requestIDMiddleware next c h =
     (let rid0 = sanitizeRequestID (hq_Header (c_req c) ''X-Request-ID'');
          rid = (if rid0 = '''' then uuid_str (c_ids c 0) else rid0)
      in case next (c\<lparr>c_requestID := rid\<rparr>) h of (r, h') \<Rightarrow> (set_header ''X-Request-ID'' rid r, h'))"

definition originAllowed :: "api \<Rightarrow> string \<Rightarrow> bool" where
  "originAllowed a origin = list_ex (\<lambda>x. x = origin) (a_corsOrigins a)"

definition cors_headers :: "api \<Rightarrow> string \<Rightarrow> (string \<times> string) list" where
  "cors_headers a origin =
     [(''Vary'', ''Origin'')] @
     (if a_corsOrigins a \<noteq> [] then
        (if origin \<noteq> '''' \<and> originAllowed a origin
         then [(''Access-Control-Allow-Origin'', origin), (''Access-Control-Allow-Credentials'', ''true'')] else [])
      else if \<not> a_secureCookies a \<and> origin \<noteq> ''''
        then [(''Access-Control-Allow-Origin'', origin), (''Access-Control-Allow-Credentials'', ''true'')]
      else [(''Access-Control-Allow-Origin'', ''*'')]) @
     [(''Access-Control-Allow-Headers'', ''Content-Type,Authorization''),
      (''Access-Control-Allow-Methods'', ''GET,POST,PUT,PATCH,DELETE,OPTIONS'')]"

definition corsMiddleware :: "handler \<Rightarrow> handler" where
  "corsMiddleware next c h =
     (let hs = cors_headers (c_api c) (hq_Header (c_req c) ''Origin'')
      in if hq_Method (c_req c) = ''OPTIONS''
         then ((WriteHeader 204)\<lparr>hr_Header := hs @ [(''Access-Control-Max-Age'', ''600'')]\<rparr>, h)
         else (case next c h of (r, h') \<Rightarrow> (r\<lparr>hr_Header := hs @ hr_Header r\<rparr>, h')))"

section \<open>Cookies\<close>

definition plain_cookie :: "api \<Rightarrow> string \<Rightarrow> string \<Rightarrow> string \<Rightarrow> int \<Rightarrow> time option \<Rightarrow> cookie" where
  "plain_cookie a name val path age expires =
     \<lparr>ck_Name = name, ck_Value = val, ck_Path = path, ck_HttpOnly = True, ck_MaxAge = age, ck_Expires = expires,
      ck_Secure = a_secureCookies a, ck_SameSite = (if a_secureCookies a then SameSiteNoneMode else SameSiteLaxMode)\<rparr>"

definition refreshCookie :: string where "refreshCookie = ''nh_refresh''"
definition refreshCookiePath :: string where "refreshCookiePath = ''/api/v1/auth''"
definition oauthStateCookie :: string where "oauthStateCookie = ''nh_oauth_state''"

definition setRefreshCookie :: "ctx \<Rightarrow> string \<Rightarrow> duration \<Rightarrow> cookie" where
  "setRefreshCookie c raw ttl = plain_cookie (c_api c) refreshCookie raw refreshCookiePath (seconds_of ttl) (Some (go_now (c_clk c) + ttl))"

definition clearRefreshCookie :: "ctx \<Rightarrow> cookie" where
  "clearRefreshCookie c = plain_cookie (c_api c) refreshCookie '''' refreshCookiePath (- 1) None"

definition setCookie :: "ctx \<Rightarrow> string \<Rightarrow> string \<Rightarrow> duration \<Rightarrow> cookie" where
  "setCookie c name val ttl = plain_cookie (c_api c) name val ''/'' (seconds_of ttl) (Some (go_now (c_clk c) + ttl))"

definition clearCookie :: "ctx \<Rightarrow> string \<Rightarrow> cookie" where
  "clearCookie c name = plain_cookie (c_api c) name '''' ''/'' (- 1) None"

definition readRefreshCookie :: "request \<Rightarrow> string" where
  "readRefreshCookie r = (case hq_Cookie r refreshCookie of None \<Rightarrow> '''' | Some v \<Rightarrow> v)"

definition deviceFromRequest :: "request \<Rightarrow> DeviceInfo" where
  "deviceFromRequest r = \<lparr>dv_UserAgent = hq_Header r ''User-Agent'', dv_IPAddress = clientIP r,
     dv_DeviceName = '''', dv_Browser = '''', dv_OS = ''''\<rparr>"

definition refreshTTL :: "api \<Rightarrow> duration" where
  "refreshTTL a = (if a_refreshCookieTTL a > 0 then a_refreshCookieTTL a else 30 * 24 * hour)"

text \<open>\<open>startSession\<close>: the cookies it sets; a failure sets none and is not reported.\<close>

definition startSession :: "ctx \<Rightarrow> uuid \<Rightarrow> sys \<Rightarrow> cookie list \<times> sys" where
  "startSession c userID s =
     (case CreateSession (a_identity (c_api c)) (c_clk c) (c_ids c 1) (c_rnds c 1) userID (deviceFromRequest (c_req c)) s of
        (Inl _, s1) \<Rightarrow> ([], s1)
      | (Inr (raw, _), s1) \<Rightarrow> ([setRefreshCookie c raw (refreshTTL (c_api c))], s1))"

end
