(* ===== verification/Http_Accounts.thy ===== *)
theory Http_Accounts
  imports Http
begin

text \<open>
  The handlers of accounts: sign-in, registration and sessions (\<open>router.go\<close>, \<open>sessions.go\<close>,
  \<open>oauth.go\<close>), organisation membership (\<open>memberships.go\<close>), API keys, service accounts and
  email tokens (\<open>phase6.go\<close>).
\<close>

abbreviation c_identity :: "ctx \<Rightarrow> identity" where "c_identity c \<equiv> a_identity (c_api c)"

definition invalid_json :: response where
  "invalid_json = writeErr 400 ''validation'' ''invalid JSON''"

definition token_user :: "string \<Rightarrow> User \<Rightarrow> json" where
  "token_user token u = JObj [(''token'', JStr token), (''user'', userResponse u)]"

section \<open>Sign-in and registration\<close>

definition login :: handler where
  "login c = guard (decode_ok [(''email'', TString), (''password'', TString)] (c_body c)) invalid_json
     (let email = str_field ''email'' (c_body c); password = str_field ''password'' (c_body c)
      in call (Login (c_identity c) (c_clk c) email password) (\<lambda>r. case r of
           Inl e \<Rightarrow> if e \<noteq> ErrInvalidCredentials then Pair (writeErr 500 ''internal'' ''login failed'')
             else call (OrgIDByEmail email) (\<lambda>org.
               effect (auditEvent c (user_log (case org of Inl _ \<Rightarrow> uuid_Nil | Inr k \<Rightarrow> k) '''' ''auth.login_failed'' ''user'' email []))
                 (Pair (writeErr 401 ''unauthorized'' ''invalid email or password'')))
         | Inr (token, u) \<Rightarrow>
             call (startSession c (u_ID u)) (\<lambda>cookies.
               effect (userEvent c u ''auth.login'' ''user'' (uuid_str (u_ID u)) [(''method'', JStr ''password'')])
                 (Pair (with_cookies cookies (writeJSON 200 (token_user token u)))))))"

definition register :: handler where
  "register c = guard (decode_ok [(''org_name'', TString), (''name'', TString), (''email'', TString), (''password'', TString)] (c_body c)) invalid_json
     (let b = c_body c; orgName = str_field ''org_name'' b
      in call (id_Register (c_identity c) (c_clk c) (c_fresh c) orgName (str_field ''email'' b) (str_field ''name'' b) (str_field ''password'' b)) (\<lambda>r. case r of
           Inl e \<Rightarrow> Pair (if e = ErrUserExists then writeErr 409 ''conflict'' ''an account with that email already exists''
             else writeErr 400 ''validation'' (err_text (c_api c) e))
         | Inr (token, u) \<Rightarrow>
             call (startSession c (u_ID u)) (\<lambda>cookies.
               effect (mail (VerifyMail (u_ID u)))
              (effect (userEvent c u ''auth.register'' ''user'' (uuid_str (u_ID u)) [(''method'', JStr ''password'')])
              (effect (userEvent c u ''org.create'' ''organization'' (uuid_str (org_of u)) [(''org_name'', JStr orgName)])
                (Pair (with_cookies cookies (writeJSON 201 (token_user token u)))))))))"

definition me :: handler where
  "me c = Pair (writeJSON 200 (userResponse (c_user c)))"

definition registerPending :: handler where
  "registerPending c = guard (decode_ok [(''email'', TString), (''name'', TString), (''password'', TString)] (c_body c)) invalid_json
     (let b = c_body c
      in call (RegisterPending (c_identity c) (c_clk c) (c_fresh c) (str_field ''email'' b) (str_field ''name'' b) (str_field ''password'' b)) (\<lambda>r. case r of
           Inl e \<Rightarrow> Pair (if e = ErrUserExists then writeErr 409 ''conflict'' ''an account with that email already exists''
             else writeErr 400 ''validation'' (err_text (c_api c) e))
         | Inr (token, u) \<Rightarrow>
             call (startSession c (u_ID u)) (\<lambda>cookies.
               effect (mail (VerifyMail (u_ID u)))
              (effect (userEvent c u ''auth.register'' ''user'' (uuid_str (u_ID u)) [(''method'', JStr ''password''), (''pending'', JBool True)])
                (Pair (with_cookies cookies (writeJSON 201 (token_user token u))))))))"

section \<open>Google\<close>

text \<open>\<open>randomState\<close>: 24 random bytes in hexadecimal.\<close>

definition randomState :: "ctx \<Rightarrow> string" where
  "randomState c = randomToken (c_rnds c 0)"

definition googleStart :: handler where
  "googleStart c = (case a_google (c_api c) of
       None \<Rightarrow> Pair (writeErr 404 ''not_found'' ''Google sign-in is not enabled'')
     | Some g \<Rightarrow> let state = randomState c
         in Pair (with_cookies [setCookie c oauthStateCookie state (10 * minute)] (Redirect (AuthCodeURL g state))))"

definition oauthFail :: "ctx \<Rightarrow> string \<Rightarrow> response" where
  "oauthFail c reason = (if a_appBaseURL (c_api c) \<noteq> '''' then Redirect (a_appBaseURL (c_api c) @ ''/login?error='' @ reason)
     else writeErr 400 ''oauth_error'' reason)"

definition googleCallback :: handler where
  "googleCallback c = (let a = c_api c; clear = with_cookies [clearCookie c oauthStateCookie] in case a_google a of
       None \<Rightarrow> Pair (writeErr 404 ''not_found'' ''Google sign-in is not enabled'')
     | Some g \<Rightarrow>
         if c_query c ''state'' = '''' \<or> hq_Cookie (c_req c) oauthStateCookie \<noteq> Some (c_query c ''state'') then Pair (oauthFail c ''invalid_state'')
         else if c_query c ''code'' = '''' then Pair (clear (oauthFail c ''missing_code''))
         else (case realExchange (a_httpClient a) (a_dbText a) g (c_query c ''code'') of
             Inl _ \<Rightarrow> Pair (clear (oauthFail c ''exchange_failed''))
           | Inr p \<Rightarrow>
               attempt (UpsertGoogleUser (c_identity c) (c_clk c) (c_fresh c) (gp_Sub p) (gp_Email p) (gp_Name p) (gp_Picture p) (gp_EmailVerified p))
                 (\<lambda>_. clear (oauthFail c ''account_error'')) (\<lambda>(token, u).
                 call (startSession c (u_ID u)) (\<lambda>cookies.
                   effect (userEvent c u ''auth.login'' ''user'' (uuid_str (u_ID u)) [(''method'', JStr ''google'')])
                     (Pair (clear (with_cookies cookies
                       (if a_appBaseURL a \<noteq> '''' then Redirect (a_appBaseURL a @ ''/auth/callback#token='' @ token)
                        else writeJSON 200 (JObj [(''token'', JStr token)])))))))))"

definition onboardingCreateOrg :: handler where
  "onboardingCreateOrg c =
     guard (\<not> Onboarded (c_user c)) (writeErr 409 ''already_onboarded'' ''you already belong to an organization'')
    (guard (decode_ok [(''org_name'', TString)] (c_body c) \<and> str_field ''org_name'' (c_body c) \<noteq> '''') (writeErr 400 ''validation'' ''org_name is required'')
    (attempt (CreateOrgForUser (c_identity c) (c_clk c) (c_fresh c) (u_ID (c_user c)) (str_field ''org_name'' (c_body c)))
       (\<lambda>e. writeErr 400 ''validation'' (err_text (c_api c) e)) (\<lambda>(token, u).
       effect (userEvent c u ''org.create'' ''organization'' (uuid_str (org_of u)) [(''org_name'', JStr (str_field ''org_name'' (c_body c)))])
         (Pair (writeJSON 201 (token_user token u))))))"

section \<open>Sessions\<close>

definition refresh :: handler where
  "refresh c = (let raw = readRefreshCookie (c_req c) in
     guard (raw \<noteq> '''') (writeErr 401 ''unauthorized'' ''no refresh session'')
    (attempt (RefreshSession (c_identity c) (c_clk c) (c_rnds c 0) raw (deviceFromRequest (c_req c)))
       (\<lambda>_. with_cookies [clearRefreshCookie c] (writeErr 401 ''unauthorized'' ''session expired, please sign in again''))
       (\<lambda>(access, newRaw, u, _). Pair (with_cookies [setRefreshCookie c newRaw (refreshTTL (c_api c))] (writeJSON 200 (token_user access u))))))"

definition logout :: handler where
  "logout c = (let raw = readRefreshCookie (c_req c); bye = Pair (with_cookies [clearRefreshCookie c] (WriteHeader 204)) in
     if raw = '''' then bye
     else call (RevokeSessionByRefresh (c_identity c) (c_clk c) raw) (\<lambda>r. case r of
            Inl _ \<Rightarrow> bye
          | Inr (userID, orgID) \<Rightarrow>
              if userID = uuid_Nil then bye
              else effect (auditEvent c (user_log orgID (uuid_str userID) ''auth.logout'' ''user'' (uuid_str userID) [])) bye))"

definition current_session :: "ctx \<Rightarrow> sys \<Rightarrow> (err + uuid) \<times> sys" where
  "current_session c = SessionIDByRefresh (c_identity c) (c_clk c) (readRefreshCookie (c_req c))"

definition listSessions :: handler where
  "listSessions c = attempt (query (\<lambda>d. Inr (ListSessions (c_clk c) (u_ID (c_user c)) d)))
     (\<lambda>_. writeErr 500 ''internal'' ''could not list sessions'') (\<lambda>ss.
     call (current_session c) (\<lambda>cur. Pair (writeJSON 200 (jlist (session_json (case cur of Inl _ \<Rightarrow> None | Inr i \<Rightarrow> Some i)) ss))))"

definition revokeSession :: handler where
  "revokeSession c = (case a_parseUUID (c_api c) (hq_Param (c_req c) ''id'') of
       None \<Rightarrow> Pair (writeErr 400 ''validation'' ''invalid session id'')
     | Some i \<Rightarrow> attempt (RevokeSession (c_clk c) (u_ID (c_user c)) i)
         (\<lambda>e. if e = ErrNotFound then writeErr 404 ''not_found'' ''session not found'' else writeErr 500 ''internal'' ''could not revoke session'')
         (\<lambda>_. call (current_session c) (\<lambda>cur.
            effect (userEvent c (c_user c) ''session.revoke'' ''session'' (uuid_str i) [])
              (Pair (with_cookies (if cur = Inr i then [clearRefreshCookie c] else []) (WriteHeader 204))))))"

definition revokeAllSessions :: handler where
  "revokeAllSessions c = call (current_session c) (\<lambda>cur.
     attempt (RevokeAllSessions (c_clk c) (u_ID (c_user c)) (case cur of Inl _ \<Rightarrow> None | Inr i \<Rightarrow> Some i))
       (\<lambda>_. writeErr 500 ''internal'' ''could not revoke sessions'') (\<lambda>_.
       effect (userEvent c (c_user c) ''session.revoke_all'' ''user'' (uuid_str (u_ID (c_user c))) []) (Pair (WriteHeader 204))))"

section \<open>Membership\<close>

definition writeMembershipErr :: "api \<Rightarrow> err \<Rightarrow> response" where
  "writeMembershipErr a e =
     (if e = ErrForbidden then writeErr 403 ''forbidden'' (err_text a e)
      else if e = ErrLastOwner then writeErr 409 ''last_owner'' (err_text a e)
      else if e = ErrAlreadyMember then writeErr 409 ''already_member'' (err_text a e)
      else if e = ErrNotFound then writeErr 404 ''not_found'' ''not found''
      else if e = ErrInvitationInvalid then writeErr 400 ''invalid_invitation'' (err_text a e)
      else if e = ErrJoinCodeInvalid then writeErr 400 ''invalid_join_code'' (err_text a e)
      else if e = ErrUserExists then writeErr 409 ''conflict'' ''an account with that email already exists''
      else writeErr 500 ''internal'' ''operation failed'')"

definition listMembers :: handler where
  "listMembers c = attempt (query (\<lambda>d. Inr (ListMembers (c_org c) d))) (\<lambda>_. writeErr 500 ''internal'' ''could not list members'')
     (\<lambda>ms. Pair (writeJSON 200 (jlist member_json ms)))"

text \<open>A path parameter or body field that names a user, an invitation or a code.\<close>

definition with_param :: "string \<Rightarrow> string \<Rightarrow> ctx \<Rightarrow> (uuid \<Rightarrow> server \<Rightarrow> response \<times> server) \<Rightarrow> server \<Rightarrow> response \<times> server" where
  "with_param raw msg c k = (case a_parseUUID (c_api c) raw of None \<Rightarrow> Pair (writeErr 400 ''validation'' msg) | Some i \<Rightarrow> k i)"

definition changeMemberRole :: handler where
  "changeMemberRole c = with_param (hq_Param (c_req c) ''userId'') ''invalid user id'' c (\<lambda>target.
     guard (decode_ok [(''role'', TString)] (c_body c)) invalid_json
    (let role = str_field ''role'' (c_body c); u = c_user c in
     attempt (ChangeMemberRole (c_org c) (u_ID u) (u_Role u) target (parse_role role)) (writeMembershipErr (c_api c)) (\<lambda>_.
       effect (userEvent c u ''member.role_change'' ''user'' (uuid_str target) [(''new_role'', JStr role)])
      (effect (notifyMembers (c_api c) (c_org c)) (Pair (WriteHeader 204))))))"

definition removeMember :: handler where
  "removeMember c = with_param (hq_Param (c_req c) ''userId'') ''invalid user id'' c (\<lambda>target. let u = c_user c in
     attempt (RemoveMember (c_clk c) (c_org c) (u_ID u) (u_Role u) target) (writeMembershipErr (c_api c)) (\<lambda>_.
       effect (userEvent c u ''member.remove'' ''user'' (uuid_str target) [])
      (effect (notifyMembers (c_api c) (c_org c)) (Pair (WriteHeader 204)))))"

definition listInvitations :: handler where
  "listInvitations c = attempt (query (\<lambda>d. Inr (ListInvitations (go_now (c_clk c)) (c_org c) d)))
     (\<lambda>_. writeErr 500 ''internal'' ''could not list invitations'') (\<lambda>vs. Pair (writeJSON 200 (jlist invitation_json vs)))"

definition inviteURL :: "api \<Rightarrow> string \<Rightarrow> string" where
  "inviteURL a token = (if a_appBaseURL a = '''' then '''' else a_appBaseURL a @ ''/invite?token='' @ token)"

definition inviteResponse :: "api \<Rightarrow> Invitation \<times> string \<Rightarrow> string \<Rightarrow> json" where
  "inviteResponse a iv raw = JObj ([(''invitation'', invitation_json iv)] @
     (if emailEnabled a then [] else [(''token'', JStr raw), (''accept_url'', JStr (inviteURL a raw))]))"

definition createInvitation :: handler where
  "createInvitation c = guard (decode_ok [(''email'', TString), (''role'', TString)] (c_body c) \<and> str_field ''email'' (c_body c) \<noteq> '''')
      (writeErr 400 ''validation'' ''email is required'')
    (let email = str_field ''email'' (c_body c); u = c_user c in
     attempt (CreateInvitation (c_identity c) (c_clk c) (c_ids c 1) (c_rnds c 0) (c_org c) (u_ID u) email (parse_role (str_field ''role'' (c_body c))))
       (writeMembershipErr (c_api c)) (\<lambda>(raw, iv, status).
       effect (mail (InviteMail iv raw))
      (effect (userEvent c u ''invitation.create'' ''invitation'' (uuid_str (iv_ID iv)) [(''email'', JStr email), (''role'', JStr (role_name (iv_Role iv)))])
      (effect (notifyMembers (c_api c) (c_org c)) (Pair (writeJSON 201 (inviteResponse (c_api c) (iv, status) raw)))))))"

definition resendInvitation :: handler where
  "resendInvitation c = with_param (hq_Param (c_req c) ''id'') ''invalid invitation id'' c (\<lambda>i.
     attempt (ResendInvitation (c_identity c) (c_clk c) (c_rnds c 0) (c_org c) i) (writeMembershipErr (c_api c)) (\<lambda>(raw, iv, status).
       effect (mail (InviteMail iv raw))
      (effect (userEvent c (c_user c) ''invitation.resend'' ''invitation'' (uuid_str (iv_ID iv)) [(''email'', JStr (iv_Email iv))])
        (Pair (writeJSON 200 (inviteResponse (c_api c) (iv, status) raw))))))"

definition leaveOrg :: handler where
  "leaveOrg c = call (current_session c) (\<lambda>cur. let u = c_user c in
     attempt (LeaveOrg (c_identity c) (c_clk c) (c_org c) (u_ID u) (u_Role u) (case cur of Inl _ \<Rightarrow> None | Inr i \<Rightarrow> Some i))
       (writeMembershipErr (c_api c)) (\<lambda>(token, v).
       effect (userEvent c u ''org.leave'' ''organization'' (uuid_str (c_org c)) [])
      (effect (notifyMembers (c_api c) (c_org c)) (Pair (writeJSON 200 (token_user token v))))))"

definition transferOwnership :: handler where
  "transferOwnership c = guard (decode_ok [(''user_id'', TString)] (c_body c)) invalid_json
    (with_param (str_field ''user_id'' (c_body c)) ''invalid user id'' c (\<lambda>target. let u = c_user c in
     attempt (TransferOwnership (c_org c) (u_ID u) (u_Role u) target) (writeMembershipErr (c_api c)) (\<lambda>_.
       effect (userEvent c u ''org.transfer_ownership'' ''user'' (uuid_str target) [])
      (effect (notifyMembers (c_api c) (c_org c)) (Pair (WriteHeader 204))))))"

definition revokeInvitation :: handler where
  "revokeInvitation c = with_param (hq_Param (c_req c) ''id'') ''invalid invitation id'' c (\<lambda>i.
     attempt (RevokeInvitation (c_clk c) (c_org c) i) (writeMembershipErr (c_api c)) (\<lambda>_.
       effect (userEvent c (c_user c) ''invitation.revoke'' ''invitation'' (uuid_str i) [])
      (effect (notifyMembers (c_api c) (c_org c)) (Pair (WriteHeader 204)))))"

definition previewInvitation :: handler where
  "previewInvitation c = attempt (InvitationByToken (c_identity c) (c_clk c) (hq_Param (c_req c) ''token'')) (writeMembershipErr (c_api c))
     (\<lambda>(iv, status, orgName). Pair (writeJSON 200 (JObj [(''org_name'', JStr orgName), (''email'', JStr (iv_Email iv)),
        (''role'', JStr (role_name (iv_Role iv))), (''status'', JStr status)])))"

definition acceptInvitation :: handler where
  "acceptInvitation c = guard (decode_ok [(''token'', TString)] (c_body c) \<and> str_field ''token'' (c_body c) \<noteq> '''') (writeErr 400 ''validation'' ''token is required'')
    (attempt (AcceptInvitation (c_identity c) (c_clk c) (c_ids c 1) (u_ID (c_user c)) (str_field ''token'' (c_body c))) (writeMembershipErr (c_api c)) (\<lambda>(token, v).
       effect (userEvent c v ''invitation.accept'' ''organization'' (uuid_str (org_of v)) [])
      (effect (notifyMembers (c_api c) (org_of v)) (Pair (writeJSON 200 (token_user token v))))))"

definition listJoinCodes :: handler where
  "listJoinCodes c = attempt (query (\<lambda>d. Inr (ListJoinCodes (go_now (c_clk c)) (c_org c) d)))
     (\<lambda>_. writeErr 500 ''internal'' ''could not list join codes'') (\<lambda>cs. Pair (writeJSON 200 (jlist join_code_json cs)))"

definition createJoinCode :: handler where
  "createJoinCode c = guard (decode_ok [(''description'', TString), (''ttl_days'', TInt), (''max_uses'', TInt)] (c_body c)) invalid_json
    (let b = c_body c in
     attempt (CreateJoinCode (c_identity c) (c_clk c) (c_ids c 1) (c_rnds c 0) (c_org c) (u_ID (c_user c)) (str_field ''description'' b)
         (days_duration (int_field ''ttl_days'' b)) (int_field ''max_uses'' b))
       (\<lambda>_. writeErr 500 ''internal'' ''could not create join code'') (\<lambda>raw.
       effect (userEvent c (c_user c) ''join_code.create'' ''join_code'' '''' [(''description'', JStr (str_field ''description'' b)),
           (''max_uses'', JInt (int_field ''max_uses'' b)), (''ttl_days'', JInt (int_field ''ttl_days'' b))])
         (Pair (writeJSON 201 (JObj [(''code'', JStr raw)])))))"

definition revokeJoinCode :: handler where
  "revokeJoinCode c = with_param (hq_Param (c_req c) ''id'') ''invalid join code id'' c (\<lambda>i.
     attempt (RevokeJoinCode (c_clk c) (c_org c) i) (writeMembershipErr (c_api c)) (\<lambda>_.
       effect (userEvent c (c_user c) ''join_code.revoke'' ''join_code'' (uuid_str i) []) (Pair (WriteHeader 204))))"

definition joinViaCode :: handler where
  "joinViaCode c = guard (decode_ok [(''code'', TString)] (c_body c) \<and> str_field ''code'' (c_body c) \<noteq> '''') (writeErr 400 ''validation'' ''code is required'')
    (attempt (JoinViaCode (c_identity c) (c_clk c) (c_ids c 1) (u_ID (c_user c)) (str_field ''code'' (c_body c))) (writeMembershipErr (c_api c)) (\<lambda>(token, v).
       effect (userEvent c v ''join_code.join'' ''organization'' (uuid_str (org_of v)) [])
      (effect (notifyMembers (c_api c) (org_of v)) (Pair (writeJSON 200 (token_user token v))))))"


section \<open>API keys and service accounts\<close>

text \<open>Members manage their own keys, admins all of them.\<close>

definition own_keys :: "User \<Rightarrow> uuid option" where
  "own_keys u = (if AtLeast (u_Role u) RoleAdmin then None else Some (u_ID u))"

definition listAPIKeys :: handler where
  "listAPIKeys c = attempt (query (\<lambda>d. Inr (ListAPIKeys (go_now (c_clk c)) (c_org c) (own_keys (c_user c)) d)))
     (\<lambda>_. writeErr 500 ''internal'' ''could not list API keys'') (\<lambda>ks. Pair (writeJSON 200 (jlist api_key_json ks)))"

definition create_key :: "ctx \<Rightarrow> uuid option \<Rightarrow> uuid option \<Rightarrow> string \<Rightarrow> server \<Rightarrow> response \<times> server" where
  "create_key c ownerID said ownerKind = (let b = c_body c in
     attempt (CreateAPIKey (c_identity c) (c_clk c) (c_ids c 1) (c_rnds c 0) (c_org c)
         \<lparr>kq_Name = str_field ''name'' b, kq_OwnerUserID = ownerID, kq_ServiceAccountID = said, kq_CreatedBy = u_ID (c_user c),
          kq_TTL = days_duration (int_field ''ttl_days'' b)\<rparr>)
       (\<lambda>e. writeErr 400 ''validation'' (err_text (c_api c) e)) (\<lambda>(raw, key, status).
       effect (userEvent c (c_user c) ''api_key.create'' ''api_key'' (uuid_str (ak_ID key)) [(''name'', JStr (ak_Name key)),
           (''owner'', JStr ownerKind), (''prefix'', JStr (ak_Prefix key)), (''ttl_days'', JInt (int_field ''ttl_days'' b))])
         (Pair (writeJSON 201 (JObj [(''key'', JStr raw), (''api_key'', api_key_json (key, status))])))))"

definition createAPIKey :: handler where
  "createAPIKey c = guard (decode_ok [(''name'', TString), (''ttl_days'', TInt), (''service_account_id'', TString)] (c_body c)) invalid_json
    (case str_ptr ''service_account_id'' (c_body c) of
       Some raw \<Rightarrow> if raw = '''' then create_key c (Some (u_ID (c_user c))) None ''user''
         else guard (AtLeast (u_Role (c_user c)) RoleAdmin) (writeErr 403 ''forbidden'' ''only admins can create service-account keys'')
           (with_param raw ''invalid service_account_id'' c (\<lambda>said. create_key c None (Some said) ''service_account''))
     | None \<Rightarrow> create_key c (Some (u_ID (c_user c))) None ''user'')"

definition revokeAPIKey :: handler where
  "revokeAPIKey c = with_id ''id'' c (\<lambda>i.
     attempt (RevokeAPIKey (c_clk c) (c_org c) i (own_keys (c_user c)))
       (\<lambda>e. if e = ErrNotFound then writeErr 404 ''not_found'' ''API key not found'' else writeErr 500 ''internal'' ''could not revoke API key'') (\<lambda>_.
       effect (userEvent c (c_user c) ''api_key.revoke'' ''api_key'' (uuid_str i) []) (Pair (WriteHeader 204))))"

definition listServiceAccounts :: handler where
  "listServiceAccounts c = attempt (query (\<lambda>d. Inr (ListServiceAccounts (c_org c) d)))
     (\<lambda>_. writeErr 500 ''internal'' ''could not list service accounts'') (\<lambda>xs. Pair (writeJSON 200 (jlist service_account_json xs)))"

definition createServiceAccount :: handler where
  "createServiceAccount c = guard (decode_ok [(''name'', TString), (''description'', TString), (''role'', TString)] (c_body c)) invalid_json
    (let b = c_body c in
     attempt (CreateServiceAccount (c_clk c) (c_ids c 1) (c_org c) (u_ID (c_user c)) (str_field ''name'' b) (str_field ''description'' b) (parse_role (str_field ''role'' b)))
       (\<lambda>e. if e = ErrServiceAccountExists then writeErr 409 ''conflict'' (err_text (c_api c) e) else writeErr 400 ''validation'' (err_text (c_api c) e)) (\<lambda>a.
       effect (userEvent c (c_user c) ''service_account.create'' ''service_account'' (uuid_str (sac_ID a)) [(''name'', JStr (sac_Name a)), (''role'', JStr (role_name (sac_Role a)))])
         (Pair (writeJSON 201 (service_account_json a)))))"

definition updateServiceAccount :: handler where
  "updateServiceAccount c = with_id ''id'' c (\<lambda>i.
     if \<not> decode_ok [(''disabled'', TBool)] (c_body c) then Pair (writeErr 400 ''validation'' ''disabled (boolean) is required'')
     else case bool_ptr ''disabled'' (c_body c) of
       None \<Rightarrow> Pair (writeErr 400 ''validation'' ''disabled (boolean) is required'')
     | Some off \<Rightarrow> attempt (SetServiceAccountDisabled (c_clk c) (c_org c) i off)
         (\<lambda>e. if e = ErrNotFound then writeErr 404 ''not_found'' ''service account not found'' else writeErr 500 ''internal'' ''could not update service account'') (\<lambda>_.
         effect (userEvent c (c_user c) ''service_account.update'' ''service_account'' (uuid_str i) [(''disabled'', JBool off)]) (Pair (WriteHeader 204))))"

section \<open>Email verification and password reset\<close>

definition requestEmailVerification :: handler where
  "requestEmailVerification c = (let u = c_user c; a = c_api c in
     guard (\<not> u_IsServiceAccount u) (writeErr 403 ''forbidden'' ''service accounts have no email'')
    (attempt (RequestEmailVerification (c_identity c) (c_clk c) (c_ids c 1) (c_rnds c 0) (u_ID u))
       (\<lambda>e. if e = ErrAlreadyVerified then writeErr 409 ''already_verified'' ''your email is already verified''
            else writeErr 500 ''internal'' ''could not create verification token'') (\<lambda>(raw, v).
       let verifyURL = a_appBaseURL a @ ''/verify-email?token='' @ raw
       in effect (mail (AuthMail (BuildVerifyEmail (u_Email v) verifyURL)))
         (effect (userEvent c u ''auth.email_verify_requested'' ''user'' (uuid_str (u_ID u)) [])
           (Pair (writeJSON 202 (JObj ([(''sent'', JBool True)] @
             (if emailEnabled a then [] else [(''token'', JStr raw), (''verify_url'', JStr verifyURL)])))))))))"

definition confirmEmailVerification :: handler where
  "confirmEmailVerification c = guard (decode_ok [(''token'', TString)] (c_body c) \<and> str_field ''token'' (c_body c) \<noteq> '''') (writeErr 400 ''validation'' ''token is required'')
    (attempt (ConfirmEmailVerification (c_identity c) (c_clk c) (str_field ''token'' (c_body c)))
       (\<lambda>e. if e = ErrAuthTokenInvalid then writeErr 400 ''invalid_token'' ''this verification link is invalid or has expired''
            else writeErr 500 ''internal'' ''could not verify email'') (\<lambda>u.
       effect (auditEvent c (user_log (org_of u) (uuid_str (u_ID u)) ''auth.email_verified'' ''user'' (uuid_str (u_ID u)) []))
         (Pair (writeJSON 200 (JObj [(''verified'', JBool True), (''user'', userResponse u)])))))"

definition requestPasswordReset :: handler where
  "requestPasswordReset c = (let a = c_api c; email = str_field ''email'' (c_body c) in
     guard (decode_ok [(''email'', TString)] (c_body c) \<and> email \<noteq> '''') (writeErr 400 ''validation'' ''email is required'')
    (call (RequestPasswordReset (c_identity c) (c_clk c) (c_ids c 1) (c_rnds c 0) email) (\<lambda>r. case r of
       Inl e \<Rightarrow> Pair (if e = ErrNotFound then writeJSON 202 (JObj [(''sent'', JBool True)]) else writeErr 500 ''internal'' ''could not process request'')
     | Inr (raw, u) \<Rightarrow>
         let resetURL = a_appBaseURL a @ ''/reset-password?token='' @ raw
         in effect (mail (AuthMail (BuildPasswordResetEmail (u_Email u) resetURL)))
           (effect (auditEvent c (user_log (org_of u) (uuid_str (u_ID u)) ''auth.password_reset_requested'' ''user'' (uuid_str (u_ID u)) []))
             (Pair (writeJSON 202 (JObj ([(''sent'', JBool True)] @
               (if emailEnabled a then [] else [(''token'', JStr raw), (''reset_url'', JStr resetURL)])))))))))"

definition confirmPasswordReset :: handler where
  "confirmPasswordReset c = guard (decode_ok [(''token'', TString), (''new_password'', TString)] (c_body c) \<and> str_field ''token'' (c_body c) \<noteq> '''')
      (writeErr 400 ''validation'' ''token and new_password are required'')
    (attempt (ConfirmPasswordReset (c_identity c) (c_clk c) (str_field ''token'' (c_body c)) (str_field ''new_password'' (c_body c)))
       (\<lambda>e. if e = ErrAuthTokenInvalid then writeErr 400 ''invalid_token'' ''this reset link is invalid or has expired''
            else writeErr 400 ''validation'' (err_text (c_api c) e)) (\<lambda>u.
       effect (auditEvent c (user_log (org_of u) (uuid_str (u_ID u)) ''auth.password_reset'' ''user'' (uuid_str (u_ID u)) []))
         (Pair (writeJSON 200 (JObj [(''reset'', JBool True)])))))"

section \<open>Mail jobs\<close>

text \<open>
  The goroutines: the messages handed to the sender, and the delivery recorded on the invitation.
  \<open>deliver\<close> is the send through the configured sender.
\<close>

definition deliver :: "api \<Rightarrow> Message \<Rightarrow> err + unit" where
  "deliver a m = (case a_email a of None \<Rightarrow> Inr () | Some s \<Rightarrow> email_Send (a_httpClient a) (a_dbText a) s m)"

definition dispatchInviteEmail :: "api \<Rightarrow> clocks \<Rightarrow> Invitation \<Rightarrow> string \<Rightarrow> sys \<Rightarrow> Message option \<times> sys" where
  "dispatchInviteEmail a clk iv rawToken s =
     (case query (OrgName (iv_OrgID iv)) s of (r, s1) \<Rightarrow>
      let orgName = (case r of Inl _ \<Rightarrow> '''' | Inr n \<Rightarrow> n);
          msg = BuildInviteEmail (iv_Email iv) orgName (role_name (iv_Role iv)) (inviteURL a rawToken)
      in if \<not> emailEnabled a
         then (if a_email a = None then None else Some msg, snd (UpdateInvitationDelivery clk (iv_ID iv) ''skipped'' '''' s1))
         else (case deliver a msg of
                 Inl e \<Rightarrow> (Some msg, snd (UpdateInvitationDelivery clk (iv_ID iv) ''failed'' (err_text a e) s1))
               | Inr _ \<Rightarrow> (Some msg, snd (UpdateInvitationDelivery clk (iv_ID iv) ''sent'' '''' s1))))"

definition dispatchAuthEmail :: "api \<Rightarrow> Message \<Rightarrow> Message option" where
  "dispatchAuthEmail a m = (if a_email a = None then None else Some m)"

definition sendVerificationEmail :: "api \<Rightarrow> clocks \<Rightarrow> uuid \<Rightarrow> nat list \<Rightarrow> uuid \<Rightarrow> sys \<Rightarrow> Message option \<times> sys" where
  "sendVerificationEmail a clk tid rnd userID s =
     (case RequestEmailVerification (a_identity a) clk tid rnd userID s of
        (Inl _, s1) \<Rightarrow> (None, s1)
      | (Inr (raw, v), s1) \<Rightarrow> (dispatchAuthEmail a (BuildVerifyEmail (u_Email v) (a_appBaseURL a @ ''/verify-email?token='' @ raw)), s1))"

definition run_mail :: "api \<Rightarrow> clocks \<Rightarrow> uuid \<Rightarrow> nat list \<Rightarrow> mail_job \<Rightarrow> sys \<Rightarrow> Message option \<times> sys" where
  "run_mail a clk tid rnd j = (case j of
       InviteMail iv raw \<Rightarrow> dispatchInviteEmail a clk iv raw
     | VerifyMail userID \<Rightarrow> sendVerificationEmail a clk tid rnd userID
     | AuthMail m \<Rightarrow> Pair (dispatchAuthEmail a m))"

end
