(* ===== verification/Http_Fleet.thy ===== *)
theory Http_Fleet
  imports Http
begin

text \<open>
  The handlers of the fleet: nodes, GPUs, workloads and metrics (\<open>router.go\<close>), templates and the
  deployment configuration (\<open>phase1.go\<close>), realtime events (\<open>phase6.go\<close>) and diagnostics
  (\<open>observability.go\<close>).
\<close>

abbreviation not_found :: "string \<Rightarrow> response" where "not_found msg \<equiv> writeErr 404 ''not_found'' msg"
abbreviation internal :: "string \<Rightarrow> response" where "internal msg \<equiv> writeErr 500 ''internal'' msg"
abbreviation invalid :: "string \<Rightarrow> response" where "invalid msg \<equiv> writeErr 400 ''validation'' msg"
abbreviation c_admin :: "ctx \<Rightarrow> bool" where "c_admin c \<equiv> AtLeast (u_Role (c_user c)) RoleAdmin"

text \<open>A list read from the tables, and its document.\<close>

definition list_query :: "(db \<Rightarrow> 'a) \<Rightarrow> string \<Rightarrow> ('a \<Rightarrow> json) \<Rightarrow> server \<Rightarrow> response \<times> server" where
  "list_query f msg doc = attempt (query (\<lambda>d. Inr (f d))) (\<lambda>_. internal msg) (\<lambda>x. Pair (writeJSON 200 (doc x)))"

definition missing_or :: "string \<Rightarrow> string \<Rightarrow> err \<Rightarrow> response" where
  "missing_or missing msg e = (if e = ErrNotFound then not_found missing else internal msg)"

section \<open>Nodes and GPUs\<close>

definition listNodes :: handler where
  "listNodes c = list_query (ListNodes (c_org c)) ''could not list nodes'' (jlist toNodeResponse)"

definition getNode :: handler where
  "getNode c = with_id ''id'' c (\<lambda>i. attempt (query (NodeDetail_of (c_clk c) (c_org c) i))
     (missing_or ''node not found'' ''could not get node'') (\<lambda>d. Pair (writeJSON 200 (node_detail_json d))))"

definition revokeNodeCredentials :: handler where
  "revokeNodeCredentials c = with_id ''id'' c (\<lambda>i. attempt (RevokeNodeCredentials (c_clk c) (c_org c) i)
     (missing_or ''node not found'' ''could not revoke credentials'') (\<lambda>n.
       effect (userEvent c (c_user c) ''node.revoke_credentials'' ''node'' (uuid_str i) [(''revoked'', JNat n)])
         (Pair (writeJSON 200 (JObj [(''revoked'', JNat n)])))))"

definition kick_node :: "ctx \<Rightarrow> uuid \<Rightarrow> (bool \<Rightarrow> server \<Rightarrow> response \<times> server) \<Rightarrow> server \<Rightarrow> response \<times> server" where
  "kick_node c i k h = (if a_kickNode (c_api c) then (case Kick i (h_streams h) of (kicked, st) \<Rightarrow> k kicked (h\<lparr>h_streams := st\<rparr>)) else k False h)"

text \<open>The refusal names the number of live workloads that the transaction counted.\<close>

definition remove_err :: "uuid \<Rightarrow> err \<Rightarrow> server \<Rightarrow> response" where
  "remove_err i e h = (if e = ErrNotFound then not_found ''node not found''
     else if e = ErrNodeBusy then writeErr 409 ''node_busy'' (''node has '' @ Itoa (int (affected (live_on i) (workloads (s_db (h_sys h))))) @
       '' active workload(s); stop them first or retry with ?force=true'')
     else internal ''could not remove node'')"

definition removeNode :: handler where
  "removeNode c = with_id ''id'' c (\<lambda>i. let force = (c_query c ''force'' = ''true'') in
     call (atomically (RemoveNode (c_clk c) (c_org c) i force)) (\<lambda>r. case r of
       Inl e \<Rightarrow> (\<lambda>h. (remove_err i e h, h))
     | Inr res \<Rightarrow> kick_node c i (\<lambda>kicked.
         let counts = [(''failed_workloads'', JNat (rr_FailedWorkloads res)), (''credentials_revoked'', JNat (rr_CredentialsRevoked res)),
               (''stream_kicked'', JBool kicked)]
         in effect (userEvent c (c_user c) ''node.remove'' ''node'' (uuid_str i) ((''force'', JBool force) # counts))
              (Pair (writeJSON 200 (JObj ((''removed'', JBool True) # counts)))))))"

definition listNodeGPUs :: handler where
  "listNodeGPUs c = with_id ''id'' c (\<lambda>i.
     list_query (\<lambda>d. filter (\<lambda>g. g_NodeID g = i) (ListGPUs (c_org c) None d)) ''could not list gpus'' (jslice gpuResponse))"

text \<open>A status that no row has selects nothing.\<close>

definition gpus_with :: "uuid \<Rightarrow> string \<Rightarrow> db \<Rightarrow> GPU list" where
  "gpus_with orgID status d = (if status = '''' then ListGPUs orgID None d
     else case parse_gpu_status status of None \<Rightarrow> [] | Some st \<Rightarrow> ListGPUs orgID (Some st) d)"

definition listGPUs :: handler where
  "listGPUs c = list_query (gpus_with (c_org c) (c_query c ''status'')) ''could not list gpus'' (jlist gpuResponse)"

text \<open>\<open>config\<close>: an error of the query leaves an empty list.\<close>

definition config :: handler where
  "config c = call (query (\<lambda>d. Inr (ListGPUs (c_org c) None d))) (\<lambda>r.
     let gs = (case r of Inl _ \<Rightarrow> [] | Inr xs \<Rightarrow> xs); synthetic = length (filter synthetic_gpu gs)
     in Pair (writeJSON 200 (JObj [(''dev_mode'', JBool (synthetic > 0)), (''synthetic_gpu_count'', JNat synthetic),
          (''total_gpu_count'', JNat (length gs)),
          (''disclaimer'', JStr ''Synthetic GPUs are simulated for development. Metrics are generated, not measured. Not production hardware.''),
          (''self_topup_enabled'', JBool (a_allowSelfTopup (c_api c))), (''email_verification_enabled'', JBool (emailEnabled (c_api c)))])))"

section \<open>Templates\<close>

definition listTemplates :: handler where
  "listTemplates c = list_query (ListTemplates (c_org c)) ''could not list templates'' (jlist templateResponse)"

definition getTemplate :: handler where
  "getTemplate c = with_id ''id'' c (\<lambda>i. attempt (query (GetTemplate (c_org c) i)) (\<lambda>_. not_found ''template not found'')
     (\<lambda>t. Pair (writeJSON 200 (templateResponse t))))"

definition admin_only :: "ctx \<Rightarrow> (server \<Rightarrow> response \<times> server) \<Rightarrow> server \<Rightarrow> response \<times> server" where
  "admin_only c = guard (c_admin c) (writeErr 403 ''forbidden'' ''admin only'')"

definition body_template :: "ctx \<Rightarrow> Template" where
  "body_template c = (let b = c_body c in
     \<lparr>tp_ID = uuid_Nil, tp_OrgID = None, tp_Name = str_field ''name'' b, tp_Description = str_field ''description'' b,
      tp_BaseImage = str_field ''base_image'' b, tp_Software = software_field ''software'' b, tp_Version = str_field ''version'' b,
      tp_Tags = strings_field ''tags'' b, tp_DefaultExposeSSH = bool_field ''default_expose_ssh'' b,
      tp_DefaultExposeJupyter = bool_field ''default_expose_jupyter'' b, tp_Enabled = False, tp_CreatedAt = 0\<rparr>)"

definition createTemplate :: handler where
  "createTemplate c = admin_only c
    (guard (decode_ok [(''name'', TString), (''description'', TString), (''base_image'', TString), (''software'', TSoftware), (''version'', TString),
        (''tags'', TStrings), (''default_expose_ssh'', TBool), (''default_expose_jupyter'', TBool)] (c_body c)) (invalid ''invalid JSON'')
    (guard (str_field ''name'' (c_body c) \<noteq> '''' \<and> str_field ''base_image'' (c_body c) \<noteq> '''') (invalid ''name and base_image are required'')
    (attempt (CreateTemplate (c_clk c) (c_ids c 1) (c_org c) (body_template c)) (\<lambda>_. internal ''could not create template'') (\<lambda>t.
       effect (userEvent c (c_user c) ''template.create'' ''template'' (uuid_str (tp_ID t)) [(''name'', JStr (tp_Name t)), (''base_image'', JStr (tp_BaseImage t))])
         (Pair (writeJSON 201 (templateResponse t)))))))"

section \<open>Workloads\<close>

definition status_filter :: "User \<Rightarrow> WorkloadState option \<Rightarrow> ListFilter" where
  "status_filter u st = \<lparr>lf_Status = st, lf_UserID = None, lf_ProjectID = None, lf_Viewer = Some (u_ID u),
     lf_ViewerIsAdmin = AtLeast (u_Role u) RoleAdmin\<rparr>"

definition workloads_with :: "User \<Rightarrow> string \<Rightarrow> db \<Rightarrow> Workload list" where
  "workloads_with u status d = (if status = '''' then List_workloads (org_of u) (status_filter u None) d
     else case parse_state status of None \<Rightarrow> [] | Some st \<Rightarrow> List_workloads (org_of u) (status_filter u (Some st)) d)"

definition listWorkloads :: handler where
  "listWorkloads c = list_query (workloads_with (c_user c) (c_query c ''status'')) ''could not list workloads''
     (jlist (\<lambda>w. workloadResponse w (canViewWorkloadSecrets (c_user c) w)))"

text \<open>The request of \<open>launchWorkload\<close> before the template, the project and the department are resolved.\<close>

definition launch_fields :: "(string \<times> ftype) list" where
  "launch_fields = [(''name'', TString), (''template_id'', TString), (''image'', TString), (''gpu_type'', TString), (''gpu_count'', TInt),
     (''project_id'', TString), (''department_id'', TString), (''idle_timeout_sec'', TInt), (''expose_ssh'', TBool), (''expose_jupyter'', TBool)]"

definition base_request :: "ctx \<Rightarrow> LaunchRequest" where
  "base_request c = (let b = c_body c; n = int_field ''gpu_count'' b in
     \<lparr>lr_UserID = u_ID (c_user c), lr_ProjectID = None, lr_DepartmentID = None, lr_Name = str_field ''name'' b, lr_TemplateID = None,
      lr_Image = str_field ''image'' b, lr_GPUType = str_field ''gpu_type'' b, lr_GPUCount = (if n \<le> 0 then 1 else n),
      lr_IdleTimeoutSec = int_ptr ''idle_timeout_sec'' b, lr_ExposeSSH = False, lr_ExposeJupyter = False\<rparr>)"

definition with_template ::
  "ctx \<Rightarrow> LaunchRequest \<Rightarrow> (LaunchRequest \<Rightarrow> server \<Rightarrow> response \<times> server) \<Rightarrow> server \<Rightarrow> response \<times> server" where
  "with_template c req k = (let t = str_field ''template_id'' (c_body c) in
     if t = '''' then k req
     else case a_parseUUID (c_api c) t of
       Some tid \<Rightarrow> attempt (query (GetTemplate (c_org c) tid)) (\<lambda>_. invalid ''unknown template'') (\<lambda>tpl.
         k (req\<lparr>lr_TemplateID := Some (tp_ID tpl), lr_Image := tp_BaseImage tpl, lr_ExposeSSH := tp_DefaultExposeSSH tpl,
                lr_ExposeJupyter := tp_DefaultExposeJupyter tpl\<rparr>))
     | None \<Rightarrow> k (if lr_Image req = '''' then req\<lparr>lr_Image := t\<rparr> else req))"

definition overridden :: "ctx \<Rightarrow> LaunchRequest \<Rightarrow> LaunchRequest" where
  "overridden c req = req\<lparr>
     lr_ExposeSSH := (case bool_ptr ''expose_ssh'' (c_body c) of None \<Rightarrow> lr_ExposeSSH req | Some x \<Rightarrow> x),
     lr_ExposeJupyter := (case bool_ptr ''expose_jupyter'' (c_body c) of None \<Rightarrow> lr_ExposeJupyter req | Some x \<Rightarrow> x)\<rparr>"

text \<open>An optional id of the body; one that does not parse is ignored.\<close>

definition opt_id :: "ctx \<Rightarrow> string \<Rightarrow> uuid option" where
  "opt_id c k = (case str_ptr k (c_body c) of None \<Rightarrow> None | Some s \<Rightarrow> if s = '''' then None else a_parseUUID (c_api c) s)"

definition project_err :: "ctx \<Rightarrow> err \<Rightarrow> response" where
  "project_err c e = (if e = ErrNotFound then invalid ''unknown project''
     else if e = ErrProjectForbidden then writeErr 403 ''project_forbidden'' (err_text (c_api c) e)
     else internal ''could not authorize project'')"

definition with_project :: "ctx \<Rightarrow> LaunchRequest \<Rightarrow> (LaunchRequest \<Rightarrow> server \<Rightarrow> response \<times> server) \<Rightarrow> server \<Rightarrow> response \<times> server" where
  "with_project c req k = (case opt_id c ''project_id'' of
       Some pid \<Rightarrow> attempt (AuthorizeProjectUse (c_org c) pid (u_ID (c_user c)) (c_admin c)) (project_err c)
         (\<lambda>_. k (req\<lparr>lr_ProjectID := Some pid\<rparr>))
     | None \<Rightarrow> call (EnsureDefaultProject (c_clk c) (c_ids c 3) (c_org c)) (\<lambda>r.
         k (case r of Inl _ \<Rightarrow> req | Inr pid \<Rightarrow> req\<lparr>lr_ProjectID := Some pid\<rparr>)))"

definition department_of :: "ctx \<Rightarrow> uuid option" where
  "department_of c = (case str_ptr ''department_id'' (c_body c) of
       Some s \<Rightarrow> if s = '''' then u_DepartmentID (c_user c) else a_parseUUID (c_api c) s
     | None \<Rightarrow> u_DepartmentID (c_user c))"

definition launch_err :: "ctx \<Rightarrow> err \<Rightarrow> response" where
  "launch_err c e = (if e = ErrNoGPUsAvailable then writeErr 409 ''no_capacity'' ''no GPUs available matching request''
     else if e = ErrInsufficientCredit then writeErr 402 ''insufficient_credit'' ''your organization has no remaining credit; add credits to launch workloads''
     else case e of
       ErrInvalidRequest _ \<Rightarrow> invalid (err_text (c_api c) e)
     | ErrBudgetExceeded _ \<Rightarrow> writeErr 402 ''budget_exceeded'' (err_text (c_api c) e)
     | _ \<Rightarrow> internal ''could not launch workload'')"

definition launchWorkload :: handler where
  "launchWorkload c = guard (decode_ok launch_fields (c_body c)) (invalid ''invalid JSON'')
    (guard (str_field ''name'' (c_body c) \<noteq> '''') (invalid ''name is required'')
    (with_template c (base_request c) (\<lambda>req0. let req1 = overridden c req0 in
       guard (lr_Image req1 \<noteq> '''') (invalid ''template_id or image is required'')
      (with_project c req1 (\<lambda>req2.
         attempt (Launch (a_service (c_api c)) (c_clk c) (c_locked c) (c_ids c 1) (c_ids c 2) (c_rnds c 0) (c_org c)
             (req2\<lparr>lr_DepartmentID := department_of c\<rparr>)) (launch_err c) (\<lambda>wl.
           effect (userEvent c (c_user c) ''workload.launch'' ''workload'' (uuid_str (w_ID wl)) [(''name'', JStr (w_Name wl)),
               (''image'', JStr (w_Image wl)), (''gpu_count'', JInt (w_RequestedGPUCount wl)), (''status'', JStr (state_name (w_Status wl)))])
             (Pair (writeJSON 201 (workloadResponse wl True)))))))))"

definition canViewWorkload :: "ctx \<Rightarrow> Workload \<Rightarrow> sys \<Rightarrow> bool \<times> sys" where
  "canViewWorkload c wl s =
     (if w_UserID wl = u_ID (c_user c) \<or> c_admin c then (True, s)
      else case w_ProjectID wl of
        None \<Rightarrow> (True, s)
      | Some pid \<Rightarrow> (case CanViewProject (c_org c) pid (u_ID (c_user c)) False s of (r, s1) \<Rightarrow> (r = Inr True, s1)))"

text \<open>The reads of \<open>getWorkload\<close>, \<open>stopWorkload\<close>, \<open>workloadLogs\<close> and \<open>workloadEvents\<close>: the
  workload of the caller's organisation, hidden unless its project is visible.\<close>

definition visible_workload ::
  "ctx \<Rightarrow> (err \<Rightarrow> response) \<Rightarrow> uuid \<Rightarrow> (Workload \<Rightarrow> server \<Rightarrow> response \<times> server) \<Rightarrow> server \<Rightarrow> response \<times> server" where
  "visible_workload c onerr i k = attempt (query (Get (c_org c) i)) onerr (\<lambda>wl.
     call (canViewWorkload c wl) (\<lambda>ok. guard ok (not_found ''workload not found'') (k wl)))"

definition label_of :: "User \<Rightarrow> string" where
  "label_of us = (if u_Name us \<noteq> '''' then u_Name us @ '' <'' @ u_Email us @ ''>'' else u_Email us)"

definition resolveUserLabel :: "uuid \<Rightarrow> uuid \<Rightarrow> sys \<Rightarrow> string \<times> sys" where
  "resolveUserLabel orgID userID s = (case query (\<lambda>d. Inr (ListUsers orgID d)) s of
       (Inl _, s1) \<Rightarrow> ('''', s1)
     | (Inr us, s1) \<Rightarrow> (case find (\<lambda>u. u_ID u = userID) us of None \<Rightarrow> '''' | Some u \<Rightarrow> label_of u, s1))"

definition resolveDepartmentName :: "uuid \<Rightarrow> uuid \<Rightarrow> sys \<Rightarrow> string \<times> sys" where
  "resolveDepartmentName orgID deptID s = (case query (\<lambda>d. Inr (ListDepartments orgID d)) s of
       (Inl _, s1) \<Rightarrow> ('''', s1)
     | (Inr ds, s1) \<Rightarrow> (case find (\<lambda>x. dp_ID (fst x) = deptID) ds of None \<Rightarrow> '''' | Some x \<Rightarrow> dp_Name (fst x), s1))"

definition department_member :: "ctx \<Rightarrow> Workload \<Rightarrow> sys \<Rightarrow> (string \<times> json) list \<times> sys" where
  "department_member c wl s = (case w_DepartmentID wl of
       None \<Rightarrow> ([], s)
     | Some i \<Rightarrow> (case resolveDepartmentName (c_org c) i s of (name, s1) \<Rightarrow> ([(''department'', JStr name)], s1)))"

definition template_member :: "ctx \<Rightarrow> Workload \<Rightarrow> sys \<Rightarrow> (string \<times> json) list \<times> sys" where
  "template_member c wl s = (case w_TemplateID wl of
       None \<Rightarrow> ([], s)
     | Some i \<Rightarrow> (case query (GetTemplate (c_org c) i) s of
         (Inl _, s1) \<Rightarrow> ([], s1)
       | (Inr t, s1) \<Rightarrow> ([(''template'', JStr (tp_Name t)), (''template_version'', JStr (tp_Version t))], s1)))"

definition getWorkload :: handler where
  "getWorkload c = with_id ''id'' c (\<lambda>i.
     attempt (query (Detail (go_now (c_clk c)) (c_org c) i)) (missing_or ''workload not found'' ''could not get workload'') (\<lambda>d.
       let wl = dv_Workload d in
       call (canViewWorkload c wl) (\<lambda>ok. guard ok (not_found ''workload not found'')
        (call (resolveUserLabel (c_org c) (w_UserID wl)) (\<lambda>owner_label.
         call (department_member c wl) (\<lambda>dept.
         call (template_member c wl) (\<lambda>tpl.
           Pair (writeJSON 200 (JObj (workload_members wl (canViewWorkloadSecrets (c_user c) wl) @
             [(''gpus'', jlist (\<lambda>g. JObj [(''uuid'', JStr (fst g)), (''model'', JStr (snd g))]) (dv_GPUs d)),
              (''runtime_seconds'', JInt (dv_RuntimeSeconds d)), (''runtime_cost'', JNum (dv_RuntimeCost d)),
              (''currency'', JStr (dv_Currency d)), (''owner'', JStr owner_label)] @ dept @ tpl))))))))))"

definition stop_reason :: "ctx \<Rightarrow> StopReason" where
  "stop_reason c = (if c_admin c \<and> c_query c ''reason'' = ''admin'' then StopAdmin else StopUser)"

definition stopWorkload :: handler where
  "stopWorkload c = with_id ''id'' c (\<lambda>i.
     visible_workload c (missing_or ''workload not found'' ''could not load workload'') i (\<lambda>wl.
       if w_Status wl = WorkloadQueued
       then attempt (CancelQueued (a_service (c_api c)) (c_clk c) i) (\<lambda>_. internal ''could not cancel queued workload'') (\<lambda>_. Pair (WriteHeader 204))
       else attempt (Stop (a_service (c_api c)) (c_clk c) (c_ids c 1) i (stop_reason c)) (\<lambda>_. internal ''could not stop workload'') (\<lambda>_.
         effect (userEvent c (c_user c) ''workload.stop'' ''workload'' (uuid_str i) [(''reason'', JStr (stop_reason_name (stop_reason c)))])
           (Pair (WriteHeader 204)))))"

definition workloadLogs :: handler where
  "workloadLogs c = with_id ''id'' c (\<lambda>i. visible_workload c (\<lambda>_. not_found ''workload not found'') i (\<lambda>wl.
     guard (canViewWorkloadSecrets (c_user c) wl) (writeErr 403 ''forbidden'' ''only the workload owner or an admin can view logs'')
       (Pair (writeJSON 200 (JObj [(''logs'', JStr (w_Logs wl))])))))"

definition workloadEvents :: handler where
  "workloadEvents c = with_id ''id'' c (\<lambda>i. visible_workload c (\<lambda>_. not_found ''workload not found'') i (\<lambda>_.
     attempt (query (ListEvents (c_org c) i)) (missing_or ''workload not found'' ''could not query events'')
       (\<lambda>evs. Pair (writeJSON 200 (jlist event_json evs)))))"

definition queue :: handler where
  "queue c = list_query (ListQueue (c_clk c) (c_org c)) ''could not load queue'' queue_json"

section \<open>Metrics\<close>

definition summary_json :: "Summary \<Rightarrow> json" where
  "summary_json s = JObj [(''gpu_total'', JNat (su_GPUTotal s)), (''gpus_idle'', JNat (su_GPUsIdle s)), (''avg_util_pct'', JNum (su_AvgUtilPct s)),
     (''idle_cost_24h'', JNum (su_IdleCost24h s)), (''workloads_active'', JNat (su_WorkloadsActive s))]"

definition fleetSummary :: handler where
  "fleetSummary c = list_query (FleetSummary (db_now (c_clk c)) (c_org c)) ''could not get summary'' summary_json"

definition util_query :: "ctx \<Rightarrow> UtilQuery" where
  "util_query c = (let now = go_now (c_clk c); i = c_query c ''id''; scope = c_query c ''scope'' in
     \<lparr>uq_Scope = (if scope = '''' then ''fleet'' else scope),
      uq_ID = (if i = '''' then uuid_Nil else case a_parseUUID (c_api c) i of None \<Rightarrow> uuid_Nil | Some x \<Rightarrow> x),
      uq_From = parseTime (c_query c ''from'') (now - 24 * hour), uq_To = parseTime (c_query c ''to'') now, uq_Interval = 5 * minute\<rparr>)"

definition point_json :: "Point \<Rightarrow> json" where
  "point_json p = JObj [(''ts'', JSec (pt_TS p)), (''util_pct'', JNum (pt_UtilPct p)), (''mem_pct'', JNum (pt_MemPct p))]"

definition utilization :: handler where
  "utilization c = attempt (query (Utilization_of (a_rawRetention (c_api c)) (c_clk c) (c_org c) (util_query c)))
     (\<lambda>_. internal ''could not get utilization'') (\<lambda>ps. Pair (writeJSON 200 (jlist point_json ps)))"

definition finding_json :: "IdleFinding \<Rightarrow> json" where
  "finding_json f = JObj ([(''gpu_id'', JID (if_GPUID f)), (''idle_seconds'', JInt (if_IdleSeconds f)), (''idle_cost'', JNum (if_IdleCost f))] @
     jsome ''workload_id'' JID (if_WorkloadID f))"

definition idleReport :: handler where
  "idleReport c = list_query (IdleReport_of (c_clk c) (c_org c) (go_now (c_clk c) - 24 * hour) (go_now (c_clk c))) ''could not evaluate idle''
     (\<lambda>r. JObj [(''total_idle_cost'', JNum (ir_TotalIdleCost r)), (''gpu_count'', JNat (length (ir_IdleGPUs r))),
        (''findings'', jlist finding_json (ir_IdleGPUs r))])"

section \<open>Probes and diagnostics\<close>

definition healthz :: handler where
  "healthz c = Pair (writeJSON 200 (JObj [(''status'', JStr ''ok'')]))"

definition readyz :: handler where
  "readyz c = (case a_health (c_api c) of
       None \<Rightarrow> Pair (writeJSON 200 (JObj [(''status'', JStr ''ready'')]))
     | Some _ \<Rightarrow> attempt Ready (\<lambda>e. writeJSON 503 (JObj [(''status'', JStr ''unavailable''), (''error'', JStr (err_text (c_api c) e))]))
         (\<lambda>_. Pair (writeJSON 200 (JObj [(''status'', JStr ''ready'')]))))"

text \<open>The number of connected agents: the streams registered with the dispatcher.\<close>

definition org_agents :: "uuid \<Rightarrow> sys \<Rightarrow> (string \<times> json) list \<times> sys" where
  "org_agents orgID s = (case query (\<lambda>d. Inr (ListNodes orgID d)) s of
       (Inl _, s1) \<Rightarrow> ([], s1)
     | (Inr vs, s1) \<Rightarrow> ([(''org_nodes_online'', JNat (affected (\<lambda>v. nv_Status v = NodeOnline) vs)), (''org_nodes_total'', JNat (length vs))], s1))"

definition adminHealth :: handler where
  "adminHealth c h = (case a_health (c_api c) of
       None \<Rightarrow> (not_found ''diagnostics not configured'', h)
     | Some he \<Rightarrow>
         call (Check (err_text (c_api c)) he (c_clk c) (card (ConnectedNodes (h_streams h))) (h_jobs h)) (\<lambda>rep.
           call (org_agents (c_org c)) (\<lambda>own.
             Pair (writeJSON 200 (report_json (rep\<lparr>hp_Agents := (hp_Agents rep)\<lparr>cm_Detail := cm_Detail (hp_Agents rep) @ own\<rparr>\<rparr>))))) h)"

text \<open>\<open>metricsHandler\<close>: closed in production unless a token is configured, and then by that token.\<close>

definition metricsHandler :: handler where
  "metricsHandler c = (let a = c_api c in case a_metrics a of
       None \<Rightarrow> Pair (not_found ''metrics not configured'')
     | Some scrape \<Rightarrow>
         if a_metricsToken a = '''' then Pair (if a_secureCookies a then not_found ''metrics not configured'' else scrape)
         else if bearerToken (c_req c) \<noteq> a_metricsToken a then Pair (writeErr 401 ''unauthorized'' ''invalid metrics token'')
         else Pair scrape)"

section \<open>Realtime events\<close>

text \<open>
  \<open>json.Marshal\<close> of an event. Quotes, backslashes, control characters and the characters of HTML
  are escaped, so the text stays on one line. \<open>num\<close> prints a \<open>float64\<close>. The members of
  \<open>Data\<close>, a Go map, are in the order of their keys.
\<close>

definition json_escape :: "char \<Rightarrow> string" where
  "json_escape c = (let n = (of_char c :: nat) in
     if c = CHR 0x22 \<or> c = CHR 0x5C then [CHR 0x5C, c]
     else if n = 8 then [CHR 0x5C, CHR ''b''] else if n = 12 then [CHR 0x5C, CHR ''f'']
     else if n = 10 then [CHR 0x5C, CHR ''n''] else if n = 13 then [CHR 0x5C, CHR ''r''] else if n = 9 then [CHR 0x5C, CHR ''t'']
     else if n < 32 \<or> c = CHR ''<'' \<or> c = CHR ''>'' \<or> c = CHR ''&'' then [CHR 0x5C] @ ''u00'' @ [hex_digit (n div 16), hex_digit n]
     else [c])"

definition json_string :: "string \<Rightarrow> string" where
  "json_string s = [CHR 0x22] @ concat (map json_escape s) @ [CHR 0x22]"

definition separated :: "string \<Rightarrow> string list \<Rightarrow> string" where
  "separated sep xs = concat (case xs of [] \<Rightarrow> [] | y # ys \<Rightarrow> y # map ((@) sep) ys)"

fun json_text :: "(rat \<Rightarrow> string) \<Rightarrow> json \<Rightarrow> string" where
  "json_text num JNull = ''null''"
| "json_text num (JBool b) = (if b then ''true'' else ''false'')"
| "json_text num (JInt n) = Itoa n"
| "json_text num (JNum r) = num r"
| "json_text num (JStr s) = json_string s"
| "json_text num (JArr xs) = ''['' @ separated '','' (map (json_text num) xs) @ '']''"
| "json_text num (JObj ms) = ''{'' @ separated '','' (map (\<lambda>m. json_string (fst m) @ '':'' @ json_text num (snd m)) ms) @ ''}''"

definition event_doc :: "Event \<Rightarrow> json" where
  "event_doc e = JObj ([(''topic'', JStr (ev_Topic e))] @ jwhen (ev_Data e \<noteq> []) ''data'' (JObj (sort_key fst (ev_Data e))))"

definition NL :: string where "NL = [CHR 0x0A]"

definition sse_frame :: "(rat \<Rightarrow> string) \<Rightarrow> Event \<Rightarrow> string" where
  "sse_frame num e = ''event: change'' @ NL @ ''data: '' @ json_text num (event_doc e) @ NL @ NL"

text \<open>
  \<open>eventStream\<close> up to its loop: the head, the greeting and the subscription; the channel is named
  by a draw of the request.
\<close>

definition stream_head :: response where
  "stream_head = \<lparr>hr_Status = 200, hr_Header = [(''Content-Type'', ''text/event-stream''), (''Cache-Control'', ''no-cache''),
     (''X-Accel-Buffering'', ''no'')], hr_Cookies = [], hr_Body = Raw (''retry: 3000'' @ NL @ '': connected'' @ NL @ NL)\<rparr>"

definition stream_token :: "ctx \<Rightarrow> string" where
  "stream_token c = (let t = bearerToken (c_req c) in if t = '''' then c_query c ''token'' else t)"

definition eventStream :: handler where
  "eventStream c = guard (a_events (c_api c)) (not_found ''realtime not configured'')
    (guard (stream_token c \<noteq> '''') (writeErr 401 ''unauthorized'' ''missing token'')
    (attempt (authenticateToken c (stream_token c)) (\<lambda>_. writeErr 401 ''unauthorized'' ''invalid or expired token'') (\<lambda>u.
       guard (Onboarded u) (writeErr 409 ''onboarding_required'' ''create or join an organization to continue'')
      (guard (hq_Flusher (c_req c)) (internal ''streaming unsupported'')
      (effect (\<lambda>h. h\<lparr>h_hub := Subscribe (org_of u) (c_ids c 1) (h_hub h)\<rparr>) (Pair stream_head))))))"

text \<open>
  The loop of \<open>eventStream\<close>, one step per case of its \<open>select\<close>: what is written, whether the
  stream goes on, and the hub. A failed write ends it, and so does the end of the request; then
  \<open>cancel\<close> removes the subscription.
\<close>

datatype sse_case = CtxDone | Heartbeat | EventReady

definition sse_step :: "(rat \<Rightarrow> string) \<Rightarrow> uuid \<Rightarrow> nat \<Rightarrow> bool \<Rightarrow> sse_case \<Rightarrow> hub \<Rightarrow> (string \<times> bool) \<times> hub" where
  "sse_step num orgID ch writes x h = (case x of
       CtxDone \<Rightarrow> (('''', False), Cancel orgID ch h)
     | Heartbeat \<Rightarrow> if writes then (('': ping'' @ NL @ NL, True), h) else (('''', False), Cancel orgID ch h)
     | EventReady \<Rightarrow> (case Receive ch h of
           (None, h1) \<Rightarrow> (('''', True), h1)
         | (Some e, h1) \<Rightarrow> if writes then ((sse_frame num e, True), h1) else (('''', False), Cancel orgID ch h1)))"

end
