(* ===== verification/Http_Admin.thy ===== *)
theory Http_Admin
  imports Http_Fleet
begin

text \<open>
  The handlers of administration: billing, projects, users and enrolment tokens (\<open>router.go\<close>,
  \<open>phase1.go\<close>, \<open>phase6.go\<close>), reservations, budgets and alerts (\<open>ops.go\<close>), and the search of the
  audit log (\<open>observability.go\<close>).
\<close>

abbreviation bad_json :: response where "bad_json \<equiv> invalid ''invalid JSON''"
abbreviation no_content :: "server \<Rightarrow> response \<times> server" where "no_content \<equiv> Pair (WriteHeader 204)"

section \<open>Billing\<close>

definition period_of :: "ctx \<Rightarrow> time \<times> time" where
  "period_of c = (parseTime (c_query c ''from'') (firstOfMonth c), parseTime (c_query c ''to'') (go_now (c_clk c)))"

definition report_for :: "ctx \<Rightarrow> string \<Rightarrow> db \<Rightarrow> ChargebackReport" where
  "report_for c groupBy = Chargeback (c_org c) (fst (period_of c)) (snd (period_of c))
     (if c_query c ''group_by'' = '''' then groupBy else c_query c ''group_by'')"

definition chargeback :: handler where
  "chargeback c = list_query (report_for c ''project'') ''could not generate report'' chargeback_json"

definition csvEscape :: "string \<Rightarrow> string" where
  "csvEscape s = (if CHR '','' \<in> set s \<or> CHR 0x22 \<in> set s \<or> CHR 0x0A \<in> set s
     then [CHR 0x22] @ concat (map (\<lambda>c. if c = CHR 0x22 then [c, c] else [c]) s) @ [CHR 0x22] else s)"

definition csv_row :: "ChargebackRow \<Rightarrow> string" where
  "csv_row r = csvEscape (cb_GroupKey r) @ '','' @ fixed 2 (cb_GPUHours r) @ '','' @ fixed 1 (cb_UtilPct r) @ '','' @
     fixed 4 (cb_Amount r) @ '','' @ cb_Currency r @ NL"

definition csv_text :: "ChargebackReport \<Rightarrow> string" where
  "csv_text r = rp_GroupBy r @ '',gpu_hours,utilization_pct,amount,currency'' @ NL @ concat (map csv_row (rp_Rows r)) @
     ''TOTAL,,,'' @ fixed 4 (rp_Total r) @ '','' @ rp_Currency r @ NL"

definition chargebackCSV :: handler where
  "chargebackCSV c = attempt (query (\<lambda>d. Inr (report_for c ''department'' d))) (\<lambda>_. internal ''could not generate report'') (\<lambda>r.
     Pair \<lparr>hr_Status = 200, hr_Header = [(''Content-Type'', ''text/csv''), (''Content-Disposition'',
       ''attachment; filename=chargeback-'' @ rp_GroupBy r @ ''-'' @ date_digits (go_now (c_clk c)) @ ''.csv'')],
       hr_Cookies = [], hr_Body = Raw (csv_text r)\<rparr>)"

definition listRates :: handler where
  "listRates c = list_query (ListRates (c_org c)) ''could not list rates'' (jlist rateCardResponse)"

definition setRate :: handler where
  "setRate c = admin_only c
    (guard (decode_ok [(''gpu_model'', TString), (''rate_per_gpu_hour'', TFloat), (''currency'', TString)] (c_body c)) bad_json
    (let model = str_field ''gpu_model'' (c_body c); rate = float_field ''rate_per_gpu_hour'' (c_body c);
         cur0 = str_field ''currency'' (c_body c); cur = (if cur0 = '''' then ''USD'' else cur0) in
     attempt (SetRate (c_clk c) (c_ids c 1) (c_org c) model rate cur) (\<lambda>_. internal ''could not set rate'') (\<lambda>rc.
       effect (userEvent c (c_user c) ''billing.rate_set'' ''rate_card'' (uuid_str (rc_ID rc)) [(''gpu_model'', JStr model),
           (''rate_per_gpu_hour'', JNum rate), (''currency'', JStr cur)])
         (Pair (writeJSON 201 (rateCardResponse rc))))))"

definition creditSummary :: handler where
  "creditSummary c = attempt (CreditSummary (c_clk c) (c_org c)) (\<lambda>_. internal ''could not load credit balance'')
     (\<lambda>s. Pair (writeJSON 200 (credit_summary_json s)))"

definition ledger_limit :: "ctx \<Rightarrow> int" where
  "ledger_limit c = (case Atoi (c_query c ''limit'') of None \<Rightarrow> 50 | Some n \<Rightarrow> n)"

definition creditLedger :: handler where
  "creditLedger c = list_query (Ledger (c_org c) (ledger_limit c)) ''could not load ledger'' (jlist ledger_json)"

text \<open>A JSON number is finite, so the guard against NaN and infinities always passes.\<close>

definition topupCredits :: handler where
  "topupCredits c =
     guard (a_allowSelfTopup (c_api c)) (writeErr 403 ''topup_disabled''
       ''self-serve top-ups are disabled on this deployment; contact your provider to add credits'')
    (admin_only c
    (guard (decode_ok [(''amount'', TFloat), (''description'', TString)] (c_body c)) bad_json
    (let amount = float_field ''amount'' (c_body c); desc0 = str_field ''description'' (c_body c);
         desc = (if desc0 = '''' then ''Credit top-up'' else desc0) in
     guard (amount > 0) (invalid ''amount must be a positive number'')
    (guard (amount \<le> 10 ^ 9) (invalid ''amount exceeds the maximum single top-up of 1,000,000,000'')
    (attempt (AddCredit (c_clk c) (c_org c) amount ''topup'' desc) (\<lambda>_. internal ''could not add credits; please try again'') (\<lambda>balance.
       effect (userEvent c (c_user c) ''billing.topup'' ''credit_ledger'' '''' [(''amount'', JNum amount), (''balance'', JNum balance), (''description'', JStr desc)])
         (Pair (writeJSON 201 (JObj [(''balance'', JNum balance)])))))))))"

section \<open>Projects\<close>

definition listProjects :: handler where
  "listProjects c = list_query (ListProjects (c_org c) (u_ID (c_user c))) ''could not list projects'' (jslice project_row_json)"

definition createProject :: handler where
  "createProject c = guard (decode_ok [(''name'', TString), (''description'', TString)] (c_body c) \<and> str_field ''name'' (c_body c) \<noteq> '''')
      (invalid ''name is required'')
    (attempt (CreateProject (c_clk c) (c_ids c 1) (c_org c) (str_field ''name'' (c_body c)) (str_field ''description'' (c_body c)) (u_ID (c_user c)))
       (\<lambda>_. internal ''could not create project'') (\<lambda>p.
       effect (userEvent c (c_user c) ''project.create'' ''project'' (uuid_str (pj_ID p)) [(''name'', JStr (str_field ''name'' (c_body c)))])
         (Pair (writeJSON 201 (project_json p)))))"

definition project_doc :: "Project \<Rightarrow> (string \<times> json) list" where
  "project_doc p = [(''id'', JID (pj_ID p)), (''name'', JStr (pj_Name p)), (''description'', JStr (pj_Description p)),
     (''visibility'', JStr (pj_Visibility p)), (''archived_at'', jopt JTime (pj_ArchivedAt p)), (''created_at'', JTime (pj_CreatedAt p))]"

text \<open>An error of the second query leaves a nil slice.\<close>

definition getProject :: handler where
  "getProject c = with_id ''id'' c (\<lambda>i. attempt (query (GetProject (c_org c) i)) (missing_or ''project not found'' ''could not load project'') (\<lambda>p.
     call (query (\<lambda>d. Inr (ListProjectMembers (c_org c) i d))) (\<lambda>r.
       Pair (writeJSON 200 (JObj (project_doc p @ [(''members'', case r of Inl _ \<Rightarrow> JNull | Inr ms \<Rightarrow> jlist project_member_json ms)]))))))"

definition patch_and_answer :: "ctx \<Rightarrow> uuid \<Rightarrow> server \<Rightarrow> response \<times> server" where
  "patch_and_answer c i = attempt (UpdateProject (c_org c) i (str_ptr ''name'' (c_body c)) (str_ptr ''description'' (c_body c)) (str_ptr ''visibility'' (c_body c)))
     (\<lambda>e. if e = ErrNotFound then not_found ''project not found'' else invalid (err_text (c_api c) e)) (\<lambda>p.
     effect (userEvent c (c_user c) ''project.update'' ''project'' (uuid_str i) [(''visibility'', JStr (pj_Visibility p))])
       (Pair (writeJSON 200 (JObj (project_doc p)))))"

definition updateProject :: handler where
  "updateProject c = with_id ''id'' c (\<lambda>i.
     guard (decode_ok [(''name'', TString), (''description'', TString), (''visibility'', TString), (''archived'', TBool)] (c_body c)) bad_json
    (case bool_ptr ''archived'' (c_body c) of
       None \<Rightarrow> patch_and_answer c i
     | Some arch \<Rightarrow> attempt (SetProjectArchived (c_clk c) (c_org c) i arch) (missing_or ''project not found'' ''could not archive project'') (\<lambda>_.
         effect (userEvent c (c_user c) ''project.archive'' ''project'' (uuid_str i) [(''archived'', JBool arch)]) (patch_and_answer c i))))"

definition listProjectMembers :: handler where
  "listProjectMembers c = with_id ''id'' c (\<lambda>i.
     list_query (ListProjectMembers (c_org c) i) ''could not list project members'' (jlist project_member_json))"

definition addProjectMember :: handler where
  "addProjectMember c = with_id ''id'' c (\<lambda>i.
     guard (decode_ok [(''user_id'', TString)] (c_body c)) bad_json
    (case a_parseUUID (c_api c) (str_field ''user_id'' (c_body c)) of
       None \<Rightarrow> Pair (invalid ''invalid user_id'')
     | Some target \<Rightarrow> attempt (AddProjectMember (c_clk c) (c_org c) i target (u_ID (c_user c)))
         (missing_or ''project or user not found in this organization'' ''could not add project member'') (\<lambda>_.
         effect (userEvent c (c_user c) ''project.member_add'' ''project'' (uuid_str i) [(''user_id'', JStr (str_field ''user_id'' (c_body c)))]) no_content)))"

definition removeProjectMember :: handler where
  "removeProjectMember c = with_id ''id'' c (\<lambda>i. case a_parseUUID (c_api c) (hq_Param (c_req c) ''userId'') of
       None \<Rightarrow> Pair (invalid ''invalid user id'')
     | Some target \<Rightarrow> attempt (RemoveProjectMember (c_org c) i target) (missing_or ''membership not found'' ''could not remove project member'') (\<lambda>_.
         effect (userEvent c (c_user c) ''project.member_remove'' ''project'' (uuid_str i) [(''user_id'', JID target)]) no_content))"

section \<open>Departments and users\<close>

definition listDepartments :: handler where
  "listDepartments c = list_query (ListDepartments (c_org c)) ''could not list departments'' (jlist department_view_json)"

definition createDepartment :: handler where
  "createDepartment c = admin_only c
    (guard (decode_ok [(''name'', TString), (''description'', TString)] (c_body c) \<and> str_field ''name'' (c_body c) \<noteq> '''') (invalid ''name is required'')
    (attempt (CreateDepartment (c_clk c) (c_ids c 1) (c_org c) (str_field ''name'' (c_body c)) (str_field ''description'' (c_body c)))
       (\<lambda>_. internal ''could not create department'') (\<lambda>d.
       effect (userEvent c (c_user c) ''department.create'' ''department'' (uuid_str (dp_ID d)) [(''name'', JStr (str_field ''name'' (c_body c)))])
         (Pair (writeJSON 201 (JObj (department_members d)))))))"

text \<open>The error of decoding is ignored: the fields that fit are set.\<close>

definition assign_department :: "ctx \<Rightarrow> uuid \<Rightarrow> uuid option \<Rightarrow> server \<Rightarrow> response \<times> server" where
  "assign_department c uid dept = attempt (AssignUserDepartment (c_org c) uid dept) (\<lambda>_. internal ''could not assign department'') (\<lambda>_.
     effect (userEvent c (c_user c) ''user.assign_department'' ''user'' (uuid_str uid) (jsome ''department_id'' JID dept)) no_content)"

definition assignUserDepartment :: handler where
  "assignUserDepartment c = admin_only c (with_id ''id'' c (\<lambda>uid.
     case str_ptr ''department_id'' (c_body c) of
       None \<Rightarrow> assign_department c uid None
     | Some s \<Rightarrow> if s = '''' then assign_department c uid None
         else (case a_parseUUID (c_api c) s of None \<Rightarrow> Pair (invalid ''invalid department_id'') | Some d \<Rightarrow> assign_department c uid (Some d))))"

definition listUsers :: handler where
  "listUsers c = list_query (ListUsers (c_org c)) ''could not list users'' (jlist userResponse)"

text \<open>The error of the assignment is ignored, and the answer names the department all the same.\<close>

definition with_department :: "ctx \<Rightarrow> User \<Rightarrow> (User \<Rightarrow> server \<Rightarrow> response \<times> server) \<Rightarrow> server \<Rightarrow> response \<times> server" where
  "with_department c usr k = (case opt_id c ''department_id'' of
       None \<Rightarrow> k usr
     | Some d \<Rightarrow> call (AssignUserDepartment (c_org c) (u_ID usr) (Some d)) (\<lambda>_. k (usr\<lparr>u_DepartmentID := Some d\<rparr>)))"

definition createUser :: handler where
  "createUser c = admin_only c
    (guard (decode_ok [(''email'', TString), (''name'', TString), (''role'', TString), (''department_id'', TString)] (c_body c)) bad_json
    (attempt (CreateUser (a_identity (c_api c)) (c_clk c) (c_fresh c) (c_org c) (str_field ''email'' (c_body c)) (str_field ''name'' (c_body c))
         (if str_field ''role'' (c_body c) = ''admin'' then RoleAdmin else RoleMember)) (\<lambda>_. internal ''could not create user'') (\<lambda>usr0.
       with_department c usr0 (\<lambda>usr.
         effect (userEvent c (c_user c) ''user.create'' ''user'' (uuid_str (u_ID usr)) [(''email'', JStr (u_Email usr)), (''role'', JStr (role_name (u_Role usr)))])
           (Pair (writeJSON 201 (userResponse usr)))))))"

section \<open>Enrolment tokens\<close>

definition issueToken :: handler where
  "issueToken c = admin_only c
    (let b = c_body c; days = int_field ''ttl_days'' b; uses = int_field ''max_uses'' b;
         ttl = (if days > 0 then days_duration days else 365 * 24 * hour); maxUses = (if uses > 0 then uses else 100) in
     attempt (IssueEnrollmentTokenDesc (id_sha (a_identity (c_api c))) (c_clk c) (c_ids c 1) (c_rnds c 0) (c_org c) (u_ID (c_user c))
         (str_field ''description'' b) ttl maxUses) (\<lambda>_. internal ''could not issue token'') (\<lambda>raw.
       effect (userEvent c (c_user c) ''enrollment_token.issue'' ''enrollment_token'' '''' [(''description'', JStr (str_field ''description'' b)),
           (''ttl_days'', JInt days), (''max_uses'', JInt maxUses)])
         (Pair (writeJSON 201 (JObj [(''token'', JStr raw)])))))"

definition listTokens :: handler where
  "listTokens c = admin_only c (list_query (ListEnrollmentTokens (go_now (c_clk c)) (c_org c)) ''could not list tokens'' (jlist enrollment_token_json))"

definition revokeToken :: handler where
  "revokeToken c = admin_only c (with_id ''id'' c (\<lambda>i.
     attempt (atomically (RevokeEnrollmentToken (c_clk c) (c_org c) i)) (\<lambda>e. not_found (err_text (c_api c) e)) (\<lambda>_.
       effect (userEvent c (c_user c) ''enrollment_token.revoke'' ''enrollment_token'' (uuid_str i) []) no_content)))"

section \<open>Audit search\<close>

text \<open>\<open>parseTime\<close> with the zero time as default; a text for the zero time is the zero time too.\<close>

definition zero_time :: time where "zero_time = - 62135596800 * second"

definition optTime :: "string \<Rightarrow> time option" where
  "optTime s = (case parse_rfc3339 s of None \<Rightarrow> None | Some t \<Rightarrow> if t = zero_time then None else Some t)"

text \<open>\<open>strconv.Atoi\<close> with its error ignored: \<open>0\<close> for what is no number, the nearest \<open>int64\<close> out of range.\<close>

definition atoi_or_zero :: "string \<Rightarrow> int" where
  "atoi_or_zero s = (let sgn = take 1 s; neg = (sgn = ''-''); ds = (if neg \<or> sgn = ''+'' then tl s else s) in
     if ds = '''' then 0
     else case digits_val 0 ds of None \<Rightarrow> 0
       | Some n \<Rightarrow> if neg then max (- (2 ^ 63)) (- n) else min (2 ^ 63 - 1) n)"

definition auditFilterFromQuery :: "(string \<Rightarrow> string) \<Rightarrow> QueryFilter" where
  "auditFilterFromQuery q = \<lparr>qf_From = optTime (q ''from''), qf_To = optTime (q ''to''), qf_Action = q ''action'', qf_ActorID = q ''actor_id'',
     qf_TargetType = q ''target_type'', qf_TargetID = q ''target_id'', qf_Q = q ''q'',
     qf_Limit = atoi_or_zero (q ''limit''), qf_Offset = atoi_or_zero (q ''offset'')\<rparr>"

definition auditLogsSearch :: handler where
  "auditLogsSearch c = (let f = auditFilterFromQuery (c_query c) in
     attempt (audit_Query (a_postgres (c_api c)) (c_clk c) (c_org c) f) (\<lambda>_. internal ''could not query audit logs'') (\<lambda>(logs, n).
       Pair (writeJSON 200 (JObj [(''items'', jlist audit_json logs), (''total'', JNat n), (''limit'', JInt (page_limit (qf_Limit f))),
         (''offset'', JInt (qf_Offset f))]))))"

section \<open>Reservations, budgets and alerts\<close>

definition listReservations :: handler where
  "listReservations c = list_query (ListReservations (c_clk c) (c_org c)) ''could not list reservations''
     (jlist (\<lambda>(r, status, project, owner_email). reservation_json r status project owner_email))"

definition createReservation :: handler where
  "createReservation c = (let b = c_body c in
     guard (decode_ok [(''gpu_model'', TString), (''gpu_count'', TInt), (''start_at'', TString), (''end_at'', TString), (''project_id'', TString)] b) bad_json
    (case (parse_rfc3339 (str_field ''start_at'' b), parse_rfc3339 (str_field ''end_at'' b)) of
       (Some start, Some end_at) \<Rightarrow>
         attempt (CreateReservation (c_clk c) (c_ids c 1) (c_org c) (u_ID (c_user c))
             \<lparr>rq_GPUModel = (if str_field ''gpu_model'' b = '''' then ''any'' else str_field ''gpu_model'' b), rq_GPUCount = int_field ''gpu_count'' b,
              rq_StartAt = start, rq_EndAt = end_at, rq_ProjectID = opt_id c ''project_id''\<rparr>)
           (\<lambda>e. if e = ErrOverbooked then writeErr 409 ''overbooked'' (err_text (c_api c) e) else invalid (err_text (c_api c) e))
           (\<lambda>(r, status). Pair (writeJSON 201 (reservation_json r status '''' '''')))
     | _ \<Rightarrow> Pair (invalid ''start_at and end_at must be RFC3339 timestamps'')))"

text \<open>The calls that answer 204 or 500.\<close>

definition done_or :: "(sys \<Rightarrow> (err + unit) \<times> sys) \<Rightarrow> string \<Rightarrow> server \<Rightarrow> response \<times> server" where
  "done_or m msg = attempt m (\<lambda>_. internal msg) (\<lambda>_. no_content)"

definition cancelReservation :: handler where
  "cancelReservation c = with_id ''id'' c (\<lambda>i. done_or (CancelReservation (c_org c) i) ''could not cancel reservation'')"

definition listBudgets :: handler where
  "listBudgets c = attempt (ListBudgets (c_clk c) (c_org c)) (\<lambda>_. internal ''could not list budgets'') (\<lambda>bs. Pair (writeJSON 200 (jlist budget_json bs)))"

text \<open>\<open>scope_id\<close>: absent, or a UUID, or a refusal.\<close>

definition with_scope :: "ctx \<Rightarrow> (uuid option \<Rightarrow> server \<Rightarrow> response \<times> server) \<Rightarrow> server \<Rightarrow> response \<times> server" where
  "with_scope c k = (case str_ptr ''scope_id'' (c_body c) of
       None \<Rightarrow> k None
     | Some s \<Rightarrow> if s = '''' then k None
         else (case a_parseUUID (c_api c) s of None \<Rightarrow> Pair (invalid ''invalid scope_id'') | Some i \<Rightarrow> k (Some i)))"

definition setBudget :: handler where
  "setBudget c = admin_only c
    (guard (decode_ok [(''scope_type'', TString), (''scope_id'', TString), (''amount'', TFloat)] (c_body c)) bad_json
    (let scope0 = str_field ''scope_type'' (c_body c); scope = (if scope0 = '''' then ''organization'' else scope0); amount = float_field ''amount'' (c_body c);
         save = (\<lambda>sid. done_or (SetBudget (c_ids c 1) (c_org c) scope sid amount) ''could not save budget'') in
     guard (scope = ''organization'' \<or> scope = ''department'' \<or> scope = ''project'') (invalid ''scope_type must be organization, department or project'')
    (guard (amount \<ge> 0) (invalid ''amount must be >= 0'')
    (if scope = ''organization'' then save None else with_scope c save))))"

definition deleteBudget :: handler where
  "deleteBudget c = with_id ''id'' c (\<lambda>i. admin_only c (done_or (DeleteBudget (c_org c) i) ''could not delete budget''))"

definition listAlerts :: handler where
  "listAlerts c = list_query (ListAlerts (c_org c) (c_query c ''all'' = ''true'')) ''could not list alerts'' (jlist alert_json)"

definition acknowledgeAlert :: handler where
  "acknowledgeAlert c = with_id ''id'' c (\<lambda>i. done_or (AcknowledgeAlert (c_org c) i) ''could not acknowledge alert'')"

definition listAlertRules :: handler where
  "listAlertRules c = attempt (ListRules (c_org c)) (\<lambda>_. internal ''could not list alert rules'') (\<lambda>rs. Pair (writeJSON 200 (jlist rule_json rs)))"

definition createAlertRule :: handler where
  "createAlertRule c = admin_only c
    (guard (decode_ok [(''type'', TString), (''threshold'', TFloat), (''scope_id'', TString), (''severity'', TString)] (c_body c)) bad_json
    (with_scope c (\<lambda>sid.
     attempt (CreateRule (c_clk c) (c_ids c 1) (c_org c) (str_field ''type'' (c_body c)) (float_field ''threshold'' (c_body c)) sid (str_field ''severity'' (c_body c)))
       (\<lambda>e. invalid (err_text (c_api c) e)) (\<lambda>i. Pair (writeJSON 201 (JObj [(''id'', JID i)]))))))"

definition toggleAlertRule :: handler where
  "toggleAlertRule c = with_id ''id'' c (\<lambda>i. admin_only c
    (guard (decode_ok [(''enabled'', TBool)] (c_body c)) bad_json
    (done_or (SetRuleEnabled (c_org c) i (bool_field ''enabled'' (c_body c))) ''could not update rule'')))"

definition deleteAlertRule :: handler where
  "deleteAlertRule c = with_id ''id'' c (\<lambda>i. admin_only c (done_or (DeleteRule (c_org c) i) ''could not delete rule''))"

end
