(* ===== verification/Strconv.thy ===== *)
theory Strconv
  imports Timestamps
begin

text \<open>
  What the configuration and the agent use of Go's \<open>strings\<close>, \<open>strconv\<close> and \<open>time\<close>: splitting
  text, and reading booleans, numbers and durations from it. Values of type \<open>float64\<close> are exact
  rationals within the range of the type, with the infinities and NaN; a duration is a number of
  nanoseconds.
\<close>

section \<open>Splitting\<close>

text \<open>\<open>strings.Split\<close> with a separator of one character, \<open>strings.Join\<close> and \<open>strings.SplitN\<close>.\<close>

fun Split :: "char \<Rightarrow> string \<Rightarrow> string list" where
  "Split x [] = [[]]"
| "Split x (c # s) = (if c = x then [] # Split x s else (case Split x s of [] \<Rightarrow> [[c]] | p # ps \<Rightarrow> (c # p) # ps))"

fun Join :: "string list \<Rightarrow> string \<Rightarrow> string" where
  "Join [] sep = []"
| "Join [p] sep = p"
| "Join (p # q # ps) sep = p @ sep @ Join (q # ps) sep"

fun Cut :: "string \<Rightarrow> string \<Rightarrow> (string \<times> string) option" where
  "Cut sep [] = (if sep = [] then Some ([], []) else None)"
| "Cut sep (c # s) = (if has_prefix sep (c # s) then Some ([], drop (length sep) (c # s))
     else map_option (\<lambda>(a, b). (c # a, b)) (Cut sep s))"

fun SplitN :: "string \<Rightarrow> nat \<Rightarrow> string \<Rightarrow> string list" where
  "SplitN sep 0 s = []"
| "SplitN sep (Suc 0) s = [s]"
| "SplitN sep (Suc (Suc n)) s = (case Cut sep s of None \<Rightarrow> [s] | Some (a, b) \<Rightarrow> a # SplitN sep (Suc n) b)"

text \<open>\<open>bufio.Scanner\<close> by lines: no empty last line, a trailing carriage return dropped.\<close>

definition scan_lines :: "string \<Rightarrow> string list" where
  "scan_lines s =
     (let ls = Split (CHR 0x0A) s; ls = (if last ls = [] then butlast ls else ls)
      in map (\<lambda>l. if l \<noteq> [] \<and> last l = CHR 0x0D then butlast l else l) ls)"

text \<open>\<open>strings.Fields\<close>: the words between runs of white space.\<close>

definition space_at :: "string \<Rightarrow> string option" where
  "space_at s = find (\<lambda>p. has_prefix p s) space_seqs"

fun words_from :: "nat \<Rightarrow> string \<Rightarrow> string \<Rightarrow> string list" where
  "words_from 0 w s = (if w = [] then [] else [rev w])"
| "words_from (Suc n) w s =
     (case s of [] \<Rightarrow> if w = [] then [] else [rev w]
      | c # r \<Rightarrow> (case space_at s of
          None \<Rightarrow> words_from n (c # w) r
        | Some p \<Rightarrow> (if w = [] then [] else [rev w]) @ words_from n [] (drop (length p) s)))"

definition Fields :: "string \<Rightarrow> string list" where
  "Fields s = words_from (Suc (length s)) [] s"

definition CutPrefix :: "string \<Rightarrow> string \<Rightarrow> string option" where
  "CutPrefix s p = (if has_prefix p s then Some (drop (length p) s) else None)"

text \<open>\<open>strings.TrimRight\<close> with a cutset of one character.\<close>

definition trim_right :: "char \<Rightarrow> string \<Rightarrow> string" where
  "trim_right x s = rev (dropWhile (\<lambda>c. c = x) (rev s))"

lemma Split_nonempty [simp]: "Split x s \<noteq> []"
  by (induction s) (auto split: list.split)

lemma Split_parts: "p \<in> set (Split x s) \<Longrightarrow> x \<notin> set p"
proof (induction s arbitrary: p)
  case (Cons c s)
  obtain q qs where q: "Split x s = q # qs" by (cases "Split x s") auto
  then show ?case using Cons by (fastforce split: if_splits)
qed simp

text \<open>Splitting and joining are inverse to each other.\<close>

lemma Join_Split: "Join (Split x s) [x] = s"
proof (induction s)
  case (Cons c s)
  obtain q qs where q: "Split x s = q # qs" by (cases "Split x s") auto
  have head: "Join ((d # q) # qs) [x] = d # Join (q # qs) [x]" for d by (cases qs) simp_all
  show ?case using Cons q head [of c] by simp
qed simp

lemma Split_append: "x \<notin> set p \<Longrightarrow> Split x (p @ x # s) = p # Split x s" and Split_single: "x \<notin> set p \<Longrightarrow> Split x p = [p]"
  by (induction p) auto

lemma Split_Join:
  assumes "ps \<noteq> []" and "\<And>p. p \<in> set ps \<Longrightarrow> x \<notin> set p"
  shows "Split x (Join ps [x]) = ps"
  using assms
proof (induction ps "[x]" rule: Join.induct)
  case (3 p q ps)
  then show ?case by (simp add: Split_append)
qed (simp_all add: Split_single)

lemma Cut_parts: "Cut sep s = Some (a, b) \<Longrightarrow> s = a @ sep @ b"
proof (induction s arbitrary: a)
  case (Cons c s)
  show ?case
  proof (cases "has_prefix sep (c # s)")
    case True
    then show ?thesis using Cons.prems append_take_drop_id [of "length sep" "c # s"] by (auto simp: has_prefix_def)
  next
    case False
    then show ?thesis using Cons by (auto split: prod.splits)
  qed
qed (simp split: if_splits)

lemma length_SplitN: "length (SplitN sep n s) \<le> n"
  by (induction sep n s rule: SplitN.induct) (auto split: option.split)

lemma SplitN_pos: "SplitN sep n s = [] \<Longrightarrow> n = 0"
  by (induction sep n s rule: SplitN.induct) (auto split: option.splits)

lemma Join_SplitN: "0 < n \<Longrightarrow> Join (SplitN sep n s) sep = s"
proof (induction sep n s rule: SplitN.induct)
  case (3 sep n s)
  show ?case
  proof (cases "Cut sep s")
    case (Some ab)
    obtain a b where ab: "ab = (a, b)" by fastforce
    obtain q qs where q: "SplitN sep (Suc n) b = q # qs"
      by (cases "SplitN sep (Suc n) b") (auto dest: SplitN_pos)
    moreover have "Join (SplitN sep (Suc n) b) sep = b" using 3 Some ab by simp
    ultimately show ?thesis using Some ab Cut_parts [of sep s a b] by simp
  qed simp
qed simp_all

section \<open>Booleans and integers\<close>

definition ParseBool :: "string \<Rightarrow> bool option" where
  "ParseBool s =
     (if s \<in> set [''1'', ''t'', ''T'', ''true'', ''TRUE'', ''True''] then Some True
      else if s \<in> set [''0'', ''f'', ''F'', ''false'', ''FALSE'', ''False''] then Some False else None)"

text \<open>
  The value that \<open>strconv.ParseUint(s, 10, bits)\<close> returns when its error is dropped: zero for
  malformed text, the largest value as soon as the digits read so far exceed it.
\<close>

fun uint_scan :: "int \<Rightarrow> int \<Rightarrow> string \<Rightarrow> int" where
  "uint_scan m n [] = n"
| "uint_scan m n (c # s) = (case digit_val c of None \<Rightarrow> 0 | Some d \<Rightarrow> if m < 10 * n + d then m else uint_scan m (10 * n + d) s)"

definition uint_value :: "nat \<Rightarrow> string \<Rightarrow> int" where
  "uint_value bits s = uint_scan (2 ^ bits - 1) 0 s"

text \<open>The same for \<open>strconv.Atoi\<close>.\<close>

definition atoi_value :: "string \<Rightarrow> int" where
  "atoi_value s =
     (let neg = take 1 s = ''-''; un = uint_value 64 (if neg \<or> take 1 s = ''+'' then tl s else s)
      in if neg then max (- un) (- (2 ^ 63)) else min un (2 ^ 63 - 1))"

lemma digit_val_range: "digit_val c = Some d \<Longrightarrow> 0 \<le> d \<and> d < 10"
  by (auto simp: digit_val_def split: if_splits)

lemma uint_scan_range: "0 \<le> n \<Longrightarrow> n \<le> m \<Longrightarrow> 0 \<le> uint_scan m n s \<and> uint_scan m n s \<le> m"
proof (induction m n s rule: uint_scan.induct)
  case (2 m n c s)
  then show ?case by (fastforce split: option.split dest: digit_val_range)
qed simp

lemma uint_value_range: "0 \<le> uint_value bits s \<and> uint_value bits s < 2 ^ bits"
  using uint_scan_range [of 0 "2 ^ bits - 1" s] by (auto simp: uint_value_def)

text \<open>Digits of a number in range give the number.\<close>

lemma digits_val_mono: "digits_val n s = Some v \<Longrightarrow> 0 \<le> n \<Longrightarrow> n \<le> v"
proof (induction n s rule: digits_val.induct)
  case (2 n c s)
  then show ?case by (fastforce split: option.splits dest: digit_val_range)
qed simp

lemma uint_scan_digits: "digits_val n s = Some v \<Longrightarrow> 0 \<le> n \<Longrightarrow> v \<le> m \<Longrightarrow> uint_scan m n s = v"
proof (induction n s rule: digits_val.induct)
  case (2 n c s)
  then obtain d where d: "digit_val c = Some d" and ds: "digits_val (10 * n + d) s = Some v" by (auto split: option.splits)
  have nd: "0 \<le> 10 * n + d" using "2.prems"(2) digit_val_range [OF d] by simp
  then have "10 * n + d \<le> v" by (rule digits_val_mono [OF ds])
  then show ?case using "2.IH" [OF d ds nd "2.prems"(3)] "2.prems"(3) by (simp add: d)
qed simp

lemma uint_value_dec: "0 \<le> n \<Longrightarrow> n < 2 ^ bits \<Longrightarrow> uint_value bits (dec_str n) = n"
  using digits_val_dec_str [of n] by (simp add: uint_value_def uint_scan_digits)

lemma atoi_value_range: "int64_range (atoi_value s)"
  using uint_value_range [of 64 "tl s"] uint_value_range [of 64 s] by (auto simp: atoi_value_def int64_range_def Let_def)

section \<open>Durations\<close>

type_synonym nanos = int

definition ns_units :: "(string \<times> nanos) list" where
  "ns_units =
     [(''ns'', 1), (''us'', 1000), ([CHR 0xC2, CHR 0xB5, CHR ''s''], 1000), ([CHR 0xCE, CHR 0xBC, CHR ''s''], 1000),
      (''ms'', 1000000), (''s'', 1000000000), (''m'', 60 * 1000000000), (''h'', 3600 * 1000000000)]"

text \<open>
  One component of a duration: digits, an optional fraction, a unit. \<open>time.ParseDuration\<close> computes
  the fraction in floating point; here it is exact and rounded down.
\<close>

definition digits_of :: "string \<Rightarrow> int" where
  "digits_of ds = (case digits_val 0 ds of None \<Rightarrow> 0 | Some v \<Rightarrow> v)"

definition duration_part :: "string \<Rightarrow> (nanos \<times> string) option" where
  "duration_part s =
     (let ip = takeWhile is_digit s; s1 = dropWhile is_digit s;
          point = take 1 s1 = ''.'';
          fp = (if point then takeWhile is_digit (tl s1) else []);
          s2 = (if point then dropWhile is_digit (tl s1) else s1);
          u = takeWhile (\<lambda>c. c \<noteq> CHR ''.'' \<and> \<not> is_digit c) s2
      in if ip = [] \<and> fp = [] \<or> 2 ^ 63 < digits_of ip then None
         else case map_of ns_units u of
                None \<Rightarrow> None
              | Some unit \<Rightarrow>
                  (let v = digits_of ip * unit + digits_of fp * unit div 10 ^ length fp
                   in if 2 ^ 63 < v then None else Some (v, drop (length u) s2)))"

fun duration_sum :: "nat \<Rightarrow> nanos \<Rightarrow> string \<Rightarrow> nanos option" where
  "duration_sum 0 d s = (if s = [] then Some d else None)"
| "duration_sum (Suc n) d s = (if s = [] then Some d
     else case duration_part s of
            None \<Rightarrow> None
          | Some (v, r) \<Rightarrow> if 2 ^ 63 < d + v then None else duration_sum n (d + v) r)"

definition ParseDuration :: "string \<Rightarrow> nanos option" where
  "ParseDuration s =
     (let neg = take 1 s = ''-''; s1 = (if neg \<or> take 1 s = ''+'' then tl s else s)
      in if s1 = ''0'' then Some 0
         else if s1 = [] then None
         else case duration_sum (length s1) 0 s1 of
                None \<Rightarrow> None
              | Some d \<Rightarrow> if neg then Some (- d) else if 2 ^ 63 - 1 < d then None else Some d)"

text \<open>The result is an \<open>int64\<close>.\<close>

lemma digits_of_nonneg: "0 \<le> digits_of s"
  by (auto simp: digits_of_def split: option.split dest: digits_val_mono)

lemma duration_part_nonneg: "duration_part s = Some (v, r) \<Longrightarrow> 0 \<le> v"
proof -
  have "0 \<le> digits_of a * u + digits_of b * u div 10 ^ k" and "0 \<le> digits_of a * u" if "map_of ns_units n = Some u" for a b u n k
  proof -
    have "0 < u" using that by (auto simp: ns_units_def split: if_splits)
    then show "0 \<le> digits_of a * u + digits_of b * u div 10 ^ k" and "0 \<le> digits_of a * u"
      using digits_of_nonneg [of a] digits_of_nonneg [of b]
      by (simp_all add: pos_imp_zdiv_nonneg_iff)
  qed
  then show "duration_part s = Some (v, r) \<Longrightarrow> 0 \<le> v"
    by (auto simp: duration_part_def Let_def digits_of_def [of "[]"] split: if_splits option.splits)
qed

lemma duration_sum_range: "duration_sum n d s = Some v \<Longrightarrow> 0 \<le> d \<Longrightarrow> d \<le> 2 ^ 63 \<Longrightarrow> 0 \<le> v \<and> v \<le> 2 ^ 63"
  by (induction n d s rule: duration_sum.induct) (auto split: if_splits option.splits dest: duration_part_nonneg)

lemma ParseDuration_range: "ParseDuration s = Some d \<Longrightarrow> int64_range d"
  by (auto simp: ParseDuration_def Let_def int64_range_def split: if_splits option.splits dest: duration_sum_range)

section \<open>Floating-point numbers\<close>

datatype float64 = Fin rat | PosInf | NegInf | NaN

definition hex_val :: "char \<Rightarrow> int option" where
  "hex_val c = map_of (zip ''0123456789abcdef'' [0..15]) (lower_char c)"

fun radix_val :: "int \<Rightarrow> (char \<Rightarrow> int option) \<Rightarrow> int \<Rightarrow> string \<Rightarrow> int" where
  "radix_val b dv acc [] = acc"
| "radix_val b dv acc (c # s) = radix_val b dv (case dv c of None \<Rightarrow> acc | Some d \<Rightarrow> b * acc + d) s"

text \<open>An underscore is allowed between two digits, or between the base prefix and a digit.\<close>

fun underscore_ok :: "(char \<Rightarrow> bool) \<Rightarrow> bool \<Rightarrow> string \<Rightarrow> bool" where
  "underscore_ok dig prev [] = True"
| "underscore_ok dig prev (c # s) =
     (if c = CHR ''_'' then prev \<and> (case s of [] \<Rightarrow> False | x # r \<Rightarrow> dig x) \<and> underscore_ok dig False s
      else underscore_ok dig (dig c) s)"

text \<open>The exponent: a sign and digits; the value stops growing at ten thousand.\<close>

fun exp_val :: "int \<Rightarrow> string \<Rightarrow> int option" where
  "exp_val e [] = Some e"
| "exp_val e (c # s) = (if c = CHR ''_'' then exp_val e s
     else case digit_val c of None \<Rightarrow> None | Some d \<Rightarrow> exp_val (if e < 10000 then 10 * e + d else e) s)"

definition exponent :: "string \<Rightarrow> int option" where
  "exponent s =
     (let neg = take 1 s = ''-''; ds = (if neg \<or> take 1 s = ''+'' then tl s else s)
      in if ds = [] \<or> digit_val (hd ds) = None then None else map_option (\<lambda>e. if neg then - e else e) (exp_val 0 ds))"

definition pow :: "rat \<Rightarrow> int \<Rightarrow> rat" where
  "pow b e = (if e < 0 then 1 / b ^ nat (- e) else b ^ nat e)"

text \<open>
  The finite literals, after the sign: a mantissa in the base with at most one point and at least
  one digit, and an exponent after \<open>e\<close> (or, in base 16, the exponent of two that must follow \<open>p\<close>).
\<close>

definition float_literal :: "string \<Rightarrow> rat option" where
  "float_literal s =
     (let hex = lower (take 2 s) = ''0x'';
          body = (if hex then drop 2 s else s);
          dv = (if hex then hex_val else digit_val); dig = (\<lambda>c. dv c \<noteq> None);
          base = (if hex then 16 else 10); mark = (if hex then CHR ''p'' else CHR ''e'');
          m = takeWhile (\<lambda>c. dig c \<or> c = CHR ''_'' \<or> c = CHR ''.'') body; r = drop (length m) body;
          ip = takeWhile (\<lambda>c. c \<noteq> CHR ''.'') m; fp = drop (Suc (length ip)) m;
          n = length (filter dig fp);
          mant = of_int (radix_val base dv 0 (ip @ fp)) / of_int base ^ n
      in if CHR ''.'' \<in> set fp \<or> filter dig m = [] \<or> \<not> underscore_ok dig hex body then None
         else if r = [] then (if hex then None else Some mant)
         else if lower_char (hd r) \<noteq> mark then None
         else map_option (\<lambda>e. mant * pow (if hex then 2 else 10) e) (exponent (tl r)))"

text \<open>A literal beyond the range of \<open>float64\<close> is an error, as malformed text is.\<close>

definition ParseFloat :: "string \<Rightarrow> float64 option" where
  "ParseFloat s =
     (let neg = take 1 s = ''-''; s1 = (if neg \<or> take 1 s = ''+'' then tl s else s)
      in if lower s = ''nan'' then Some NaN
         else if lower s1 = ''inf'' \<or> lower s1 = ''infinity'' then Some (if neg then NegInf else PosInf)
         else case float_literal s1 of
                None \<Rightarrow> None
              | Some v \<Rightarrow> if float64_range v then Some (Fin (if neg then - v else v)) else None)"

lemma ParseFloat_finite: "ParseFloat s = Some (Fin v) \<Longrightarrow> float64_range v"
  by (auto simp: ParseFloat_def Let_def float64_range_def split: if_splits option.splits)

end
