(* ===== verification/Installer.thy ===== *)
theory Installer
  imports Http_Fleet Strconv
begin

text \<open>
  \<open>internal/httpapi/install.go\<close>: the shell script that enrols a machine, rendered for the
  transport of this deployment. In the literals of the script a backquote stands for a double quote
  and an at sign for a backslash, which the script has none of otherwise.
\<close>

definition sh :: "string \<Rightarrow> string" where
  "sh s = map (\<lambda>c. if c = CHR 0x60 then CHR 0x22 else if c = CHR ''@'' then CHR 0x5C else c) s"

definition bullet :: string where "bullet = [CHR 0xE2, CHR 0x96, CHR 0xB8]"
definition dots :: string where "dots = [CHR 0xE2, CHR 0x80, CHR 0xA6]"
definition arrow :: string where "arrow = [CHR 0xE2, CHR 0x86, CHR 0x92]"
definition dash :: string where "dash = [CHR 0xE2, CHR 0x80, CHR 0x94]"
definition warning :: string where "warning = [CHR 0xE2, CHR 0x9A, CHR 0xA0]"

definition unlines :: "string list \<Rightarrow> string" where
  "unlines ls = concat (map (\<lambda>l. l @ NL) ls)"

section \<open>Addresses\<close>

definition agentDistDir :: "api \<Rightarrow> string" where
  "agentDistDir a = (let d = a_getenv a ''AGENT_DIST_DIR'' in if d \<noteq> '''' then d else ''./dist'')"

definition agentDownloadBase :: "api \<Rightarrow> string \<Rightarrow> string" where
  "agentDownloadBase a httpBase = (let v = a_getenv a ''AGENT_DIST_BASE_URL'' in
     if v \<noteq> '''' then trim_right (CHR ''/'') v else httpBase @ ''/dist'')"

definition publicGRPCAddr :: "api \<Rightarrow> string \<Rightarrow> string \<times> bool" where
  "publicGRPCAddr a host = (let v = a_getenv a ''AGENT_PUBLIC_GRPC_ADDR'' in
     if v \<noteq> '''' then (v, False)
     else (let h = takeWhile (\<lambda>c. c \<noteq> CHR '':'') host in ((if h = '''' then ''localhost'' else h) @ '':9090'', True)))"

section \<open>The script\<close>

definition install_args :: "string \<Rightarrow> string \<Rightarrow> string \<Rightarrow> string" where
  "install_args httpBase grpc dlBase = unlines
    [''#!/bin/sh'',
     ''# NodeHive agent installer. Enrolls this machine into your GPU fleet.'',
     ''#   curl -fsSL '' @ httpBase @ ''/install.sh | sh -s -- --token <YOUR_TOKEN>'',
     ''set -e'',
     '''',
     sh ''NH_HTTP=`'' @ httpBase @ sh ''`'',
     sh ''SERVER=`'' @ grpc @ sh ''`'',
     sh ''DLBASE=`'' @ dlBase @ sh ''`'',
     sh ''TOKEN=``'',
     sh ''DEV=``'',
     '''',
     ''while [ $# -gt 0 ]; do'',
     sh ''  case `$1` in'',
     sh ''    --token) TOKEN=`$2`; shift 2 ;;'',
     sh ''    --server) SERVER=`$2`; shift 2 ;;'',
     sh ''    --dev) DEV=`--dev`; shift ;;'',
     ''    *) shift ;;'',
     ''  esac'']"

definition install_platform :: "string \<Rightarrow> string" where
  "install_platform warn = unlines
    [''done'',
     '''',
     sh ''if [ -z `$TOKEN` ]; then'',
     sh ''  echo `error: --token is required (copy it from NodeHive '' @ arrow @ sh '' Nodes)` >&2'',
     ''  exit 1'',
     ''fi'',
     '''',
     ''# Verbose tracing for support:  NH_DEBUG=1 curl -fsSL <cp>/install.sh | sh -s -- --token '' @ dots,
     ''# Normal runs stay quiet but still show errors (-sS); debug adds full curl traces + set -x.'',
     sh ''CURLOPTS=`-sS`'',
     sh ''if [ `${NH_DEBUG:-}` = `1` ] || [ `${NH_DEBUG:-}` = `true` ]; then'',
     ''  set -x'',
     sh ''  CURLOPTS=`-v`'',
     ''fi'',
     '''',
     warn @ ''OS=$(uname -s | tr '[:upper:]' '[:lower:]')'',
     ''ARCH=$(uname -m)'',
     sh ''case `$ARCH` in'',
     ''  x86_64|amd64) ARCH=amd64 ;;'',
     ''  arm64|aarch64) ARCH=arm64 ;;'',
     ''esac'',
     '''']"

definition install_setup :: "string \<Rightarrow> string" where
  "install_setup tls = unlines
    [''# Friendly name for the detected platform.'',
     sh ''PLATFORM=`$OS/$ARCH`'',
     sh ''case `$OS/$ARCH` in'',
     sh ''  darwin/arm64) PRETTY=`macOS Apple Silicon` ;;'',
     sh ''  darwin/amd64) PRETTY=`macOS Intel` ;;'',
     sh ''  linux/amd64)  PRETTY=`Linux x86_64` ;;'',
     sh ''  linux/arm64)  PRETTY=`Linux ARM64` ;;'',
     sh ''  *)            PRETTY=`$PLATFORM` ;;'',
     ''esac'',
     '''',
     ''# No NVIDIA GPU (e.g. Apple Silicon)? Run in dev mode: synthetic GPU inventory,'',
     ''# real Docker containers for workloads.'',
     sh ''if [ -z `$DEV` ] && ! command -v nvidia-smi >/dev/null 2>&1; then'',
     sh ''  DEV=`--dev`'',
     sh ''  echo `'' @ bullet @ '' No nvidia-smi found '' @ dash @ sh '' installing in dev mode (synthetic GPUs, real Docker).`'',
     ''fi'',
     '''',
     sh ''DIR=`$HOME/.nodehive`'',
     sh ''BIN=`$DIR/nodehive-agent`'',
     sh ''mkdir -p `$DIR`'',
     '''',
     ''# Transport security '' @ dash @ '' rendered by the control plane to match its gRPC mode.'',
     tls,
     '''',
     sh ''ARTIFACT=`agent-$OS-$ARCH`'',
     sh ''URL=`$DLBASE/$ARTIFACT`'']"

definition install_probe :: "string" where
  "install_probe = unlines
    [sh ''echo `'' @ bullet @ sh '' Detected $PRETTY ($PLATFORM).`'',
     '''',
     ''# Distinguish a genuinely missing artifact (404) from a flaky transfer by probing first.'',
     ''# The HEAD also tells us the expected size so we can verify the download is complete.'',
     sh ''if ! HEAD=$(curl -fL $CURLOPTS -I `$URL` </dev/null 2>/dev/null); then'',
     sh ''  AVAILABLE=$(curl -fL $CURLOPTS `$NH_HTTP/dist/` </dev/null 2>/dev/null @'',
     ''    | grep -oE 'agent-[a-z0-9]+-[a-z0-9]+' | sort -u | sed 's/^/    /')'',
     sh ''  echo `` >&2'',
     sh ''  echo `error: no prebuilt agent available for $PRETTY.` >&2'',
     sh ''  echo `` >&2'',
     sh ''  echo `  Expected artifact:` >&2'',
     sh ''  echo `    $URL` >&2'',
     sh ''  echo `` >&2'',
     sh ''  if [ -n `$AVAILABLE` ]; then'',
     sh ''    echo `  Available artifacts (bundled in the control plane):` >&2'',
     sh ''    echo `$AVAILABLE` >&2'',
     ''  else'',
     sh ''    echo `  Available artifacts: none '' @ dash @ sh '' the server is publishing no agent binaries.` >&2'',
     sh ''    echo `  (control-plane image was built without 'make agent-dist' / the /dist copy step)` >&2'',
     ''  fi'',
     sh ''  echo `` >&2'',
     ''  exit 1'',
     ''fi'',
     sh ''EXPECT=$(printf '%s' `$HEAD` | awk 'tolower($1) == `content-length:` { print $2 }' | tr -d '@r ' | tail -1)'',
     '''',
     ''# Railway's HTTP edge can STALL or RESET a large transfer mid-stream (the agent is'',
     sh ''# ~11 MB), surfacing as a hang or `curl: (56) Recv failure: Connection reset by peer`.'',
     ''# Retry with resume (-C -) and a stall timeout (--speed-time) so a flaky network'',
     ''# recovers instead of writing a truncated binary or aborting the install.'']"

definition install_download :: "string" where
  "install_download = unlines
    [sh ''echo `'' @ bullet @ '' Downloading NodeHive agent ($ARTIFACT${EXPECT:+, $EXPECT bytes})'' @ dots @ sh ''`'',
     sh ''TMP=`$BIN.partial`'',
     sh ''rm -f `$TMP`'',
     sh ''if ! curl -fL $CURLOPTS --retry 5 --retry-delay 2 --retry-all-errors --retry-connrefused @'',
     sh ''        --connect-timeout 20 --speed-limit 2048 --speed-time 20 @'',
     sh ''        -C - `$URL` -o `$TMP` </dev/null; then'',
     ''  rc=$?'',
     sh ''  rm -f `$TMP`'',
     sh ''  echo `error: failed to download the agent after retries (curl exit $rc).` >&2'',
     sh ''  echo `  URL: $URL` >&2'',
     sh ''  echo `  Usually a transient network/edge reset mid-download '' @ dash @ sh '' re-run the installer.` >&2'',
     sh ''  echo `  For details: NH_DEBUG=1 curl -fsSL $NH_HTTP/install.sh | sh -s -- --token <TOKEN>` >&2'',
     ''  exit 1'',
     ''fi'',
     '''',
     ''# Integrity gate: never chmod+exec an empty or truncated binary.'',
     sh ''GOT=$(wc -c < `$TMP` | tr -d ' ')'',
     sh ''if [ -z `$GOT` ] || [ `$GOT` -eq 0 ]; then'',
     sh ''  echo `error: downloaded agent is empty; re-run the installer.` >&2'',
     sh ''  rm -f `$TMP`; exit 1'',
     ''fi'',
     sh ''if [ -n `$EXPECT` ] && [ `$GOT` != `$EXPECT` ]; then'',
     sh ''  echo `error: agent download incomplete '' @ dash @ sh '' got $GOT of $EXPECT bytes; re-run the installer.` >&2'',
     sh ''  rm -f `$TMP`; exit 1'',
     ''fi'',
     '''',
     sh ''chmod +x `$TMP`'',
     sh ''mv -f `$TMP` `$BIN`'',
     sh ''echo `'' @ bullet @ '' Downloaded $GOT bytes '' @ arrow @ sh '' $BIN`'',
     '''',
     sh ''echo `'' @ bullet @ '' Enrolling with the control plane (gRPC $SERVER) and starting the agent'' @ dots @ sh ''`'',
     sh ''echo `  command: $BIN --server $SERVER $TLSARGS --token <redacted> $DEV`'',
     sh ''echo `  (leave this running; the node stays online while the agent runs)`'',
     sh ''exec `$BIN` --server `$SERVER` $TLSARGS --token `$TOKEN` $DEV'']"


definition installTemplate :: "string \<Rightarrow> string \<Rightarrow> string \<Rightarrow> string \<Rightarrow> string \<Rightarrow> string" where
  "installTemplate httpBase grpc warn dlBase tls =
     install_args httpBase grpc dlBase @ install_platform warn @ install_setup tls @ install_probe @ install_download"

text \<open>The transport: plaintext, the pinned CA, or the system roots.\<close>

definition pinned_snippet :: "string list" where
  "pinned_snippet =
    [sh ''echo `'' @ bullet @ '' Fetching the control plane transport CA (pinned for gRPC TLS)'' @ dots @ sh ''`'',
     sh ''if ! curl -fL $CURLOPTS `$NH_HTTP/api/v1/agent/ca` -o `$DIR/ca.pem` </dev/null @'',
     sh ''   || ! grep -q `BEGIN CERTIFICATE` `$DIR/ca.pem`; then'',
     sh ''  echo `error: could not fetch the transport CA from $NH_HTTP/api/v1/agent/ca` >&2'',
     sh ''  echo `  This control plane requires TLS; refusing to fall back to plaintext.` >&2'',
     ''  exit 1'',
     ''fi'',
     sh ''TLSARGS=`--ca $DIR/ca.pem`'']"

definition tlsBootstrapSnippet :: "api \<Rightarrow> string" where
  "tlsBootstrapSnippet a =
     (if \<not> a_grpcTLS a then sh ''TLSARGS=`--insecure`''
      else if a_agentCAPEM a \<noteq> '''' then separated NL pinned_snippet
      else sh ''TLSARGS=``  # TLS with a publicly-trusted certificate (system roots)'')"

definition derived_warning :: "string \<Rightarrow> string" where
  "derived_warning grpc = unlines
    [sh ''echo `'' @ warning @ '' This control plane advertises gRPC at '' @ grpc @ sh '', derived from the HTTP host.` >&2'',
     sh ''echo `  If enrollment times out, that port is not publicly routable. Expose the agent` >&2'',
     sh ''echo `  gateway (container port 9090) over a raw TCP route and set AGENT_PUBLIC_GRPC_ADDR` >&2'',
     sh ''echo `  on the control plane to that host:port (e.g. a Railway TCP Proxy endpoint).` >&2'']"

definition script_scheme :: "request \<Rightarrow> string" where
  "script_scheme r = (if hq_Header r ''X-Forwarded-Proto'' = ''https'' \<or> hq_TLS r then ''https'' else ''http'')"

definition installScript :: handler where
  "installScript c = (let a = c_api c; httpBase = script_scheme (c_req c) @ ''://'' @ hq_Host (c_req c) in
     case publicGRPCAddr a (hq_Host (c_req c)) of (grpc, derived) \<Rightarrow>
       Pair \<lparr>hr_Status = 200, hr_Header = [(''Content-Type'', ''text/x-shellscript; charset=utf-8'')], hr_Cookies = [],
         hr_Body = Raw (installTemplate httpBase grpc
           (if derived \<and> script_scheme (c_req c) = ''https'' then derived_warning grpc else '''') (agentDownloadBase a httpBase) (tlsBootstrapSnippet a))\<rparr>)"

definition agentCA :: handler where
  "agentCA c = Pair (if a_agentCAPEM (c_api c) = ''''
     then writeErr 404 ''not_found'' ''this deployment does not use a pinned transport CA''
     else \<lparr>hr_Status = 200, hr_Header = [(''Content-Type'', ''application/x-pem-file'')], hr_Cookies = [],
           hr_Body = Raw (a_agentCAPEM (c_api c))\<rparr>)"

end
