(* ===== verification/Router.thy ===== *)
theory Router
  imports Http_Accounts Http_Admin Installer
begin

text \<open>
  \<open>NewRouter\<close>: the routes with their middlewares, and the middlewares of every request. Which
  route a request goes to is chi's choice, a parameter (\<open>mx_match\<close>: the index of the route and
  its path parameters), and so are chi's answer where none matches and the file server of
  \<open>/dist/\<close>. The request log has no effect on the answer; a handler of the model does not panic, so
  \<open>recoverer\<close> has nothing to recover from.
\<close>

record mux =
  mx_match :: "(string \<times> string) list \<Rightarrow> request \<Rightarrow> (nat \<times> (string \<Rightarrow> string)) option"
  mx_miss :: "request \<Rightarrow> response"
  mx_files :: "request \<Rightarrow> response"

type_synonym route = "(string \<times> string) \<times> handler"

definition loginLimit :: "handler \<Rightarrow> handler" where
  "loginLimit = limited h_loginLimiter (\<lambda>rl h. h\<lparr>h_loginLimiter := rl\<rparr>)"
definition registerLimit :: "handler \<Rightarrow> handler" where
  "registerLimit = limited h_registerLimiter (\<lambda>rl h. h\<lparr>h_registerLimiter := rl\<rparr>)"
definition refreshLimit :: "handler \<Rightarrow> handler" where
  "refreshLimit = limited h_refreshLimiter (\<lambda>rl h. h\<lparr>h_refreshLimiter := rl\<rparr>)"
definition tokenProbeLimit :: "handler \<Rightarrow> handler" where
  "tokenProbeLimit = limited h_tokenProbeLimiter (\<lambda>rl h. h\<lparr>h_tokenProbeLimiter := rl\<rparr>)"

section \<open>Routes\<close>

text \<open>\<open>r.Group\<close> with \<open>r.Use\<close>: the middleware around every route of the group.\<close>

definition Group :: "(handler \<Rightarrow> handler) \<Rightarrow> route list \<Rightarrow> route list" where
  "Group mw rs = map (\<lambda>r. (fst r, mw (snd r))) rs"

definition Route :: "string \<Rightarrow> route list \<Rightarrow> route list" where
  "Route base rs = map (\<lambda>r. ((fst (fst r), base @ snd (fst r)), snd r)) rs"

abbreviation GET :: "string \<Rightarrow> handler \<Rightarrow> route" where "GET p h \<equiv> ((''GET'', p), h)"
abbreviation POST :: "string \<Rightarrow> handler \<Rightarrow> route" where "POST p h \<equiv> ((''POST'', p), h)"
abbreviation PATCH :: "string \<Rightarrow> handler \<Rightarrow> route" where "PATCH p h \<equiv> ((''PATCH'', p), h)"
abbreviation DELETE :: "string \<Rightarrow> handler \<Rightarrow> route" where "DELETE p h \<equiv> ((''DELETE'', p), h)"

text \<open>The probes and the agent distribution; \<open>/dist/\<close> takes every method.\<close>

definition probe_routes :: "mux \<Rightarrow> route list" where
  "probe_routes mx = [GET ''/healthz'' healthz, GET ''/readyz'' readyz, GET ''/metrics'' metricsHandler, GET ''/install.sh'' installScript,
     ((''*'', ''/dist/*''), \<lambda>c. Pair (mx_files mx (c_req c))), GET ''/api/v1/agent/ca'' agentCA]"

definition public_routes :: "route list" where
  "public_routes =
     [GET ''/healthz'' healthz,
      POST ''/auth/login'' (loginLimit login),
      POST ''/auth/register'' (registerLimit register),
      POST ''/auth/refresh'' (refreshLimit refresh),
      POST ''/auth/logout'' logout,
      POST ''/auth/register-pending'' (registerLimit registerPending),
      GET ''/auth/invitations/{token}'' (tokenProbeLimit previewInvitation),
      GET ''/auth/google/start'' googleStart,
      GET ''/auth/google/callback'' (loginLimit googleCallback),
      POST ''/auth/verify-email/confirm'' (tokenProbeLimit confirmEmailVerification),
      POST ''/auth/password-reset/request'' (registerLimit requestPasswordReset),
      POST ''/auth/password-reset/confirm'' (tokenProbeLimit confirmPasswordReset),
      GET ''/events/stream'' eventStream]"

definition account_routes :: "route list" where
  "account_routes =
     [GET ''/me'' me,
      POST ''/onboarding/organization'' onboardingCreateOrg,
      POST ''/onboarding/accept-invitation'' (tokenProbeLimit acceptInvitation),
      POST ''/onboarding/join-code'' (tokenProbeLimit joinViaCode),
      POST ''/auth/verify-email/request'' (tokenProbeLimit requestEmailVerification),
      GET ''/auth/sessions'' listSessions,
      DELETE ''/auth/sessions/{id}'' revokeSession,
      POST ''/auth/sessions/revoke-all'' revokeAllSessions]"

definition member_routes :: "route list" where
  "member_routes =
     [GET ''/config'' config, GET ''/nodes'' listNodes, GET ''/nodes/{id}'' getNode, GET ''/nodes/{id}/gpus'' listNodeGPUs,
      GET ''/gpus'' listGPUs, GET ''/templates'' listTemplates, GET ''/templates/{id}'' getTemplate, POST ''/templates'' createTemplate,
      GET ''/workloads'' listWorkloads, POST ''/workloads'' launchWorkload, GET ''/workloads/{id}'' getWorkload,
      POST ''/workloads/{id}/stop'' stopWorkload, GET ''/workloads/{id}/events'' workloadEvents, GET ''/workloads/{id}/logs'' workloadLogs,
      GET ''/queue'' queue, GET ''/metrics/summary'' fleetSummary, GET ''/metrics/utilization'' utilization, GET ''/metrics/idle'' idleReport,
      GET ''/billing/chargeback'' chargeback, GET ''/billing/chargeback.csv'' chargebackCSV, GET ''/billing/rates'' listRates,
      POST ''/billing/rates'' setRate, GET ''/billing/credits'' creditSummary, GET ''/billing/ledger'' creditLedger,
      POST ''/billing/credits/topup'' topupCredits, GET ''/projects'' listProjects, POST ''/projects'' createProject,
      GET ''/projects/{id}'' getProject, GET ''/projects/{id}/members'' listProjectMembers, GET ''/api-keys'' listAPIKeys,
      GET ''/departments'' listDepartments, POST ''/departments'' createDepartment, GET ''/org/members'' listMembers,
      GET ''/org/invitations'' listInvitations, GET ''/org/join-codes'' listJoinCodes, POST ''/org/leave'' leaveOrg,
      GET ''/users'' listUsers, POST ''/users'' createUser, PATCH ''/users/{id}/department'' assignUserDepartment,
      GET ''/enrollment-tokens'' listTokens, POST ''/enrollment-tokens'' issueToken, DELETE ''/enrollment-tokens/{id}'' revokeToken,
      GET ''/audit-logs'' auditLogsSearch, GET ''/reservations'' listReservations, POST ''/reservations'' createReservation,
      DELETE ''/reservations/{id}'' cancelReservation, GET ''/budgets'' listBudgets, POST ''/budgets'' setBudget,
      DELETE ''/budgets/{id}'' deleteBudget, GET ''/alerts'' listAlerts, POST ''/alerts/{id}/ack'' acknowledgeAlert,
      GET ''/alert-rules'' listAlertRules, POST ''/alert-rules'' createAlertRule, PATCH ''/alert-rules/{id}'' toggleAlertRule,
      DELETE ''/alert-rules/{id}'' deleteAlertRule]"

definition human_routes :: "route list" where
  "human_routes = [POST ''/api-keys'' createAPIKey, DELETE ''/api-keys/{id}'' revokeAPIKey]"

definition admin_human_routes :: "route list" where
  "admin_human_routes = [GET ''/service-accounts'' listServiceAccounts, POST ''/service-accounts'' createServiceAccount,
     PATCH ''/service-accounts/{id}'' updateServiceAccount]"

definition admin_routes :: "route list" where
  "admin_routes =
     [POST ''/nodes/{id}/revoke-credentials'' revokeNodeCredentials, DELETE ''/nodes/{id}'' removeNode, GET ''/health'' adminHealth,
      PATCH ''/projects/{id}'' updateProject, POST ''/projects/{id}/members'' addProjectMember,
      DELETE ''/projects/{id}/members/{userId}'' removeProjectMember,
      PATCH ''/org/members/{userId}/role'' changeMemberRole, DELETE ''/org/members/{userId}'' removeMember,
      POST ''/org/invitations'' createInvitation, POST ''/org/invitations/{id}/resend'' resendInvitation,
      DELETE ''/org/invitations/{id}'' revokeInvitation, POST ''/org/join-codes'' createJoinCode, DELETE ''/org/join-codes/{id}'' revokeJoinCode]"

definition owner_routes :: "route list" where
  "owner_routes = [POST ''/org/transfer-ownership'' transferOwnership]"

text \<open>Everything of an organisation; groups add their middleware inside.\<close>

definition org_routes :: "route list" where
  "org_routes = member_routes @ Group blockServiceAccounts human_routes @
     Group (\<lambda>h. requireRole RoleAdmin (blockServiceAccounts h)) admin_human_routes @
     Group (requireRole RoleAdmin) admin_routes @ Group (requireRole RoleOwner) owner_routes"

definition authed_routes :: "route list" where
  "authed_routes = Group authMiddleware (account_routes @ Group requireOrg org_routes)"

definition routes :: "mux \<Rightarrow> route list" where
  "routes mx = probe_routes mx @ Route ''/api/v1'' (public_routes @ authed_routes)"

section \<open>Serving a request\<close>

definition dispatch :: "mux \<Rightarrow> handler" where
  "dispatch mx c = (case mx_match mx (map fst (routes mx)) (c_req c) of
       None \<Rightarrow> Pair (mx_miss mx (c_req c))
     | Some (i, params) \<Rightarrow>
         if i < length (routes mx) then snd (routes mx ! i) (c\<lparr>c_req := (c_req c)\<lparr>hq_Param := params\<rparr>\<rparr>)
         else Pair (mx_miss mx (c_req c)))"

text \<open>A request starts with no principal and no id.\<close>

definition ServeHTTP :: "mux \<Rightarrow> handler" where
  "ServeHTTP mx c = requestIDMiddleware (corsMiddleware (dispatch mx)) (c\<lparr>c_user := zero_user, c_requestID := ''''\<rparr>)"

end
