(* ===== verification/Http_Runs.thy ===== *)
theory Http_Runs
  imports Router
begin

text \<open>
  What a request does to the tables. A handler keeps a relation on databases when every call it
  makes keeps it; the rules follow the composition of handlers. Interpreted on the transactions of
  the platform, they show that every request is a sequence of committed transactions, so that the
  invariants of the components hold after it; interpreted on equality, that the reads change
  nothing.
\<close>

definition safe :: "(db \<Rightarrow> db \<Rightarrow> bool) \<Rightarrow> (server \<Rightarrow> response \<times> server) \<Rightarrow> bool" where
  "safe R k \<longleftrightarrow> (\<forall>h. R (s_db (h_sys h)) (s_db (h_sys (snd (k h)))))"

definition inert :: "(server \<Rightarrow> server) \<Rightarrow> bool" where
  "inert f \<longleftrightarrow> (\<forall>h. s_db (h_sys (f h)) = s_db (h_sys h))"

lemma inert_effects [simp]:
  "inert (auditEvent c e)" "inert (userEvent c u action targetType targetID meta)" "inert (notifyMembers a k)" "inert (mail j)"
  by (simp_all add: inert_def userEvent_def auditEvent_def on_sys_def notifyMembers_def mail_def notify_def)

locale server_logic = call_logic
begin

lemma safe_Pair: "safe R (Pair r)"
  by (simp add: safe_def R_refl)

lemma safe_call:
  assumes "keeps R m" and "\<And>x. safe R (k x)"
  shows "safe R (call m k)"
  unfolding safe_def
proof
  fix h :: server
  obtain x s where m: "m (h_sys h) = (x, s)" by fastforce
  have "R (s_db (h_sys h)) (s_db s)" using assms(1) m by (rule keepsD)
  moreover have "R (s_db s) (s_db (h_sys (snd (k x (h\<lparr>h_sys := s\<rparr>)))))"
    using assms(2) [unfolded safe_def, rule_format, of "h\<lparr>h_sys := s\<rparr>" x] by simp
  ultimately show "R (s_db (h_sys h)) (s_db (h_sys (snd (call m k h))))"
    using R_trans by (simp add: call_def m)
qed

lemma safe_sum: "(\<And>e. safe R (f e)) \<Longrightarrow> (\<And>x. safe R (g x)) \<Longrightarrow> safe R (case r of Inl e \<Rightarrow> f e | Inr x \<Rightarrow> g x)"
  by (cases r) simp_all

lemma safe_attempt: "keeps R m \<Longrightarrow> (\<And>x. safe R (k x)) \<Longrightarrow> safe R (attempt m onerr k)"
  unfolding attempt_def by (intro safe_call safe_sum safe_Pair)

lemma safe_effect: "inert f \<Longrightarrow> safe R k \<Longrightarrow> safe R (effect f k)"
  unfolding safe_def inert_def effect_def
proof
  fix h :: server
  assume "\<forall>h. s_db (h_sys (f h)) = s_db (h_sys h)" and "\<forall>h. R (s_db (h_sys h)) (s_db (h_sys (snd (k h))))"
  then show "R (s_db (h_sys h)) (s_db (h_sys (snd (k (f h)))))" by (drule_tac x = "f h" in spec) simp
qed

lemma safe_guard: "(b \<Longrightarrow> safe R k) \<Longrightarrow> safe R (guard b r k)"
  by (simp add: guard_def safe_Pair)

lemma safe_if: "(b \<Longrightarrow> safe R k) \<Longrightarrow> (\<not> b \<Longrightarrow> safe R l) \<Longrightarrow> safe R (if b then k else l)"
  by simp

lemma safe_option: "safe R k \<Longrightarrow> (\<And>x. safe R (l x)) \<Longrightarrow> safe R (case v of None \<Rightarrow> k | Some x \<Rightarrow> l x)"
  by (cases v) simp_all

lemma safe_prod: "(\<And>x y. safe R (k x y)) \<Longrightarrow> safe R (case p of (x, y) \<Rightarrow> k x y)"
  by (cases p) simp

lemma safe_with_id: "(\<And>i. safe R (k i)) \<Longrightarrow> safe R (with_id param c k)"
  unfolding with_id_def by (intro safe_option safe_if safe_Pair)

lemma safe_with_param: "(\<And>i. safe R (k i)) \<Longrightarrow> safe R (with_param raw msg c k)"
  unfolding with_param_def by (intro safe_option safe_Pair)

lemma safe_list_query: "safe R (list_query f msg doc)"
  unfolding list_query_def by (intro safe_attempt keeps_query safe_Pair)

lemma safe_admin_only: "safe R k \<Longrightarrow> safe R (admin_only c k)"
  unfolding admin_only_def by (rule safe_guard)

lemma safe_limited:
  assumes "\<And>rl h. s_db (h_sys (put rl h)) = s_db (h_sys h)" and "\<And>c. safe R (next c)"
  shows "safe R (limited get put next c)"
  unfolding safe_def
proof
  fix h :: server
  have "R (s_db (h_sys (put rl h))) (s_db (h_sys (snd (next c (put rl h)))))" for rl
    using assms(2) by (simp add: safe_def)
  then have "R (s_db (h_sys h)) (s_db (h_sys (snd (next c (put rl h)))))" for rl
    by (simp add: assms(1))
  then show "R (s_db (h_sys h)) (s_db (h_sys (snd (limited get put next c h))))"
    by (auto simp: limited_def assms(1) R_refl split: prod.split)
qed

lemmas safe_rules = safe_Pair safe_call safe_attempt safe_effect safe_guard safe_if safe_option safe_prod safe_sum
  safe_with_id safe_with_param safe_list_query safe_admin_only keeps_query keeps_Pair

lemma safe_gates:
  assumes "\<And>c. safe R (next c)"
  shows "safe R (requireOrg next c)" and "safe R (requireRole r next c)" and "safe R (blockServiceAccounts next c)"
    and "safe R (loginLimit next c)" and "safe R (registerLimit next c)" and "safe R (refreshLimit next c)" and "safe R (tokenProbeLimit next c)"
  unfolding requireOrg_def requireRole_def blockServiceAccounts_def loginLimit_def registerLimit_def refreshLimit_def tokenProbeLimit_def
  by (intro safe_rules safe_limited assms; simp)+

end

section \<open>Requests as runs of transactions\<close>

definition db_tx :: "db \<Rightarrow> db \<Rightarrow> bool" where
  "db_tx d d' \<longleftrightarrow> tx_step d d' \<or> id_tx d d'"

interpretation http: server_logic "db_tx\<^sup>*\<^sup>*"
  by unfold_locales simp_all

interpretation reads: server_logic "(=) :: db \<Rightarrow> db \<Rightarrow> bool"
  by unfold_locales simp_all

named_theorems http_calls \<open>calls as sequences of transactions of the platform\<close>

lemma keeps_grow: "keeps grow_tx\<^sup>*\<^sup>* m \<Longrightarrow> keeps db_tx\<^sup>*\<^sup>* m"
proof -
  have "db_tx\<^sup>*\<^sup>* d d'" if "grow_tx\<^sup>*\<^sup>* d d'" for d d'
    using that by (induction rule: rtranclp_induct) (auto simp: db_tx_def intro: i_grow rtranclp.rtrancl_into_rtrancl)
  then show "keeps grow_tx\<^sup>*\<^sup>* m \<Longrightarrow> keeps db_tx\<^sup>*\<^sup>* m" by (simp add: keeps_def)
qed

lemma keeps_id: "(\<And>s. id_tx\<^sup>*\<^sup>* (s_db s) (s_db (snd (m s)))) \<Longrightarrow> keeps db_tx\<^sup>*\<^sup>* m"
  and keeps_runs: "(\<And>s. runs s (snd (m s))) \<Longrightarrow> keeps db_tx\<^sup>*\<^sup>* m"
proof -
  have "db_tx\<^sup>*\<^sup>* d d'" if "id_tx\<^sup>*\<^sup>* d d'" for d d'
    using that by (induction rule: rtranclp_induct) (auto simp: db_tx_def intro: rtranclp.rtrancl_into_rtrancl)
  then show "(\<And>s. id_tx\<^sup>*\<^sup>* (s_db s) (s_db (snd (m s)))) \<Longrightarrow> keeps db_tx\<^sup>*\<^sup>* m" by (simp add: keeps_def)
  have "db_tx\<^sup>*\<^sup>* d d'" if "tx_step\<^sup>*\<^sup>* d d'" for d d'
    using that by (induction rule: rtranclp_induct) (auto simp: db_tx_def intro: rtranclp.rtrancl_into_rtrancl)
  then show "(\<And>s. runs s (snd (m s))) \<Longrightarrow> keeps db_tx\<^sup>*\<^sup>* m" by (simp add: keeps_def runs_def)
qed

lemma keeps_tx: "(\<And>d a d'. body d = Inr (a, d') \<Longrightarrow> tx_step d d') \<Longrightarrow> keeps db_tx\<^sup>*\<^sup>* (atomically body)"
  by (rule http.keeps_atomically) (auto simp: db_tx_def)

lemma keeps_same: "(\<And>s. s_db (snd (m s)) = s_db s) \<Longrightarrow> keeps (=) m" "(\<And>s. s_db (snd (m s)) = s_db s) \<Longrightarrow> keeps db_tx\<^sup>*\<^sup>* m"
  by (simp_all add: keeps_def)

lemmas growing_calls [http_calls] = grow_calls [THEN keeps_grow]

lemmas member_calls [http_calls] = guarded_calls [THEN keeps_id]

lemmas plane_calls [http_calls] = runs_Launch [THEN keeps_runs] runs_Stop [THEN keeps_runs] runs_CancelQueued [THEN keeps_runs]
  runs_AddCredit [THEN keeps_runs] runs_SetRate [THEN keeps_runs] runs_RevokeNodeCredentials [THEN keeps_runs]

lemma node_calls [http_calls]:
  "keeps db_tx\<^sup>*\<^sup>* (atomically (RemoveNode clk orgID nodeID force))"
  "keeps db_tx\<^sup>*\<^sup>* (atomically (RevokeEnrollmentToken clk orgID tid))"
  by (rule keeps_tx, erule tx_remove, rule keeps_tx, rule tx_tokens)
    (auto simp: RevokeEnrollmentToken_def Let_def split: if_splits)

section \<open>The calls that only read\<close>

named_theorems read_calls \<open>calls that leave the tables as they are\<close>

lemma keeps_reader: "keeps (=) m \<Longrightarrow> keeps db_tx\<^sup>*\<^sup>* m"
  by (auto simp: keeps_def)

lemma keeps_read: "(\<And>s. s_db (snd (m s)) = s_db s) \<Longrightarrow> keeps (=) m"
  by (simp add: keeps_def)

lemma reads_identity [read_calls]:
  "keeps (=) (OrgIDByEmail email)" "keeps (=) (SessionIDByRefresh sv clk raw)" "keeps (=) (InvitationByToken sv clk raw)"
  "keeps (=) (Authenticate sv clk token)"
  unfolding OrgIDByEmail_def
  by (rule reads.keeps_query, (rule keeps_read, simp add: SessionIDByRefresh_def InvitationByToken_def Authenticate_def query_db split: option.split)+)

lemma reads_projects [read_calls]:
  "keeps (=) (AuthorizeProjectUse orgID pid userID isAdmin)" "keeps (=) (CanViewProject orgID pid userID isAdmin)"
  unfolding AuthorizeProjectUse_def
  by (intro reads.keeps_andThen reads.keeps_query keeps_if reads.keeps_Pair, rule keeps_read, simp add: CanViewProject_def query_db)

lemma reads_reports [read_calls]:
  "keeps (=) (CreditSummary clk orgID)" "keeps (=) (audit_Query pg clk orgID f)" "keeps (=) Ready" "keeps (=) (Check msg he clk n jobs)"
  unfolding audit_Query_def Let_def Ready_def
  by (rule keeps_read, rule CreditSummary_db, intro reads.keeps_andThen reads.keeps_query, rule reads.keeps_query, rule keeps_read, rule Check_db)

lemma scopeName_read: "s_db (snd (scopeName st sid s)) = s_db s"
  by (rule scopeName_eq_db [OF surjective_pairing])

lemma rule_names_read: "s_db (snd (rule_names rs s)) = s_db s"
proof (induction rs arbitrary: s)
  case (Cons r rs)
  have "s_db (snd (alertScopeName t sid s)) = s_db s" for t sid s by (simp add: alertScopeName_def scopeName_read)
  then show ?case using Cons.IH by (auto simp: Let_def case_prod_beta)
qed simp

lemma reads_ops [read_calls]: "keeps (=) (ListBudgets clk orgID)" "keeps (=) (ListRules orgID)"
proof -
  have "s_db (snd (budget_views clk orgID bs s)) = s_db s" for bs s
    using budget_views_eq_db [OF surjective_pairing] .
  then show "keeps (=) (ListBudgets clk orgID)" unfolding ListBudgets_def
    by (intro reads.keeps_andThen reads.keeps_query keeps_read) (simp add: case_prod_beta)
  show "keeps (=) (ListRules orgID)" unfolding ListRules_def
    by (intro reads.keeps_andThen reads.keeps_query keeps_read) (simp add: case_prod_beta rule_names_read)
qed

lemma reads_fleet [read_calls]:
  "keeps (=) (canViewWorkload c wl)" "keeps (=) (resolveUserLabel orgID userID)" "keeps (=) (department_member c wl)"
  "keeps (=) (template_member c wl)" "keeps (=) (org_agents orgID)"
proof -
  have v: "s_db (snd (CanViewProject orgID pid userID b s)) = s_db s" for orgID pid userID b s
    using reads_projects(2) by (simp add: keeps_def)
  show "keeps (=) (canViewWorkload c wl)"
    by (rule keeps_read) (auto simp: canViewWorkload_def v case_prod_beta split: option.split)
  show "keeps (=) (resolveUserLabel orgID userID)" "keeps (=) (department_member c wl)" "keeps (=) (template_member c wl)" "keeps (=) (org_agents orgID)"
    by (rule keeps_read, auto simp: resolveUserLabel_def department_member_def resolveDepartmentName_def template_member_def org_agents_def
        dest: query_eq_db split: option.split prod.split sum.split)+
qed

lemmas reading_calls [http_calls] = read_calls [THEN keeps_reader]

lemma session_start [http_calls]: "keeps db_tx\<^sup>*\<^sup>* (startSession c userID)"
proof -
  have "keeps db_tx\<^sup>*\<^sup>* (CreateSession sv clk sid rnd userID dev)" for sv clk sid rnd dev by (rule http_calls)
  then show ?thesis unfolding keeps_def startSession_def by (auto split: prod.split sum.split) (metis snd_conv)+
qed

lemma token_issue [http_calls]: "keeps db_tx\<^sup>*\<^sup>* (IssueEnrollmentTokenDesc hash clk tid rnd orgID createdBy desc ttl maxUses)"
proof -
  have "keeps db_tx\<^sup>*\<^sup>* (atomically (insert_token t))" for t
    by (rule keeps_tx, rule tx_tokens) (auto simp: insert_token_def split: if_splits)
  then show ?thesis unfolding keeps_def IssueEnrollmentTokenDesc_def Let_def by (auto split: prod.split sum.split) (metis snd_conv)+
qed

lemma authentication [http_calls]: "keeps db_tx\<^sup>*\<^sup>* (authenticateToken c token)"
  unfolding authenticateToken_def by (intro keeps_if http_calls)

section \<open>The handlers\<close>

named_theorems http_safe \<open>handlers as sequences of transactions\<close>

lemma safe_accounts [http_safe]:
  "safe db_tx\<^sup>*\<^sup>* (login c)" "safe db_tx\<^sup>*\<^sup>* (register c)" "safe db_tx\<^sup>*\<^sup>* (registerPending c)"
  "safe db_tx\<^sup>*\<^sup>* (me c)" "safe db_tx\<^sup>*\<^sup>* (googleStart c)" "safe db_tx\<^sup>*\<^sup>* (googleCallback c)"
  "safe db_tx\<^sup>*\<^sup>* (onboardingCreateOrg c)" "safe db_tx\<^sup>*\<^sup>* (refresh c)" "safe db_tx\<^sup>*\<^sup>* (logout c)"
  "safe db_tx\<^sup>*\<^sup>* (listSessions c)" "safe db_tx\<^sup>*\<^sup>* (revokeSession c)" "safe db_tx\<^sup>*\<^sup>* (revokeAllSessions c)"
  "safe db_tx\<^sup>*\<^sup>* (listMembers c)" "safe db_tx\<^sup>*\<^sup>* (changeMemberRole c)" "safe db_tx\<^sup>*\<^sup>* (removeMember c)"
  "safe db_tx\<^sup>*\<^sup>* (listInvitations c)" "safe db_tx\<^sup>*\<^sup>* (createInvitation c)"
  "safe db_tx\<^sup>*\<^sup>* (resendInvitation c)" "safe db_tx\<^sup>*\<^sup>* (leaveOrg c)" "safe db_tx\<^sup>*\<^sup>* (transferOwnership c)"
  "safe db_tx\<^sup>*\<^sup>* (revokeInvitation c)" "safe db_tx\<^sup>*\<^sup>* (previewInvitation c)"
  "safe db_tx\<^sup>*\<^sup>* (acceptInvitation c)" "safe db_tx\<^sup>*\<^sup>* (listJoinCodes c)" "safe db_tx\<^sup>*\<^sup>* (createJoinCode c)"
  "safe db_tx\<^sup>*\<^sup>* (revokeJoinCode c)" "safe db_tx\<^sup>*\<^sup>* (joinViaCode c)" "safe db_tx\<^sup>*\<^sup>* (listAPIKeys c)"
  "safe db_tx\<^sup>*\<^sup>* (createAPIKey c)" "safe db_tx\<^sup>*\<^sup>* (revokeAPIKey c)" "safe db_tx\<^sup>*\<^sup>* (listServiceAccounts c)"
  "safe db_tx\<^sup>*\<^sup>* (createServiceAccount c)" "safe db_tx\<^sup>*\<^sup>* (updateServiceAccount c)"
  "safe db_tx\<^sup>*\<^sup>* (requestEmailVerification c)" "safe db_tx\<^sup>*\<^sup>* (confirmEmailVerification c)"
  "safe db_tx\<^sup>*\<^sup>* (requestPasswordReset c)" "safe db_tx\<^sup>*\<^sup>* (confirmPasswordReset c)"
  unfolding login_def register_def registerPending_def me_def googleStart_def googleCallback_def onboardingCreateOrg_def refresh_def logout_def
    listSessions_def revokeSession_def revokeAllSessions_def listMembers_def changeMemberRole_def removeMember_def listInvitations_def
    createInvitation_def resendInvitation_def leaveOrg_def transferOwnership_def revokeInvitation_def previewInvitation_def acceptInvitation_def
    listJoinCodes_def createJoinCode_def revokeJoinCode_def joinViaCode_def listAPIKeys_def createAPIKey_def revokeAPIKey_def listServiceAccounts_def
    createServiceAccount_def updateServiceAccount_def requestEmailVerification_def confirmEmailVerification_def requestPasswordReset_def
    confirmPasswordReset_def create_key_def current_session_def Let_def
  by (intro http.safe_rules http_calls inert_effects)+

lemma safe_fleet [http_safe]:
  "safe db_tx\<^sup>*\<^sup>* (listNodes c)" "safe db_tx\<^sup>*\<^sup>* (getNode c)" "safe db_tx\<^sup>*\<^sup>* (revokeNodeCredentials c)"
  "safe db_tx\<^sup>*\<^sup>* (listNodeGPUs c)" "safe db_tx\<^sup>*\<^sup>* (listGPUs c)" "safe db_tx\<^sup>*\<^sup>* (config c)"
  "safe db_tx\<^sup>*\<^sup>* (listTemplates c)" "safe db_tx\<^sup>*\<^sup>* (getTemplate c)" "safe db_tx\<^sup>*\<^sup>* (createTemplate c)"
  "safe db_tx\<^sup>*\<^sup>* (listWorkloads c)" "safe db_tx\<^sup>*\<^sup>* (launchWorkload c)" "safe db_tx\<^sup>*\<^sup>* (getWorkload c)"
  "safe db_tx\<^sup>*\<^sup>* (stopWorkload c)" "safe db_tx\<^sup>*\<^sup>* (workloadLogs c)" "safe db_tx\<^sup>*\<^sup>* (workloadEvents c)"
  "safe db_tx\<^sup>*\<^sup>* (queue c)" "safe db_tx\<^sup>*\<^sup>* (fleetSummary c)" "safe db_tx\<^sup>*\<^sup>* (utilization c)"
  "safe db_tx\<^sup>*\<^sup>* (idleReport c)" "safe db_tx\<^sup>*\<^sup>* (healthz c)" "safe db_tx\<^sup>*\<^sup>* (readyz c)"
  "safe db_tx\<^sup>*\<^sup>* (metricsHandler c)"
  unfolding listNodes_def getNode_def revokeNodeCredentials_def listNodeGPUs_def listGPUs_def config_def listTemplates_def getTemplate_def
    createTemplate_def listWorkloads_def launchWorkload_def getWorkload_def stopWorkload_def workloadLogs_def workloadEvents_def queue_def
    fleetSummary_def utilization_def idleReport_def healthz_def readyz_def metricsHandler_def with_template_def with_project_def visible_workload_def
    Let_def
  by (intro http.safe_rules http_calls inert_effects)+

lemma safe_admin [http_safe]:
  "safe db_tx\<^sup>*\<^sup>* (chargeback c)" "safe db_tx\<^sup>*\<^sup>* (chargebackCSV c)" "safe db_tx\<^sup>*\<^sup>* (listRates c)"
  "safe db_tx\<^sup>*\<^sup>* (setRate c)" "safe db_tx\<^sup>*\<^sup>* (creditSummary c)" "safe db_tx\<^sup>*\<^sup>* (creditLedger c)"
  "safe db_tx\<^sup>*\<^sup>* (topupCredits c)" "safe db_tx\<^sup>*\<^sup>* (listProjects c)" "safe db_tx\<^sup>*\<^sup>* (createProject c)"
  "safe db_tx\<^sup>*\<^sup>* (getProject c)" "safe db_tx\<^sup>*\<^sup>* (updateProject c)" "safe db_tx\<^sup>*\<^sup>* (listProjectMembers c)"
  "safe db_tx\<^sup>*\<^sup>* (addProjectMember c)" "safe db_tx\<^sup>*\<^sup>* (removeProjectMember c)"
  "safe db_tx\<^sup>*\<^sup>* (listDepartments c)" "safe db_tx\<^sup>*\<^sup>* (createDepartment c)"
  "safe db_tx\<^sup>*\<^sup>* (assignUserDepartment c)" "safe db_tx\<^sup>*\<^sup>* (listUsers c)" "safe db_tx\<^sup>*\<^sup>* (createUser c)"
  "safe db_tx\<^sup>*\<^sup>* (issueToken c)" "safe db_tx\<^sup>*\<^sup>* (listTokens c)" "safe db_tx\<^sup>*\<^sup>* (revokeToken c)"
  "safe db_tx\<^sup>*\<^sup>* (auditLogsSearch c)" "safe db_tx\<^sup>*\<^sup>* (listReservations c)"
  "safe db_tx\<^sup>*\<^sup>* (createReservation c)" "safe db_tx\<^sup>*\<^sup>* (cancelReservation c)" "safe db_tx\<^sup>*\<^sup>* (listBudgets c)"
  "safe db_tx\<^sup>*\<^sup>* (setBudget c)" "safe db_tx\<^sup>*\<^sup>* (deleteBudget c)" "safe db_tx\<^sup>*\<^sup>* (listAlerts c)"
  "safe db_tx\<^sup>*\<^sup>* (acknowledgeAlert c)" "safe db_tx\<^sup>*\<^sup>* (listAlertRules c)" "safe db_tx\<^sup>*\<^sup>* (createAlertRule c)"
  "safe db_tx\<^sup>*\<^sup>* (toggleAlertRule c)" "safe db_tx\<^sup>*\<^sup>* (deleteAlertRule c)"
  unfolding chargeback_def chargebackCSV_def listRates_def setRate_def creditSummary_def creditLedger_def topupCredits_def listProjects_def
    createProject_def getProject_def updateProject_def listProjectMembers_def addProjectMember_def removeProjectMember_def listDepartments_def
    createDepartment_def assignUserDepartment_def listUsers_def createUser_def issueToken_def listTokens_def revokeToken_def auditLogsSearch_def
    listReservations_def createReservation_def cancelReservation_def listBudgets_def setBudget_def deleteBudget_def listAlerts_def
    acknowledgeAlert_def listAlertRules_def createAlertRule_def toggleAlertRule_def deleteAlertRule_def patch_and_answer_def assign_department_def
    with_department_def done_or_def with_scope_def Let_def
  by (intro http.safe_rules http_calls inert_effects)+

lemma inert_hub [simp]: "inert (\<lambda>h. h\<lparr>h_hub := f h\<rparr>)"
  by (simp add: inert_def)

lemma safe_stream [http_safe]: "safe db_tx\<^sup>*\<^sup>* (eventStream c)"
  unfolding eventStream_def by (intro http.safe_rules http_calls inert_hub)

lemma safe_kick: "(\<And>b. safe db_tx\<^sup>*\<^sup>* (k b)) \<Longrightarrow> safe db_tx\<^sup>*\<^sup>* (kick_node c i k)"
proof -
  assume k: "\<And>b. safe db_tx\<^sup>*\<^sup>* (k b)"
  have "db_tx\<^sup>*\<^sup>* (s_db (h_sys h)) (s_db (h_sys (snd (k b (h\<lparr>h_streams := st\<rparr>)))))" for h b st
    using k [of b, unfolded safe_def, rule_format, of "h\<lparr>h_streams := st\<rparr>"] by simp
  moreover have "db_tx\<^sup>*\<^sup>* (s_db (h_sys h)) (s_db (h_sys (snd (k False h))))" for h using k by (simp add: safe_def)
  ultimately show ?thesis by (auto simp: safe_def kick_node_def split: prod.split)
qed

lemma safe_answer: "safe db_tx\<^sup>*\<^sup>* (\<lambda>h. (f h, h))"
  by (simp add: safe_def)

lemma safe_remove [http_safe]: "safe db_tx\<^sup>*\<^sup>* (removeNode c)"
  unfolding removeNode_def Let_def by (intro http.safe_rules http_calls inert_effects safe_kick safe_answer)

lemma safe_health [http_safe]: "safe db_tx\<^sup>*\<^sup>* (adminHealth c)"
proof -
  have "safe db_tx\<^sup>*\<^sup>* (call (Check msg he clk n jobs) (\<lambda>rep. call (org_agents k) (\<lambda>own. Pair (f rep own))))" for msg he clk n jobs k f
    by (intro http.safe_rules http_calls)
  then show ?thesis by (auto simp: safe_def adminHealth_def split: option.split)
qed

lemma safe_files [http_safe]: "safe db_tx\<^sup>*\<^sup>* (installScript c)" "safe db_tx\<^sup>*\<^sup>* (agentCA c)"
  unfolding installScript_def agentCA_def Let_def by (intro http.safe_rules)+

section \<open>The routes\<close>

definition safe_handler :: "handler \<Rightarrow> bool" where
  "safe_handler f \<longleftrightarrow> (\<forall>c. safe db_tx\<^sup>*\<^sup>* (f c))"

lemma safe_auth: "(\<And>c. safe db_tx\<^sup>*\<^sup>* (next c)) \<Longrightarrow> safe db_tx\<^sup>*\<^sup>* (authMiddleware next c)"
  unfolding authMiddleware_def Let_def by (intro http.safe_rules http_calls)

lemma list_all_group: "list_all P (Group mw rs) \<longleftrightarrow> list_all (\<lambda>r. P (fst r, mw (snd r))) rs"
  and list_all_under: "list_all (\<lambda>r. Q (snd r)) (Route base rs) \<longleftrightarrow> list_all (\<lambda>r. Q (snd r)) rs"
  by (simp_all add: Group_def Route_def list.pred_map comp_def)

lemma safe_group:
  assumes "\<And>f. safe_handler f \<Longrightarrow> safe_handler (mw f)" and "list_all (\<lambda>r. safe_handler (snd r)) rs"
  shows "list_all (\<lambda>r. safe_handler (snd r)) (Group mw rs)"
  unfolding list_all_group using assms(2) by (rule list.pred_mono_strong) (simp add: assms(1))

lemma safe_probe_routes: "list_all (\<lambda>r. safe_handler (snd r)) (probe_routes mx)"
  by (simp add: probe_routes_def safe_handler_def http_safe http.safe_Pair)

lemma safe_public_routes: "list_all (\<lambda>r. safe_handler (snd r)) public_routes"
  by (simp add: public_routes_def safe_handler_def http_safe http.safe_gates)

lemma safe_account_routes: "list_all (\<lambda>r. safe_handler (snd r)) account_routes"
  by (simp add: account_routes_def safe_handler_def http_safe http.safe_gates)

lemma safe_member_routes: "list_all (\<lambda>r. safe_handler (snd r)) member_routes"
  by (simp add: member_routes_def safe_handler_def http_safe)

lemma safe_role_routes:
  "list_all (\<lambda>r. safe_handler (snd r)) human_routes" "list_all (\<lambda>r. safe_handler (snd r)) admin_human_routes"
  "list_all (\<lambda>r. safe_handler (snd r)) admin_routes" "list_all (\<lambda>r. safe_handler (snd r)) owner_routes"
  by (simp_all add: human_routes_def admin_human_routes_def admin_routes_def owner_routes_def safe_handler_def http_safe)

lemma safe_routes: "list_all (\<lambda>r. safe_handler (snd r)) (routes mx)"
proof -
  have "list_all (\<lambda>r. safe_handler (snd r)) org_routes"
    unfolding org_routes_def list_all_append
    by (intro conjI safe_member_routes safe_group safe_role_routes) (simp_all add: safe_handler_def http.safe_gates)
  then have "list_all (\<lambda>r. safe_handler (snd r)) (account_routes @ Group requireOrg org_routes)"
    unfolding list_all_append
    by (intro conjI safe_account_routes safe_group) (simp_all add: safe_handler_def http.safe_gates)
  then have "list_all (\<lambda>r. safe_handler (snd r)) authed_routes"
    unfolding authed_routes_def by (intro safe_group) (simp_all add: safe_handler_def safe_auth)
  then show ?thesis by (simp add: routes_def list_all_under safe_probe_routes safe_public_routes)
qed

lemma safe_dispatch: "safe db_tx\<^sup>*\<^sup>* (dispatch mx c)"
  unfolding dispatch_def
proof (intro http.safe_option http.safe_prod http.safe_if http.safe_Pair)
  fix i params assume "i < length (routes mx)"
  then show "safe db_tx\<^sup>*\<^sup>* (snd (routes mx ! i) (c\<lparr>c_req := (c_req c)\<lparr>hq_Param := params\<rparr>\<rparr>))"
    using safe_routes [of mx] by (simp add: list_all_length safe_handler_def)
qed

text \<open>Every request is a sequence of committed transactions of the platform.\<close>

lemma ServeHTTP_runs: "db_tx\<^sup>*\<^sup>* (s_db (h_sys h)) (s_db (h_sys (snd (ServeHTTP mx c h))))"
proof -
  have "db_tx\<^sup>*\<^sup>* (s_db (h_sys h)) (s_db (h_sys (snd (dispatch mx c' h))))" for c'
    using safe_dispatch by (simp add: safe_def)
  then show ?thesis by (simp add: ServeHTTP_def requestIDMiddleware_def corsMiddleware_def Let_def case_prod_beta)
qed

context platform_invariant
begin

lemma run_keeps: "db_tx\<^sup>*\<^sup>* d d' \<Longrightarrow> I d \<Longrightarrow> I d'"
  by (induction rule: rtranclp_induct) (auto simp: db_tx_def intro: tx_keeps id_keeps)

lemma request_keeps: "I (s_db (h_sys h)) \<Longrightarrow> I (s_db (h_sys (snd (ServeHTTP mx c h))))"
  using run_keeps [OF ServeHTTP_runs] .

end

end
