(* ===== verification/Http_Gates.thy ===== *)
theory Http_Gates
  imports Http_Runs
begin

text \<open>
  What a request may see and do: the shape of the answers, the gates in front of the routes, the
  isolation of organisations and projects, and the secrets of workloads.
\<close>

section \<open>Answers\<close>

definition answers :: "(response \<Rightarrow> bool) \<Rightarrow> (server \<Rightarrow> response \<times> server) \<Rightarrow> bool" where
  "answers P k \<longleftrightarrow> (\<forall>h. P (fst (k h)))"

lemma answers_Pair: "P r \<Longrightarrow> answers P (Pair r)"
  by (simp add: answers_def)

lemma answers_call: "(\<And>x. answers P (k x)) \<Longrightarrow> answers P (call m k)"
  by (simp add: answers_def call_def split: prod.split)

lemma answers_sum: "(\<And>e. answers P (f e)) \<Longrightarrow> (\<And>x. answers P (g x)) \<Longrightarrow> answers P (case r of Inl e \<Rightarrow> f e | Inr x \<Rightarrow> g x)"
  by (cases r) simp_all

lemma answers_attempt: "(\<And>e. P (onerr e)) \<Longrightarrow> (\<And>x. answers P (k x)) \<Longrightarrow> answers P (attempt m onerr k)"
  unfolding attempt_def by (intro answers_call answers_sum answers_Pair)

lemma answers_effect: "answers P k \<Longrightarrow> answers P (effect f k)"
  by (simp add: answers_def effect_def)

lemma answers_guard: "P r \<Longrightarrow> answers P k \<Longrightarrow> answers P (guard b r k)"
  by (simp add: guard_def answers_Pair)

lemma answers_if: "answers P k \<Longrightarrow> answers P l \<Longrightarrow> answers P (if b then k else l)"
  by simp

lemma answers_option: "answers P k \<Longrightarrow> (\<And>x. answers P (l x)) \<Longrightarrow> answers P (case v of None \<Rightarrow> k | Some x \<Rightarrow> l x)"
  by (cases v) simp_all

lemma answers_prod: "(\<And>x y. answers P (k x y)) \<Longrightarrow> answers P (case p of (x, y) \<Rightarrow> k x y)"
  by (cases p) simp

lemma answers_fun: "(\<And>h. P (f h)) \<Longrightarrow> answers P (\<lambda>h. (f h, h))"
  by (simp add: answers_def)

lemma answers_kick: "(\<And>b. answers P (k b)) \<Longrightarrow> answers P (kick_node c i k)"
  by (simp add: answers_def kick_node_def split: prod.split)

lemmas answers_rules = answers_Pair answers_call answers_attempt answers_effect answers_guard answers_if answers_option
  answers_prod answers_sum answers_kick answers_fun

text \<open>
  The contract of the answers of the API: a status of the list, the error document where it is an
  error, no body under 204, and the content type where the body is a JSON document.
\<close>

definition statuses :: "int list" where
  "statuses = [200, 201, 202, 204, 302, 400, 401, 402, 403, 404, 409, 429, 500]"

definition enveloped :: "response \<Rightarrow> bool" where
  "enveloped r \<longleftrightarrow> hr_Status r \<in> set statuses \<and>
     (hr_Status r \<ge> 400 \<longrightarrow> (\<exists>code msg. hr_Body r = Body (error_body code msg))) \<and> (hr_Status r = 204 \<longrightarrow> hr_Body r = NoBody) \<and>
     (\<forall>j. hr_Body r = Body j \<longrightarrow> (''Content-Type'', ''application/json'') \<in> set (hr_Header r))"

lemma enveloped_answers [simp]:
  "enveloped (writeErr n code msg) \<longleftrightarrow> n \<in> set statuses \<and> n \<noteq> 204"
  "n < 400 \<Longrightarrow> n \<noteq> 204 \<Longrightarrow> enveloped (writeJSON n j) \<longleftrightarrow> n \<in> set statuses"
  "n < 400 \<Longrightarrow> enveloped (WriteHeader n) \<longleftrightarrow> n \<in> set statuses"
  "enveloped (Redirect url)" "enveloped (with_cookies cs r) = enveloped r"
  by (auto simp: enveloped_def writeErr_def writeJSON_def WriteHeader_def Redirect_def with_cookies_def statuses_def)

lemma enveloped_retry [simp]: "enveloped r \<Longrightarrow> enveloped (set_header ''Retry-After'' v r)"
  by (auto simp: enveloped_def set_header_def)

lemma enveloped_errors [simp]:
  "enveloped (missing_or m n e)" "enveloped (writeMembershipErr a e)" "enveloped (launch_err c e)" "enveloped (project_err c e)"
  "enveloped (remove_err i e h)" "enveloped (oauthFail c reason)" "enveloped invalid_json"
  by (auto simp: missing_or_def writeMembershipErr_def launch_err_def project_err_def remove_err_def oauthFail_def invalid_json_def
      statuses_def split: err.split)

lemma enveloped_raw [simp]: "enveloped \<lparr>hr_Status = 200, hr_Header = hs, hr_Cookies = cs, hr_Body = Raw x\<rparr>" "enveloped stream_head"
  by (simp_all add: enveloped_def statuses_def stream_head_def)

named_theorems envelopes \<open>handlers whose answers keep the contract\<close>

lemma enveloped_accounts [envelopes]:
  "answers enveloped (login c)" "answers enveloped (register c)" "answers enveloped (registerPending c)" "answers enveloped (me c)"
  "answers enveloped (googleStart c)" "answers enveloped (googleCallback c)" "answers enveloped (onboardingCreateOrg c)"
  "answers enveloped (refresh c)" "answers enveloped (logout c)" "answers enveloped (listSessions c)" "answers enveloped (revokeSession c)"
  "answers enveloped (revokeAllSessions c)" "answers enveloped (listMembers c)" "answers enveloped (changeMemberRole c)"
  "answers enveloped (removeMember c)" "answers enveloped (listInvitations c)" "answers enveloped (createInvitation c)"
  "answers enveloped (resendInvitation c)" "answers enveloped (leaveOrg c)" "answers enveloped (transferOwnership c)"
  "answers enveloped (revokeInvitation c)" "answers enveloped (previewInvitation c)" "answers enveloped (acceptInvitation c)"
  "answers enveloped (listJoinCodes c)" "answers enveloped (createJoinCode c)" "answers enveloped (revokeJoinCode c)"
  "answers enveloped (joinViaCode c)" "answers enveloped (listAPIKeys c)" "answers enveloped (createAPIKey c)" "answers enveloped (revokeAPIKey c)"
  "answers enveloped (listServiceAccounts c)" "answers enveloped (createServiceAccount c)" "answers enveloped (updateServiceAccount c)"
  "answers enveloped (requestEmailVerification c)" "answers enveloped (confirmEmailVerification c)" "answers enveloped (requestPasswordReset c)"
  "answers enveloped (confirmPasswordReset c)"
  unfolding login_def register_def registerPending_def me_def googleStart_def googleCallback_def onboardingCreateOrg_def refresh_def logout_def
    listSessions_def revokeSession_def revokeAllSessions_def listMembers_def changeMemberRole_def removeMember_def listInvitations_def
    createInvitation_def resendInvitation_def leaveOrg_def transferOwnership_def revokeInvitation_def previewInvitation_def acceptInvitation_def
    listJoinCodes_def createJoinCode_def revokeJoinCode_def joinViaCode_def listAPIKeys_def createAPIKey_def revokeAPIKey_def listServiceAccounts_def
    createServiceAccount_def updateServiceAccount_def requestEmailVerification_def confirmEmailVerification_def requestPasswordReset_def
    confirmPasswordReset_def create_key_def current_session_def with_id_def with_param_def Let_def
  by (intro answers_rules; simp add: statuses_def)+

lemma enveloped_fleet [envelopes]:
  "answers enveloped (listNodes c)" "answers enveloped (getNode c)" "answers enveloped (revokeNodeCredentials c)"
  "answers enveloped (listNodeGPUs c)" "answers enveloped (listGPUs c)" "answers enveloped (config c)" "answers enveloped (listTemplates c)"
  "answers enveloped (getTemplate c)" "answers enveloped (createTemplate c)" "answers enveloped (listWorkloads c)"
  "answers enveloped (launchWorkload c)" "answers enveloped (getWorkload c)" "answers enveloped (stopWorkload c)"
  "answers enveloped (workloadLogs c)" "answers enveloped (workloadEvents c)" "answers enveloped (queue c)" "answers enveloped (fleetSummary c)"
  "answers enveloped (utilization c)" "answers enveloped (idleReport c)" "answers enveloped (healthz c)" "answers enveloped (removeNode c)"
  "answers enveloped (eventStream c)"
  unfolding listNodes_def getNode_def revokeNodeCredentials_def listNodeGPUs_def listGPUs_def config_def listTemplates_def getTemplate_def
    createTemplate_def listWorkloads_def launchWorkload_def getWorkload_def stopWorkload_def workloadLogs_def workloadEvents_def queue_def
    fleetSummary_def utilization_def idleReport_def healthz_def removeNode_def eventStream_def with_template_def with_project_def visible_workload_def
    with_id_def list_query_def admin_only_def Let_def
  by (intro answers_rules; simp add: statuses_def)+

lemma enveloped_admin [envelopes]:
  "answers enveloped (chargeback c)" "answers enveloped (chargebackCSV c)" "answers enveloped (listRates c)" "answers enveloped (setRate c)"
  "answers enveloped (creditSummary c)" "answers enveloped (creditLedger c)" "answers enveloped (topupCredits c)"
  "answers enveloped (listProjects c)" "answers enveloped (createProject c)" "answers enveloped (getProject c)" "answers enveloped (updateProject c)"
  "answers enveloped (listProjectMembers c)" "answers enveloped (addProjectMember c)" "answers enveloped (removeProjectMember c)"
  "answers enveloped (listDepartments c)" "answers enveloped (createDepartment c)" "answers enveloped (assignUserDepartment c)"
  "answers enveloped (listUsers c)" "answers enveloped (createUser c)" "answers enveloped (issueToken c)" "answers enveloped (listTokens c)"
  "answers enveloped (revokeToken c)" "answers enveloped (auditLogsSearch c)" "answers enveloped (listReservations c)"
  "answers enveloped (createReservation c)" "answers enveloped (cancelReservation c)" "answers enveloped (listBudgets c)"
  "answers enveloped (setBudget c)" "answers enveloped (deleteBudget c)" "answers enveloped (listAlerts c)" "answers enveloped (acknowledgeAlert c)"
  "answers enveloped (listAlertRules c)" "answers enveloped (createAlertRule c)" "answers enveloped (toggleAlertRule c)"
  "answers enveloped (deleteAlertRule c)"
  unfolding chargeback_def chargebackCSV_def listRates_def setRate_def creditSummary_def creditLedger_def topupCredits_def listProjects_def
    createProject_def getProject_def updateProject_def listProjectMembers_def addProjectMember_def removeProjectMember_def listDepartments_def
    createDepartment_def assignUserDepartment_def listUsers_def createUser_def issueToken_def listTokens_def revokeToken_def auditLogsSearch_def
    listReservations_def createReservation_def cancelReservation_def listBudgets_def setBudget_def deleteBudget_def listAlerts_def
    acknowledgeAlert_def listAlertRules_def createAlertRule_def toggleAlertRule_def deleteAlertRule_def patch_and_answer_def assign_department_def
    with_department_def done_or_def with_scope_def with_id_def list_query_def admin_only_def Let_def
  by (intro answers_rules; simp add: statuses_def)+

lemma enveloped_health [envelopes]: "answers enveloped (adminHealth c)"
proof -
  have "answers enveloped (call (Check msg he clk n jobs) (\<lambda>rep. call (org_agents k) (\<lambda>own. Pair (writeJSON 200 (f rep own)))))" for msg he clk n jobs k f
    by (intro answers_rules) (simp add: statuses_def)
  then show ?thesis by (auto simp: answers_def adminHealth_def statuses_def split: option.split)
qed

text \<open>The middlewares keep the contract, and so do the routes of the API.\<close>

definition enveloped_handler :: "handler \<Rightarrow> bool" where
  "enveloped_handler f \<longleftrightarrow> (\<forall>c. answers enveloped (f c))"

lemma enveloped_limited: "enveloped_handler next \<Longrightarrow> enveloped_handler (limited get put next)"
  by (auto simp: enveloped_handler_def answers_def limited_def statuses_def split: prod.split)

lemma enveloped_gates:
  assumes "enveloped_handler next"
  shows "enveloped_handler (requireOrg next)" and "enveloped_handler (requireRole r next)" and "enveloped_handler (blockServiceAccounts next)"
    and "enveloped_handler (authMiddleware next)" and "enveloped_handler (loginLimit next)" and "enveloped_handler (registerLimit next)"
    and "enveloped_handler (refreshLimit next)" and "enveloped_handler (tokenProbeLimit next)"
proof -
  have n: "answers enveloped (next c)" for c using assms by (simp add: enveloped_handler_def)
  show "enveloped_handler (requireOrg next)" "enveloped_handler (requireRole r next)" "enveloped_handler (blockServiceAccounts next)"
    "enveloped_handler (authMiddleware next)"
    unfolding enveloped_handler_def requireOrg_def requireRole_def blockServiceAccounts_def authMiddleware_def Let_def
    by (intro allI answers_rules n; simp add: statuses_def)+
qed (use assms in \<open>simp_all add: loginLimit_def registerLimit_def refreshLimit_def tokenProbeLimit_def enveloped_limited\<close>)

lemma enveloped_handlers: "(\<And>c. answers enveloped (f c)) \<Longrightarrow> enveloped_handler f"
  by (simp add: enveloped_handler_def)

lemma enveloped_group:
  assumes "\<And>f. enveloped_handler f \<Longrightarrow> enveloped_handler (mw f)" and "list_all (\<lambda>r. enveloped_handler (snd r)) rs"
  shows "list_all (\<lambda>r. enveloped_handler (snd r)) (Group mw rs)"
  unfolding list_all_group using assms(2) by (rule list.pred_mono_strong) (simp add: assms(1))

lemma enveloped_lists:
  "list_all (\<lambda>r. enveloped_handler (snd r)) public_routes" "list_all (\<lambda>r. enveloped_handler (snd r)) account_routes"
  "list_all (\<lambda>r. enveloped_handler (snd r)) member_routes" "list_all (\<lambda>r. enveloped_handler (snd r)) human_routes"
  "list_all (\<lambda>r. enveloped_handler (snd r)) admin_human_routes" "list_all (\<lambda>r. enveloped_handler (snd r)) admin_routes"
  "list_all (\<lambda>r. enveloped_handler (snd r)) owner_routes"
  by (simp_all add: public_routes_def account_routes_def member_routes_def human_routes_def admin_human_routes_def admin_routes_def
      owner_routes_def enveloped_gates enveloped_handlers envelopes)

lemma enveloped_org_routes: "list_all (\<lambda>r. enveloped_handler (snd r)) org_routes"
  unfolding org_routes_def list_all_append by (intro conjI enveloped_lists enveloped_group enveloped_gates)

lemma enveloped_authed_routes: "list_all (\<lambda>r. enveloped_handler (snd r)) authed_routes"
  unfolding authed_routes_def
  by (rule enveloped_group, erule enveloped_gates, unfold list_all_append,
      intro conjI enveloped_lists enveloped_group enveloped_gates enveloped_org_routes)

lemma enveloped_routes: "list_all (\<lambda>r. enveloped_handler (snd r)) (Route ''/api/v1'' (public_routes @ authed_routes))"
  unfolding list_all_under list_all_append by (intro conjI enveloped_lists enveloped_authed_routes)

section \<open>The gates\<close>

lemma in_Group: "r \<in> set (Group mw rs) \<longleftrightarrow> (\<exists>q \<in> set rs. r = (fst q, mw (snd q)))"
  by (auto simp: Group_def)

text \<open>A token that does not authenticate changes nothing, an API key included.\<close>

lemma Authenticate_frame: "Authenticate sv clk token s = (r, t) \<Longrightarrow> s_db t = s_db s"
  using reads_identity(4) by (metis keeps_def snd_conv)

lemma AuthenticateAPIKey_refused: "AuthenticateAPIKey sv clk raw s = (Inl e, t) \<Longrightarrow> s_db t = s_db s"
  unfolding AuthenticateAPIKey_def
  by (auto simp: hide_error_def dest!: query_eq_db elim!: andThen_cases split: if_splits option.splits prod.splits sum.splits)

lemma authenticateToken_refused: "authenticateToken c token s = (Inl e, t) \<Longrightarrow> s_db t = s_db s"
  by (auto simp: authenticateToken_def dest: Authenticate_frame AuthenticateAPIKey_refused split: if_splits)

definition unauthenticated :: "ctx \<Rightarrow> server \<Rightarrow> bool" where
  "unauthenticated c h \<longleftrightarrow> bearerToken (c_req c) = '''' \<or> isl (fst (authenticateToken c (bearerToken (c_req c)) (h_sys h)))"

lemma authMiddleware_refuses:
  assumes "unauthenticated c h"
  shows "\<exists>msg. fst (authMiddleware next c h) = writeErr 401 ''unauthorized'' msg"
    and "s_db (h_sys (snd (authMiddleware next c h))) = s_db (h_sys h)"
proof -
  obtain r t where a: "authenticateToken c (bearerToken (c_req c)) (h_sys h) = (r, t)" by fastforce
  have "bearerToken (c_req c) = '''' \<or> (\<exists>e. r = Inl e \<and> s_db t = s_db (h_sys h))"
    using assms a authenticateToken_refused by (cases r) (auto simp: unauthenticated_def)
  then show "\<exists>msg. fst (authMiddleware next c h) = writeErr 401 ''unauthorized'' msg"
    and "s_db (h_sys (snd (authMiddleware next c h))) = s_db (h_sys h)"
    by (auto simp: authMiddleware_def Let_def attempt_def call_def a)
qed

lemma authed_needs_token:
  assumes "r \<in> set authed_routes" and "unauthenticated c h"
  shows "\<exists>msg. fst (snd r c h) = writeErr 401 ''unauthorized'' msg" and "s_db (h_sys (snd (snd r c h))) = s_db (h_sys h)"
proof -
  obtain nxt where "snd r = authMiddleware nxt" using assms(1) by (auto simp: authed_routes_def in_Group)
  then show "\<exists>msg. fst (snd r c h) = writeErr 401 ''unauthorized'' msg" and "s_db (h_sys (snd (snd r c h))) = s_db (h_sys h)"
    using authMiddleware_refuses [OF assms(2)] by simp_all
qed

text \<open>A principal that authenticates goes on with the next handler; a member of no organisation stops.\<close>

lemma authMiddleware_passes:
  assumes "bearerToken (c_req c) \<noteq> ''''" and "authenticateToken c (bearerToken (c_req c)) (h_sys h) = (Inr u, s)"
  shows "authMiddleware next c h = next (c\<lparr>c_user := u\<rparr>) (h\<lparr>h_sys := s\<rparr>)"
  using assms by (simp add: authMiddleware_def attempt_def call_def)

lemma requireOrg_refuses:
  "\<not> Onboarded (c_user c) \<Longrightarrow> requireOrg next c h = (writeErr 409 ''onboarding_required'' ''create or join an organization to continue'', h)"
  by (simp add: requireOrg_def guard_def)

text \<open>
  The routes that a principal below the role is refused on: 403 by a middleware, or by the handler
  itself, where the check of an id may come first.
\<close>

definition refused :: "handler \<Rightarrow> ctx \<Rightarrow> bool" where
  "refused f c \<longleftrightarrow> (\<forall>h. snd (f c h) = h \<and> hr_Status (fst (f c h)) = 403)"

lemma role_refuses: "\<not> AtLeast (u_Role (c_user c)) r \<Longrightarrow> refused (requireRole r next) c"
  by (simp add: refused_def requireRole_def guard_def writeErr_def writeJSON_def)

lemma service_account_refused: "u_IsServiceAccount (c_user c) \<Longrightarrow> refused (blockServiceAccounts next) c"
  by (simp add: refused_def blockServiceAccounts_def guard_def writeErr_def writeJSON_def)

definition admin_handlers :: "handler list" where
  "admin_handlers = [createTemplate, setRate, topupCredits, createDepartment, assignUserDepartment, createUser, listTokens, issueToken, revokeToken,
     setBudget, createAlertRule]"

lemma admin_handlers_refuse: "\<not> c_admin c \<Longrightarrow> f \<in> set admin_handlers \<Longrightarrow> refused f c"
  by (auto simp: admin_handlers_def refused_def admin_only_def guard_def createTemplate_def setRate_def topupCredits_def createDepartment_def
      assignUserDepartment_def createUser_def listTokens_def issueToken_def revokeToken_def setBudget_def createAlertRule_def
      writeErr_def writeJSON_def)

text \<open>Handlers that parse the id first: an id that is refused or nil leaves the server as it is too.\<close>

definition late_admin_handlers :: "handler list" where
  "late_admin_handlers = [deleteBudget, toggleAlertRule, deleteAlertRule]"

lemma late_admin_handlers_refuse: "\<not> c_admin c \<Longrightarrow> f \<in> set late_admin_handlers \<Longrightarrow> snd (f c h) = h"
  by (auto simp: late_admin_handlers_def deleteBudget_def toggleAlertRule_def deleteAlertRule_def with_id_def admin_only_def guard_def
      split: option.split)

section \<open>Reads change nothing\<close>

named_theorems readers \<open>handlers that leave the tables as they are\<close>

lemma readers_accounts [readers]:
  "safe (=) (me c)" "safe (=) (listSessions c)" "safe (=) (listMembers c)" "safe (=) (listInvitations c)" "safe (=) (listJoinCodes c)"
  "safe (=) (listAPIKeys c)" "safe (=) (listServiceAccounts c)" "safe (=) (previewInvitation c)"
  unfolding me_def listSessions_def listMembers_def listInvitations_def listJoinCodes_def listAPIKeys_def listServiceAccounts_def
    previewInvitation_def current_session_def Let_def
  by (intro reads.safe_rules read_calls)+

lemma readers_fleet [readers]:
  "safe (=) (listNodes c)" "safe (=) (getNode c)" "safe (=) (listNodeGPUs c)" "safe (=) (listGPUs c)" "safe (=) (config c)"
  "safe (=) (listTemplates c)" "safe (=) (getTemplate c)" "safe (=) (listWorkloads c)" "safe (=) (getWorkload c)" "safe (=) (workloadLogs c)"
  "safe (=) (workloadEvents c)" "safe (=) (queue c)" "safe (=) (fleetSummary c)" "safe (=) (utilization c)" "safe (=) (idleReport c)"
  unfolding listNodes_def getNode_def listNodeGPUs_def listGPUs_def config_def listTemplates_def getTemplate_def listWorkloads_def getWorkload_def
    workloadLogs_def workloadEvents_def queue_def fleetSummary_def utilization_def idleReport_def visible_workload_def Let_def
  by (intro reads.safe_rules read_calls)+

lemma readers_admin [readers]:
  "safe (=) (chargeback c)" "safe (=) (chargebackCSV c)" "safe (=) (listRates c)" "safe (=) (creditSummary c)" "safe (=) (creditLedger c)"
  "safe (=) (listProjects c)" "safe (=) (getProject c)" "safe (=) (listProjectMembers c)" "safe (=) (listDepartments c)" "safe (=) (listUsers c)"
  "safe (=) (listTokens c)" "safe (=) (auditLogsSearch c)" "safe (=) (listReservations c)" "safe (=) (listBudgets c)" "safe (=) (listAlerts c)"
  "safe (=) (listAlertRules c)"
  unfolding chargeback_def chargebackCSV_def listRates_def creditSummary_def creditLedger_def listProjects_def getProject_def listProjectMembers_def
    listDepartments_def listUsers_def listTokens_def auditLogsSearch_def listReservations_def listBudgets_def listAlerts_def listAlertRules_def
    Let_def
  by (intro reads.safe_rules read_calls)+


lemma reader_health [readers]: "safe (=) (adminHealth c)"
proof -
  have "safe (=) (call (Check msg he clk n jobs) (\<lambda>rep. call (org_agents k) (\<lambda>own. Pair (f rep own))))" for msg he clk n jobs k f
    by (intro reads.safe_rules read_calls)
  then show ?thesis by (auto simp: safe_def adminHealth_def split: option.split)
qed

definition get_reads :: "route \<Rightarrow> bool" where
  "get_reads r \<longleftrightarrow> (fst (fst r) = ''GET'' \<longrightarrow> (\<forall>c. safe (=) (snd r c)))"

lemma get_reads_group:
  assumes "\<And>f c. (\<And>c. safe (=) (f c)) \<Longrightarrow> safe (=) (mw f c)" and "list_all get_reads rs"
  shows "list_all get_reads (Group mw rs)"
  unfolding list_all_group using assms(2) by (rule list.pred_mono_strong) (simp add: get_reads_def assms(1))

lemma get_reads_lists:
  "list_all get_reads member_routes" "list_all get_reads human_routes" "list_all get_reads admin_human_routes"
  "list_all get_reads admin_routes" "list_all get_reads owner_routes"
  by (simp_all add: member_routes_def human_routes_def admin_human_routes_def admin_routes_def owner_routes_def get_reads_def readers)

lemma get_reads_org: "list_all get_reads org_routes"
  unfolding org_routes_def list_all_append
  by (intro conjI get_reads_lists get_reads_group reads.safe_gates) assumption+

section \<open>Isolation\<close>

definition workload_handlers :: "handler list" where
  "workload_handlers = [getWorkload, stopWorkload, workloadLogs, workloadEvents]"

lemma query_clean: "s_faults s = [] \<Longrightarrow> f (s_db s) = Inl e \<Longrightarrow> query f s = (Inl e, s)"
  by (simp add: query_no_fault)

lemma Get_foreign:
  assumes "\<forall>w \<in> set (workloads d). w_ID w = i \<longrightarrow> w_OrgID w \<noteq> k"
  shows "Get k i d = Inl ErrNotFound" and "Detail now k i d = Inl ErrNotFound"
proof -
  show "Get k i d = Inl ErrNotFound"
    using assms by (auto simp: Get_def getByID_def scanWorkloadRow_def Workload.defs workload_by_id_def dest!: find_SomeD split: option.split)
  then show "Detail now k i d = Inl ErrNotFound" by (simp add: Detail_def)
qed

lemma foreign_workload_hidden:
  assumes "f \<in> set workload_handlers" and "a_parseUUID (c_api c) (hq_Param (c_req c) ''id'') = Some i" and "i \<noteq> uuid_Nil"
    and "s_faults (h_sys h) = []" and "\<forall>w \<in> set (workloads (s_db (h_sys h))). w_ID w = i \<longrightarrow> w_OrgID w \<noteq> c_org c"
  shows "f c h = (writeErr 404 ''not_found'' ''workload not found'', h)"
  using assms(1-4) Get_foreign [OF assms(5)]
  by (auto simp: workload_handlers_def getWorkload_def stopWorkload_def workloadLogs_def workloadEvents_def visible_workload_def with_id_def
      attempt_def call_def query_clean missing_or_def)

text \<open>Within an organisation, a workload of a restricted project is hidden from those outside it.\<close>

lemma Get_found:
  assumes "workload_by_id i d = Some w" and "w_OrgID w = k"
  shows "Get k i d = Inr (scanWorkloadRow w)" and "\<exists>v. Detail now k i d = Inr v \<and> dv_Workload v = scanWorkloadRow w"
proof -
  show "Get k i d = Inr (scanWorkloadRow w)"
    using assms by (simp add: Get_def getByID_def scanWorkloadRow_def Workload.defs)
  then show "\<exists>v. Detail now k i d = Inr v \<and> dv_Workload v = scanWorkloadRow w"
    by (auto simp: Detail_def Let_def split: prod.split)
qed

lemma query_found: "s_faults s = [] \<Longrightarrow> f (s_db s) = Inr x \<Longrightarrow> query f s = (Inr x, s)"
  by (simp add: query_no_fault)

lemma restricted_workload_hidden:
  assumes "f \<in> set workload_handlers" and "a_parseUUID (c_api c) (hq_Param (c_req c) ''id'') = Some i" and "i \<noteq> uuid_Nil"
    and nf: "s_faults (h_sys h) = []" and w: "workload_by_id i (s_db (h_sys h)) = Some w" "w_OrgID w = c_org c"
    and other: "w_UserID w \<noteq> u_ID (c_user c)" "\<not> c_admin c" and p: "w_ProjectID w = Some p" "find (\<lambda>r. pj_ID r = p \<and> pj_OrgID r = c_org c) (projects (s_db (h_sys h))) = Some q"
      "pj_Visibility q = ''restricted''" "\<not> is_project_member p (u_ID (c_user c)) (s_db (h_sys h))"
  shows "f c h = (writeErr 404 ''not_found'' ''workload not found'', h)"
proof -
  have s: "w_UserID (scanWorkloadRow w) = w_UserID w" "w_ProjectID (scanWorkloadRow w) = w_ProjectID w"
    by (simp_all add: scanWorkloadRow_def Workload.defs)
  have hidden: "canViewWorkload c (scanWorkloadRow w) (h_sys h) = (False, h_sys h)"
    using other p by (simp add: canViewWorkload_def s CanViewProject_def query_found [OF nf])
  obtain v where v: "Detail (go_now (c_clk c)) (c_org c) i (s_db (h_sys h)) = Inr v" "dv_Workload v = scanWorkloadRow w"
    using Get_found(2) [OF w] by blast
  show ?thesis using assms(1-3) hidden v Get_found(1) [OF w]
    by (auto simp: workload_handlers_def getWorkload_def stopWorkload_def workloadLogs_def workloadEvents_def visible_workload_def with_id_def
        attempt_def call_def query_found [OF nf] guard_def Let_def)
qed

text \<open>The secrets of a workload.\<close>

lemma secret_keys:
  "''ssh_password'' \<in> fst ` set (workload_members w b) \<longleftrightarrow> b" "''logs'' \<in> fst ` set (workload_members w b) \<longleftrightarrow> b"
  by (auto simp: workload_members_def jwhen_def jsome_def split: option.splits)

definition secret_keys_of :: "json \<Rightarrow> string set" where
  "secret_keys_of j = jkeys j \<inter> {''ssh_password'', ''logs''}"

definition entitled :: "ctx \<Rightarrow> db \<Rightarrow> uuid \<Rightarrow> bool" where
  "entitled c d i \<longleftrightarrow> (\<exists>w \<in> set (workloads d). w_ID w = i \<and> w_OrgID w = c_org c \<and> (w_UserID w = u_ID (c_user c) \<or> c_admin c))"

lemma Get_row:
  assumes "Get k i d = Inr w"
  obtains r where "r \<in> set (workloads d)" "w = scanWorkloadRow r" "w_ID r = i" "w_OrgID r = k"
  using assms by (auto simp: Get_def getByID_def workload_by_id_def bindE_Inr_iff scanWorkloadRow_def Workload.defs dest!: find_SomeD
      split: option.splits if_splits)

lemma entitled_row: "Get (c_org c) i d = Inr w \<Longrightarrow> canViewWorkloadSecrets (c_user c) w \<Longrightarrow> entitled c d i"
  by (erule Get_row) (auto simp: entitled_def canViewWorkloadSecrets_def scanWorkloadRow_def Workload.defs)

lemma extra_members_plain:
  "fst ` set (fst (department_member c wl s)) \<inter> {''ssh_password'', ''logs''} = {}"
  "fst ` set (fst (template_member c wl s)) \<inter> {''ssh_password'', ''logs''} = {}"
  by (auto simp: department_member_def template_member_def split: option.splits prod.splits sum.splits)

lemma error_no_secrets: "secret_keys_of (error_body code msg) = {}"
  by (simp add: secret_keys_of_def error_body_def)

text \<open>A document without the secrets, or the right to them.\<close>

definition secrets_only_if :: "bool \<Rightarrow> response \<Rightarrow> bool" where
  "secrets_only_if b r \<longleftrightarrow> (\<forall>j. hr_Body r = Body j \<and> secret_keys_of j \<noteq> {} \<longrightarrow> b)"

lemma secrets_errors [simp]: "secrets_only_if b (writeErr n code msg)" "secrets_only_if b (missing_or m1 m2 e)" "secrets_only_if b (WriteHeader n)"
  by (simp_all add: secrets_only_if_def missing_or_def writeErr_def writeJSON_def WriteHeader_def error_no_secrets)

lemma answers_result: "(\<And>s. answers P (k (fst (m s)))) \<Longrightarrow> answers P (call m k)"
  by (simp add: answers_def call_def case_prod_beta)

lemma Detail_Get: "Detail now k i d = Inr v \<Longrightarrow> Get k i d = Inr (dv_Workload v)"
  by (auto simp: Detail_def bindE_Inr_iff Let_def case_prod_beta)

lemma getWorkload_secrets:
  assumes "hr_Body (fst (getWorkload c h)) = Body j" and "secret_keys_of j \<noteq> {}"
  shows "\<exists>i. a_parseUUID (c_api c) (hq_Param (c_req c) ''id'') = Some i \<and> entitled c (s_db (h_sys h)) i"
proof (rule ccontr)
  assume not: "\<not> ?thesis"
  let ?D = "\<lambda>i. Detail (go_now (c_clk c)) (c_org c) i"
  have "secrets_only_if False (fst (getWorkload c h))"
  proof (cases "a_parseUUID (c_api c) (hq_Param (c_req c) ''id'')")
    case (Some i)
    obtain r s1 where q: "query (?D i) (h_sys h) = (r, s1)" by fastforce
    show ?thesis
    proof (cases r)
      case (Inr d)
      have "Get (c_org c) i (s_db (h_sys h)) = Inr (dv_Workload d)"
        using Detail_Get query_Inr [of "?D i" "h_sys h" d s1] q Inr by blast
      then have no: "\<not> canViewWorkloadSecrets (c_user c) (dv_Workload d)" using not Some entitled_row by blast
      have "answers (secrets_only_if False) (call (canViewWorkload c (dv_Workload d)) (\<lambda>ok. guard ok (not_found ''workload not found'')
          (call m1 (\<lambda>o1. call (department_member c (dv_Workload d)) (\<lambda>dept. call (template_member c (dv_Workload d)) (\<lambda>tpl.
            Pair (writeJSON 200 (JObj (workload_members (dv_Workload d) (canViewWorkloadSecrets (c_user c) (dv_Workload d)) @
             [(''gpus'', g1), (''runtime_seconds'', g2), (''runtime_cost'', g3), (''currency'', g4), (''owner'', g5 o1)] @ dept @ tpl)))))))))"
        for m1 :: "sys \<Rightarrow> string \<times> sys" and g1 g2 g3 g4 g5
        using extra_members_plain [of c "dv_Workload d"] no
        by (intro answers_result answers_guard answers_Pair)
          (simp, auto simp: secrets_only_if_def secret_keys_of_def writeJSON_def image_Un secret_keys)
      then show ?thesis
        by (simp add: getWorkload_def with_id_def Some attempt_def call_def [of "query (?D i)"] q Inr Let_def answers_def)
    qed (simp add: getWorkload_def with_id_def Some attempt_def call_def q)
  qed (simp add: getWorkload_def with_id_def)
  then show False using assms by (auto simp: secrets_only_if_def)
qed

lemma workloadLogs_secrets:
  assumes "hr_Body (fst (workloadLogs c h)) = Body j" and "secret_keys_of j \<noteq> {}"
  shows "\<exists>i. a_parseUUID (c_api c) (hq_Param (c_req c) ''id'') = Some i \<and> entitled c (s_db (h_sys h)) i"
proof (rule ccontr)
  assume not: "\<not> ?thesis"
  have "secrets_only_if False (fst (workloadLogs c h))"
  proof (cases "a_parseUUID (c_api c) (hq_Param (c_req c) ''id'')")
    case (Some i)
    obtain r s1 where q: "query (Get (c_org c) i) (h_sys h) = (r, s1)" by fastforce
    have "answers (secrets_only_if False) (call (canViewWorkload c wl) (\<lambda>ok. guard ok (not_found ''workload not found'')
        (guard (canViewWorkloadSecrets (c_user c) wl) (writeErr n code msg) (Pair r2))))" if "r = Inr wl" for wl n code msg r2
    proof -
      have "Get (c_org c) i (s_db (h_sys h)) = Inr wl" using query_Inr [of "Get (c_org c) i" "h_sys h" wl s1] q that by blast
      then have "\<not> canViewWorkloadSecrets (c_user c) wl" using not Some entitled_row by blast
      then show ?thesis by (intro answers_result) (simp add: guard_def answers_Pair)
    qed
    then show ?thesis
      by (cases r) (simp_all add: workloadLogs_def with_id_def Some visible_workload_def attempt_def call_def [of "query (Get (c_org c) i)"] q answers_def)
  qed (simp add: workloadLogs_def with_id_def)
  then show False using assms by (auto simp: secrets_only_if_def)
qed

lemma listed_workload: "w \<in> set (workloads_with u status d) \<Longrightarrow> \<exists>r \<in> set (workloads d). w = scanWorkloadRow r \<and> w_OrgID r = org_of u"
  by (auto simp: workloads_with_def List_workloads_def list_matches_def dest!: in_set_takeD split: if_splits option.splits)

lemma listWorkloads_secrets:
  assumes "hr_Body (fst (listWorkloads c h)) = Body (JArr items)" and "item \<in> set items" and "secret_keys_of item \<noteq> {}"
  shows "\<exists>i. jget ''id'' item = Some (JID i) \<and> entitled c (s_db (h_sys h)) i"
proof -
  let ?f = "\<lambda>d. Inr (workloads_with (c_user c) (c_query c ''status'') d) :: err + Workload list"
  obtain r s1 where q: "query ?f (h_sys h) = (r, s1)" by fastforce
  have "\<exists>w \<in> set (workloads_with (c_user c) (c_query c ''status'') (s_db (h_sys h))).
      item = workloadResponse w (canViewWorkloadSecrets (c_user c) w)"
    using assms(1,2) q query_Inr [of ?f "h_sys h" _ s1]
    by (cases r) (auto simp: listWorkloads_def list_query_def attempt_def call_def jlist_def writeJSON_def writeErr_def error_body_def)
  then obtain w where w: "w \<in> set (workloads_with (c_user c) (c_query c ''status'') (s_db (h_sys h)))"
    and item: "item = workloadResponse w (canViewWorkloadSecrets (c_user c) w)" by blast
  have "canViewWorkloadSecrets (c_user c) w"
    using assms(3) by (auto simp: item workloadResponse_def secret_keys_of_def secret_keys)
  then have "entitled c (s_db (h_sys h)) (w_ID w)"
    using listed_workload [OF w] by (auto simp: entitled_def canViewWorkloadSecrets_def scanWorkloadRow_def Workload.defs)
  then show ?thesis by (auto simp: item workloadResponse_def workload_members_def jget_def)
qed

section \<open>Cross-origin requests\<close>

text \<open>
  Credentials are granted to the origin of the request only, never together with the wildcard, and in
  production only to an origin of the configured list.
\<close>

lemma cors_credentials:
  assumes "(''Access-Control-Allow-Credentials'', v) \<in> set (cors_headers a origin)"
  shows "(''Access-Control-Allow-Origin'', x) \<in> set (cors_headers a origin) \<longleftrightarrow> x = origin"
    and "origin \<noteq> ''''" and "a_secureCookies a \<Longrightarrow> origin \<in> set (a_corsOrigins a)"
  using assms by (auto simp: cors_headers_def originAllowed_def list_ex_iff split: if_splits)

section \<open>Password reset\<close>

lemma reset_outcome:
  assumes "s_faults s = []" and "\<forall>t \<in> set (auth_tokens (s_db s)). atk_ID t \<noteq> tid \<and> atk_TokenHash t \<noteq> id_sha sv (randomToken rnd)"
  shows "fst (RequestPasswordReset sv clk tid rnd email s) = Inl ErrNotFound \<or> \<not> isl (fst (RequestPasswordReset sv clk tid rnd email s))"
proof (cases "find (\<lambda>u. email_user (TrimSpace (lower email)) u \<and> active_user u) (users (s_db s))")
  case (Some u)
  have u: "u \<in> set (users (s_db s))" "active_user u" using find_SomeD [OF Some] by auto
  then have "find (\<lambda>v. u_ID v = u_ID u \<and> active_user v) (users (s_db s)) \<noteq> None" by (auto simp: find_None_set)
  then obtain v where "userSnapshot (u_ID u) (s_db s) = Inr v" by (auto simp: userSnapshot_def)
  moreover have "\<exists>d. mint_tx clk tid (u_ID u) ''password_reset'' (id_sha sv (randomToken rnd)) resetTokenTTL (s_db s) = Inr ((), d)"
    using assms(2) u(1) by (auto simp: mint_tx_def Let_def set_upd)
  ultimately show ?thesis using Some
    by (auto simp: RequestPasswordReset_def andThen_def mintAuthToken_def Let_def query_no_fault [OF assms(1)] atomically_no_fault [OF assms(1)])
qed (simp add: RequestPasswordReset_def andThen_def query_no_fault [OF assms(1)])

lemma reset_request_uniform:
  assumes "emailEnabled (c_api c)" and "decode_ok [(''email'', TString)] (c_body c)" and "str_field ''email'' (c_body c) \<noteq> ''''"
    and "s_faults (h_sys h) = []"
    and "\<forall>t \<in> set (auth_tokens (s_db (h_sys h))). atk_ID t \<noteq> c_ids c 1 \<and> atk_TokenHash t \<noteq> id_sha (a_identity (c_api c)) (randomToken (c_rnds c 0))"
  shows "fst (requestPasswordReset c h) = writeJSON 202 (JObj [(''sent'', JBool True)])"
  using reset_outcome [OF assms(4,5), of "c_clk c" "str_field ''email'' (c_body c)"] assms(1-3)
  by (auto simp: requestPasswordReset_def guard_def call_def effect_def Let_def split: prod.splits sum.splits)

section \<open>Request ids\<close>

lemma sanitized: "sanitizeRequestID s \<noteq> '''' \<Longrightarrow> sanitizeRequestID s = s \<and> length s \<le> 64 \<and> list_all rid_char s"
  by (auto simp: sanitizeRequestID_def split: if_splits)

end
