(* ===== verification/Served.thy ===== *)
theory Served
  imports Http_Gates
begin

text \<open>
  Facts of the handlers carried to whole requests: what \<open>ServeHTTP\<close> answers on a route that chi
  selects, through the middlewares of the request id and of CORS, and what a read with a bearer token
  leaves in the tables, the time of last use of an API key included.
\<close>

section \<open>A request that reaches a route\<close>

definition request_id :: "ctx \<Rightarrow> string" where
  "request_id c = (let rid = sanitizeRequestID (hq_Header (c_req c) ''X-Request-ID'') in if rid = '''' then uuid_str (c_ids c 0) else rid)"

definition routed_ctx :: "(string \<Rightarrow> string) \<Rightarrow> ctx \<Rightarrow> ctx" where
  "routed_ctx params c = c\<lparr>c_user := zero_user, c_requestID := request_id c, c_req := (c_req c)\<lparr>hq_Param := params\<rparr>\<rparr>"

lemma routed_ctx_simps [simp]:
  "c_api (routed_ctx params c) = c_api c" "c_clk (routed_ctx params c) = c_clk c"
  "bearerToken (c_req (routed_ctx params c)) = bearerToken (c_req c)"
  by (simp_all add: routed_ctx_def bearerToken_def)

lemma ServeHTTP_with_id:
  "ServeHTTP mx c h = (case corsMiddleware (dispatch mx) (c\<lparr>c_user := zero_user, c_requestID := request_id c\<rparr>) h of
     (r, h') \<Rightarrow> (set_header ''X-Request-ID'' (request_id c) r, h'))"
  by (simp add: ServeHTTP_def requestIDMiddleware_def request_id_def Let_def)

lemma ServeHTTP_routed:
  assumes "mx_match mx (map fst (routes mx)) (c_req c) = Some (i, params)" and "i < length (routes mx)"
    and "hq_Method (c_req c) \<noteq> ''OPTIONS''"
    and "snd (routes mx ! i) (routed_ctx params c) h = (r, h')"
  shows "ServeHTTP mx c h = (set_header ''X-Request-ID'' (request_id c)
     (r\<lparr>hr_Header := cors_headers (c_api c) (hq_Header (c_req c) ''Origin'') @ hr_Header r\<rparr>), h')"
  using assms
  by (simp add: ServeHTTP_with_id corsMiddleware_def dispatch_def routed_ctx_def Let_def)

lemma preflight:
  assumes "hq_Method (c_req c) = ''OPTIONS''"
  obtains hs where "ServeHTTP mx c h = (set_header ''X-Request-ID'' (request_id c) ((WriteHeader 204)\<lparr>hr_Header := hs\<rparr>), h)"
  using assms that by (simp add: ServeHTTP_with_id corsMiddleware_def Let_def)

lemma header_kept: "enveloped r \<Longrightarrow> enveloped (set_header ''X-Request-ID'' v (r\<lparr>hr_Header := hs @ hr_Header r\<rparr>))"
  by (auto simp: enveloped_def set_header_def)

lemma header_set: "(k, v) \<in> set (hr_Header (set_header k v r))"
  by (simp add: set_header_def)

text \<open>On the routes of the API the answer is in the envelope, whatever the request.\<close>

lemma ServeHTTP_enveloped:
  assumes "mx_match mx (map fst (routes mx)) (c_req c) = Some (i, params)" and "i < length (routes mx)"
    and "routes mx ! i \<in> set (Route ''/api/v1'' (public_routes @ authed_routes))"
    and "ServeHTTP mx c h = (r, h')"
  shows "enveloped r" and "(''X-Request-ID'', request_id c) \<in> set (hr_Header r)"
proof -
  have "enveloped r \<and> (''X-Request-ID'', request_id c) \<in> set (hr_Header r)"
  proof (cases "hq_Method (c_req c) = ''OPTIONS''")
    case True
    then obtain hs where "r = set_header ''X-Request-ID'' (request_id c) ((WriteHeader 204)\<lparr>hr_Header := hs\<rparr>)"
      using preflight assms(4) by (metis fst_conv)
    then show ?thesis by (simp add: header_set) (simp add: enveloped_def set_header_def WriteHeader_def statuses_def)
  next
    case False
    obtain r0 h0 where f: "snd (routes mx ! i) (routed_ctx params c) h = (r0, h0)" by fastforce
    have "enveloped_handler (snd (routes mx ! i))" using enveloped_routes assms(3) by (simp add: list_all_iff)
    then have "enveloped r0" using f by (simp add: enveloped_handler_def answers_def) (metis fst_conv)
    then show ?thesis using ServeHTTP_routed [OF assms(1,2) False f] assms(4) by (auto simp: header_kept header_set)
  qed
  then show "enveloped r" and "(''X-Request-ID'', request_id c) \<in> set (hr_Header r)" by simp_all
qed

lemma in_Route: "r \<in> set (Route base rs) \<longleftrightarrow> (\<exists>q \<in> set rs. r = ((fst (fst q), base @ snd (fst q)), snd q))"
  by (auto simp: Route_def)

lemma unauthenticated_routed: "unauthenticated (routed_ctx params c) h \<longleftrightarrow> unauthenticated c h"
  by (simp add: unauthenticated_def authenticateToken_def)

lemma ServeHTTP_unauthenticated:
  assumes "mx_match mx (map fst (routes mx)) (c_req c) = Some (i, params)" and "i < length (routes mx)"
    and "routes mx ! i \<in> set (Route ''/api/v1'' authed_routes)" and "hq_Method (c_req c) \<noteq> ''OPTIONS''"
    and "unauthenticated c h" and "ServeHTTP mx c h = (r, h')"
  shows "hr_Status r = 401 \<and> (\<exists>msg. hr_Body r = Body (error_body ''unauthorized'' msg)) \<and> s_db (h_sys h') = s_db (h_sys h)"
proof -
  obtain q where q: "q \<in> set authed_routes" "snd (routes mx ! i) = snd q" using assms(3) by (auto simp: in_Route)
  obtain r0 h0 where f: "snd (routes mx ! i) (routed_ctx params c) h = (r0, h0)" by fastforce
  have "\<exists>msg. r0 = writeErr 401 ''unauthorized'' msg" and "s_db (h_sys h0) = s_db (h_sys h)"
    using authed_needs_token [OF q(1), of "routed_ctx params c" h] assms(5) f q(2) by (simp_all add: unauthenticated_routed)
  then show ?thesis using ServeHTTP_routed [OF assms(1,2,4) f] assms(6)
    by (auto simp: set_header_def writeErr_def writeJSON_def)
qed

section \<open>What a read leaves\<close>

text \<open>The tables are the same, but for the times of last use of API keys.\<close>

definition key_used :: "db \<Rightarrow> db \<Rightarrow> bool" where
  "key_used d d' \<longleftrightarrow> (\<exists>ks. d' = d\<lparr>api_keys := ks\<rparr> \<and>
     map (\<lambda>k. k\<lparr>ak_LastUsedAt := None\<rparr>) ks = map (\<lambda>k. k\<lparr>ak_LastUsedAt := None\<rparr>) (api_keys d))"

lemma key_used_refl [simp]: "key_used d d"
  unfolding key_used_def by (rule exI [of _ "api_keys d"]) simp

lemma key_used_trans: "key_used d e \<Longrightarrow> key_used e f \<Longrightarrow> key_used d f"
  by (auto simp: key_used_def)

interpretation used: server_logic key_used
  by unfold_locales (auto intro: key_used_trans)

lemma key_used_touch: "key_used d (touch_key clk i d)"
  by (auto simp: key_used_def touch_key_def upd_def intro!: exI)

lemma keeps_used_touch: "keeps key_used (\<lambda>s. (x, snd (modify (touch_key clk i) s)))"
  by (rule keeps_discard, rule used.keeps_modify, rule key_used_touch)

lemma keeps_used_key: "keeps key_used (AuthenticateAPIKey sv clk raw)"
proof (cases "has_prefix APIKeyScheme raw")
  case True
  have "keeps key_used (andThen (query f) (\<lambda>k. if g k then Pair (Inl ErrAPIKeyInvalid)
      else andThen (case ak_UserID k of Some uid \<Rightarrow> hide_error (query (user_principal (ak_OrgID k) uid))
         | None \<Rightarrow> (case ak_ServiceAccountID k of Some aid \<Rightarrow> hide_error (query (account_principal (ak_OrgID k) aid))
              | None \<Rightarrow> Pair (Inl ErrAPIKeyInvalid)))
        (\<lambda>u s2. (Inr u, snd (modify (touch_key clk (ak_ID k)) s2)))))" for f g
    by (intro used.keeps_rules keeps_if keeps_option keeps_used_touch)
  then show ?thesis by (simp add: keeps_def AuthenticateAPIKey_def True)
qed (simp add: keeps_def AuthenticateAPIKey_def)

lemma keeps_used_read: "keeps (=) m \<Longrightarrow> keeps key_used m"
  unfolding keeps_def by (metis key_used_refl)

lemma keeps_access_token: "keeps (=) (Authenticate sv clk token)"
  unfolding keeps_def by (metis Authenticate_frame prod.collapse)

lemma auth_used:
  assumes "\<And>c. safe (=) (next c)"
  shows "safe key_used (authMiddleware next c)"
    and "\<not> has_prefix APIKeyScheme (bearerToken (c_req c)) \<Longrightarrow> safe (=) (authMiddleware next c)"
proof -
  have next_used: "safe key_used (next c)" for c using assms [of c] unfolding safe_def by (metis key_used_refl)
  have "keeps key_used (authenticateToken c token)" for token
    by (simp add: authenticateToken_def keeps_used_key keeps_used_read keeps_access_token)
  then show "safe key_used (authMiddleware next c)"
    unfolding authMiddleware_def Let_def by (intro used.safe_rules next_used)
  show "safe (=) (authMiddleware next c)" if "\<not> has_prefix APIKeyScheme (bearerToken (c_req c))"
    using that assms unfolding authMiddleware_def Let_def authenticateToken_def
    by (simp only: if_False) (intro reads.safe_rules keeps_access_token)
qed

lemma ServeHTTP_read:
  assumes "mx_match mx (map fst (routes mx)) (c_req c) = Some (i, params)" and "i < length (routes mx)"
    and "routes mx ! i \<in> set (Route ''/api/v1'' (Group authMiddleware (Group requireOrg org_routes)))"
    and get: "fst (fst (routes mx ! i)) = ''GET''" and s: "ServeHTTP mx c h = (r, h')"
  shows "key_used (s_db (h_sys h)) (s_db (h_sys h'))"
    and "\<not> has_prefix APIKeyScheme (bearerToken (c_req c)) \<Longrightarrow> s_db (h_sys h') = s_db (h_sys h)"
proof -
  obtain q where q: "q \<in> set org_routes" "fst (fst (routes mx ! i)) = fst (fst q)"
    "snd (routes mx ! i) = authMiddleware (requireOrg (snd q))"
    using assms(3) by (auto simp: in_Route in_Group)
  have "safe (=) (snd q c)" for c using get_reads_org q(1,2) get by (auto simp: list_all_iff get_reads_def)
  then have reads: "safe (=) (requireOrg (snd q) c)" for c by (rule reads.safe_gates)
  obtain r0 h0 where f: "snd (routes mx ! i) (routed_ctx params c) h = (r0, h0)" by fastforce
  have h': "s_db (h_sys h') = (if hq_Method (c_req c) = ''OPTIONS'' then s_db (h_sys h) else s_db (h_sys h0))"
  proof (cases "hq_Method (c_req c) = ''OPTIONS''")
    case True
    then obtain hs where "ServeHTTP mx c h = (set_header ''X-Request-ID'' (request_id c) ((WriteHeader 204)\<lparr>hr_Header := hs\<rparr>), h)"
      by (rule preflight)
    then show ?thesis using s True by simp
  qed (use s ServeHTTP_routed [OF assms(1,2) _ f] in auto)
  have h0: "h0 = snd (authMiddleware (requireOrg (snd q)) (routed_ctx params c) h)" using f q(3) by simp
  show "key_used (s_db (h_sys h)) (s_db (h_sys h'))"
    using auth_used(1) [OF reads] by (simp add: h' h0 safe_def)
  show "s_db (h_sys h') = s_db (h_sys h)" if "\<not> has_prefix APIKeyScheme (bearerToken (c_req c))"
    using auth_used(2) [OF reads, of "routed_ctx params c"] that by (simp add: h' h0 safe_def)
qed

section \<open>The table of routes\<close>

lemma routes_length: "length (probe_routes mx) = 6" "length public_routes = 13" "length account_routes = 8" "length (routes mx) = 101"
  by (simp_all add: probe_routes_def public_routes_def account_routes_def routes_def authed_routes_def org_routes_def Group_def Route_def
      member_routes_def human_routes_def admin_human_routes_def admin_routes_def owner_routes_def)

lemma nth_suffix: "length xs \<le> i \<Longrightarrow> i < length (xs @ ys) \<Longrightarrow> (xs @ ys) ! i \<in> set ys"
  by (simp add: nth_append)

lemma route_of_api: "6 \<le> i \<Longrightarrow> i < 101 \<Longrightarrow> routes mx ! i \<in> set (Route ''/api/v1'' (public_routes @ authed_routes))"
  using routes_length(1,4) [of mx] unfolding routes_def by (intro nth_suffix) simp_all

lemma route_of_users: "19 \<le> i \<Longrightarrow> i < 101 \<Longrightarrow> routes mx ! i \<in> set (Route ''/api/v1'' authed_routes)"
  using routes_length(1,4) [of mx] routes_length(2) nth_suffix [where xs = "probe_routes mx @ Route ''/api/v1'' public_routes" and ys = "Route ''/api/v1'' authed_routes"]
  by (simp add: routes_def Route_def)

lemma route_of_org: "27 \<le> i \<Longrightarrow> i < 101 \<Longrightarrow>
    routes mx ! i \<in> set (Route ''/api/v1'' (Group authMiddleware (Group requireOrg org_routes)))"
  using routes_length(1,4) [of mx] routes_length(2,3)
    nth_suffix [where xs = "probe_routes mx @ Route ''/api/v1'' (public_routes @ Group authMiddleware account_routes)"
      and ys = "Route ''/api/v1'' (Group authMiddleware (Group requireOrg org_routes))"]
  by (simp add: routes_def authed_routes_def Route_def Group_def)

end
