(* ===== verification/Startup.thy ===== *)
theory Startup
  imports Http_Gates Config
begin

text \<open>
  The entry point of the control plane (\<open>cmd/controlplane/main.go\<close>) and the transport of the agent
  gateway (\<open>internal/platform/tlsboot/tlsboot.go\<close>): how the configuration becomes the services, what
  is seeded at start, which certificate the gateway serves, and the background jobs. The process as
  a whole is \<open>process_step\<close>. The X.509 library, the clock, the random draws and the outcome of the
  migrations are parameters; logging is left out.
\<close>

section \<open>The transport of the agent gateway\<close>

text \<open>
  The transport authority, as its two PEM texts. \<open>tl_parse\<close> is the error of \<open>parseCA\<close> on them,
  \<open>tl_mint\<close> that of signing a certificate for the names, \<open>tl_loadPair\<close> that of reading the
  certificate of the operator, \<open>tl_isIP\<close> whether \<open>net.ParseIP\<close> reads a host.
\<close>

record CA =
  ca_CertPEM :: string
  ca_keyPEM :: string

record tls_library =
  tl_parse :: "string \<Rightarrow> string \<Rightarrow> string option"
  tl_mint :: "CA \<Rightarrow> string list \<Rightarrow> string list \<Rightarrow> string option"
  tl_loadPair :: "string \<Rightarrow> string \<Rightarrow> string option"
  tl_isIP :: "string \<Rightarrow> bool"

definition parseCA :: "tls_library \<Rightarrow> string \<Rightarrow> string \<Rightarrow> string + CA" where
  "parseCA lib certPEM keyPEM =
     (case tl_parse lib certPEM keyPEM of Some e \<Rightarrow> Inl e | None \<Rightarrow> Inr \<lparr>ca_CertPEM = certPEM, ca_keyPEM = keyPEM\<rparr>)"

text \<open>
  The table \<open>transport_ca\<close> has at most the row with id 1. \<open>fault\<close> is an error of the transaction,
  \<open>gen\<close> what \<open>generateCA\<close> returns with the random bytes of this start.
\<close>

definition EnsureCA :: "tls_library \<Rightarrow> string option \<Rightarrow> string + string \<times> string \<Rightarrow> (string \<times> string) option \<Rightarrow>
    (string + CA) \<times> (string \<times> string) option" where
  "EnsureCA lib fault gen row =
     (case fault of
        Some e \<Rightarrow> (Inl e, row)
      | None \<Rightarrow> (case row of
          Some (c, k) \<Rightarrow> (parseCA lib c k, row)
        | None \<Rightarrow> (case gen of Inl e \<Rightarrow> (Inl e, None) | Inr (c, k) \<Rightarrow> (parseCA lib c k, Some (c, k)))))"

text \<open>The names of the server certificate: each host once, in order, addresses apart.\<close>

fun san_names :: "(string \<Rightarrow> bool) \<Rightarrow> string list \<Rightarrow> string list \<Rightarrow> string list \<times> string list" where
  "san_names isIP seen [] = ([], [])"
| "san_names isIP seen (h # hs) =
     (if h = '''' \<or> h \<in> set seen then san_names isIP seen hs
      else (case san_names isIP (h # seen) hs of (dns, ips) \<Rightarrow> if isIP h then (dns, h # ips) else (h # dns, ips)))"

definition ServerTLS :: "tls_library \<Rightarrow> CA \<Rightarrow> string list \<Rightarrow> string + string list \<times> string list" where
  "ServerTLS lib ca hosts =
     (let (dns, ips) = san_names (tl_isIP lib) [] (hosts @ [''localhost'', ''127.0.0.1''])
      in case tl_mint lib ca dns ips of Some e \<Rightarrow> Inl e | None \<Rightarrow> Inr (dns, ips))"

definition hostOnly :: "string \<Rightarrow> string" where
  "hostOnly addr = (if addr = '''' then '''' else case SplitHost addr of Some h \<Rightarrow> h | None \<Rightarrow> addr)"

datatype transport = Plaintext | OperatorCert string string | AutoCA CA "string list" "string list"

text \<open>\<open>hostname\<close> is what \<open>os.Hostname\<close> returns. The second component is the PEM text handed to the API.\<close>

definition grpcServerCreds :: "tls_library \<Rightarrow> string option \<Rightarrow> string + string \<times> string \<Rightarrow> string option \<Rightarrow> Config \<Rightarrow>
    (string \<times> string) option \<Rightarrow> (string + transport \<times> string) \<times> (string \<times> string) option" where
  "grpcServerCreds lib fault gen hostname cfg row =
     (if gc_Insecure (cf_GRPC cfg) then (Inr (Plaintext, ''''), row)
      else if gc_CertFile (cf_GRPC cfg) \<noteq> '''' then
        (case tl_loadPair lib (gc_CertFile (cf_GRPC cfg)) (gc_KeyFile (cf_GRPC cfg)) of
           Some e \<Rightarrow> (Inl (''load TLS cert: '' @ e), row)
         | None \<Rightarrow> (Inr (OperatorCert (gc_CertFile (cf_GRPC cfg)) (gc_KeyFile (cf_GRPC cfg)), ''''), row))
      else (case EnsureCA lib fault gen row of
          (Inl e, row1) \<Rightarrow> (Inl (''transport CA: '' @ e), row1)
        | (Inr ca, row1) \<Rightarrow>
            (let h = hostOnly (cf_AgentPublicGRPCAddr cfg);
                 hosts = (if h \<noteq> '''' then [h] else []) @ (case hostname of Some hn \<Rightarrow> [hn] | None \<Rightarrow> [])
             in case ServerTLS lib ca hosts of
                  Inl e \<Rightarrow> (Inl (''mint server cert: '' @ e), row1)
                | Inr (dns, ips) \<Rightarrow> (Inr (AutoCA ca dns ips, ca_CertPEM ca), row1))))"

lemma san_names_set:
  "set (fst (san_names isIP seen hs)) \<union> set (snd (san_names isIP seen hs)) = set hs - set seen - {[]}"
  by (induction isIP seen hs rule: san_names.induct) (auto simp: case_prod_beta)

lemma san_names_kind: "set (fst (san_names isIP seen hs)) \<subseteq> {x. \<not> isIP x}" "set (snd (san_names isIP seen hs)) \<subseteq> {x. isIP x}"
  by (induction isIP seen hs rule: san_names.induct) (auto simp: case_prod_beta)

lemma san_names_distinct: "distinct (fst (san_names isIP seen hs)) \<and> distinct (snd (san_names isIP seen hs))"
proof (induction isIP seen hs rule: san_names.induct)
  case (2 isIP seen h hs)
  have "h \<notin> set (fst (san_names isIP (h # seen) hs)) \<union> set (snd (san_names isIP (h # seen) hs))"
    by (simp add: san_names_set)
  then show ?case using 2 by (simp add: case_prod_beta)
qed simp

text \<open>
  The names of a certificate minted at start: every host the agents are told to dial, the host
  name of the machine and the loopback names, each once.
\<close>

lemma ServerTLS_names:
  assumes "ServerTLS lib ca hosts = Inr (dns, ips)"
  shows "set dns \<union> set ips = (set hosts \<union> {''localhost'', ''127.0.0.1''}) - {[]}" and "distinct dns" and "distinct ips"
    and "\<forall>x \<in> set dns. \<not> tl_isIP lib x" and "\<forall>x \<in> set ips. tl_isIP lib x"
proof -
  define p where "p = san_names (tl_isIP lib) [] (hosts @ [''localhost'', ''127.0.0.1''])"
  have d: "dns = fst p" "ips = snd p"
    using assms by (auto simp: ServerTLS_def p_def [symmetric] Let_def case_prod_beta split: option.splits)
  show "set dns \<union> set ips = (set hosts \<union> {''localhost'', ''127.0.0.1''}) - {[]}"
    using san_names_set [of "tl_isIP lib" "[]" "hosts @ [''localhost'', ''127.0.0.1'']"] by (simp add: d p_def)
  show "distinct dns" "distinct ips" using san_names_distinct by (simp_all add: d p_def)
  show "\<forall>x \<in> set dns. \<not> tl_isIP lib x" "\<forall>x \<in> set ips. tl_isIP lib x"
    using san_names_kind [of "tl_isIP lib" "[]" "hosts @ [''localhost'', ''127.0.0.1'']"] by (auto simp: d p_def)
qed

text \<open>
  The authority is generated once. When a start has found or stored one, every later start that
  serves a certificate of its own serves it under the same authority, whatever that start would
  generate: the agents keep the certificate they pinned.
\<close>

lemma EnsureCA_row: "EnsureCA lib fault gen row = (Inr ca, row') \<Longrightarrow> row' = Some (ca_CertPEM ca, ca_keyPEM ca)"
  by (auto simp: EnsureCA_def parseCA_def split: option.splits sum.splits)

lemma EnsureCA_kept: "EnsureCA lib fault gen (Some (c, k)) = (r, row') \<Longrightarrow> row' = Some (c, k) \<and> (\<forall>ca. r = Inr ca \<longrightarrow> ca_CertPEM ca = c)"
  by (auto simp: EnsureCA_def parseCA_def split: option.splits sum.splits)

lemma grpcServerCreds_row:
  assumes "grpcServerCreds lib fault gen hn cfg row = (Inr (AutoCA ca dns ips, pem), row')"
  shows "pem = ca_CertPEM ca" and "row' = Some (ca_CertPEM ca, ca_keyPEM ca)" and "row = Some (c, k) \<Longrightarrow> ca_CertPEM ca = c"
proof -
  obtain e where e: "EnsureCA lib fault gen row = (Inr ca, row')" and "pem = ca_CertPEM ca"
    using assms by (auto simp: grpcServerCreds_def Let_def split: if_splits option.splits sum.splits prod.splits)
  then show "pem = ca_CertPEM ca" "row' = Some (ca_CertPEM ca, ca_keyPEM ca)" using EnsureCA_row [OF e] by simp_all
  show "row = Some (c, k) \<Longrightarrow> ca_CertPEM ca = c" using EnsureCA_kept e by auto
qed

text \<open>Plaintext only when the configuration says so; an authority is handed out only when it signs.\<close>

lemma grpcServerCreds_transport:
  assumes "grpcServerCreds lib fault gen hn cfg row = (Inr (t, pem), row')"
  shows "t = Plaintext \<longleftrightarrow> gc_Insecure (cf_GRPC cfg)" and "pem \<noteq> '''' \<Longrightarrow> \<exists>ca dns ips. t = AutoCA ca dns ips \<and> pem = ca_CertPEM ca"
  using assms by (auto simp: grpcServerCreds_def Let_def split: if_splits option.splits sum.splits prod.splits)

lemma grpcServerCreds_operator:
  assumes "grpcServerCreds lib fault gen hn cfg row = (Inr (OperatorCert c k, pem), row')"
  shows "pem = ''''" and "\<not> gc_Insecure (cf_GRPC cfg)"
  using assms by (auto simp: grpcServerCreds_def Let_def split: if_splits option.splits sum.splits prod.splits)

text \<open>The certificate of the automatic mode names the advertised host, and the loopback names.\<close>

lemma grpcServerCreds_names:
  assumes "grpcServerCreds lib fault gen hn cfg row = (Inr (AutoCA ca dns ips, pem), row')"
  shows "{hostOnly (cf_AgentPublicGRPCAddr cfg), ''localhost'', ''127.0.0.1''} - {[]} \<subseteq> set dns \<union> set ips"
proof -
  obtain hosts where "ServerTLS lib ca hosts = Inr (dns, ips)"
    and "hostOnly (cf_AgentPublicGRPCAddr cfg) \<noteq> [] \<longrightarrow> hostOnly (cf_AgentPublicGRPCAddr cfg) \<in> set hosts"
    using assms by (auto simp: grpcServerCreds_def Let_def split: if_splits option.splits sum.splits prod.splits)
  then show ?thesis using ServerTLS_names(1) by blast
qed

section \<open>Services\<close>

text \<open>A \<open>time.Duration\<close> in microseconds, the unit of the clocks.\<close>

definition us_of :: "nanos \<Rightarrow> duration" where
  "us_of d = d div 1000"

text \<open>
  What the process takes from outside: the environment, the outcome of the migrations, of opening
  the database and of listening, the TLS library with this start's draws, the JWT library for a
  secret, and an API record with the other third-party code. The welcome credit is left as in that
  record when \<open>WELCOME_CREDIT\<close> is infinite, a value the ledger's column does not have.
\<close>

record boot =
  bo_getenv :: environment
  bo_migrate :: "string option"
  bo_open :: "string option"
  bo_listen :: "string option"
  bo_lib :: tls_library
  bo_fault :: "string option"
  bo_gen :: "string + string \<times> string"
  bo_hostname :: "string option"
  bo_jwt :: "string \<Rightarrow> (jwtClaims \<Rightarrow> string) \<times> (time \<Rightarrow> string \<Rightarrow> jwtClaims option)"
  bo_api :: api
  bo_clk :: clocks
  bo_fresh :: fresh
  bo_tokenID :: uuid
  bo_stat :: pool_stat
  bo_goVersion :: string
  bo_metrics :: response

definition identity_of :: "boot \<Rightarrow> Config \<Rightarrow> identity" where
  "identity_of b cfg =
     (let sv = a_identity (bo_api b); (sign, verify) = bo_jwt b (ac_JWTSecret (cf_Auth cfg))
      in sv\<lparr>id_sessionTTL := us_of (ac_SessionTTL (cf_Auth cfg)), id_accessTTL := us_of (ac_AccessTokenTTL (cf_Auth cfg)),
           id_refreshTTL := us_of (ac_RefreshTokenTTL (cf_Auth cfg)),
           id_welcomeCredit := (case bc_WelcomeCredit (cf_Billing cfg) of Fin r \<Rightarrow> r | _ \<Rightarrow> id_welcomeCredit sv),
           id_sign := sign, id_verify := verify\<rparr>)"

definition service_of :: "Config \<Rightarrow> service" where
  "service_of cfg = \<lparr>sv_billing = Some (bc_Enforce (cf_Billing cfg)), sv_audit = True, sv_publish = True\<rparr>"

text \<open>\<open>telemetry.NewService\<close> with \<open>WithRawRetention\<close>.\<close>

definition raw_retention :: "Config \<Rightarrow> duration" where
  "raw_retention cfg = (let d = rc_RawMetrics (cf_Retention cfg) in if d > 0 then us_of d else rp_RawMetrics DefaultRetention)"

definition retention_policy :: "Config \<Rightarrow> RetentionPolicy" where
  "retention_policy cfg = \<lparr>rp_RawMetrics = us_of (rc_RawMetrics (cf_Retention cfg)), rp_RollupMetrics = us_of (rc_RollupMetrics (cf_Retention cfg)),
     rp_Heartbeats = us_of (rc_Heartbeats (cf_Retention cfg)), rp_Events = us_of (rc_Events (cf_Retention cfg))\<rparr>"

definition registered_jobs :: JobTracker where
  "registered_jobs = fold (\<lambda>(name, d). RegisterJob name d)
     [(''offline_sweep'', 30 * second), (''stuck_sweep'', 30 * second), (''idle_sweep'', 5 * minute), (''alert_eval'', 60 * second),
      (''meter_sweep'', 60 * second), (''queue_sweep'', 20 * second), (''retention_sweep'', hour)] NewJobTracker"

definition health_of :: "boot \<Rightarrow> Config \<Rightarrow> Health" where
  "health_of b cfg = \<lparr>he_Version = oc_Version (cf_Obs cfg), he_Env = cf_Env cfg, he_GRPCTLS = (\<not> gc_Insecure (cf_GRPC cfg)),
     he_Started = go_now (bo_clk b), he_Stat = bo_stat b, he_GoVersion = bo_goVersion b\<rparr>"

text \<open>\<open>NewRouter\<close> with the options of \<open>main\<close>.\<close>

definition api_of :: "boot \<Rightarrow> Config \<Rightarrow> string \<Rightarrow> api" where
  "api_of b cfg caPEM = (bo_api b)\<lparr>
     a_identity := identity_of b cfg, a_service := service_of cfg, a_rawRetention := raw_retention cfg,
     a_google := NewGoogleOAuth (gg_ClientID (cf_Google cfg)) (gg_ClientSecret (cf_Google cfg)) (gg_RedirectURL (cf_Google cfg)),
     a_appBaseURL := cf_AppBaseURL cfg, a_corsOrigins := cf_CORSAllowedOrigins cfg, a_secureCookies := \<not> IsDev cfg,
     a_refreshCookieTTL := us_of (ac_RefreshTokenTTL (cf_Auth cfg)),
     a_email := Some (NewSender (ec_ResendAPIKey (cf_Email cfg)) (ec_FromEmail (cf_Email cfg))),
     a_allowSelfTopup := bc_AllowSelfTopup (cf_Billing cfg), a_grpcTLS := \<not> gc_Insecure (cf_GRPC cfg), a_agentCAPEM := caPEM,
     a_kickNode := True, a_health := Some (health_of b cfg), a_metrics := Some (bo_metrics b),
     a_metricsToken := oc_MetricsToken (cf_Obs cfg), a_events := True, a_getenv := bo_getenv b\<rparr>"

section \<open>Start\<close>

text \<open>The errors of the two seeds are logged and ignored.\<close>

definition bootstrap :: "boot \<Rightarrow> Config \<Rightarrow> sys \<Rightarrow> sys" where
  "bootstrap b cfg s =
     (if IsDev cfg then
        (let s1 = (if cf_DevEnrollmentToken cfg \<noteq> ''''
                   then snd (EnsureDevToken (id_sha (identity_of b cfg)) (bo_clk b) (bo_tokenID b) (cf_DevOrgSlug cfg) (cf_DevEnrollmentToken cfg) s)
                   else s)
         in if cf_DevBootstrapAdmin cfg \<noteq> ''''
            then snd (BootstrapAdmin (identity_of b cfg) (bo_clk b) (bo_fresh b) (cf_DevBootstrapAdmin cfg) s1) else s1)
      else s)"

text \<open>
  \<open>main\<close> up to the point where it serves: the error with which the process exits, or the transport
  and the API; with the state of the server and the row of the transport authority. The database
  is the one after the migrations.
\<close>

definition start :: "boot \<Rightarrow> db \<Rightarrow> (string \<times> string) option \<Rightarrow>
    (string + transport \<times> api) \<times> server \<times> (string \<times> string) option" where
  "start b d row =
     (let (cfg, verr) = Load (bo_getenv b);
          h0 = (new_server (go_now (bo_clk b)) d)\<lparr>h_jobs := registered_jobs\<rparr>;
          migrate = (if bo_getenv b ''RUN_MIGRATIONS'' \<noteq> ''false'' then bo_migrate b else None)
      in case verr of
           Some e \<Rightarrow> (Inl e, h0, row)
         | None \<Rightarrow>
      (case migrate of
           Some e \<Rightarrow> (Inl e, h0, row)
         | None \<Rightarrow>
      (case bo_open b of
           Some e \<Rightarrow> (Inl e, h0, row)
         | None \<Rightarrow>
             (let h1 = h0\<lparr>h_sys := bootstrap b cfg (h_sys h0)\<rparr>
              in case grpcServerCreds (bo_lib b) (bo_fault b) (bo_gen b) (bo_hostname b) cfg row of
                   (Inl e, row1) \<Rightarrow> (Inl e, h1, row1)
                 | (Inr (t, pem), row1) \<Rightarrow>
                     (case bo_listen b of
                        Some e \<Rightarrow> (Inl e, h1, row1)
                      | None \<Rightarrow> (Inr (t, api_of b cfg pem), h1, row1))))))"


text \<open>Outside development nothing is seeded: no known administrator, no known enrolment token.\<close>

lemma bootstrap_production: "\<not> IsDev cfg \<Longrightarrow> bootstrap b cfg s = s"
  by (simp add: bootstrap_def)

lemma start_db: "start b d row = (r, h, row') \<Longrightarrow> h_sys h = initial_sys d \<or> IsDev (fst (Load (bo_getenv b))) \<and>
    h_sys h = bootstrap b (fst (Load (bo_getenv b))) (initial_sys d)"
proof -
  obtain cfg verr where l: "Load (bo_getenv b) = (cfg, verr)" by fastforce
  assume "start b d row = (r, h, row')"
  then have "h_sys h = initial_sys d \<or> h_sys h = bootstrap b cfg (initial_sys d)"
    by (auto simp: start_def l Let_def new_server_def split: option.splits sum.splits prod.splits)
  then show ?thesis using bootstrap_production [of cfg b "initial_sys d"] by (cases "IsDev cfg") (auto simp: l)
qed

lemma start_serves:
  assumes "start b d row = (Inr (t, a), h, row')"
  obtains cfg pem where "Load (bo_getenv b) = (cfg, None)" and "a = api_of b cfg pem"
    and "grpcServerCreds (bo_lib b) (bo_fault b) (bo_gen b) (bo_hostname b) cfg row = (Inr (t, pem), row')"
  using assms by (cases "Load (bo_getenv b)") (auto simp: start_def Let_def split: option.splits sum.splits prod.splits)

section \<open>Background jobs\<close>

text \<open>One tick of each loop: the call, then the outcome recorded under the name of the job.\<close>

definition record_job :: "api \<Rightarrow> clocks \<Rightarrow> string \<Rightarrow> err option \<Rightarrow> server \<Rightarrow> server" where
  "record_job a clk name e h = h\<lparr>h_jobs := RecordJob (go_now clk) name (map_option (err_text a) e) (h_jobs h)\<rparr>"

definition err_of :: "err + 'a \<Rightarrow> err option" where
  "err_of r = (case r of Inl e \<Rightarrow> Some e | Inr _ \<Rightarrow> None)"

definition offline_tick :: "api \<Rightarrow> clocks \<Rightarrow> server \<Rightarrow> server" where
  "offline_tick a clk h =
     (let (r1, s1) = atomically (SweepOffline clk) (h_sys h);
          h1 = record_job a clk ''offline_sweep'' (err_of r1) (h\<lparr>h_sys := s1\<rparr>);
          (r2, s2) = SweepStuck (a_service a) clk (h_sys h1)
      in record_job a clk ''stuck_sweep'' (err_of r2) (h1\<lparr>h_sys := s2\<rparr>))"

definition meter_tick :: "api \<Rightarrow> clocks \<Rightarrow> server \<Rightarrow> server" where
  "meter_tick a clk h = (let ((n, e), s1) = MeterRunning clk (h_sys h) in record_job a clk ''meter_sweep'' e (h\<lparr>h_sys := s1\<rparr>))"

definition alert_tick :: "api \<Rightarrow> clocks \<Rightarrow> (uuid \<Rightarrow> dedup_key \<Rightarrow> uuid) \<Rightarrow> server \<Rightarrow> server" where
  "alert_tick a clk newID h =
     (let (r, s1) = EvaluateAll clk newID (h_sys h) in record_job a clk ''alert_eval'' (err_of r) (h\<lparr>h_sys := s1\<rparr>))"

definition queue_tick :: "api \<Rightarrow> clocks \<Rightarrow> (uuid \<Rightarrow> uuid \<Rightarrow> bool) \<Rightarrow> (uuid \<Rightarrow> uuid) \<Rightarrow> server \<Rightarrow> server" where
  "queue_tick a clk locked cmdOf h =
     (let ((n, e), s1) = PromoteAllQueued (a_service a) clk locked cmdOf (h_sys h)
      in record_job a clk ''queue_sweep'' e (h\<lparr>h_sys := s1\<rparr>))"

text \<open>\<open>fuel\<close> bounds the batches of the deletes; without enough of it the call has not returned yet.\<close>

definition retention_tick :: "nat \<Rightarrow> api \<Rightarrow> RetentionPolicy \<Rightarrow> clocks \<Rightarrow> server \<Rightarrow> server" where
  "retention_tick fuel a pol clk h =
     (case SweepRetention fuel clk pol (h_sys h) of
        (Inl None, s1) \<Rightarrow> h\<lparr>h_sys := s1\<rparr>
      | (Inl (Some e), s1) \<Rightarrow> record_job a clk ''retention_sweep'' (Some e) (h\<lparr>h_sys := s1\<rparr>)
      | (Inr st, s1) \<Rightarrow> record_job a clk ''retention_sweep'' None (h\<lparr>h_sys := s1\<rparr>))"

definition idle_tick :: "api \<Rightarrow> clocks \<Rightarrow> (uuid \<Rightarrow> uuid) \<Rightarrow> server \<Rightarrow> server" where
  "idle_tick a clk cmdOf h =
     (let (r, s1) = SweepIdle (\<lambda>wid. Stop (a_service a) clk (cmdOf wid) wid StopIdleReclaim) clk (h_sys h)
      in record_job a clk ''idle_sweep'' (err_of r) (h\<lparr>h_sys := s1\<rparr>))"

section \<open>The process\<close>

text \<open>
  One step of the process that \<open>start\<close> returned: a request of the HTTP API, a tick of a background
  job, a step of the agent gateway or of a spawned goroutine (a step of the control plane), or a
  change of what is not in the database: the streams, the subscribers of the hub, the mail queue,
  the faults to come.
\<close>

inductive process_step :: "api \<Rightarrow> mux \<Rightarrow> RetentionPolicy \<Rightarrow> server \<Rightarrow> server \<Rightarrow> bool" for a mx pol where
  serve: "c_api c = a \<Longrightarrow> process_step a mx pol h (snd (ServeHTTP mx c h))"
| offline: "process_step a mx pol h (offline_tick a clk h)"
| meter: "process_step a mx pol h (meter_tick a clk h)"
| alerts: "process_step a mx pol h (alert_tick a clk newID h)"
| queued: "process_step a mx pol h (queue_tick a clk locked cmdOf h)"
| retention: "process_step a mx pol h (retention_tick fuel a pol clk h)"
| idle: "process_step a mx pol h (idle_tick a clk cmdOf h)"
| plane: "cp_step (h_sys h) t \<Longrightarrow> process_step a mx pol h (h\<lparr>h_sys := t\<rparr>)"
| memory: "process_step a mx pol h (h\<lparr>h_sys := (h_sys h)\<lparr>s_faults := fs\<rparr>, h_streams := st, h_hub := hb, h_mail := ms\<rparr>)"

inductive_cases process_stepE: "process_step a mx pol h h'"

lemma record_job_sys [simp]: "h_sys (record_job a clk name e h) = h_sys h"
  by (simp add: record_job_def)

lemma record_job_ok: "tracker_ok (h_jobs h) \<Longrightarrow> tracker_ok (h_jobs (record_job a clk name e h))"
  by (simp add: record_job_def RecordJob_ok)

lemma ticks_run:
  "db_tx\<^sup>*\<^sup>* (s_db (h_sys h)) (s_db (h_sys (offline_tick a clk h)))"
  "db_tx\<^sup>*\<^sup>* (s_db (h_sys h)) (s_db (h_sys (meter_tick a clk h)))"
  "db_tx\<^sup>*\<^sup>* (s_db (h_sys h)) (s_db (h_sys (alert_tick a clk newID h)))"
  "db_tx\<^sup>*\<^sup>* (s_db (h_sys h)) (s_db (h_sys (queue_tick a clk locked cmdOf h)))"
  "db_tx\<^sup>*\<^sup>* (s_db (h_sys h)) (s_db (h_sys (retention_tick fuel a pol clk h)))"
  "db_tx\<^sup>*\<^sup>* (s_db (h_sys h)) (s_db (h_sys (idle_tick a clk cmdOf h)))"
proof -
  have cp: "db_tx\<^sup>*\<^sup>* (s_db s) (s_db t)" if "cp_step s t" for s t
    using keeps_runs [of "\<lambda>_. (undefined, t)"] cp_step_runs [OF that] mono_rtranclp [of tx_step db_tx]
    by (simp add: runs_def db_tx_def)
  show "db_tx\<^sup>*\<^sup>* (s_db (h_sys h)) (s_db (h_sys (offline_tick a clk h)))"
  proof -
    obtain r1 s1 where s1: "atomically (SweepOffline clk) (h_sys h) = (r1, s1)" by fastforce
    obtain r2 s2 where s2: "SweepStuck (a_service a) clk s1 = (r2, s2)" by fastforce
    have "db_tx\<^sup>*\<^sup>* (s_db (h_sys h)) (s_db s1)" using cp [OF do_sweep_offline [of "h_sys h" clk]] by (simp add: s1)
    moreover have "db_tx\<^sup>*\<^sup>* (s_db s1) (s_db s2)" using cp [OF do_sweep_stuck [of s1 "a_service a" clk]] by (simp add: s2)
    ultimately have "db_tx\<^sup>*\<^sup>* (s_db (h_sys h)) (s_db s2)" by (rule rtranclp_trans)
    then show ?thesis by (simp add: offline_tick_def s1 s2)
  qed
  show "db_tx\<^sup>*\<^sup>* (s_db (h_sys h)) (s_db (h_sys (meter_tick a clk h)))"
    using cp [OF do_meter_running] by (simp add: meter_tick_def Let_def case_prod_beta)
  show "db_tx\<^sup>*\<^sup>* (s_db (h_sys h)) (s_db (h_sys (alert_tick a clk newID h)))"
    using keeps_grow [OF keeps_EvaluateAll] by (simp add: alert_tick_def Let_def case_prod_beta keeps_def)
  show "db_tx\<^sup>*\<^sup>* (s_db (h_sys h)) (s_db (h_sys (queue_tick a clk locked cmdOf h)))"
    using cp [OF do_promote_all] by (simp add: queue_tick_def Let_def case_prod_beta)
  show "db_tx\<^sup>*\<^sup>* (s_db (h_sys h)) (s_db (h_sys (retention_tick fuel a pol clk h)))"
    using cp [OF do_retention [of "h_sys h" fuel clk pol]] by (auto simp: retention_tick_def split: prod.split sum.split option.split)
  show "db_tx\<^sup>*\<^sup>* (s_db (h_sys h)) (s_db (h_sys (idle_tick a clk cmdOf h)))"
    using cp [OF do_sweep_idle] by (simp add: idle_tick_def Let_def case_prod_beta)
qed


lemma process_step_runs:
  assumes "process_step a mx pol h h'"
  shows "db_tx\<^sup>*\<^sup>* (s_db (h_sys h)) (s_db (h_sys h'))"
  using assms
proof cases
  case (plane t)
  have "tx_step\<^sup>*\<^sup>* (s_db (h_sys h)) (s_db t)" using cp_step_runs [OF plane(2)] by (simp add: runs_def)
  then show ?thesis using plane mono_rtranclp [of tx_step db_tx] by (simp add: db_tx_def)
qed (simp_all add: ServeHTTP_runs ticks_run)

lemma keeps_EnsureDevToken: "keeps db_tx\<^sup>*\<^sup>* (EnsureDevToken hash clk tid slug token)"
proof -
  have "keeps db_tx\<^sup>*\<^sup>* (atomically (EnsureEnrollmentToken clk tid orgID h e n))" for orgID h e n
  proof (rule keeps_tx)
    fix d u d' assume "EnsureEnrollmentToken clk tid orgID h e n d = Inr (u, d')"
    then have "d' = d\<lparr>enrollment_tokens := enrollment_tokens d'\<rparr>"
      by (auto simp: EnsureEnrollmentToken_def insert_token_def split: if_splits)
    then show "tx_step d d'" by (rule tx_tokens)
  qed
  moreover have "keeps db_tx\<^sup>*\<^sup>* (atomically (\<lambda>d. bindE (OrgIDBySlug slug d) (\<lambda>i. Inr (i, d))))"
    by (rule http.keeps_atomically) (auto simp: bindE_Inr_iff)
  ultimately show ?thesis unfolding keeps_def EnsureDevToken_def
    by (fastforce split: prod.split sum.split intro: rtranclp_trans)
qed

lemma bootstrap_runs: "db_tx\<^sup>*\<^sup>* (s_db s) (s_db (bootstrap b cfg s))"
proof -
  have 1: "db_tx\<^sup>*\<^sup>* (s_db s) (s_db (snd (EnsureDevToken hash clk tid slug token s)))" for hash clk tid slug token s
    using keeps_EnsureDevToken by (simp add: keeps_def)
  have 2: "db_tx\<^sup>*\<^sup>* (s_db s) (s_db (snd (BootstrapAdmin sv clk fr spec s)))" for sv clk fr spec s
    using keeps_grow [OF keeps_BootstrapAdmin] by (simp add: keeps_def)
  show ?thesis using 1 2 rtranclp_trans [OF 1 2] by (simp add: bootstrap_def Let_def)
qed

lemma start_runs:
  assumes "start b d row = (r, h, row')"
  shows "db_tx\<^sup>*\<^sup>* d (s_db (h_sys h))"
  using start_db [OF assms] bootstrap_runs [of "initial_sys d"] by (auto simp: initial_sys_def)

context platform_invariant
begin

lemma process_keeps: "(process_step a mx pol)\<^sup>*\<^sup>* h h' \<Longrightarrow> I (s_db (h_sys h)) \<Longrightarrow> I (s_db (h_sys h'))"
  by (induction rule: rtranclp_induct) (auto intro: run_keeps process_step_runs)

lemma started_keeps:
  assumes "start b d row = (r, h, row')" and "(process_step a mx pol)\<^sup>*\<^sup>* h h'" and "I d"
  shows "I (s_db (h_sys h'))"
  using process_keeps [OF assms(2)] run_keeps [OF start_runs [OF assms(1)] assms(3)] .

end

end
