(* ===== verification/Executor.thy ===== *)
theory Executor
  imports Installer Config "HOL-Library.AList"
begin

text \<open>
  How the agent runs workloads (\<open>agent/executor\<close>): the interface, the executor that simulates
  containers, and the one that drives Docker. Docker is not part of this repository: a command line
  is a function of the state of the host, and the code is modelled as what it asks for and how it
  reads the answers.
\<close>

section \<open>The interface\<close>

record LaunchSpec =
  ls_WorkloadID :: string
  ls_Image :: string
  ls_GPUUUIDs :: "string list"
  ls_IdleTimeoutSec :: int
  ls_Env :: "(string \<times> string) list"
  ls_ExposeSSH :: bool
  ls_ExposeJupyter :: bool
  ls_SSHPassword :: string

record Status =
  st_WorkloadID :: string
  st_State :: string
  st_SSHEndpoint :: string
  st_SSHPassword :: string
  st_JupyterEndpoint :: string
  st_Message :: string
  st_Logs :: string

definition status_of :: "string \<Rightarrow> string \<Rightarrow> Status" where
  "status_of wid state = \<lparr>st_WorkloadID = wid, st_State = state, st_SSHEndpoint = '''', st_SSHPassword = '''',
     st_JupyterEndpoint = '''', st_Message = '''', st_Logs = ''''\<rparr>"

text \<open>
  \<open>Executor\<close>, over the state \<open>'x\<close> of the host. A launch also returns the stages it reported
  through \<open>OnStage\<close>, in order; an error is its text.
\<close>

record 'x Executor =
  ex_Launch :: "LaunchSpec \<Rightarrow> 'x \<Rightarrow> (Status \<times> string option \<times> string list) \<times> 'x"
  ex_Stop :: "string \<Rightarrow> 'x \<Rightarrow> string option \<times> 'x"
  ex_Status :: "string \<Rightarrow> 'x \<Rightarrow> (string + Status) \<times> 'x"
  ex_Logs :: "string \<Rightarrow> int \<Rightarrow> 'x \<Rightarrow> string \<times> 'x"
  ex_List :: "'x \<Rightarrow> (string + Status list) \<times> 'x"

text \<open>A key of a Go map of strings that is absent reads as the empty string.\<close>

definition env_get :: "(string \<times> string) list \<Rightarrow> string \<Rightarrow> string" where
  "env_get e k = (case map_of e k of None \<Rightarrow> '''' | Some v \<Rightarrow> v)"

definition ssh_password :: "LaunchSpec \<Rightarrow> string" where
  "ssh_password spec = (if ls_SSHPassword spec = '''' then env_get (ls_Env spec) ''SSH_PASSWORD'' else ls_SSHPassword spec)"

section \<open>The simulated executor\<close>

text \<open>The map of running workloads as an association list with one entry per id.\<close>

record DevExecutor =
  dv_running :: "(string \<times> Status) list"
  dv_port :: int

definition NewDev :: DevExecutor where
  "NewDev = \<lparr>dv_running = [], dv_port = 22000\<rparr>"

definition dev_Launch :: "LaunchSpec \<Rightarrow> DevExecutor \<Rightarrow> (Status \<times> string option \<times> string list) \<times> DevExecutor" where
  "dev_Launch spec e =
     (let p1 = dv_port e + 1;
          p2 = (if ls_ExposeJupyter spec then p1 + 1 else p1);
          st = (status_of (ls_WorkloadID spec) ''running'')\<lparr>
                 st_SSHPassword := ssh_password spec, st_Message := ''dev executor: simulated container'',
                 st_SSHEndpoint := (if ls_ExposeSSH spec then ''localhost:'' @ Itoa p1 else ''''),
                 st_JupyterEndpoint := (if ls_ExposeJupyter spec then ''localhost:'' @ Itoa p2 else '''')\<rparr>
      in ((st, None, []), e\<lparr>dv_port := p2, dv_running := AList.update (ls_WorkloadID spec) st (dv_running e)\<rparr>))"

definition dev_Stop :: "string \<Rightarrow> DevExecutor \<Rightarrow> string option \<times> DevExecutor" where
  "dev_Stop wid e = (None, e\<lparr>dv_running := AList.delete wid (dv_running e)\<rparr>)"

definition dev_Status :: "string \<Rightarrow> DevExecutor \<Rightarrow> (string + Status) \<times> DevExecutor" where
  "dev_Status wid e = (Inr (case map_of (dv_running e) wid of Some st \<Rightarrow> st | None \<Rightarrow> status_of wid ''stopped''), e)"

definition dev_List :: "DevExecutor \<Rightarrow> (string + Status list) \<times> DevExecutor" where
  "dev_List e = (Inr (map snd (dv_running e)), e)"

text \<open>\<open>now\<close> is the local time of day, as the layout \<open>15:04:05\<close> prints it.\<close>

definition dev_Logs :: "time \<Rightarrow> string \<Rightarrow> int \<Rightarrow> DevExecutor \<Rightarrow> string \<times> DevExecutor" where
  "dev_Logs now wid tail e =
     (''[dev executor] workload '' @ wid @ NL @ clock_text (now - minute) @ ''  container started'' @ NL @
      clock_text now @ ''  GPU bound, ready'' @ NL @ ''[dev executor] simulated output '' @ dash @ '' no real container'' @ NL, e)"

definition dev_executor :: "time \<Rightarrow> DevExecutor Executor" where
  "dev_executor now = \<lparr>ex_Launch = dev_Launch, ex_Stop = dev_Stop, ex_Status = dev_Status, ex_Logs = dev_Logs now, ex_List = dev_List\<rparr>"

section \<open>The host\<close>

text \<open>
  A command that ended: the text of the error, the standard output and the combined output. The
  other fields are the JSON reader on the output of \<open>docker inspect\<close>, SHA-256 in hexadecimal, the
  random token (none when the source of randomness fails), the error of preparing the build
  directory, and \<open>docker build\<close> of a tag from a Dockerfile and an entry point.
\<close>

record cmd_out =
  co_err :: "string option"
  co_out :: string
  co_all :: string

record 'd host =
  hs_cmd :: "string list \<Rightarrow> 'd \<Rightarrow> cmd_out \<times> 'd"
  hs_build :: "string \<Rightarrow> string \<Rightarrow> string \<Rightarrow> 'd \<Rightarrow> cmd_out \<times> 'd"
  hs_json :: "string \<Rightarrow> json option"
  hs_sha256 :: "string \<Rightarrow> string"
  hs_rand :: "string option"
  hs_tmp :: "string option"
  hs_hostname :: string

definition docker :: "'d host \<Rightarrow> string list \<Rightarrow> 'd \<Rightarrow> cmd_out \<times> 'd" where
  "docker h args = hs_cmd h (''docker'' # args)"

record DockerExecutor =
  dk_hostAddr :: string
  dk_gpuPassthrough :: bool

record Options =
  op_GPUPassthrough :: bool
  op_AdvertiseHost :: string

definition NewWithOptions :: "'d host \<Rightarrow> Options \<Rightarrow> DockerExecutor" where
  "NewWithOptions h opt = \<lparr>dk_hostAddr = (if op_AdvertiseHost opt = '''' then hs_hostname h else op_AdvertiseHost opt),
     dk_gpuPassthrough = op_GPUPassthrough opt\<rparr>"

definition containerPrefix :: string where "containerPrefix = ''nodehive-''"

definition containerName :: "string \<Rightarrow> string" where
  "containerName wid = containerPrefix @ take 20 (filter (\<lambda>c. c \<noteq> CHR ''-'') wid)"

section \<open>Reading the state of a container\<close>

definition containerExists :: "'d host \<Rightarrow> string \<Rightarrow> 'd \<Rightarrow> (bool \<times> bool) \<times> 'd" where
  "containerExists h name d =
     (let (o', d1) = docker h [''inspect'', ''--format={{.State.Running}}'', name] d
      in ((case co_err o' of Some _ \<Rightarrow> (False, False) | None \<Rightarrow> (True, TrimSpace (co_out o') = ''true'')), d1))"

definition containerState :: "'d host \<Rightarrow> string \<Rightarrow> 'd \<Rightarrow> (bool \<times> string) \<times> 'd" where
  "containerState h name d =
     (let (o', d1) = docker h [''inspect'', ''--format={{.State.Running}} {{.State.ExitCode}}'', name] d
      in ((case co_err o' of
             Some _ \<Rightarrow> (False, ''?'')
           | None \<Rightarrow> (case Fields (TrimSpace (co_out o')) of running # code # _ \<Rightarrow> (running = ''true'', code) | _ \<Rightarrow> (False, ''?''))), d1))"

text \<open>
  Decoding into \<open>[]result\<close>: every value on the way has the shape of its Go type or is \<open>null\<close>, or
  the decoder returns an error. The last of several members with the name of a field counts.
\<close>

fun arr_of :: "json \<Rightarrow> json list option" where
  "arr_of (JArr vs) = Some vs"
| "arr_of JNull = Some []"
| "arr_of _ = None"

fun obj_of :: "json \<Rightarrow> (string \<times> json) list option" where
  "obj_of (JObj ms) = Some ms"
| "obj_of JNull = Some []"
| "obj_of _ = None"

fun str_of :: "json \<Rightarrow> string option" where
  "str_of (JStr s) = Some s"
| "str_of JNull = Some ''''"
| "str_of _ = None"

definition binding_ok :: "json \<Rightarrow> bool" where
  "binding_ok b \<longleftrightarrow> obj_of b \<noteq> None \<and> list_all (\<lambda>v. str_of v \<noteq> None) (members ''HostIP'' b @ members ''HostPort'' b)"

definition ports_ok :: "json \<Rightarrow> bool" where
  "ports_ok p \<longleftrightarrow> (case obj_of p of None \<Rightarrow> False | Some ms \<Rightarrow>
     list_all (\<lambda>(_, bs). case arr_of bs of None \<Rightarrow> False | Some l \<Rightarrow> list_all binding_ok l) ms)"

definition result_ok :: "json \<Rightarrow> bool" where
  "result_ok r \<longleftrightarrow> obj_of r \<noteq> None \<and>
     list_all (\<lambda>n. obj_of n \<noteq> None \<and> list_all ports_ok (members ''Ports'' n)) (members ''NetworkSettings'' r)"

definition host_port :: "string \<Rightarrow> json \<Rightarrow> string" where
  "host_port port r =
     (case concat (map (members ''Ports'') (members ''NetworkSettings'' r)) of
        [] \<Rightarrow> ''''
      | ps \<Rightarrow> (case List.map_filter (\<lambda>p. Option.bind (obj_of p) (\<lambda>ms. map_of (rev ms) port)) ps of
          [] \<Rightarrow> ''''
        | bs \<Rightarrow> (case arr_of (last bs) of
            Some (b # _) \<Rightarrow> (case List.map_filter str_of (members ''HostPort'' b) of [] \<Rightarrow> '''' | vs \<Rightarrow> last vs)
          | _ \<Rightarrow> '''')))"

definition inspectPort :: "'d host \<Rightarrow> string \<Rightarrow> string \<Rightarrow> 'd \<Rightarrow> string \<times> 'd" where
  "inspectPort h name port d =
     (let (o', d1) = docker h [''inspect'', name] d
      in (case co_err o' of
            Some _ \<Rightarrow> ''''
          | None \<Rightarrow> (case Option.bind (hs_json h (co_out o')) arr_of of
              Some (r # rs) \<Rightarrow> if list_all result_ok (r # rs) then host_port port r else ''''
            | _ \<Rightarrow> ''''), d1))"


definition docker_Logs :: "'d host \<Rightarrow> string \<Rightarrow> int \<Rightarrow> 'd \<Rightarrow> string \<times> 'd" where
  "docker_Logs h wid tail d =
     (let (o', d1) = docker h [''logs'', ''--tail'', Itoa tail, containerName wid] d in (co_all o', d1))"

definition docker_Stop :: "'d host \<Rightarrow> string \<Rightarrow> 'd \<Rightarrow> string option \<times> 'd" where
  "docker_Stop h wid d =
     (let name = containerName wid; (_, d1) = docker h [''stop'', ''-t'', ''10'', name] d; (_, d2) = docker h [''rm'', ''-f'', name] d1
      in (None, d2))"

definition docker_Status :: "'d host \<Rightarrow> string \<Rightarrow> 'd \<Rightarrow> (string + Status) \<times> 'd" where
  "docker_Status h wid d =
     (let (o', d1) = docker h [''inspect'', ''--format={{.State.Status}}'', containerName wid] d; s = TrimSpace (co_out o')
      in (Inr (status_of wid (case co_err o' of Some _ \<Rightarrow> ''stopped'' | None \<Rightarrow> if s \<in> set [''exited'', ''dead''] then ''stopped'' else s)), d1))"

text \<open>The endpoint of a mapped port; Jupyter's carries the token.\<close>

definition endpoint :: "DockerExecutor \<Rightarrow> string \<Rightarrow> string \<Rightarrow> string" where
  "endpoint e p token = (if p = '''' then ''''
     else dk_hostAddr e @ '':'' @ p @ (if token = '''' then '''' else ''/lab?token='' @ token))"

text \<open>The last line of the environment with the name decides, the value without its white space.\<close>

definition env_line :: "string \<Rightarrow> string list \<Rightarrow> string" where
  "env_line k ls = (case List.map_filter (\<lambda>l. CutPrefix l (k @ ''='')) ls of [] \<Rightarrow> '''' | vs \<Rightarrow> TrimSpace (last vs))"

definition recoverStatus :: "'d host \<Rightarrow> DockerExecutor \<Rightarrow> string \<Rightarrow> string \<Rightarrow> 'd \<Rightarrow> Status \<times> 'd" where
  "recoverStatus h e name wid d =
     (let (o', d1) = docker h [''inspect'', ''--format={{range .Config.Env}}{{println .}}{{end}}'', name] d;
          ls = Split (CHR 0x0A) (co_out o');
          (p22, d2) = inspectPort h name ''22/tcp'' d1;
          (p88, d3) = inspectPort h name ''8888/tcp'' d2
      in ((status_of wid ''running'')\<lparr>st_Message := ''recovered running container'', st_SSHPassword := env_line ''SSH_PASSWORD'' ls,
             st_SSHEndpoint := endpoint e p22 '''', st_JupyterEndpoint := endpoint e p88 (env_line ''JUPYTER_TOKEN'' ls)\<rparr>, d3))"

text \<open>One line of \<open>docker ps\<close>: name, workload id and state between bars.\<close>

definition ps_line :: "string \<Rightarrow> (string \<times> string \<times> string) option" where
  "ps_line l = (case SplitN ''|'' 3 l of [name, wid, state] \<Rightarrow> if wid = '''' then None else Some (name, wid, state) | _ \<Rightarrow> None)"

fun list_lines :: "'d host \<Rightarrow> DockerExecutor \<Rightarrow> (string \<times> string \<times> string) list \<Rightarrow> 'd \<Rightarrow> Status list \<times> 'd" where
  "list_lines h e [] d = ([], d)"
| "list_lines h e ((name, wid, state) # ls) d =
     (let (st, d1) = (if state = ''running'' then recoverStatus h e name wid d
                      else (let (logs, d1) = docker_Logs h wid 50 d
                            in ((status_of wid ''stopped'')\<lparr>st_Message := ''container found '' @ state @ '' on reconcile'', st_Logs := logs\<rparr>, d1)));
          (sts, d2) = list_lines h e ls d1
      in (st # sts, d2))"

definition docker_List :: "'d host \<Rightarrow> DockerExecutor \<Rightarrow> 'd \<Rightarrow> (string + Status list) \<times> 'd" where
  "docker_List h e d =
     (let (o', d1) = docker h [''ps'', ''-a'', ''--filter'', ''label=nodehive.workload_id'', ''--format'',
                               sh ''{{.Names}}|{{.Label `nodehive.workload_id`}}|{{.State}}''] d
      in case co_err o' of
           Some err \<Rightarrow> (Inl (''docker ps: '' @ err), d1)
         | None \<Rightarrow> (let (sts, d2) = list_lines h e (List.map_filter ps_line (Split (CHR 0x0A) (TrimSpace (co_out o')))) d1 in (Inr sts, d2)))"

section \<open>Images\<close>

text \<open>As in \<open>Installer\<close>, \<open>sh\<close> turns a backquote into a double quote and an at sign into a backslash.\<close>

definition derivedImageVersion :: string where "derivedImageVersion = ''v3-jupyterfix''"

definition no_password :: string where "no_password = ''--ServerApp.password='' @ [CHR 0x27, CHR 0x27]"

definition persist_env :: string where
  "persist_env = unlines
     [''( set +eu'',
      sh ''  _vars=`PATH LD_LIBRARY_PATH LIBRARY_PATH CUDA_HOME CUDA_PATH CUDA_VERSION CONDA_DIR VIRTUAL_ENV`'',
      ''  : > /etc/environment'',
      ''  : > /etc/profile.d/nodehive-env.sh'',
      sh ''  echo `# Added by NodeHive '' @ dash @ sh '' restore image PATH/toolchain for login shells` >> /etc/profile.d/nodehive-env.sh'',
      ''  for _v in $_vars; do'',
      sh ''    eval `_val=@${$_v:-}`'',
      sh ''    if [ -n `$_val` ]; then'',
      sh ''      printf '%s=`%s`@n' `$_v` `$_val` >> /etc/environment'',
      sh ''      printf 'export %s=`%s`@n' `$_v` `$_val` >> /etc/profile.d/nodehive-env.sh'',
      ''    fi'',
      ''  done'',
      ''  chmod 644 /etc/profile.d/nodehive-env.sh'',
      '') >/dev/null 2>&1 || true'',
      '''']"

definition buildEntrypointScript :: "bool \<Rightarrow> bool \<Rightarrow> string" where
  "buildEntrypointScript ssh jupyter =
     unlines [''#!/bin/sh'', ''set -eu''] @ persist_env @
     (if ssh then unlines [sh '': `${SSH_PASSWORD:=nodehive}`'', sh ''echo `root:${SSH_PASSWORD}` | chpasswd''] else '''') @
     (if ssh \<and> jupyter then unlines
        [sh ''TOKEN=`${JUPYTER_TOKEN:-}`'',
         sh ''jupyter lab --ip=0.0.0.0 --port=8888 --no-browser --allow-root --ServerApp.token=`${TOKEN}` '' @ no_password @ '' &'',
         ''exec /usr/sbin/sshd -D -e'']
      else if jupyter then unlines
        [sh ''TOKEN=`${JUPYTER_TOKEN:-}`'',
         sh ''exec jupyter lab --ip=0.0.0.0 --port=8888 --no-browser --allow-root --ServerApp.token=`${TOKEN}` '' @ no_password]
      else unlines [''exec /usr/sbin/sshd -D -e''])"

definition install_steps :: "bool \<Rightarrow> bool \<Rightarrow> string" where
  "install_steps ssh jupyter =
     (if ssh then
        ''( apt-get update && apt-get install -y --no-install-recommends openssh-server ca-certificates ) || ( microdnf install -y openssh-server ) || ( yum install -y openssh-server ) || ( apk add --no-cache openssh ) ; mkdir -p /run/sshd /root/.ssh ; ssh-keygen -A ; '' @
        sh ''sed -i -e 's/^#@?PermitRootLogin.*/PermitRootLogin yes/' -e 's/^#@?PasswordAuthentication.*/PasswordAuthentication yes/' /etc/ssh/sshd_config ; ''
      else '''') @
     (if jupyter then
        ''( command -v jupyter >/dev/null 2>&1 ) || ( pip install --no-cache-dir jupyterlab ) || ( pip3 install --no-cache-dir jupyterlab ) || ( apt-get update && apt-get install -y python3-pip && pip3 install --no-cache-dir jupyterlab ) ; '' @
        ''( pip install --no-cache-dir -U packaging >/dev/null 2>&1 || pip3 install --no-cache-dir -U packaging >/dev/null 2>&1 || true ) ; ''
      else '''')"

definition dockerfile :: "string \<Rightarrow> bool \<Rightarrow> bool \<Rightarrow> string" where
  "dockerfile baseImage ssh jupyter = unlines
     [''FROM '' @ baseImage, ''USER root'', ''RUN '' @ install_steps ssh jupyter @ '' true'',
      ''COPY nodehive-entrypoint /usr/local/bin/nodehive-entrypoint'', ''RUN chmod +x /usr/local/bin/nodehive-entrypoint'',
      sh ''ENTRYPOINT [`/usr/local/bin/nodehive-entrypoint`]'']"

definition imageExists :: "'d host \<Rightarrow> string \<Rightarrow> 'd \<Rightarrow> bool \<times> 'd" where
  "imageExists h tag d = (let (o', d1) = docker h [''image'', ''inspect'', tag] d in (co_err o' = None, d1))"

definition buildDerivedImage :: "'d host \<Rightarrow> string \<Rightarrow> bool \<Rightarrow> bool \<Rightarrow> string \<Rightarrow> 'd \<Rightarrow> string option \<times> 'd" where
  "buildDerivedImage h baseImage ssh jupyter tag d =
     (case hs_tmp h of
        Some err \<Rightarrow> (Some err, d)
      | None \<Rightarrow> (let (o', d1) = hs_build h tag (dockerfile baseImage ssh jupyter) (buildEntrypointScript ssh jupyter) d
                 in (map_option (\<lambda>err. ''build '' @ tag @ '' from '' @ baseImage @ '': '' @ err @ '': '' @ TrimSpace (co_all o')) (co_err o'), d1)))"

definition combo_of :: "bool \<Rightarrow> bool \<Rightarrow> string" where
  "combo_of ssh jupyter = (if ssh \<and> jupyter then ''ssh-jupyter'' else if jupyter then ''jupyter'' else ''ssh'')"

definition image_tag :: "'d host \<Rightarrow> string \<Rightarrow> bool \<Rightarrow> bool \<Rightarrow> string" where
  "image_tag h baseImage ssh jupyter = ''nodehive/run-'' @ combo_of ssh jupyter @ '':'' @
     take 12 (hs_sha256 h (baseImage @ ''|'' @ combo_of ssh jupyter @ ''|'' @ derivedImageVersion))"

definition ensureRunImage :: "'d host \<Rightarrow> string \<Rightarrow> bool \<Rightarrow> bool \<Rightarrow> 'd \<Rightarrow> (string + string) \<times> 'd" where
  "ensureRunImage h baseImage ssh jupyter d =
     (if \<not> ssh \<and> \<not> jupyter then (Inr baseImage, d)
      else (let tag = image_tag h baseImage ssh jupyter; (found, d1) = imageExists h tag d
            in if found then (Inr tag, d1)
               else (case buildDerivedImage h baseImage ssh jupyter tag d1 of
                       (Some err, d2) \<Rightarrow> (Inl err, d2)
                     | (None, d2) \<Rightarrow> (Inr tag, d2))))"

section \<open>Launching\<close>

definition randToken :: "'d host \<Rightarrow> string" where
  "randToken h = (case hs_rand h of Some t \<Rightarrow> t | None \<Rightarrow> ''nodehive'')"

definition jupyter_token :: "'d host \<Rightarrow> LaunchSpec \<Rightarrow> string" where
  "jupyter_token h spec = (if ls_ExposeJupyter spec then (if ssh_password spec = '''' then randToken h else ssh_password spec) else '''')"

definition expose_ssh :: "LaunchSpec \<Rightarrow> bool" where
  "expose_ssh spec \<longleftrightarrow> ls_ExposeSSH spec \<and> ssh_password spec \<noteq> ''''"

definition run_args :: "'d host \<Rightarrow> DockerExecutor \<Rightarrow> LaunchSpec \<Rightarrow> string \<Rightarrow> string list" where
  "run_args h e spec img =
     [''run'', ''-d'', ''--name'', containerName (ls_WorkloadID spec), ''--restart=no''] @
     (if dk_gpuPassthrough e \<and> ls_GPUUUIDs spec \<noteq> [] then [''--gpus'', ''device='' @ Join (ls_GPUUUIDs spec) '','' ] else []) @
     (if ls_IdleTimeoutSec spec > 0 then [''--label'', ''nodehive.idle_timeout='' @ Itoa (ls_IdleTimeoutSec spec)] else []) @
     [''--label'', ''nodehive.workload_id='' @ ls_WorkloadID spec] @
     (if expose_ssh spec then [''-e'', ''SSH_PASSWORD='' @ ssh_password spec] else []) @
     (if ls_ExposeJupyter spec then [''-e'', ''JUPYTER_TOKEN='' @ jupyter_token h spec] else []) @
     concat (map (\<lambda>(k, v). if k = ''SSH_PASSWORD'' \<or> k = ''JUPYTER_TOKEN'' then [] else [''-e'', k @ ''='' @ v]) (ls_Env spec)) @
     (if expose_ssh spec then [''-p'', ''127.0.0.1::22''] else []) @
     (if ls_ExposeJupyter spec then [''-p'', ''127.0.0.1::8888''] else []) @ [img]"

definition failed_status :: "LaunchSpec \<Rightarrow> string \<Rightarrow> Status" where
  "failed_status spec msg = (status_of (ls_WorkloadID spec) ''failed'')\<lparr>st_Message := msg\<rparr>"

text \<open>After \<open>docker run\<close>: the liveness gate and the endpoints.\<close>

definition launch_ready :: "'d host \<Rightarrow> DockerExecutor \<Rightarrow> LaunchSpec \<Rightarrow> 'd \<Rightarrow> (Status \<times> string option) \<times> 'd" where
  "launch_ready h e spec d =
     (let name = containerName (ls_WorkloadID spec); ((running, code), d1) = containerState h name d
      in if \<not> running then
           (let (logs, d2) = docker_Logs h (ls_WorkloadID spec) 50 d1; (_, d3) = docker_Stop h (ls_WorkloadID spec) d2
            in ((failed_status spec (''container exited (code '' @ code @ '') on launch:'' @ NL @ TrimSpace logs),
                 Some (''container '' @ name @ '' exited code '' @ code @ '' on launch'')), d3))
         else
           (let (p22, d2) = (if expose_ssh spec then inspectPort h name ''22/tcp'' d1 else ('''', d1));
                (p88, d3) = (if ls_ExposeJupyter spec then inspectPort h name ''8888/tcp'' d2 else ('''', d2))
            in (((status_of (ls_WorkloadID spec) ''running'')\<lparr>st_SSHPassword := ssh_password spec, st_SSHEndpoint := endpoint e p22 '''',
                   st_JupyterEndpoint := endpoint e p88 (jupyter_token h spec)\<rparr>, None), d3)))"

definition launch_fresh :: "'d host \<Rightarrow> DockerExecutor \<Rightarrow> LaunchSpec \<Rightarrow> 'd \<Rightarrow> (Status \<times> string option \<times> string list) \<times> 'd" where
  "launch_fresh h e spec d =
     (let pre = ''pulling_image'' # (if expose_ssh spec \<or> ls_ExposeJupyter spec then [''building_env''] else [])
      in case ensureRunImage h (ls_Image spec) (expose_ssh spec) (ls_ExposeJupyter spec) d of
           (Inl err, d1) \<Rightarrow> ((failed_status spec (''image preparation failed: '' @ err), Some err, pre), d1)
         | (Inr img, d1) \<Rightarrow>
             (let (o', d2) = docker h (run_args h e spec img) d1
              in case co_err o' of
                   Some err \<Rightarrow> ((failed_status spec (''docker run failed: '' @ TrimSpace (co_all o')),
                                Some (''docker run: '' @ err @ '': '' @ co_all o'), pre @ [''starting_container'']), d2)
                 | None \<Rightarrow> (let ((st, err), d3) = launch_ready h e spec d2
                            in ((st, err, pre @ [''starting_container'', ''configuring'']), d3))))"

definition docker_Launch :: "'d host \<Rightarrow> DockerExecutor \<Rightarrow> LaunchSpec \<Rightarrow> 'd \<Rightarrow> (Status \<times> string option \<times> string list) \<times> 'd" where
  "docker_Launch h e spec d =
     (let name = containerName (ls_WorkloadID spec); ((there, running), d1) = containerExists h name d
      in if there \<and> running then (let (st, d2) = recoverStatus h e name (ls_WorkloadID spec) d1 in ((st, None, []), d2))
         else launch_fresh h e spec (if there then snd (docker h [''rm'', ''-f'', name] d1) else d1))"

definition docker_executor :: "'d host \<Rightarrow> DockerExecutor \<Rightarrow> 'd Executor" where
  "docker_executor h e = \<lparr>ex_Launch = docker_Launch h e, ex_Stop = docker_Stop h, ex_Status = docker_Status h, ex_Logs = docker_Logs h,
     ex_List = docker_List h e\<rparr>"


section \<open>What an executor promises\<close>

text \<open>
  The contract of the interface, over the workloads a host runs: a launch that succeeds puts its
  workload there with the status it returns, a stop takes it away and leaves the others, the list
  is the workloads that are there.
\<close>

locale workload_host =
  fixes ex :: "'x Executor" and ok :: "'x \<Rightarrow> bool" and live :: "'x \<Rightarrow> string \<Rightarrow> Status option"
  assumes launch_ok: "ok x \<Longrightarrow> ex_Launch ex spec x = ((st, None, stages), x') \<Longrightarrow>
      ok x' \<and> st_WorkloadID st = ls_WorkloadID spec \<and> live x' = (live x)(ls_WorkloadID spec \<mapsto> st)"
    and stop_ok: "ok x \<Longrightarrow> ex_Stop ex wid x = (err, x') \<Longrightarrow> ok x' \<and> live x' = (live x)(wid := None)"
    and list_ok: "ok x \<Longrightarrow> ex_List ex x = (Inr sts, x') \<Longrightarrow> x' = x \<and> set sts = ran (live x)"
    and live_id: "ok x \<Longrightarrow> live x w = Some st \<Longrightarrow> st_WorkloadID st = w"
begin

lemma relaunch_replaces:
  assumes "ok x" and "ex_Launch ex spec x = ((st, None, stages), x')" and "ex_Launch ex spec x' = ((st', None, stages'), x'')"
  shows "live x'' = (live x)(ls_WorkloadID spec \<mapsto> st')"
  using launch_ok [OF assms(1,2)] launch_ok [OF _ assms(3)] by simp

lemma stopped_unlisted:
  assumes "ok x" and "ex_Stop ex wid x = (err, x')" and "ex_List ex x' = (Inr sts, x'')"
  shows "\<forall>st \<in> set sts. st_WorkloadID st \<noteq> wid"
proof
  fix st assume "st \<in> set sts"
  have x': "ok x'" "live x' = (live x)(wid := None)" using stop_ok [OF assms(1,2)] by auto
  then obtain w where "live x' w = Some st" using list_ok [OF _ assms(3)] \<open>st \<in> set sts\<close> by (auto simp: ran_def)
  then show "st_WorkloadID st \<noteq> wid" using live_id [OF x'(1)] x'(2) by (auto split: if_splits)
qed

lemma launched_listed:
  assumes "ok x" and "ex_Launch ex spec x = ((st, None, stages), x')" and "ex_List ex x' = (Inr sts, x'')"
  shows "st \<in> set sts"
  using launch_ok [OF assms(1,2)] list_ok [OF _ assms(3)] by (auto simp: ran_def)

end

text \<open>The entries of the simulated executor are statuses under their own ids, one per id.\<close>

definition dev_ok :: "DevExecutor \<Rightarrow> bool" where
  "dev_ok e \<longleftrightarrow> distinct (map fst (dv_running e)) \<and> (\<forall>w st. map_of (dv_running e) w = Some st \<longrightarrow> st_WorkloadID st = w)"

lemma ran_map_of: "distinct (map fst al) \<Longrightarrow> set (map snd al) = ran (map_of al)"
  by (force simp: ran_def)

interpretation dev: workload_host "dev_executor now" dev_ok "\<lambda>e. map_of (dv_running e)"
proof
  show "x' = x \<and> set sts = ran (map_of (dv_running x))" if "dev_ok x" and "ex_List (dev_executor now) x = (Inr sts, x')" for x x' sts
  proof -
    have "sts = map snd (dv_running x)" and "x' = x" and "distinct (map fst (dv_running x))"
      using that by (auto simp: dev_executor_def dev_List_def dev_ok_def)
    then show ?thesis by (simp only: ran_map_of simp_thms)
  qed
qed (auto simp: dev_executor_def dev_Launch_def dev_Stop_def dev_ok_def Let_def status_of_def update_conv'
      delete_conv' distinct_update distinct_delete split: if_splits)

text \<open>No two endpoints of the simulated executor share a port: the counter only grows.\<close>

lemma dev_ports: "dv_port e < dv_port (snd (dev_Launch spec e))"
  by (simp add: dev_Launch_def Let_def)

section \<open>Containers\<close>

text \<open>
  A relation on the states of the host that \<open>docker inspect\<close> keeps is kept by a launch of a
  container that runs already: such a launch starts, stops and removes nothing, and it succeeds.
\<close>

locale inspecting =
  fixes h :: "'d host" and R :: "'d \<Rightarrow> 'd \<Rightarrow> bool"
  assumes R_refl: "R d d" and R_trans: "R d d' \<Longrightarrow> R d' d'' \<Longrightarrow> R d d''"
    and inspect: "R d (snd (docker h (''inspect'' # args) d))"
begin

lemma containerExists_keeps: "R d (snd (containerExists h name d))"
  using inspect by (simp add: containerExists_def case_prod_beta)

lemma inspectPort_keeps: "R d (snd (inspectPort h name port d))"
  using inspect by (simp add: inspectPort_def case_prod_beta)

lemma recoverStatus_keeps: "R d (snd (recoverStatus h e name wid d))"
  unfolding recoverStatus_def Let_def case_prod_beta snd_conv fst_conv
  by (rule R_trans [OF inspect R_trans [OF inspectPort_keeps inspectPort_keeps]])

lemma Status_keeps: "R d (snd (docker_Status h wid d))"
  using inspect by (simp add: docker_Status_def Let_def case_prod_beta)

lemma running_relaunched:
  assumes "fst (containerExists h (containerName (ls_WorkloadID spec)) d) = (True, True)"
  shows "R d (snd (docker_Launch h e spec d))" and "fst (snd (fst (docker_Launch h e spec d))) = None"
    and "st_State (fst (fst (docker_Launch h e spec d))) = ''running''"
proof -
  obtain d1 where d1: "containerExists h (containerName (ls_WorkloadID spec)) d = ((True, True), d1)"
    using assms by (cases "containerExists h (containerName (ls_WorkloadID spec)) d") auto
  have "R d d1" using containerExists_keeps [of d "containerName (ls_WorkloadID spec)"] by (simp add: d1)
  moreover have "R d1 (snd (recoverStatus h e (containerName (ls_WorkloadID spec)) (ls_WorkloadID spec) d1))" by (rule recoverStatus_keeps)
  ultimately show "R d (snd (docker_Launch h e spec d))" using R_trans by (simp add: docker_Launch_def d1 Let_def case_prod_beta)
  show "fst (snd (fst (docker_Launch h e spec d))) = None" and "st_State (fst (fst (docker_Launch h e spec d))) = ''running''"
    by (simp_all add: docker_Launch_def d1 Let_def case_prod_beta recoverStatus_def status_of_def)
qed

end

text \<open>The recording host: the commands it was given, in order, beside the state of the host.\<close>

definition recording :: "'d host \<Rightarrow> ('d \<times> string list list) host" where
  "recording h = \<lparr>hs_cmd = (\<lambda>args (d, log). let (o', d1) = hs_cmd h args d in (o', d1, log @ [args])),
     hs_build = (\<lambda>tag df ep (d, log). let (o', d1) = hs_build h tag df ep d in (o', d1, log @ [[''docker'', ''build'', ''-t'', tag]])),
     hs_json = hs_json h, hs_sha256 = hs_sha256 h, hs_rand = hs_rand h, hs_tmp = hs_tmp h, hs_hostname = hs_hostname h\<rparr>"

interpretation recorded: inspecting "recording h" "\<lambda>x y. \<exists>cs. snd y = snd x @ cs \<and> (\<forall>c \<in> set cs. take 2 c = [''docker'', ''inspect''])"
  by unfold_locales (force simp: recording_def docker_def case_prod_beta)+

text \<open>
  The name keeps twenty hexadecimal digits of the id: two workloads whose ids begin alike share a
  container.
\<close>

lemma containerName_short: "length (containerName wid) \<le> 29"
  by (simp add: containerName_def containerPrefix_def)

lemma containerName_uuid: "containerName (uuid_str i) = containerPrefix @ take 20 (uuid_hex i)"
proof -
  have no: "filter (\<lambda>c. c \<noteq> CHR ''-'') (hex_digits k v) = hex_digits k v" for k v
  proof (induction k arbitrary: v)
    case (Suc k)
    have "hex_digit v \<in> set ''0123456789abcdef''" unfolding hex_digit_def by (rule nth_mem) simp
    then have "hex_digit v \<noteq> CHR ''-''" by auto
    then show ?case using Suc by simp
  qed simp
  have f: "filter (\<lambda>c. c \<noteq> CHR ''-'') (take n (drop m (uuid_hex i))) = take n (drop m (uuid_hex i))" for n m
    using no [of 32 i] by (metis filter_id_conv in_set_dropD in_set_takeD uuid_hex_def)
  have "filter (\<lambda>c. c \<noteq> CHR ''-'') (uuid_str i) = take 8 (uuid_hex i) @ take 4 (drop 8 (uuid_hex i)) @ take 4 (drop 12 (uuid_hex i)) @
      take 4 (drop 16 (uuid_hex i)) @ drop 20 (uuid_hex i)"
    using f [of 8 0] f [of 4 8] f [of 4 12] f [of 4 16] f [of "length (uuid_hex i)" 20] by (simp add: uuid_str_def Let_def)
  also have "\<dots> = uuid_hex i"
    using append_take_drop_id [of 8 "uuid_hex i"] append_take_drop_id [of 4 "drop 8 (uuid_hex i)"] append_take_drop_id [of 4 "drop 12 (uuid_hex i)"]
      append_take_drop_id [of 4 "drop 16 (uuid_hex i)"] by simp
  finally show ?thesis by (simp add: containerName_def)
qed

text \<open>A line that \<open>docker ps\<close> prints for a container is read back.\<close>

lemma Cut_bar: "CHR ''|'' \<notin> set a \<Longrightarrow> Cut ''|'' (a @ CHR ''|'' # b) = Some (a, b)"
  by (induction a) (auto simp: has_prefix_def)

lemma ps_line_read: "CHR ''|'' \<notin> set name \<Longrightarrow> CHR ''|'' \<notin> set wid \<Longrightarrow> wid \<noteq> '''' \<Longrightarrow>
    ps_line (name @ ''|'' @ wid @ ''|'' @ state) = Some (name, wid, state)"
  by (simp add: ps_line_def numeral_3_eq_3 Cut_bar)

end
