(* ===== verification/Probe.thy ===== *)
theory Probe
  imports Executor
begin

text \<open>
  What the agent knows of its machine: hardware and GPUs (\<open>agent/discovery\<close>), telemetry
  (\<open>agent/metrics\<close>) and its own identity (\<open>agent/identity\<close>). The machine answers with the
  contents of files and the output of commands.
\<close>

record machine =
  mc_hostname :: string
  mc_GOOS :: string
  mc_NumCPU :: int
  mc_file :: "string \<Rightarrow> string option"
  mc_out :: "string list \<Rightarrow> string option"

section \<open>Discovery\<close>

record discovered_node =
  dn_Hostname :: string
  dn_OS :: string
  dn_Kernel :: string
  dn_CPUModel :: string
  dn_CPUCores :: int
  dn_RAMMB :: int
  dn_NvidiaDriver :: string
  dn_CUDAVersion :: string

record discovered_gpu =
  dg_Index :: int
  dg_UUID :: string
  dg_Model :: string
  dg_MemoryMB :: int
  dg_MIGEnabled :: bool

fun mem_total :: "string list \<Rightarrow> int" where
  "mem_total [] = 0"
| "mem_total (l # ls) =
     (if has_prefix ''MemTotal:'' l then (case Fields l of _ # kb # _ \<Rightarrow> uint_value 64 kb div 1024 | _ \<Rightarrow> mem_total ls) else mem_total ls)"

definition readMemTotalMB :: "machine \<Rightarrow> int" where
  "readMemTotalMB mc = (case mc_file mc ''/proc/meminfo'' of None \<Rightarrow> 0 | Some b \<Rightarrow> mem_total (Split (CHR 0x0A) b))"

fun cpu_model :: "string list \<Rightarrow> string" where
  "cpu_model [] = ''''"
| "cpu_model (l # ls) =
     (if has_prefix ''model name'' l then (case SplitN '':'' 2 l of [_, v] \<Rightarrow> TrimSpace v | _ \<Rightarrow> cpu_model ls) else cpu_model ls)"

definition readCPUModel :: "machine \<Rightarrow> string" where
  "readCPUModel mc = (case mc_file mc ''/proc/cpuinfo'' of None \<Rightarrow> '''' | Some b \<Rightarrow> cpu_model (Split (CHR 0x0A) b))"

definition first_line :: "string option \<Rightarrow> string" where
  "first_line out = (case out of None \<Rightarrow> '''' | Some b \<Rightarrow> TrimSpace (hd (Split (CHR 0x0A) (TrimSpace b))))"

definition sysNodeInfo :: "machine \<Rightarrow> discovered_node" where
  "sysNodeInfo mc =
     \<lparr>dn_Hostname = mc_hostname mc, dn_OS = mc_GOOS mc,
      dn_Kernel = (case mc_out mc [''uname'', ''-r''] of None \<Rightarrow> '''' | Some b \<Rightarrow> TrimSpace b),
      dn_CPUModel = readCPUModel mc, dn_CPUCores = mc_NumCPU mc, dn_RAMMB = readMemTotalMB mc,
      dn_NvidiaDriver = first_line (mc_out mc [''nvidia-smi'', ''--query-gpu=driver_version'', ''--format=csv,noheader'']),
      dn_CUDAVersion = first_line (mc_out mc [''nvidia-smi'', ''--query-gpu=compute_cap'', ''--format=csv,noheader''])\<rparr>"

definition gpu_of_line :: "string \<Rightarrow> discovered_gpu option" where
  "gpu_of_line l =
     (case SplitN '', '' 5 l of
        [idx, u, model, mem, mig] \<Rightarrow> Some
          \<lparr>dg_Index = atoi_value (TrimSpace idx), dg_UUID = TrimSpace u, dg_Model = TrimSpace model,
           dg_MemoryMB = uint_value 64 (TrimSpace mem), dg_MIGEnabled = (lower (TrimSpace mig) = ''enabled'')\<rparr>
      | _ \<Rightarrow> None)"

definition nvidiaSMIGPUs :: "machine \<Rightarrow> discovered_gpu list" where
  "nvidiaSMIGPUs mc =
     (case mc_out mc [''nvidia-smi'', ''--query-gpu=index,uuid,name,memory.total,mig.mode.current'', ''--format=csv,noheader,nounits''] of
        None \<Rightarrow> []
      | Some out \<Rightarrow> List.map_filter gpu_of_line (scan_lines out))"

definition sys_Discover :: "machine \<Rightarrow> discovered_node \<times> discovered_gpu list" where
  "sys_Discover mc = (sysNodeInfo mc, nvidiaSMIGPUs mc)"

definition dev_Discover :: "machine \<Rightarrow> discovered_node \<times> discovered_gpu list" where
  "dev_Discover mc =
     (\<lparr>dn_Hostname = mc_hostname mc, dn_OS = mc_GOOS mc, dn_Kernel = ''dev-kernel'', dn_CPUModel = ''Development CPU (synthetic)'',
       dn_CPUCores = mc_NumCPU mc, dn_RAMMB = 65536, dn_NvidiaDriver = ''n/a (dev)'', dn_CUDAVersion = ''n/a (dev)''\<rparr>,
      [\<lparr>dg_Index = 0, dg_UUID = ''GPU-DEV-AGENT-0001'', dg_Model = ''Development GPU (Synthetic)'', dg_MemoryMB = 24576, dg_MIGEnabled = False\<rparr>,
       \<lparr>dg_Index = 1, dg_UUID = ''GPU-DEV-AGENT-0002'', dg_Model = ''Development GPU (Synthetic)'', dg_MemoryMB = 24576, dg_MIGEnabled = False\<rparr>])"

section \<open>Telemetry\<close>

record sample =
  sl_GPUUUID :: string
  sl_TS :: time
  sl_UtilPct :: float64
  sl_MemUsedMB :: "32 word"
  sl_PowerW :: float64
  sl_TempC :: float64
  sl_SMClockMHz :: "32 word"
  sl_ECCErrors :: "32 word"
  sl_ProcCount :: "32 word"

text \<open>
  The value \<open>strconv.ParseFloat\<close> returns when its error is dropped: zero for malformed text,
  an infinity for a literal out of range.
\<close>

definition float_value :: "string \<Rightarrow> float64" where
  "float_value s = (case ParseFloat s of
       Some f \<Rightarrow> f
     | None \<Rightarrow> (let neg = take 1 s = ''-''; s1 = (if neg \<or> take 1 s = ''+'' then tl s else s)
               in case float_literal s1 of None \<Rightarrow> Fin 0 | Some _ \<Rightarrow> if neg then NegInf else PosInf))"

text \<open>
  \<open>uint32(f)\<close> truncates toward zero; beyond the range of the type the language leaves the result
  open, and amd64 converts through \<open>int64\<close>.
\<close>

definition trunc_rat :: "rat \<Rightarrow> int" where
  "trunc_rat r = (if r < 0 then - \<lfloor>- r\<rfloor> else \<lfloor>r\<rfloor>)"

definition float_uint32 :: "float64 \<Rightarrow> 32 word" where
  "float_uint32 f = (case f of Fin r \<Rightarrow> if int64_range (trunc_rat r) then word_of_int (trunc_rat r) else 0 | _ \<Rightarrow> 0)"

definition sample_of_line :: "time \<Rightarrow> string \<Rightarrow> sample option" where
  "sample_of_line ts l =
     (let parts = SplitN '', '' 8 l; f = (\<lambda>i. float_value (TrimSpace (parts ! i))); u = (\<lambda>i. word_of_int (uint_value 32 (TrimSpace (parts ! i))))
      in if length parts < 7 then None
         else Some \<lparr>sl_GPUUUID = TrimSpace (parts ! 0), sl_TS = ts, sl_UtilPct = f 1, sl_MemUsedMB = float_uint32 (f 2), sl_PowerW = f 3,
                    sl_TempC = f 4, sl_SMClockMHz = u 5, sl_ECCErrors = u 6, sl_ProcCount = 0\<rparr>)"

definition smi_Sample :: "machine \<Rightarrow> time \<Rightarrow> sample list" where
  "smi_Sample mc now =
     (case mc_out mc [''nvidia-smi'', ''--query-gpu=uuid,utilization.gpu,memory.used,power.draw,temperature.gpu,clocks.sm,ecc.errors.uncorrected.volatile.total,compute-apps'',
                      ''--format=csv,noheader,nounits''] of
        None \<Rightarrow> []
      | Some out \<Rightarrow> List.map_filter (sample_of_line now) (scan_lines out))"

definition clamp :: "rat \<Rightarrow> rat \<Rightarrow> rat \<Rightarrow> rat" where
  "clamp v lo hi = (if v < lo then lo else if v > hi then hi else v)"

text \<open>
  The synthetic sampler: \<open>sine\<close> is \<open>math.Sin\<close>, \<open>rnd\<close> the draws of \<open>rand.Float64\<close>, two per GPU,
  \<open>elapsed\<close> the minutes since the start.
\<close>

definition dev_sample :: "(rat \<Rightarrow> rat) \<Rightarrow> (nat \<Rightarrow> rat) \<Rightarrow> time \<Rightarrow> rat \<Rightarrow> nat \<Rightarrow> string \<Rightarrow> sample" where
  "dev_sample sine rnd ts elapsed i u =
     (let phase = of_nat i * (17 / 10);
          util = clamp (55 + 30 * sine (elapsed / 8 + phase) + (rnd (2 * i) - 1 / 2) * 12) 0 100;
          mem = clamp (40 + 25 * sine (elapsed / 10 + phase) + (rnd (2 * i + 1) - 1 / 2) * 8) 0 100
      in \<lparr>sl_GPUUUID = u, sl_TS = ts, sl_UtilPct = Fin util, sl_MemUsedMB = float_uint32 (Fin (mem / 100 * 24576)), sl_PowerW = Fin (150 + util * 2),
          sl_TempC = Fin (55 + util * (3 / 10)), sl_SMClockMHz = 2520, sl_ECCErrors = 0, sl_ProcCount = word_of_nat (1 + i)\<rparr>)"

definition dev_Sample :: "(rat \<Rightarrow> rat) \<Rightarrow> (nat \<Rightarrow> rat) \<Rightarrow> time \<Rightarrow> rat \<Rightarrow> sample list" where
  "dev_Sample sine rnd ts elapsed =
     map (\<lambda>(i, u). dev_sample sine rnd ts elapsed i u) (enumerate 0 [''GPU-DEV-AGENT-0001'', ''GPU-DEV-AGENT-0002''])"

section \<open>Identity\<close>

record agent_state =
  is_NodeID :: string
  is_Credential :: string
  is_PublicKey :: string
  is_Fingerprint :: string
  is_EnrollTokenHash :: string

text \<open>\<open>sha\<close> is SHA-256 in hexadecimal.\<close>

definition HashToken :: "(string \<Rightarrow> string) \<Rightarrow> string \<Rightarrow> string" where
  "HashToken sha token = (if token = '''' then '''' else sha token)"

definition state_json :: "agent_state \<Rightarrow> json" where
  "state_json s = JObj ([(''node_id'', JStr (is_NodeID s)), (''credential'', JStr (is_Credential s)), (''public_key'', JStr (is_PublicKey s)),
     (''fingerprint'', JStr (is_Fingerprint s))] @ jwhen (is_EnrollTokenHash s \<noteq> '''') ''enroll_token_hash'' (JStr (is_EnrollTokenHash s)))"

definition state_of_json :: "json \<Rightarrow> agent_state" where
  "state_of_json j = \<lparr>is_NodeID = str_field ''node_id'' (Some j), is_Credential = str_field ''credential'' (Some j),
     is_PublicKey = str_field ''public_key'' (Some j), is_Fingerprint = str_field ''fingerprint'' (Some j),
     is_EnrollTokenHash = str_field ''enroll_token_hash'' (Some j)\<rparr>"

text \<open>The state file: absent, not readable, not a document, or a document.\<close>

datatype state_file = Absent | Unreadable string | Corrupt string | Document json

definition state_fields :: "(string \<times> ftype) list" where
  "state_fields = [(''node_id'', TString), (''credential'', TString), (''public_key'', TString), (''fingerprint'', TString), (''enroll_token_hash'', TString)]"

definition identity_Load :: "state_file \<Rightarrow> string + agent_state option" where
  "identity_Load f = (case f of
       Absent \<Rightarrow> Inr None
     | Unreadable e \<Rightarrow> Inl e
     | Corrupt e \<Rightarrow> Inl e
     | Document j \<Rightarrow> if decode_ok state_fields (Some j) then Inr (Some (state_of_json j)) else Inl ''json: cannot unmarshal'')"

text \<open>\<open>err\<close> is an error of creating the directory or writing the file.\<close>

definition identity_Save :: "string option \<Rightarrow> agent_state \<Rightarrow> state_file \<Rightarrow> string option \<times> state_file" where
  "identity_Save err s f = (case err of Some e \<Rightarrow> (Some e, f) | None \<Rightarrow> (None, Document (state_json s)))"

definition machineID :: "machine \<Rightarrow> string" where
  "machineID mc = (case filter (\<lambda>i. i \<noteq> '''') (map TrimSpace (List.map_filter (mc_file mc) [''/etc/machine-id'', ''/var/lib/dbus/machine-id''])) of
       [] \<Rightarrow> mc_hostname mc | i # _ \<Rightarrow> i)"

definition Fingerprint :: "(string \<Rightarrow> string) \<Rightarrow> machine \<Rightarrow> string" where
  "Fingerprint sha mc = sha (machineID mc @ ''/'' @ mc_hostname mc)"

section \<open>Properties\<close>

text \<open>What the agent saved it loads again.\<close>

lemma fold_state_names:
  "fold_name ''node_id'' = ''node_id''" "fold_name ''credential'' = ''credential''" "fold_name ''public_key'' = ''public_key''"
  "fold_name ''fingerprint'' = ''fingerprint''" "fold_name ''enroll_token_hash'' = ''enroll_token_hash''"
  by code_simp+

lemma members_Cons: "members k (JObj ((n, v) # ms)) = (if fold_name n = fold_name k then [v] else []) @ members k (JObj ms)"
  and members_Nil: "members k (JObj []) = []"
  by (simp_all add: members_def)

lemma Load_Save: "identity_Save None s f = (None, f') \<Longrightarrow> identity_Load f' = Inr (Some s)"
  by (auto simp: identity_Save_def identity_Load_def state_of_json_def state_json_def str_field_def Json.fields_def members_Cons members_Nil
      plain_fold_def jwhen_def decode_ok_def state_fields_def fold_state_names simp del: fold_name.simps)

text \<open>
  A line that \<open>nvidia-smi\<close> prints for a GPU is read back, for names without a comma and without
  white space at their ends.
\<close>

lemma has_prefix_sep: "CHR '','' \<notin> set a \<Longrightarrow> \<not> has_prefix '', '' (a @ s) \<or> a = []"
  by (cases a) (auto simp: has_prefix_def)

lemma Cut_sep: "CHR '','' \<notin> set a \<Longrightarrow> Cut '', '' (a @ '', '' @ b) = Some (a, b)"
  by (induction a) (auto simp: has_prefix_def)

definition gpu_line :: "discovered_gpu \<Rightarrow> string" where
  "gpu_line g = Join [Itoa (dg_Index g), dg_UUID g, dg_Model g, Itoa (dg_MemoryMB g), (if dg_MIGEnabled g then ''Enabled'' else ''Disabled'')] '', ''"

definition plain_text :: "string \<Rightarrow> bool" where
  "plain_text s \<longleftrightarrow> CHR '','' \<notin> set s \<and> TrimSpace s = s"

lemma SplitN_five:
  assumes "CHR '','' \<notin> set a" "CHR '','' \<notin> set b" "CHR '','' \<notin> set c" "CHR '','' \<notin> set d"
  shows "SplitN '', '' 5 (Join [a, b, c, d, e] '', '') = [a, b, c, d, e]"
proof -
  have 5: "(5::nat) = Suc (Suc (Suc (Suc (Suc 0))))" by simp
  have c: "Cut '', '' (x @ CHR '','' # CHR '' '' # y) = Some (x, y)" if "CHR '','' \<notin> set x" for x y
    using Cut_sep [OF that, of y] by simp
  show ?thesis unfolding 5 using assms by (simp add: c)
qed

lemma digit_char_in: "0 \<le> n \<Longrightarrow> n < 10 \<Longrightarrow> digit_char n \<in> set ''0123456789''"
  unfolding digit_char_def by (rule nth_mem) simp

lemma dec_str_digits: "0 \<le> n \<Longrightarrow> set (dec_str n) \<subseteq> set ''0123456789''"
proof (induction n rule: dec_str.induct)
  case (1 n)
  show ?case
  proof (cases "n < 10")
    case True
    then have "set (dec_str n) = {digit_char n}" by (subst dec_str.simps) simp
    moreover have "digit_char n \<in> set ''0123456789''" using digit_char_in [of n] "1.prems" True by blast
    ultimately show ?thesis by (simp only: insert_subset empty_subsetI simp_thms)
  next
    case False
    then have "set (dec_str n) = insert (digit_char (n mod 10)) (set (dec_str (n div 10)))" by (subst dec_str.simps) simp
    moreover have "set (dec_str (n div 10)) \<subseteq> set ''0123456789''" using 1 False by simp
    moreover have "digit_char (n mod 10) \<in> set ''0123456789''" by (rule digit_char_in) simp_all
    ultimately show ?thesis by (simp only: insert_subset simp_thms)
  qed
qed

lemma strip_none: "\<forall>p \<in> set ps. p = [] \<or> \<not> has_prefix p s \<Longrightarrow> strip ps s = s"
  by (subst strip.simps) (auto split: option.split dest: find_SomeD)

lemma TrimSpace_digits:
  assumes "set s \<subseteq> set ''0123456789''"
  shows "TrimSpace s = s"
proof -
  have "\<forall>p \<in> set space_seqs. p \<noteq> [] \<and> hd p \<notin> set ''0123456789'' \<and> last p \<notin> set ''0123456789''" by code_simp
  then have a: "\<forall>p \<in> set space_seqs. p \<noteq> [] \<and> hd p \<notin> set s \<and> last p \<notin> set s" using assms by blast
  have "\<not> has_prefix p t" if "p \<noteq> []" "hd p \<notin> set t" for p t :: string
    using that by (cases p; cases t) (auto simp: has_prefix_def)
  then have "strip space_seqs s = s" and "strip (map rev space_seqs) (rev s) = rev s"
    using a by (auto intro!: strip_none simp: hd_rev)
  then show ?thesis by (simp add: TrimSpace_def)
qed

lemma atoi_value_dec: "0 \<le> n \<Longrightarrow> n < 2 ^ 63 \<Longrightarrow> atoi_value (dec_str n) = n"
proof -
  assume n: "0 \<le> n" "n < 2 ^ 63"
  obtain c s where cs: "dec_str n = c # s" by (cases "dec_str n") auto
  have "c \<noteq> CHR ''-'' \<and> c \<noteq> CHR ''+''" using dec_str_first [OF n(1) cs] .
  then show ?thesis using uint_value_dec [of n 64] n cs by (simp add: atoi_value_def Let_def)
qed

lemma gpu_line_read:
  assumes "plain_text (dg_UUID g)" and "plain_text (dg_Model g)" and "0 \<le> dg_Index g" and "dg_Index g < 2 ^ 63"
    and "0 \<le> dg_MemoryMB g" and "dg_MemoryMB g < 2 ^ 64"
  shows "gpu_of_line (gpu_line g) = Some g"
proof -
  have comma: "CHR '','' \<notin> set (dec_str n)" if "0 \<le> n" for n using dec_str_digits [OF that] by auto
  have it: "Itoa (dg_Index g) = dec_str (dg_Index g)" "Itoa (dg_MemoryMB g) = dec_str (dg_MemoryMB g)"
    using assms(3,5) by (simp_all add: Itoa_def)
  have sp: "SplitN '', '' 5 (gpu_line g) = [Itoa (dg_Index g), dg_UUID g, dg_Model g, Itoa (dg_MemoryMB g), (if dg_MIGEnabled g then ''Enabled'' else ''Disabled'')]"
    unfolding gpu_line_def it using assms comma by (intro SplitN_five) (auto simp: plain_text_def)
  have t: "TrimSpace (dec_str n) = dec_str n" if "0 \<le> n" for n using dec_str_digits [OF that] by (rule TrimSpace_digits)
  have m: "lower (TrimSpace ''Enabled'') = ''enabled''" "lower (TrimSpace ''Disabled'') \<noteq> ''enabled''" by code_simp+
  have "atoi_value (dec_str (dg_Index g)) = dg_Index g" using assms(3,4) by (rule atoi_value_dec)
  moreover have "uint_value 64 (dec_str (dg_MemoryMB g)) = dg_MemoryMB g" using assms(5,6) by (rule uint_value_dec)
  moreover have "TrimSpace (dg_UUID g) = dg_UUID g" "TrimSpace (dg_Model g) = dg_Model g" using assms(1,2) by (simp_all add: plain_text_def)
  ultimately show ?thesis
    using m assms(3,5) by (cases "dg_MIGEnabled g") (simp_all only: gpu_of_line_def sp it t list.case if_True if_False, simp_all)
qed

text \<open>The synthetic telemetry stays in its range whatever the draws.\<close>

lemma clamp_range: "lo \<le> hi \<Longrightarrow> lo \<le> clamp v lo hi \<and> clamp v lo hi \<le> hi"
  by (simp add: clamp_def)

lemma trunc_rat_mono: "0 \<le> r \<Longrightarrow> r \<le> of_int n \<Longrightarrow> 0 \<le> trunc_rat r \<and> trunc_rat r \<le> n"
  by (auto simp: trunc_rat_def floor_le_iff le_floor_iff)

lemma dev_sample_range:
  "\<exists>u. sl_UtilPct (dev_sample sine rnd ts t i g) = Fin u \<and> 0 \<le> u \<and> u \<le> 100"
  "uint (sl_MemUsedMB (dev_sample sine rnd ts t i g)) \<le> 24576"
proof -
  show "\<exists>u. sl_UtilPct (dev_sample sine rnd ts t i g) = Fin u \<and> 0 \<le> u \<and> u \<le> 100"
    using clamp_range [of 0 100] by (simp add: dev_sample_def Let_def)
  define v where "v = 40 + 25 * sine (t / 10 + of_nat i * (17 / 10)) + (rnd (2 * i + 1) - 1 / 2) * 8"
  define m where "m = clamp v 0 100 / 100 * 24576"
  have "0 \<le> m \<and> m \<le> of_int 24576" using clamp_range [of 0 100 v] by (simp add: m_def)
  then have r: "0 \<le> trunc_rat m \<and> trunc_rat m \<le> 24576" by (intro trunc_rat_mono) auto
  have "sl_MemUsedMB (dev_sample sine rnd ts t i g) = float_uint32 (Fin m)"
    unfolding dev_sample_def Let_def v_def m_def by (simp only: sample.simps)
  then have "sl_MemUsedMB (dev_sample sine rnd ts t i g) = word_of_int (trunc_rat m)"
    using r by (simp add: float_uint32_def int64_range_def)
  moreover have "uint (word_of_int (trunc_rat m) :: 32 word) = trunc_rat m" using r by (simp add: uint_word_of_int)
  ultimately show "uint (sl_MemUsedMB (dev_sample sine rnd ts t i g)) \<le> 24576" using r by simp
qed

end
