(* ===== verification/Agent.thy ===== *)
theory Agent
  imports Startup Probe
begin

text \<open>
  The agent runtime (\<open>agent/client/client.go\<close>, \<open>cmd/agent/main.go\<close>): deduplication of commands that
  are delivered at least once, execution of commands, reports to the control plane, enrolment and
  reconnection. Goroutines are interleaved in \<open>agent_step\<close>. What the agent sends is listed in the
  order in which it hands messages to the stream; the time stamps of messages are left out.
\<close>

section \<open>The command tracker\<close>

record cmd_result =
  cr_CommandId :: string
  cr_Ok :: bool
  cr_Error :: string

record cmdTracker =
  ct_inflight :: "string list"
  ct_done :: "(string \<times> cmd_result) list"
  ct_order :: "string list"

definition cmdDoneCacheSize :: nat where "cmdDoneCacheSize = 256"

definition empty_tracker :: cmdTracker where
  "empty_tracker = \<lparr>ct_inflight = [], ct_done = [], ct_order = []\<rparr>"

definition ct_begin :: "string \<Rightarrow> cmdTracker \<Rightarrow> (bool \<times> cmd_result option) \<times> cmdTracker" where
  "ct_begin cid t =
     (case map_of (ct_done t) cid of
        Some res \<Rightarrow> ((False, Some res), t)
      | None \<Rightarrow> if cid \<in> set (ct_inflight t) then ((False, None), t)
                else ((True, None), t\<lparr>ct_inflight := cid # ct_inflight t\<rparr>))"

function trim_done :: "(string \<times> cmd_result) list \<Rightarrow> string list \<Rightarrow> (string \<times> cmd_result) list \<times> string list" where
  "trim_done dn order =
     (if cmdDoneCacheSize < length order then trim_done (AList.delete (hd order) dn) (tl order) else (dn, order))"
  by pat_completeness auto
termination by (relation "measure (\<lambda>(dn, order). length order)") auto

declare trim_done.simps [simp del]

definition ct_finish :: "string \<Rightarrow> cmd_result \<Rightarrow> cmdTracker \<Rightarrow> cmdTracker" where
  "ct_finish cid res t =
     (let (dn, order) = trim_done (AList.update cid res (ct_done t)) (ct_order t @ [cid])
      in \<lparr>ct_inflight = removeAll cid (ct_inflight t), ct_done = dn, ct_order = order\<rparr>)"

section \<open>Messages\<close>

record launch_wire =
  lw_WorkloadId :: string
  lw_Image :: string
  lw_GpuUuids :: "string list"
  lw_IdleTimeoutSec :: "32 word"
  lw_Env :: "(string \<times> string) list"
  lw_ExposeSsh :: bool
  lw_ExposeJupyter :: bool

text \<open>The payloads of \<open>agent.v1.ServerMessage\<close>; \<open>DoOther\<close> is one without a case in the switch.\<close>

datatype agent_cmd = DoLaunch launch_wire | DoStop string proto_stop_reason | DoGetInventory | DoOther

record status_msg =
  sg_WorkloadId :: string
  sg_State :: proto_workload_state
  sg_SshEndpoint :: string
  sg_JupyterEndpoint :: string
  sg_StopReason :: proto_stop_reason
  sg_Message :: string

datatype agent_out =
    OutHeartbeat string
  | OutInventory NodeInfo "gpu_report list"
  | OutMetrics "sample list"
  | OutStatus status_msg
  | OutResult cmd_result

definition agent_Version :: string where "agent_Version = ''0.1.0''"

definition wire32 :: "int \<Rightarrow> int" where
  "wire32 n = uint (word_of_int n :: 32 word)"

text \<open>\<open>sendInventory\<close>: what was discovered; the host name and the operating system are read again.\<close>

definition inventory_msg :: "machine \<Rightarrow> discovered_node \<times> discovered_gpu list \<Rightarrow> NodeInfo \<times> gpu_report list" where
  "inventory_msg mc disc = (case disc of (node, gs) \<Rightarrow>
     (\<lparr>ni_Hostname = mc_hostname mc, ni_OS = mc_GOOS mc, ni_Kernel = dn_Kernel node, ni_CPUModel = dn_CPUModel node,
         ni_CPUCores = wire32 (dn_CPUCores node), ni_RAMMB = dn_RAMMB node, ni_NvidiaDriver = dn_NvidiaDriver node,
         ni_CUDAVersion = dn_CUDAVersion node, ni_AgentVersion = agent_Version\<rparr>,
       map (\<lambda>g. \<lparr>gr_Index = wire32 (dg_Index g), gr_UUID = dg_UUID g, gr_Model = dg_Model g, gr_MemoryMB = dg_MemoryMB g,
                  gr_MIGEnabled = dg_MIGEnabled g\<rparr>) gs))"

text \<open>One tick of the metrics loop.\<close>

definition metrics_tick :: "sample list \<Rightarrow> agent_out list" where
  "metrics_tick ss = (if ss = [] then [] else [OutMetrics ss])"

definition metrics_interval :: "AgentConfig \<Rightarrow> nanos" where
  "metrics_interval cfg = (if ag_DevMode cfg then 5 * ns_second else 30 * ns_second)"

definition pack_logs :: "string \<Rightarrow> string \<Rightarrow> string" where
  "pack_logs msg logs = (if logs = '''' then msg else msg @ log_sep @ logs)"

definition status_msg_of :: "string \<Rightarrow> proto_workload_state \<Rightarrow> string \<Rightarrow> string \<Rightarrow> string \<Rightarrow> status_msg" where
  "status_msg_of wid state ssh jup msg = \<lparr>sg_WorkloadId = wid, sg_State = state, sg_SshEndpoint = ssh, sg_JupyterEndpoint = jup,
     sg_StopReason = STOP_REASON_UNSPECIFIED, sg_Message = msg\<rparr>"

definition reconcileWorkloads :: "'x Executor \<Rightarrow> 'x \<Rightarrow> agent_out list \<times> 'x" where
  "reconcileWorkloads ex x =
     (case ex_List ex x of
        (Inl e, x1) \<Rightarrow> ([], x1)
      | (Inr sts, x1) \<Rightarrow>
          (map (\<lambda>st. OutStatus (status_msg_of (st_WorkloadID st)
                (if st_State st \<noteq> ''running'' then WORKLOAD_STATE_STOPPED else WORKLOAD_STATE_RUNNING)
                (st_SSHEndpoint st) (st_JupyterEndpoint st) (pack_logs (st_Message st) (st_Logs st)))) sts, x1))"

section \<open>Executing a command\<close>

definition spec_of_wire :: "launch_wire \<Rightarrow> LaunchSpec" where
  "spec_of_wire w = \<lparr>ls_WorkloadID = lw_WorkloadId w, ls_Image = lw_Image w, ls_GPUUUIDs = lw_GpuUuids w,
     ls_IdleTimeoutSec = uint (lw_IdleTimeoutSec w), ls_Env = lw_Env w, ls_ExposeSSH = lw_ExposeSsh w, ls_ExposeJupyter = lw_ExposeJupyter w,
     ls_SSHPassword = env_get (lw_Env w) ''SSH_PASSWORD''\<rparr>"

text \<open>
  The switch of \<open>handleCommand\<close>: the messages sent and the result to report, none for a payload
  without a case. \<open>found\<close> is the inventory, if the discovery succeeds.
\<close>

definition run_command :: "'x Executor \<Rightarrow> (NodeInfo \<times> gpu_report list) option \<Rightarrow> agent_cmd \<Rightarrow> 'x \<Rightarrow> (agent_out list \<times> (bool \<times> string) option) \<times> 'x" where
  "run_command ex found cmd x =
     (case cmd of
        DoLaunch w \<Rightarrow>
          (let ((st, err, stages), x1) = ex_Launch ex (spec_of_wire w) x;
               wid = lw_WorkloadId w;
               msg = (case err of None \<Rightarrow> '''' | Some e \<Rightarrow> pack_logs e (st_Message st))
           in ((map (\<lambda>g. OutStatus (status_msg_of wid WORKLOAD_STATE_PENDING '''' '''' (''STAGE:'' @ g))) stages @
                [OutStatus (status_msg_of wid (if err = None then WORKLOAD_STATE_RUNNING else WORKLOAD_STATE_FAILED)
                   (st_SSHEndpoint st) (st_JupyterEndpoint st) msg)],
                Some (err = None, msg)), x1))
      | DoStop wid reason \<Rightarrow>
          (let (logs, x1) = ex_Logs ex wid 100 x; (err, x2) = ex_Stop ex wid x1;
               errStr = (case err of None \<Rightarrow> '''' | Some e \<Rightarrow> e)
           in (([OutStatus ((status_msg_of wid WORKLOAD_STATE_STOPPED '''' '''' (pack_logs errStr logs))\<lparr>sg_StopReason := reason\<rparr>)],
                Some (err = None, errStr)), x2))
      | DoGetInventory \<Rightarrow> (((case found of None \<Rightarrow> [] | Some (info, gs) \<Rightarrow> [OutInventory info gs]), Some (True, '''')), x)
      | DoOther \<Rightarrow> (([], None), x))"

text \<open>
  The state of the agent: the tracker, the host, the messages sent, the commands whose goroutines
  run, and, for the statements below, the ids of the commands that finished, in order.
\<close>

record 'x agent =
  an_cmds :: cmdTracker
  an_host :: 'x
  an_sent :: "agent_out list"
  an_running :: "(string \<times> agent_cmd) list"
  an_log :: "string list"

definition new_agent :: "'x \<Rightarrow> 'x agent" where
  "new_agent x = \<lparr>an_cmds = empty_tracker, an_host = x, an_sent = [], an_running = [], an_log = []\<rparr>"

text \<open>The first part of \<open>handleCommand\<close>, under the lock of the tracker.\<close>

definition receive :: "string \<Rightarrow> agent_cmd \<Rightarrow> 'x agent \<Rightarrow> 'x agent" where
  "receive cid cmd a =
     (if cid = '''' then a\<lparr>an_running := an_running a @ [(cid, cmd)]\<rparr>
      else case ct_begin cid (an_cmds a) of
             ((_, Some res), t) \<Rightarrow> a\<lparr>an_cmds := t, an_sent := an_sent a @ [OutResult res]\<rparr>
           | ((True, None), t) \<Rightarrow> a\<lparr>an_cmds := t, an_running := an_running a @ [(cid, cmd)]\<rparr>
           | ((False, None), t) \<Rightarrow> a\<lparr>an_cmds := t\<rparr>)"

definition sendResult :: "string \<Rightarrow> bool \<times> string \<Rightarrow> 'x agent \<Rightarrow> 'x agent" where
  "sendResult cid r a =
     (let res = \<lparr>cr_CommandId = cid, cr_Ok = fst r, cr_Error = snd r\<rparr>;
          a1 = (if cid \<noteq> '''' then a\<lparr>an_cmds := ct_finish cid res (an_cmds a), an_log := an_log a @ [cid]\<rparr> else a)
      in a1\<lparr>an_sent := an_sent a1 @ [OutResult res]\<rparr>)"

text \<open>The second part: the execution, and its result if there is one.\<close>

definition complete :: "'x Executor \<Rightarrow> (NodeInfo \<times> gpu_report list) option \<Rightarrow> string \<times> agent_cmd \<Rightarrow> 'x agent \<Rightarrow> 'x agent" where
  "complete ex found rc a =
     (let ((msgs, res), x1) = run_command ex found (snd rc) (an_host a);
          a1 = a\<lparr>an_host := x1, an_sent := an_sent a @ msgs, an_running := remove1 rc (an_running a)\<rparr>
      in case res of None \<Rightarrow> a1 | Some r \<Rightarrow> sendResult (fst rc) r a1)"

definition handleCommand :: "'x Executor \<Rightarrow> (NodeInfo \<times> gpu_report list) option \<Rightarrow> string \<Rightarrow> agent_cmd \<Rightarrow> 'x agent \<Rightarrow> 'x agent" where
  "handleCommand ex found cid cmd a =
     (let a1 = receive cid cmd a
      in if length (an_running a1) = length (an_running a) then a1 else complete ex found (cid, cmd) a1)"

text \<open>
  The goroutines of the stream: a message received, a running command that ends, and any message
  of the other loops or change of the host in between.
\<close>

inductive agent_step :: "'x Executor \<Rightarrow> 'x agent \<Rightarrow> 'x agent \<Rightarrow> bool" for ex where
  recv: "agent_step ex a (receive cid cmd a)"
| ended: "rc \<in> set (an_running a) \<Longrightarrow> agent_step ex a (complete ex found rc a)"
| beside: "(\<forall>r. OutResult r \<notin> set ms) \<Longrightarrow> agent_step ex a (a\<lparr>an_host := x, an_sent := an_sent a @ ms\<rparr>)"

section \<open>Enrolment, connection and start\<close>

definition tokenChanged :: "(string \<Rightarrow> string) \<Rightarrow> AgentConfig \<Rightarrow> agent_state \<Rightarrow> bool" where
  "tokenChanged sha cfg s \<longleftrightarrow> ag_EnrollmentToken cfg \<noteq> '''' \<and> HashToken sha (ag_EnrollmentToken cfg) \<noteq> is_EnrollTokenHash s"

definition needs_enroll :: "(string \<Rightarrow> string) \<Rightarrow> AgentConfig \<Rightarrow> agent_state \<Rightarrow> bool" where
  "needs_enroll sha cfg s \<longleftrightarrow> is_Credential s = '''' \<or> tokenChanged sha cfg s"

text \<open>\<open>resp\<close> is the answer of the control plane: the node id and the credential, or an error.\<close>

definition agent_enroll :: "(string \<Rightarrow> string) \<Rightarrow> AgentConfig \<Rightarrow> string + string \<times> string \<Rightarrow> string option \<Rightarrow> agent_state \<Rightarrow> state_file \<Rightarrow>
    string option \<times> agent_state \<times> state_file" where
  "agent_enroll sha cfg resp werr s f =
     (case resp of
        Inl e \<Rightarrow> (Some e, s, f)
      | Inr (nodeID, cred) \<Rightarrow>
          (let s1 = s\<lparr>is_NodeID := nodeID, is_Credential := cred, is_EnrollTokenHash := HashToken sha (ag_EnrollmentToken cfg)\<rparr>
           in case identity_Save werr s1 f of
                (Some e, f1) \<Rightarrow> (Some (''persist credential: '' @ e), s1, f1)
              | (None, f1) \<Rightarrow> (None, s1, f1)))"

datatype dial_creds = DialPlain | DialPinned string | DialSystem

text \<open>\<open>readFile\<close> reads the pinned certificate, \<open>pemOK\<close> says whether it holds one.\<close>

definition dial :: "(string \<Rightarrow> string + string) \<Rightarrow> (string \<Rightarrow> bool) \<Rightarrow> AgentConfig \<Rightarrow> string + dial_creds" where
  "dial readFile pemOK cfg =
     (if ag_Insecure cfg then Inr DialPlain
      else if ag_CACertFile cfg \<noteq> '''' then
        (case readFile (ag_CACertFile cfg) of
           Inl e \<Rightarrow> Inl (''read CA cert '' @ ag_CACertFile cfg @ '': '' @ e)
         | Inr pem \<Rightarrow> if pemOK pem then Inr (DialPinned pem) else Inl ''invalid CA cert'')
      else Inr DialSystem)"

text \<open>The loop of \<open>Run\<close>: how each stream ended, and the pauses before the next one.\<close>

datatype stream_end = Closed | Broken

fun reconnects :: "nanos \<Rightarrow> stream_end list \<Rightarrow> nanos list" where
  "reconnects backoff [] = []"
| "reconnects backoff (Closed # es) = []"
| "reconnects backoff (Broken # es) = backoff # reconnects (if backoff < 60 * ns_second then backoff * 2 else backoff) es"

datatype chosen_executor = UseDocker DockerExecutor | UseSimulated DevExecutor

text \<open>\<open>New\<close>: the state and the executor. \<open>dockerUp\<close> is \<open>dockerAvailable\<close>, \<open>key\<close> the random public key.\<close>

definition choose_executor :: "'d host \<Rightarrow> bool \<Rightarrow> AgentConfig \<Rightarrow> chosen_executor" where
  "choose_executor h dockerUp cfg =
     (if ag_DevMode cfg then
        (if dockerUp then UseDocker (NewWithOptions h \<lparr>op_GPUPassthrough = False, op_AdvertiseHost = ag_AdvertiseHost cfg\<rparr>)
         else UseSimulated NewDev)
      else UseDocker (NewWithOptions h \<lparr>op_GPUPassthrough = ag_GPUPassthrough cfg, op_AdvertiseHost = ag_AdvertiseHost cfg\<rparr>))"

definition agent_New :: "(string \<Rightarrow> string) \<Rightarrow> machine \<Rightarrow> string \<Rightarrow> state_file \<Rightarrow> string + agent_state" where
  "agent_New sha mc key f =
     (case identity_Load f of
        Inl e \<Rightarrow> Inl (''load agent state: '' @ e)
      | Inr (Some s) \<Rightarrow> Inr s
      | Inr None \<Rightarrow> Inr \<lparr>is_NodeID = '''', is_Credential = '''', is_PublicKey = key, is_Fingerprint = Fingerprint sha mc, is_EnrollTokenHash = ''''\<rparr>)"

text \<open>The flags of the command line that were given.\<close>

record flags =
  fl_server :: "string option"
  fl_token :: "string option"
  fl_insecure :: "bool option"
  fl_ca :: "string option"
  fl_dev :: "bool option"

definition flag :: "'a option \<Rightarrow> 'a \<Rightarrow> 'a" where
  "flag v d = (case v of None \<Rightarrow> d | Some x \<Rightarrow> x)"

definition agent_main :: "flags \<Rightarrow> AgentConfig \<Rightarrow> AgentConfig" where
  "agent_main fl c0 =
     (let ca = flag (fl_ca fl) (ag_CACertFile c0); dev = flag (fl_dev fl) (ag_DevMode c0);
          c1 = c0\<lparr>ag_ServerAddr := flag (fl_server fl) (ag_ServerAddr c0), ag_EnrollmentToken := flag (fl_token fl) (ag_EnrollmentToken c0),
                  ag_Insecure := (ca = '''' \<and> flag (fl_insecure fl) (ag_Insecure c0)), ag_CACertFile := ca, ag_DevMode := dev\<rparr>
      in if dev then c1\<lparr>ag_GPUPassthrough := False,
             ag_AdvertiseHost := (if ag_AdvertiseHost c1 = '''' then ''localhost'' else ag_AdvertiseHost c1)\<rparr>
         else c1)"


section \<open>At most one execution within the window of the cache\<close>

lemma trim_done_keeps:
  assumes "distinct order" and "set order = dom (map_of dn)"
  shows "snd (trim_done dn order) = drop (length order - cmdDoneCacheSize) order \<and>
    set (snd (trim_done dn order)) = dom (map_of (fst (trim_done dn order))) \<and>
    (\<forall>k \<in> set (snd (trim_done dn order)). map_of (fst (trim_done dn order)) k = map_of dn k)"
  using assms
proof (induction dn order rule: trim_done.induct)
  case (1 dn order)
  show ?case
  proof (cases "cmdDoneCacheSize < length order")
    case True
    then obtain x xs where o: "order = x # xs" by (cases order) auto
    have d: "distinct xs" "set xs = dom (map_of (AList.delete x dn))" "x \<notin> set xs"
      using "1.prems" by (auto simp: o delete_conv')
    have rec: "trim_done dn order = trim_done (AList.delete x dn) xs" using True by (subst trim_done.simps) (simp add: o)
    note IH = "1.IH" [OF True, simplified o list.sel, OF d(1,2)]
    have "length order - cmdDoneCacheSize = Suc (length xs - cmdDoneCacheSize)" using True by (simp add: o Suc_diff_le)
    then have "drop (length order - cmdDoneCacheSize) order = drop (length xs - cmdDoneCacheSize) xs" by (simp only: o drop_Suc_Cons)
    moreover have "map_of (AList.delete x dn) k = map_of dn k" if "k \<in> set (drop n xs)" for k n
      using that d(3) in_set_dropD [OF that] by (auto simp: delete_conv')
    moreover have "\<forall>k \<in> dom (map_of (fst (trim_done (AList.delete x dn) xs))). map_of (AList.delete x dn) k = map_of dn k"
      using calculation(2) IH by (metis (no_types, lifting))
    ultimately show ?thesis unfolding rec using IH by (elim conjE) simp
  next
    case False
    then have "trim_done dn order = (dn, order)" by (subst trim_done.simps) simp
    then show ?thesis using "1.prems" False by simp
  qed
qed

text \<open>
  The invariant of the tracker, with the list of finished commands: the cache holds the last 256 of
  them, each once, and nothing that is in flight.
\<close>

definition tracker_inv :: "string list \<Rightarrow> cmdTracker \<Rightarrow> bool" where
  "tracker_inv past t \<longleftrightarrow> ct_order t = drop (length past - cmdDoneCacheSize) past \<and> distinct (ct_order t) \<and>
     set (ct_order t) = dom (map_of (ct_done t)) \<and> set (ct_inflight t) \<inter> set (ct_order t) = {}"

lemma tracker_inv_empty: "tracker_inv [] empty_tracker"
  by (simp add: tracker_inv_def empty_tracker_def)

lemma ct_begin_inv: "tracker_inv past t \<Longrightarrow> tracker_inv past (snd (ct_begin cid t))"
  by (auto simp: tracker_inv_def ct_begin_def split: option.split)

lemma ct_finish_inv:
  assumes inv: "tracker_inv past t" and fl: "cid \<in> set (ct_inflight t)"
  shows "tracker_inv (past @ [cid]) (ct_finish cid res t)"
    and "map_of (ct_done (ct_finish cid res t)) cid = Some res"
    and "map_of (ct_done (ct_finish cid res t)) k = Some r \<Longrightarrow> k \<noteq> cid \<Longrightarrow> map_of (ct_done t) k = Some r"
proof -
  let ?dn = "AList.update cid res (ct_done t)" and ?or = "ct_order t @ [cid]"
  have new: "cid \<notin> set (ct_order t)" using inv fl by (auto simp: tracker_inv_def)
  have d: "distinct ?or" and s: "set ?or = dom (map_of ?dn)" using inv new by (auto simp: tracker_inv_def update_conv')
  note T = conjunct1 [OF trim_done_keeps [OF d s]] conjunct1 [OF conjunct2 [OF trim_done_keeps [OF d s]]]
    bspec [OF conjunct2 [OF conjunct2 [OF trim_done_keeps [OF d s]]]]
  have fin: "ct_order (ct_finish cid res t) = snd (trim_done ?dn ?or)" "ct_done (ct_finish cid res t) = fst (trim_done ?dn ?or)"
    "ct_inflight (ct_finish cid res t) = removeAll cid (ct_inflight t)"
    by (simp_all add: ct_finish_def case_prod_beta)
  have "drop (length ?or - cmdDoneCacheSize) ?or = drop (length (past @ [cid]) - cmdDoneCacheSize) (past @ [cid])"
  proof -
    have o: "ct_order t = drop (length past - 256) past" using inv by (simp add: tracker_inv_def cmdDoneCacheSize_def)
    show ?thesis by (cases "length past \<le> 255") (simp_all add: o cmdDoneCacheSize_def Suc_diff_le [symmetric])
  qed
  moreover have "set (ct_inflight t) \<inter> set (ct_order t) = {}" using inv unfolding tracker_inv_def by blast
  then have "set (removeAll cid (ct_inflight t)) \<inter> set (drop n ?or) = {}" for n by (auto dest: in_set_dropD)
  then have "set (removeAll cid (ct_inflight t)) \<inter> set (snd (trim_done ?dn ?or)) = {}" unfolding T(1) .
  moreover have "distinct (snd (trim_done ?dn ?or))" unfolding T(1) using d by (rule distinct_drop)
  ultimately show "tracker_inv (past @ [cid]) (ct_finish cid res t)"
    unfolding tracker_inv_def fin using T(1,2) by (metis (no_types, lifting))
  have "cid \<in> set (snd (trim_done ?dn ?or))" unfolding T(1) by (simp add: cmdDoneCacheSize_def)
  then show "map_of (ct_done (ct_finish cid res t)) cid = Some res" using T(3) by (simp add: fin update_conv)
  show "map_of (ct_done t) k = Some r" if "map_of (ct_done (ct_finish cid res t)) k = Some r" "k \<noteq> cid"
  proof -
    have "k \<in> set (snd (trim_done ?dn ?or))" using that(1) T(2) by (auto simp: fin)
    then show ?thesis using T(3) that by (simp add: fin update_conv)
  qed
qed

text \<open>An id that is not in the cache was not among the last 256 that finished.\<close>

definition spaced :: "nat \<Rightarrow> string list \<Rightarrow> bool" where
  "spaced n past \<longleftrightarrow> (\<forall>i j. i < j \<longrightarrow> j < length past \<longrightarrow> past ! i = past ! j \<longrightarrow> i + n < j)"

lemma spaced_snoc:
  assumes "spaced n past" and "x \<notin> set (drop (length past - n) past)"
  shows "spaced n (past @ [x])"
  unfolding spaced_def
proof (intro allI impI)
  fix i j assume ij: "i < j" "j < length (past @ [x])" and eq: "(past @ [x]) ! i = (past @ [x]) ! j"
  show "i + n < j"
  proof (cases "j < length past")
    case True
    then show ?thesis using assms(1) ij eq by (auto simp: spaced_def nth_append)
  next
    case False
    then have j: "j = length past" using ij by simp
    then have "past ! i = x" using ij eq by (simp add: nth_append)
    then have "\<not> length past - n \<le> i"
      using assms(2) ij j by (auto simp: in_set_conv_nth dest: spec [where x = "i - (length past - n)"])
    then show ?thesis using j by simp
  qed
qed


text \<open>
  The invariant of the agent: beside the tracker's, no id runs twice at a time, a running command
  is in flight, and every cached result is the one that was sent for its id.
\<close>

definition running_ids :: "(string \<times> agent_cmd) list \<Rightarrow> string list" where
  "running_ids rs = filter (\<lambda>i. i \<noteq> '''') (map fst rs)"

definition agent_inv :: "'x agent \<Rightarrow> bool" where
  "agent_inv a \<longleftrightarrow> tracker_inv (an_log a) (an_cmds a) \<and> spaced cmdDoneCacheSize (an_log a) \<and> distinct (running_ids (an_running a)) \<and>
     set (running_ids (an_running a)) \<subseteq> set (ct_inflight (an_cmds a)) \<and>
     (\<forall>k r. map_of (ct_done (an_cmds a)) k = Some r \<longrightarrow> cr_CommandId r = k \<and> OutResult r \<in> set (an_sent a))"

lemma running_ids_simps [simp]:
  "running_ids [] = []" "running_ids (rc # rs) = (if fst rc = '''' then running_ids rs else fst rc # running_ids rs)"
  "running_ids (rs @ rs') = running_ids rs @ running_ids rs'"
  by (simp_all add: running_ids_def)

lemma running_ids_mem: "rc \<in> set rs \<Longrightarrow> fst rc \<noteq> '''' \<Longrightarrow> fst rc \<in> set (running_ids rs)"
  by (auto simp: running_ids_def)

lemma running_ids_remove1:
  assumes "distinct (running_ids rs)"
  shows "distinct (running_ids (remove1 rc rs))" and "set (running_ids (remove1 rc rs)) \<subseteq> set (running_ids rs)"
    and "rc \<in> set rs \<Longrightarrow> fst rc \<noteq> '''' \<Longrightarrow> fst rc \<notin> set (running_ids (remove1 rc rs))"
  using assms by (induction rs) (auto dest: running_ids_mem split: if_splits)

lemma receive_cases:
  assumes "agent_inv a"
  obtains (anonymous) "cid = ''''" and "receive cid cmd a = a\<lparr>an_running := an_running a @ [(cid, cmd)]\<rparr>"
  | (cached) r where "cid \<noteq> ''''" and "map_of (ct_done (an_cmds a)) cid = Some r" and "receive cid cmd a = a\<lparr>an_sent := an_sent a @ [OutResult r]\<rparr>"
  | (in_flight) "cid \<in> set (ct_inflight (an_cmds a))" and "receive cid cmd a = a"
  | (fresh) "cid \<noteq> ''''" and "cid \<notin> set (ct_inflight (an_cmds a))" and "map_of (ct_done (an_cmds a)) cid = None"
      and "receive cid cmd a = a\<lparr>an_cmds := (an_cmds a)\<lparr>ct_inflight := cid # ct_inflight (an_cmds a)\<rparr>, an_running := an_running a @ [(cid, cmd)]\<rparr>"
proof (cases "cid = ''''")
  case True
  then show thesis by (intro anonymous) (simp_all add: receive_def)
next
  case named: False
  show thesis
  proof (cases "map_of (ct_done (an_cmds a)) cid")
    case None
    then show thesis using named
      by (cases "cid \<in> set (ct_inflight (an_cmds a))") (rule in_flight fresh; simp add: receive_def ct_begin_def)+
  next
    case (Some r)
    then show thesis using named by (intro cached) (simp_all add: receive_def ct_begin_def)
  qed
qed

lemma receive_inv:
  assumes inv: "agent_inv a"
  shows "agent_inv (receive cid cmd a)"
  using inv
proof (cases rule: receive_cases [where cid = cid and cmd = cmd])
  case fresh
  have "tracker_inv (an_log a) (snd (ct_begin cid (an_cmds a)))" using inv by (intro ct_begin_inv) (simp add: agent_inv_def)
  then show ?thesis using inv fresh by (auto simp: agent_inv_def ct_begin_def)
qed (use inv in \<open>auto simp: agent_inv_def\<close>)

lemma complete_inv:
  assumes inv: "agent_inv a" and rc: "rc \<in> set (an_running a)"
  shows "agent_inv (complete ex found rc a)"
proof -
  obtain msgs res x where r: "run_command ex found (snd rc) (an_host a) = ((msgs, res), x)" by (metis prod.exhaust)
  define b where "b = a\<lparr>an_host := x, an_sent := an_sent a @ msgs, an_running := remove1 rc (an_running a)\<rparr>"
  have d: "distinct (running_ids (an_running a))" using inv by (simp add: agent_inv_def)
  have b: "agent_inv b"
    using inv running_ids_remove1 [OF d, of rc] by (auto simp: agent_inv_def b_def)
  have eq: "complete ex found rc a = (case res of None \<Rightarrow> b | Some q \<Rightarrow> sendResult (fst rc) q b)"
    by (cases res) (simp_all add: complete_def r b_def Let_def)
  show ?thesis
  proof (cases "res = None \<or> fst rc = ''''")
    case True
    then show ?thesis using b by (auto simp: eq sendResult_def agent_inv_def split: option.split)
  next
    case False
    then obtain q where q: "res = Some q" and i: "fst rc \<noteq> ''''" by auto
    let ?res = "\<lparr>cr_CommandId = fst rc, cr_Ok = fst q, cr_Error = snd q\<rparr>"
    have fl: "fst rc \<in> set (ct_inflight (an_cmds b))" using inv running_ids_mem [OF rc i] by (auto simp: agent_inv_def b_def)
    have t: "tracker_inv (an_log b) (an_cmds b)" using b by (simp add: agent_inv_def)
    note F = ct_finish_inv [OF t fl]
    have "fst rc \<notin> set (drop (length (an_log b) - cmdDoneCacheSize) (an_log b))" using t fl by (auto simp: tracker_inv_def)
    then have sp: "spaced cmdDoneCacheSize (an_log b @ [fst rc])" using b by (auto simp: agent_inv_def intro: spaced_snoc)
    have out: "fst rc \<notin> set (running_ids (an_running b))" using running_ids_remove1(3) [OF d rc i] by (simp add: b_def)
    have inf: "ct_inflight (ct_finish (fst rc) ?res (an_cmds b)) = removeAll (fst rc) (ct_inflight (an_cmds b))"
      by (simp add: ct_finish_def case_prod_beta)
    have cache: "cr_CommandId r = k \<and> OutResult r \<in> set (an_sent b @ [OutResult ?res])"
      if "map_of (ct_done (ct_finish (fst rc) ?res (an_cmds b))) k = Some r" for k r
    proof (cases "k = fst rc")
      case True
      then have "r = ?res" using F(2) [of ?res] that by simp
      then show ?thesis using True by simp
    next
      case False
      then show ?thesis using F(3) [OF that False] b by (auto simp: agent_inv_def)
    qed
    show ?thesis using b F(1) [of ?res] sp out inf cache i
      by (auto simp: eq q sendResult_def Let_def agent_inv_def)
  qed
qed

lemma agent_step_inv: "agent_step ex a b \<Longrightarrow> agent_inv a \<Longrightarrow> agent_inv b"
  by (induction rule: agent_step.induct) (auto simp: receive_inv complete_inv, auto simp: agent_inv_def)

text \<open>A command handled at once is a run: it is taken in, and completed where it is new.\<close>

lemma handleCommand_run: "(agent_step ex)\<^sup>*\<^sup>* a (handleCommand ex found cid cmd a)"
proof (cases "length (an_running (receive cid cmd a)) = length (an_running a)")
  case True
  then show ?thesis by (simp add: handleCommand_def recv r_into_rtranclp)
next
  case False
  then have "(cid, cmd) \<in> set (an_running (receive cid cmd a))"
    by (auto simp: receive_def split: prod.splits option.splits bool.splits if_splits)
  then have "agent_step ex (receive cid cmd a) (complete ex found (cid, cmd) (receive cid cmd a))" by (rule ended)
  with False show ?thesis by (simp add: handleCommand_def Let_def) (meson recv converse_rtranclp_into_rtranclp r_into_rtranclp)
qed

lemma agent_run_inv: "(agent_step ex)\<^sup>*\<^sup>* (new_agent x) a \<Longrightarrow> agent_inv a"
proof (induction rule: rtranclp_induct)
  case base
  show ?case by (simp add: agent_inv_def new_agent_def tracker_inv_empty spaced_def) (simp add: empty_tracker_def)
next
  case (step a b)
  then show ?case by (blast intro: agent_step_inv)
qed


text \<open>
  A redelivered command. While it runs it is dropped; while its result is cached, that is until 256
  other commands have finished, it is answered with the result sent before and not executed again.
\<close>

lemma redelivered:
  assumes inv: "agent_inv a" and cid: "cid \<in> set (drop (length (an_log a) - cmdDoneCacheSize) (an_log a))" and ne: "cid \<noteq> ''''"
  shows "\<exists>r. cr_CommandId r = cid \<and> OutResult r \<in> set (an_sent a) \<and> receive cid cmd a = a\<lparr>an_sent := an_sent a @ [OutResult r]\<rparr>"
proof -
  have "cid \<in> dom (map_of (ct_done (an_cmds a)))" using inv cid by (auto simp: agent_inv_def tracker_inv_def)
  then obtain r where r: "map_of (ct_done (an_cmds a)) cid = Some r" by auto
  then have "cr_CommandId r = cid \<and> OutResult r \<in> set (an_sent a)" using inv by (auto simp: agent_inv_def)
  then show ?thesis using r ne by (intro exI [of _ r]) (simp add: receive_def ct_begin_def)
qed

lemma running_redelivered:
  assumes "agent_inv a" and "(cid, cmd') \<in> set (an_running a)" and "cid \<noteq> ''''"
  shows "receive cid cmd a = a"
proof -
  have i: "cid \<in> set (ct_inflight (an_cmds a))" using assms running_ids_mem [OF assms(2)] by (auto simp: agent_inv_def)
  then have "map_of (ct_done (an_cmds a)) cid = None" using assms(1) by (auto simp: agent_inv_def tracker_inv_def)
  then show ?thesis using i assms(3) by (simp add: receive_def ct_begin_def)
qed

text \<open>
  A command with an id and a payload without a case in the switch: it is never answered, and its
  redeliveries are dropped for as long as the agent runs.
\<close>

definition lost :: "string \<Rightarrow> 'x agent \<Rightarrow> bool" where
  "lost cid a \<longleftrightarrow> cid \<in> set (ct_inflight (an_cmds a)) \<and> cid \<notin> set (running_ids (an_running a)) \<and> (\<forall>r. OutResult r \<in> set (an_sent a) \<longrightarrow> cr_CommandId r \<noteq> cid)"

lemma run_command_no_result: "OutResult r \<notin> set (fst (fst (run_command ex found cmd x)))"
  by (cases cmd) (auto simp: run_command_def Let_def case_prod_beta split: option.splits)

lemma unknown_lost:
  assumes inv: "agent_inv a" and f: "cid \<noteq> ''''" "cid \<notin> set (ct_inflight (an_cmds a))" "\<forall>r. OutResult r \<in> set (an_sent a) \<longrightarrow> cr_CommandId r \<noteq> cid"
  shows "lost cid (handleCommand ex found cid DoOther a)"
proof -
  have "map_of (ct_done (an_cmds a)) cid \<noteq> Some r" for r using inv f(3) by (auto simp: agent_inv_def)
  then have "map_of (ct_done (an_cmds a)) cid = None" by (cases "map_of (ct_done (an_cmds a)) cid") auto
  then have r: "receive cid DoOther a = a\<lparr>an_cmds := (an_cmds a)\<lparr>ct_inflight := cid # ct_inflight (an_cmds a)\<rparr>, an_running := an_running a @ [(cid, DoOther)]\<rparr>"
    using f by (simp add: receive_def ct_begin_def)
  have d: "distinct (running_ids (an_running a @ [(cid, DoOther)]))" using inv f by (auto simp: agent_inv_def)
  have "cid \<notin> set (running_ids (remove1 (cid, DoOther) (an_running a @ [(cid, DoOther)])))"
    using running_ids_remove1(3) [OF d, of "(cid, DoOther)"] f(1) by simp
  then show ?thesis using f(3) by (simp add: handleCommand_def r complete_def run_command_def lost_def Let_def)
qed

lemma lost_dropped: "agent_inv a \<Longrightarrow> lost cid a \<Longrightarrow> cid \<noteq> '''' \<Longrightarrow> receive cid cmd a = a"
proof -
  assume inv: "agent_inv a" and l: "lost cid a" and ne: "cid \<noteq> ''''"
  then have "map_of (ct_done (an_cmds a)) cid = None" by (auto simp: lost_def agent_inv_def tracker_inv_def)
  then show ?thesis using l ne by (simp add: lost_def receive_def ct_begin_def)
qed

lemma receive_lost:
  assumes inv: "agent_inv a" and l: "lost cid a" and ne: "cid \<noteq> ''''"
  shows "lost cid (receive k cmd a)"
proof (cases "k = cid")
  case True
  then show ?thesis using lost_dropped [OF inv l ne] l by simp
next
  case k: False
  show ?thesis using inv
  proof (cases rule: receive_cases [where cid = k and cmd = cmd])
    case (cached r)
    then have "cr_CommandId r = k" using inv by (simp add: agent_inv_def)
    then show ?thesis using cached l k by (auto simp: lost_def)
  qed (use l k in \<open>auto simp: lost_def\<close>)
qed

lemma complete_lost:
  assumes inv: "agent_inv a" and l: "lost cid a" and ne: "cid \<noteq> ''''" and rc: "rc \<in> set (an_running a)"
  shows "lost cid (complete ex found rc a)"
proof -
  obtain msgs res x where r: "run_command ex found (snd rc) (an_host a) = ((msgs, res), x)" by (metis prod.exhaust)
  have other: "fst rc \<noteq> cid" using l ne running_ids_mem [OF rc] by (auto simp: lost_def)
  have "OutResult q \<notin> set msgs" for q using run_command_no_result [of q ex found "snd rc" "an_host a"] by (simp add: r)
  moreover have "cid \<notin> set (running_ids (remove1 rc (an_running a)))"
    using l inv running_ids_remove1(2) [of "an_running a" rc] by (auto simp: lost_def agent_inv_def)
  ultimately show ?thesis using l other
    by (cases res) (auto simp: complete_def r Let_def lost_def sendResult_def ct_finish_def case_prod_beta)
qed

lemma lost_run:
  assumes "(agent_step ex)\<^sup>*\<^sup>* a b" and "agent_inv a" and "lost cid a" and "cid \<noteq> ''''"
  shows "agent_inv b \<and> lost cid b"
  using assms
proof (induction rule: rtranclp_induct)
  case (step b c)
  then have b: "agent_inv b" "lost cid b" by auto
  have "lost cid c" using step.hyps(2)
  proof cases
    case (recv k cmd)
    then show ?thesis using receive_lost [OF b step.prems(3)] by simp
  next
    case (ended rc found)
    then show ?thesis using complete_lost [OF b step.prems(3)] by simp
  next
    case (beside ms x)
    then show ?thesis using b(2) by (auto simp: lost_def)
  qed
  then show ?case using agent_step_inv [OF step.hyps(2) b(1)] by simp
qed simp

section \<open>Other properties\<close>

text \<open>The pauses double from one second to 64 seconds and stay there.\<close>

lemma reconnects_nth:
  "i < length (reconnects (ns_second * 2 ^ k) es) \<Longrightarrow> k \<le> 6 \<Longrightarrow> reconnects (ns_second * 2 ^ k) es ! i = ns_second * 2 ^ min (k + i) 6"
proof (induction es arbitrary: i k)
  case (Cons e es)
  show ?case
  proof (cases e)
    case Broken
    show ?thesis
    proof (cases i)
      case 0
      then show ?thesis using Broken Cons.prems by (simp add: min_def)
    next
      case (Suc n)
      have k: "k = 0 \<or> k = 1 \<or> k = 2 \<or> k = 3 \<or> k = 4 \<or> k = 5 \<or> k = 6" using Cons.prems by auto
      then have nx: "(if ns_second * 2 ^ k < 60 * ns_second then ns_second * 2 ^ k * 2 else ns_second * 2 ^ k) = ns_second * 2 ^ (if k < 6 then Suc k else k)"
        by (elim disjE) simp_all
      have n: "n < length (reconnects (ns_second * 2 ^ (if k < 6 then Suc k else k)) es)" using Cons.prems Broken Suc by (simp only: reconnects.simps nx length_Cons)
      show ?thesis using Cons.IH [OF n] k Broken Suc by (elim disjE) (simp_all only: reconnects.simps nx nth_Cons_Suc, simp_all add: min_def)
    qed
  qed (use Cons.prems in simp)
qed simp

text \<open>What the agent packs behind the separator the gateway stores as the logs of the workload.\<close>

lemma find_from_at:
  assumes "\<And>j. i \<le> j \<Longrightarrow> j < n \<Longrightarrow> take (length sep) (drop j s) \<noteq> sep" and "take (length sep) (drop n s) = sep" and "n + length sep \<le> length s" and "i \<le> n"
  shows "find_from s sep i = Some n"
  using assms
proof (induction s sep i rule: find_from.induct)
  case (1 s sep i)
  show ?case
  proof (cases "i = n")
    case True
    then show ?thesis using "1.prems" by (subst find_from.simps) simp
  next
    case False
    then have "i < n" using "1.prems"(4) by simp
    then have "find_from s sep (Suc i) = Some n" using "1.prems" by (intro "1.IH") auto
    then show ?thesis using "1.prems"(1) [of i] \<open>i < n\<close> "1.prems"(3) by (subst find_from.simps) simp
  qed
qed

lemma extract_packed:
  assumes "CHR 0x0A \<notin> set e" and "logs \<noteq> ''''"
  shows "extractLogs (pack_logs e logs) = logs"
proof -
  let ?m = "e @ log_sep @ logs"
  have "take (length log_sep) (drop j ?m) \<noteq> log_sep" if "j < length e" for j
  proof
    assume "take (length log_sep) (drop j ?m) = log_sep"
    then have "hd (take (length log_sep) (drop j ?m)) = CHR 0x0A" by (simp add: log_sep_def)
    moreover have "hd (take (length log_sep) (drop j ?m)) = e ! j" using that by (simp add: log_sep_def hd_drop_conv_nth nth_append)
    ultimately show False using assms(1) that by (metis nth_mem)
  qed
  then have "findSep ?m log_sep = Some (length e)" unfolding findSep_def by (intro find_from_at) auto
  then show ?thesis using assms(2) by (simp add: extractLogs_def pack_logs_def)
qed

text \<open>A pinned certificate forces TLS, whatever the environment says.\<close>

lemma pinned_tls: "ag_CACertFile (agent_main fl c) \<noteq> '''' \<Longrightarrow> dial readFile pemOK (agent_main fl c) \<noteq> Inr DialPlain"
  by (auto simp: agent_main_def Let_def dial_def split: if_splits sum.splits)

text \<open>
  Without \<open>--ca\<close>, \<open>--insecure\<close> and the variables, as the installer starts it for a certificate of
  the operator, the agent dials without TLS.
\<close>

lemma default_plaintext:
  assumes "fl_ca fl = None" and "fl_insecure fl = None" and "e ''AGENT_CA_CERT'' = ''''" and "e ''AGENT_INSECURE'' = ''''"
  shows "dial readFile pemOK (agent_main fl (fst (LoadAgent home e))) = Inr DialPlain"
  using assms by (simp add: agent_main_def dial_def LoadAgent_def env_def envBool_def flag_def Let_def)

text \<open>
  After an enrolment that was stored, the next start reads the credential back, and enrols again
  only for another token.
\<close>

lemma enrolled_once:
  assumes "agent_enroll sha cfg (Inr (nodeID, cred)) None s f = (None, s', f')" and "cred \<noteq> ''''"
  shows "agent_New sha mc key f' = Inr s'" and "is_Credential s' = cred" and "is_Fingerprint s' = is_Fingerprint s"
    and "needs_enroll sha cfg' s' \<longleftrightarrow> ag_EnrollmentToken cfg' \<noteq> '''' \<and> HashToken sha (ag_EnrollmentToken cfg') \<noteq> HashToken sha (ag_EnrollmentToken cfg)"
proof -
  define s1 where "s1 = s\<lparr>is_NodeID := nodeID, is_Credential := cred, is_EnrollTokenHash := HashToken sha (ag_EnrollmentToken cfg)\<rparr>"
  have f: "identity_Save None s1 f = (None, f')" and s: "s' = s1"
    using assms(1) by (auto simp: agent_enroll_def Let_def s1_def identity_Save_def)
  show "agent_New sha mc key f' = Inr s'" using Load_Save [OF f] by (simp add: agent_New_def s)
  show "is_Credential s' = cred" "is_Fingerprint s' = is_Fingerprint s" by (simp_all add: s s1_def)
  show "needs_enroll sha cfg' s' \<longleftrightarrow> ag_EnrollmentToken cfg' \<noteq> '''' \<and> HashToken sha (ag_EnrollmentToken cfg') \<noteq> HashToken sha (ag_EnrollmentToken cfg)"
    using assms(2) by (auto simp: needs_enroll_def tokenChanged_def s s1_def)
qed

end
