(* ===== verification/Scrape.thy ===== *)
theory Scrape
  imports Health
begin

text \<open>
  \<open>internal/obs/metrics.go\<close> and \<open>log.go\<close>: the gauges sampled when Prometheus scrapes the process, and
  the choice of the log handler. Registering collectors and serving the text format is Prometheus'
  own code.
\<close>

section \<open>The state collector\<close>

record metric =
  mt_Desc :: string
  mt_Labels :: "string list"
  mt_Value :: rat

definition gauge :: "string \<Rightarrow> string list \<Rightarrow> rat \<Rightarrow> metric" where
  "gauge desc ls v = \<lparr>mt_Desc = desc, mt_Labels = ls, mt_Value = v\<rparr>"

text \<open>\<open>GROUP BY status\<close>: one row per status that occurs.\<close>

definition group_counts :: "string \<Rightarrow> string list \<Rightarrow> metric list" where
  "group_counts desc ss = map (\<lambda>l. gauge desc [l] (of_nat (length (filter (\<lambda>x. x = l) ss)))) (first_seen ss)"

definition command_status_name :: "command_status \<Rightarrow> string" where
  "command_status_name s = (case s of CmdPending \<Rightarrow> ''pending'' | CmdSent \<Rightarrow> ''sent'' | CmdAcked \<Rightarrow> ''acked'' | CmdFailed \<Rightarrow> ''failed''
     | CmdExpired \<Rightarrow> ''expired'' | CmdSuperseded \<Rightarrow> ''superseded'')"

text \<open>Four queries; at the first that fails the rest is skipped, what was sampled before stays.\<close>

fun collect_queries :: "(db \<Rightarrow> metric list) list \<Rightarrow> sys \<Rightarrow> (metric list \<times> bool) \<times> sys" where
  "collect_queries [] s = (([], True), s)"
| "collect_queries (q # qs) s = (case query (\<lambda>d. Inr (q d)) s of
       (Inl e, s1) \<Rightarrow> (([], False), s1)
     | (Inr ms, s1) \<Rightarrow> (case collect_queries qs s1 of ((ms', ok), s2) \<Rightarrow> ((ms @ ms', ok), s2)))"

definition collectDB :: "clocks \<Rightarrow> sys \<Rightarrow> (metric list \<times> bool) \<times> sys" where
  "collectDB clk = collect_queries
     [\<lambda>d. group_counts ''nodehive_nodes'' (map (\<lambda>n. node_status_name (n_Status n)) (gpu_nodes d)),
      \<lambda>d. group_counts ''nodehive_workloads'' (map (\<lambda>w. state_name (w_Status w)) (workloads d)),
      \<lambda>d. group_counts ''nodehive_command_outbox'' (map (\<lambda>c. command_status_name (c_Status c)) (agent_commands d)),
      \<lambda>d. [gauge ''nodehive_command_outbox_overdue'' [] (of_nat (affected (overdue_command (db_now clk)) (agent_commands d)))]]"

definition job_metrics :: "JobStatus \<Rightarrow> metric list" where
  "job_metrics j = (case jb_LastSuccess j of None \<Rightarrow> []
       | Some t \<Rightarrow> [gauge ''nodehive_job_last_success_timestamp_seconds'' [jb_Name j] (of_int (t div second))]) @
     [gauge ''nodehive_job_failures_total'' [jb_Name j] (of_nat (jb_Failures j))]"

definition Collect :: "time \<Rightarrow> clocks \<Rightarrow> nat \<Rightarrow> JobTracker \<Rightarrow> sys \<Rightarrow> metric list \<times> sys" where
  "Collect started clk conns jobs s =
     (let ((ms, ok), s1) = collectDB clk s
      in ([gauge ''nodehive_agents_connected'' [] (of_nat conns)] @ concat (map job_metrics (JobsStatus started (go_now clk) jobs)) @ ms @
          [gauge ''nodehive_state_scrape_ok'' [] (if ok then 1 else 0)], s1))"

text \<open>A scrape reads only, and the counts of a table add up to its rows.\<close>

lemma collect_queries_db: "s_db (snd (collect_queries qs s)) = s_db s"
proof (induction qs arbitrary: s)
  case (Cons q qs)
  obtain r s1 where q: "query (\<lambda>d. Inr (q d)) s = (r, s1)" by fastforce
  then have "s_db s1 = s_db s" using query_db [of "\<lambda>d. Inr (q d)" s] by simp
  then show ?case using Cons [of s1] by (cases r) (auto simp: q case_prod_beta)
qed simp

lemma Collect_db: "s_db (snd (Collect started clk conns jobs s)) = s_db s"
  by (simp add: Collect_def collectDB_def collect_queries_db case_prod_beta del: collect_queries.simps)

lemma sum_counts: "sum_list (map (\<lambda>l. length (filter (\<lambda>x. x = l) ss)) (first_seen ss)) = length ss"
proof -
  have "sum_list (map (\<lambda>l. length (filter (\<lambda>x. x = l) ss)) (first_seen ss)) = (\<Sum>l \<in> set ss. length (filter (\<lambda>x. x = l) ss))"
    by (simp add: sum_list_distinct_conv_sum_set)
  also have "\<dots> = (\<Sum>l \<in> set ss. count_list ss l)"
  proof (intro sum.cong refl)
    show "length (filter (\<lambda>x. x = l) ss) = count_list ss l" for l by (induction ss) auto
  qed
  also have "\<dots> = length ss" by (rule sum_count_set) simp_all
  finally show ?thesis .
qed

lemma group_counts_total: "sum_list (map mt_Value (group_counts desc ss)) = of_nat (length ss)"
proof -
  have "sum_list (map (\<lambda>l. of_nat (f l) :: rat) ls) = of_nat (sum_list (map f ls))" for f :: "string \<Rightarrow> nat" and ls
    by (induction ls) simp_all
  then show ?thesis by (simp add: group_counts_def gauge_def comp_def sum_counts)
qed

section \<open>Logging\<close>

datatype log_level = LevelDebug | LevelInfo | LevelWarn | LevelError
datatype log_handler = TextHandler log_level | JSONHandler log_level

definition NewLogger :: "string \<Rightarrow> string \<Rightarrow> log_handler" where
  "NewLogger format level =
     (let l = lower level;
          lvl = (if l = ''debug'' then LevelDebug else if l = ''warn'' \<or> l = ''warning'' then LevelWarn else if l = ''error'' then LevelError else LevelInfo)
      in if lower format = ''text'' then TextHandler lvl else JSONHandler lvl)"

end
