(* ===== verification/Scenes.thy ===== *)
theory Scenes
  imports Fixture Served Agent Scrape
begin

text \<open>
  Concrete objects for the process and the agent, beside the database of \<open>Fixture\<close>: an API with
  its configuration, requests, a machine to start on and an agent with the simulated executor.
\<close>

section \<open>Requests\<close>

definition ex_stat :: pool_stat where
  "ex_stat = \<lparr>ps_PingMs = 1, ps_TotalConns = 1, ps_IdleConns = 1, ps_MaxConns = 4, ps_EmptyAcquireCount = 0\<rparr>"

definition ex_api :: api where
  "ex_api = \<lparr>a_identity = ex_identity, a_service = ex_service, a_rawRetention = 24 * hour, a_google = None, a_appBaseURL = '''',
     a_corsOrigins = [], a_secureCookies = False, a_refreshCookieTTL = 0, a_email = None, a_allowSelfTopup = False, a_grpcTLS = False,
     a_agentCAPEM = '''', a_kickNode = False, a_health = None, a_metrics = None, a_metricsToken = '''', a_events = True,
     a_getenv = (\<lambda>_. ''''), a_httpClient = (\<lambda>_. Inl (ErrText ''offline'')),
     a_postgres = \<lparr>pg_inet = (\<lambda>s. Some s), pg_jsonb = (\<lambda>_. ''{}''), pg_epoch = (\<lambda>_. ''0''), pg_sha256 = (\<lambda>_. replicate 64 CHR ''0'')\<rparr>,
     a_parseUUID = (\<lambda>s. if s = ''7'' then Some 7 else None), a_dbText = (\<lambda>_. ''database error'')\<rparr>"

definition ex_http :: "string \<Rightarrow> string \<Rightarrow> string \<Rightarrow> request" where
  "ex_http method token i = \<lparr>hq_Method = method, hq_Path = '''', hq_Header = (\<lambda>k. if k = ''Authorization'' then token else ''''),
     hq_Query = (\<lambda>_. ''''), hq_Cookie = (\<lambda>_. None), hq_Param = (\<lambda>_. i), hq_RemoteAddr = ''10.0.0.9:4000'', hq_Host = ''nodehive'', hq_TLS = False,
     hq_Flusher = True, hq_Body = None\<rparr>"

definition ex_ctx :: "User \<Rightarrow> request \<Rightarrow> ctx" where
  "ex_ctx u q = \<lparr>c_api = ex_api, c_clk = ex_clocks, c_req = q, c_requestID = '''', c_user = u, c_fresh = ex_fresh, c_ids = (\<lambda>i. 90 + i),
     c_rnds = (\<lambda>_. [1, 2, 3]), c_locked = (\<lambda>_. False)\<rparr>"

text \<open>A router that sends every request to route \<open>i\<close>.\<close>

definition ex_mux :: "nat \<Rightarrow> mux" where
  "ex_mux i = \<lparr>mx_match = (\<lambda>_ _. Some (i, \<lambda>_. ''7'')), mx_miss = (\<lambda>_. WriteHeader 404), mx_files = (\<lambda>_. WriteHeader 404)\<rparr>"

lemma ex_mux_match [simp]: "mx_match (ex_mux i) rs q = Some (i, \<lambda>_. ''7'')"
  by (simp add: ex_mux_def)

lemmas ex_http_defs = ex_api_def ex_http_def ex_ctx_def

section \<open>Starting the process\<close>

definition ex_env :: environment where
  "ex_env k = (if k = ''JWT_SECRET'' then ''correct horse battery staple'' else if k = ''AGENT_PUBLIC_GRPC_ADDR'' then ''gpu.acme:9090''
     else '''')"

definition ex_boot :: "environment \<Rightarrow> boot" where
  "ex_boot e = \<lparr>bo_getenv = e, bo_migrate = None, bo_open = None, bo_listen = None,
     bo_lib = \<lparr>tl_parse = (\<lambda>_ _. None), tl_mint = (\<lambda>_ _ _. None), tl_loadPair = (\<lambda>_ _. None), tl_isIP = (\<lambda>s. s = ''127.0.0.1'')\<rparr>,
     bo_fault = None, bo_gen = Inr (''CERT'', ''KEY''), bo_hostname = Some ''cp-0'',
     bo_jwt = (\<lambda>_. (id_sign ex_identity, id_verify ex_identity)), bo_api = ex_api, bo_clk = ex_clocks, bo_fresh = ex_fresh,
     bo_tokenID = 95, bo_stat = ex_stat, bo_goVersion = ''go1.22'', bo_metrics = WriteHeader 200\<rparr>"

lemma ex_boot_env [simp]: "bo_getenv (ex_boot e) = e"
  by (simp add: ex_boot_def)

text \<open>The same with a certificate of the operator, and the two starts.\<close>

definition ex_cert_env :: environment where
  "ex_cert_env k = (if k = ''GRPC_CERT_FILE'' then ''/tls/cert.pem'' else ex_env k)"

lemma ex_started:
  obtains ca dns ips a s where "start (ex_boot ex_env) ex_db (Some (''OLD'', ''KEY'')) = (Inr (AutoCA ca dns ips, a), s)"
proof -
  let ?s = "start (ex_boot ex_env) ex_db (Some (''OLD'', ''KEY''))"
  have "case fst ?s of Inr (AutoCA ca dns ips, a) \<Rightarrow> True | _ \<Rightarrow> False" by code_simp
  then show ?thesis by (cases ?s) (auto split: sum.splits prod.splits transport.splits intro: that)
qed

lemma ex_cert_started:
  obtains c k a s where "start (ex_boot ex_cert_env) ex_db None = (Inr (OperatorCert c k, a), s)"
proof -
  let ?s = "start (ex_boot ex_cert_env) ex_db None"
  have "case fst ?s of Inr (OperatorCert c k, a) \<Rightarrow> True | _ \<Rightarrow> False" by code_simp
  then show ?thesis by (cases ?s) (auto split: sum.splits prod.splits transport.splits intro: that)
qed

lemma ex_members: "member_inv ex_db"
  by (simp add: member_inv_def members_ok_def mirrored_def ex_defs)

section \<open>The agent\<close>

definition ex_flags :: flags where
  "ex_flags = \<lparr>fl_server = Some ''gpu.acme:9090'', fl_token = Some ''tok'', fl_insecure = None, fl_ca = None, fl_dev = None\<rparr>"

definition ex_agent_config :: AgentConfig where
  "ex_agent_config = fst (LoadAgent (Some ''/home/op'') (\<lambda>k. if k = ''AGENT_ENROLLMENT_TOKEN'' then ''tok'' else ''''))"

definition ex_machine :: machine where
  "ex_machine = \<lparr>mc_hostname = ''gpu-1'', mc_GOOS = ''linux'', mc_NumCPU = 8, mc_file = (\<lambda>_. None), mc_out = (\<lambda>_. None)\<rparr>"

definition ex_state :: agent_state where
  "ex_state = \<lparr>is_NodeID = '''', is_Credential = '''', is_PublicKey = ''pk'', is_Fingerprint = ''fp'', is_EnrollTokenHash = ''''\<rparr>"

text \<open>An agent that has received a command for its inventory, and the same agent after it was answered.\<close>

definition ex_busy :: "DevExecutor agent" where
  "ex_busy = receive ''c1'' DoGetInventory (new_agent NewDev)"

definition ex_done :: "DevExecutor agent" where
  "ex_done = complete (dev_executor hour) None (''c1'', DoGetInventory) ex_busy"

end
