(* ===== verification/Supplement.thy ===== *)
theory Supplement
  imports Scenes
begin

text \<open>
  Further facts of the components, each with an instance on the objects of \<open>Fixture\<close>: bounds of a
  validated request, isolation of the reads, the queue, fates of commands, use limits, reports and
  idempotence of metering and alerts.
\<close>

text \<open>
  A validated request has a trimmed, non-empty name of at most 120 bytes, between 1 and 16
  GPUs, no image or one of at most 256 bytes that matches the reference pattern, and no idle
  timeout or one between a minute and a week.
\<close>

lemma validated_request_bounds:
  assumes "validateLaunch req0 = Inr req"
  shows "lr_Name req = TrimSpace (lr_Name req0) \<and> lr_Name req \<noteq> '''' \<and> length (lr_Name req) \<le> 120 \<and>
    1 \<le> lr_GPUCount req \<and> lr_GPUCount req \<le> 16 \<and>
    (lr_Image req = '''' \<or> length (lr_Image req) \<le> 256 \<and> lr_Image req \<in> lang imageRefPattern) \<and>
    (case lr_IdleTimeoutSec req of None \<Rightarrow> True | Some t \<Rightarrow> 60 \<le> t \<and> t \<le> 604800)"
  using validateLaunch_Inr [OF assms] matches_iff_lang by auto

lemma validated_request_bounds_witness: "lr_GPUCount ex_request \<le> 16"
  using validated_request_bounds [OF ex_valid] by simp

text \<open>
  What an organisation reads of its workloads does not depend on the workloads of any other:
  single reads, lists under any filter and the queue are the same when all foreign rows are
  removed from the table.
\<close>

lemma tenant_reads_own_rows:
  assumes "distinct (map w_ID (workloads d))"
  shows "Get orgID wid (own_rows orgID d) = Get orgID wid d \<and>
    List_workloads orgID f (own_rows orgID d) = List_workloads orgID f d \<and>
    queue_of orgID (own_rows orgID d) = queue_of orgID d"
  using Get_own_rows [OF assms] List_own_rows queue_own_rows by blast

lemma tenant_reads_own_rows_witness: "Get 2 7 (own_rows 2 ex_running) = Get 2 7 ex_running"
proof -
  have "distinct (map w_ID (workloads ex_running))" by (simp add: ex_defs)
  from tenant_reads_own_rows [OF this] show ?thesis by blast
qed

text \<open>
  A viewer who is not an administrator sees a workload of a restricted project only when it
  launched the workload or is a member of the project.
\<close>

lemma restricted_projects_hidden:
  assumes "w \<in> set (List_workloads orgID f d)" and "lf_Viewer f = Some v" and "\<not> lf_ViewerIsAdmin f"
    and "w_UserID w \<noteq> v" and "w_ProjectID w = Some pid"
    and "p \<in> set (projects d)" and "pj_ID p = pid" and "pj_Visibility p = ''restricted''"
  shows "\<exists>m \<in> set (project_members d). pm_ProjectID m = pid \<and> pm_UserID m = v"
  using assms by (rule List_restricted)

lemma restricted_projects_hidden_witness:
  "\<exists>m \<in> set (project_members ex_restricted). pm_ProjectID m = 20 \<and> pm_UserID m = 30"
proof (rule restricted_projects_hidden [of _ 1 ex_viewer ex_restricted 30 20 "hd (projects ex_restricted)"])
  show "hd (List_workloads 1 ex_viewer ex_restricted) \<in> set (List_workloads 1 ex_viewer ex_restricted)"
    by (simp add: List_workloads_def list_matches_def project_visible_def ex_viewer_def ex_restricted_def ex_defs)
qed (simp_all add: List_workloads_def list_matches_def project_visible_def ex_viewer_def ex_restricted_def ex_defs
    scanWorkloadRow_def Workload.defs)

text \<open>
  The queue an organisation is shown contains each of its queued workloads once, in the order
  of their queueing times, at the positions one to the number of waiting workloads.
\<close>

lemma queue_positions:
  "map qe_Position (qs_Entries (ListQueue clk orgID d)) = [1..<Suc (qs_Waiting (ListQueue clk orgID d))] \<and>
   sorted (map qe_QueuedAt (qs_Entries (ListQueue clk orgID d))) \<and>
   mset (map qe_ID (qs_Entries (ListQueue clk orgID d))) =
     image_mset w_ID (filter_mset (\<lambda>w. w_OrgID w = orgID \<and> w_Status w = WorkloadQueued) (mset (workloads d)))"
  using ListQueue_positions [of clk orgID d] by blast

text \<open>
  A command that was acknowledged, failed, expired or superseded stays so: none of the outbox
  operations that run on the table (acknowledgement, expiry, supersession, a failed attempt) changes
  its status again, so a redelivered or duplicated result is ignored.
\<close>

lemma command_fate_final:
  assumes "r \<in> set (agent_commands d)" and "\<not> outstanding (c_Status r)"
    and "d' \<in> {Ack now i ok msg d, snd (ExpireOverdue now d), snd (SupersedeForTerminalWorkloads d),
      MarkAttemptFailed now i n reason d}"
  shows "\<exists>q \<in> set (agent_commands d'). c_ID q = c_ID r \<and> c_Status q = c_Status r \<and> c_Payload q = c_Payload r"
proof -
  have row: "\<exists>q \<in> set (agent_commands (f d)). cmd_step r q" if "outbox_op f" for f
    using outbox_op.row_kept [OF that assms(1)] by metis
  have "\<exists>q \<in> set (agent_commands d'). cmd_step r q"
    using assms(3) row [OF ack_op.outbox_op_axioms] row [OF expire_op.outbox_op_axioms] row [OF supersede_op.outbox_op_axioms]
      row [OF attempt_failed_op.outbox_op_axioms] by auto
  then show ?thesis using assms(2) by (auto simp: cmd_step_def)
qed

lemma command_fate_final_witness:
  "\<exists>q \<in> set (agent_commands (Ack 5 40 False ''late'' (ex_db\<lparr>agent_commands := [ex_command\<lparr>c_Status := CmdAcked\<rparr>]\<rparr>))).
     c_ID q = 40 \<and> c_Status q = CmdAcked"
  using command_fate_final [of "ex_command\<lparr>c_Status := CmdAcked\<rparr>" "ex_db\<lparr>agent_commands := [ex_command\<lparr>c_Status := CmdAcked\<rparr>]\<rparr>"
      "Ack 5 40 False ''late'' (ex_db\<lparr>agent_commands := [ex_command\<lparr>c_Status := CmdAcked\<rparr>]\<rparr>)" 5 40 False "''late''" 0 "''''"]
  by (auto simp: ex_command_def)

text \<open>
  Enrolment never moves a machine between tenants: every node keeps its id, organisation and
  fingerprint, and an enrolment of a known fingerprint succeeds only for the organisation that
  owns the node and returns that node.
\<close>

lemma fingerprint_stays_home:
  assumes "repo_Enroll clk newID th fp info ch d = Inr ((nid, orgID), d')" and "n \<in> set (gpu_nodes d)"
    and "distinct (map n_Fingerprint (gpu_nodes d))"
  shows "(\<exists>m \<in> set (gpu_nodes d'). n_ID m = n_ID n \<and> n_OrgID m = n_OrgID n \<and> n_Fingerprint m = n_Fingerprint n) \<and>
    (n_Fingerprint n = Some fp \<longrightarrow> n_ID n = nid \<and> n_OrgID n = orgID)"
  using enroll_keeps_org [OF assms(1,2)] assms(3) by blast

lemma fingerprint_stays_home_witness: "n_ID ex_node = 3 \<and> n_OrgID ex_node = 1"
  using fingerprint_stays_home [OF ex_enrolled, of ex_node] by (simp add: ex_defs)

text \<open>
  An enrolment token is never used more often than it allows, and every successful enrolment
  spends exactly one use.
\<close>

lemma token_use_limited:
  assumes "repo_Enroll clk newID th fp info ch d = Inr ((nid, orgID), d')" and "distinct (map et_ID (enrollment_tokens d))"
    and "\<forall>t \<in> set (enrollment_tokens d). et_Uses t \<le> et_MaxUses t"
  shows "(\<forall>t \<in> set (enrollment_tokens d'). et_Uses t \<le> et_MaxUses t) \<and>
    sum_list (map et_Uses (enrollment_tokens d')) = sum_list (map et_Uses (enrollment_tokens d)) + 1"
  using enroll_spends [OF assms(1,2)] assms(3) by (simp add: within_limit_def)

lemma token_use_limited_witness: "et_Uses (ex_token\<lparr>et_Uses := 1\<rparr>) \<le> et_MaxUses ex_token"
  using token_use_limited [OF ex_enrolled] by (simp add: ex_defs)

text \<open>
  In every reachable state the running balance of an organisation is its sum of ledger entries
  up to one ten-thousandth per entry, the rounding of the two stored columns.
\<close>

lemma balance_follows_ledger:
  assumes "platform_step\<^sup>*\<^sup>* s t" and "ledger_ok (s_db s)"
  shows "\<bar>last_balance orgID (credit_ledger (s_db t)) - ledger_sum orgID (credit_ledger (s_db t))\<bar>
     \<le> of_nat (ledger_count orgID (credit_ledger (s_db t))) / 10000"
  using ledger_p.platform.run_keeps [OF assms] unfolding ledger_ok_def ledger_inv_def by blast

lemma balance_follows_ledger_witness:
  "\<bar>last_balance 1 (credit_ledger (s_db (snd (AddCredit ex_clocks 1 (1/3) ''topup'' '''' (initial_sys ex_db))))) -
    ledger_sum 1 (credit_ledger (s_db (snd (AddCredit ex_clocks 1 (1/3) ''topup'' '''' (initial_sys ex_db)))))\<bar>
   \<le> of_nat (ledger_count 1 (credit_ledger (s_db (snd (AddCredit ex_clocks 1 (1/3) ''topup'' '''' (initial_sys ex_db)))))) / 10000"
  by (rule balance_follows_ledger [OF r_into_rtranclp [of platform_step, OF control_plane, OF do_add_credit]]) (simp add: ex_ledger_ok)

text \<open>Metering the same workload again at the same instant changes nothing.\<close>

lemma metering_idempotent:
  assumes "MeterWorkload clk wid d = Inr ((), d')"
  shows "MeterWorkload clk wid d' = Inr ((), d')"
  using assms by (rule meter_again)

lemma metering_idempotent_witness:
  "\<exists>d'. MeterWorkload ex_clocks 7 ex_running = Inr ((), d') \<and> MeterWorkload ex_clocks 7 d' = Inr ((), d')"
proof -
  have "\<not> isl (MeterWorkload ex_clocks 7 ex_running)" by code_simp
  then obtain d' where m: "MeterWorkload ex_clocks 7 ex_running = Inr ((), d')"
    by (cases "MeterWorkload ex_clocks 7 ex_running") auto
  from m metering_idempotent [OF m] show ?thesis by blast
qed

text \<open>
  The total of a chargeback report is the sum of the cost records of its window, whatever the
  grouping.
\<close>

lemma chargeback_total_grouping:
  "rp_Total (Chargeback orgID fr until groupBy d) = sum_list (map cr_Amount (window_costs orgID fr until d)) \<and>
   rp_Total (Chargeback orgID fr until groupBy d) = rp_Total (Chargeback orgID fr until groupBy' d)"
  by (simp add: Chargeback_total)

text \<open>
  Without faults, setting a rate leaves exactly one open rate card for the GPU model of the
  organisation, the new one.
\<close>

lemma one_open_rate:
  assumes "s_faults s = []"
  shows "open_cards orgID model (s_db (snd (SetRate clk rcID orgID model rate currency s))) =
      [\<lparr>rc_ID = rcID, rc_OrgID = orgID, rc_GPUModel = model, rc_RatePerGPUHour = num4 rate, rc_Currency = currency,
        rc_EffectiveFrom = db_now clk, rc_EffectiveTo = None\<rparr>]"
  using assms by (rule SetRate_open)

lemma one_open_rate_witness:
  "length (open_cards 1 ''A100'' (s_db (snd (SetRate ex_clocks 60 1 ''A100'' 3 ''USD'' (initial_sys ex_db))))) = 1"
  using one_open_rate [of "initial_sys ex_db" 1 "''A100''" ex_clocks 60 3 "''USD''"] by simp

text \<open>
  In every reachable state a user has at most one membership, and each membership is repeated
  by the organisation and the role of its user row: the role an access token carries is the role of
  the membership.
\<close>

lemma memberships_mirrored:
  assumes "platform_step\<^sup>*\<^sup>* s t" and "member_inv (s_db s)" and "m \<in> set (organization_members (s_db t))"
  shows "(\<exists>u \<in> set (users (s_db t)). u_ID u = m_UserID m \<and> u_OrgID u = Some (m_OrgID m) \<and> u_Role u = m_Role m) \<and>
    distinct (map m_UserID (organization_members (s_db t)))"
proof -
  have inv: "members_ok (users (s_db t)) (organization_members (s_db t))"
    using member_p.platform.run_keeps [OF assms(1,2)] by (simp add: member_inv_def)
  then show ?thesis using assms(3) by (auto simp: members_ok_def mirrored_def)
qed

lemma memberships_mirrored_witness:
  "\<exists>u \<in> set (users (s_db (snd (ChangeMemberRole 1 2 RoleOwner 5 RoleAdmin (initial_sys ex_tenant))))).
     u_ID u = 5 \<and> u_OrgID u = Some 1 \<and> u_Role u = RoleAdmin"
proof -
  let ?t = "snd (ChangeMemberRole 1 2 RoleOwner 5 RoleAdmin (initial_sys ex_tenant))"
  have run: "platform_step\<^sup>*\<^sup>* (initial_sys ex_tenant) ?t"
    by (rule r_into_rtranclp [of platform_step, OF service_call, OF as_member, OF do_change_role])
  have "ex_member 61 5 RoleAdmin \<in> set (organization_members (s_db ?t))" by code_simp
  from memberships_mirrored [OF run _ this] show ?thesis by (simp add: ex_tenant_members ex_member_def)
qed

text \<open>
  A join code admits a user as a member of its organisation, never with a higher role; each
  admission counts one use, and a code with a limit is never used beyond it.
\<close>

lemma join_code_limited:
  assumes "JoinViaCode sv clk mid userID raw s = (Inr (tok, v), s')"
    and "within_limit jc_Uses code_limit (organization_join_codes (s_db s))"
    and "distinct (map jc_CodeHash (organization_join_codes (s_db s)))"
  shows "(\<exists>c \<in> set (organization_join_codes (s_db s)). jc_CodeHash c = id_sha sv (TrimSpace raw) \<and>
      standing v = (userID, Some (jc_OrgID c), RoleMember)) \<and>
    within_limit jc_Uses code_limit (organization_join_codes (s_db s')) \<and>
    sum_list (map jc_Uses (organization_join_codes (s_db s'))) = sum_list (map jc_Uses (organization_join_codes (s_db s))) + 1"
  using JoinViaCode_Inr(1) [OF assms(1)] join_code_limit [OF assms(1)] assms(2,3) by (auto simp: usable_code_def)

lemma join_code_limited_witness:
  "\<exists>tok v s'. JoinViaCode ex_identity ex_clocks 90 9 ''code'' (initial_sys ex_tenant) = (Inr (tok, v), s') \<and>
     standing v = (9, Some 1, RoleMember) \<and> sum_list (map jc_Uses (organization_join_codes (s_db s'))) = 1"
proof -
  have "\<not> isl (fst (JoinViaCode ex_identity ex_clocks 90 9 ''code'' (initial_sys ex_tenant)))" by code_simp
  from call_succeeds [OF this] obtain tok v s'
    where a: "JoinViaCode ex_identity ex_clocks 90 9 ''code'' (initial_sys ex_tenant) = (Inr (tok, v), s')" by auto
  have "organization_join_codes (s_db (initial_sys ex_tenant)) = [ex_code]" by (simp add: ex_tenant_def)
  then show ?thesis using join_code_limited [OF a] a by (auto simp: within_limit_def code_limit_def ex_code_def)
qed

text \<open>
  Evaluating the alert rules twice at the same instant raises nothing the second time, whatever
  ids are drawn, and there is never more than one open alert per organisation and key.
\<close>

lemma alerts_idempotent:
  assumes inj: "\<And>o1 k1 o2 k2. newID o1 k1 = newID o2 k2 \<Longrightarrow> o1 = o2 \<and> k1 = k2" and "s_faults s = []"
    and fresh: "\<And>a o' k. a \<in> set (alerts (s_db s)) \<Longrightarrow> alt_ID a \<noteq> newID o' k" and "alerts_unique (s_db s)"
    and "EvaluateAll clk newID s = (x, s1)"
  shows "snd (EvaluateAll clk newID' s1) = s1 \<and> alerts_unique (s_db s1)"
proof
  show "snd (EvaluateAll clk newID' s1) = s1" using inj assms(2) fresh assms(5) by (rule EvaluateAll_idempotent)
  show "alerts_unique (s_db s1)" using EvaluateAll_unique [OF assms(4), of clk newID] assms(5) by simp
qed

lemma alerts_idempotent_witness:
  "snd (EvaluateAll ex_clocks ex_alert_id (snd (EvaluateAll ex_clocks ex_alert_id (initial_sys ex_watched)))) =
     snd (EvaluateAll ex_clocks ex_alert_id (initial_sys ex_watched)) \<and>
   map alt_DedupKey (alerts (s_db (snd (EvaluateAll ex_clocks ex_alert_id (initial_sys ex_watched))))) = [KeyRuntime 7]"
proof
  have "alerts ex_watched = []" by (simp add: ex_watched_def ex_defs)
  then show "snd (EvaluateAll ex_clocks ex_alert_id (snd (EvaluateAll ex_clocks ex_alert_id (initial_sys ex_watched)))) =
     snd (EvaluateAll ex_clocks ex_alert_id (initial_sys ex_watched))"
    using alerts_idempotent [OF ex_alert_id_inj _ _ _ surjective_pairing, of _ "initial_sys ex_watched" ex_clocks]
    by (simp add: alerts_unique_def)
  show "map alt_DedupKey (alerts (s_db (snd (EvaluateAll ex_clocks ex_alert_id (initial_sys ex_watched))))) = [KeyRuntime 7]"
    by code_simp
qed

end
