(* ===== verification/Spec2Isabelle.thy ===== *)
theory Spec2Isabelle
  imports Supplement
begin

text \<open>
  NodeHive is a control plane for fleets of GPU nodes (\<open>src/gpu-platform\<close>, in Go). Tenants
  (organisations) launch container workloads on the GPUs of their nodes; an agent on each node is
  told what to run through an outbox of commands and reports back over a stream; usage is metered
  into a credit ledger; users, sessions, invitations, API keys, projects, budgets, reservations and
  alerts surround this core, and a REST API serves all of it. The development models the control
  plane from its environment variables to its responses, and the agent from its flags to the Docker
  commands it runs.

  \<^bold>\<open>State.\<close> \<open>Schema.db\<close> is one record of tables, a table a list of rows (\<open>Domain\<close> has the rows
  with the names of the Go fields). \<open>Schema.sys\<close> is what the services share: the database, a
  schedule of database faults, the nudges, hints and audit events they emitted. A service method is a
  function from its arguments and \<open>sys\<close> to a result (\<open>err + 'a\<close>) and a new \<open>sys\<close>. A transaction
  is a function \<open>db \<Rightarrow> err + 'a \<times> db\<close>; \<open>atomically\<close> runs one against the fault schedule and rolls
  back on an error, as the deferred \<open>tx.Rollback\<close> of the code does. \<open>Http.server\<close> adds the streams,
  the event hub, mail, jobs and limiters of the process; a handler is a function of its context
  (\<open>Http.ctx\<close>) and the server to a response and a server. \<open>Agent.agent\<close> is the agent: its command
  tracker, its host (that of the executor), what it sent, what it runs. UUIDs, random bytes and the two clocks (of the
  database and of the process) are arguments; time is in microseconds (nanoseconds in \<open>Config\<close> and
  \<open>Agent\<close>, as in \<open>time.Duration\<close>), money is rational and rounded where a \<open>numeric\<close> column stores it.

  \<^bold>\<open>Third-party code\<close> is a parameter: \<open>hash\<close> (SHA-256); the fields of \<open>identity\<close> for bcrypt and
  the JWT library, whose documented behaviour is the hypotheses \<open>password_law\<close> and \<open>token_law\<close>; those
  of \<open>api\<close> for the HTTP client, \<open>uuid.Parse\<close>, the texts of the driver and PostgreSQL's own functions
  (\<open>postgres\<close>); \<open>mux\<close> for chi; \<open>tls_library\<close> for X.509; \<open>host\<close> for Docker and \<open>machine\<close> for the
  files and commands of a node.

  \<^bold>\<open>Components\<close> (theory: source under \<open>internal/\<close> unless a path says otherwise).
  \<^item> \<open>Prelude\<close>, \<open>Domain\<close> (\<open>domain/domain.go\<close>), \<open>Schema\<close>: vocabulary, rows, database. \<open>Json\<close>,
    \<open>Timestamps\<close>, \<open>Strconv\<close>: the parts of Go's \<open>encoding/json\<close>, \<open>time\<close>, \<open>strings\<close>, \<open>strconv\<close> and \<open>bufio\<close> the code uses.
  \<^item> \<open>Image_Ref\<close>, \<open>Placement\<close>, \<open>Workloads\<close> (\<open>workloads/*.go\<close>): request checks, first-fit
    placement, launch, stop, status reports, the stuck sweep, the queue and its promotion.
  \<^item> \<open>Commands\<close> (\<open>commands/commands.go\<close>), \<open>Gateway\<close> (\<open>agentgw/*.go\<close>): the outbox, its delivery
    engine, the registry of streams and the handlers of agent messages.
  \<^item> \<open>Billing\<close> (\<open>billing/impl.go\<close>): admission, metering, ledger, rate cards, chargeback.
  \<^item> \<open>Nodes\<close> (\<open>nodes/repo.go\<close>, \<open>nodes/service.go\<close>, \<open>inventory/impl.go\<close>), \<open>Telemetry\<close> and
    \<open>Utilization\<close> (\<open>telemetry/*.go\<close>), \<open>Policy\<close> (\<open>policy/impl.go\<close>): enrolment, inventory, samples,
    retention, the utilisation series, idle reclaim.
  \<^item> \<open>Accounts\<close>, \<open>Sessions\<close>, \<open>Memberships\<close>, \<open>API_Keys\<close>, \<open>OAuth\<close> (\<open>identity/*.go\<close>): sign-in,
    refresh sessions, email tokens, members, invitations, join codes, keys, the exchange with Google.
  \<^item> \<open>Projects\<close> (\<open>nodes/projects.go\<close>, \<open>departments.go\<close>, \<open>templates.go\<close>, \<open>detail.go\<close>), \<open>Ops\<close>
    (\<open>ops/*.go\<close>): projects, budgets, reservations, alert rules.
  \<^item> \<open>Audit_Log\<close> (\<open>audit/impl.go\<close> and the trigger of \<open>migrations/0016_observability.sql\<close>), \<open>Hub\<close>
    (\<open>events/hub.go\<close>), \<open>Email\<close> (\<open>email/email.go\<close>), \<open>Health\<close> and \<open>Scrape\<close> (\<open>obs/*.go\<close>).
  \<^item> \<open>Rate_Limit\<close>, \<open>Views\<close>, \<open>Http\<close>, \<open>Http_Accounts\<close>, \<open>Http_Fleet\<close>, \<open>Http_Admin\<close>, \<open>Installer\<close>,
    \<open>Router\<close> (\<open>httpapi/*.go\<close>): limiters, JSON of the answers, context and middlewares, the handlers
    by area, the installer script, the routes and \<open>ServeHTTP\<close>.
  \<^item> \<open>Config\<close> (\<open>platform/config\<close>), \<open>Startup\<close> (\<open>platform/tlsboot\<close>, \<open>cmd/controlplane/main.go\<close>):
    environment, transport authority, wiring, and the background loops, each as one tick.
  \<^item> \<open>Executor\<close>, \<open>Probe\<close>, \<open>Agent\<close> (\<open>agent/*\<close>, \<open>cmd/agent/main.go\<close>): both executors, discovery,
    samples and the identity file, the command tracker and handler, enrolment, dialling, reconnecting.

  \<^bold>\<open>How they interact.\<close> \<open>Control_Plane.cp_step\<close> is one call, agent message, sweep or goroutine of
  the workload, node and billing services; \<open>Tenancy.id_step\<close> one call of the identity, project and
  ops services; \<open>Platform.platform_step\<close> one of either, or a transaction another call commits in
  between. \<open>tx_step\<close> and \<open>id_tx\<close> are the single transactions. \<open>Startup.process_step\<close> is what the
  process does: a request, a tick of a loop, a step of the gateway, or a change in memory only;
  \<open>Agent.agent_step\<close> is a delivery to the agent, the end of a command, or anything the agent does
  besides. The locales \<open>tx_invariant\<close> and
  \<open>platform_invariant\<close> state the contract of an invariant (every transaction keeps it) and give,
  through \<open>step_system\<close>, that it holds along every run under every fault schedule, from start-up on; they are
  interpreted for the allocation invariant, the billing invariant, the ledger and the memberships.
  \<open>call_logic\<close> carries a relation from transactions to composed calls and \<open>server_logic\<close> on to
  handlers and middlewares: with runs of transactions it makes a request a step of the platform, with
  equality it makes a handler a read, with \<open>key_used\<close> it follows the touch of an API key.
  \<open>use_limited\<close> is the contract shared by enrolment tokens and join codes, \<open>outbox_op\<close> the one of the
  operations on the outbox, \<open>privilege_order\<close> the ranking of roles, \<open>workload_host\<close> what the agent
  expects of an executor (interpreted by the simulated one) and \<open>inspecting\<close> a relation that every
  \<open>docker inspect\<close> keeps (interpreted by the commands a host was given, which shows that a launch of a container
  that already runs only inspects).

  \<^bold>\<open>Lemma groups.\<close> \<open>Allocation\<close>: a GPU is held once, by a live workload on its node. \<open>Metering\<close>: no
  GPU second is billed twice, the balance follows the ledger. \<open>Lifecycle\<close>: what a launch commits,
  what the sweep repairs, absorbing states, tenant isolation, the queue. \<open>Fleet\<close>: enrolment,
  credentials, removal. \<open>Reporting\<close>: reports, rate cards, retention. \<open>Tenancy\<close>: memberships mirror
  user rows, the last owner, invitations, join codes. \<open>Access\<close>: sessions refine a map, the round trip
  from registration to an authenticated call. \<open>Http_Runs\<close>: every request is a run of transactions.
  \<open>Http_Gates\<close>, \<open>Served\<close>: the envelope of answers, the middlewares, reads, hidden workloads and
  secrets, and the same through \<open>ServeHTTP\<close>. \<open>Fixture\<close> and \<open>Scenes\<close> are a concrete installation, requests,
  a start and an agent, on which the witnesses evaluate the model; \<open>Supplement\<close> has further facts.

  \<^bold>\<open>Bounds.\<close> Three loops of the code run until a batch is not full or the process ends. \<open>deliverNode\<close>
  ends by the measure \<open>due_count\<close>, since each batch that delivers leaves fewer rows due.
  \<open>batchedDelete\<close> takes fuel, and C37 gives an amount that suffices, the number of full batches plus
  one. The reconnect loop of the agent is a recursion over the ends of its streams. All other
  recursions are structural. Integers that travel in 32 bits are words (\<open>32 word\<close>), Go's \<open>int\<close> is kept
  in 64 bits where it is multiplied or converted, and parsed durations are checked against 63 bits.

  \<^bold>\<open>Not modelled.\<close> Generated protocol code and the web front end; gRPC, HTTP and PostgreSQL
  themselves; the Sentry client and the Prometheus exposition with its request histogram; \<open>db.Open\<close>
  and the migrations (arguments of \<open>start\<close>); \<open>platform/events\<close>, \<open>agent/transport\<close> and the collector
  of \<open>agent/metrics\<close>, which nothing uses; tickers, shutdown and the access log. The text of an error
  of the driver is a parameter. SQL isolation is modelled as atomic transactions interleaved in any
  order, with the rows other transactions lock as the argument \<open>locked\<close> of the placement scan, and a
  request reads its clocks once. \<open>float64\<close> amounts are rationals, so rounding of binary fractions and NaN are
  outside the model except where a configuration variable or a sample is parsed.
\<close>

section \<open>Allocation\<close>





text \<open>
  C3. A launch that is refused, by validation, by the admission gate, by a constraint or by a
  fault of the database, leaves the database as it was.
\<close>

theorem launch_refused_unchanged:
  assumes "Launch sv clk locked wid cmdID rnd orgID req s = (Inl e, s')"
  shows "s_db s' = s_db s"
  using assms by (cases rule: Launch_cases) simp_all

theorem launch_refused_unchanged_witness:
  "s_db (snd (Launch ex_service ex_clocks (\<lambda>_. False) 10 11 [] 1 (ex_request\<lparr>lr_GPUCount := 17\<rparr>) (initial_sys ex_db))) = ex_db"
proof -
  have "Launch ex_service ex_clocks (\<lambda>_. False) 10 11 [] 1 (ex_request\<lparr>lr_GPUCount := 17\<rparr>) (initial_sys ex_db) =
      (Inl (ErrInvalidRequest ''gpu_count must be between 1 and 16''), initial_sys ex_db)"
    using ex_valid by (auto simp: Launch_def validateLaunch_def launch_limits Let_def ex_request_def split: if_splits)
  from launch_refused_unchanged [OF this] show ?thesis
    by (simp only: \<open>Launch _ _ _ _ _ _ _ _ _ = _\<close> snd_conv) (simp add: initial_sys_def)
qed

text \<open>
  C4. A launch that returns a placed workload holds exactly the requested number of GPUs, all idle,
  of the requested type, in the caller's organisation, unlocked and on one online node before the
  call; the outbox gains exactly one launch command for it, whose GPU count and idle timeout did
  not wrap in their 32 bits and whose image consists of reference characters only and does not
  start with a dash.
\<close>

theorem launch_placed:
  assumes "alloc_inv (s_db s)" and "Launch sv clk locked wid cmdID rnd orgID req s = (Inr wl, s')"
    and "w_NodeID wl = Some n"
  shows "\<exists>p c. p_nodeID p = n \<and> node_online n (s_db s) \<and>
     active_gpu_ids wid (s_db s') = p_gpuIDs p \<and> distinct (p_gpuIDs p) \<and>
     int (length (p_gpuIDs p)) = w_RequestedGPUCount wl \<and> length (p_gpuUUIDs p) = length (p_gpuIDs p) \<and>
     (\<forall>gid \<in> set (p_gpuIDs p). \<exists>g \<in> set (gpus (s_db s)). g_ID g = gid \<and> g_Status g = GPUIdle \<and>
        g_NodeID g = n \<and> g_OrgID g = orgID \<and> type_matches (lr_GPUType req) g \<and> \<not> locked gid) \<and>
     agent_commands (s_db s') = agent_commands (s_db s) @ [c] \<and> launch_command_for wl p c \<and>
     list_all is_ref_char (w_Image wl) \<and> w_Image wl \<noteq> '''' \<and> is_alnum (hd (w_Image wl))"
  using assms by (rule Launch_placed)

theorem launch_placed_witness:
  "\<exists>wl s'. Launch ex_service ex_clocks (\<lambda>_. False) 10 11 [] 1 ex_request (initial_sys ex_db) = (Inr wl, s') \<and>
     length (active_gpu_ids 10 (s_db s')) = 2"
proof -
  obtain wl s' where l: "Launch ex_service ex_clocks (\<lambda>_. False) 10 11 [] 1 ex_request (initial_sys ex_db) = (Inr wl, s')"
    "w_NodeID wl = Some 3" "w_RequestedGPUCount wl = 2" by (rule ex_launched)
  have "alloc_inv (s_db (initial_sys ex_db))" using ex_alloc by (simp add: initial_sys_def)
  from launch_placed [OF this l(1,2)] l show ?thesis by fastforce
qed

text \<open>
  C5. With no row locked by another transaction, a launch is queued only when no single online
  node has enough idle matching GPUs in the organisation, and queueing touches no GPU, attachment
  or command.
\<close>

theorem launch_queued:
  assumes "alloc_inv (s_db s)" and "Launch sv clk (\<lambda>_. False) wid cmdID rnd orgID req s = (Inr wl, s')"
    and "w_NodeID wl = None"
  shows "gpus (s_db s') = gpus (s_db s) \<and> workload_gpus (s_db s') = workload_gpus (s_db s) \<and>
     agent_commands (s_db s') = agent_commands (s_db s) \<and> w_Status wl = WorkloadQueued \<and>
     (\<forall>n. int (length (by_node (candidates orgID (lr_GPUType req) (s_db s)) n)) < w_RequestedGPUCount wl)"
  using assms by (rule Launch_queued) simp


theorem launch_queued_witness:
  "\<exists>wl s'. Launch ex_service ex_clocks (\<lambda>_. False) 10 11 [] 1 ex_request (initial_sys ex_running) = (Inr wl, s') \<and>
     gpus (s_db s') = gpus ex_running"
proof -
  obtain wl s' where l: "Launch ex_service ex_clocks (\<lambda>_. False) 10 11 [] 1 ex_request (initial_sys ex_running) = (Inr wl, s')"
    "w_NodeID wl = None" by (rule ex_waits)
  have "alloc_inv (s_db (initial_sys ex_running))" using ex_running_alloc by simp
  from launch_queued [OF this l] l(1) show ?thesis by auto
qed

text \<open>
  C6. An admitted, valid request for existing users, projects, departments and templates never
  fails when the database does not: it is placed or queued. In particular the claim of idle GPUs
  never runs into the unique index of active attachments, nor into the row-count guard.
\<close>

theorem launch_admitted_succeeds:
  assumes "alloc_inv (s_db s)" and "s_faults s = []" and "validateLaunch req0 = Inr req"
    and "sv_billing sv \<noteq> Some True \<or>
      admissible (go_now clk) orgID (lr_DepartmentID req) (lr_ProjectID req) (s_db s)"
    and "launch_refs_ok req orgID wid cmdID (s_db s)"
  shows "\<exists>wl. fst (Launch sv clk locked wid cmdID rnd orgID req0 s) = Inr wl"
  using assms by (rule Launch_total)

theorem launch_admitted_succeeds_witness:
  "\<exists>wl. fst (Launch (ex_service\<lparr>sv_billing := None\<rparr>) ex_clocks (\<lambda>_. True) 10 11 [] 1 ex_request (initial_sys ex_db)) = Inr wl"
proof (rule launch_admitted_succeeds)
  show "launch_refs_ok ex_request 1 10 11 (s_db (initial_sys ex_db))" by (simp add: launch_refs_ok_def ex_defs)
qed (simp_all add: ex_alloc ex_valid)

section \<open>Billing\<close>



text \<open>
  C8. A metered slice appends one cost record per GPU of the workload, for the seconds of the
  slice at the rate in force at its end, debits the ledger once by the sum in rupees, and moves the
  watermark to the end of the slice.
\<close>

theorem slice_charged_once:
  assumes "MeterWorkload clk wid d = Inr ((), d')" and "workload_by_id wid d = Some w"
    and "meter_slice (go_now clk) w = Some (fr, until)"
  shows "map cr_Amount (cost_records d') = map cr_Amount (cost_records d) @
      map (\<lambda>g. num4 (slice_amount (w_OrgID w) (snd g) fr until d)) (workload_gpu_models wid d) \<and>
    ledger_sum (w_OrgID w) (credit_ledger d') = ledger_sum (w_OrgID w) (credit_ledger d) -
      (if 0 < slice_total w fr until (workload_gpu_models wid d) d
       then num4 (slice_total w fr until (workload_gpu_models wid d) d * usdToINR) else 0) \<and>
    (\<exists>v. workload_by_id wid d' = Some v \<and> w_metered_until v = Some until)"
  using meter_charge [OF assms] by blast

theorem slice_charged_once_witness:
  "\<exists>d'. MeterWorkload ex_clocks 7 ex_running = Inr ((), d') \<and> map cr_Amount (cost_records d') = [2]"
proof -
  have "\<not> isl (MeterWorkload ex_clocks 7 ex_running)" by code_simp
  then obtain d' where m: "MeterWorkload ex_clocks 7 ex_running = Inr ((), d')"
    by (cases "MeterWorkload ex_clocks 7 ex_running") auto
  have w: "workload_by_id 7 ex_running = Some (ex_workload 7 WorkloadRunning)" by (simp add: workload_by_id_def ex_defs)
  have sl: "meter_slice (go_now ex_clocks) (ex_workload 7 WorkloadRunning) = Some (0, hour)" by code_simp
  have a: "map (\<lambda>g. num4 (slice_amount (w_OrgID (ex_workload 7 WorkloadRunning)) (snd g) 0 hour ex_running))
      (workload_gpu_models 7 ex_running) = [2]" by code_simp
  have "cost_records ex_running = []" by (simp add: ex_defs)
  then show ?thesis using slice_charged_once [OF m w sl] m a by simp
qed

text \<open>
  C9. Without faults the admission gate admits a launch exactly when the organisation has credit
  and no positive budget that applies to it has been spent this month, and it changes nothing.
\<close>

theorem admission_gate:
  assumes "s_faults s = []"
  shows "snd (AuthorizeLaunch True now orgID dept proj s) = s \<and>
    (fst (AuthorizeLaunch True now orgID dept proj s) = Inr () \<longleftrightarrow> admissible now orgID dept proj (s_db s))"
  using AuthorizeLaunch_no_fault [OF assms] by blast

theorem admission_gate_witness: "admissible hour 1 None None ex_db"
proof -
  have "fst (AuthorizeLaunch True hour 1 None None (initial_sys ex_db)) = Inr ()"
    using ex_authorized by (simp add: authorize_def ex_service_def ex_clocks_def)
  then show ?thesis using admission_gate [of "initial_sys ex_db" hour 1 None None] by simp
qed

section \<open>Recovery and delivery\<close>

text \<open>
  C10. After a stuck sweep that did not fail, a GPU is in use exactly when a live workload holds it,
  and no workload is stuck: none is live on a node that has been gone for two minutes, none has
  been stopping for two minutes.
\<close>

theorem sweep_repairs:
  assumes "SweepStuck sv clk s = (Inr n, s')" and "alloc_inv (s_db s)"
  shows "(\<forall>g \<in> set (gpus (s_db s')). g_Status g = GPUInUse \<longleftrightarrow> held (s_db s') (g_ID g)) \<and>
    (\<forall>w \<in> set (workloads (s_db s')). \<not> sweep_stuck_row (db_now clk) (s_db s') w)"
proof -
  obtain x where tx: "sweep_tx clk (s_db s) = Inr (x, s_db s')" using assms(1) by (rule SweepStuck_Inr)
  have inv: "alloc_inv (s_db s')" using assms(2) tx by (rule sweep_alloc)
  have "g_Status g = GPUInUse" if "g \<in> set (gpus (s_db s'))" "held (s_db s') (g_ID g)" for g
    using held_in_use [OF inv that] .
  then show ?thesis using sweep_tx_repairs [OF tx] by blast
qed

theorem sweep_repairs_witness:
  "list_all (\<lambda>w. \<not> sweep_stuck_row hour (s_db (snd (SweepStuck ex_service ex_clocks (initial_sys ex_running)))) w)
     (workloads (s_db (snd (SweepStuck ex_service ex_clocks (initial_sys ex_running)))))"
proof -
  obtain r s' where r: "SweepStuck ex_service ex_clocks (initial_sys ex_running) = (r, s')" by fastforce
  have "\<exists>n. r = Inr n"
    using r unfolding SweepStuck_def sweep_tx_def Let_def atomically_def
    by (auto split: prod.splits if_splits)
  then show ?thesis using sweep_repairs [of ex_service ex_clocks "initial_sys ex_running" _ s'] r ex_running_alloc
    by (auto simp: ex_clocks_def list_all_iff)
qed

text \<open>
  C11. Stopped and failed are absorbing, together with their stopping time, under every transaction
  of the control plane with one exception: the status write of an agent report that names a state
  other than running, stopped or failed.
\<close>

theorem terminal_absorbing:
  assumes "tx_step d d'" and "alloc_inv d" and "w \<in> set (workloads d)" and "terminal_state (w_Status w)"
  shows "(\<exists>v \<in> set (workloads d'). w_ID v = w_ID w \<and> w_Status v = w_Status w \<and> w_StoppedAt v = w_StoppedAt w) \<or>
    (\<exists>wid st. live_state st \<and> set_status wid st d = Inr ((), d'))"
  using tx_step_terminal [OF assms(1,2)] assms(3,4) unfolding terminal_kept_def by blast

theorem terminal_absorbing_witness:
  "\<exists>v \<in> set (workloads (snd (SupersedeForTerminalWorkloads ex_stopped))). w_Status v = WorkloadStopped"
proof -
  let ?d = "ex_stopped\<lparr>workloads := upd (\<lambda>w. w_ID w = 7 \<and> w_Status w = WorkloadQueued) (\<lambda>w. w\<lparr>w_Status := WorkloadStopped,
      w_Stage := ''stopped'', w_StoppedAt := Some hour, w_StopReason := Some StopUser\<rparr>) (workloads ex_stopped)\<rparr>"
  have step: "tx_step ex_stopped ?d" by (rule tx_cancel [of hour 7]) (simp add: cancel_tx_def Let_def)
  have "ex_workload 7 WorkloadStopped \<in> set (workloads ex_stopped)" "terminal_state (w_Status (ex_workload 7 WorkloadStopped))"
    by (simp_all add: ex_stopped_def ex_workload_def)
  from terminal_absorbing [OF step ex_stopped_alloc this] show ?thesis
    by (auto simp: ex_stopped_def ex_defs SupersedeForTerminalWorkloads_def Let_def)
qed




text \<open>
  C13. In every state an agent reaches, whatever is delivered and in whatever order commands end: no command
  is executed twice at a time, two executions under one id have at least 256 other commands between their
  ends, a duplicate of a running command is dropped, and a duplicate of one of the last 256 is
  answered with the cached result and nothing else.
\<close>

theorem agent_executes_once:
  assumes "(agent_step ex)\<^sup>*\<^sup>* (new_agent x) a"
  shows "distinct (filter (\<lambda>i. i \<noteq> '''') (map fst (an_running a))) \<and>
    (\<forall>i j. i < j \<and> j < length (an_log a) \<and> an_log a ! i = an_log a ! j \<longrightarrow> i + 256 < j) \<and>
    (\<forall>cid cmd cmd'. (cid, cmd') \<in> set (an_running a) \<and> cid \<noteq> '''' \<longrightarrow> receive cid cmd a = a) \<and>
    (\<forall>cid cmd. cid \<in> set (drop (length (an_log a) - 256) (an_log a)) \<and> cid \<noteq> '''' \<longrightarrow>
       (\<exists>r. cr_CommandId r = cid \<and> OutResult r \<in> set (an_sent a) \<and> receive cid cmd a = a\<lparr>an_sent := an_sent a @ [OutResult r]\<rparr>))"
proof -
  have inv: "agent_inv a" using assms by (rule agent_run_inv)
  have n: "cmdDoneCacheSize = 256" by (simp add: cmdDoneCacheSize_def)
  show ?thesis
    using inv running_redelivered [OF inv] redelivered [OF inv]
    unfolding n by (auto simp: agent_inv_def running_ids_def spaced_def n)
qed

theorem agent_executes_once_witness:
  "\<exists>r. cr_CommandId r = ''c1'' \<and> receive ''c1'' DoGetInventory ex_done = ex_done\<lparr>an_sent := an_sent ex_done @ [OutResult r]\<rparr>"
proof -
  have "(''c1'', DoGetInventory) \<in> set (an_running ex_busy)" by code_simp
  then have "agent_step (dev_executor hour) ex_busy ex_done" unfolding ex_done_def by (rule agent_step.ended)
  moreover have "agent_step (dev_executor hour) (new_agent NewDev) ex_busy" unfolding ex_busy_def by (rule agent_step.recv)
  ultimately have run: "(agent_step (dev_executor hour))\<^sup>*\<^sup>* (new_agent NewDev) ex_done" by (meson converse_rtranclp_into_rtranclp r_into_rtranclp)
  have "''c1'' \<in> set (drop (length (an_log ex_done) - 256) (an_log ex_done))" by code_simp
  then show ?thesis
    using agent_executes_once [OF run, THEN conjunct2, THEN conjunct2, THEN conjunct2, rule_format, of "''c1''" DoGetInventory] by auto
qed



text \<open>
  C15. An agent acts on the workloads of its own node only: a status report for any other workload,
  known or unknown, is answered with an error and changes nothing, and so is a stage report.
\<close>

theorem agent_scope:
  assumes "\<forall>w. workload_by_id wid (s_db s) = Some w \<longrightarrow> w_NodeID w \<noteq> Some nodeID"
  shows "(\<exists>e. fst (UpdateStatus sv clk cmdID nodeID wid st ssh jup msg logs s) = Inl e) \<and>
    s_db (snd (UpdateStatus sv clk cmdID nodeID wid st ssh jup msg logs s)) = s_db s \<and>
    s_db (snd (RecordStageEvent clk nodeID wid stage s)) = s_db s"
  using UpdateStatus_foreign [of wid s nodeID sv clk cmdID st ssh jup msg logs]
    RecordStageEvent_foreign [of wid s nodeID clk stage] assms by blast

theorem agent_scope_witness:
  "s_db (snd (UpdateStatus ex_service ex_clocks 11 99 7 WorkloadStopped '''' '''' '''' '''' (initial_sys ex_running))) = ex_running"
  using agent_scope [of 7 "initial_sys ex_running" 99 ex_service ex_clocks 11 WorkloadStopped]
  by (simp add: workload_by_id_def ex_defs)

text \<open>
  C16. A command of a kind the agent does not know is never answered: no result is sent for it in any later
  state, and every redelivery is dropped in silence.
\<close>

theorem unknown_command_lost:
  assumes "(agent_step ex)\<^sup>*\<^sup>* (new_agent x) a" and "cid \<noteq> ''''" and "cid \<notin> set (ct_inflight (an_cmds a))"
    and "\<forall>r. OutResult r \<in> set (an_sent a) \<longrightarrow> cr_CommandId r \<noteq> cid"
    and "(agent_step ex)\<^sup>*\<^sup>* (handleCommand ex found cid DoOther a) b"
  shows "(\<forall>r. OutResult r \<in> set (an_sent b) \<longrightarrow> cr_CommandId r \<noteq> cid) \<and> (\<forall>cmd. receive cid cmd b = b)"
proof -
  have inv: "agent_inv a" using assms(1) by (rule agent_run_inv)
  have "agent_inv (handleCommand ex found cid DoOther a)"
    using rtranclp_trans [OF assms(1) handleCommand_run] by (rule agent_run_inv)
  from lost_run [OF assms(5) this unknown_lost [OF inv assms(2-4)] assms(2)] have "agent_inv b" "lost cid b" by simp_all
  then show ?thesis using lost_dropped assms(2) by (auto simp: lost_def)
qed

theorem unknown_command_lost_witness:
  "receive ''c9'' DoGetInventory (handleCommand (dev_executor hour) None ''c9'' DoOther (new_agent NewDev)) =
     handleCommand (dev_executor hour) None ''c9'' DoOther (new_agent NewDev)"
  using unknown_command_lost [OF rtranclp.rtrancl_refl _ _ _ rtranclp.rtrancl_refl, of "''c9''" NewDev "dev_executor hour" None]
  by (simp add: new_agent_def empty_tracker_def)

section \<open>The API\<close>

text \<open>
  C17. On every route behind the bearer middleware a request whose token is missing or does not authenticate
  is answered 401 with an error body, and the database is left as it was.
\<close>

theorem api_requires_token:
  assumes "mx_match mx (map fst (routes mx)) (c_req c) = Some (i, params)" and "i < length (routes mx)"
    and "routes mx ! i \<in> set (Route ''/api/v1'' authed_routes)" and "hq_Method (c_req c) \<noteq> ''OPTIONS''"
    and "bearerToken (c_req c) = '''' \<or> isl (fst (authenticateToken c (bearerToken (c_req c)) (h_sys h)))"
    and "ServeHTTP mx c h = (r, h')"
  shows "hr_Status r = 401 \<and> (\<exists>msg. hr_Body r = Body (error_body ''unauthorized'' msg)) \<and> s_db (h_sys h') = s_db (h_sys h)"
  using ServeHTTP_unauthenticated [OF assms(1-4) _ assms(6)] assms(5) by (simp add: unauthenticated_def)

theorem api_requires_token_witness:
  "hr_Status (fst (ServeHTTP (ex_mux 30) (ex_ctx zero_user (ex_http ''DELETE'' ''Bearer forged'' '''')) (new_server hour ex_tenant))) = 401"
proof -
  have "isl (fst (authenticateToken (ex_ctx zero_user (ex_http ''DELETE'' ''Bearer forged'' ''''))
      (bearerToken (c_req (ex_ctx zero_user (ex_http ''DELETE'' ''Bearer forged'' '''')))) (h_sys (new_server hour ex_tenant))))"
    by code_simp
  then show ?thesis
    using api_requires_token [OF ex_mux_match _ route_of_users _ _ surjective_pairing, of 30 "ex_ctx zero_user (ex_http ''DELETE'' ''Bearer forged'' '''')"]
    by (simp add: routes_length) (simp add: ex_http_defs)
qed

text \<open>
  C18. A workload of another organisation, and one of a restricted project to a principal who neither
  launched it, nor is in the project, nor administers the organisation, does not exist for the API: detail, stop, logs
  and events answer 404 and leave the server as it was, its database, audit events and notifications
  included.
\<close>

theorem hidden_workload_not_found:
  assumes "f \<in> set [getWorkload, stopWorkload, workloadLogs, workloadEvents]"
    and "a_parseUUID (c_api c) (hq_Param (c_req c) ''id'') = Some i" and "i \<noteq> uuid_Nil" and "s_faults (h_sys h) = []"
    and "(\<forall>w \<in> set (workloads (s_db (h_sys h))). w_ID w = i \<longrightarrow> w_OrgID w \<noteq> org_of (c_user c)) \<or>
      (\<exists>w p q. workload_by_id i (s_db (h_sys h)) = Some w \<and> w_OrgID w = org_of (c_user c) \<and> w_UserID w \<noteq> u_ID (c_user c) \<and>
        \<not> AtLeast (u_Role (c_user c)) RoleAdmin \<and> w_ProjectID w = Some p \<and>
        find (\<lambda>r. pj_ID r = p \<and> pj_OrgID r = org_of (c_user c)) (projects (s_db (h_sys h))) = Some q \<and>
        pj_Visibility q = ''restricted'' \<and> \<not> is_project_member p (u_ID (c_user c)) (s_db (h_sys h)))"
  shows "f c h = (writeErr 404 ''not_found'' ''workload not found'', h)"
  using assms(5)
proof (elim disjE exE conjE)
  show ?thesis if "\<forall>w \<in> set (workloads (s_db (h_sys h))). w_ID w = i \<longrightarrow> w_OrgID w \<noteq> org_of (c_user c)"
    using foreign_workload_hidden [OF _ assms(2-4) that] assms(1) by (simp add: workload_handlers_def)
qed (use restricted_workload_hidden [OF _ assms(2-4)] assms(1) in \<open>simp add: workload_handlers_def\<close>)

theorem hidden_workload_not_found_witness:
  "stopWorkload (ex_ctx (ex_account 5 (Some 77) ''b@rival'' RoleOwner) (ex_http ''POST'' '''' ''7'')) (new_server hour ex_running) =
     (writeErr 404 ''not_found'' ''workload not found'', new_server hour ex_running)"
  by (rule hidden_workload_not_found [where i = 7])
    (simp_all add: ex_http_defs new_server_def org_of_def ex_account_defs)

text \<open>
  C19. An answer of the workload routes that contains an SSH password or logs is about a workload of the
  caller's organisation that the caller launched, or the caller administers the organisation.
\<close>

theorem workload_secrets_guarded:
  assumes "f \<in> {getWorkload, workloadLogs} \<and> hr_Body (fst (f c h)) = Body j \<or>
      f = listWorkloads \<and> (\<exists>items. hr_Body (fst (f c h)) = Body (JArr items) \<and> j \<in> set items)"
    and "jkeys j \<inter> {''ssh_password'', ''logs''} \<noteq> {}"
  shows "\<exists>i. (a_parseUUID (c_api c) (hq_Param (c_req c) ''id'') = Some i \<or> jget ''id'' j = Some (JStr (uuid_str i))) \<and>
    (\<exists>w \<in> set (workloads (s_db (h_sys h))). w_ID w = i \<and> w_OrgID w = org_of (c_user c) \<and>
       (w_UserID w = u_ID (c_user c) \<or> AtLeast (u_Role (c_user c)) RoleAdmin))"
proof -
  have keys: "secret_keys_of j \<noteq> {}" using assms(2) by (simp add: secret_keys_of_def)
  have "\<exists>i. (a_parseUUID (c_api c) (hq_Param (c_req c) ''id'') = Some i \<or> jget ''id'' j = Some (JID i)) \<and> entitled c (s_db (h_sys h)) i"
    using assms(1) getWorkload_secrets [OF _ keys] workloadLogs_secrets [OF _ keys] listWorkloads_secrets [OF _ _ keys] by blast
  then show ?thesis by (simp add: entitled_def JID_def)
qed

theorem workload_secrets_guarded_witness:
  "\<exists>w \<in> set (workloads ex_running). w_OrgID w = 1 \<and> (w_UserID w = 2 \<or> AtLeast RoleMember RoleAdmin)"
proof -
  have b: "hr_Body (fst (workloadLogs (ex_ctx (ex_account 2 (Some 1) ''a@acme'' RoleMember) (ex_http ''GET'' '''' ''7'')) (new_server hour ex_running))) =
     Body (JObj [(''logs'', JStr '''')])" by code_simp
  have "jkeys (JObj [(''logs'', JStr '''')]) \<inter> {''ssh_password'', ''logs''} \<noteq> {}" by simp
  from workload_secrets_guarded [OF disjI1 [OF conjI [OF insertI2 [OF singletonI] b]] this] show ?thesis
    by (auto simp: ex_ctx_def new_server_def org_of_def ex_account_def ex_user_def)
qed

text \<open>
  C20. A GET route of the organisation changes no table, apart from the time of last use of the API key it
  was called with; with an access token it changes nothing at all.
\<close>

theorem member_reads_change_nothing:
  assumes "mx_match mx (map fst (routes mx)) (c_req c) = Some (i, params)" and "i < length (routes mx)"
    and "routes mx ! i \<in> set (Route ''/api/v1'' (Group authMiddleware (Group requireOrg org_routes)))"
    and "fst (fst (routes mx ! i)) = ''GET''" and "ServeHTTP mx c h = (r, h')"
  shows "\<exists>ks. s_db (h_sys h') = (s_db (h_sys h))\<lparr>api_keys := ks\<rparr> \<and>
    map (\<lambda>k. k\<lparr>ak_LastUsedAt := None\<rparr>) ks = map (\<lambda>k. k\<lparr>ak_LastUsedAt := None\<rparr>) (api_keys (s_db (h_sys h))) \<and>
    (has_prefix ''nhk_'' (bearerToken (c_req c)) \<or> ks = api_keys (s_db (h_sys h)))"
proof -
  obtain ks where ks: "s_db (h_sys h') = (s_db (h_sys h))\<lparr>api_keys := ks\<rparr>"
    "map (\<lambda>k. k\<lparr>ak_LastUsedAt := None\<rparr>) ks = map (\<lambda>k. k\<lparr>ak_LastUsedAt := None\<rparr>) (api_keys (s_db (h_sys h)))"
    using ServeHTTP_read(1) [OF assms] unfolding key_used_def by blast
  moreover have "ks = api_keys (s_db (h_sys h))" if "\<not> has_prefix ''nhk_'' (bearerToken (c_req c))"
    using ServeHTTP_read(2) [OF assms] that arg_cong [OF ks(1), of api_keys] by (simp add: APIKeyScheme_def)
  ultimately show ?thesis by blast
qed

theorem member_reads_change_nothing_witness:
  "\<exists>ks. s_db (h_sys (snd (ServeHTTP (ex_mux 27) (ex_ctx zero_user (ex_http ''GET'' ''Bearer nhk_k'' '''')) (new_server hour ex_tenant)))) =
     ex_tenant\<lparr>api_keys := ks\<rparr>"
proof -
  have "fst (fst (routes (ex_mux 27) ! 27)) = ''GET''"
    by (simp add: routes_def probe_routes_def public_routes_def authed_routes_def account_routes_def org_routes_def member_routes_def Group_def Route_def)
  from member_reads_change_nothing [OF ex_mux_match _ route_of_org this surjective_pairing,
      of "ex_ctx zero_user (ex_http ''GET'' ''Bearer nhk_k'' '''')" "new_server hour ex_tenant"]
  show ?thesis by (auto simp: routes_length new_server_def)
qed

text \<open>
  C21. Every route of the API answers in one envelope, whatever the request and the faults: the status is one
  of those the handlers use, an error is a code with a message, 204 has no body, JSON is labelled as
  JSON, and the request id comes back.
\<close>

theorem api_response_contract:
  assumes "mx_match mx (map fst (routes mx)) (c_req c) = Some (i, params)" and "i < length (routes mx)"
    and "routes mx ! i \<in> set (Route ''/api/v1'' (public_routes @ authed_routes))"
    and "ServeHTTP mx c h = (r, h')"
  shows "hr_Status r \<in> {200, 201, 202, 204, 302, 400, 401, 402, 403, 404, 409, 429, 500} \<and>
    (400 \<le> hr_Status r \<longrightarrow> (\<exists>code msg. hr_Body r = Body (JObj [(''error'', JObj [(''code'', JStr code), (''message'', JStr msg)])]))) \<and>
    (hr_Status r = 204 \<longrightarrow> hr_Body r = NoBody) \<and>
    (\<forall>j. hr_Body r = Body j \<longrightarrow> (''Content-Type'', ''application/json'') \<in> set (hr_Header r)) \<and>
    (\<exists>rid. (''X-Request-ID'', rid) \<in> set (hr_Header r))"
  using ServeHTTP_enveloped [OF assms] unfolding enveloped_def statuses_def error_body_def by (auto simp only: list.set)

theorem api_response_contract_witness:
  "hr_Status (fst (ServeHTTP (ex_mux 7) (ex_ctx zero_user (ex_http ''POST'' '''' '''')) (new_server hour ex_tenant)))
     \<in> {200, 201, 202, 204, 302, 400, 401, 402, 403, 404, 409, 429, 500}"
  using api_response_contract [OF ex_mux_match _ _ surjective_pairing, of 7, OF _ route_of_api] by (simp add: routes_length)

section \<open>Accounts\<close>

text \<open>
  C22. An organisation that has an owner keeps one: no sequence of calls of the service leaves it
  without, when a leaving user is shown the role of its own row. The calls run one after the
  other.
\<close>

theorem organisation_keeps_owner:
  assumes "member_step\<^sup>*\<^sup>* s t" and "member_inv (s_db s)" and "0 < ownerCount orgID (s_db s)"
  shows "0 < ownerCount orgID (s_db t)"
  using owners.run_keeps [OF assms(1), of orgID] assms(2,3) by simp

theorem organisation_keeps_owner_witness:
  "0 < ownerCount 1 (s_db (snd (LeaveOrg ex_identity ex_clocks 1 2 RoleOwner None (initial_sys ex_tenant))))"
proof (rule organisation_keeps_owner [OF r_into_rtranclp, OF do_leave])
  show "ex_account 2 (Some 1) ''a@acme'' RoleOwner \<in> set (users (s_db (initial_sys ex_tenant)))" by (simp add: ex_tenant_def)
  show "0 < ownerCount 1 (s_db (initial_sys ex_tenant))" by (simp add: ownerCount_def affected_def ex_account_defs)
qed (simp_all add: ex_tenant_members, simp add: standing_def ex_account_def)

text \<open>
  C23. The count of owners is read before the transaction: when the last two owners leave at the
  same time both pass the guard, both transactions commit, and no owner is left.
\<close>

theorem owner_race:
  assumes "s_faults s = []" and inv: "member_inv (s_db s)" and two: "ownerCount k (s_db s) = 2" and ne: "i \<noteq> j"
    and i: "memberRole k i (s_db s) = Inr RoleOwner" and j: "memberRole k j (s_db s) = Inr RoleOwner"
    and t1: "leave_tx clk k i None (s_db s) = Inr (u, d1)" and t2: "leave_tx clk' k j None d1 = Inr (v, d2)"
  shows "owner_guard k s = (Inr (), s) \<and> ownerCount k d2 = 0"
proof -
  have "id_tx (s_db s) d1" using t1 by (rule i_leave)
  then have "member_inv d1" using inv by (rule id_tx_member)
  moreover have "memberRole k j d1 = Inr RoleOwner" using memberRole_leave [OF t1 ne] j by simp
  ultimately have "Suc (ownerCount k d2) = ownerCount k d1" using t2 by (rule leave_one_owner)
  then show ?thesis using leave_one_owner [OF inv i t1] two owner_guard_passes [OF assms(1), of k] by simp
qed

theorem owner_race_witness:
  "\<exists>u d1 v d2. leave_tx ex_clocks 1 2 None ex_tenant = Inr (u, d1) \<and> leave_tx ex_clocks 1 5 None d1 = Inr (v, d2) \<and>
     owner_guard 1 (initial_sys ex_tenant) = (Inr (), initial_sys ex_tenant) \<and> ownerCount 1 d2 = 0"
proof -
  have "\<not> isl (bindE (leave_tx ex_clocks 1 2 None ex_tenant) (\<lambda>(u, d1). leave_tx ex_clocks 1 5 None d1))" by code_simp
  then obtain u d1 v d2 where t: "leave_tx ex_clocks 1 2 None ex_tenant = Inr (u, d1)" "leave_tx ex_clocks 1 5 None d1 = Inr (v, d2)"
    by (auto dest!: not_isl_Inr simp: bindE_Inr_iff)
  have "memberRole 1 2 ex_tenant = Inr RoleOwner" "memberRole 1 5 ex_tenant = Inr RoleOwner" "ownerCount 1 ex_tenant = 2" by code_simp+
  then show ?thesis using owner_race [of "initial_sys ex_tenant" 1 2 5, OF _ _ _ _ _ _ _ t(2)] t ex_tenant_members by auto
qed

text \<open>
  C24. Accepting an invitation makes the user, who had no organisation and whose email is the
  invited one, a member of the inviting organisation with the invited role; the invitation is spent,
  so its link admits nobody again.
\<close>

theorem invitation_single_use:
  assumes acc: "AcceptInvitation sv clk mid userID raw s = (Inr (tok, v), s')" and "db_now clk \<le> db_now clk'"
  shows "(\<exists>u \<in> set (users (s_db s)). \<exists>q \<in> set (organization_invitations (s_db s)).
      u_ID u = userID \<and> u_OrgID u = None \<and> iv_TokenHash q = id_sha sv raw \<and> lower (TrimSpace (u_Email u)) = lower (iv_Email q) \<and>
      standing v = (userID, Some (iv_OrgID q), Normalize (iv_Role q))) \<and>
    (\<nexists>x. fst (AcceptInvitation sv clk' mid' userID' raw s') = Inr x)"
proof -
  obtain u q where "u \<in> set (users (s_db s))" "u_ID u = userID" "u_OrgID u = None"
    "q \<in> set (organization_invitations (s_db s))" "claimable (db_now clk) (id_sha sv raw) q"
    "lower (TrimSpace (u_Email u)) = lower (iv_Email q)" "standing v = (userID, Some (iv_OrgID q), Normalize (iv_Role q))"
    using acc by (rule AcceptInvitation_Inr)
  moreover have "iv_TokenHash q = id_sha sv raw" using calculation(5) by (simp add: claimable_def)
  ultimately show ?thesis using invitation_once [OF acc assms(2)] by blast
qed

theorem invitation_single_use_witness:
  "\<exists>tok v s'. AcceptInvitation ex_identity ex_clocks 90 9 ''inv'' (initial_sys ex_tenant) = (Inr (tok, v), s') \<and>
     standing v = (9, Some 1, RoleAdmin) \<and> (\<nexists>x. fst (AcceptInvitation ex_identity ex_clocks 91 9 ''inv'' s') = Inr x)"
proof -
  have "\<not> isl (fst (AcceptInvitation ex_identity ex_clocks 90 9 ''inv'' (initial_sys ex_tenant)))" by code_simp
  from call_succeeds [OF this] obtain tok v s'
    where a: "AcceptInvitation ex_identity ex_clocks 90 9 ''inv'' (initial_sys ex_tenant) = (Inr (tok, v), s')" by auto
  then show ?thesis using invitation_single_use [OF a, of ex_clocks 91 9]
    by (auto simp: ex_tenant_def ex_invitation_def Normalize_def)
qed

text \<open>
  C25. The session table refines a finite map from token hashes to sessions: creating a session
  opens an entry, a refresh moves it from the old hash to the new, so a rotated token opens
  nothing, the revocations drop the entries they name, and a call that fails leaves the map.
\<close>

theorem sessions_refine_map:
  assumes "session_call sv clk s ev t" and "sessions_ok (s_db s)"
  shows "live_tokens clk (s_db t) = spec_sessions ev (live_tokens clk (s_db s)) \<and> sessions_ok (s_db t)"
  using assms by (rule session_call_refines)

theorem sessions_refine_map_witness:
  "\<exists>access newRaw u r t. RefreshSession ex_identity ex_clocks [7] ''r0'' ex_device (initial_sys ex_tenant) = (Inr (access, newRaw, u, r), t) \<and>
     live_tokens ex_clocks (s_db t) = spec_sessions (Rotated ''r0'' newRaw) (live_tokens ex_clocks ex_tenant)"
proof -
  have "\<not> isl (fst (RefreshSession ex_identity ex_clocks [7] ''r0'' ex_device (initial_sys ex_tenant)))" by code_simp
  from call_succeeds [OF this] obtain access newRaw u r t
    where a: "RefreshSession ex_identity ex_clocks [7] ''r0'' ex_device (initial_sys ex_tenant) = (Inr (access, newRaw, u, r), t)" by auto
  then show ?thesis using sessions_refine_map [OF sc_refresh, OF a] ex_tenant_sessions by (auto simp: ex_identity_def)
qed

text \<open>
  C26. A completed password reset revokes every session of the user, and only those: an access
  token of that user that was issued before and has not expired still authenticates.
\<close>

theorem reset_revokes_sessions_not_tokens:
  assumes reset: "ConfirmPasswordReset sv clk raw newPassword s = (Inr u, s')" and "s_faults s' = []"
    and "id_verify sv (go_now clk') token = Some c" and "jw_UserID c = Some (u_ID u)"
  shows "list_all (\<lambda>r. ss_RevokedAt r \<noteq> None) (filter (\<lambda>r. ss_UserID r = u_ID u) (user_sessions (s_db s'))) \<and>
    (\<exists>v. fst (Authenticate sv clk' token s') = Inr v \<and> u_ID v = u_ID u)"
  using ConfirmPasswordReset_revokes [OF reset] reset_keeps_access_tokens [OF assms] by (simp add: list_all_iff)

theorem reset_revokes_sessions_not_tokens_witness:
  "\<exists>u s' v. ConfirmPasswordReset ex_identity ex_clocks ''reset'' ''new-secret'' (initial_sys ex_tenant) = (Inr u, s') \<and>
     fst (Authenticate ex_identity ex_clocks ''t2'' s') = Inr v \<and> u_ID v = 2"
proof -
  let ?r = "ConfirmPasswordReset ex_identity ex_clocks ''reset'' ''new-secret'' (initial_sys ex_tenant)"
  have "\<not> isl (fst ?r)" by code_simp
  from call_succeeds [OF this] obtain u s' where r: "?r = (Inr u, s')" by auto
  have "map_sum (\<lambda>_. ()) u_ID (fst ?r) = Inr 2 \<and> s_faults (snd ?r) = []" by code_simp
  then have "u_ID u = 2" "s_faults s' = []" using r by simp_all
  moreover have "id_verify ex_identity (go_now ex_clocks) ''t2'' = Some (ex_claims\<lparr>jw_UserID := Some 2, jw_OrgID := Some 1\<rparr>)"
    by (simp add: ex_identity_def ex_clocks_def)
  ultimately show ?thesis using reset_revokes_sessions_not_tokens [OF r, of ex_clocks "''t2''"] r by auto
qed

text \<open>
  C27. A caller who authenticates with an API key holds a stored key that is neither revoked nor
  expired, and acts within the organisation of the key: as an active user who is a member of it
  now, with the role that user has now, or as a service account of it that is not disabled.
\<close>

theorem api_key_principal:
  assumes "AuthenticateAPIKey sv clk raw s = (Inr u, s')"
  shows "\<exists>k \<in> set (api_keys (s_db s)). ak_KeyHash k = id_sha sv raw \<and> ak_RevokedAt k = None \<and>
    apiKeyStatus (go_now clk) k = ''active'' \<and> u_OrgID u = Some (ak_OrgID k) \<and>
    ((\<exists>v \<in> set (users (s_db s)). ak_UserID k = Some (u_ID v) \<and> active_user v \<and> standing v = standing u) \<or>
     (\<exists>a \<in> set (service_accounts (s_db s)). ak_ServiceAccountID k = Some (sac_ID a) \<and> sac_DisabledAt a = None \<and>
        standing u = (sac_ID a, Some (sac_OrgID a), Normalize (sac_Role a))))"
proof -
  obtain k where k: "k \<in> set (api_keys (s_db s))" "ak_KeyHash k = id_sha sv raw" "ak_RevokedAt k = None"
    "apiKeyStatus (go_now clk) k = ''active''"
    and p: "(\<exists>uid. ak_UserID k = Some uid \<and> user_principal (ak_OrgID k) uid (s_db s) = Inr u) \<or>
      (\<exists>aid. ak_UserID k = None \<and> ak_ServiceAccountID k = Some aid \<and> account_principal (ak_OrgID k) aid (s_db s) = Inr u)"
    using assms by (rule AuthenticateAPIKey_Inr)
  from p show ?thesis
  proof (elim disjE exE conjE)
    fix uid assume "ak_UserID k = Some uid" "user_principal (ak_OrgID k) uid (s_db s) = Inr u"
    then show ?thesis using k by (intro bexI [of _ k]) (auto simp: standing_def dest!: user_principal_Inr)
  next
    fix aid assume "ak_ServiceAccountID k = Some aid" "account_principal (ak_OrgID k) aid (s_db s) = Inr u"
    then show ?thesis using k by (intro bexI [of _ k]) (auto simp: standing_def dest!: account_principal_Inr)
  qed
qed

theorem api_key_principal_witness:
  "\<exists>u s'. AuthenticateAPIKey ex_identity ex_clocks ''nhk_k'' (initial_sys ex_tenant) = (Inr u, s') \<and> u_OrgID u = Some 1"
proof -
  have "\<not> isl (fst (AuthenticateAPIKey ex_identity ex_clocks ''nhk_k'' (initial_sys ex_tenant)))" by code_simp
  from call_succeeds [OF this] obtain u s'
    where a: "AuthenticateAPIKey ex_identity ex_clocks ''nhk_k'' (initial_sys ex_tenant) = (Inr u, s')" by auto
  then show ?thesis using api_key_principal [OF a] by (auto simp: ex_tenant_def ex_key_def)
qed

text \<open>
  C28. A user who registers can log in with the same email and password, becomes the owner of the
  new organisation, and the token of the login authenticates as that user until it expires.
\<close>

theorem register_login_roundtrip:
  assumes reg: "id_Register sv clk fr orgName email name password s = (Inr (tok, u), s1)" and "s_faults s1 = []"
    and "password_law sv password" and tok: "\<And>v. u_ID v = u_ID u \<Longrightarrow> u_OrgID v = u_OrgID u \<Longrightarrow> u_Role v = RoleOwner \<Longrightarrow> token_law sv clk' later v"
    and "go_now later < trunc_second (go_now clk' + accessTokenTTL sv)"
  shows "\<exists>tok' v s2 w. Login sv clk' email password s1 = (Inr (tok', v), s2) \<and> standing v = (u_ID u, u_OrgID u, RoleOwner) \<and>
    Authenticate sv later tok' s2 = (Inr w, s2) \<and> standing w = standing v"
proof -
  obtain tok' v s2 where login: "Login sv clk' email password s1 = (Inr (tok', v), s2)" "tok' = issueJWT sv clk' v"
    and v: "u_ID v = u_ID u" "u_OrgID v = u_OrgID u" "u_Role v = RoleOwner" and nf: "s_faults s2 = []"
    and found: "\<exists>w. find (\<lambda>w. u_ID w = u_ID u \<and> active_user w) (users (s_db s2)) = Some w \<and> standing w = standing v"
    using reg assms(3,2) by (rule register_then_login [where clk' = clk'])
  from found obtain w where w: "find (\<lambda>w. u_ID w = u_ID v \<and> active_user w) (users (s_db s2)) = Some w" "standing w = standing v"
    unfolding v(1) by blast
  have "Authenticate sv later tok' s2 = (Inr (scanUserRow w), s2)"
    unfolding login(2) by (rule Authenticate_issued [OF tok [OF v] assms(5) nf w(1)])
  moreover have "standing (scanUserRow w) = standing v" "standing v = (u_ID u, u_OrgID u, RoleOwner)"
    using v w(2) by (simp_all add: standing_def scanUserRow_def)
  ultimately show ?thesis using login(1) by blast
qed

theorem register_login_roundtrip_witness:
  "\<exists>tok u s1 tok' v s2 w. id_Register ex_identity ex_clocks ex_fresh ''Beta'' ''d@beta'' ''Dee'' ''password1'' (initial_sys ex_tenant) = (Inr (tok, u), s1) \<and>
     Login ex_identity ex_clocks ''d@beta'' ''password1'' s1 = (Inr (tok', v), s2) \<and>
     Authenticate ex_identity ex_clocks tok' s2 = (Inr w, s2) \<and> standing w = (30, Some 31, RoleOwner)"
proof -
  let ?r = "id_Register ex_identity ex_clocks ex_fresh ''Beta'' ''d@beta'' ''Dee'' ''password1'' (initial_sys ex_tenant)"
  have "\<not> isl (fst ?r)" by code_simp
  from call_succeeds [OF this] obtain tok u s1 where r: "?r = (Inr (tok, u), s1)" by auto
  have "map_sum (\<lambda>_. ()) (\<lambda>x. (u_ID (snd x), u_OrgID (snd x))) (fst ?r) = Inr (30, Some 31) \<and> s_faults (snd ?r) = []" by code_simp
  then have u: "u_ID u = 30" "u_OrgID u = Some 31" and nf: "s_faults s1 = []" using r by simp_all
  have law: "token_law ex_identity ex_clocks ex_clocks v" if "u_ID v = u_ID u" "u_OrgID v = u_OrgID u" "u_Role v = RoleOwner" for v
    using that u by (simp add: token_law_def issueJWT_def trunc_second_def accessTokenTTL_def ex_identity_def ex_clocks_def ex_claims_def)
  have p: "password_law ex_identity ''password1''" by (simp add: password_law_def ex_identity_def)
  have g: "go_now ex_clocks < trunc_second (go_now ex_clocks + accessTokenTTL ex_identity)" by code_simp
  have "\<exists>tok' v s2 w. Login ex_identity ex_clocks ''d@beta'' ''password1'' s1 = (Inr (tok', v), s2) \<and>
      standing v = (u_ID u, u_OrgID u, RoleOwner) \<and> Authenticate ex_identity ex_clocks tok' s2 = (Inr w, s2) \<and> standing w = standing v"
    by (rule register_login_roundtrip [OF r nf p _ g]) (rule law)
  then obtain tok' v s2 w
    where "Login ex_identity ex_clocks ''d@beta'' ''password1'' s1 = (Inr (tok', v), s2)"
      "Authenticate ex_identity ex_clocks tok' s2 = (Inr w, s2)"
      and st: "standing v = (u_ID u, u_OrgID u, RoleOwner)" "standing w = standing v" by (elim exE conjE)
  moreover have "standing w = (30, Some 31, RoleOwner)" unfolding st u by (rule refl)
  ultimately show ?thesis using r by (intro exI conjI)
qed

section \<open>Start-up and transport\<close>

text \<open>
  C29. Outside development the process serves only with a JWT secret of at least 16 bytes that is no known
  placeholder, verifies tokens with that secret, has seeded no account, token or other row, marks its
  cookies secure, and gives up TLS or the billing gate only where the environment says so.
\<close>

theorem production_fails_closed:
  assumes "start b d row = (Inr (t, a), h, row')" and "lower (bo_getenv b ''ENV'') \<notin> {''development'', ''dev''}"
  shows "16 \<le> length (bo_getenv b ''JWT_SECRET'') \<and> bo_getenv b ''JWT_SECRET'' \<notin> set weakJWTSecrets \<and>
    id_verify (a_identity a) = snd (bo_jwt b (bo_getenv b ''JWT_SECRET'')) \<and> h_sys h = initial_sys d \<and> a_secureCookies a \<and>
    (t = Plaintext \<longrightarrow> ParseBool (TrimSpace (bo_getenv b ''GRPC_INSECURE'')) = Some True) \<and>
    (sv_billing (a_service a) = Some False \<longrightarrow> ParseBool (TrimSpace (bo_getenv b ''BILLING_ENFORCE'')) = Some False)"
proof -
  obtain cfg pem where l: "Load (bo_getenv b) = (cfg, None)" and a: "a = api_of b cfg pem"
    and g: "grpcServerCreds (bo_lib b) (bo_fault b) (bo_gen b) (bo_hostname b) cfg row = (Inr (t, pem), row')"
    using start_serves [OF assms(1)] .
  have prod: "\<not> IsDev cfg" using Load_dev [of "bo_getenv b"] assms(2) l by simp
  have "h_sys h = initial_sys d" using start_db [OF assms(1)] prod l by auto
  moreover have "t = Plaintext \<longrightarrow> ParseBool (TrimSpace (bo_getenv b ''GRPC_INSECURE'')) = Some True"
    using grpcServerCreds_transport(1) [OF g] Load_closed(1) [of "bo_getenv b"] prod l by simp
  moreover have "sv_billing (a_service a) = Some False \<longrightarrow> ParseBool (TrimSpace (bo_getenv b ''BILLING_ENFORCE'')) = Some False"
    using Load_closed(2) [of "bo_getenv b"] prod l by (simp add: a api_of_def service_of_def)
  ultimately show ?thesis using Load_secret [OF l prod] prod
    by (simp add: a api_of_def identity_of_def Let_def split: prod.split)
qed

theorem production_fails_closed_witness:
  "h_sys (fst (snd (start (ex_boot ex_env) ex_db (Some (''OLD'', ''KEY''))))) = initial_sys ex_db"
proof -
  obtain ca dns ips a s where s: "start (ex_boot ex_env) ex_db (Some (''OLD'', ''KEY'')) = (Inr (AutoCA ca dns ips, a), s)" by (rule ex_started)
  then have "start (ex_boot ex_env) ex_db (Some (''OLD'', ''KEY'')) = (Inr (AutoCA ca dns ips, a), fst s, snd s)" by simp
  moreover have "lower (bo_getenv (ex_boot ex_env) ''ENV'') \<notin> {''development'', ''dev''}" by code_simp
  ultimately show ?thesis using production_fails_closed s by fastforce
qed

text \<open>
  C30. When the process serves, the installer is told that the gateway speaks TLS exactly when it does, the
  certificate authority handed to agents is the one that signs the gateway and is stored in the
  database, a stored authority is never replaced, and the certificate names the advertised host.
\<close>

theorem transport_authority_pinned:
  assumes "start b d row = (Inr (t, a), h, row')"
  shows "(t = Plaintext \<longleftrightarrow> \<not> a_grpcTLS a) \<and>
    (a_agentCAPEM a \<noteq> '''' \<longrightarrow> (\<exists>ca dns ips. t = AutoCA ca dns ips \<and> a_agentCAPEM a = ca_CertPEM ca)) \<and>
    (\<forall>ca dns ips. t = AutoCA ca dns ips \<longrightarrow> a_agentCAPEM a = ca_CertPEM ca \<and> row' = Some (ca_CertPEM ca, ca_keyPEM ca) \<and>
       (\<forall>c k. row = Some (c, k) \<longrightarrow> ca_CertPEM ca = c) \<and>
       {hostOnly (bo_getenv b ''AGENT_PUBLIC_GRPC_ADDR''), ''localhost'', ''127.0.0.1''} - {''''} \<subseteq> set dns \<union> set ips)"
proof -
  obtain cfg pem where l: "Load (bo_getenv b) = (cfg, None)" and a: "a = api_of b cfg pem"
    and g: "grpcServerCreds (bo_lib b) (bo_fault b) (bo_gen b) (bo_hostname b) cfg row = (Inr (t, pem), row')"
    using start_serves [OF assms] .
  have api: "a_grpcTLS a \<longleftrightarrow> \<not> gc_Insecure (cf_GRPC cfg)" "a_agentCAPEM a = pem" by (simp_all add: a api_of_def)
  have addr: "cf_AgentPublicGRPCAddr cfg = bo_getenv b ''AGENT_PUBLIC_GRPC_ADDR''"
    using l by (auto simp: Load_def load_base_def load_modes_def env_def Let_def)
  show ?thesis
    using grpcServerCreds_transport [OF g] grpcServerCreds_row [of _ _ _ _ cfg row] grpcServerCreds_names [of _ _ _ _ cfg row] g
    unfolding api addr [symmetric] by fast
qed

theorem transport_authority_pinned_witness:
  "case fst (start (ex_boot ex_env) ex_db (Some (''OLD'', ''KEY''))) of
     Inr (AutoCA ca dns ips, a) \<Rightarrow> a_agentCAPEM a = ''OLD'' \<and> ''gpu.acme'' \<in> set dns \<union> set ips | _ \<Rightarrow> False"
proof -
  obtain ca dns ips a s where s: "start (ex_boot ex_env) ex_db (Some (''OLD'', ''KEY'')) = (Inr (AutoCA ca dns ips, a), s)" by (rule ex_started)
  then have "start (ex_boot ex_env) ex_db (Some (''OLD'', ''KEY'')) = (Inr (AutoCA ca dns ips, a), fst s, snd s)" by simp
  note t = transport_authority_pinned [OF this]
  have "hostOnly (ex_env ''AGENT_PUBLIC_GRPC_ADDR'') = ''gpu.acme''" by code_simp
  then show ?thesis using t s by simp
qed

text \<open>
  C31. With a certificate of the operator the gateway speaks TLS and the installer passes no transport flag, but
  an agent that is started so, in an environment that does not set its variables, dials in plaintext.
\<close>

theorem operator_certificate_plaintext:
  assumes "start b d row = (Inr (OperatorCert c k, a), h, row')"
    and "fl_ca fl = None" and "fl_insecure fl = None" and "e ''AGENT_CA_CERT'' = ''''" and "e ''AGENT_INSECURE'' = ''''"
  shows "a_grpcTLS a \<and> tlsBootstrapSnippet a = sh ''TLSARGS=``  # TLS with a publicly-trusted certificate (system roots)'' \<and>
    dial readFile pemOK (agent_main fl (fst (LoadAgent home e))) = Inr DialPlain"
proof -
  obtain cfg pem where a: "a = api_of b cfg pem"
    and g: "grpcServerCreds (bo_lib b) (bo_fault b) (bo_gen b) (bo_hostname b) cfg row = (Inr (OperatorCert c k, pem), row')"
    using start_serves [OF assms(1)] .
  then show ?thesis using grpcServerCreds_operator [OF g] default_plaintext [of fl e, OF assms(2-5)]
    by (simp add: api_of_def tlsBootstrapSnippet_def)
qed


theorem operator_certificate_plaintext_witness:
  "dial (\<lambda>_. Inl ''no file'') (\<lambda>_. True) (agent_main ex_flags (fst (LoadAgent None (\<lambda>_. '''')))) = Inr DialPlain"
proof -
  obtain c k a s where "start (ex_boot ex_cert_env) ex_db None = (Inr (OperatorCert c k, a), s)" by (rule ex_cert_started)
  then have "start (ex_boot ex_cert_env) ex_db None = (Inr (OperatorCert c k, a), fst s, snd s)" by simp
  from operator_certificate_plaintext [OF this] show ?thesis by (simp add: ex_flags_def)
qed

section \<open>Nodes\<close>

text \<open>
  C32. Enrolment returns a credential that authenticates the node it returned, in the organisation
  of the token, and after it no other credential of that node is valid.
\<close>

theorem enroll_grants_one_credential:
  assumes "repo_Enroll clk newID th fp info ch d = Inr ((nid, orgID), d')"
    and "distinct (map n_ID (gpu_nodes d))" and "\<forall>c \<in> set (agent_credentials d). ac_public_key c \<noteq> ch"
    and "\<forall>c \<in> set (agent_credentials d). \<exists>n \<in> set (gpu_nodes d). n_ID n = ac_node c"
  shows "AuthenticateAgent ch d' = Inr (nid, orgID) \<and>
    (\<forall>c \<in> set (agent_credentials d'). ac_node c = nid \<and> ac_revoked_at c = None \<longrightarrow> ac_public_key c = ch)"
proof -
  have "AuthenticateAgent ch d' = Inr (nid, orgID)" using assms(1,2) by (rule enroll_authenticates) (use assms(3) in blast)
  moreover have "ac_public_key c = ch" if "c \<in> set (agent_credentials d')" "ac_node c = nid" "ac_revoked_at c = None" for c
    using assms(1) by (rule reenroll_rotates) (use assms(4) that in blast)+
  ultimately show ?thesis by blast
qed

theorem enroll_grants_one_credential_witness:
  "AuthenticateAgent ''new'' (ex_db\<lparr>enrollment_tokens := [ex_token\<lparr>et_Uses := 1\<rparr>],
       gpu_nodes := [ex_node\<lparr>n_LastSeenAt := Some hour\<rparr>],
       agent_credentials := [ex_cred\<lparr>ac_revoked_at := Some hour\<rparr>,
         \<lparr>ac_org = 1, ac_node = 3, ac_public_key = ''new'', ac_revoked_at = None\<rparr>]\<rparr>) = Inr (3, 1)"
  using enroll_grants_one_credential [OF ex_enrolled] by (simp add: ex_defs)

text \<open>
  C33. An enrolment that succeeds is read back by the next start: the same identity, credential and fingerprint
  come from the file, and the agent enrols again exactly when it is given another token.
\<close>

theorem agent_identity_roundtrip:
  assumes "agent_enroll sha cfg (Inr (nodeID, cred)) None s f = (None, s', f')" and "cred \<noteq> ''''"
  shows "agent_New sha mc key f' = Inr s' \<and> is_NodeID s' = nodeID \<and> is_Credential s' = cred \<and> is_Fingerprint s' = is_Fingerprint s \<and>
    (needs_enroll sha cfg' s' \<longleftrightarrow> ag_EnrollmentToken cfg' \<noteq> '''' \<and>
       HashToken sha (ag_EnrollmentToken cfg') \<noteq> HashToken sha (ag_EnrollmentToken cfg))"
proof -
  have "is_NodeID s' = nodeID" using assms(1) by (auto simp: agent_enroll_def Let_def split: prod.splits option.splits)
  then show ?thesis using enrolled_once [OF assms] by simp
qed

theorem agent_identity_roundtrip_witness:
  "\<exists>s. agent_New (\<lambda>x. x) ex_machine ''pk2'' (snd (snd (agent_enroll (\<lambda>x. x) ex_agent_config (Inr (''n3'', ''cred'')) None ex_state Absent))) =
     Inr s \<and> is_NodeID s = ''n3'' \<and> \<not> needs_enroll (\<lambda>x. x) ex_agent_config s"
proof -
  let ?r = "agent_enroll (\<lambda>x. x) ex_agent_config (Inr (''n3'', ''cred'')) None ex_state Absent"
  have "?r = (None, fst (snd ?r), snd (snd ?r))" by (simp add: agent_enroll_def identity_Save_def Let_def)
  from agent_identity_roundtrip [OF this, where cfg' = ex_agent_config] show ?thesis by simp
qed

text \<open>
  C34. Revoking an enrolment token has no effect on enrolment: the verdict, the node and the
  organisation are those of the token before it was revoked.
\<close>

theorem revocation_ignored:
  assumes "RevokeEnrollmentToken clk orgID tid d = Inr ((), d1)"
  shows "map_sum id fst (repo_Enroll clk newID th fp info ch d1) = map_sum id fst (repo_Enroll clk newID th fp info ch d)"
  using assms by (rule revoked_token_enrolls)

theorem revocation_ignored_witness:
  "map_sum id fst (repo_Enroll ex_clocks 50 ''th'' ''fp'' ex_info ''new''
     (ex_db\<lparr>enrollment_tokens := [ex_token\<lparr>et_RevokedAt := Some hour\<rparr>]\<rparr>)) = Inr (3, 1)"
proof -
  have "RevokeEnrollmentToken ex_clocks 1 5 ex_db = Inr ((), ex_db\<lparr>enrollment_tokens := [ex_token\<lparr>et_RevokedAt := Some hour\<rparr>]\<rparr>)"
    by (simp add: RevokeEnrollmentToken_def Let_def affected_def ex_defs)
  from revocation_ignored [OF this, of 50 "''th''" "''fp''" ex_info "''new''"] show ?thesis by (simp add: ex_enrolled)
qed

text \<open>
  C35. A removed node leaves nothing behind that could act: no row, credential, GPU, command or
  workload refers to it and no credential authenticates it. A node with live workloads is removed
  only by force, which fails those workloads.
\<close>

theorem removed_node_gone:
  assumes "RemoveNode clk orgID n force d = Inr (x, d')"
  shows "(\<forall>m \<in> set (gpu_nodes d'). n_ID m \<noteq> n) \<and> (\<forall>c \<in> set (agent_credentials d'). ac_node c \<noteq> n) \<and>
    (\<forall>g \<in> set (gpus d'). g_NodeID g \<noteq> n) \<and> (\<forall>c \<in> set (agent_commands d'). c_NodeID c \<noteq> n) \<and>
    (\<forall>w \<in> set (workloads d'). w_NodeID w \<noteq> Some n) \<and>
    (\<forall>ch orgID'. AuthenticateAgent ch d' \<noteq> Inr (n, orgID')) \<and>
    (\<forall>w \<in> set (workloads d). live_on n w \<longrightarrow>
      force \<and> (\<exists>v \<in> set (workloads d'). w_ID v = w_ID w \<and> w_Status v = WorkloadFailed))"
  using RemoveNode_clean [OF assms] RemoveNode_deauthenticates [OF assms] by blast

theorem removed_node_gone_witness:
  "\<exists>x d'. RemoveNode ex_clocks 1 3 True ex_running = Inr (x, d') \<and>
     (\<exists>v \<in> set (workloads d'). w_ID v = 7 \<and> w_Status v = WorkloadFailed)"
proof -
  obtain x d' where r: "RemoveNode ex_clocks 1 3 True ex_running = Inr (x, d')"
    by (simp add: RemoveNode_def Let_def revoke_credentials_def ex_defs)
  have "ex_workload 7 WorkloadRunning \<in> set (workloads ex_running)" "live_on 3 (ex_workload 7 WorkloadRunning)"
    "w_ID (ex_workload 7 WorkloadRunning) = 7" by (simp_all add: live_on_def ex_defs)
  with removed_node_gone [OF r] r show ?thesis by metis
qed

section \<open>Capacity, retention, audit and input\<close>







text \<open>
  C39. A limiter admits a key at most twice the limit in any closed window, whatever the other keys do and
  whenever it collects its buckets.
\<close>

theorem rate_limit_window:
  assumes "sorted (map fst hits)" and "1 \<le> limit" and "0 \<le> window"
  shows "int (length (filter (\<lambda>t. a \<le> t \<and> t \<le> a + window) (admitted key hits (newRateLimiter limit window t0)))) \<le> 2 * limit"
  using admitted_bound [OF assms] .

theorem rate_limit_window_witness:
  "int (length (filter (\<lambda>t. 5 \<le> t \<and> t \<le> 5 + 10)
     (admitted ''10.0.0.9'' [(0, ''10.0.0.9''), (9, ''10.0.0.9''), (9, ''10.0.0.9''), (11, ''10.0.0.9'')] (newRateLimiter 1 10 0)))) \<le> 2"
  using rate_limit_window [of "[(0, ''10.0.0.9''), (9, ''10.0.0.9''), (9, ''10.0.0.9''), (11, ''10.0.0.9'')]" 1 10 5 "''10.0.0.9''" 0] by simp

text \<open>
  C40. The image check of a launch, computed by derivatives, decides the language of the pattern;
  what it accepts starts with a letter or digit and holds no white space or shell metacharacter.
\<close>

theorem image_ref_language:
  "(matches imageRefPattern s \<longleftrightarrow> s \<in> lang imageRefPattern) \<and>
   (matches imageRefPattern s \<longrightarrow> s \<noteq> [] \<and> is_alnum (hd s) \<and> list_all is_ref_char s \<and>
      set s \<inter> set '' ;&|$<>()!*?~#'' = {})"
proof (intro conjI impI)
  show "matches imageRefPattern s \<longleftrightarrow> s \<in> lang imageRefPattern" by (rule matches_iff_lang)
  assume m: "matches imageRefPattern s"
  note safe = imageRef_safe [OF this]
  show "s \<noteq> []" "is_alnum (hd s)" "list_all is_ref_char s" using safe by blast+
  have "c \<notin> set '' ;&|$<>()!*?~#''" if "c \<in> set s" for c
    using that safe(1) ref_char_excludes(1) [of c] unfolding list_all_iff by blast
  then show "set s \<inter> set '' ;&|$<>()!*?~#'' = {}" by blast
qed

theorem image_ref_language_witness:
  "''ghcr.io/acme/train:2.1'' \<in> lang imageRefPattern \<and> list_all is_ref_char ''ghcr.io/acme/train:2.1''"
proof -
  have "matches imageRefPattern ''ghcr.io/acme/train:2.1''" by code_simp
  then show ?thesis using image_ref_language [of "''ghcr.io/acme/train:2.1''"] by simp
qed

end
